(* ===== verification/Prelude.thy ===== *)
theory Prelude
  imports Main
begin

text \<open>
  Shared vocabulary of the development.

  \<^item> \<open>js_simps\<close>: equations that evaluate the models of the JavaScript standard library
    (string trimming, splitting and joining, decimal numerals, stable sorting).
  \<^item> \<open>row_simps\<close>: equations on table rows that the proofs about SQL statements share.
  \<^item> decimal numerals: \<open>show_nat\<close> prints a natural number as JavaScript's \<open>String(n)\<close>
    does, \<open>parse_dec\<close> reads a string of digits as \<open>Number(s)\<close> does; the two are inverse.
  \<^item> \<open>split_on\<close> and \<open>join_with\<close> are \<open>String.prototype.split\<close> with a one-character
    separator and \<open>Array.prototype.join\<close>; \<open>js_trim\<close> is \<open>String.prototype.trim\<close>.
  \<^item> \<open>head_opt\<close> is \<open>xs[0]\<close> with \<open>undefined\<close> as \<open>None\<close>.

  Strings are lists of characters; a character is a code unit below 256.
\<close>

named_theorems js_simps "evaluation of the JavaScript library models"
named_theorems row_simps "equations on table rows"

type_synonym uuid = string
type_synonym millis = int

subsection \<open>Options and lists\<close>

fun head_opt :: "'a list \<Rightarrow> 'a option" where
  "head_opt [] = None"
| "head_opt (x # _) = Some x"

lemma head_opt_None_iff [simp]: "head_opt xs = None \<longleftrightarrow> xs = []"
  by (cases xs) auto

lemma head_opt_SomeD: "head_opt xs = Some x \<Longrightarrow> x \<in> set xs"
  by (cases xs) auto

lemma head_opt_filter_Some:
  "head_opt (filter P xs) = Some x \<Longrightarrow> x \<in> set xs \<and> P x"
  by (drule head_opt_SomeD) auto

definition option_or :: "'a option \<Rightarrow> 'a \<Rightarrow> 'a" where
  "option_or m d = (case m of None \<Rightarrow> d | Some x \<Rightarrow> x)"

lemma option_or_simps [simp]: "option_or None d = d" "option_or (Some x) d = x"
  by (simp_all add: option_or_def)

definition coalesce :: "'a option \<Rightarrow> 'a option \<Rightarrow> 'a option" where
  "coalesce m n = (case m of None \<Rightarrow> n | Some x \<Rightarrow> Some x)"

lemma coalesce_simps [simp]: "coalesce None n = n" "coalesce (Some x) n = Some x"
  by (simp_all add: coalesce_def)

subsection \<open>Decimal digits\<close>

definition is_digit :: "char \<Rightarrow> bool" where
  "is_digit c \<longleftrightarrow> 48 \<le> (of_char c :: nat) \<and> (of_char c :: nat) \<le> 57"

definition digit_val :: "char \<Rightarrow> nat" where
  "digit_val c = of_char c - 48"

definition digit_char :: "nat \<Rightarrow> char" where
  "digit_char d = char_of (48 + d)"

lemma digit_char_numerals [js_simps]:
  "digit_char 0 = CHR ''0''" "digit_char 1 = CHR ''1''" "digit_char (Suc 0) = CHR ''1''"
  "digit_char 2 = CHR ''2''" "digit_char 3 = CHR ''3''" "digit_char 4 = CHR ''4''"
  "digit_char 5 = CHR ''5''" "digit_char 6 = CHR ''6''" "digit_char 7 = CHR ''7''"
  "digit_char 8 = CHR ''8''" "digit_char 9 = CHR ''9''"
  by (simp_all add: digit_char_def char_of_def bit_Suc_0_iff)

lemma of_char_digit_char: "d < 10 \<Longrightarrow> (of_char (digit_char d) :: nat) = 48 + d"
  by (simp add: digit_char_def)

lemma is_digit_digit_char [simp]: "d < 10 \<Longrightarrow> is_digit (digit_char d)"
  by (simp add: is_digit_def of_char_digit_char)

lemma digit_val_digit_char [simp]: "d < 10 \<Longrightarrow> digit_val (digit_char d) = d"
  by (simp add: digit_val_def of_char_digit_char)

lemma digit_val_bound: "is_digit c \<Longrightarrow> digit_val c < 10"
  by (auto simp: is_digit_def digit_val_def)

fun parse_dec :: "nat \<Rightarrow> string \<Rightarrow> nat" where
  "parse_dec acc [] = acc"
| "parse_dec acc (c # cs) = parse_dec (10 * acc + digit_val c) cs"

lemma parse_dec_append: "parse_dec acc (xs @ ys) = parse_dec (parse_dec acc xs) ys"
  by (induction xs arbitrary: acc) auto

lemma parse_dec_bound:
  "list_all is_digit s \<Longrightarrow> parse_dec acc s < (acc + 1) * 10 ^ length s"
proof (induction s arbitrary: acc)
  case Nil
  then show ?case by simp
next
  case (Cons c s)
  let ?a = "10 * acc + digit_val c"
  from Cons have "parse_dec ?a s < (?a + 1) * 10 ^ length s" by simp
  also have "(?a + 1) * 10 ^ length s \<le> (10 * (acc + 1)) * 10 ^ length s"
    using Cons.prems digit_val_bound [of c] by (intro mult_right_mono) auto
  finally show ?case by (simp add: algebra_simps)
qed

function show_nat :: "nat \<Rightarrow> string" where
  "show_nat n = (if n < 10 then [digit_char n] else show_nat (n div 10) @ [digit_char (n mod 10)])"
  by pat_completeness auto
termination by (relation "measure (\<lambda>n. n)") auto

declare show_nat.simps [simp del]

lemma show_nat_small: "n < 10 \<Longrightarrow> show_nat n = [digit_char n]"
  by (simp add: show_nat.simps [of n])

lemma show_nat_step: "10 \<le> n \<Longrightarrow> show_nat n = show_nat (n div 10) @ [digit_char (n mod 10)]"
  by (simp add: show_nat.simps [of n])

lemma parse_dec_show_nat [simp]: "parse_dec 0 (show_nat n) = n"
proof (induction n rule: show_nat.induct)
  case (1 n)
  then show ?case
    by (cases "n < 10") (simp_all add: show_nat_small show_nat_step parse_dec_append)
qed

lemma show_nat_digits [simp]: "list_all is_digit (show_nat n)"
proof (induction n rule: show_nat.induct)
  case (1 n)
  then show ?case by (cases "n < 10") (simp_all add: show_nat_small show_nat_step)
qed

lemma show_nat_not_Nil [simp]: "show_nat n \<noteq> []"
  by (cases "n < 10") (simp_all add: show_nat_small show_nat_step)

lemma show_nat_inject [simp]: "show_nat m = show_nat n \<longleftrightarrow> m = n"
  by (metis parse_dec_show_nat)

lemma show_nat_length: "n < 10 ^ Suc k \<Longrightarrow> length (show_nat n) \<le> Suc k"
proof (induction k arbitrary: n)
  case 0
  then show ?case by (simp add: show_nat_small)
next
  case (Suc k)
  show ?case
  proof (cases "n < 10")
    case False
    moreover from Suc.prems have "n div 10 < 10 ^ Suc k"
      by (simp add: less_mult_imp_div_less)
    ultimately show ?thesis using Suc.IH [of "n div 10"] by (simp add: show_nat_step)
  qed (simp add: show_nat_small)
qed

definition show_int :: "int \<Rightarrow> string" where
  "show_int i = (if i < 0 then ''-'' @ show_nat (nat (- i)) else show_nat (nat i))"

lemma show_int_of_nat [simp]: "show_int (int n) = show_nat n"
  by (simp add: show_int_def)

subsection \<open>Results that may be errors\<close>

text \<open>Continue with the value of a result, or stop with its error: the propagation of an exception.\<close>

definition and_then :: "'e + 'a \<Rightarrow> ('a \<Rightarrow> 'e + 'b) \<Rightarrow> 'e + 'b" where
  "and_then r f = (case r of Inl e \<Rightarrow> Inl e | Inr x \<Rightarrow> f x)"

lemma and_then_simps [simp]: "and_then (Inl e) f = Inl e" "and_then (Inr x) f = f x"
  by (simp_all add: and_then_def)

lemma and_then_Inr_iff: "and_then r f = Inr y \<longleftrightarrow> (\<exists>x. r = Inr x \<and> f x = Inr y)"
  by (cases r) auto

text \<open>Apply a fallible function along a list, stopping at the first error.\<close>

fun traverse :: "('a \<Rightarrow> 'e + 'b) \<Rightarrow> 'a list \<Rightarrow> 'e + 'b list" where
  "traverse f [] = Inr []"
| "traverse f (x # xs) = and_then (f x) (\<lambda>y. and_then (traverse f xs) (\<lambda>ys. Inr (y # ys)))"

lemma traverse_Inr_iff: "traverse f xs = Inr ys \<longleftrightarrow> list_all2 (\<lambda>x y. f x = Inr y) xs ys"
  by (induction xs arbitrary: ys) (auto simp: and_then_Inr_iff list_all2_Cons1)

text \<open>\<open>Array.from(new Set(xs))\<close>: the first occurrences, in order.\<close>

fun unique :: "'a list \<Rightarrow> 'a list" where
  "unique [] = []"
| "unique (x # xs) = x # filter (\<lambda>y. y \<noteq> x) (unique xs)"

lemma set_unique [simp]: "set (unique xs) = set xs"
  by (induction xs) auto

lemma distinct_unique [simp]: "distinct (unique xs)"
  by (induction xs) auto

text \<open>\<open>new Map(entries).get(k)\<close>: the last entry of a key wins.\<close>

definition js_map_get :: "('k \<times> 'v) list \<Rightarrow> 'k \<Rightarrow> 'v option" where
  "js_map_get kvs k = map_of (rev kvs) k"

lemma js_map_get_SomeD: "js_map_get kvs k = Some v \<Longrightarrow> (k, v) \<in> set kvs"
  using map_of_SomeD [of "rev kvs" k v] by (simp add: js_map_get_def)

lemma js_map_get_None_iff: "js_map_get kvs k = None \<longleftrightarrow> k \<notin> fst ` set kvs"
  by (simp add: js_map_get_def map_of_eq_None_iff)

lemma set_map_filter_iff: "y \<in> set (List.map_filter f xs) \<longleftrightarrow> (\<exists>x \<in> set xs. f x = Some y)"
  by (induction xs) (auto simp: map_filter_simps split: option.splits)

subsection \<open>Splitting and joining\<close>

fun split_on :: "char \<Rightarrow> string \<Rightarrow> string list" where
  "split_on d [] = [[]]"
| "split_on d (c # cs) =
     (if c = d then [] # split_on d cs
      else (case split_on d cs of [] \<Rightarrow> [[c]] | w # ws \<Rightarrow> (c # w) # ws))"

fun join_with :: "string \<Rightarrow> string list \<Rightarrow> string" where
  "join_with sep [] = []"
| "join_with sep [w] = w"
| "join_with sep (w # v # ws) = w @ sep @ join_with sep (v # ws)"

lemma split_on_not_Nil [simp]: "split_on d s \<noteq> []"
  by (induction s) (auto split: list.splits)

lemma split_on_no_sep: "d \<notin> set w \<Longrightarrow> split_on d w = [w]"
  by (induction w) auto

lemma split_on_append: "d \<notin> set w \<Longrightarrow> split_on d (w @ d # s) = w # split_on d s"
  by (induction w) auto

lemma split_on_join_with:
  "ws \<noteq> [] \<Longrightarrow> \<forall>w \<in> set ws. d \<notin> set w \<Longrightarrow> split_on d (join_with [d] ws) = ws"
  by (induction "[d]" ws rule: join_with.induct) (auto simp: split_on_no_sep split_on_append)

lemma join_with_split_on: "join_with [d] (split_on d s) = s"
proof (induction s)
  case (Cons c s)
  then show ?case
    by (cases "split_on d s"; cases "tl (split_on d s)") (auto split: list.splits)
qed simp

subsection \<open>Trimming\<close>

definition js_space :: "char \<Rightarrow> bool" where
  "js_space c \<longleftrightarrow> (of_char c :: nat) \<in> {9, 10, 11, 12, 13, 32, 160}"

definition js_trim :: "string \<Rightarrow> string" where
  "js_trim s = rev (dropWhile js_space (rev (dropWhile js_space s)))"

lemma is_digit_not_space: "is_digit c \<Longrightarrow> \<not> js_space c"
  by (auto simp: is_digit_def js_space_def)

lemma dropWhile_hd_False: "s = [] \<or> \<not> P (hd s) \<Longrightarrow> dropWhile P s = s"
  by (cases s) auto

lemma js_trim_id:
  assumes "s = [] \<or> (\<not> js_space (hd s) \<and> \<not> js_space (last s))"
  shows "js_trim s = s"
proof -
  from assms have "dropWhile js_space s = s" by (auto intro: dropWhile_hd_False)
  moreover from assms have "dropWhile js_space (rev s) = rev s"
    by (auto intro: dropWhile_hd_False simp: hd_rev)
  ultimately show ?thesis by (simp add: js_trim_def)
qed

subsection \<open>Stable sorting by an integer key\<close>

text \<open>\<open>[...xs].sort((a, b) => key(a) - key(b))\<close> and its descending variant.\<close>

definition sort_asc :: "('a \<Rightarrow> int) \<Rightarrow> 'a list \<Rightarrow> 'a list" where
  "sort_asc key xs = sort_key key xs"

definition sort_desc :: "('a \<Rightarrow> int) \<Rightarrow> 'a list \<Rightarrow> 'a list" where
  "sort_desc key xs = sort_key (\<lambda>x. - key x) xs"

lemma set_sort_asc [simp]: "set (sort_asc key xs) = set xs"
  by (simp add: sort_asc_def)

lemma set_sort_desc [simp]: "set (sort_desc key xs) = set xs"
  by (simp add: sort_desc_def)

lemma sort_asc_Nil_iff [simp]: "sort_asc key xs = [] \<longleftrightarrow> xs = []"
  by (metis set_empty set_sort_asc)

lemma sort_desc_Nil_iff [simp]: "sort_desc key xs = [] \<longleftrightarrow> xs = []"
  by (metis set_empty set_sort_desc)

lemma sort_key_head_least:
  fixes key :: "'a \<Rightarrow> int"
  assumes "sort_key key xs = y # ys" and "x \<in> set xs"
  shows "key y \<le> key x"
proof -
  have "sorted (map key (y # ys))" using assms(1) by (metis sorted_sort_key)
  moreover have "x \<in> set (y # ys)" using assms by (metis set_sort)
  ultimately show ?thesis by auto
qed

lemma head_sort_asc_least:
  assumes "head_opt (sort_asc key xs) = Some y"
  shows "y \<in> set xs \<and> (\<forall>x \<in> set xs. key y \<le> key x)"
proof -
  from assms obtain ys where ys: "sort_asc key xs = y # ys"
    by (cases "sort_asc key xs") auto
  then have "y \<in> set xs" by (metis list.set_intros(1) set_sort_asc)
  moreover have "key y \<le> key x" if "x \<in> set xs" for x
    using sort_key_head_least [of key xs y ys x] ys that by (simp add: sort_asc_def)
  ultimately show ?thesis by blast
qed

lemma head_sort_desc_greatest:
  assumes "head_opt (sort_desc key xs) = Some y"
  shows "y \<in> set xs \<and> (\<forall>x \<in> set xs. key x \<le> key y)"
proof -
  from assms obtain ys where ys: "sort_desc key xs = y # ys"
    by (cases "sort_desc key xs") auto
  then have "y \<in> set xs" by (metis list.set_intros(1) set_sort_desc)
  moreover have "key x \<le> key y" if "x \<in> set xs" for x
    using sort_key_head_least [of "\<lambda>x. - key x" xs y ys x] ys that by (simp add: sort_desc_def)
  ultimately show ?thesis by blast
qed

end
