(* ===== verification/Table.thy ===== *)
theory Table
  imports Prelude
begin

text \<open>
  Database tables as lists of rows in insertion order, and the two statements the
  repositories issue: \<open>UPDATE ... SET ... WHERE ... RETURNING *\<close> (\<open>update_where\<close>) and
  \<open>INSERT ... RETURNING *\<close> (appending a row). The locale \<open>row_update\<close> is the contract of a
  guarded update: the guard selects rows, the assignment keeps the row's key and its
  invariant. A repository method interprets it once and inherits that the statement keeps
  the invariant of the whole table.
\<close>

type_synonym 'r table = "'r list"

definition update_where :: "('r \<Rightarrow> bool) \<Rightarrow> ('r \<Rightarrow> 'r) \<Rightarrow> 'r table \<Rightarrow> 'r table \<times> 'r list" where
  "update_where P f t = (map (\<lambda>r. if P r then f r else r) t, map f (filter P t))"

lemma update_where_table: "fst (update_where P f t) = map (\<lambda>r. if P r then f r else r) t"
  by (simp add: update_where_def)

lemma update_where_rows: "snd (update_where P f t) = map f (filter P t)"
  by (simp add: update_where_def)

lemma update_where_none:
  "\<forall>r \<in> set t. \<not> P r \<Longrightarrow> update_where P f t = (t, [])"
  by (auto simp: update_where_def filter_empty_conv intro: map_idI)

lemma set_update_where:
  "set (fst (update_where P f t)) = {r \<in> set t. \<not> P r} \<union> f ` {r \<in> set t. P r}"
  by (auto simp: update_where_def)

definition find_row :: "('r \<Rightarrow> 'k) \<Rightarrow> 'k \<Rightarrow> 'r table \<Rightarrow> 'r option" where
  "find_row key k t = head_opt (filter (\<lambda>r. key r = k) t)"

lemma find_row_SomeD: "find_row key k t = Some r \<Longrightarrow> r \<in> set t \<and> key r = k"
  by (auto simp: find_row_def dest: head_opt_filter_Some)

lemma find_row_None_iff: "find_row key k t = None \<longleftrightarrow> k \<notin> key ` set t"
  by (auto simp: find_row_def filter_empty_conv)

lemma find_row_unique:
  "distinct (map key t) \<Longrightarrow> r \<in> set t \<Longrightarrow> find_row key (key r) t = Some r"
proof (induction t)
  case (Cons a t)
  then show ?case by (cases "a = r") (auto simp: find_row_def image_iff)
qed simp

lemma distinct_key_eq:
  "distinct (map key t) \<Longrightarrow> r \<in> set t \<Longrightarrow> s \<in> set t \<Longrightarrow> key r = key s \<Longrightarrow> r = s"
  by (metis find_row_unique option.inject)

lemma filter_key_singleton:
  "distinct (map key t) \<Longrightarrow> r \<in> set t \<Longrightarrow> filter (\<lambda>s. key s = key r) t = [r]"
proof (induction t)
  case (Cons a t)
  then show ?case
    by (cases "a = r") (auto simp: filter_empty_conv image_iff intro: rev_image_eqI)
qed simp

subsection \<open>Guarded updates\<close>

locale row_update =
  fixes key :: "'r \<Rightarrow> 'k"
    and ident :: "'r \<Rightarrow> 'i"
    and ok :: "'r \<Rightarrow> bool"
    and guard :: "'r \<Rightarrow> bool"
    and assign :: "'r \<Rightarrow> 'r"
  assumes key_assign: "key (assign r) = key r"
    and ident_assign: "ident (assign r) = ident r"
    and ok_assign: "guard r \<Longrightarrow> ok r \<Longrightarrow> ok (assign r)"
begin

lemma keys_update: "map key (fst (update_where guard assign t)) = map key t"
  by (simp add: update_where_def key_assign cong: if_cong)

lemma idents_update: "map ident (fst (update_where guard assign t)) = map ident t"
  by (simp add: update_where_def ident_assign cong: if_cong)

lemma ok_update: "list_all ok t \<Longrightarrow> list_all ok (fst (update_where guard assign t))"
  by (auto simp: update_where_def list_all_iff ok_assign)

lemma find_update:
  "find_row key k (fst (update_where guard assign t)) =
     map_option (\<lambda>r. if guard r then assign r else r) (find_row key k t)"
  by (induction t) (auto simp: find_row_def update_where_def key_assign)

lemma rows_ok: "list_all ok t \<Longrightarrow> r \<in> set (snd (update_where guard assign t)) \<Longrightarrow> ok r"
  by (auto simp: update_where_def list_all_iff ok_assign)

end

end
