(* ===== verification/Json.thy ===== *)
theory Json
  imports Prelude "HOL-Library.Char_ord" "HOL-Library.List_Lexorder" "HOL-Library.Multiset"
begin

text \<open>
  JSON values as the API stores them in \<open>jsonb\<close> columns, and \<open>canonicalJson\<close> of
  \<open>operations.repository.ts\<close>, which decides whether a replayed idempotency key carries the
  same input. A number is kept as its \<open>JSON.stringify\<close> text; an object is the list of its
  entries, whose keys are pairwise different (\<open>json_wf\<close>). \<open>json_sim\<close> is the abstract
  specification: equality up to the order of object entries.
\<close>

datatype json =
    JNull
  | JBool bool
  | JNum string
  | JStr string
  | JArr "json list"
  | JObj "(string \<times> json) list"

subsection \<open>Strings\<close>

definition hex_digit :: "nat \<Rightarrow> char" where
  "hex_digit n = (if n < 10 then char_of (48 + n) else char_of (87 + n))"

definition json_escape :: "char \<Rightarrow> string" where
  "json_escape c =
     (let n = (of_char c :: nat) in
      if n = 34 then [CHR 0x5C, CHR 0x22]
      else if n = 92 then [CHR 0x5C, CHR 0x5C]
      else if n = 8 then [CHR 0x5C, CHR ''b'']
      else if n = 9 then [CHR 0x5C, CHR ''t'']
      else if n = 10 then [CHR 0x5C, CHR ''n'']
      else if n = 12 then [CHR 0x5C, CHR ''f'']
      else if n = 13 then [CHR 0x5C, CHR ''r'']
      else if n < 32 then [CHR 0x5C, CHR ''u'', CHR ''0'', CHR ''0'', hex_digit (n div 16), hex_digit (n mod 16)]
      else [c])"

definition json_quote :: "string \<Rightarrow> string" where
  "json_quote s = [CHR 0x22] @ concat (map json_escape s) @ [CHR 0x22]"

subsection \<open>The canonical text\<close>

definition entry_text :: "string \<times> string \<Rightarrow> string" where
  "entry_text kv = json_quote (fst kv) @ '':'' @ snd kv"

definition object_text :: "(string \<times> string) list \<Rightarrow> string" where
  "object_text kvs = ''{'' @ join_with '','' (map entry_text (sort_key fst kvs)) @ ''}''"

primrec canonicalJson :: "json \<Rightarrow> string" where
  "canonicalJson JNull = ''null''"
| "canonicalJson (JBool b) = (if b then ''true'' else ''false'')"
| "canonicalJson (JNum t) = t"
| "canonicalJson (JStr s) = json_quote s"
| "canonicalJson (JArr xs) = ''['' @ join_with '','' (map canonicalJson xs) @ '']''"
| "canonicalJson (JObj kvs) = object_text (map (map_prod id canonicalJson) kvs)"

subsection \<open>Equality up to the order of entries\<close>

inductive json_sim :: "json \<Rightarrow> json \<Rightarrow> bool" where
  sim_refl: "json_sim v v"
| sim_arr: "list_all2 json_sim xs ys \<Longrightarrow> json_sim (JArr xs) (JArr ys)"
| sim_obj: "list_all2 (rel_prod (=) json_sim) xs zs \<Longrightarrow> mset zs = mset ys \<Longrightarrow>
     distinct (map fst xs) \<Longrightarrow> json_sim (JObj xs) (JObj ys)"
monos list_all2_mono prod.rel_mono

lemma sort_key_mset_eq:
  assumes "mset xs = mset ys" and "distinct (map fst xs)"
  shows "sort_key fst xs = sort_key (fst :: 'a::linorder \<times> 'b \<Rightarrow> 'a) ys"
proof (rule properties_for_sort_key [symmetric])
  show "mset (sort_key fst xs) = mset ys" using assms(1) by simp
  have "mset (map fst xs) = mset (map fst ys)" using assms(1) by simp
  then have "distinct (map fst ys)" using assms(2) mset_eq_imp_distinct_iff by blast
  moreover have "mset (map fst (sort_key fst xs)) = mset (map fst xs)" by simp
  then have dx: "distinct (map fst (sort_key fst xs))" using assms(2) mset_eq_imp_distinct_iff by blast
  ultimately show "filter (\<lambda>x. fst k = fst x) (sort_key fst xs) = filter (\<lambda>x. fst k = fst x) ys"
    if "k \<in> set (sort_key fst xs)" for k
  proof -
    have one: "filter (\<lambda>x. fst k = fst x) zs = [k]"
      if "distinct (map fst zs)" "k \<in> set zs" for zs :: "('a \<times> 'b) list"
      using that by (induction zs) (auto simp: filter_empty_conv image_iff intro: rev_image_eqI)
    have "k \<in> set ys" using that assms(1) by (metis mset_eq_setD set_sort)
    then show ?thesis using one [OF dx that] one \<open>distinct (map fst ys)\<close> by simp
  qed
  show "sorted (map fst (sort_key fst xs))" by simp
qed

lemma map_fst_map_prod [simp]: "map fst (map (map_prod id f) kvs) = map fst kvs"
  by (induction kvs) auto

lemma canonicalJson_respects_sim: "json_sim a b \<Longrightarrow> canonicalJson a = canonicalJson b"
proof (induction rule: json_sim.induct)
  case (sim_arr xs ys)
  then have "map canonicalJson xs = map canonicalJson ys"
    by (auto simp: list_all2_conv_all_nth intro!: nth_equalityI)
  then show ?case by simp
next
  case (sim_obj xs zs ys)
  let ?f = "map (map_prod id canonicalJson)"
  have eq: "?f xs = ?f zs"
    using sim_obj(1) by (auto simp: list_all2_conv_all_nth rel_prod_sel intro!: nth_equalityI)
      (metis eq_fst_iff map_prod_simp id_apply prod.collapse)
  have "sort_key fst (?f xs) = sort_key fst (?f ys)"
  proof (rule sort_key_mset_eq)
    show "mset (?f xs) = mset (?f ys)" by (simp add: eq sim_obj(2) flip: mset_map) (simp add: sim_obj(2))
    show "distinct (map fst (?f xs))" using sim_obj(3) by (simp del: map_map)
  qed
  then show ?case by (simp add: object_text_def)
qed simp

end
