(* ===== verification/OperationTypes.thy ===== *)
theory OperationTypes
  imports Table Json
begin

text \<open>
  The data of \<open>operations/operation.types.ts\<close>: operation types and statuses, the rows of the
  tables \<open>Operation\<close> and \<open>OperationEvent\<close>, and the inputs of the repository. A \<open>Date\<close> is its
  number of milliseconds; a nullable column is an option. \<open>op_db\<close> is the part of the database
  the queue reads and writes.
\<close>

datatype operation_type =
    APP_GROUP_DEPLOY
  | APP_GROUP_ROLLBACK
  | APP_GROUP_DELETE
  | APP_GROUP_START
  | APP_GROUP_STOP
  | APP_GROUP_RESTART
  | SINGLE_APP_START
  | SINGLE_APP_STOP
  | SINGLE_APP_RESTART
  | VOLUME_CREATE
  | VOLUME_RESIZE
  | VOLUME_DELETE
  | DOMAIN_VERIFY
  | CUSTOM_ROOT_DOMAIN_VERIFY
  | DOMAIN_CERTIFICATE_RECONCILE
  | SWARM_RECONCILE
  | SWARM_NODE_MAINTENANCE
  | SWARM_GPU_DIAGNOSE
  | SWARM_GPU_RECOVER
  | STORAGE_BACKEND_VALIDATE
  | INSTALLER_ENROLLMENT_PREPARE
  | INSTALLER_ENROLLMENT_COMPLETE
  | PLATFORM_RELEASE_UPDATE
  | NETWORK_TOPOLOGY_CHANGE

datatype operation_status =
    Pending
  | Running
  | Succeeded
  | Failed
  | RollingBack
  | RolledBack
  | RollbackFailed

record operation =
  op_id :: uuid
  op_type :: operation_type
  op_tenantId :: "uuid option"
  op_resourceType :: string
  op_resourceId :: "uuid option"
  op_status :: operation_status
  op_phase :: "string option"
  op_createdBy :: uuid
  op_createdByEmail :: string
  op_createdByDisplayName :: string
  op_input :: json
  op_result :: "json option"
  op_idempotencyKey :: "string option"
  op_attempt :: int
  op_maxAttempts :: int
  op_nextAttemptAt :: millis
  op_leaseOwner :: "string option"
  op_leaseExpiresAt :: "millis option"
  op_heartbeatAt :: "millis option"
  op_errorCode :: "string option"
  op_errorMessage :: "string option"
  op_createdAt :: millis
  op_startedAt :: "millis option"
  op_completedAt :: "millis option"

record operation_event =
  ev_id :: uuid
  ev_operationId :: uuid
  ev_timestamp :: millis
  ev_phase :: "string option"
  ev_level :: string
  ev_event :: string
  ev_message :: string
  ev_details :: "json option"

record create_operation_input =
  ci_type :: operation_type
  ci_tenantId :: "uuid option"
  ci_resourceType :: string
  ci_resourceId :: "uuid option"
  ci_phase :: "string option"
  ci_createdBy :: uuid
  ci_createdByEmail :: string
  ci_createdByDisplayName :: string
  ci_input :: "json option"
  ci_idempotencyKey :: "string option"
  ci_maxAttempts :: "int option"

record append_event_input =
  ei_phase :: "string option"
  ei_level :: "string option"
  ei_event :: string
  ei_message :: string
  ei_details :: "json option"

record execution_result =
  ex_resourceId :: "uuid option"
  ex_result :: "json option"
  ex_terminalStatus :: "operation_status option"

record op_db =
  db_operations :: "operation table"
  db_events :: "operation_event table"

text \<open>
  What a call can throw: a constraint of the database, or one of the HTTP exceptions and
  plain errors of the source, with its message.
\<close>

datatype op_error =
    UniqueViolation string
  | ForeignKeyViolation string
  | ConflictException string
  | NotFoundException string
  | PlainError string

end
