(* ===== verification/OperationsQueue.thy ===== *)
theory OperationsQueue
  imports OperationsRepository
begin

text \<open>
  The queue as a transition system: every repository method, called by any worker or request
  at any time with any arguments, is a step on the database. \<open>row_ok\<close> is the invariant of a
  row (an operation carries a lease exactly while it is \<open>Running\<close>, its attempts never exceed
  its budget, \<open>completedAt\<close> is set exactly on final rows), \<open>db_ok\<close> the invariant of the
  database (primary keys, the two unique indexes on idempotency keys, the foreign key of
  events). Each UPDATE of the repository interprets the locale \<open>op_update\<close>.
\<close>

subsection \<open>Invariants\<close>

definition final_status :: "operation_status \<Rightarrow> bool" where
  "final_status s \<longleftrightarrow> s \<in> {Succeeded, Failed, RolledBack, RollbackFailed}"

definition row_ok :: "operation \<Rightarrow> bool" where
  "row_ok r \<longleftrightarrow>
     0 \<le> op_attempt r \<and> op_attempt r \<le> op_maxAttempts r \<and> 1 \<le> op_maxAttempts r \<and>
     (op_leaseOwner r \<noteq> None \<longleftrightarrow> op_status r = Running) \<and>
     (op_leaseExpiresAt r \<noteq> None \<longleftrightarrow> op_status r = Running) \<and>
     (op_completedAt r \<noteq> None \<longleftrightarrow> final_status (op_status r)) \<and>
     op_status r \<noteq> RollingBack"

definition op_ident :: "operation \<Rightarrow> uuid option \<times> operation_type \<times> string option" where
  "op_ident r = (op_tenantId r, op_type r, op_idempotencyKey r)"

definition keyed_idents :: "operation table \<Rightarrow> (uuid option \<times> operation_type \<times> string option) list" where
  "keyed_idents t = filter (\<lambda>i. snd (snd i) \<noteq> None) (map op_ident t)"

definition db_ok :: "op_db \<Rightarrow> bool" where
  "db_ok db \<longleftrightarrow>
     distinct (map op_id (db_operations db)) \<and>
     list_all row_ok (db_operations db) \<and>
     distinct (keyed_idents (db_operations db)) \<and>
     distinct (map ev_id (db_events db)) \<and>
     list_all (\<lambda>e. ev_operationId e \<in> op_id ` set (db_operations db)) (db_events db)"

lemma db_ok_rows [row_simps]: "db_ok db \<Longrightarrow> r \<in> set (db_operations db) \<Longrightarrow> row_ok r"
  by (simp add: db_ok_def list_all_iff)

lemma fst_run_update:
  "fst (run_update P f db) = db\<lparr>db_operations := fst (update_where P f (db_operations db))\<rparr>"
  by (simp add: run_update_def split: prod.splits)

lemma snd_run_update: "snd (run_update P f db) = snd (update_where P f (db_operations db))"
  by (simp add: run_update_def split: prod.splits)

lemma fst_first_row [simp]: "fst (first_row res) = fst res"
  by (simp add: first_row_def)

lemma snd_first_row [simp]: "snd (first_row res) = head_opt (snd res)"
  by (simp add: first_row_def)

lemma db_events_run_update [simp]: "db_events (fst (run_update P f db)) = db_events db"
  by (simp add: fst_run_update)

locale op_update = row_update op_id op_ident row_ok guard assign
  for guard :: "operation \<Rightarrow> bool" and assign :: "operation \<Rightarrow> operation"
begin

lemma ids_run_update: "map op_id (db_operations (fst (run_update guard assign db))) = map op_id (db_operations db)"
  by (simp add: fst_run_update keys_update)

lemma db_ok_run_update: "db_ok db \<Longrightarrow> db_ok (fst (run_update guard assign db))"
proof -
  assume ok: "db_ok db"
  let ?t = "fst (update_where guard assign (db_operations db))"
  have ids: "op_id ` set ?t = op_id ` set (db_operations db)"
    by (metis keys_update list.set_map)
  have idents: "keyed_idents ?t = keyed_idents (db_operations db)"
    by (simp add: keyed_idents_def idents_update)
  show ?thesis
    using ok ids idents ok_update [of "db_operations db"]
    by (simp add: db_ok_def fst_run_update keys_update)
qed

lemma find_run_update:
  "find_row op_id k (db_operations (fst (run_update guard assign db))) =
     map_option (\<lambda>r. if guard r then assign r else r) (find_row op_id k (db_operations db))"
  by (simp add: fst_run_update find_update)

end

subsection \<open>Every statement of the repository honours the contract\<close>

lemmas row_defs = row_ok_def op_ident_def final_status_def

interpretation stale: op_update "stale_restart now" "fail_stale now" for now
  by unfold_locales (auto simp: row_defs stale_restart_def fail_stale_def)

interpretation exh: op_update "exhausted now" "fail_exhausted now" for now
  by unfold_locales (auto simp: row_defs exhausted_def fail_exhausted_def)

interpretation hb: op_update "running_lease oid w" "heartbeat_row now secs" for oid w now secs
  by unfold_locales (auto simp: row_defs running_lease_def heartbeat_row_def)

interpretation succeeded: op_update "running_lease oid w" "succeed_row now res rid Succeeded" for oid w now res rid
  by unfold_locales (auto simp: row_defs running_lease_def succeed_row_def)

interpretation rolled: op_update "running_lease oid w" "succeed_row now res rid RolledBack" for oid w now res rid
  by unfold_locales (auto simp: row_defs running_lease_def succeed_row_def)

interpretation failed: op_update "holds_lease oid w" "fail_row now code msg Failed" for oid w now code msg
  by unfold_locales (auto simp: row_defs holds_lease_def fail_row_def)

interpretation rbfailed: op_update "holds_lease oid w" "fail_row now code msg RollbackFailed" for oid w now code msg
  by unfold_locales (auto simp: row_defs holds_lease_def fail_row_def)

interpretation retried: op_update "holds_lease oid w" "retry_row now next_at code msg" for oid w now next_at code msg
  by unfold_locales (auto simp: row_defs holds_lease_def retry_row_def)

interpretation requeued: op_update "tenant_requeueable tid oid" "requeue_row now" for tid oid now
  by unfold_locales (auto simp: row_defs requeue_row_def)

interpretation prequeued: op_update "platform_requeueable oid" "requeue_row now" for oid now
  by unfold_locales (auto simp: row_defs requeue_row_def)

text \<open>The claim is guarded by the candidate's own row: identifiers are unique.\<close>

definition claim_guard :: "millis \<Rightarrow> uuid \<Rightarrow> operation \<Rightarrow> bool" where
  "claim_guard now k r \<longleftrightarrow> op_id r = k \<and> claimable now r"

interpretation claimed: op_update "claim_guard now k" "claim_row now w secs" for now k w secs
  by unfold_locales (auto simp: row_defs claim_guard_def claimable_def claim_row_def)


subsection \<open>Events, claims and creation keep the database invariant\<close>

lemma appendEvent_cases:
  obtains (fail) er where "appendEvent db now eid oid i = (db, Inl er)"
  | (ok) e where "appendEvent db now eid oid i = (db\<lparr>db_events := db_events db @ [e]\<rparr>, Inr e)"
      "ev_id e = eid" "ev_operationId e = oid" "ev_event e = ei_event i"
      "eid \<notin> ev_id ` set (db_events db)" "oid \<in> op_id ` set (db_operations db)"
  by (cases "eid \<in> ev_id ` set (db_events db)"; cases "oid \<in> op_id ` set (db_operations db)")
    (auto simp: appendEvent_def Let_def)

lemma appendEvent_operations [simp]:
  "db_operations (fst (appendEvent db now eid oid i)) = db_operations db"
  by (cases rule: appendEvent_cases [of db now eid oid i]) auto

lemma db_ok_appendEvent: "db_ok db \<Longrightarrow> db_ok (fst (appendEvent db now eid oid i))"
  by (cases rule: appendEvent_cases [of db now eid oid i]) (auto simp: db_ok_def)

lemma claim_candidateD:
  "claim_candidate db now locked = Some c \<Longrightarrow>
     c \<in> set (db_operations db) \<and> claimable now c \<and> \<not> locked (op_id c)"
  by (auto simp: claim_candidate_def dest: head_opt_SomeD)

lemma claim_update_guarded:
  assumes "db_ok db" and "c \<in> set (db_operations db)" and "claimable now c"
  shows "run_update (\<lambda>r. op_id r = op_id c) f db = run_update (claim_guard now (op_id c)) f db"
proof -
  have eq: "(op_id r = op_id c) = claim_guard now (op_id c) r" if "r \<in> set (db_operations db)" for r
    using assms that by (auto simp: claim_guard_def db_ok_def dest: distinct_key_eq)
  have "filter (\<lambda>r. op_id r = op_id c) (db_operations db) = filter (claim_guard now (op_id c)) (db_operations db)"
    using eq by (auto intro: filter_cong)
  then show ?thesis
    using eq by (auto simp: run_update_def update_where_def intro!: map_cong)
qed

lemma claim_rows:
  assumes "db_ok db" and "c \<in> set (db_operations db)"
  shows "snd (run_update (\<lambda>r. op_id r = op_id c) f db) = [f c]"
  using assms filter_key_singleton [of op_id "db_operations db" c]
  by (simp add: snd_run_update update_where_rows db_ok_def)

text \<open>The shape of a successful claim: one row is claimed, one event is appended to it.\<close>

lemma claimNext_Some:
  assumes "db_ok db" and "claim_candidate db now locked = Some c"
  shows "claimNext db now locked w secs eid =
    (let db1 = fst (run_update (claim_guard now (op_id c)) (claim_row now w secs) db);
         r = claim_row now w secs c
     in case appendEvent db1 now eid (op_id c) (claimed_event r w) of
          (db2, Inl e) \<Rightarrow> (db2, Inl e) | (db2, Inr _) \<Rightarrow> (db2, Inr (Some r)))"
proof -
  from assms(2) have c: "c \<in> set (db_operations db)" "claimable now c"
    by (auto dest: claim_candidateD)
  have rows: "snd (run_update (\<lambda>r. op_id r = op_id c) (claim_row now w secs) db) = [claim_row now w secs c]"
    by (rule claim_rows [OF assms(1) c(1)])
  have "run_update (\<lambda>r. op_id r = op_id c) (claim_row now w secs) db =
      (fst (run_update (claim_guard now (op_id c)) (claim_row now w secs) db), [claim_row now w secs c])"
    using rows claim_update_guarded [OF assms(1) c] by (metis prod.collapse)
  moreover have "op_id (claim_row now w secs c) = op_id c" by (rule claimed.key_assign)
  ultimately show ?thesis using assms(2) by (simp add: claimNext_def Let_def)
qed

lemma fst_claimNext:
  assumes "db_ok db" and "claim_candidate db now locked = Some c"
  shows "fst (claimNext db now locked w secs eid) =
    fst (appendEvent (fst (run_update (claim_guard now (op_id c)) (claim_row now w secs) db)) now eid
          (op_id c) (claimed_event (claim_row now w secs c) w))"
  by (simp add: claimNext_Some [OF assms] Let_def split: prod.splits sum.splits)

lemma db_ok_claimNext: "db_ok db \<Longrightarrow> db_ok (fst (claimNext db now locked w secs eid))"
proof (cases "claim_candidate db now locked")
  case None
  then show "db_ok db \<Longrightarrow> ?thesis" by (simp add: claimNext_def)
next
  case (Some c)
  assume ok: "db_ok db"
  show ?thesis
    unfolding fst_claimNext [OF ok Some]
    by (intro db_ok_appendEvent claimed.db_ok_run_update ok)
qed

lemma row_ok_new_operation: "row_ok (new_operation i now newId)"
  by (simp add: row_ok_def new_operation_def final_status_def)

lemma keyed_idents_append: "keyed_idents (t @ u) = keyed_idents t @ keyed_idents u"
  by (simp add: keyed_idents_def)

lemma no_conflict_fresh_ident:
  assumes "\<not> insert_conflicts db r"
  shows "distinct (keyed_idents (db_operations db)) \<Longrightarrow> distinct (keyed_idents (db_operations db @ [r]))"
  using assms
  by (cases "op_idempotencyKey r")
    (auto simp: keyed_idents_append insert_conflicts_def list_ex_iff idempotency_match_def
      keyed_idents_def op_ident_def)

lemma db_ok_insert:
  assumes "db_ok db" and "\<not> insert_conflicts db r" and "row_ok r" and "ev_operationId e = op_id r"
  shows "db_ok (fst (insert_operation db r e))"
proof (cases "ev_id e \<in> ev_id ` set (db_events db)")
  case False
  have "op_id r \<notin> op_id ` set (db_operations db)" using assms(2) by (simp add: insert_conflicts_def)
  moreover have "distinct (keyed_idents (db_operations db @ [r]))"
    using assms(1,2) by (simp add: db_ok_def no_conflict_fresh_ident)
  ultimately show ?thesis
    using False assms by (auto simp: db_ok_def insert_operation_def list_all_iff)
qed (use assms(1) in \<open>simp add: insert_operation_def\<close>)

lemma created_event_operation [simp]: "ev_operationId (created_event r now eid) = op_id r"
  by (simp add: created_event_def)

text \<open>A creation leaves the database alone or performs one conflict-free insertion.\<close>

lemma createOperation_cases:
  obtains (same) "fst (createOperationWithClient db now newId eid i) = db"
  | (ins) "createOperationWithClient db now newId eid i =
        insert_operation db (new_operation i now newId) (created_event (new_operation i now newId) now eid)"
      "\<not> insert_conflicts db (new_operation i now newId)"
proof (cases "insert_conflicts db (new_operation i now newId)")
  case True
  then have "fst (createOperationWithClient db now newId eid i) = db"
    by (simp add: createOperationWithClient_def Let_def split: option.split)
  then show thesis by (rule same)
next
  case False
  then have "createOperationWithClient db now newId eid i =
      insert_operation db (new_operation i now newId) (created_event (new_operation i now newId) now eid)"
    by (simp add: createOperationWithClient_def Let_def split: option.split)
  then show thesis using False by (rule ins)
qed

lemma db_ok_create: "db_ok db \<Longrightarrow> db_ok (fst (createOperationWithClient db now newId eid i))"
  by (cases rule: createOperation_cases [of db now newId eid i])
    (auto intro: db_ok_insert row_ok_new_operation)


subsection \<open>Steps\<close>

inductive queue_step :: "op_db \<Rightarrow> op_db \<Rightarrow> bool" where
  step_create: "queue_step db (fst (createOperationWithClient db now newId eid i))"
| step_event: "ei_event i \<noteq> ''OperationClaimed'' \<Longrightarrow> queue_step db (fst (appendEvent db now eid oid i))"
| step_stale: "queue_step db (fst (failStaleQueuedRestarts db now))"
| step_exhausted: "queue_step db (fst (failExhaustedOperations db now))"
| step_claim: "queue_step db (fst (claimNext db now locked w secs eid))"
| step_heartbeat: "queue_step db (fst (heartbeat db now oid w secs))"
| step_succeed: "st \<in> {Succeeded, RolledBack} \<Longrightarrow> queue_step db (fst (markSucceeded db now oid w res rid st))"
| step_fail: "st \<in> {Failed, RollbackFailed} \<Longrightarrow> queue_step db (fst (markFailed db now oid w code msg st))"
| step_retry: "queue_step db (fst (scheduleRetry db now oid w at code msg))"
| step_requeue: "queue_step db (fst (retryFailedOperation db now tid oid))"
| step_requeue_platform: "queue_step db (fst (retryFailedPlatformOperation db now oid))"

lemmas repository_defs = failStaleQueuedRestarts_def failExhaustedOperations_def heartbeat_def
  markSucceeded_def markFailed_def scheduleRetry_def retryFailedOperation_def retryFailedPlatformOperation_def

inductive reachable :: "op_db \<Rightarrow> op_db \<Rightarrow> bool" for db0 :: op_db where
  reach_start: "reachable db0 db0"
| reach_step: "reachable db0 db \<Longrightarrow> queue_step db db' \<Longrightarrow> reachable db0 db'"

lemma queue_step_db_ok: "queue_step db db' \<Longrightarrow> db_ok db \<Longrightarrow> db_ok db'"
proof (induction rule: queue_step.induct)
  case (step_succeed st db now oid w res rid)
  then show ?case
    by (auto simp: repository_defs intro: succeeded.db_ok_run_update rolled.db_ok_run_update)
next
  case (step_fail st db now oid w code msg)
  then show ?case
    by (auto simp: repository_defs intro: failed.db_ok_run_update rbfailed.db_ok_run_update)
qed (simp_all add: repository_defs db_ok_create db_ok_appendEvent db_ok_claimNext
  stale.db_ok_run_update exh.db_ok_run_update hb.db_ok_run_update retried.db_ok_run_update
  requeued.db_ok_run_update prequeued.db_ok_run_update)

lemma reachable_db_ok: "reachable db0 db \<Longrightarrow> db_ok db0 \<Longrightarrow> db_ok db"
  by (induction rule: reachable.induct) (auto dest: queue_step_db_ok)

definition empty_db :: op_db where
  "empty_db = \<lparr>db_operations = [], db_events = []\<rparr>"

lemma db_ok_empty [simp]: "db_ok empty_db"
  by (simp add: db_ok_def empty_db_def keyed_idents_def)


subsection \<open>Counting claims\<close>

definition claims :: "op_db \<Rightarrow> uuid \<Rightarrow> nat" where
  "claims db oid = length (filter (\<lambda>e. ev_operationId e = oid \<and> ev_event e = ''OperationClaimed'') (db_events db))"

definition tenant_restart :: "operation \<Rightarrow> bool" where
  "tenant_restart r \<longleftrightarrow> op_type r = SINGLE_APP_RESTART \<and> op_tenantId r \<noteq> None"

definition restart_inv :: "op_db \<Rightarrow> bool" where
  "restart_inv db \<longleftrightarrow>
     (\<forall>r \<in> set (db_operations db). tenant_restart r \<longrightarrow> int (claims db (op_id r)) \<le> op_attempt r)"

lemma claims_run_update [simp]: "claims (fst (run_update P f db)) oid = claims db oid"
  by (simp add: claims_def)

lemma claims_append_le: "claims (fst (appendEvent db now eid oid i)) k \<le>
    claims db k + (if k = oid \<and> ei_event i = ''OperationClaimed'' then 1 else 0)"
  by (cases rule: appendEvent_cases [of db now eid oid i]) (auto simp: claims_def)

lemma claims_unknown: "db_ok db \<Longrightarrow> k \<notin> op_id ` set (db_operations db) \<Longrightarrow> claims db k = 0"
  by (auto simp: claims_def db_ok_def list_all_iff filter_empty_conv)

context op_update
begin

lemma tenant_restart_assign: "tenant_restart (assign r) = tenant_restart r"
  using ident_assign [of r] by (simp add: tenant_restart_def op_ident_def)

lemma restart_inv_run_update:
  assumes "restart_inv db" and "\<And>r. guard r \<Longrightarrow> tenant_restart r \<Longrightarrow> op_attempt r \<le> op_attempt (assign r)"
  shows "restart_inv (fst (run_update guard assign db))"
proof -
  have "int (claims db (op_id r)) \<le> op_attempt r"
    if r: "r \<in> set (fst (update_where guard assign (db_operations db)))" and t: "tenant_restart r" for r
  proof -
    from r obtain s where s: "s \<in> set (db_operations db)" "r = (if guard s then assign s else s)"
      by (auto simp: update_where_def)
    with t have "tenant_restart s" by (auto simp: tenant_restart_assign split: if_splits)
    with assms(1) s(1) have "int (claims db (op_id s)) \<le> op_attempt s" by (simp add: restart_inv_def)
    with s \<open>tenant_restart s\<close> assms(2) [of s] show ?thesis by (auto simp: key_assign split: if_splits)
  qed
  then show ?thesis by (simp add: restart_inv_def fst_run_update) (simp add: claims_def)
qed

end

lemma restart_inv_claim:
  assumes "db_ok db" and "restart_inv db" and "claim_candidate db now locked = Some c"
  shows "restart_inv (fst (claimNext db now locked w secs eid))"
proof -
  let ?f = "claim_row now w secs"
  let ?db1 = "fst (run_update (claim_guard now (op_id c)) ?f db)"
  let ?i = "claimed_event (?f c) w"
  have c: "c \<in> set (db_operations db)" "claimable now c" using assms(3) by (auto dest: claim_candidateD)
  have ids: "op_id r = op_id c \<longleftrightarrow> r = c" if "r \<in> set (db_operations db)" for r
    using that c(1) assms(1) by (auto simp: db_ok_def dest: distinct_key_eq)
  have "int (claims (fst (appendEvent ?db1 now eid (op_id c) ?i)) (op_id r)) \<le> op_attempt r"
    if r: "r \<in> set (db_operations ?db1)" and t: "tenant_restart r" for r
  proof -
    from r obtain s where s: "s \<in> set (db_operations db)" "r = (if claim_guard now (op_id c) s then ?f s else s)"
      by (auto simp: fst_run_update update_where_def)
    then have id: "op_id r = op_id s" and "tenant_restart s"
      using t by (auto simp: claimed.key_assign claimed.tenant_restart_assign split: if_splits)
    then have old: "int (claims db (op_id s)) \<le> op_attempt s" using assms(2) s(1) by (simp add: restart_inv_def)
    have le: "claims (fst (appendEvent ?db1 now eid (op_id c) ?i)) (op_id r) \<le>
        claims db (op_id s) + (if op_id s = op_id c then 1 else 0)"
      using claims_append_le [of ?db1 now eid "op_id c" ?i "op_id r"] id by (auto split: if_splits)
    show ?thesis
    proof (cases "s = c")
      case True
      then have "op_attempt r = op_attempt s + 1"
        using s(2) c(2) by (simp add: claim_guard_def claim_row_def)
      then show ?thesis using old le by (auto split: if_splits)
    next
      case False
      then have "op_id s \<noteq> op_id c" using ids [OF s(1)] by simp
      then have "r = s" using s(2) by (simp add: claim_guard_def)
      then show ?thesis using old le \<open>op_id s \<noteq> op_id c\<close> by simp
    qed
  qed
  then show ?thesis unfolding fst_claimNext [OF assms(1,3)] restart_inv_def by simp
qed

lemma restart_inv_create:
  assumes "db_ok db" and "restart_inv db"
  shows "restart_inv (fst (createOperationWithClient db now newId eid i))"
proof (cases rule: createOperation_cases [of db now newId eid i])
  case ins
  let ?r = "new_operation i now newId"
  have "newId \<notin> op_id ` set (db_operations db)"
    using ins(2) by (simp add: insert_conflicts_def new_operation_def)
  then have "claims db newId = 0" by (rule claims_unknown [OF assms(1)])
  then show ?thesis
    using assms(2) ins(1)
    by (auto simp: restart_inv_def insert_operation_def claims_def new_operation_def created_event_def)
qed (simp add: assms(2))

lemma queue_step_restart_inv: "queue_step db db' \<Longrightarrow> db_ok db \<Longrightarrow> restart_inv db \<Longrightarrow> restart_inv db'"
proof (induction rule: queue_step.induct)
  case (step_event i db now eid oid)
  then show ?case
    by (cases rule: appendEvent_cases [of db now eid oid i]) (auto simp: restart_inv_def claims_def)
next
  case (step_claim db now locked w secs eid)
  then show ?case
    by (cases "claim_candidate db now locked") (simp add: claimNext_def, simp add: restart_inv_claim)
next
  case (step_succeed st db now oid w res rid)
  then show ?case
    by (auto simp: repository_defs succeed_row_def
      intro: succeeded.restart_inv_run_update rolled.restart_inv_run_update)
next
  case (step_fail st db now oid w code msg)
  then show ?case
    by (auto simp: repository_defs fail_row_def
      intro: failed.restart_inv_run_update rbfailed.restart_inv_run_update)
next
  case (step_requeue db now tid oid)
  then show ?case
    by (auto simp: repository_defs requeue_row_def tenant_requeueable_def tenant_restart_def
      intro: requeued.restart_inv_run_update)
next
  case (step_requeue_platform db now oid)
  then show ?case
    by (auto simp: repository_defs requeue_row_def platform_requeueable_def tenant_restart_def
      intro: prequeued.restart_inv_run_update)
qed (auto simp: repository_defs fail_stale_def fail_exhausted_def heartbeat_row_def retry_row_def restart_inv_create
  intro!: stale.restart_inv_run_update exh.restart_inv_run_update hb.restart_inv_run_update
    retried.restart_inv_run_update)

lemma reachable_restart_inv:
  "reachable db0 db \<Longrightarrow> db_ok db0 \<Longrightarrow> restart_inv db0 \<Longrightarrow> restart_inv db"
  by (induction rule: reachable.induct) (auto dest: queue_step_restart_inv reachable_db_ok)


subsection \<open>Rows a statement does not touch\<close>

lemma unguarded_kept:
  "r \<in> set (db_operations db) \<Longrightarrow> \<not> P r \<Longrightarrow> r \<in> set (db_operations (fst (run_update P f db)))"
  by (auto simp: fst_run_update set_update_where)

lemma claimNext_keeps:
  assumes "db_ok db" and "r \<in> set (db_operations db)" and "\<not> claimable now r"
  shows "r \<in> set (db_operations (fst (claimNext db now locked w secs eid)))"
proof (cases "claim_candidate db now locked")
  case (Some c)
  show ?thesis
    unfolding fst_claimNext [OF assms(1) Some] appendEvent_operations
    using assms(2,3) by (intro unguarded_kept) (auto simp: claim_guard_def)
qed (simp add: claimNext_def assms(2))

lemma insert_keeps:
  "r \<in> set (db_operations db) \<Longrightarrow> r \<in> set (db_operations (fst (insert_operation db r' e)))"
  by (simp add: insert_operation_def)

lemma create_keeps:
  "r \<in> set (db_operations db) \<Longrightarrow> r \<in> set (db_operations (fst (createOperationWithClient db now newId eid i)))"
  by (cases rule: createOperation_cases [of db now newId eid i]) (auto simp: insert_keeps)

lemmas guard_defs = stale_restart_def exhausted_def due_def claimable_def running_lease_def holds_lease_def
  tenant_requeueable_def platform_requeueable_def

lemma queue_step_keeps_done:
  assumes "queue_step db db'" and "db_ok db" and "r \<in> set (db_operations db)"
    and "op_status r \<in> {Succeeded, RolledBack}"
  shows "r \<in> set (db_operations db')"
proof -
  have "op_leaseOwner r = None"
    using db_ok_rows [OF assms(2,3)] assms(4) by (auto simp: row_ok_def)
  with assms show ?thesis
    by (cases rule: queue_step.cases)
      (auto simp: repository_defs guard_defs create_keeps intro!: unguarded_kept claimNext_keeps)
qed

lemma reachable_keeps_done:
  "reachable db0 db \<Longrightarrow> db_ok db0 \<Longrightarrow> r \<in> set (db_operations db0) \<Longrightarrow>
     op_status r \<in> {Succeeded, RolledBack} \<Longrightarrow> r \<in> set (db_operations db)"
  by (induction rule: reachable.induct) (auto intro: queue_step_keeps_done reachable_db_ok)

subsection \<open>Which operation is claimed\<close>

lemma two_stage_sort_head:
  assumes "head_opt (sort_asc f (sort_asc g xs)) = Some c" and "x \<in> set xs"
  shows "f c < f x \<or> (f c = f x \<and> g c \<le> g x)"
proof -
  have least: "c \<in> set xs" "f c \<le> f x"
    using head_sort_asc_least [OF assms(1)] assms(2) by auto
  have "g c \<le> g x" if "f x = f c"
  proof -
    let ?ys = "sort_asc g xs"
    have "filter (\<lambda>y. f y = f c) (sort_key f ?ys) = filter (\<lambda>y. f y = f c) ?ys"
      by (rule sort_key_stable)
    moreover obtain zs where "sort_key f ?ys = c # zs"
      using assms(1) by (cases "sort_key f ?ys") (auto simp: sort_asc_def)
    ultimately have "filter (\<lambda>y. f y = f c) ?ys = c # filter (\<lambda>y. f y = f c) zs" by simp
    then obtain us where us: "filter (\<lambda>y. f y = f c) ?ys = c # us" ..
    have "sorted (map g (filter (\<lambda>y. f y = f c) ?ys))"
      by (simp add: sort_asc_def sorted_filter)
    moreover have "x \<in> set (filter (\<lambda>y. f y = f c) ?ys)" using assms(2) that by simp
    ultimately show ?thesis unfolding us by auto
  qed
  with least show ?thesis by fastforce
qed

lemma claim_candidate_order:
  assumes "claim_candidate db now locked = Some c"
    and "r \<in> set (db_operations db)" and "claimable now r" and "\<not> locked (op_id r)"
  shows "op_nextAttemptAt c < op_nextAttemptAt r \<or>
    (op_nextAttemptAt c = op_nextAttemptAt r \<and> op_createdAt c \<le> op_createdAt r)"
  using two_stage_sort_head [OF assms(1) [unfolded claim_candidate_def], of r] assms(2-4) by simp

lemma claim_candidate_None_iff:
  "claim_candidate db now locked = None \<longleftrightarrow>
     (\<forall>r \<in> set (db_operations db). claimable now r \<longrightarrow> locked (op_id r))"
  by (auto simp: claim_candidate_def filter_empty_conv)


subsection \<open>Sample data for the witnesses\<close>

definition sample_input :: create_operation_input where
  "sample_input = \<lparr>ci_type = SINGLE_APP_RESTART, ci_tenantId = Some ''t1'', ci_resourceType = ''SingleApp'',
     ci_resourceId = Some ''a1'', ci_phase = None, ci_createdBy = ''u1'', ci_createdByEmail = ''u1@rp'',
     ci_createdByDisplayName = ''U'', ci_input = None, ci_idempotencyKey = Some '' k1 '', ci_maxAttempts = Some 1\<rparr>"

definition sample_queued :: op_db where
  "sample_queued = fst (createOperationWithClient empty_db 1000 ''o1'' ''e1'' sample_input)"

definition sample_claimed :: op_db where
  "sample_claimed = fst (claimNext sample_queued 2000 (\<lambda>_. False) ''w1'' 30 ''e2'')"

definition sample_done :: op_db where
  "sample_done = fst (markSucceeded sample_claimed 3000 ''o1'' ''w1'' None None Succeeded)"

lemma reachable_queued: "reachable empty_db sample_queued"
  unfolding sample_queued_def by (intro reach_step [OF reach_start] step_create)

lemma reachable_claimed: "reachable empty_db sample_claimed"
  unfolding sample_claimed_def by (intro reach_step [OF reachable_queued] step_claim)

lemma reachable_done: "reachable empty_db sample_done"
  unfolding sample_done_def by (intro reach_step [OF reachable_claimed] step_succeed) simp

lemma sample_key [simp]: "normalized_key sample_input = Some ''k1''"
  by (simp add: normalized_key_def sample_input_def js_trim_def js_space_def)

lemma sample_queued_eq:
  "sample_queued = \<lparr>db_operations = [new_operation sample_input 1000 ''o1''],
     db_events = [created_event (new_operation sample_input 1000 ''o1'') 1000 ''e1'']\<rparr>"
  by (simp add: sample_queued_def createOperationWithClient_def Let_def insert_conflicts_def empty_db_def
    insert_operation_def new_operation_def)

lemma sample_claimed_eq:
  "sample_claimed = \<lparr>db_operations = [claim_row 2000 ''w1'' 30 (new_operation sample_input 1000 ''o1'')],
     db_events = [created_event (new_operation sample_input 1000 ''o1'') 1000 ''e1'',
       \<lparr>ev_id = ''e2'', ev_operationId = ''o1'', ev_timestamp = 2000, ev_phase = None, ev_level = ''Info'',
        ev_event = ''OperationClaimed'', ev_message = ''Operation claimed by worker w1'',
        ev_details = Some (JObj [(''attempt'', JNum ''1''), (''workerId'', JStr ''w1'')])\<rparr>]\<rparr>"
  by (simp add: sample_claimed_def sample_queued_eq claimNext_def claim_candidate_def claimable_def due_def
    new_operation_def sample_input_def run_update_def update_where_def appendEvent_def created_event_def
    claimed_event_def claim_row_def sort_asc_def show_int_def show_nat_small digit_char_numerals
    lease_until_def safeLeaseSeconds_def Let_def)


subsection \<open>Creation and its idempotency key\<close>

lemma new_operation_fields [simp]:
  "op_id (new_operation i now k) = k" "op_idempotencyKey (new_operation i now k) = normalized_key i"
  "op_tenantId (new_operation i now k) = ci_tenantId i" "op_type (new_operation i now k) = ci_type i"
  by (simp_all add: new_operation_def)

lemma same_request_new: "same_request i (new_operation i now k)"
  by (simp add: same_request_def new_operation_def)

lemma keyed_row_unique:
  assumes "db_ok db" and "x \<in> set (db_operations db)" and "idempotency_match tid ty k x"
  shows "head_opt (filter (idempotency_match tid ty k) (db_operations db)) = Some x"
proof -
  have "y = x" if "y \<in> set t" "idempotency_match tid ty k y" "distinct (keyed_idents t)"
    "x \<in> set t" for y t
    using that assms(3)
  proof (induction t)
    case (Cons a t)
    then show ?case
      by (auto simp: keyed_idents_def idempotency_match_def op_ident_def image_iff split: if_splits)
  qed simp
  then have "\<forall>y \<in> set (filter (idempotency_match tid ty k) (db_operations db)). y = x"
    using assms(1,2) by (auto simp: db_ok_def)
  moreover have "x \<in> set (filter (idempotency_match tid ty k) (db_operations db))" using assms(2,3) by simp
  ultimately show ?thesis
    by (cases "filter (idempotency_match tid ty k) (db_operations db)") auto
qed

lemma create_replay:
  assumes "db_ok db" and "normalized_key i = Some k" and "x \<in> set (db_operations db)"
    and "idempotency_match (ci_tenantId i) (ci_type i) k x"
  shows "createOperationWithClient db now newId eid i =
    (db, if op_id x \<noteq> newId \<and> \<not> same_request i x
         then Inl (ConflictException ''Idempotency-Key was already used for a different operation'')
         else Inr x)"
proof -
  have "insert_conflicts db (new_operation i now newId)"
    using assms(2-4) by (auto simp: insert_conflicts_def list_ex_iff)
  then show ?thesis
    using keyed_row_unique [OF assms(1,3,4)] assms(2) by (simp add: createOperationWithClient_def Let_def)
qed

lemma create_result_keyed:
  assumes "newId \<notin> op_id ` set (db_operations db)" and "normalized_key i = Some k"
    and "createOperationWithClient db now newId eid i = (db1, Inr r)"
  shows "r \<in> set (db_operations db1) \<and> idempotency_match (ci_tenantId i) (ci_type i) k r \<and> same_request i r"
proof (cases "insert_conflicts db (new_operation i now newId)")
  case True
  then show ?thesis using assms
    by (auto simp: createOperationWithClient_def Let_def split: option.splits if_splits
      dest!: head_opt_filter_Some)
next
  case False
  then show ?thesis using assms
    by (auto simp: createOperationWithClient_def Let_def insert_operation_def idempotency_match_def
      same_request_new split: if_splits)
qed

text \<open>A worker that does not own the operation.\<close>

lemma lost_lease:
  assumes "\<forall>r \<in> set (db_operations db). op_id r = oid \<longrightarrow> op_leaseOwner r \<noteq> Some w"
  shows "heartbeat db now oid w secs = (db, None)" "markSucceeded db now oid w res rid st = (db, None)"
    "markFailed db now oid w code msg st = (db, None)" "scheduleRetry db now oid w at code msg = (db, None)"
  using assms by (auto simp: repository_defs run_update_def first_row_def update_where_none guard_defs)

lemma queue_invariant_queued: "db_ok sample_queued"
  by (rule reachable_db_ok [OF reachable_queued db_ok_empty])

lemma queue_invariant_sample: "db_ok sample_claimed"
  by (rule reachable_db_ok [OF reachable_claimed db_ok_empty])

section \<open>Properties of the queue\<close>

text \<open>
  C26. In every database the queue can reach from an empty one, whatever workers and requests do
  and in whatever order: primary keys and idempotency keys are unique, every event belongs to an
  operation, an operation holds a lease exactly while it runs, its attempts stay within its
  budget, and it has a completion time exactly when it is final.
\<close>

theorem queue_invariant: "reachable empty_db db \<Longrightarrow> db_ok db"
  by (erule reachable_db_ok) (rule db_ok_empty)

theorem queue_invariant_witness: "db_ok sample_claimed"
  by (rule queue_invariant [OF reachable_claimed])

text \<open>
  C1. A restart of a SingleApp is never replayed: however leases lapse, workers crash and tenants
  press retry, a tenant's \<open>SINGLE_APP_RESTART\<close> operation is claimed at most as often as its
  attempt budget, which is 1 for the restarts the API queues.
\<close>

theorem restart_never_replayed:
  assumes "reachable empty_db db" and "r \<in> set (db_operations db)"
    and "op_type r = SINGLE_APP_RESTART" and "op_tenantId r \<noteq> None"
  shows "int (claims db (op_id r)) \<le> op_maxAttempts r"
proof -
  have "restart_inv db"
    by (rule reachable_restart_inv [OF assms(1) db_ok_empty]) (simp add: restart_inv_def empty_db_def)
  moreover have "row_ok r"
    using assms(2) reachable_db_ok [OF assms(1) db_ok_empty] by (rule db_ok_rows [rotated])
  ultimately show ?thesis using assms(2-4) by (auto simp: restart_inv_def tenant_restart_def row_ok_def)
qed

theorem restart_never_replayed_witness: "int (claims sample_claimed ''o1'') \<le> 1 \<and> claims sample_claimed ''o1'' = 1"
proof -
  have "int (claims sample_claimed (op_id (claim_row 2000 ''w1'' 30 (new_operation sample_input 1000 ''o1''))))
      \<le> op_maxAttempts (claim_row 2000 ''w1'' 30 (new_operation sample_input 1000 ''o1''))"
    by (rule restart_never_replayed [OF reachable_claimed])
      (simp_all add: sample_claimed_eq claim_row_def new_operation_def sample_input_def)
  moreover have "claims sample_claimed ''o1'' = 1"
    by (simp add: claims_def sample_claimed_eq created_event_def)
  ultimately show ?thesis by (simp add: claim_row_def new_operation_def sample_input_def)
qed

text \<open>
  C31. A completed operation is never touched again: once an operation is \<open>Succeeded\<close> or
  \<open>RolledBack\<close>, its row is identical in every later database, so neither a stale worker nor a
  manual retry can run it again.
\<close>

theorem completed_operations_are_final:
  assumes "reachable empty_db db" and "reachable db db'" and "r \<in> set (db_operations db)"
    and "op_status r \<in> {Succeeded, RolledBack}"
  shows "r \<in> set (db_operations db')"
  using reachable_keeps_done [OF assms(2) _ assms(3,4)] reachable_db_ok [OF assms(1)] by simp

theorem completed_operations_are_final_witness:
  "\<exists>r. op_status r = Succeeded \<and>
     r \<in> set (db_operations (fst (claimNext sample_done 99999 (\<lambda>_. False) ''w2'' 30 ''e3'')))"
proof -
  let ?r = "succeed_row 3000 None None Succeeded (claim_row 2000 ''w1'' 30 (new_operation sample_input 1000 ''o1''))"
  have r: "?r \<in> set (db_operations sample_done)"
    by (simp add: sample_done_def sample_claimed_eq markSucceeded_def fst_run_update update_where_def
      running_lease_def claim_row_def new_operation_def)
  have "?r \<in> set (db_operations (fst (claimNext sample_done 99999 (\<lambda>_. False) ''w2'' 30 ''e3'')))"
    by (rule completed_operations_are_final [OF reachable_done reach_step [OF reach_start step_claim] r])
      (simp add: succeed_row_def)
  then show ?thesis by (intro exI [of _ ?r]) (simp add: succeed_row_def)
qed

text \<open>
  C8. A live lease excludes everyone else: while the lease of a running operation has not
  expired, no claim, by whatever worker, and neither expiry sweep changes the operation.
\<close>

theorem live_lease_excludes_others:
  assumes "db_ok db" and "r \<in> set (db_operations db)" and "op_status r = Running"
    and "op_leaseExpiresAt r = Some t" and "now < t"
  shows "r \<in> set (db_operations (fst (claimNext db now locked w secs eid))) \<and>
    r \<in> set (db_operations (fst (failExhaustedOperations db now))) \<and>
    r \<in> set (db_operations (fst (failStaleQueuedRestarts db now)))"
  using assms by (auto simp: repository_defs guard_defs lease_lapsed_def
    intro!: claimNext_keeps unguarded_kept)

theorem live_lease_excludes_others_witness:
  "claim_row 2000 ''w1'' 30 (new_operation sample_input 1000 ''o1'')
     \<in> set (db_operations (fst (claimNext sample_claimed 31999 (\<lambda>_. False) ''w2'' 30 ''e3'')))"
  using live_lease_excludes_others [OF queue_invariant_sample,
      of "claim_row 2000 ''w1'' 30 (new_operation sample_input 1000 ''o1'')" 32000 31999]
  by (simp add: sample_claimed_eq claim_row_def lease_until_def safeLeaseSeconds_def)


text \<open>
  A worker that has lost its lease cannot write: its heartbeat, its completion, its failure
  report and its retry are compare-and-set updates that change nothing and return null.
\<close>

lemma lost_lease_cannot_write:
  assumes "\<forall>r \<in> set (db_operations db). op_id r = oid \<longrightarrow> op_leaseOwner r \<noteq> Some w"
  shows "heartbeat db now oid w secs = (db, None) \<and>
    markSucceeded db now oid w res rid st = (db, None) \<and>
    markFailed db now oid w code msg st = (db, None) \<and>
    scheduleRetry db now oid w at code msg = (db, None)"
  by (intro conjI lost_lease [OF assms])

text \<open>
  The queue is served in order: a claim takes a due operation with attempts left that no
  other transaction has locked, and among all of those the one with the earliest
  \<open>nextAttemptAt\<close> and, among equals, the earliest \<open>createdAt\<close>; it returns the row as it now is in
  the table, running, leased to the worker and with one more attempt.
\<close>

lemma claim_takes_earliest_due:
  assumes "db_ok db" and "claimNext db now locked w secs eid = (db', Inr (Some r))"
  shows "\<exists>c \<in> set (db_operations db). claimable now c \<and> \<not> locked (op_id c) \<and>
    r = claim_row now w secs c \<and> r \<in> set (db_operations db') \<and>
    (\<forall>x \<in> set (db_operations db). claimable now x \<and> \<not> locked (op_id x) \<longrightarrow>
       op_nextAttemptAt c < op_nextAttemptAt x \<or>
       (op_nextAttemptAt c = op_nextAttemptAt x \<and> op_createdAt c \<le> op_createdAt x))"
proof -
  obtain c where c: "claim_candidate db now locked = Some c"
    using assms(2) by (cases "claim_candidate db now locked") (auto simp: claimNext_def)
  have "db' = fst (claimNext db now locked w secs eid)" using assms(2) by simp
  moreover have "claim_row now w secs c \<in> set (db_operations (fst (run_update (claim_guard now (op_id c)) (claim_row now w secs) db)))"
    using claim_candidateD [OF c] by (auto simp: fst_run_update set_update_where claim_guard_def)
  ultimately have "claim_row now w secs c \<in> set (db_operations db')"
    by (simp add: fst_claimNext [OF assms(1) c])
  moreover have "r = claim_row now w secs c"
    using assms(2) by (simp add: claimNext_Some [OF assms(1) c] Let_def split: prod.splits sum.splits)
  ultimately show ?thesis
    using claim_candidateD [OF c] claim_candidate_order [OF c] by blast
qed

text \<open>
  C40. No due work is left behind: when a worker has swept exhausted operations and its claim
  finds nothing although no row is locked, no operation is waiting with a due start time and
  none is running under a lapsed lease.
\<close>

theorem idle_worker_leaves_no_due_work:
  assumes "snd (claimNext (fst (failExhaustedOperations db now)) now (\<lambda>_. False) w secs eid) = Inr None"
    and "db_ok db"
  shows "\<forall>r \<in> set (db_operations (fst (failExhaustedOperations db now))). \<not> due now r"
proof
  fix r
  let ?db = "fst (failExhaustedOperations db now)"
  assume r: "r \<in> set (db_operations ?db)"
  have ok: "db_ok ?db"
    using assms(2) by (simp add: repository_defs exh.db_ok_run_update)
  have "claim_candidate ?db now (\<lambda>_. False) = None"
    using assms(1) by (cases "claim_candidate ?db now (\<lambda>_. False)")
      (auto simp: claimNext_Some [OF ok] Let_def split: prod.splits sum.splits)
  then have "\<not> claimable now r" using r by (auto simp: claim_candidate_None_iff)
  moreover have "\<not> exhausted now r"
    using r by (auto simp: repository_defs fst_run_update set_update_where exhausted_def fail_exhausted_def due_def)
  ultimately show "\<not> due now r" by (auto simp: claimable_def exhausted_def)
qed

theorem idle_worker_leaves_no_due_work_witness:
  "filter (due 40000) (db_operations (fst (failExhaustedOperations sample_claimed 40000))) = []"
  unfolding filter_empty_conv
  by (rule idle_worker_leaves_no_due_work [OF _ queue_invariant_sample, where w = "''w2''" and secs = 30 and eid = "''e3''"])
    (simp add: sample_claimed_eq repository_defs run_update_def update_where_def exhausted_def due_def
      lease_lapsed_def claim_row_def new_operation_def sample_input_def lease_until_def safeLeaseSeconds_def
      claimNext_def claim_candidate_def claimable_def fail_exhausted_def sort_asc_def)

text \<open>
  Creating an operation is idempotent in its key: repeating a request that carries an
  idempotency key returns the operation of the first call and changes nothing, whatever ids and
  times the repetition draws.
\<close>

lemma create_operation_idempotent:
  assumes "db_ok db" and "newId \<notin> op_id ` set (db_operations db)" and "normalized_key i = Some k"
    and "createOperationWithClient db now newId eid i = (db1, Inr r)"
  shows "createOperationWithClient db1 now' newId' eid' i = (db1, Inr r)"
proof -
  have "db_ok db1" using db_ok_create [OF assms(1)] assms(4) by (metis fst_conv)
  then show ?thesis
    using create_result_keyed [OF assms(2-4)] by (auto simp: create_replay [OF \<open>db_ok db1\<close> assms(3)])
qed

text \<open>
  A key is never reused for another request: when the stored operation of the key has another
  resource, creator or input (up to the order of JSON object entries), creation throws the
  conflict and stores nothing.
\<close>

lemma key_reuse_is_rejected:
  assumes "db_ok db" and "normalized_key i = Some k" and "x \<in> set (db_operations db)"
    and "idempotency_match (ci_tenantId i) (ci_type i) k x" and "op_id x \<noteq> newId"
    and "op_resourceType x \<noteq> ci_resourceType i \<or> op_resourceId x \<noteq> ci_resourceId i \<or>
      op_createdBy x \<noteq> ci_createdBy i \<or>
      canonicalJson (op_input x) \<noteq> canonicalJson (option_or (ci_input i) (JObj []))"
  shows "createOperationWithClient db now newId eid i =
    (db, Inl (ConflictException ''Idempotency-Key was already used for a different operation''))"
  using assms(5,6) by (auto simp: create_replay [OF assms(1-4)] same_request_def)

end
