(* ===== verification/OperationRetry.thy ===== *)
theory OperationRetry
  imports OperationTypes
begin

text \<open>
  \<open>operations/operation-retry.ts\<close>: the retry delay and the reading of an arbitrary thrown
  value. A thrown value is its properties as a JSON value (an object for exceptions, the value
  itself for a thrown primitive), whether it is \<open>instanceof Error\<close>, and its \<open>String(error)\<close>.
  Attempts and delays are integers: up to the cap of 300000 every number is exact, and beyond
  it \<open>Math.min\<close> returns the cap.
\<close>

definition DEFAULT_BASE_DELAY_MS :: int where "DEFAULT_BASE_DELAY_MS = 5000"
definition DEFAULT_MAX_DELAY_MS :: int where "DEFAULT_MAX_DELAY_MS = 300000"

definition RETRYABLE_ERROR_CODES :: "string list" where
  "RETRYABLE_ERROR_CODES =
     [''PlatformUnavailable'', ''InsufficientCapacity'', ''CertificateObservationFailed'',
      ''DnsResolverUnavailable'', ''NetworkUnavailable'', ''StorageBackendUnavailable'']"

definition computeRetryDelayMs :: "int \<Rightarrow> int \<Rightarrow> int \<Rightarrow> int" where
  "computeRetryDelayMs attempt baseDelayMs maxDelayMs =
     (let normalizedAttempt = max 1 attempt;
          delay = baseDelayMs * 2 ^ nat (normalizedAttempt - 1)
      in min delay maxDelayMs)"

record thrown =
  th_value :: json
  th_isError :: bool
  th_text :: string

record error_shape =
  es_code :: "string option"
  es_message :: "string option"
  es_retryable :: "bool option"

fun isRecord :: "json \<Rightarrow> bool" where
  "isRecord (JObj _) = True"
| "isRecord (JArr _) = True"
| "isRecord _ = False"

fun property :: "json \<Rightarrow> string \<Rightarrow> json option" where
  "property (JObj kvs) k = map_of kvs k"
| "property _ _ = None"

definition string_property :: "json \<Rightarrow> string \<Rightarrow> string option" where
  "string_property v k = (case property v k of Some (JStr s) \<Rightarrow> Some s | _ \<Rightarrow> None)"

definition bool_property :: "json \<Rightarrow> string \<Rightarrow> bool option" where
  "bool_property v k = (case property v k of Some (JBool b) \<Rightarrow> Some b | _ \<Rightarrow> None)"

definition pickErrorShape :: "json \<Rightarrow> error_shape" where
  "pickErrorShape v = \<lparr>es_code = string_property v ''code'', es_message = string_property v ''message'',
     es_retryable = bool_property v ''retryable''\<rparr>"

text \<open>
  \<open>{...direct, ...pickErrorShape(response)}\<close>: the second object has all three keys, present with
  the value \<open>undefined\<close> where the response has none, so it replaces every key of the first.
\<close>

definition errorShape :: "json \<Rightarrow> error_shape" where
  "errorShape v =
     (if \<not> isRecord v then \<lparr>es_code = None, es_message = None, es_retryable = None\<rparr>
      else
        (let direct = pickErrorShape v in
         if es_code direct \<noteq> None \<or> es_retryable direct \<noteq> None then direct
         else
           (case property v ''response'' of
              Some response \<Rightarrow> (if isRecord response then pickErrorShape response else direct)
            | None \<Rightarrow> direct)))"

definition isRetryableOperationError :: "thrown \<Rightarrow> bool" where
  "isRetryableOperationError err =
     (let shape = errorShape (th_value err) in
      case es_retryable shape of
        Some b \<Rightarrow> b
      | None \<Rightarrow> (case es_code shape of None \<Rightarrow> False | Some c \<Rightarrow> c \<in> set RETRYABLE_ERROR_CODES))"

definition operationErrorCode :: "thrown \<Rightarrow> string" where
  "operationErrorCode err = option_or (es_code (errorShape (th_value err))) ''OperationExecutionFailed''"

definition operationErrorMessage :: "thrown \<Rightarrow> string" where
  "operationErrorMessage err =
     (if th_isError err then option_or (string_property (th_value err) ''message'') []
      else option_or (es_message (errorShape (th_value err))) (th_text err))"

subsection \<open>The delay\<close>

lemma two_power_mono: "(m::nat) \<le> n \<Longrightarrow> (2::int) ^ m \<le> 2 ^ n"
  by (rule power_increasing) auto

lemma delay_mono:
  assumes "0 \<le> base" and "a \<le> b"
  shows "computeRetryDelayMs a base cap \<le> computeRetryDelayMs b base cap"
proof -
  have "base * 2 ^ nat (max 1 a - 1) \<le> base * 2 ^ nat (max 1 b - 1)"
    using assms by (intro mult_left_mono two_power_mono) auto
  then show ?thesis by (simp add: computeRetryDelayMs_def Let_def)
qed

lemma delay_upper: "computeRetryDelayMs a base cap \<le> cap"
  by (simp add: computeRetryDelayMs_def)

lemma delay_first: "a \<le> 1 \<Longrightarrow> base \<le> cap \<Longrightarrow> computeRetryDelayMs a base cap = base"
  by (simp add: computeRetryDelayMs_def max_def)

lemma delay_double:
  assumes "1 \<le> a" and "0 \<le> base" and "2 * computeRetryDelayMs a base cap \<le> cap"
    and "computeRetryDelayMs a base cap < cap"
  shows "computeRetryDelayMs (a + 1) base cap = 2 * computeRetryDelayMs a base cap"
proof -
  have "nat a = Suc (nat (a - 1))" using assms(1) by simp
  then have "(2::int) ^ nat a = 2 * 2 ^ nat (a - 1)" by simp
  then show ?thesis using assms by (auto simp: computeRetryDelayMs_def Let_def max_def min_def split: if_splits)
qed

text \<open>
  The retry back-off is bounded and exponential: the delay never leaves the interval from
  the base delay to the cap, never shrinks as attempts grow, doubles from one attempt to the
  next while the doubled delay is within the cap, and stays at the cap once it is reached.
\<close>

lemma retry_delay_backoff:
  assumes "0 \<le> base" and "base \<le> cap"
  shows "base \<le> computeRetryDelayMs a base cap \<and> computeRetryDelayMs a base cap \<le> cap \<and>
    computeRetryDelayMs a base cap \<le> computeRetryDelayMs (a + 1) base cap \<and>
    (1 \<le> a \<and> computeRetryDelayMs a base cap < cap \<and> 2 * computeRetryDelayMs a base cap \<le> cap \<longrightarrow>
       computeRetryDelayMs (a + 1) base cap = 2 * computeRetryDelayMs a base cap) \<and>
    (computeRetryDelayMs a base cap = cap \<longrightarrow> computeRetryDelayMs (a + 1) base cap = cap)"
proof (intro conjI impI)
  have "computeRetryDelayMs (min a 1) base cap = base" using assms(2) by (intro delay_first) auto
  then show "base \<le> computeRetryDelayMs a base cap"
    using delay_mono [OF assms(1), of "min a 1" a cap] by simp
  show "computeRetryDelayMs a base cap \<le> cap" by (rule delay_upper)
  show mono: "computeRetryDelayMs a base cap \<le> computeRetryDelayMs (a + 1) base cap"
    by (rule delay_mono [OF assms(1)]) simp
  show "computeRetryDelayMs (a + 1) base cap = cap" if "computeRetryDelayMs a base cap = cap"
    using mono delay_upper [of "a + 1" base cap] that by simp
qed (auto intro: delay_double assms(1))

subsection \<open>Reading thrown values\<close>

lemma errorShape_direct:
  "isRecord v \<Longrightarrow> string_property v ''code'' = Some c \<Longrightarrow> errorShape v = pickErrorShape v"
  by (simp add: errorShape_def pickErrorShape_def Let_def)

lemma errorShape_response:
  "isRecord v \<Longrightarrow> string_property v ''code'' = None \<Longrightarrow> bool_property v ''retryable'' = None \<Longrightarrow>
     property v ''response'' = Some w \<Longrightarrow> isRecord w \<Longrightarrow> errorShape v = pickErrorShape w"
  by (simp add: errorShape_def pickErrorShape_def Let_def)

end
