(* ===== verification/OperationsService.thy ===== *)
theory OperationsService
  imports OperationsQueue OperationRetry
begin

text \<open>
  The API side of the queue: \<open>operations.service.ts\<close> (enqueue, lookup, events and manual
  retry), \<open>operation-event-bus.ts\<close> (publishing lifecycle events: a published event reaches
  every handler and handlers cannot make the publisher fail, so publishing is appending to a
  log), \<open>operation-executor-registry.ts\<close> and \<open>deployment-operation-adapter.service.ts\<close>. The
  authenticated user is reduced to the three fields the code reads.
\<close>

record lifecycle_event =
  lc_operationId :: uuid
  lc_type :: operation_type
  lc_tenantId :: "uuid option"
  lc_resourceType :: string
  lc_resourceId :: "uuid option"
  lc_status :: operation_status
  lc_phase :: "string option"
  lc_event :: string
  lc_details :: "json option"

record op_system =
  sys_db :: op_db
  sys_published :: "lifecycle_event list"

record actor =
  actor_id :: uuid
  actor_email :: string
  actor_displayName :: string

record enqueue_input =
  en_type :: operation_type
  en_tenantId :: "uuid option"
  en_resourceType :: string
  en_resourceId :: "uuid option"
  en_actor :: actor
  en_input :: "json option"
  en_idempotencyKey :: "string option"
  en_maxAttempts :: "int option"

definition publish :: "lifecycle_event \<Rightarrow> ('a) op_system_scheme \<Rightarrow> 'a op_system_scheme" where
  "publish e s = s\<lparr>sys_published := sys_published s @ [e]\<rparr>"

definition lifecycle :: "operation \<Rightarrow> operation_status \<Rightarrow> string \<Rightarrow> json option \<Rightarrow> uuid option \<Rightarrow> lifecycle_event" where
  "lifecycle r status event details resourceId =
     \<lparr>lc_operationId = op_id r, lc_type = op_type r, lc_tenantId = op_tenantId r,
      lc_resourceType = op_resourceType r, lc_resourceId = resourceId, lc_status = status,
      lc_phase = op_phase r, lc_event = event, lc_details = details\<rparr>"

subsection \<open>Enqueue and lookup\<close>

definition enqueue_request :: "enqueue_input \<Rightarrow> create_operation_input" where
  "enqueue_request i =
     \<lparr>ci_type = en_type i, ci_tenantId = en_tenantId i, ci_resourceType = en_resourceType i,
      ci_resourceId = en_resourceId i, ci_phase = None, ci_createdBy = actor_id (en_actor i),
      ci_createdByEmail = actor_email (en_actor i),
      ci_createdByDisplayName = actor_displayName (en_actor i),
      ci_input = Some (option_or (en_input i) (JObj [])),
      ci_idempotencyKey = en_idempotencyKey i, ci_maxAttempts = en_maxAttempts i\<rparr>"

definition enqueue ::
  "op_system \<Rightarrow> millis \<Rightarrow> uuid \<Rightarrow> uuid \<Rightarrow> enqueue_input \<Rightarrow> op_system \<times> (op_error + operation)" where
  "enqueue s now newId eventId i =
     (case createOperationWithClient (sys_db s) now newId eventId (enqueue_request i) of
        (db, Inl e) \<Rightarrow> (s\<lparr>sys_db := db\<rparr>, Inl e)
      | (db, Inr r) \<Rightarrow>
          (publish (lifecycle r (op_status r) ''OperationCreated'' None (op_resourceId r)) (s\<lparr>sys_db := db\<rparr>), Inr r))"

definition service_get :: "op_db \<Rightarrow> uuid \<Rightarrow> uuid \<Rightarrow> op_error + operation" where
  "service_get db tenantId operationId =
     (case getOperation db tenantId operationId of
        None \<Rightarrow> Inl (NotFoundException ''Operation not found'') | Some r \<Rightarrow> Inr r)"

definition service_events :: "op_db \<Rightarrow> uuid \<Rightarrow> uuid \<Rightarrow> op_error + operation_event list" where
  "service_events db tenantId operationId =
     (case service_get db tenantId operationId of Inl e \<Rightarrow> Inl e | Inr _ \<Rightarrow> Inr (listEvents db operationId))"

definition service_getPlatform :: "op_db \<Rightarrow> uuid \<Rightarrow> op_error + operation" where
  "service_getPlatform db operationId =
     (case getPlatformOperation db operationId of
        None \<Rightarrow> Inl (NotFoundException ''Operation not found'') | Some r \<Rightarrow> Inr r)"

definition service_eventsPlatform :: "op_db \<Rightarrow> uuid \<Rightarrow> op_error + operation_event list" where
  "service_eventsPlatform db operationId =
     (case service_getPlatform db operationId of Inl e \<Rightarrow> Inl e | Inr _ \<Rightarrow> Inr (listEvents db operationId))"

subsection \<open>Manual retry\<close>

primrec status_name :: "operation_status \<Rightarrow> string" where
  "status_name Pending = ''Pending''"
| "status_name Running = ''Running''"
| "status_name Succeeded = ''Succeeded''"
| "status_name Failed = ''Failed''"
| "status_name RollingBack = ''RollingBack''"
| "status_name RolledBack = ''RolledBack''"
| "status_name RollbackFailed = ''RollbackFailed''"

definition retry_event :: "string \<Rightarrow> operation \<Rightarrow> append_event_input" where
  "retry_event msg r = \<lparr>ei_phase = None, ei_level = None, ei_event = ''ManualRetryRequested'',
     ei_message = msg,
     ei_details = Some (JObj [(''previousStatus'', JStr (status_name (op_status r)))])\<rparr>"

definition retry_blocked :: "operation \<Rightarrow> bool" where
  "retry_blocked r \<longleftrightarrow>
     op_type r = APP_GROUP_DEPLOY \<or> op_type r = APP_GROUP_ROLLBACK \<or>
     (op_type r = SINGLE_APP_RESTART \<and>
       (op_errorCode r \<noteq> Some ''RestartQueueTimeout'' \<or> op_attempt r \<noteq> 0)) \<or>
     (op_status r \<noteq> Failed \<and> op_status r \<noteq> RollbackFailed)"

definition retry_blocked_platform :: "operation \<Rightarrow> bool" where
  "retry_blocked_platform r \<longleftrightarrow>
     op_type r = APP_GROUP_DEPLOY \<or> op_type r = APP_GROUP_ROLLBACK \<or>
     (op_status r \<noteq> Failed \<and> op_status r \<noteq> RollbackFailed)"

definition finish_retry ::
  "op_system \<Rightarrow> millis \<Rightarrow> uuid \<Rightarrow> string \<Rightarrow> operation \<Rightarrow> op_db \<times> operation option
     \<Rightarrow> op_system \<times> (op_error + operation)" where
  "finish_retry s now eventId msg r res =
     (case res of
        (db, None) \<Rightarrow> (s\<lparr>sys_db := db\<rparr>, Inl (ConflictException ''OperationNotRetryable''))
      | (db, Some retried) \<Rightarrow>
          (case appendEvent db now eventId (op_id r) (retry_event msg r) of
             (db2, Inl e) \<Rightarrow> (s\<lparr>sys_db := db2\<rparr>, Inl e)
           | (db2, Inr _) \<Rightarrow>
               (publish (lifecycle retried (op_status retried) ''ManualRetryRequested''
                   (ei_details (retry_event msg r)) (op_resourceId retried)) (s\<lparr>sys_db := db2\<rparr>),
                Inr retried)))"

definition service_retry ::
  "op_system \<Rightarrow> millis \<Rightarrow> uuid \<Rightarrow> uuid \<Rightarrow> uuid \<Rightarrow> op_system \<times> (op_error + operation)" where
  "service_retry s now eventId tenantId operationId =
     (case service_get (sys_db s) tenantId operationId of
        Inl e \<Rightarrow> (s, Inl e)
      | Inr r \<Rightarrow>
          (if retry_blocked r then (s, Inl (ConflictException ''OperationNotRetryable''))
           else finish_retry s now eventId ''Operation was manually re-queued'' r
             (retryFailedOperation (sys_db s) now tenantId operationId)))"

definition service_retryPlatform ::
  "op_system \<Rightarrow> millis \<Rightarrow> uuid \<Rightarrow> uuid \<Rightarrow> op_system \<times> (op_error + operation)" where
  "service_retryPlatform s now eventId operationId =
     (case service_getPlatform (sys_db s) operationId of
        Inl e \<Rightarrow> (s, Inl e)
      | Inr r \<Rightarrow>
          (if retry_blocked_platform r then (s, Inl (ConflictException ''OperationNotRetryable''))
           else finish_retry s now eventId ''Platform operation was manually re-queued'' r
             (retryFailedPlatformOperation (sys_db s) now operationId)))"

subsection \<open>Mirroring a deployment\<close>

record mirrored_deployment =
  md_id :: uuid
  md_appGroupId :: uuid
  md_version :: int
  md_phase :: string
  md_correlationId :: uuid
  md_rollbackTargetVersion :: "int option"

definition deploymentOperationType :: "mirrored_deployment \<Rightarrow> operation_type" where
  "deploymentOperationType d =
     (case md_rollbackTargetVersion d of None \<Rightarrow> APP_GROUP_DEPLOY | Some _ \<Rightarrow> APP_GROUP_ROLLBACK)"

definition mirror_payload :: "mirrored_deployment \<Rightarrow> json" where
  "mirror_payload d = JObj
     [(''deploymentId'', JStr (md_id d)), (''appGroupId'', JStr (md_appGroupId d)),
      (''version'', JNum (show_int (md_version d))),
      (''rollbackTargetVersion'',
        (case md_rollbackTargetVersion d of None \<Rightarrow> JNull | Some v \<Rightarrow> JNum (show_int v))),
      (''correlationId'', JStr (md_correlationId d))]"

definition mirror_row :: "mirrored_deployment \<Rightarrow> uuid \<Rightarrow> actor \<Rightarrow> millis \<Rightarrow> operation" where
  "mirror_row d tenantId actor now =
     \<lparr>op_id = md_id d, op_type = deploymentOperationType d, op_tenantId = Some tenantId,
      op_resourceType = ''AppGroupDeployment'', op_resourceId = Some (md_id d),
      op_status = Pending, op_phase = Some (md_phase d), op_createdBy = actor_id actor,
      op_createdByEmail = actor_email actor, op_createdByDisplayName = actor_displayName actor,
      op_input = mirror_payload d, op_result = None,
      op_idempotencyKey = Some (''deployment:'' @ md_id d), op_attempt = 0, op_maxAttempts = 5,
      op_nextAttemptAt = now, op_leaseOwner = None, op_leaseExpiresAt = None, op_heartbeatAt = None,
      op_errorCode = None, op_errorMessage = None, op_createdAt = now, op_startedAt = None,
      op_completedAt = None\<rparr>"

definition mirror_event :: "mirrored_deployment \<Rightarrow> millis \<Rightarrow> uuid \<Rightarrow> operation_event" where
  "mirror_event d now eventId =
     \<lparr>ev_id = eventId, ev_operationId = md_id d, ev_timestamp = now, ev_phase = Some (md_phase d),
      ev_level = ''Info'', ev_event = ''OperationCreated'',
      ev_message = ''AppGroup deployment queued for Operation worker execution'',
      ev_details = Some (mirror_payload d)\<rparr>"

definition mirrorDeploymentOperation ::
  "op_db \<Rightarrow> millis \<Rightarrow> uuid \<Rightarrow> mirrored_deployment \<Rightarrow> uuid \<Rightarrow> actor \<Rightarrow> uuid option db_result" where
  "mirrorDeploymentOperation db now eventId d tenantId actor =
     (if insert_conflicts db (mirror_row d tenantId actor now) then (db, Inr None)
      else
        (case insert_operation db (mirror_row d tenantId actor now) (mirror_event d now eventId) of
           (db', Inl e) \<Rightarrow> (db', Inl e) | (db', Inr r) \<Rightarrow> (db', Inr (Some (op_id r)))))"

lemma db_ok_mirror: "db_ok db \<Longrightarrow> db_ok (fst (mirrorDeploymentOperation db now eid d tid a))"
  by (auto simp: mirrorDeploymentOperation_def mirror_event_def mirror_row_def row_ok_def final_status_def
    split: prod.split sum.split dest: db_ok_insert [where r = "mirror_row d tid a now" and e = "mirror_event d now eid"])


subsection \<open>Lookup is by identity and tenant\<close>

lemma getOperation_Some:
  assumes "db_ok db" and "r \<in> set (db_operations db)" and "op_tenantId r = Some tid"
  shows "getOperation db tid (op_id r) = Some r"
proof -
  have "filter (\<lambda>x. op_id x = op_id r \<and> op_tenantId x = Some tid) (db_operations db) =
      filter (\<lambda>x. op_tenantId x = Some tid) (filter (\<lambda>x. op_id x = op_id r) (db_operations db))"
    by (simp add: conj_commute)
  also have "filter (\<lambda>x. op_id x = op_id r) (db_operations db) = [r]"
    using assms(1,2) by (simp add: db_ok_def filter_key_singleton)
  finally show ?thesis using assms(3) by (simp add: getOperation_def)
qed

lemma getOperation_SomeD:
  "getOperation db tid oid = Some r \<Longrightarrow> r \<in> set (db_operations db) \<and> op_id r = oid \<and> op_tenantId r = Some tid"
  by (auto simp: getOperation_def dest: head_opt_filter_Some)

lemma tenant_requeueable_unblocked:
  "op_tenantId r = Some tid \<Longrightarrow> \<not> retry_blocked r \<Longrightarrow> tenant_requeueable tid (op_id r) r"
  by (auto simp: retry_blocked_def tenant_requeueable_def)

lemma requeue_rows:
  assumes "db_ok db" and "r \<in> set (db_operations db)" and "op_tenantId r = Some tid" and "\<not> retry_blocked r"
  shows "snd (retryFailedOperation db now tid (op_id r)) = Some (requeue_row now r)"
proof -
  have "filter (tenant_requeueable tid (op_id r)) (db_operations db) =
      filter (tenant_requeueable tid (op_id r)) (filter (\<lambda>x. op_id x = op_id r) (db_operations db))"
    by (auto simp: tenant_requeueable_def intro: filter_cong)
  also have "filter (\<lambda>x. op_id x = op_id r) (db_operations db) = [r]"
    using assms(1,2) by (simp add: db_ok_def filter_key_singleton)
  finally show ?thesis
    using tenant_requeueable_unblocked [OF assms(3,4)]
    by (simp add: retryFailedOperation_def snd_run_update update_where_rows)
qed

lemma requeue_in_table:
  assumes "r \<in> set (db_operations db)" and "op_tenantId r = Some tid" and "\<not> retry_blocked r"
  shows "requeue_row now r \<in> set (db_operations (fst (retryFailedOperation db now tid (op_id r))))"
  using assms tenant_requeueable_unblocked [OF assms(2,3)]
  by (auto simp: retryFailedOperation_def fst_run_update set_update_where)

section \<open>Properties of the service\<close>

text \<open>
  A manual retry of a failed operation that may be retried puts it back in the queue at once:
  the operation is pending with no attempts used, due immediately, and claimable by any worker;
  the retry is recorded as an event and published.
\<close>

lemma manual_retry_requeues:
  assumes "db_ok (sys_db s)" and "r \<in> set (db_operations (sys_db s))" and "op_tenantId r = Some tid"
    and "\<not> retry_blocked r" and "eid \<notin> ev_id ` set (db_events (sys_db s))"
  shows "\<exists>s'. service_retry s now eid tid (op_id r) = (s', Inr (requeue_row now r)) \<and>
    requeue_row now r \<in> set (db_operations (sys_db s')) \<and> claimable now (requeue_row now r) \<and>
    length (db_events (sys_db s')) = Suc (length (db_events (sys_db s))) \<and>
    length (sys_published s') = Suc (length (sys_published s))"
proof -
  let ?res = "retryFailedOperation (sys_db s) now tid (op_id r)"
  have res: "?res = (fst ?res, Some (requeue_row now r))"
    using requeue_rows [OF assms(1-4)] by (metis prod.collapse)
  have ev: "db_events (fst ?res) = db_events (sys_db s)" by (simp add: retryFailedOperation_def)
  have mem: "requeue_row now r \<in> set (db_operations (fst ?res))"
    by (rule requeue_in_table [OF assms(2-4)])
  then have "op_id r \<in> op_id ` set (db_operations (fst ?res))"
    using requeued.key_assign [of now r] by (metis image_eqI)
  then obtain e where e: "appendEvent (fst ?res) now eid (op_id r) (retry_event ''Operation was manually re-queued'' r) =
      ((fst ?res)\<lparr>db_events := db_events (fst ?res) @ [e]\<rparr>, Inr e)"
    using assms(5) ev by (simp add: appendEvent_def Let_def)
  have claim: "claimable now (requeue_row now r)"
    using db_ok_rows [OF assms(1,2)] by (simp add: claimable_def requeue_row_def due_def row_ok_def)
  have "service_retry s now eid tid (op_id r) =
      finish_retry s now eid ''Operation was manually re-queued'' r (fst ?res, Some (requeue_row now r))"
    using assms(4) by (simp add: service_retry_def service_get_def getOperation_Some [OF assms(1-3)] flip: res)
  with e claim mem ev show ?thesis by (simp add: finish_retry_def publish_def)
qed

text \<open>
  A refused retry has no effect: asking for another tenant's operation is answered like a
  missing one, and a deployment, a restart that may have run, or an operation that has not failed
  is refused as a conflict; in every case database and published events stay as they are.
\<close>

lemma refused_retry_changes_nothing:
  assumes "db_ok (sys_db s)" and "r \<in> set (db_operations (sys_db s))"
    and "op_tenantId r \<noteq> Some tid \<or> retry_blocked r"
  shows "service_retry s now eid tid (op_id r) =
    (s, Inl (if op_tenantId r \<noteq> Some tid then NotFoundException ''Operation not found''
             else ConflictException ''OperationNotRetryable''))"
proof (cases "op_tenantId r = Some tid")
  case True
  then show ?thesis
    using assms(3) by (simp add: service_retry_def service_get_def getOperation_Some [OF assms(1,2)])
next
  case False
  have "getOperation (sys_db s) tid (op_id r) = None"
  proof (rule ccontr)
    assume "getOperation (sys_db s) tid (op_id r) \<noteq> None"
    then obtain x where "getOperation (sys_db s) tid (op_id r) = Some x" by blast
    then have x: "x \<in> set (db_operations (sys_db s))" "op_id x = op_id r" "op_tenantId x = Some tid"
      by (auto dest: getOperation_SomeD)
    moreover have "distinct (map op_id (db_operations (sys_db s)))" using assms(1) by (simp add: db_ok_def)
    ultimately have "x = r" using assms(2) by (blast intro: distinct_key_eq)
    with False x(3) show False by simp
  qed
  then show ?thesis using False by (simp add: service_retry_def service_get_def)
qed

definition sample_failed :: operation where
  "sample_failed = (new_operation sample_input 1000 ''o1'')\<lparr>op_type := VOLUME_CREATE, op_status := Failed,
     op_attempt := 1, op_errorCode := Some ''x'', op_completedAt := Some 5000\<rparr>"

definition sample_system :: op_system where
  "sample_system = \<lparr>sys_db = \<lparr>db_operations = [sample_failed], db_events = []\<rparr>, sys_published = []\<rparr>"

lemma sample_system_ok: "db_ok (sys_db sample_system)"
  by (simp add: sample_system_def sample_failed_def db_ok_def keyed_idents_def op_ident_def row_ok_def
    final_status_def new_operation_def sample_input_def)

end
