(* ===== verification/Dates.thy ===== *)
theory Dates
  imports Prelude
begin

text \<open>
  \<open>Date\<close> values of the JavaScript standard library: a time value is a number of milliseconds
  since 1970-01-01T00:00:00Z (\<open>millis\<close>). \<open>iso_string\<close> is \<open>Date.prototype.toISOString\<close> for the
  years 0 to 9999, by the usual conversion of a day number to a civil date in years that start
  on the first of March.
\<close>

definition civil_of_days :: "int \<Rightarrow> int \<times> int \<times> int" where
  "civil_of_days days =
     (let z = days + 719468;
          era = z div 146097;
          doe = z mod 146097;
          yoe = (doe - doe div 1460 + doe div 36524 - doe div 146096) div 365;
          doy = doe - (365 * yoe + yoe div 4 - yoe div 100);
          mp = (5 * doy + 2) div 153;
          d = doy - (153 * mp + 2) div 5 + 1;
          m = (if mp < 10 then mp + 3 else mp - 9);
          y = yoe + era * 400 + (if m \<le> 2 then 1 else 0)
      in (y, m, d))"

definition pad_to :: "nat \<Rightarrow> string \<Rightarrow> string" where
  "pad_to n s = replicate (n - length s) CHR ''0'' @ s"

definition iso_string :: "millis \<Rightarrow> string" where
  "iso_string t =
     (case civil_of_days (t div 86400000) of (y, m, d) \<Rightarrow>
        let r = t mod 86400000 in
        pad_to 4 (show_int y) @ ''-'' @ pad_to 2 (show_int m) @ ''-'' @ pad_to 2 (show_int d) @ ''T'' @
        pad_to 2 (show_int (r div 3600000)) @ '':'' @ pad_to 2 (show_int (r div 60000 mod 60)) @ '':'' @
        pad_to 2 (show_int (r div 1000 mod 60)) @ ''.'' @ pad_to 3 (show_int (r mod 1000)) @ ''Z'')"

text \<open>Rounding down to a full minute: \<open>setUTCSeconds(0, 0)\<close>.\<close>

definition floor_minute :: "millis \<Rightarrow> millis" where
  "floor_minute t = t - t mod 60000"

lemma floor_minute_le: "floor_minute t \<le> t"
  by (simp add: floor_minute_def)

lemma floor_minute_close: "t < floor_minute t + 60000"
  by (simp add: floor_minute_def)

lemma floor_minute_aligned [simp]: "floor_minute t mod 60000 = 0"
  by (simp add: floor_minute_def mod_diff_eq)

lemma floor_minute_id: "t mod 60000 = 0 \<Longrightarrow> floor_minute t = t"
  by (simp add: floor_minute_def)

end
