(* ===== verification/OperationsWorker.thy ===== *)
theory OperationsWorker
  imports OperationsService Dates
begin

text \<open>
  \<open>operations-worker.service.ts\<close>: one pass of a worker, \<open>processNext\<close>, with its error path
  \<open>handleExecutionError\<close>, and \<open>operation-executor-registry.ts\<close>. An executor is a function of the
  operation that returns a result or throws; what it does to the rest of the platform is not the
  queue's business. While it runs, other workers, heartbeats and requests change the database:
  \<open>during\<close> is that change. \<open>now\<close> is the time before execution, \<open>later\<close> the time after it;
  \<open>fresh n\<close> is the n-th UUID drawn. Structured log lines are left out.

  Every change a pass makes is a sequence of steps of the transition system of \<open>OperationsQueue\<close>, so
  every invariant proved there holds for the workers.
\<close>

subsection \<open>The executor registry\<close>

record executor =
  ex_types :: "operation_type list"
  ex_execute :: "operation \<Rightarrow> thrown + execution_result"

primrec type_name :: "operation_type \<Rightarrow> string" where
  "type_name APP_GROUP_DEPLOY = ''APP_GROUP_DEPLOY''"
| "type_name APP_GROUP_ROLLBACK = ''APP_GROUP_ROLLBACK''"
| "type_name APP_GROUP_DELETE = ''APP_GROUP_DELETE''"
| "type_name APP_GROUP_START = ''APP_GROUP_START''"
| "type_name APP_GROUP_STOP = ''APP_GROUP_STOP''"
| "type_name APP_GROUP_RESTART = ''APP_GROUP_RESTART''"
| "type_name SINGLE_APP_START = ''SINGLE_APP_START''"
| "type_name SINGLE_APP_STOP = ''SINGLE_APP_STOP''"
| "type_name SINGLE_APP_RESTART = ''SINGLE_APP_RESTART''"
| "type_name VOLUME_CREATE = ''VOLUME_CREATE''"
| "type_name VOLUME_RESIZE = ''VOLUME_RESIZE''"
| "type_name VOLUME_DELETE = ''VOLUME_DELETE''"
| "type_name DOMAIN_VERIFY = ''DOMAIN_VERIFY''"
| "type_name CUSTOM_ROOT_DOMAIN_VERIFY = ''CUSTOM_ROOT_DOMAIN_VERIFY''"
| "type_name DOMAIN_CERTIFICATE_RECONCILE = ''DOMAIN_CERTIFICATE_RECONCILE''"
| "type_name SWARM_RECONCILE = ''SWARM_RECONCILE''"
| "type_name SWARM_NODE_MAINTENANCE = ''SWARM_NODE_MAINTENANCE''"
| "type_name SWARM_GPU_DIAGNOSE = ''SWARM_GPU_DIAGNOSE''"
| "type_name SWARM_GPU_RECOVER = ''SWARM_GPU_RECOVER''"
| "type_name STORAGE_BACKEND_VALIDATE = ''STORAGE_BACKEND_VALIDATE''"
| "type_name INSTALLER_ENROLLMENT_PREPARE = ''INSTALLER_ENROLLMENT_PREPARE''"
| "type_name INSTALLER_ENROLLMENT_COMPLETE = ''INSTALLER_ENROLLMENT_COMPLETE''"
| "type_name PLATFORM_RELEASE_UPDATE = ''PLATFORM_RELEASE_UPDATE''"
| "type_name NETWORK_TOPOLOGY_CHANGE = ''NETWORK_TOPOLOGY_CHANGE''"

type_synonym registry = "operation_type \<rightharpoonup> executor"

fun register_types :: "executor \<Rightarrow> operation_type list \<Rightarrow> registry \<Rightarrow> op_error + registry" where
  "register_types ex [] m = Inr m"
| "register_types ex (t # ts) m =
     (if m t \<noteq> None then Inl (PlainError (''DuplicateOperationExecutor: '' @ type_name t))
      else register_types ex ts (m(t \<mapsto> ex)))"

fun register_all :: "executor list \<Rightarrow> registry \<Rightarrow> op_error + registry" where
  "register_all [] m = Inr m"
| "register_all (ex # exs) m =
     (case register_types ex (ex_types ex) m of Inl e \<Rightarrow> Inl e | Inr m' \<Rightarrow> register_all exs m')"

definition new_registry :: "executor list \<Rightarrow> op_error + registry" where
  "new_registry exs = register_all exs Map.empty"

definition plain_thrown :: "string \<Rightarrow> thrown" where
  "plain_thrown msg = \<lparr>th_value = JObj [(''message'', JStr msg)], th_isError = True, th_text = ''Error: '' @ msg\<rparr>"

definition resolve :: "registry \<Rightarrow> operation_type \<Rightarrow> thrown + executor" where
  "resolve m t =
     (case m t of None \<Rightarrow> Inl (plain_thrown (''UnsupportedOperationType: '' @ type_name t)) | Some ex \<Rightarrow> Inr ex)"

definition run_executor :: "registry \<Rightarrow> operation \<Rightarrow> thrown + execution_result" where
  "run_executor m r = (case resolve m (op_type r) of Inl e \<Rightarrow> Inl e | Inr ex \<Rightarrow> ex_execute ex r)"

subsection \<open>Events of a pass\<close>

record worker_state = op_system +
  ws_drawn :: nat

definition json_text :: "string option \<Rightarrow> json" where
  "json_text v = (case v of None \<Rightarrow> JNull | Some s \<Rightarrow> JStr s)"

definition json_int :: "int \<Rightarrow> json" where
  "json_int i = JNum (show_int i)"

definition safeAppendEvent ::
  "(nat \<Rightarrow> uuid) \<Rightarrow> millis \<Rightarrow> uuid \<Rightarrow> append_event_input \<Rightarrow> worker_state \<Rightarrow> worker_state" where
  "safeAppendEvent fresh now oid i st =
     st\<lparr>sys_db := fst (appendEvent (sys_db st) now (fresh (ws_drawn st)) oid i), ws_drawn := Suc (ws_drawn st)\<rparr>"

definition safePublish ::
  "operation \<Rightarrow> operation_status \<Rightarrow> string \<Rightarrow> json option \<Rightarrow> uuid option \<Rightarrow> worker_state \<Rightarrow> worker_state" where
  "safePublish r status event details resourceId st = publish (lifecycle r status event details resourceId) st"

definition worker_event :: "string option \<Rightarrow> string option \<Rightarrow> string \<Rightarrow> string \<Rightarrow> json option \<Rightarrow> append_event_input" where
  "worker_event phase level event msg details =
     \<lparr>ei_phase = phase, ei_level = level, ei_event = event, ei_message = msg, ei_details = details\<rparr>"

definition note_stale :: "(nat \<Rightarrow> uuid) \<Rightarrow> millis \<Rightarrow> operation \<Rightarrow> worker_state \<Rightarrow> worker_state" where
  "note_stale fresh now r st =
     (let details = Some (JObj [(''queueAgeMs'', json_int (now - op_createdAt r)),
                                (''errorCode'', json_text (op_errorCode r))])
      in safePublish r Failed ''RestartQueueTimeout'' details (op_resourceId r)
           (safeAppendEvent fresh now (op_id r)
             (worker_event None (Some ''Error'') ''RestartQueueTimeout''
               ''SingleApp restart expired without being claimed by a worker'' details) st))"

definition note_exhausted :: "(nat \<Rightarrow> uuid) \<Rightarrow> millis \<Rightarrow> operation \<Rightarrow> worker_state \<Rightarrow> worker_state" where
  "note_exhausted fresh now r st =
     (let details = Some (JObj [(''attempt'', json_int (op_attempt r)),
                                (''maxAttempts'', json_int (op_maxAttempts r)),
                                (''errorCode'', json_text (op_errorCode r)),
                                (''errorMessage'', json_text (op_errorMessage r))])
      in safePublish r Failed ''ExecutionAttemptsExhausted'' details (op_resourceId r)
           (safeAppendEvent fresh now (op_id r)
             (worker_event (op_phase r) (Some ''Error'') ''ExecutionAttemptsExhausted''
               ''Operation execution attempts were exhausted'' details) st))"

definition sweep_stale :: "(nat \<Rightarrow> uuid) \<Rightarrow> millis \<Rightarrow> worker_state \<Rightarrow> worker_state \<times> operation list" where
  "sweep_stale fresh now st =
     (let (db, rows) = failStaleQueuedRestarts (sys_db st) now
      in (fold (note_stale fresh now) rows (st\<lparr>sys_db := db\<rparr>), rows))"

definition sweep_exhausted :: "(nat \<Rightarrow> uuid) \<Rightarrow> millis \<Rightarrow> worker_state \<Rightarrow> worker_state \<times> operation list" where
  "sweep_exhausted fresh now st =
     (let (db, rows) = failExhaustedOperations (sys_db st) now
      in (fold (note_exhausted fresh now) rows (st\<lparr>sys_db := db\<rparr>), rows))"

subsection \<open>Outcomes\<close>

definition note_started :: "(nat \<Rightarrow> uuid) \<Rightarrow> millis \<Rightarrow> string \<Rightarrow> operation \<Rightarrow> worker_state \<Rightarrow> worker_state" where
  "note_started fresh now workerId r st =
     (let details = Some (JObj [(''attempt'', json_int (op_attempt r)), (''workerId'', JStr workerId)])
      in safePublish r Running ''ExecutionStarted'' details (op_resourceId r)
           (safeAppendEvent fresh now (op_id r)
             (worker_event (op_phase r) None ''ExecutionStarted''
               (''Operation execution started by worker '' @ workerId) details) st))"

definition canRetry :: "operation \<Rightarrow> thrown \<Rightarrow> bool" where
  "canRetry r err \<longleftrightarrow> isRetryableOperationError err \<and> op_attempt r < op_maxAttempts r"

definition handleExecutionError ::
  "(nat \<Rightarrow> uuid) \<Rightarrow> millis \<Rightarrow> string \<Rightarrow> operation \<Rightarrow> thrown \<Rightarrow> worker_state \<Rightarrow> worker_state \<times> operation option" where
  "handleExecutionError fresh now workerId r err st =
     (let errorCode = operationErrorCode err; errorMessage = operationErrorMessage err in
      if canRetry r err then
        (let retryDelayMs = computeRetryDelayMs (op_attempt r) DEFAULT_BASE_DELAY_MS DEFAULT_MAX_DELAY_MS;
             nextAttemptAt = now + retryDelayMs;
             details = Some (JObj [(''attempt'', json_int (op_attempt r)), (''errorCode'', JStr errorCode),
               (''errorMessage'', JStr errorMessage), (''nextAttemptAt'', JStr (iso_string nextAttemptAt))])
         in case scheduleRetry (sys_db st) now (op_id r) workerId nextAttemptAt errorCode errorMessage of
              (db, None) \<Rightarrow> (st\<lparr>sys_db := db\<rparr>, None)
            | (db, Some pending) \<Rightarrow>
                (safePublish r Pending ''RetryScheduled'' details (op_resourceId r)
                   (safeAppendEvent fresh now (op_id r)
                     (worker_event (op_phase r) (Some ''Warn'') ''RetryScheduled''
                       (''Operation retry scheduled after '' @ show_int retryDelayMs @ ''ms'') details)
                     (st\<lparr>sys_db := db\<rparr>)), Some pending))
      else
        (let details = Some (JObj [(''attempt'', json_int (op_attempt r)), (''errorCode'', JStr errorCode),
               (''errorMessage'', JStr errorMessage)])
         in case markFailed (sys_db st) now (op_id r) workerId errorCode errorMessage Failed of
              (db, None) \<Rightarrow> (st\<lparr>sys_db := db\<rparr>, None)
            | (db, Some failed) \<Rightarrow>
                (safePublish r Failed ''ExecutionFailed'' details (op_resourceId r)
                   (safeAppendEvent fresh now (op_id r)
                     (worker_event (op_phase r) (Some ''Error'') ''ExecutionFailed''
                       ''Operation execution failed'' details)
                     (st\<lparr>sys_db := db\<rparr>)), Some failed)))"

definition handleSuccess ::
  "(nat \<Rightarrow> uuid) \<Rightarrow> millis \<Rightarrow> string \<Rightarrow> operation \<Rightarrow> execution_result \<Rightarrow> worker_state \<Rightarrow> worker_state \<times> operation option" where
  "handleSuccess fresh now workerId r x st =
     (let result = Some (option_or (ex_result x) JNull);
          terminal = option_or (ex_terminalStatus x) Succeeded
      in case markSucceeded (sys_db st) now (op_id r) workerId result (ex_resourceId x) terminal of
           (db, None) \<Rightarrow> (st\<lparr>sys_db := db\<rparr>, None)
         | (db, Some completed) \<Rightarrow>
             (safePublish r terminal ''ExecutionSucceeded'' result (coalesce (ex_resourceId x) (op_resourceId r))
                (safeAppendEvent fresh now (op_id r)
                  (worker_event (op_phase r) None ''ExecutionSucceeded'' ''Operation execution succeeded'' result)
                  (st\<lparr>sys_db := db\<rparr>)), Some completed))"

definition finish_execution ::
  "(nat \<Rightarrow> uuid) \<Rightarrow> millis \<Rightarrow> string \<Rightarrow> operation \<Rightarrow> thrown + execution_result \<Rightarrow> worker_state
     \<Rightarrow> worker_state \<times> operation option" where
  "finish_execution fresh now workerId r outcome st =
     (case outcome of
        Inl err \<Rightarrow> handleExecutionError fresh now workerId r err st
      | Inr x \<Rightarrow> handleSuccess fresh now workerId r x st)"

definition processNext ::
  "(nat \<Rightarrow> uuid) \<Rightarrow> registry \<Rightarrow> (op_db \<Rightarrow> op_db) \<Rightarrow> (uuid \<Rightarrow> bool) \<Rightarrow> millis \<Rightarrow> millis \<Rightarrow> string \<Rightarrow> int
     \<Rightarrow> worker_state \<Rightarrow> worker_state \<times> (op_error + operation option)" where
  "processNext fresh reg during locked now later workerId leaseSeconds st0 =
     (let (st1, stale) = sweep_stale fresh now st0;
          (st2, exh) = sweep_exhausted fresh now st1
      in case claimNext (sys_db st2) now locked workerId leaseSeconds (fresh (ws_drawn st2)) of
           (db, Inl e) \<Rightarrow> (st2\<lparr>sys_db := db, ws_drawn := Suc (ws_drawn st2)\<rparr>, Inl e)
         | (db, Inr None) \<Rightarrow> (st2\<lparr>sys_db := db\<rparr>, Inr (coalesce (head_opt stale) (head_opt exh)))
         | (db, Inr (Some r)) \<Rightarrow>
             (let st3 = note_started fresh now workerId r (st2\<lparr>sys_db := db, ws_drawn := Suc (ws_drawn st2)\<rparr>);
                  st4 = st3\<lparr>sys_db := during (sys_db st3)\<rparr>;
                  (st5, res) = finish_execution fresh later workerId r (run_executor reg r) st4
              in (st5, Inr res)))"


subsection \<open>Every change is a step of the queue\<close>

abbreviation steps :: "op_db \<Rightarrow> op_db \<Rightarrow> bool" where
  "steps \<equiv> queue_step\<^sup>*\<^sup>*"

lemma sys_db_safePublish [simp]: "sys_db (safePublish r st ev d rid s) = sys_db s"
  by (simp add: safePublish_def publish_def)

lemma ei_event_worker_event [simp]: "ei_event (worker_event p l e m d) = e"
  by (simp add: worker_event_def)

lemma safeAppendEvent_steps:
  "ei_event i \<noteq> ''OperationClaimed'' \<Longrightarrow> steps (sys_db st) (sys_db (safeAppendEvent fresh now oid i st))"
  by (simp add: safeAppendEvent_def) (blast intro: step_event)

lemma note_stale_steps: "steps (sys_db st) (sys_db (note_stale fresh now r st))"
  by (simp add: note_stale_def Let_def safeAppendEvent_steps)

lemma note_exhausted_steps: "steps (sys_db st) (sys_db (note_exhausted fresh now r st))"
  by (simp add: note_exhausted_def Let_def safeAppendEvent_steps)

lemma note_started_steps: "steps (sys_db st) (sys_db (note_started fresh now w r st))"
  by (simp add: note_started_def Let_def safeAppendEvent_steps)

lemma fold_steps:
  assumes "\<And>r st. steps (sys_db st) (sys_db (f r st))"
  shows "steps (sys_db st) (sys_db (fold f rs (st :: worker_state)))"
proof (induction rs arbitrary: st)
  case (Cons r rs)
  have "steps (sys_db (f r st)) (sys_db (fold f rs (f r st)))" by (rule Cons.IH)
  with assms [of st r] show ?case by (simp add: rtranclp_trans)
qed simp

lemma sweep_stale_steps: "steps (sys_db st) (sys_db (fst (sweep_stale fresh now st)))"
proof -
  let ?db = "fst (failStaleQueuedRestarts (sys_db st) now)"
  have "steps ?db (sys_db (fold (note_stale fresh now) rows (st\<lparr>sys_db := ?db\<rparr>)))" for rows
    using fold_steps [OF note_stale_steps, of "st\<lparr>sys_db := ?db\<rparr>"] by simp
  moreover have "steps (sys_db st) ?db" by (blast intro: step_stale)
  ultimately show ?thesis
    by (simp add: sweep_stale_def split: prod.split) (metis fst_conv rtranclp_trans)
qed

lemma sweep_exhausted_steps: "steps (sys_db st) (sys_db (fst (sweep_exhausted fresh now st)))"
proof -
  let ?db = "fst (failExhaustedOperations (sys_db st) now)"
  have "steps ?db (sys_db (fold (note_exhausted fresh now) rows (st\<lparr>sys_db := ?db\<rparr>)))" for rows
    using fold_steps [OF note_exhausted_steps, of "st\<lparr>sys_db := ?db\<rparr>"] by simp
  moreover have "steps (sys_db st) ?db" by (blast intro: step_exhausted)
  ultimately show ?thesis
    by (simp add: sweep_exhausted_def split: prod.split) (metis fst_conv rtranclp_trans)
qed

definition typed_result :: "execution_result \<Rightarrow> bool" where
  "typed_result x \<longleftrightarrow> ex_terminalStatus x \<in> {None, Some Succeeded, Some RolledBack}"

lemma typed_terminal: "typed_result x \<Longrightarrow> option_or (ex_terminalStatus x) Succeeded \<in> {Succeeded, RolledBack}"
  by (auto simp: typed_result_def)

lemma append_after_step:
  assumes "queue_step (sys_db st) db" and "ei_event i \<noteq> ''OperationClaimed''"
  shows "steps (sys_db st) (sys_db (safeAppendEvent fresh now oid i (st\<lparr>sys_db := db\<rparr>)))"
  using safeAppendEvent_steps [OF assms(2), of "st\<lparr>sys_db := db\<rparr>" fresh now oid] assms(1)
  by (simp add: converse_rtranclp_into_rtranclp)

lemma handleSuccess_steps:
  assumes "typed_result x"
  shows "steps (sys_db st) (sys_db (fst (handleSuccess fresh now w r x st)))"
proof -
  obtain db res where eq: "markSucceeded (sys_db st) now (op_id r) w (Some (option_or (ex_result x) JNull))
      (ex_resourceId x) (option_or (ex_terminalStatus x) Succeeded) = (db, res)" by fastforce
  then have "queue_step (sys_db st) db"
    using step_succeed [OF typed_terminal [OF assms]] by (metis fst_conv)
  then show ?thesis using eq
    by (auto simp: handleSuccess_def Let_def split: option.split intro: append_after_step)
qed

lemma handleExecutionError_steps:
  "steps (sys_db st) (sys_db (fst (handleExecutionError fresh now w r err st)))"
proof -
  let ?c = "operationErrorCode err" and ?m = "operationErrorMessage err"
  let ?at = "now + computeRetryDelayMs (op_attempt r) DEFAULT_BASE_DELAY_MS DEFAULT_MAX_DELAY_MS"
  obtain db1 res1 where eq1: "scheduleRetry (sys_db st) now (op_id r) w ?at ?c ?m = (db1, res1)" by fastforce
  obtain db2 res2 where eq2: "markFailed (sys_db st) now (op_id r) w ?c ?m Failed = (db2, res2)" by fastforce
  have "queue_step (sys_db st) db1" using step_retry eq1 by (metis fst_conv)
  moreover have "queue_step (sys_db st) db2"
    using step_fail [of Failed "sys_db st" now "op_id r" w ?c ?m] eq2 by simp
  ultimately show ?thesis using eq1 eq2
    by (auto simp: handleExecutionError_def Let_def split: option.split intro: append_after_step)
qed

lemma finish_execution_steps:
  "(\<And>x. outcome = Inr x \<Longrightarrow> typed_result x) \<Longrightarrow>
     steps (sys_db st) (sys_db (fst (finish_execution fresh now w r outcome st)))"
  by (cases outcome) (auto simp: finish_execution_def handleSuccess_steps handleExecutionError_steps)

text \<open>
  Whatever a pass finds, whichever executor it runs and whatever happens to the database while the
  executor runs, the database it leaves is reached from the one it found by steps of the queue, so the
  worker preserves every invariant of the queue. What a pass does is the subject of \<open>OperationsPass\<close>.
\<close>

lemma processNext_steps:
  assumes "\<And>db. queue_step\<^sup>*\<^sup>* db (during db)"
    and "\<And>r x. run_executor reg r = Inr x \<Longrightarrow> typed_result x"
  shows "queue_step\<^sup>*\<^sup>* (sys_db st) (sys_db (fst (processNext fresh reg during locked now later w secs st)))"
proof -
  obtain st1 stale where s1: "sweep_stale fresh now st = (st1, stale)" by fastforce
  obtain st2 exh where s2: "sweep_exhausted fresh now st1 = (st2, exh)" by fastforce
  have swept: "steps (sys_db st) (sys_db st2)"
    using sweep_stale_steps [of st fresh now] sweep_exhausted_steps [of st1 fresh now] s1 s2 by simp
  obtain db res where c: "claimNext (sys_db st2) now locked w secs (fresh (ws_drawn st2)) = (db, res)" by fastforce
  then have "queue_step (sys_db st2) db" by (metis fst_conv step_claim)
  with swept have claimed: "steps (sys_db st) db" by simp
  show ?thesis
  proof (cases "\<exists>r. res = Inr (Some r)")
    case True
    then obtain r where r: "res = Inr (Some r)" ..
    let ?st3 = "note_started fresh now w r (st2\<lparr>sys_db := db, ws_drawn := Suc (ws_drawn st2)\<rparr>)"
    let ?st4 = "?st3\<lparr>sys_db := during (sys_db ?st3)\<rparr>"
    have "steps db (sys_db ?st3)"
      using note_started_steps [of "st2\<lparr>sys_db := db, ws_drawn := Suc (ws_drawn st2)\<rparr>" fresh now w r] by simp
    also have "steps (sys_db ?st3) (sys_db ?st4)" using assms(1) by simp
    also have "steps (sys_db ?st4) (sys_db (fst (finish_execution fresh later w r (run_executor reg r) ?st4)))"
      by (rule finish_execution_steps) (rule assms(2))
    finally have "steps db (sys_db (fst (finish_execution fresh later w r (run_executor reg r) ?st4)))" .
    from rtranclp_trans [OF claimed this] show ?thesis
      by (simp add: processNext_def Let_def s1 s2 c r case_prod_beta)
  next
    case False
    then have "sys_db (fst (processNext fresh reg during locked now later w secs st)) = db"
      by (auto simp: processNext_def Let_def s1 s2 c split: sum.split option.split)
    then show ?thesis using claimed by simp
  qed
qed

text \<open>
  An execution that lost its lease leaves no trace: if, when the executor returns or throws,
  the worker no longer owns the operation, the outcome is null and database, events and published
  notifications are exactly as the worker found them.
\<close>

lemma stale_execution_leaves_no_trace:
  assumes "\<forall>x \<in> set (db_operations (sys_db st)). op_id x = op_id r \<longrightarrow> op_leaseOwner x \<noteq> Some w"
  shows "finish_execution fresh now w r outcome st = (st, None)"
  using lost_lease [OF assms]
  by (auto simp: finish_execution_def handleSuccess_def handleExecutionError_def Let_def split: sum.split)

subsection \<open>The row of an operation\<close>

lemma leased_rows:
  assumes "db_ok db" and "x \<in> set (db_operations db)" and "op_leaseOwner x = Some w"
  shows "snd (run_update (holds_lease (op_id x) w) f db) = [f x]"
proof -
  have "filter (holds_lease (op_id x) w) (db_operations db) =
      filter (holds_lease (op_id x) w) (filter (\<lambda>y. op_id y = op_id x) (db_operations db))"
    by (auto simp: holds_lease_def intro: filter_cong)
  also have "filter (\<lambda>y. op_id y = op_id x) (db_operations db) = [x]"
    using assms(1,2) by (simp add: db_ok_def filter_key_singleton)
  also have "filter (holds_lease (op_id x) w) [x] = [x]" using assms(3) by (simp add: holds_lease_def)
  finally have "filter (holds_lease (op_id x) w) (db_operations db) = [x]" .
  then show ?thesis by (simp only: snd_run_update update_where_rows list.map)
qed

subsection \<open>The registry\<close>

lemma register_types_Inr:
  "register_types ex ts m = Inr m' \<Longrightarrow>
     distinct ts \<and> set ts \<inter> dom m = {} \<and> m' = (\<lambda>t. if t \<in> set ts then Some ex else m t)"
proof (induction ts arbitrary: m)
  case (Cons t ts)
  then have "m t = None" and "register_types ex ts (m(t \<mapsto> ex)) = Inr m'" by (auto split: if_splits)
  with Cons.IH [OF this(2)] show ?case by (auto simp: fun_eq_iff)
qed auto

lemma register_types_ok:
  "distinct ts \<Longrightarrow> set ts \<inter> dom m = {} \<Longrightarrow> \<exists>m'. register_types ex ts m = Inr m'"
  by (induction ts arbitrary: m) (auto simp: domIff)

lemma register_all_Inr:
  "register_all exs m = Inr m' \<Longrightarrow>
     distinct (concat (map ex_types exs)) \<and> dom m \<inter> set (concat (map ex_types exs)) = {} \<and>
     (\<forall>t. m' t = (case find (\<lambda>ex. t \<in> set (ex_types ex)) exs of None \<Rightarrow> m t | Some ex \<Rightarrow> Some ex))"
proof (induction exs arbitrary: m)
  case (Cons ex exs)
  then obtain m1 where m1: "register_types ex (ex_types ex) m = Inr m1" "register_all exs m1 = Inr m'"
    by (auto split: sum.splits)
  note t = register_types_Inr [OF m1(1)]
  note a = Cons.IH [OF m1(2)]
  have dom: "dom m1 = set (ex_types ex) \<union> dom m" using t by (auto simp: dom_def)
  have "distinct (concat (map ex_types (ex # exs)))" using t a dom by auto
  moreover have "dom m \<inter> set (concat (map ex_types (ex # exs))) = {}" using t a dom by auto
  moreover have "m' u = (case find (\<lambda>ex. u \<in> set (ex_types ex)) (ex # exs) of None \<Rightarrow> m u | Some ex \<Rightarrow> Some ex)" for u
  proof (cases "u \<in> set (ex_types ex)")
    case True
    then have "u \<notin> set (concat (map ex_types exs))" using a dom by auto
    then have "find (\<lambda>ex. u \<in> set (ex_types ex)) exs = None" by (auto simp: find_None_iff)
    then show ?thesis using True a t by simp
  next
    case False
    then have "m1 u = m u" using t by simp
    then show ?thesis using False a by (simp split: option.split)
  qed
  ultimately show ?case by blast
qed simp

text \<open>
  The executor registry is unambiguous: it is built exactly when no operation type is claimed
  twice, and then a type resolves to the one executor that lists it, or to an error naming the
  type when none does.
\<close>

lemma registry_unambiguous:
  "new_registry exs = Inr m \<Longrightarrow>
     distinct (concat (map ex_types exs)) \<and>
     resolve m t = (case find (\<lambda>ex. t \<in> set (ex_types ex)) exs of
        None \<Rightarrow> Inl (plain_thrown (''UnsupportedOperationType: '' @ type_name t)) | Some ex \<Rightarrow> Inr ex)"
  using register_all_Inr [of exs Map.empty m]
  by (simp add: new_registry_def resolve_def split: option.splits)

end
