(* ===== verification/OperationsPass.thy ===== *)
theory OperationsPass
  imports OperationsWorker
begin

text \<open>
  What a pass of the worker does to the table of operations, stated without the statements of the
  repository: \<open>worker_pass\<close> is an abstract pass on the rows alone (expired rows fail, the earliest due row
  is claimed, others work, the outcome is written to the row if the worker still owns it), and
  \<open>processNext\<close> refines it. The reading of a thrown value and the back-off are specified anew, on the
  properties of the value and as a recursion.
\<close>

section \<open>Thrown values and back-off\<close>

text \<open>The value the decision is read from: the exception when it has a code or a flag, else its response, if
  that is an object.\<close>

definition error_source :: "json \<Rightarrow> json" where
  "error_source v =
     (if (\<exists>c. property v ''code'' = Some (JStr c)) \<or> (\<exists>b. property v ''retryable'' = Some (JBool b)) then v
      else (case property v ''response'' of Some (JObj kvs) \<Rightarrow> JObj kvs | Some (JArr xs) \<Rightarrow> JArr xs | _ \<Rightarrow> v))"

text \<open>A flag decides; without one, six codes are worth another attempt.\<close>

definition worth_retrying :: "thrown \<Rightarrow> bool" where
  "worth_retrying err \<longleftrightarrow>
     (let s = error_source (th_value err) in
      case property s ''retryable'' of
        Some (JBool b) \<Rightarrow> b
      | _ \<Rightarrow> (\<exists>c. property s ''code'' = Some (JStr c) \<and>
               c \<in> {''PlatformUnavailable'', ''InsufficientCapacity'', ''CertificateObservationFailed'',
                    ''DnsResolverUnavailable'', ''NetworkUnavailable'', ''StorageBackendUnavailable''}))"

definition reported_code :: "thrown \<Rightarrow> string" where
  "reported_code err =
     (case property (error_source (th_value err)) ''code'' of Some (JStr c) \<Rightarrow> c | _ \<Rightarrow> ''OperationExecutionFailed'')"

definition reported_text :: "thrown \<Rightarrow> string" where
  "reported_text err =
     (if th_isError err then (case property (th_value err) ''message'' of Some (JStr m) \<Rightarrow> m | _ \<Rightarrow> [])
      else (case property (error_source (th_value err)) ''message'' of Some (JStr m) \<Rightarrow> m | _ \<Rightarrow> th_text err))"

text \<open>Five seconds after the first attempt, twice as long after each further one, five minutes at most.\<close>

fun backoff_after :: "nat \<Rightarrow> int" where
  "backoff_after 0 = 5000"
| "backoff_after (Suc n) = min 300000 (2 * backoff_after n)"

lemma string_property_Some: "string_property v k = Some c \<longleftrightarrow> property v k = Some (JStr c)"
  by (auto simp: string_property_def split: option.splits json.splits)

lemma bool_property_Some: "bool_property v k = Some b \<longleftrightarrow> property v k = Some (JBool b)"
  by (auto simp: bool_property_def split: option.splits json.splits)

lemma no_property: "\<not> isRecord v \<Longrightarrow> property v k = None"
  by (cases v) auto

lemma errorShape_source: "errorShape v = pickErrorShape (error_source v)"
proof (cases "isRecord v")
  case False
  then show ?thesis
    by (simp add: errorShape_def error_source_def pickErrorShape_def string_property_def bool_property_def no_property)
next
  case True
  let ?direct = "pickErrorShape v"
  have direct: "es_code ?direct \<noteq> None \<or> es_retryable ?direct \<noteq> None \<longleftrightarrow>
      (\<exists>c. property v ''code'' = Some (JStr c)) \<or> (\<exists>b. property v ''retryable'' = Some (JBool b))"
    by (simp only: pickErrorShape_def error_shape.select_convs not_None_eq string_property_Some bool_property_Some)
  have response: "(case property v ''response'' of Some response \<Rightarrow> if isRecord response then pickErrorShape response else ?direct | None \<Rightarrow> ?direct) =
      pickErrorShape (case property v ''response'' of Some (JObj kvs) \<Rightarrow> JObj kvs | Some (JArr xs) \<Rightarrow> JArr xs | _ \<Rightarrow> v)"
    by (simp split: option.split json.split)
  show ?thesis
  proof (cases "es_code ?direct \<noteq> None \<or> es_retryable ?direct \<noteq> None")
    case d: True
    then show ?thesis unfolding errorShape_def error_source_def Let_def direct [symmetric] using True by simp
  next
    case False
    then show ?thesis unfolding errorShape_def error_source_def Let_def direct [symmetric] response using True by simp
  qed
qed

lemma retryable_spec: "isRetryableOperationError err = worth_retrying err"
proof -
  let ?s = "error_source (th_value err)"
  have codes: "c \<in> {''PlatformUnavailable'', ''InsufficientCapacity'', ''CertificateObservationFailed'',
      ''DnsResolverUnavailable'', ''NetworkUnavailable'', ''StorageBackendUnavailable''} \<longleftrightarrow> c \<in> set RETRYABLE_ERROR_CODES" for c
    by (simp add: RETRYABLE_ERROR_CODES_def)
  have code: "(case string_property ?s ''code'' of None \<Rightarrow> False | Some c \<Rightarrow> c \<in> set RETRYABLE_ERROR_CODES) \<longleftrightarrow>
      (\<exists>c. property ?s ''code'' = Some (JStr c) \<and> c \<in> set RETRYABLE_ERROR_CODES)" (is "?code = ?spec")
    by (cases "string_property ?s ''code''") (auto simp flip: string_property_Some)
  have flag: "isRetryableOperationError err = (case bool_property ?s ''retryable'' of Some b \<Rightarrow> b | None \<Rightarrow> ?code)"
    by (simp only: isRetryableOperationError_def errorShape_source pickErrorShape_def Let_def error_shape.select_convs)
  have "(case bool_property ?s ''retryable'' of Some b \<Rightarrow> b | None \<Rightarrow> ?spec) =
      (case property ?s ''retryable'' of Some (JBool b) \<Rightarrow> b | _ \<Rightarrow> ?spec)"
    by (simp add: bool_property_def split: option.split json.split)
  then show ?thesis unfolding worth_retrying_def Let_def codes flag code .
qed

lemma code_spec: "operationErrorCode err = reported_code err"
  unfolding operationErrorCode_def reported_code_def errorShape_source
  by (auto simp: pickErrorShape_def string_property_def option_or_def split: option.split json.split)

lemma text_spec: "operationErrorMessage err = reported_text err"
  unfolding operationErrorMessage_def reported_text_def errorShape_source
  by (auto simp: pickErrorShape_def string_property_def option_or_def split: option.split json.split)

lemma backoff_power: "backoff_after n = min 300000 (5000 * 2 ^ n)"
  by (induction n) (auto simp: min_def)

lemma delay_spec: "computeRetryDelayMs a DEFAULT_BASE_DELAY_MS DEFAULT_MAX_DELAY_MS = backoff_after (nat (a - 1))"
proof -
  have "nat (max 1 a - 1) = nat (a - 1)" by simp
  then show ?thesis
    by (simp add: computeRetryDelayMs_def DEFAULT_BASE_DELAY_MS_def DEFAULT_MAX_DELAY_MS_def backoff_power min.commute)
qed

section \<open>Rows\<close>

text \<open>A row that ended without success.\<close>

definition ended :: "millis \<Rightarrow> string \<Rightarrow> string \<Rightarrow> operation \<Rightarrow> operation" where
  "ended now code text1 x = x\<lparr>op_status := Failed, op_errorCode := Some code, op_errorMessage := Some text1,
     op_leaseOwner := None, op_leaseExpiresAt := None, op_heartbeatAt := Some now, op_completedAt := Some now\<rparr>"

text \<open>A restart that nobody claimed within ten minutes, and a row that is due with no attempt left.\<close>

definition overdue_restart :: "millis \<Rightarrow> operation \<Rightarrow> bool" where
  "overdue_restart now x \<longleftrightarrow>
     op_type x = SINGLE_APP_RESTART \<and> op_status x = Pending \<and> op_attempt x = 0 \<and> op_nextAttemptAt x + 600000 \<le> now"

definition spent :: "millis \<Rightarrow> operation \<Rightarrow> bool" where
  "spent now x \<longleftrightarrow> op_maxAttempts x \<le> op_attempt x \<and> due now x"

definition swept :: "millis \<Rightarrow> operation \<Rightarrow> operation" where
  "swept now x =
     (if overdue_restart now x
      then ended now ''RestartQueueTimeout'' ''SingleApp restart was not claimed within 10 minutes; no restart was executed'' x
      else if spent now x
      then (if op_type x = SINGLE_APP_RESTART
            then ended now ''RestartOutcomeUnknown''
                   ''SingleApp restart lease expired; execution may have occurred; automatic replay is disabled'' x
            else ended now ''OperationAttemptsExhausted''
                   ''Operation exhausted its execution attempts after retry or worker lease loss'' x)
      else x)"

text \<open>The outcome of the execution of \<open>r\<close> by the worker \<open>w\<close>, written to the row \<open>x\<close>.\<close>

definition owned_by :: "string \<Rightarrow> operation \<Rightarrow> operation \<Rightarrow> bool" where
  "owned_by w r x \<longleftrightarrow> op_id x = op_id r \<and> op_leaseOwner x = Some w"

definition failed_row :: "millis \<Rightarrow> operation \<Rightarrow> thrown \<Rightarrow> operation \<Rightarrow> operation" where
  "failed_row now r err x =
     (if worth_retrying err \<and> op_attempt r < op_maxAttempts r
      then x\<lparr>op_status := Pending, op_nextAttemptAt := now + backoff_after (nat (op_attempt r - 1)),
             op_errorCode := Some (reported_code err), op_errorMessage := Some (reported_text err),
             op_leaseOwner := None, op_leaseExpiresAt := None, op_heartbeatAt := Some now, op_completedAt := None\<rparr>
      else ended now (reported_code err) (reported_text err) x)"

definition completed_row :: "millis \<Rightarrow> execution_result \<Rightarrow> operation \<Rightarrow> operation" where
  "completed_row now res x = x\<lparr>op_status := option_or (ex_terminalStatus res) Succeeded,
     op_result := Some (option_or (ex_result res) JNull), op_resourceId := coalesce (ex_resourceId res) (op_resourceId x),
     op_errorCode := None, op_errorMessage := None, op_leaseOwner := None, op_leaseExpiresAt := None,
     op_heartbeatAt := Some now, op_completedAt := Some now\<rparr>"

fun accepts_outcome :: "string \<Rightarrow> operation \<Rightarrow> thrown + execution_result \<Rightarrow> operation \<Rightarrow> bool" where
  "accepts_outcome w r (Inl err) x \<longleftrightarrow> owned_by w r x"
| "accepts_outcome w r (Inr res) x \<longleftrightarrow> owned_by w r x \<and> op_status x = Running"

fun outcome_row :: "millis \<Rightarrow> operation \<Rightarrow> thrown + execution_result \<Rightarrow> operation \<Rightarrow> operation" where
  "outcome_row now r (Inl err) x = failed_row now r err x"
| "outcome_row now r (Inr res) x = completed_row now res x"

section \<open>The abstract pass\<close>

definition first_expired :: "millis \<Rightarrow> operation list \<Rightarrow> operation option" where
  "first_expired now rows =
     map_option (swept now) (head_opt (filter (overdue_restart now) rows @ filter (\<lambda>x. \<not> overdue_restart now x \<and> spent now x) rows))"

definition earliest_due :: "millis \<Rightarrow> (uuid \<Rightarrow> bool) \<Rightarrow> operation list \<Rightarrow> operation \<Rightarrow> bool" where
  "earliest_due now locked rows c \<longleftrightarrow>
     c \<in> set rows \<and> claimable now c \<and> \<not> locked (op_id c) \<and>
     (\<forall>x \<in> set rows. claimable now x \<and> \<not> locked (op_id x) \<longrightarrow>
        op_nextAttemptAt c < op_nextAttemptAt x \<or> (op_nextAttemptAt c = op_nextAttemptAt x \<and> op_createdAt c \<le> op_createdAt x))"

definition taken :: "millis \<Rightarrow> string \<Rightarrow> int \<Rightarrow> operation \<Rightarrow> operation" where
  "taken now w secs c = c\<lparr>op_status := Running, op_attempt := op_attempt c + 1, op_leaseOwner := Some w,
     op_leaseExpiresAt := Some (now + max 15 secs * 1000), op_heartbeatAt := Some now,
     op_startedAt := coalesce (op_startedAt c) (Some now), op_completedAt := None\<rparr>"

inductive worker_pass ::
    "millis \<Rightarrow> millis \<Rightarrow> string \<Rightarrow> int \<Rightarrow> (uuid \<Rightarrow> bool) \<Rightarrow> (operation \<Rightarrow> thrown + execution_result) \<Rightarrow>
     (operation list \<Rightarrow> operation list \<Rightarrow> bool) \<Rightarrow> operation list \<Rightarrow> operation option \<Rightarrow> operation list \<Rightarrow> bool"
  for now later w secs locked run others rows where
  idle: "(\<And>x. x \<in> set (map (swept now) rows) \<Longrightarrow> claimable now x \<Longrightarrow> locked (op_id x)) \<Longrightarrow>
    worker_pass now later w secs locked run others rows (first_expired now rows) (map (swept now) rows)"
| work: "earliest_due now locked (map (swept now) rows) c \<Longrightarrow> r = taken now w secs c \<Longrightarrow>
    others (map (\<lambda>x. if op_id x = op_id c then r else x) (map (swept now) rows)) rows' \<Longrightarrow>
    worker_pass now later w secs locked run others rows
      (map_option (outcome_row later r (run r)) (head_opt (filter (accepts_outcome w r (run r)) rows')))
      (map (\<lambda>x. if accepts_outcome w r (run r) x then outcome_row later r (run r) x else x) rows')"

section \<open>The sweeps\<close>

lemma ops_safeAppendEvent [simp]: "db_operations (sys_db (safeAppendEvent fresh now oid i st)) = db_operations (sys_db st)"
  by (simp add: safeAppendEvent_def)

lemma ops_notes [simp]:
  "db_operations (sys_db (note_stale fresh now r st)) = db_operations (sys_db st)"
  "db_operations (sys_db (note_exhausted fresh now r st)) = db_operations (sys_db st)"
  "db_operations (sys_db (note_started fresh now w r st)) = db_operations (sys_db st)"
  by (simp_all add: note_stale_def note_exhausted_def note_started_def Let_def)

lemma ops_fold:
  "(\<And>r st. db_operations (sys_db (f r st)) = db_operations (sys_db st)) \<Longrightarrow>
     db_operations (sys_db (fold f rs st)) = db_operations (sys_db st)"
  by (induction rs arbitrary: st) simp_all

lemma stale_spec: "stale_restart now = overdue_restart now"
  by (auto simp: fun_eq_iff stale_restart_def overdue_restart_def)

lemma swept_stale: "overdue_restart now x \<Longrightarrow> fail_stale now x = swept now x"
  by (simp add: fail_stale_def swept_def ended_def)

lemma swept_exhausted: "\<not> overdue_restart now x \<Longrightarrow> spent now x \<Longrightarrow> fail_exhausted now x = swept now x"
  by (simp add: fail_exhausted_def swept_def ended_def)

lemma swept_not_spent: "overdue_restart now x \<Longrightarrow> \<not> spent now (swept now x)"
  by (simp add: swept_def ended_def spent_def due_def)

lemma sweep_stale_ops:
  "db_operations (sys_db (fst (sweep_stale fresh now st))) =
     map (\<lambda>x. if overdue_restart now x then swept now x else x) (db_operations (sys_db st))"
  "snd (sweep_stale fresh now st) = map (swept now) (filter (overdue_restart now) (db_operations (sys_db st)))"
  by (auto simp: sweep_stale_def failStaleQueuedRestarts_def run_update_def update_where_def ops_fold stale_spec swept_stale)

lemma spent_exhausted: "exhausted now = spent now"
  by (auto simp: fun_eq_iff exhausted_def spent_def)

lemma sweep_exhausted_ops:
  assumes "db_operations (sys_db st) = map (\<lambda>x. if overdue_restart now x then swept now x else x) rows"
  shows "db_operations (sys_db (fst (sweep_exhausted fresh now st))) = map (swept now) rows"
    and "snd (sweep_exhausted fresh now st) = map (swept now) (filter (\<lambda>x. \<not> overdue_restart now x \<and> spent now x) rows)"
proof -
  have row: "(if exhausted now y then fail_exhausted now y else y) = swept now x"
    if "y = (if overdue_restart now x then swept now x else x)" for x y
    using that swept_not_spent [of now x] swept_exhausted [of now x] by (auto simp: spent_exhausted swept_def)
  have ops: "db_operations (sys_db (fst (sweep_exhausted fresh now st))) =
      map (\<lambda>y. if exhausted now y then fail_exhausted now y else y) (db_operations (sys_db st))"
    and rows: "snd (sweep_exhausted fresh now st) = map (fail_exhausted now) (filter (exhausted now) (db_operations (sys_db st)))"
    by (auto simp: sweep_exhausted_def failExhaustedOperations_def run_update_def update_where_def ops_fold)
  show "db_operations (sys_db (fst (sweep_exhausted fresh now st))) = map (swept now) rows"
    unfolding ops assms map_map comp_def using row by (intro map_cong) auto
  have "filter (exhausted now) (map (\<lambda>x. if overdue_restart now x then swept now x else x) rows) =
      filter (\<lambda>x. \<not> overdue_restart now x \<and> spent now x) rows"
    by (induction rows) (auto simp: spent_exhausted dest: swept_not_spent)
  then show "snd (sweep_exhausted fresh now st) = map (swept now) (filter (\<lambda>x. \<not> overdue_restart now x \<and> spent now x) rows)"
    unfolding rows assms using swept_exhausted by auto
qed

section \<open>The claim\<close>

lemma sweeps_db_ok:
  assumes "db_ok (sys_db st)" "sweep_stale fresh now st = (st1, stale)" "sweep_exhausted fresh now st1 = (st2, exh)"
  shows "db_ok (sys_db st2)"
proof -
  have "steps (sys_db st) (sys_db st2)"
    using sweep_stale_steps [of st fresh now] sweep_exhausted_steps [of st1 fresh now] assms(2,3) by simp
  then show ?thesis using assms(1) by (induction rule: rtranclp_induct) (auto dest: queue_step_db_ok)
qed

lemma taken_claim: "claim_row now w secs c = taken now w secs c"
  by (simp add: claim_row_def taken_def lease_until_def safeLeaseSeconds_def)

lemma earliest_due_candidate: "claim_candidate db now locked = Some c \<Longrightarrow> earliest_due now locked (db_operations db) c"
  using claim_candidateD claim_candidate_order unfolding earliest_due_def by blast

lemma claimNext_Inr:
  assumes ok: "db_ok db" and r: "claimNext db now locked w secs eid = (db', Inr res)"
  shows "(res = None \<and> db' = db \<and> (\<forall>x \<in> set (db_operations db). claimable now x \<longrightarrow> locked (op_id x))) \<or>
    (\<exists>c. res = Some (taken now w secs c) \<and> earliest_due now locked (db_operations db) c \<and>
       db_operations db' = map (\<lambda>x. if op_id x = op_id c then taken now w secs c else x) (db_operations db))"
proof (cases "claim_candidate db now locked")
  case None
  then show ?thesis using r claim_candidate_None_iff [of db now locked] by (auto simp: claimNext_def)
next
  case (Some c)
  note c = earliest_due_candidate [OF Some]
  have id: "op_id (claim_row now w secs c) = op_id c" by (rule claimed.key_assign)
  obtain db2 e where e: "appendEvent (fst (run_update (\<lambda>x. op_id x = op_id c) (claim_row now w secs) db)) now eid (op_id c)
      (claimed_event (claim_row now w secs c) w) = (db2, Inr e)" "db' = db2" "res = Some (claim_row now w secs c)"
    using r Some claim_rows [OF ok, of c "claim_row now w secs"] c id
    by (auto simp: claimNext_def earliest_due_def Let_def split: prod.splits sum.splits)
  have "db_operations db' = db_operations (fst (run_update (\<lambda>x. op_id x = op_id c) (claim_row now w secs) db))"
    unfolding e(2) using arg_cong [OF e(1), of "\<lambda>q. db_operations (fst q)"] by simp
  also have "\<dots> = map (\<lambda>x. if op_id x = op_id c then claim_row now w secs x else x) (db_operations db)"
    by (simp add: run_update_def update_where_def)
  also have "\<dots> = map (\<lambda>x. if op_id x = op_id c then taken now w secs c else x) (db_operations db)"
    using ok c by (auto simp: taken_claim earliest_due_def db_ok_def dest: distinct_key_eq)
  finally show ?thesis using c e(3) by (auto simp: taken_claim)
qed

section \<open>The outcome\<close>

lemma retry_row_spec:
  "worth_retrying err \<and> op_attempt r < op_maxAttempts r \<Longrightarrow>
     retry_row now (now + computeRetryDelayMs (op_attempt r) DEFAULT_BASE_DELAY_MS DEFAULT_MAX_DELAY_MS) (operationErrorCode err)
       (operationErrorMessage err) x = failed_row now r err x"
  by (simp add: failed_row_def retry_row_def delay_spec code_spec text_spec)

lemma fail_row_spec:
  "\<not> (worth_retrying err \<and> op_attempt r < op_maxAttempts r) \<Longrightarrow>
     fail_row now (operationErrorCode err) (operationErrorMessage err) Failed x = failed_row now r err x"
  by (auto simp: failed_row_def fail_row_def ended_def code_spec text_spec)

lemma holds_lease_owned: "holds_lease (op_id r) w = owned_by w r"
  by (auto simp: fun_eq_iff holds_lease_def owned_by_def)

lemma running_lease_accepts: "running_lease (op_id r) w = accepts_outcome w r (Inr res)"
  by (auto simp: fun_eq_iff running_lease_def owned_by_def)

lemma head_opt_map: "head_opt (map f xs) = map_option f (head_opt xs)"
  by (cases xs) auto

lemma failure_outcome:
  "db_operations (sys_db (fst (handleExecutionError fresh now w r err st))) =
     map (\<lambda>x. if owned_by w r x then failed_row now r err x else x) (db_operations (sys_db st)) \<and>
   snd (handleExecutionError fresh now w r err st) =
     map_option (failed_row now r err) (head_opt (filter (owned_by w r) (db_operations (sys_db st))))"
proof (cases "worth_retrying err \<and> op_attempt r < op_maxAttempts r")
  case True
  then show ?thesis
    by (auto simp: handleExecutionError_def Let_def canRetry_def retryable_spec scheduleRetry_def first_row_def run_update_def
        update_where_def retry_row_spec [OF True] holds_lease_owned head_opt_map split: option.split)
next
  case False
  then show ?thesis
    by (auto simp: handleExecutionError_def Let_def canRetry_def retryable_spec markFailed_def first_row_def run_update_def
        update_where_def fail_row_spec [OF False] holds_lease_owned head_opt_map split: option.split)
qed

lemma success_outcome:
  "db_operations (sys_db (fst (handleSuccess fresh now w r res st))) =
     map (\<lambda>x. if accepts_outcome w r (Inr res) x then completed_row now res x else x) (db_operations (sys_db st)) \<and>
   snd (handleSuccess fresh now w r res st) =
     map_option (completed_row now res) (head_opt (filter (accepts_outcome w r (Inr res)) (db_operations (sys_db st))))"
proof -
  have row: "succeed_row now (Some (option_or (ex_result res) JNull)) (ex_resourceId res) (option_or (ex_terminalStatus res) Succeeded) =
      completed_row now res"
    by (simp add: fun_eq_iff succeed_row_def completed_row_def)
  show ?thesis
    by (auto simp: handleSuccess_def Let_def markSucceeded_def first_row_def run_update_def update_where_def
        row running_lease_accepts [of r w res] head_opt_map simp del: accepts_outcome.simps split: option.split)
qed

lemma finish_outcome:
  "db_operations (sys_db (fst (finish_execution fresh now w r outcome st))) =
     map (\<lambda>x. if accepts_outcome w r outcome x then outcome_row now r outcome x else x) (db_operations (sys_db st)) \<and>
   snd (finish_execution fresh now w r outcome st) =
     map_option (outcome_row now r outcome) (head_opt (filter (accepts_outcome w r outcome) (db_operations (sys_db st))))"
proof (cases outcome)
  case (Inl err)
  have "accepts_outcome w r (Inl err) = owned_by w r" "outcome_row now r (Inl err) = failed_row now r err" by (simp_all add: fun_eq_iff)
  then show ?thesis using failure_outcome [of fresh now w r err st] by (simp add: finish_execution_def Inl)
next
  case (Inr res)
  have "outcome_row now r (Inr res) = completed_row now res" by (simp add: fun_eq_iff)
  then show ?thesis using success_outcome [of fresh now w r res st]
    by (simp add: finish_execution_def Inr del: accepts_outcome.simps)
qed

text \<open>The event and the notification that follow.\<close>

lemma noted:
  assumes "st' = safePublish r status name details rid (safeAppendEvent fresh now (op_id r) (worker_event phase level name msg details) (st\<lparr>sys_db := db\<rparr>))"
    and "fresh (ws_drawn st) \<notin> ev_id ` set (db_events db)" and "op_id r \<in> op_id ` set (db_operations db)"
  shows "\<exists>e l. db_events (sys_db st') = db_events db @ [e] \<and> ev_operationId e = op_id r \<and> ev_timestamp e = now \<and> ev_event e = name \<and>
    sys_published st' = sys_published st @ [l] \<and> lc_operationId l = op_id r \<and> lc_event l = name \<and> lc_status l = status"
  unfolding assms(1) using assms(2,3)
  by (simp add: safePublish_def publish_def lifecycle_def safeAppendEvent_def appendEvent_def worker_event_def Let_def)

lemma failed_row_id [simp]: "op_id (failed_row now r err x) = op_id x"
  by (simp add: failed_row_def ended_def)

lemma failure_noted:
  assumes h: "handleExecutionError fresh now w r err st = (st', Some y)"
    and x: "x \<in> set (db_operations (sys_db st))" "op_id x = op_id r" and eid: "fresh (ws_drawn st) \<notin> ev_id ` set (db_events (sys_db st))"
  shows "let again = worth_retrying err \<and> op_attempt r < op_maxAttempts r;
           name = (if again then ''RetryScheduled'' else ''ExecutionFailed'')
       in \<exists>e l. db_events (sys_db st') = db_events (sys_db st) @ [e] \<and> ev_operationId e = op_id r \<and> ev_timestamp e = now \<and> ev_event e = name \<and>
            sys_published st' = sys_published st @ [l] \<and> lc_operationId l = op_id r \<and> lc_event l = name \<and>
            lc_status l = (if again then Pending else Failed)"
proof -
  have keep: "op_id r \<in> op_id ` set (db_operations (fst (run_update P f (sys_db st))))"
    "db_events (fst (run_update P f (sys_db st))) = db_events (sys_db st)" if "\<And>z. op_id (f z) = op_id z" for P f
  proof -
    have "map op_id (db_operations (fst (run_update P f (sys_db st)))) = map op_id (db_operations (sys_db st))"
      by (auto simp: run_update_def update_where_def that)
    then have eq: "op_id ` set (db_operations (fst (run_update P f (sys_db st)))) = op_id ` set (db_operations (sys_db st))"
      by (metis list.set_map)
    show "op_id r \<in> op_id ` set (db_operations (fst (run_update P f (sys_db st))))"
      unfolding eq x(2) [symmetric] using x(1) by (rule imageI)
  qed (simp add: run_update_def update_where_def)
  have ids: "op_id (retry_row t u c m z) = op_id z" "op_id (fail_row t c m s z) = op_id z" for t u c m s z
    by (simp_all add: retry_row_def fail_row_def)
  show ?thesis
  proof (cases "worth_retrying err \<and> op_attempt r < op_maxAttempts r")
    case True
    let ?db = "fst (run_update (holds_lease (op_id r) w) (retry_row now
        (now + computeRetryDelayMs (op_attempt r) DEFAULT_BASE_DELAY_MS DEFAULT_MAX_DELAY_MS) (operationErrorCode err) (operationErrorMessage err)) (sys_db st))"
    obtain details rid phase level msg where "st' = safePublish r Pending ''RetryScheduled'' details rid
        (safeAppendEvent fresh now (op_id r) (worker_event phase level ''RetryScheduled'' msg details) (st\<lparr>sys_db := ?db\<rparr>))"
      using h True by (auto simp: handleExecutionError_def Let_def canRetry_def retryable_spec scheduleRetry_def first_row_def split: option.splits)
    from noted [OF this, unfolded keep(2) [OF ids(1)], OF eid keep(1) [OF ids(1)]] show ?thesis using True by simp
  next
    case False
    let ?db = "fst (run_update (holds_lease (op_id r) w) (fail_row now (operationErrorCode err) (operationErrorMessage err) Failed) (sys_db st))"
    obtain details rid phase level msg where "st' = safePublish r Failed ''ExecutionFailed'' details rid
        (safeAppendEvent fresh now (op_id r) (worker_event phase level ''ExecutionFailed'' msg details) (st\<lparr>sys_db := ?db\<rparr>))"
      using h False by (auto simp: handleExecutionError_def Let_def canRetry_def retryable_spec markFailed_def first_row_def split: option.splits)
    from noted [OF this, unfolded keep(2) [OF ids(2)], OF eid keep(1) [OF ids(2)]] show ?thesis using False by auto
  qed
qed

section \<open>Properties\<close>

text \<open>
  C32. A worker pass implements the abstract pass: when it does not end in an error of the claim, the table of
  operations it leaves and the operation it returns are those of \<open>worker_pass\<close>. First every restart nobody
  claimed within ten minutes and every due operation without attempts left fails; then, if any due operation
  is neither locked nor out of attempts, the earliest of them is leased to the worker with one attempt more,
  others change the table while its executor runs, and the outcome is written to the row only if the worker
  still owns it: a result completes it while it is running, an exception puts it back with the back-off of its
  attempt when the error is worth retrying and attempts are left, and else fails it with the error's code and
  text. Without the lease nothing is written and nothing returned; no other row changes.
\<close>

theorem processNext_refines_pass:
  assumes "db_ok (sys_db st)" and "processNext fresh reg during locked now later w secs st = (st', Inr res)"
  shows "worker_pass now later w secs locked (run_executor reg) (\<lambda>a b. \<exists>d. db_operations d = a \<and> db_operations (during d) = b)
    (db_operations (sys_db st)) res (db_operations (sys_db st'))"
proof -
  let ?rows = "db_operations (sys_db st)"
  obtain st1 stale where s1: "sweep_stale fresh now st = (st1, stale)" by fastforce
  obtain st2 exh where s2: "sweep_exhausted fresh now st1 = (st2, exh)" by fastforce
  note stale = sweep_stale_ops [of fresh now st, unfolded s1 fst_conv snd_conv]
  note exh = sweep_exhausted_ops [OF stale(1), of fresh, unfolded s2 fst_conv snd_conv]
  have ok: "db_ok (sys_db st2)" by (rule sweeps_db_ok [OF assms(1) s1 s2])
  obtain db claim where c: "claimNext (sys_db st2) now locked w secs (fresh (ws_drawn st2)) = (db, Inr claim)"
    using assms(2) by (auto simp: processNext_def s1 s2 split: prod.splits sum.splits)
  from claimNext_Inr [OF ok c] consider
      (idle) "claim = None" "db = sys_db st2" "\<forall>x \<in> set (map (swept now) ?rows). claimable now x \<longrightarrow> locked (op_id x)"
    | (work) k where "claim = Some (taken now w secs k)" "earliest_due now locked (map (swept now) ?rows) k"
        "db_operations db = map (\<lambda>x. if op_id x = op_id k then taken now w secs k else x) (map (swept now) ?rows)"
    unfolding exh(1) by blast
  then show ?thesis
  proof cases
    case idle
    have "coalesce (head_opt stale) (head_opt exh) = first_expired now ?rows"
      unfolding stale(2) exh(2) first_expired_def
      by (cases "filter (overdue_restart now) ?rows") (simp_all add: head_opt_map coalesce_def)
    moreover have "processNext fresh reg during locked now later w secs st = (st2\<lparr>sys_db := db\<rparr>, Inr (coalesce (head_opt stale) (head_opt exh)))"
      by (simp add: processNext_def s1 s2 c idle(1))
    ultimately have "st' = st2\<lparr>sys_db := db\<rparr>" and res: "res = first_expired now ?rows" using assms(2) by simp_all
    then have rows: "db_operations (sys_db st') = map (swept now) ?rows" using idle(2) exh(1) by simp
    show ?thesis unfolding rows res by (rule worker_pass.idle) (use idle(3) in blast)
  next
    case work
    let ?r = "taken now w secs k"
    let ?st3 = "note_started fresh now w ?r (st2\<lparr>sys_db := db, ws_drawn := Suc (ws_drawn st2)\<rparr>)"
    let ?st4 = "?st3\<lparr>sys_db := during (sys_db ?st3)\<rparr>"
    have "finish_execution fresh later w ?r (run_executor reg ?r) ?st4 = (st', res)"
      using assms(2) by (auto simp: processNext_def s1 s2 c work(1) Let_def split: prod.splits)
    then have out: "db_operations (sys_db st') = map (\<lambda>x. if accepts_outcome w ?r (run_executor reg ?r) x
          then outcome_row later ?r (run_executor reg ?r) x else x) (db_operations (during (sys_db ?st3)))"
      "res = map_option (outcome_row later ?r (run_executor reg ?r))
         (head_opt (filter (accepts_outcome w ?r (run_executor reg ?r)) (db_operations (during (sys_db ?st3)))))"
      using finish_outcome [of fresh later w ?r "run_executor reg ?r" ?st4] by simp_all
    have "db_operations (sys_db ?st3) = map (\<lambda>x. if op_id x = op_id k then ?r else x) (map (swept now) ?rows)"
      using work(3) by simp
    then show ?thesis unfolding out by (intro worker_pass.work [OF work(2) refl]) blast
  qed
qed

text \<open>
  C35. A failed execution is recorded before it is reported, and only by its owner: if the worker no longer owns
  the operation, database, events and notifications stay as they are and the outcome is null; otherwise its
  row alone changes, to \<open>Pending\<close> with the back-off of the attempt just made when the error is worth retrying
  and attempts are left, else to \<open>Failed\<close>, in both cases without a lease and with the code and text of the
  error, that row is the outcome, and one event and one notification tell which of the two happened.
\<close>

theorem failed_execution_outcome:
  assumes "db_ok (sys_db st)" and "x \<in> set (db_operations (sys_db st))" and "op_id r = op_id x"
    and "fresh (ws_drawn st) \<notin> ev_id ` set (db_events (sys_db st))"
    and "handleExecutionError fresh now w r err st = (st', res)"
  shows "if op_leaseOwner x \<noteq> Some w then st' = st \<and> res = None
    else res = Some (failed_row now r err x) \<and>
      db_operations (sys_db st') = map (\<lambda>y. if y = x then failed_row now r err x else y) (db_operations (sys_db st)) \<and>
      (let again = worth_retrying err \<and> op_attempt r < op_maxAttempts r;
           name = (if again then ''RetryScheduled'' else ''ExecutionFailed'')
       in \<exists>e l. db_events (sys_db st') = db_events (sys_db st) @ [e] \<and> ev_operationId e = op_id x \<and> ev_timestamp e = now \<and> ev_event e = name \<and>
            sys_published st' = sys_published st @ [l] \<and> lc_operationId l = op_id x \<and> lc_event l = name \<and>
            lc_status l = (if again then Pending else Failed))"
proof -
  have only: "y = x" if "y \<in> set (db_operations (sys_db st))" "op_id y = op_id x" for y
    using assms(1,2) that by (auto simp: db_ok_def dest: distinct_key_eq)
  show ?thesis
  proof (cases "op_leaseOwner x = Some w")
    case False
    then have "\<forall>y \<in> set (db_operations (sys_db st)). op_id y = op_id r \<longrightarrow> op_leaseOwner y \<noteq> Some w" using only assms(3) by auto
    from stale_execution_leaves_no_trace [OF this, of fresh now "Inl err"] show ?thesis
      using False assms(5) by (simp add: finish_execution_def)
  next
    case True
    have owned: "owned_by w r y \<longleftrightarrow> y = x" if "y \<in> set (db_operations (sys_db st))" for y
      using that only True assms(3) by (auto simp: owned_by_def)
    have "filter (owned_by w r) (db_operations (sys_db st)) = filter (\<lambda>y. op_id y = op_id x) (db_operations (sys_db st))"
      using only owned by (auto intro!: filter_cong)
    also have "\<dots> = [x]" using assms(1,2) by (simp add: db_ok_def filter_key_singleton)
    finally have one: "filter (owned_by w r) (db_operations (sys_db st)) = [x]" .
    have res: "res = Some (failed_row now r err x)"
      using failure_outcome [of fresh now w r err st] assms(5) one by simp
    have rows: "db_operations (sys_db st') = map (\<lambda>y. if y = x then failed_row now r err x else y) (db_operations (sys_db st))"
      using failure_outcome [of fresh now w r err st] assms(5) owned by auto
    from failure_noted [OF assms(5) [unfolded res] assms(2) assms(3) [symmetric] assms(4)] show ?thesis
      using True res rows assms(3) by (simp add: Let_def)
  qed
qed

section \<open>Concrete passes\<close>

text \<open>A restart with one attempt, and a verification that may be tried again.\<close>

definition pass_error :: thrown where
  "pass_error = \<lparr>th_value = JObj [(''message'', JStr ''boom''), (''response'', JObj [(''code'', JStr ''NetworkUnavailable'')])],
     th_isError = True, th_text = ''Error: boom''\<rparr>"

definition pass_input :: create_operation_input where
  "pass_input = sample_input\<lparr>ci_type := DOMAIN_VERIFY, ci_idempotencyKey := None, ci_maxAttempts := Some 3\<rparr>"

definition pass_state :: worker_state where
  "pass_state = \<lparr>sys_db = fst (createOperationWithClient empty_db 1000 ''o1'' ''e1'' pass_input), sys_published = [], ws_drawn = 2\<rparr>"

definition pass_registry :: registry where
  "pass_registry t = Some \<lparr>ex_types = [t], ex_execute = (\<lambda>r. Inl pass_error)\<rparr>"

definition pass_uuid :: "nat \<Rightarrow> uuid" where
  "pass_uuid n = replicate n CHR ''e''"

lemma pass_state_ok: "db_ok (sys_db pass_state)"
  unfolding pass_state_def using db_ok_create [OF db_ok_empty] by simp

lemma pass_swept:
  "sweep_stale pass_uuid 2000 pass_state = (pass_state, [])" "sweep_exhausted pass_uuid 2000 pass_state = (pass_state, [])"
  by (simp_all add: sweep_stale_def sweep_exhausted_def failStaleQueuedRestarts_def failExhaustedOperations_def run_update_def
      update_where_def stale_restart_def exhausted_def due_def pass_state_def createOperationWithClient_def insert_operation_def
      insert_conflicts_def normalized_key_def empty_db_def new_operation_def pass_input_def sample_input_def Let_def)

lemma pass_claims: "\<not> isl (snd (claimNext (sys_db pass_state) 2000 (\<lambda>_. False) ''w1'' 30 (pass_uuid 2)))"
  by code_simp

lemma sample_worker_pass:
  "\<exists>st' res. processNext pass_uuid pass_registry (\<lambda>db. db) (\<lambda>_. False) 2000 9000 ''w1'' 30 pass_state = (st', Inr res)"
proof -
  have "ws_drawn pass_state = 2" by (simp add: pass_state_def)
  then obtain db claim where "claimNext (sys_db pass_state) 2000 (\<lambda>_. False) ''w1'' 30 (pass_uuid (ws_drawn pass_state)) = (db, Inr claim)"
    using pass_claims by (metis isl_def prod.collapse sum.exhaust)
  then show ?thesis by (simp add: processNext_def pass_swept split: option.split prod.split)
qed

theorem processNext_refines_pass_witness:
  "\<exists>res rows. worker_pass 2000 9000 ''w1'' 30 (\<lambda>_. False) (run_executor pass_registry) (\<lambda>a b. \<exists>d :: op_db. db_operations d = a \<and> db_operations d = b)
     (db_operations (sys_db pass_state)) res rows"
proof -
  obtain st' res where "processNext pass_uuid pass_registry (\<lambda>db. db) (\<lambda>_. False) 2000 9000 ''w1'' 30 pass_state = (st', Inr res)"
    using sample_worker_pass by blast
  from processNext_refines_pass [OF pass_state_ok this] show ?thesis by (intro exI)
qed

definition claimed_restart :: operation where
  "claimed_restart = claim_row 2000 ''w1'' 30 (new_operation sample_input 1000 ''o1'')"

theorem failed_execution_outcome_witness:
  "\<exists>y. op_status y = Failed \<and> op_errorCode y = Some ''NetworkUnavailable'' \<and> op_errorMessage y = Some ''boom'' \<and>
     snd (handleExecutionError pass_uuid 9000 ''w1'' claimed_restart pass_error \<lparr>sys_db = sample_claimed, sys_published = [], ws_drawn = 3\<rparr>) = Some y"
proof -
  let ?st = "\<lparr>sys_db = sample_claimed, sys_published = [], ws_drawn = 3\<rparr> :: worker_state"
  have st: "db_ok (sys_db ?st)" "claimed_restart \<in> set (db_operations (sys_db ?st))" "pass_uuid (ws_drawn ?st) \<notin> ev_id ` set (db_events (sys_db ?st))"
    using queue_invariant_sample by (simp_all add: sample_claimed_eq claimed_restart_def pass_uuid_def created_event_def numeral_3_eq_3)
  have "snd (handleExecutionError pass_uuid 9000 ''w1'' claimed_restart pass_error ?st) = Some (failed_row 9000 claimed_restart pass_error claimed_restart)"
    using failed_execution_outcome [where st = ?st and r = claimed_restart and fresh = pass_uuid and now = 9000 and w = "''w1''" and err = pass_error,
      OF st(1,2) refl st(3) prod.collapse [symmetric]]
    by (simp add: claimed_restart_def claim_row_def)
  moreover have "op_status (failed_row 9000 claimed_restart pass_error claimed_restart) = Failed"
    "op_errorCode (failed_row 9000 claimed_restart pass_error claimed_restart) = Some ''NetworkUnavailable''"
    "op_errorMessage (failed_row 9000 claimed_restart pass_error claimed_restart) = Some ''boom''"
    by (simp_all add: failed_row_def ended_def reported_code_def reported_text_def error_source_def pass_error_def claimed_restart_def
        claim_row_def new_operation_def sample_input_def)
  ultimately show ?thesis by blast
qed

end
