(* ===== verification/JsNumerals.thy ===== *)
theory JsNumerals
  imports Complex_Main Prelude
begin

text \<open>
  The conversions from strings to numbers the code relies on: decimal digits, \<open>BigInt(s)\<close> and
  \<open>Number(s)\<close>. \<open>Number\<close> yields the exact rational a literal denotes, \<open>None\<close> for \<open>NaN\<close> and the
  infinities; a literal with more digits than a double holds is therefore not rounded.
\<close>

subsection \<open>Numerals\<close>

definition all_digits :: "string \<Rightarrow> bool" where
  "all_digits s \<longleftrightarrow> s \<noteq> [] \<and> list_all is_digit s"

definition digits_value :: "string \<Rightarrow> int" where
  "digits_value s = int (parse_dec 0 s)"

definition radix_digit :: "char \<Rightarrow> nat" where
  "radix_digit c =
     (let n = (of_char c :: nat) in
      if is_digit c then n - 48
      else if 97 \<le> n \<and> n \<le> 122 then n - 87
      else if 65 \<le> n \<and> n \<le> 90 then n - 55
      else 99)"

fun parse_radix :: "nat \<Rightarrow> nat \<Rightarrow> string \<Rightarrow> nat option" where
  "parse_radix b acc [] = Some acc"
| "parse_radix b acc (c # cs) =
     (if radix_digit c < b then parse_radix b (b * acc + radix_digit c) cs else None)"

text \<open>\<open>BigInt(s)\<close> for a string: surrounding white space is dropped, the empty string is 0, a
  decimal numeral may be signed, a prefixed hexadecimal, octal or binary one may not.\<close>

definition js_bigint :: "string \<Rightarrow> int option" where
  "js_bigint s =
     (case js_trim s of
        [] \<Rightarrow> Some 0
      | c # cs \<Rightarrow>
          (if c = CHR ''-'' then (if all_digits cs then Some (- digits_value cs) else None)
           else if c = CHR ''+'' then (if all_digits cs then Some (digits_value cs) else None)
           else if all_digits (c # cs) then Some (digits_value (c # cs))
           else
             (case (c # cs) of
                z # p # d # ds \<Rightarrow>
                  (if z \<noteq> CHR ''0'' then None
                   else if p \<in> {CHR ''x'', CHR ''X''} then map_option int (parse_radix 16 0 (d # ds))
                   else if p \<in> {CHR ''o'', CHR ''O''} then map_option int (parse_radix 8 0 (d # ds))
                   else if p \<in> {CHR ''b'', CHR ''B''} then map_option int (parse_radix 2 0 (d # ds))
                   else None)
              | _ \<Rightarrow> None)))"

definition bigint_error :: "string \<Rightarrow> string" where
  "bigint_error s = ''Cannot convert '' @ s @ '' to a BigInt''"

definition is_integer :: "rat \<Rightarrow> bool" where
  "is_integer x \<longleftrightarrow> of_int \<lfloor>x\<rfloor> = x"

lemma is_integer_of_int [simp]: "is_integer (of_int i)"
  by (simp add: is_integer_def)

lemma is_integer_numeral [simp]: "is_integer (numeral n)"
  by (simp add: is_integer_def)

subsection \<open>\<open>Number(s)\<close>\<close>

definition mantissa :: "string \<Rightarrow> rat option" where
  "mantissa m =
     (case split_on CHR ''.'' m of
        [w] \<Rightarrow> (if all_digits w then Some (of_nat (parse_dec 0 w)) else None)
      | [w, f] \<Rightarrow>
          (if list_all is_digit (w @ f) \<and> w @ f \<noteq> []
           then Some (of_nat (parse_dec 0 (w @ f)) / 10 ^ length f) else None)
      | _ \<Rightarrow> None)"

definition signed_digits :: "string \<Rightarrow> int option" where
  "signed_digits s =
     (case s of
        [] \<Rightarrow> None
      | c # cs \<Rightarrow>
          (if c = CHR ''-'' then (if all_digits cs then Some (- digits_value cs) else None)
           else if c = CHR ''+'' then (if all_digits cs then Some (digits_value cs) else None)
           else if all_digits s then Some (digits_value s) else None))"

definition scale10 :: "rat \<Rightarrow> int \<Rightarrow> rat" where
  "scale10 x e = (if 0 \<le> e then x * 10 ^ nat e else x / 10 ^ nat (- e))"

definition unsigned_decimal :: "string \<Rightarrow> rat option" where
  "unsigned_decimal t =
     (let isE = (\<lambda>c. c = CHR ''e'' \<or> c = CHR ''E'');
          m = takeWhile (\<lambda>c. \<not> isE c) t; x = dropWhile (\<lambda>c. \<not> isE c) t
      in case mantissa m of
           None \<Rightarrow> None
         | Some v \<Rightarrow> (case x of [] \<Rightarrow> Some v | _ # e \<Rightarrow> map_option (scale10 v) (signed_digits e)))"

definition radix_literal :: "string \<Rightarrow> nat option" where
  "radix_literal t =
     (case t of
        z # p # d # ds \<Rightarrow>
          (if z \<noteq> CHR ''0'' then None
           else if p \<in> {CHR ''x'', CHR ''X''} then parse_radix 16 0 (d # ds)
           else if p \<in> {CHR ''o'', CHR ''O''} then parse_radix 8 0 (d # ds)
           else if p \<in> {CHR ''b'', CHR ''B''} then parse_radix 2 0 (d # ds)
           else None)
      | _ \<Rightarrow> None)"

definition js_number :: "string \<Rightarrow> rat option" where
  "js_number s =
     (case js_trim s of
        [] \<Rightarrow> Some 0
      | c # cs \<Rightarrow>
          (case radix_literal (c # cs) of
             Some n \<Rightarrow> Some (of_nat n)
           | None \<Rightarrow>
               (if c = CHR ''-'' then map_option uminus (unsigned_decimal cs)
                else if c = CHR ''+'' then unsigned_decimal cs
                else unsigned_decimal (c # cs))))"

lemma not_digits [simp]:
  "\<not> is_digit CHR ''.''" "\<not> is_digit CHR ''/''" "\<not> is_digit CHR '':''" "\<not> is_digit CHR ''e''" "\<not> is_digit CHR ''E''" "\<not> is_digit CHR ''-''" "\<not> is_digit CHR ''+''" "\<not> is_digit CHR ''x''" "\<not> is_digit CHR ''X''" "\<not> is_digit CHR ''o''" "\<not> is_digit CHR ''O''" "\<not> is_digit CHR ''b''" "\<not> is_digit CHR ''B''" "\<not> is_digit CHR '' ''"
  by (simp_all add: is_digit_def)

lemma digits_no: "\<forall>c \<in> set s. is_digit c \<Longrightarrow> \<not> is_digit d \<Longrightarrow> d \<notin> set s"
  by blast

lemma all_digits_show_nat [simp]: "all_digits (show_nat n)"
  by (simp add: all_digits_def)

lemma all_digits_no: "all_digits s \<Longrightarrow> \<not> is_digit c \<Longrightarrow> c \<notin> set s"
  by (auto simp: all_digits_def list_all_iff)

lemma js_trim_digits: "all_digits s \<Longrightarrow> js_trim s = s"
  by (rule js_trim_id) (auto simp: all_digits_def list_all_iff is_digit_not_space)

lemma radix_literal_digits:
  assumes "\<forall>c \<in> set s. is_digit c"
  shows "radix_literal s = None"
proof -
  consider "s = []" | z where "s = [z]" | z p where "s = [z, p]" | z p d ds where "s = z # p # d # ds"
    by (cases s; cases "tl s"; cases "tl (tl s)") auto
  then show ?thesis
  proof cases
    case (4 z p d ds)
    then have "is_digit p" using assms by simp
    then have "p \<notin> {CHR ''x'', CHR ''X''}" "p \<notin> {CHR ''o'', CHR ''O''}" "p \<notin> {CHR ''b'', CHR ''B''}"
      using not_digits by blast+
    then show ?thesis unfolding radix_literal_def 4 by (simp only: list.case if_False) (simp only: if_cancel)
  qed (simp_all add: radix_literal_def)
qed

lemma js_number_digits:
  assumes "all_digits s"
  shows "js_number s = Some (of_nat (parse_dec 0 s))"
proof -
  have ds: "\<forall>c \<in> set s. is_digit c" and ne: "s \<noteq> []"
    using assms by (auto simp: all_digits_def list_all_iff)
  have m: "takeWhile (\<lambda>c. \<not> (c = CHR ''e'' \<or> c = CHR ''E'')) s = s" "dropWhile (\<lambda>c. \<not> (c = CHR ''e'' \<or> c = CHR ''E'')) s = []"
    using digits_no [OF ds, of "CHR ''e''"] digits_no [OF ds, of "CHR ''E''"]
    by (auto simp: takeWhile_eq_all_conv dropWhile_eq_Nil_conv)
  have "CHR ''.'' \<notin> set s" using digits_no [OF ds] by simp
  then have "split_on CHR ''.'' s = [s]" by (rule split_on_no_sep)
  then have u: "unsigned_decimal s = Some (of_nat (parse_dec 0 s))"
    unfolding unsigned_decimal_def Let_def m mantissa_def using assms by simp
  have r: "radix_literal s = None" using ds by (rule radix_literal_digits)
  obtain c cs where s: "s = c # cs" using ne by (cases s) auto
  then have "c \<noteq> CHR ''-''" "c \<noteq> CHR ''+''" using digits_no [OF ds, of "CHR ''-''"] digits_no [OF ds, of "CHR ''+''"] by auto
  then show ?thesis using u r js_trim_digits [OF assms] by (simp add: js_number_def s)
qed

end
