(* ===== verification/CapacityPolicy.thy ===== *)
theory CapacityPolicy
  imports JsNumerals
begin

text \<open>
  \<open>capacity/capacity-policy.service.ts\<close> and the policy record of \<open>capacity-hybrid.logic.ts\<close>. A
  JavaScript number is the rational it denotes (only comparisons, \<open>Number.isInteger\<close> and
  conversions to \<open>BigInt\<close> are applied to policy numbers). The configuration is a function from
  keys to what \<open>Number(config.get(key))\<close> yields, \<open>None\<close> for a value that is not finite. The
  service keeps one override.
\<close>

record capacity_policy =
  pol_mode :: string
  telemetryIntervalSeconds :: rat
  exactRetentionDays :: rat
  predictionWindowDays :: rat
  rareEventRetentionDays :: rat
  predictionPercentile :: rat
  applicationMarginPercent :: rat
  nodeSafetyBufferPercent :: rat
  minimumSystemReserveBytes :: int
  maxTelemetryAgeSeconds :: rat

definition DEFAULT_CAPACITY_POLICY :: capacity_policy where
  "DEFAULT_CAPACITY_POLICY =
     \<lparr>pol_mode = ''Hybrid'', telemetryIntervalSeconds = 30, exactRetentionDays = 7,
      predictionWindowDays = 30, rareEventRetentionDays = 90, predictionPercentile = 99,
      applicationMarginPercent = 15, nodeSafetyBufferPercent = 20,
      minimumSystemReserveBytes = 1073741824, maxTelemetryAgeSeconds = 90\<rparr>"

definition GiB :: int where
  "GiB = 1073741824"

text \<open>\<open>BigInt(x)\<close> of a number: a \<open>RangeError\<close> unless it is an integer.\<close>

definition bigint_of_number :: "rat \<Rightarrow> string + int" where
  "bigint_of_number x =
     (if is_integer x then Inr \<lfloor>x\<rfloor> else Inl ''The number cannot be converted to a BigInt because it is not an integer'')"

definition normalize :: "capacity_policy \<Rightarrow> string + capacity_policy" where
  "normalize p =
     (if pol_mode p \<notin> {''Strict'', ''Hybrid''} then Inl ''capacity mode must be Strict or Hybrid''
      else if telemetryIntervalSeconds p < 10 \<or> 300 < telemetryIntervalSeconds p
      then Inl ''telemetry interval must be 10..300 seconds''
      else if exactRetentionDays p < 1 \<or> 7 < exactRetentionDays p
      then Inl ''exact retention must be 1..7 days''
      else if predictionWindowDays p < 7 \<or> 30 < predictionWindowDays p
      then Inl ''prediction window must be 7..30 days''
      else if rareEventRetentionDays p < 30 \<or> 90 < rareEventRetentionDays p
      then Inl ''rare-event retention must be 30..90 days''
      else if predictionPercentile p \<notin> {95, 99}
      then Inl ''prediction percentile must be 95 or 99''
      else if \<not> is_integer (applicationMarginPercent p) \<or> applicationMarginPercent p < 5 \<or> 50 < applicationMarginPercent p
      then Inl ''application margin must be an integer from 5..50 percent''
      else if \<not> is_integer (nodeSafetyBufferPercent p) \<or> nodeSafetyBufferPercent p < 10 \<or> 50 < nodeSafetyBufferPercent p
      then Inl ''node safety buffer must be an integer from 10..50 percent''
      else if maxTelemetryAgeSeconds p < 30 \<or> 300 < maxTelemetryAgeSeconds p
      then Inl ''telemetry max age must be 30..300 seconds''
      else if minimumSystemReserveBytes p < 256 * 1024 * 1024 \<or> 32 * GiB < minimumSystemReserveBytes p
      then Inl ''minimum system reserve must be between 256 MiB and 32 GiB''
      else Inr p)"

record policy_config =
  cfg_mode :: "string option"
  cfg_number :: "string \<Rightarrow> rat option"

record policy_service =
  ps_override :: "capacity_policy option"
  ps_config :: policy_config

definition config_number :: "policy_config \<Rightarrow> string \<Rightarrow> rat \<Rightarrow> rat" where
  "config_number c key fallback = option_or (cfg_number c key) fallback"

definition configured_policy :: "policy_config \<Rightarrow> string + capacity_policy" where
  "configured_policy c =
     (case bigint_of_number (config_number c ''CAPACITY_MIN_SYSTEM_RESERVE_MIB'' 1024) of
        Inl e \<Rightarrow> Inl e
      | Inr mib \<Rightarrow>
          normalize (DEFAULT_CAPACITY_POLICY\<lparr>
            pol_mode := (if option_or (cfg_mode c) ''Hybrid'' = ''Strict'' then ''Strict'' else ''Hybrid''),
            telemetryIntervalSeconds := config_number c ''CAPACITY_TELEMETRY_INTERVAL_SECONDS'' 30,
            predictionPercentile := (if config_number c ''CAPACITY_PREDICTION_PERCENTILE'' 99 = 95 then 95 else 99),
            applicationMarginPercent := config_number c ''CAPACITY_APPLICATION_MARGIN_PERCENT'' 15,
            nodeSafetyBufferPercent := config_number c ''CAPACITY_NODE_SAFETY_BUFFER_PERCENT'' 20,
            maxTelemetryAgeSeconds := config_number c ''CAPACITY_MAX_TELEMETRY_AGE_SECONDS'' 90,
            minimumSystemReserveBytes := mib * 1024 * 1024\<rparr>))"

definition current :: "policy_service \<Rightarrow> string + capacity_policy" where
  "current s = (case ps_override s of Some p \<Rightarrow> Inr p | None \<Rightarrow> configured_policy (ps_config s))"

text \<open>
  The argument of \<open>set\<close>, at its declared type: a partial policy (\<open>None\<close>: the key is absent) whose
  reserve is a string, a number or a bigint, and stands for \<open>BigInt(reserve)\<close>.
\<close>

datatype bigint_like = OfString string | OfNumber rat | OfBigint int

fun to_bigint :: "bigint_like \<Rightarrow> string + int" where
  "to_bigint (OfString s) = (case js_bigint s of None \<Rightarrow> Inl (bigint_error s) | Some n \<Rightarrow> Inr n)"
| "to_bigint (OfNumber x) = bigint_of_number x"
| "to_bigint (OfBigint n) = Inr n"

record policy_input =
  in_mode :: "string option"
  in_telemetryIntervalSeconds :: "rat option"
  in_exactRetentionDays :: "rat option"
  in_predictionWindowDays :: "rat option"
  in_rareEventRetentionDays :: "rat option"
  in_predictionPercentile :: "rat option"
  in_applicationMarginPercent :: "rat option"
  in_nodeSafetyBufferPercent :: "rat option"
  in_minimumSystemReserveBytes :: "bigint_like option"
  in_maxTelemetryAgeSeconds :: "rat option"

text \<open>\<open>{...current, ...input, minimumSystemReserveBytes: ...}\<close>.\<close>

definition merged_policy :: "capacity_policy \<Rightarrow> policy_input \<Rightarrow> string + capacity_policy" where
  "merged_policy cur i =
     (case (case in_minimumSystemReserveBytes i of None \<Rightarrow> Inr (minimumSystemReserveBytes cur) | Some v \<Rightarrow> to_bigint v) of
        Inl e \<Rightarrow> Inl e
      | Inr reserve \<Rightarrow>
          Inr \<lparr>pol_mode = option_or (in_mode i) (pol_mode cur),
               telemetryIntervalSeconds = option_or (in_telemetryIntervalSeconds i) (telemetryIntervalSeconds cur),
               exactRetentionDays = option_or (in_exactRetentionDays i) (exactRetentionDays cur),
               predictionWindowDays = option_or (in_predictionWindowDays i) (predictionWindowDays cur),
               rareEventRetentionDays = option_or (in_rareEventRetentionDays i) (rareEventRetentionDays cur),
               predictionPercentile = option_or (in_predictionPercentile i) (predictionPercentile cur),
               applicationMarginPercent = option_or (in_applicationMarginPercent i) (applicationMarginPercent cur),
               nodeSafetyBufferPercent = option_or (in_nodeSafetyBufferPercent i) (nodeSafetyBufferPercent cur),
               minimumSystemReserveBytes = reserve,
               maxTelemetryAgeSeconds = option_or (in_maxTelemetryAgeSeconds i) (maxTelemetryAgeSeconds cur)\<rparr>)"

definition set_policy :: "policy_service \<Rightarrow> policy_input \<Rightarrow> policy_service \<times> (string + capacity_policy)" where
  "set_policy s i =
     (case and_then (current s) (\<lambda>cur. and_then (merged_policy cur i) normalize) of
        Inl e \<Rightarrow> (s, Inl e)
      | Inr q \<Rightarrow> (s\<lparr>ps_override := Some q\<rparr>, Inr q))"

subsection \<open>The bounds every policy in force satisfies\<close>

definition policy_ok :: "capacity_policy \<Rightarrow> bool" where
  "policy_ok p \<longleftrightarrow>
     pol_mode p \<in> {''Strict'', ''Hybrid''} \<and>
     10 \<le> telemetryIntervalSeconds p \<and> telemetryIntervalSeconds p \<le> 300 \<and>
     1 \<le> exactRetentionDays p \<and> exactRetentionDays p \<le> 7 \<and>
     7 \<le> predictionWindowDays p \<and> predictionWindowDays p \<le> 30 \<and>
     30 \<le> rareEventRetentionDays p \<and> rareEventRetentionDays p \<le> 90 \<and>
     predictionPercentile p \<in> {95, 99} \<and>
     is_integer (applicationMarginPercent p) \<and> 5 \<le> applicationMarginPercent p \<and> applicationMarginPercent p \<le> 50 \<and>
     is_integer (nodeSafetyBufferPercent p) \<and> 10 \<le> nodeSafetyBufferPercent p \<and> nodeSafetyBufferPercent p \<le> 50 \<and>
     30 \<le> maxTelemetryAgeSeconds p \<and> maxTelemetryAgeSeconds p \<le> 300 \<and>
     268435456 \<le> minimumSystemReserveBytes p \<and> minimumSystemReserveBytes p \<le> 34359738368"

lemma normalize_Inr: "normalize p = Inr q \<longleftrightarrow> q = p \<and> policy_ok p"
  by (auto simp: normalize_def policy_ok_def GiB_def not_less)

lemma policy_ok_default [simp]: "policy_ok DEFAULT_CAPACITY_POLICY"
  by (simp add: policy_ok_def DEFAULT_CAPACITY_POLICY_def)

lemma policy_ok_reserve_pos: "policy_ok p \<Longrightarrow> 0 < minimumSystemReserveBytes p"
  by (simp add: policy_ok_def)

definition service_ok :: "policy_service \<Rightarrow> bool" where
  "service_ok s \<longleftrightarrow> (case ps_override s of None \<Rightarrow> True | Some p \<Rightarrow> policy_ok p)"

lemma current_ok: "service_ok s \<Longrightarrow> current s = Inr p \<Longrightarrow> policy_ok p"
  by (auto simp: service_ok_def current_def configured_policy_def normalize_Inr split: option.splits sum.splits)

section \<open>Properties\<close>

fun run_sets :: "policy_service \<Rightarrow> policy_input list \<Rightarrow> policy_service" where
  "run_sets s [] = s"
| "run_sets s (i # is) = run_sets (fst (set_policy s i)) is"

lemma set_policy_ok: "service_ok s \<Longrightarrow> service_ok (fst (set_policy s i))"
  by (auto simp: set_policy_def service_ok_def and_then_Inr_iff normalize_Inr split: sum.splits)

lemma run_sets_ok: "service_ok s \<Longrightarrow> service_ok (run_sets s is)"
  by (induction "is" arbitrary: s) (auto simp: set_policy_ok)

text \<open>
  Only sane policies are ever in force: after any sequence of changes, accepted or refused, the
  policy the service returns lies within the documented bounds, an accepted change is in force with
  every field it gave, and a refused change leaves the policy as it was.
\<close>

lemma policy_always_within_bounds:
  assumes "ps_override s = None" and "current (run_sets s is) = Inr p"
  shows "policy_ok p \<and>
    (case set_policy (run_sets s is) i of
       (s', Inl e) \<Rightarrow> current s' = Inr p
     | (s', Inr q) \<Rightarrow> current s' = Inr q \<and> policy_ok q \<and> merged_policy p i = Inr q)"
proof -
  have "service_ok (run_sets s is)" by (rule run_sets_ok) (simp add: service_ok_def assms(1))
  then have "policy_ok p" using assms(2) by (rule current_ok)
  then show ?thesis
    using assms(2) by (auto simp: set_policy_def and_then_Inr_iff normalize_Inr current_def split: sum.splits)
qed

definition default_service :: policy_service where
  "default_service = \<lparr>ps_override = None, ps_config = \<lparr>cfg_mode = None, cfg_number = (\<lambda>_. None)\<rparr>\<rparr>"

definition no_input :: policy_input where
  "no_input = \<lparr>in_mode = None, in_telemetryIntervalSeconds = None, in_exactRetentionDays = None,
     in_predictionWindowDays = None, in_rareEventRetentionDays = None, in_predictionPercentile = None,
     in_applicationMarginPercent = None, in_nodeSafetyBufferPercent = None,
     in_minimumSystemReserveBytes = None, in_maxTelemetryAgeSeconds = None\<rparr>"

end
