(* ===== verification/CapacityHybrid.thy ===== *)
theory CapacityHybrid
  imports CapacityPolicy Dates "HOL-Library.Multiset"
begin

text \<open>
  \<open>capacity/capacity-hybrid.logic.ts\<close>: statistics on memory observations, compaction of old
  observations, the memory prediction of an app and the admission decision for a node.

  An observation's \<open>observedAt\<close> is its parsed time, \<open>None\<close> when \<open>Date.parse\<close> yields NaN; sorting
  treats such a time as 0 (the order JavaScript gives NaN keys is implementation-defined). Byte
  counts are integers. The remaining numbers (PSI averages, confidence) are rationals; confidence
  is computed exactly instead of with IEEE rounding. Percentile ranks are exact in both: for
  \<open>q = 0.95\<close> and \<open>q = 0.99\<close> the product \<open>q * n\<close> rounds to an integer exactly when it is one. A
  JavaScript \<open>Map\<close> that is only grown is the list of its entries in insertion order.
\<close>

definition DAY_MS :: int where
  "DAY_MS = 86400000"

record memory_observation =
  mo_observedAt :: "millis option"
  mo_nodeId :: string
  mo_appId :: "string option"
  mo_replicaCount :: "int option"
  mo_containerId :: "string option"
  mo_containerStartedAt :: "millis option"
  memoryCurrentBytes :: int
  memoryPeakBytes :: int
  mo_startupPeakBytes :: "int option"
  oomEvents :: int
  mo_psiSomeAvg10 :: "rat option"
  mo_psiFullAvg10 :: "rat option"
  mo_nodeMemoryAvailableBytes :: "int option"
  mo_nodeMemoryTotalBytes :: "int option"
  mo_bucketSeconds :: int

definition mo_time :: "memory_observation \<Rightarrow> millis" where
  "mo_time o1 = option_or (mo_observedAt o1) 0"

subsection \<open>Statistics\<close>

definition percentile :: "int list \<Rightarrow> rat \<Rightarrow> int" where
  "percentile values q =
     (if values = [] then 0
      else
        (let sorted = sort values;
             index = min (int (length sorted) - 1) (max 0 (\<lceil>q * of_nat (length sorted)\<rceil> - 1))
         in sorted ! nat index))"

text \<open>\<open>bigint\<close> division truncates towards zero.\<close>

definition bigint_div :: "int \<Rightarrow> int \<Rightarrow> int" where
  "bigint_div a b = sgn a * sgn b * (\<bar>a\<bar> div \<bar>b\<bar>)"

definition average :: "int list \<Rightarrow> int" where
  "average values = (if values = [] then 0 else bigint_div (foldl (+) 0 values) (int (length values)))"

definition maxBigInt :: "int list \<Rightarrow> int" where
  "maxBigInt values = foldl (\<lambda>m v. if m < v then v else m) 0 values"

lemma bigint_div_nonneg: "0 \<le> a \<Longrightarrow> 0 < b \<Longrightarrow> bigint_div a b = a div b"
  by (cases "a = 0") (auto simp: bigint_div_def)

lemma maxBigInt_foldl: "foldl (\<lambda>m v. if m < v then v else m) a vs = Max (insert (a::int) (set vs))"
proof (induction vs arbitrary: a)
  case (Cons v vs)
  have "foldl (\<lambda>m v. if m < v then v else m) a (v # vs) = Max (insert (max a v) (set vs))"
    by (simp add: Cons.IH max_def)
  also have "\<dots> = Max (insert a (insert v (set vs)))"
    by (cases "vs = []") (simp_all add: Max_insert max.assoc)
  finally show ?case by simp
qed simp

lemma maxBigInt_eq: "maxBigInt vs = Max (insert 0 (set vs))"
  by (simp add: maxBigInt_def maxBigInt_foldl)

lemma maxBigInt_ge: "v \<in> set vs \<Longrightarrow> v \<le> maxBigInt vs"
  by (simp add: maxBigInt_eq)

lemma maxBigInt_nonneg [simp]: "0 \<le> maxBigInt vs"
  by (simp add: maxBigInt_eq)

lemma maxBigInt_le: "0 \<le> b \<Longrightarrow> \<forall>v \<in> set vs. v \<le> b \<Longrightarrow> maxBigInt vs \<le> b"
  by (simp add: maxBigInt_eq)

lemma maxBigInt_in: "maxBigInt vs = 0 \<or> maxBigInt vs \<in> set vs"
  using Max_in [of "insert 0 (set vs)"] by (auto simp: maxBigInt_eq)

subsection \<open>Compaction\<close>

fun group_add :: "'k \<Rightarrow> 'v \<Rightarrow> ('k \<times> 'v list) list \<Rightarrow> ('k \<times> 'v list) list" where
  "group_add k v [] = [(k, [v])]"
| "group_add k v ((k', vs) # gs) = (if k' = k then (k', vs @ [v]) # gs else (k', vs) # group_add k v gs)"

definition in_days :: "rat \<Rightarrow> millis \<Rightarrow> memory_observation \<Rightarrow> bool" where
  "in_days days now p \<longleftrightarrow>
     (case mo_observedAt p of None \<Rightarrow> False | Some t \<Rightarrow> of_int now - days * of_int DAY_MS \<le> of_int t)"

definition bucket_of :: "int \<Rightarrow> millis \<Rightarrow> millis" where
  "bucket_of bucketMs t = t div bucketMs * bucketMs"

definition group_key :: "memory_observation \<Rightarrow> millis \<Rightarrow> int \<Rightarrow> string" where
  "group_key p bucket bucketMs =
     join_with '':'' [mo_nodeId p, option_or (mo_appId p) ''node'', show_int bucket, show_int bucketMs]"

type_synonym groups = "(string \<times> memory_observation list) list"

text \<open>The loop over the observations; the bucket size is kept with its group, from whose key the
  source reads it back.\<close>

fun distribute ::
  "capacity_policy \<Rightarrow> millis \<Rightarrow> memory_observation list
     \<Rightarrow> memory_observation list \<times> groups \<times> groups \<Rightarrow> memory_observation list \<times> groups \<times> groups" where
  "distribute pol now [] acc = acc"
| "distribute pol now (p # ps) (kept, five, hourly) =
     (if \<not> in_days (rareEventRetentionDays pol) now p then distribute pol now ps (kept, five, hourly)
      else if in_days (exactRetentionDays pol) now p
      then distribute pol now ps (kept @ [p\<lparr>mo_bucketSeconds := 30\<rparr>], five, hourly)
      else if in_days (predictionWindowDays pol) now p
      then distribute pol now ps
        (kept, group_add (group_key p (bucket_of 300000 (mo_time p)) 300000) p five, hourly)
      else distribute pol now ps
        (kept, five, group_add (group_key p (bucket_of 3600000 (mo_time p)) 3600000) p hourly))"

definition max_rat0 :: "rat list \<Rightarrow> rat" where
  "max_rat0 xs = (case xs of [] \<Rightarrow> 0 | x # ys \<Rightarrow> foldl max x ys)"

definition min_available :: "int option list \<Rightarrow> int option" where
  "min_available vs =
     foldl (\<lambda>m v. case m of None \<Rightarrow> Some v | Some x \<Rightarrow> if v < x then Some v else Some x) None
       (List.map_filter (\<lambda>v. v) vs)"

definition compact_group :: "int \<Rightarrow> memory_observation list \<Rightarrow> memory_observation option" where
  "compact_group bucketMs grp =
     (case sort_desc mo_time grp of
        [] \<Rightarrow> None
      | newest # _ \<Rightarrow> Some (newest\<lparr>
          mo_observedAt := Some (bucket_of bucketMs (mo_time newest)),
          memoryCurrentBytes := maxBigInt (map memoryCurrentBytes grp),
          memoryPeakBytes := maxBigInt (map memoryPeakBytes grp),
          oomEvents := maxBigInt (map oomEvents grp),
          mo_startupPeakBytes := Some (maxBigInt (map (\<lambda>i. option_or (mo_startupPeakBytes i) 0) grp)),
          mo_nodeMemoryAvailableBytes := min_available (map mo_nodeMemoryAvailableBytes grp),
          mo_psiSomeAvg10 := Some (max_rat0 (map (\<lambda>i. option_or (mo_psiSomeAvg10 i) 0) grp)),
          mo_psiFullAvg10 := Some (max_rat0 (map (\<lambda>i. option_or (mo_psiFullAvg10 i) 0) grp)),
          mo_bucketSeconds := (if bucketMs = 300000 then 300 else 3600)\<rparr>))"

definition compactMemoryObservations ::
  "memory_observation list \<Rightarrow> millis \<Rightarrow> capacity_policy \<Rightarrow> memory_observation list" where
  "compactMemoryObservations obs now pol =
     (case distribute pol now obs ([], [], []) of (kept, five, hourly) \<Rightarrow>
        sort_asc mo_time
          (kept @ List.map_filter (\<lambda>kg. compact_group 300000 (snd kg)) five
                @ List.map_filter (\<lambda>kg. compact_group 3600000 (snd kg)) hourly))"

subsection \<open>Prediction\<close>

record app_prediction =
  pr_appId :: string
  pr_currentBytes :: int
  pr_averageBytes :: int
  pr_p95Bytes :: int
  pr_p99Bytes :: int
  pr_max7dBytes :: int
  pr_max30dBytes :: int
  pr_max90dBytes :: int
  pr_startupPeakBytes :: int
  predictedBytes :: int
  confidence :: rat
  pr_sampleCount :: nat
  pr_recentOomEvents :: int

definition in_startup :: "memory_observation \<Rightarrow> bool" where
  "in_startup p =
     (case (mo_observedAt p, mo_containerStartedAt p) of
        (Some t, Some s) \<Rightarrow> 0 \<le> t - s \<and> t - s \<le> 600000
      | _ \<Rightarrow> False)"

text \<open>\<open>latestByContainer\<close>: the entry of a key keeps its place when it is replaced.\<close>

fun latest_add :: "string \<Rightarrow> memory_observation \<Rightarrow> (string \<times> memory_observation) list
    \<Rightarrow> (string \<times> memory_observation) list" where
  "latest_add k p [] = [(k, p)]"
| "latest_add k p ((k', q) # m) =
     (if k' = k then (k', (if mo_time q < mo_time p then p else q)) # m else (k', q) # latest_add k p m)"

definition container_key :: "memory_observation \<Rightarrow> string" where
  "container_key p =
     option_or (mo_containerId p) (option_or (mo_appId p) ''unknown'' @ '':'' @ iso_string (mo_time p))"

definition recent_oom :: "memory_observation list \<Rightarrow> int" where
  "recent_oom ninety =
     foldl (\<lambda>s kp. s + oomEvents (snd kp)) 0 (foldl (\<lambda>m p. latest_add (container_key p) p m) [] ninety)"

definition expected_samples :: "capacity_policy \<Rightarrow> int" where
  "expected_samples pol = max 1 \<lfloor>predictionWindowDays pol * 86400 / telemetryIntervalSeconds pol\<rfloor>"

definition predicted_from :: "int \<Rightarrow> int \<Rightarrow> int \<Rightarrow> int" where
  "predicted_from base margin hardLimitBytes =
     (let withMargin = bigint_div (base * margin + 99) 100
      in if 0 < hardLimitBytes \<and> hardLimitBytes < withMargin then hardLimitBytes else withMargin)"

definition prediction_base :: "int \<Rightarrow> int \<Rightarrow> int" where
  "prediction_base observedBase hardLimitBytes =
     (if 0 < observedBase then observedBase
      else if 0 < hardLimitBytes then hardLimitBytes else 512 * 1024 * 1024)"

definition prediction_confidence :: "capacity_policy \<Rightarrow> memory_observation list \<Rightarrow> millis \<Rightarrow> rat" where
  "prediction_confidence pol app now =
     (let coverage = min 1 (of_nat (length app) / of_int (expected_samples pol));
          ageDays = (case head_opt (sort_asc mo_time app) of
              None \<Rightarrow> 0
            | Some oldest \<Rightarrow> min (predictionWindowDays pol) (max 0 (of_int (now - mo_time oldest) / of_int DAY_MS)));
          ageCoverage = min 1 (ageDays / predictionWindowDays pol)
      in max (5 / 100) (min 1 (65 / 100 * coverage + 35 / 100 * ageCoverage)))"

definition predictAppMemory ::
  "string \<Rightarrow> memory_observation list \<Rightarrow> int \<Rightarrow> capacity_policy \<Rightarrow> millis \<Rightarrow> string + app_prediction" where
  "predictAppMemory appId obs hardLimitBytes pol now =
     (let app = filter (\<lambda>i. mo_appId i = Some appId) obs;
          seven = filter (in_days 7 now) app;
          thirty = filter (in_days (predictionWindowDays pol) now) app;
          ninety = filter (in_days (rareEventRetentionDays pol) now) app;
          primary = (if thirty \<noteq> [] then thirty else ninety);
          values = map memoryCurrentBytes primary;
          latest = head_opt (sort_desc mo_time app);
          startup = filter in_startup ninety;
          p95 = percentile values (95 / 100);
          p99 = percentile values (99 / 100);
          startupPeak = maxBigInt (map memoryPeakBytes startup @ map (\<lambda>i. option_or (mo_startupPeakBytes i) 0) ninety);
          observedBase = maxBigInt [if predictionPercentile pol = 99 then p99 else p95, startupPeak,
                                    maxBigInt (map memoryCurrentBytes seven)];
          base = prediction_base observedBase hardLimitBytes
      in case bigint_of_number (100 + applicationMarginPercent pol) of
           Inl e \<Rightarrow> Inl e
         | Inr margin \<Rightarrow> Inr
             \<lparr>pr_appId = appId,
              pr_currentBytes = (case latest of None \<Rightarrow> 0 | Some i \<Rightarrow> memoryCurrentBytes i),
              pr_averageBytes = average values, pr_p95Bytes = p95, pr_p99Bytes = p99,
              pr_max7dBytes = maxBigInt (map memoryPeakBytes seven),
              pr_max30dBytes = maxBigInt (map memoryPeakBytes thirty),
              pr_max90dBytes = maxBigInt (map memoryPeakBytes ninety),
              pr_startupPeakBytes = startupPeak,
              predictedBytes = predicted_from base margin hardLimitBytes,
              confidence = prediction_confidence pol app now,
              pr_sampleCount = length app, pr_recentOomEvents = recent_oom ninety\<rparr>)"

subsection \<open>Existing demand and admission\<close>

text \<open>\<open>Math.round\<close> rounds halves up.\<close>

definition js_round :: "rat \<Rightarrow> int" where
  "js_round x = \<lfloor>x + 1 / 2\<rfloor>"

definition correlatedExistingDemand ::
  "int \<Rightarrow> int \<Rightarrow> int \<Rightarrow> rat \<Rightarrow> int \<Rightarrow> capacity_policy \<Rightarrow> string + int" where
  "correlatedExistingDemand sumAppPredictedBytes nodeP99Bytes currentAppMemoryBytes minAppConfidence
     nodeSampleCount pol =
     (case bigint_of_number (100 + applicationMarginPercent pol) of
        Inl e \<Rightarrow> Inl e
      | Inr margin \<Rightarrow>
          (let nodeProfileWithMargin = bigint_div (nodeP99Bytes * margin) 100;
               nodeFloor = (if currentAppMemoryBytes < nodeProfileWithMargin then nodeProfileWithMargin
                            else currentAppMemoryBytes)
           in if sumAppPredictedBytes \<le> nodeFloor then Inr nodeFloor
              else
                (let nodeCoverage = min 1 (of_int nodeSampleCount / of_int (expected_samples pol));
                     correlationConfidence = min (max 0 minAppConfidence) nodeCoverage;
                     cautiousShare = js_round ((1 - correlationConfidence) * 10000)
                 in Inr (nodeFloor + bigint_div ((sumAppPredictedBytes - nodeFloor) * cautiousShare) 10000))))"

record hybrid_input =
  hi_nodeMemoryTotalBytes :: int
  hi_nodeMemoryAvailableBytes :: int
  hi_currentAppMemoryBytes :: int
  hi_predictedExistingBytes :: int
  hi_requestedPredictedBytes :: int
  hi_inFlightPredictedBytes :: int
  hi_psiSomeAvg10 :: "rat option"
  hi_psiFullAvg10 :: "rat option"
  hi_recentOomEvents :: "int option"

record hybrid_decision =
  hd_allowed :: bool
  hd_reason :: string
  hd_nodeMemoryTotalBytes :: int
  hd_nodeMemoryAvailableBytes :: int
  hd_safetyReserveBytes :: int
  hd_currentAppMemoryBytes :: int
  hd_predictedExistingGrowthBytes :: int
  hd_requestedPredictedBytes :: int
  hd_inFlightPredictedBytes :: int
  hd_remainingAfterAdmissionBytes :: int

definition monus :: "int \<Rightarrow> int \<Rightarrow> int" where
  "monus a b = (if b < a then a - b else 0)"

definition evaluateHybridNodeAdmission :: "hybrid_input \<Rightarrow> capacity_policy \<Rightarrow> string + hybrid_decision" where
  "evaluateHybridNodeAdmission i pol =
     (case bigint_of_number (nodeSafetyBufferPercent pol) of
        Inl e \<Rightarrow> Inl e
      | Inr buffer \<Rightarrow>
          (let percentReserve = bigint_div (hi_nodeMemoryTotalBytes i * buffer) 100;
               reserve = (if minimumSystemReserveBytes pol < percentReserve then percentReserve
                          else minimumSystemReserveBytes pol);
               growth = monus (hi_predictedExistingBytes i) (hi_currentAppMemoryBytes i);
               requiredGrowth = growth + hi_requestedPredictedBytes i + hi_inFlightPredictedBytes i;
               remaining = monus (hi_nodeMemoryAvailableBytes i) requiredGrowth;
               pressureHigh = (1 \<le> option_or (hi_psiFullAvg10 i) 0 \<or> 10 \<le> option_or (hi_psiSomeAvg10 i) 0);
               decide = (\<lambda>allowed reason.
                 \<lparr>hd_allowed = allowed, hd_reason = reason,
                  hd_nodeMemoryTotalBytes = hi_nodeMemoryTotalBytes i,
                  hd_nodeMemoryAvailableBytes = hi_nodeMemoryAvailableBytes i,
                  hd_safetyReserveBytes = reserve,
                  hd_currentAppMemoryBytes = hi_currentAppMemoryBytes i,
                  hd_predictedExistingGrowthBytes = growth,
                  hd_requestedPredictedBytes = hi_requestedPredictedBytes i,
                  hd_inFlightPredictedBytes = hi_inFlightPredictedBytes i,
                  hd_remainingAfterAdmissionBytes = remaining\<rparr>)
           in Inr
             (if pressureHigh then decide False ''memory pressure is above the Hybrid safety threshold''
              else if 0 < option_or (hi_recentOomEvents i) 0 \<and> remaining < reserve * 2
              then decide False ''recent OOM events require an enlarged effective safety margin''
              else decide (reserve \<le> remaining)
                (if reserve \<le> remaining
                 then ''predicted growth fits while preserving the physical safety reserve''
                 else ''predicted growth would consume the physical safety reserve''))))"


section \<open>Properties\<close>

subsection \<open>Percentiles\<close>

lemma percentile_index:
  assumes "values \<noteq> []" and "0 < q" and "q \<le> 1"
  obtains k where "percentile values q = sort values ! k" "k < length values" "int k = \<lceil>q * of_nat (length values)\<rceil> - 1"
proof -
  let ?n = "length values"
  have n: "(0 :: rat) < of_nat ?n" using assms(1) by simp
  define c where "c = \<lceil>q * of_nat ?n\<rceil>"
  have "0 < q * of_nat ?n" using assms(2) n by simp
  then have c1: "1 \<le> c" by (simp add: c_def less_ceiling_iff)
  have "q * of_nat ?n \<le> of_nat ?n" using assms(3) n by simp
  then have c2: "c \<le> int ?n" by (simp add: c_def ceiling_le_iff)
  have m: "min (int ?n - 1) (max 0 (c - 1)) = c - 1" using c1 c2 by linarith
  have "percentile values q = sort values ! nat (c - 1)"
    using assms(1) m by (simp only: percentile_def Let_def length_sort if_False c_def)
  moreover have "nat (c - 1) < ?n" and "int (nat (c - 1)) = c - 1" using c1 c2 by linarith+
  ultimately show thesis using that [of "nat (c - 1)"] by (simp only: c_def)
qed

lemma sorted_count_le:
  assumes "sorted xs" and "k < length xs"
  shows "Suc k \<le> length (filter (\<lambda>v. v \<le> xs ! k) xs)" "length (filter (\<lambda>v. v < xs ! k) xs) \<le> k"
proof -
  have "filter (\<lambda>v. v \<le> xs ! k) (take (Suc k) xs) = take (Suc k) xs"
    using assms by (intro filter_True) (auto simp: in_set_conv_nth sorted_nth_mono)
  then have "filter (\<lambda>v. v \<le> xs ! k) xs = take (Suc k) xs @ filter (\<lambda>v. v \<le> xs ! k) (drop (Suc k) xs)"
    by (metis append_take_drop_id filter_append)
  then show "Suc k \<le> length (filter (\<lambda>v. v \<le> xs ! k) xs)" using assms(2) by simp
  have "filter (\<lambda>v. v < xs ! k) (drop k xs) = []"
    using assms by (auto simp: filter_empty_conv in_set_conv_nth not_less sorted_nth_mono)
  then have "filter (\<lambda>v. v < xs ! k) xs = filter (\<lambda>v. v < xs ! k) (take k xs)"
    by (metis append_take_drop_id append_Nil2 filter_append)
  then show "length (filter (\<lambda>v. v < xs ! k) xs) \<le> k"
    using length_filter_le [of "\<lambda>v. v < xs ! k" "take k xs"] by simp
qed

lemma length_filter_sort: "length (filter P (sort xs)) = length (filter P (xs :: int list))"
  by (metis mset_filter mset_sort size_mset)

text \<open>
  \<open>percentile\<close> is the nearest-rank percentile: for a fraction \<open>q\<close> in (0, 1] of a non-empty list
  it returns an observed value such that at least the fraction \<open>q\<close> of the observations are at or
  below it and less than that fraction are strictly below it.
\<close>

lemma percentile_is_nearest_rank:
  assumes "values \<noteq> []" and "0 < q" and "q \<le> 1"
  shows "percentile values q \<in> set values \<and>
    q * of_nat (length values) \<le> of_nat (length (filter (\<lambda>v. v \<le> percentile values q) values)) \<and>
    of_nat (length (filter (\<lambda>v. v < percentile values q) values)) < q * of_nat (length values)"
proof -
  obtain k where k: "percentile values q = sort values ! k" "k < length values"
    "int k = \<lceil>q * of_nat (length values)\<rceil> - 1"
    by (rule percentile_index [OF assms])
  have le: "Suc k \<le> length (filter (\<lambda>v. v \<le> percentile values q) values)"
    and lt: "length (filter (\<lambda>v. v < percentile values q) values) \<le> k"
    using sorted_count_le [of "sort values" k] k(1,2) by (simp_all add: length_filter_sort)
  have "q * of_nat (length values) \<le> of_int \<lceil>q * of_nat (length values)\<rceil>" by simp
  also have "\<dots> = of_nat (Suc k)" using k(3) by (metis diff_add_cancel of_int_of_nat_eq of_nat_Suc add.commute)
  also have "\<dots> \<le> of_nat (length (filter (\<lambda>v. v \<le> percentile values q) values))" using le by (simp only: of_nat_le_iff)
  finally have a: "q * of_nat (length values) \<le> of_nat (length (filter (\<lambda>v. v \<le> percentile values q) values))" .
  have "of_int (int k) < q * of_nat (length values)" using k(3) by linarith
  then have b: "of_nat (length (filter (\<lambda>v. v < percentile values q) values)) < q * of_nat (length values)"
    using lt by (smt (verit) of_int_of_nat_eq of_nat_le_iff order_le_less_trans)
  have "sort values ! k \<in> set (sort values)" using k(2) by (intro nth_mem) simp
  then show ?thesis using a b k(1) by simp
qed

end
