(* ===== verification/CapacityHybridSafety.thy ===== *)
theory CapacityHybridSafety
  imports CapacityHybrid
begin

text \<open>
  What \<open>capacity/capacity-hybrid.logic.ts\<close> promises: compaction never lowers a recorded maximum, a
  prediction covers what was observed and stays within the hard limit, the correlated demand lies
  between the node profile and the sum of the app predictions, and a node is only admitted when
  its physical reserve survives.
\<close>

section \<open>Compaction\<close>

definition groups_ok :: "int \<Rightarrow> groups \<Rightarrow> bool" where
  "groups_ok B gs \<longleftrightarrow>
     (\<forall>kg \<in> set gs. snd kg \<noteq> [] \<and> (\<forall>v \<in> set (snd kg). fst kg = group_key v (bucket_of B (mo_time v)) B))"

definition grouped :: "memory_observation \<Rightarrow> groups \<Rightarrow> bool" where
  "grouped p gs \<longleftrightarrow> (\<exists>kg \<in> set gs. p \<in> set (snd kg))"

lemma groups_ok_Nil [simp]: "groups_ok B []"
  by (simp add: groups_ok_def)

lemma group_add_ok:
  assumes "groups_ok B gs"
  shows "groups_ok B (group_add (group_key p (bucket_of B (mo_time p)) B) p gs)"
  using assms
  by (induction "group_key p (bucket_of B (mo_time p)) B" p gs rule: group_add.induct)
    (auto simp: groups_ok_def)

lemma group_add_grouped: "grouped q (group_add k p gs) \<longleftrightarrow> q = p \<or> grouped q gs"
  by (induction k p gs rule: group_add.induct) (auto simp: grouped_def)

lemma distribute_inv:
  assumes "distribute pol now ps (kept, five, hourly) = (kept', five', hourly')"
    and "groups_ok 300000 five" and "groups_ok 3600000 hourly"
  shows "groups_ok 300000 five' \<and> groups_ok 3600000 hourly' \<and> set kept \<subseteq> set kept' \<and>
    (\<forall>q. grouped q five \<longrightarrow> grouped q five') \<and> (\<forall>q. grouped q hourly \<longrightarrow> grouped q hourly') \<and>
    (\<forall>p \<in> set ps. in_days (rareEventRetentionDays pol) now p \<longrightarrow>
       p\<lparr>mo_bucketSeconds := 30\<rparr> \<in> set kept' \<or> grouped p five' \<or> grouped p hourly')"
  using assms
proof (induction ps arbitrary: kept five hourly)
  case (Cons p ps)
  consider (old) "\<not> in_days (rareEventRetentionDays pol) now p"
    | (exact) "in_days (rareEventRetentionDays pol) now p" "in_days (exactRetentionDays pol) now p"
    | (mid) "in_days (rareEventRetentionDays pol) now p" "\<not> in_days (exactRetentionDays pol) now p"
        "in_days (predictionWindowDays pol) now p"
    | (far) "in_days (rareEventRetentionDays pol) now p" "\<not> in_days (exactRetentionDays pol) now p"
        "\<not> in_days (predictionWindowDays pol) now p" by blast
  then show ?case
  proof cases
    case old
    then show ?thesis using Cons.IH [of kept five hourly] Cons.prems by auto
  next
    case exact
    then show ?thesis
      using Cons.IH [of "kept @ [p\<lparr>mo_bucketSeconds := 30\<rparr>]" five hourly] Cons.prems by auto
  next
    case mid
    then show ?thesis
      using Cons.IH [of kept "group_add (group_key p (bucket_of 300000 (mo_time p)) 300000) p five" hourly]
        Cons.prems group_add_ok [of 300000 five p] by (auto simp: group_add_grouped)
  next
    case far
    then show ?thesis
      using Cons.IH [of kept five "group_add (group_key p (bucket_of 3600000 (mo_time p)) 3600000) p hourly"]
        Cons.prems group_add_ok [of 3600000 hourly p] by (auto simp: group_add_grouped)
  qed
qed auto

lemma distribute_from:
  assumes "distribute pol now obs ([], [], []) = (kept, five, hourly)"
  shows "\<forall>q. grouped q five \<or> grouped q hourly \<longrightarrow> q \<in> set obs"
proof -
  have "\<forall>q. grouped q five' \<or> grouped q hourly' \<longrightarrow> grouped q five0 \<or> grouped q hourly0 \<or> q \<in> set ps"
    if "distribute pol now ps (kept0, five0, hourly0) = (kept', five', hourly')"
    for ps kept0 five0 hourly0 kept' five' hourly'
    using that
  proof (induction ps arbitrary: kept0 five0 hourly0)
    case (Cons p ps)
    from Cons.prems show ?case
      by (auto simp: group_add_grouped split: if_splits dest!: Cons.IH)
  qed auto
  from this [OF assms] show ?thesis by (simp add: grouped_def)
qed

lemma min_available_foldl:
  "x \<in> set_option m \<union> set vs \<Longrightarrow>
   \<exists>b. foldl (\<lambda>m v. case m of None \<Rightarrow> Some v | Some x \<Rightarrow> if v < x then Some v else Some x) m vs = Some b \<and>
     b \<le> (x :: int)"
proof (induction vs arbitrary: m x)
  case (Cons v vs)
  let ?m = "case m of None \<Rightarrow> Some v | Some x \<Rightarrow> if v < x then Some v else Some x"
  have "\<exists>y \<in> set_option ?m \<union> set vs. y \<le> x"
    using Cons.prems by (cases m) auto
  then obtain y where y: "y \<in> set_option ?m \<union> set vs" "y \<le> x" by blast
  show ?case using Cons.IH [OF y(1)] y(2) by auto
qed auto

lemma min_available_le:
  assumes "Some a \<in> set vs"
  shows "\<exists>b. min_available vs = Some b \<and> b \<le> a"
proof -
  have "a \<in> set (List.map_filter (\<lambda>v. v) vs)" using assms by (force simp: map_filter_def)
  then show ?thesis using min_available_foldl [of a None] by (simp add: min_available_def)
qed

lemma foldl_max_ge: "x = a \<or> x \<in> set zs \<Longrightarrow> x \<le> foldl max (a :: rat) zs"
  by (induction zs arbitrary: a x) (auto intro: order_trans [OF max.cobounded1] order_trans [OF max.cobounded2])

lemma max_rat0_ge: "x \<in> set xs \<Longrightarrow> x \<le> max_rat0 xs"
  by (cases xs) (auto simp: max_rat0_def foldl_max_ge)

text \<open>What an output \<open>q\<close> must keep of an observation \<open>p\<close> it stands for.\<close>

definition covers :: "memory_observation \<Rightarrow> memory_observation \<Rightarrow> bool" where
  "covers q p \<longleftrightarrow>
     mo_nodeId q = mo_nodeId p \<and> option_or (mo_appId q) ''node'' = option_or (mo_appId p) ''node'' \<and>
     mo_time q \<le> mo_time p \<and> mo_time p < mo_time q + 3600000 \<and>
     memoryCurrentBytes p \<le> memoryCurrentBytes q \<and> memoryPeakBytes p \<le> memoryPeakBytes q \<and>
     oomEvents p \<le> oomEvents q \<and>
     option_or (mo_startupPeakBytes p) 0 \<le> option_or (mo_startupPeakBytes q) 0 \<and>
     option_or (mo_psiSomeAvg10 p) 0 \<le> option_or (mo_psiSomeAvg10 q) 0 \<and>
     option_or (mo_psiFullAvg10 p) 0 \<le> option_or (mo_psiFullAvg10 q) 0 \<and>
     (\<forall>a. mo_nodeMemoryAvailableBytes p = Some a \<longrightarrow>
        (\<exists>b. mo_nodeMemoryAvailableBytes q = Some b \<and> b \<le> a))"

definition plain_ids :: "memory_observation \<Rightarrow> bool" where
  "plain_ids p \<longleftrightarrow> CHR '':'' \<notin> set (mo_nodeId p) \<and> CHR '':'' \<notin> set (option_or (mo_appId p) ''node'')"

lemma show_int_no_colon: "CHR '':'' \<notin> set (show_int i)"
proof -
  have "\<not> is_digit CHR '':''" by (simp add: is_digit_def)
  then have "CHR '':'' \<notin> set (show_nat n)" for n
    using show_nat_digits [of n] by (auto simp: list_all_iff)
  then show ?thesis by (simp add: show_int_def)
qed

lemma show_int_inject: "show_int i = show_int j \<Longrightarrow> i = j"
proof -
  have "CHR ''-'' \<notin> set (show_nat n)" for n
    using show_nat_digits [of n] by (auto simp: list_all_iff is_digit_def)
  then have "show_nat n \<noteq> ''-'' @ w" for n w by (metis append_Cons list.set_intros(1))
  then show "show_int i = show_int j \<Longrightarrow> i = j"
    by (auto simp: show_int_def split: if_splits) (metis append_Cons append_Nil)+
qed

lemma group_key_inject:
  assumes "group_key p i B = group_key q j B" and "plain_ids p" and "plain_ids q"
  shows "mo_nodeId p = mo_nodeId q \<and> option_or (mo_appId p) ''node'' = option_or (mo_appId q) ''node'' \<and> i = j"
proof -
  have "split_on CHR '':'' (group_key r k B) =
      [mo_nodeId r, option_or (mo_appId r) ''node'', show_int k, show_int B]" if "plain_ids r" for r k
    using that unfolding group_key_def by (intro split_on_join_with) (auto simp: plain_ids_def show_int_no_colon)
  then have "[mo_nodeId p, option_or (mo_appId p) ''node'', show_int i, show_int B] =
      [mo_nodeId q, option_or (mo_appId q) ''node'', show_int j, show_int B]"
    using assms by metis
  then show ?thesis using show_int_inject by auto
qed

lemma bucket_of_bounds: "0 < B \<Longrightarrow> bucket_of B t \<le> t \<and> t < bucket_of B t + B"
  using pos_mod_bound [of B t] pos_mod_sign [of B t]
  by (simp add: bucket_of_def minus_mod_eq_div_mult [symmetric])

lemma compact_group_covers:
  assumes "groups_ok B gs" and "kg \<in> set gs" and "p \<in> set (snd kg)" and "0 < B" "B \<le> 3600000"
    and "\<forall>v \<in> set (snd kg). plain_ids v"
  shows "\<exists>q. compact_group B (snd kg) = Some q \<and> covers q p"
proof -
  obtain n ns where sd: "sort_desc mo_time (snd kg) = n # ns"
    using assms(3) by (cases "sort_desc mo_time (snd kg)") (auto simp: sort_desc_Nil_iff)
  then have n: "n \<in> set (snd kg)" by (metis list.set_intros(1) set_sort_desc)
  have "group_key n (bucket_of B (mo_time n)) B = group_key p (bucket_of B (mo_time p)) B"
    using assms(1,2,3) n unfolding groups_ok_def by metis
  then have same: "mo_nodeId n = mo_nodeId p" "option_or (mo_appId n) ''node'' = option_or (mo_appId p) ''node''"
    "bucket_of B (mo_time n) = bucket_of B (mo_time p)"
    using group_key_inject assms(3,6) n by blast+
  have m: "f p \<le> maxBigInt (map f (snd kg))" for f
    using assms(3) by (intro maxBigInt_ge) simp
  have r: "f p \<le> max_rat0 (map f (snd kg))" for f
    using assms(3) by (intro max_rat0_ge) simp
  have v: "\<forall>a. mo_nodeMemoryAvailableBytes p = Some a \<longrightarrow>
      (\<exists>b. min_available (map mo_nodeMemoryAvailableBytes (snd kg)) = Some b \<and> b \<le> a)"
    using assms(3) by (metis min_available_le image_eqI list.set_map)
  have t: "bucket_of B (mo_time p) \<le> mo_time p" "mo_time p < bucket_of B (mo_time p) + 3600000"
    using bucket_of_bounds [OF assms(4), of "mo_time p"] assms(5) by auto
  show ?thesis
    using sd same v t m [of memoryCurrentBytes] m [of memoryPeakBytes] m [of oomEvents]
      m [of "\<lambda>i. option_or (mo_startupPeakBytes i) 0"] r [of "\<lambda>i. option_or (mo_psiSomeAvg10 i) 0"]
      r [of "\<lambda>i. option_or (mo_psiFullAvg10 i) 0"]
    by (simp add: compact_group_def covers_def mo_time_def)
qed

lemma covers_kept: "covers (p\<lparr>mo_bucketSeconds := 30\<rparr>) p"
  by (simp add: covers_def mo_time_def)

text \<open>
  Compaction never hides a peak. The result is ordered by time, and every observation inside the
  retention window is represented by an entry of the same node and app, at most an hour before it,
  whose memory, peak, startup peak, OOM count and pressure are at least, and whose available node
  memory is at most, the observation's. (Node and app ids contain no colon.)
\<close>

lemma compaction_is_conservative:
  assumes "\<forall>p \<in> set obs. plain_ids p"
  shows "sorted (map mo_time (compactMemoryObservations obs now pol)) \<and>
    (\<forall>p \<in> set obs. in_days (rareEventRetentionDays pol) now p \<longrightarrow>
       (\<exists>q \<in> set (compactMemoryObservations obs now pol). covers q p))"
proof
  obtain kept five hourly where d: "distribute pol now obs ([], [], []) = (kept, five, hourly)"
    by (metis prod_cases3)
  note inv = distribute_inv [OF d groups_ok_Nil groups_ok_Nil]
  note from_obs = distribute_from [OF d]
  have out: "set (compactMemoryObservations obs now pol) =
      set kept \<union> {q. \<exists>kg \<in> set five. compact_group 300000 (snd kg) = Some q}
               \<union> {q. \<exists>kg \<in> set hourly. compact_group 3600000 (snd kg) = Some q}"
    by (rule set_eqI) (simp add: compactMemoryObservations_def d set_map_filter_iff)
  show "sorted (map mo_time (compactMemoryObservations obs now pol))"
    by (simp add: compactMemoryObservations_def d sort_asc_def)
  show "\<forall>p \<in> set obs. in_days (rareEventRetentionDays pol) now p \<longrightarrow>
      (\<exists>q \<in> set (compactMemoryObservations obs now pol). covers q p)"
  proof (intro ballI impI)
    fix p assume p: "p \<in> set obs" "in_days (rareEventRetentionDays pol) now p"
    then consider "p\<lparr>mo_bucketSeconds := 30\<rparr> \<in> set kept" | "grouped p five" | "grouped p hourly"
      using inv by blast
    then show "\<exists>q \<in> set (compactMemoryObservations obs now pol). covers q p"
    proof cases
      case 1
      then show ?thesis using covers_kept by (auto simp: out)
    next
      case 2
      then obtain kg where kg: "kg \<in> set five" "p \<in> set (snd kg)" by (auto simp: grouped_def)
      have "\<forall>v \<in> set (snd kg). plain_ids v" using from_obs kg(1) assms by (auto simp: grouped_def)
      then show ?thesis using compact_group_covers [of 300000 five kg p] inv kg by (auto simp: out)
    next
      case 3
      then obtain kg where kg: "kg \<in> set hourly" "p \<in> set (snd kg)" by (auto simp: grouped_def)
      have "\<forall>v \<in> set (snd kg). plain_ids v" using from_obs kg(1) assms by (auto simp: grouped_def)
      then show ?thesis using compact_group_covers [of 3600000 hourly kg p] inv kg by (auto simp: out)
    qed
  qed
qed


section \<open>Predictions\<close>

lemma bigint_of_number_Inr: "is_integer x \<Longrightarrow> bigint_of_number x = Inr \<lfloor>x\<rfloor>"
  by (simp add: bigint_of_number_def)

lemma margin_ok:
  assumes "policy_ok pol"
  shows "\<exists>m. bigint_of_number (100 + applicationMarginPercent pol) = Inr m \<and> 105 \<le> m \<and> m \<le> 150 \<and>
    of_int m = 100 + applicationMarginPercent pol"
proof -
  have i: "of_int \<lfloor>applicationMarginPercent pol\<rfloor> = applicationMarginPercent pol"
    and b: "5 \<le> applicationMarginPercent pol" "applicationMarginPercent pol \<le> 50"
    using assms by (auto simp: policy_ok_def is_integer_def)
  have "\<lfloor>100 + applicationMarginPercent pol\<rfloor> = 100 + \<lfloor>applicationMarginPercent pol\<rfloor>"
    by (metis floor_of_int i of_int_add of_int_numeral)
  moreover have "5 \<le> \<lfloor>applicationMarginPercent pol\<rfloor>" "\<lfloor>applicationMarginPercent pol\<rfloor> \<le> 50"
    using b i by (simp_all add: le_floor_iff floor_le_iff)
  ultimately show ?thesis using i by (simp add: bigint_of_number_def is_integer_def)
qed

lemma predicted_from_bounds:
  assumes "0 < base" and "105 \<le> m"
  shows "0 < predicted_from base m limit \<and> (0 < limit \<longrightarrow> predicted_from base m limit \<le> limit) \<and>
    (if 0 < limit then min base limit else base) \<le> predicted_from base m limit \<and>
    100 * predicted_from base m limit \<le> base * m + 99"
proof -
  have y: "base * 105 \<le> base * m" using assms by (intro mult_left_mono) auto
  then have "bigint_div (base * m + 99) 100 = (base * m + 99) div 100"
    using assms(1) by (intro bigint_div_nonneg) linarith+
  moreover have "base \<le> (base * m + 99) div 100" "100 * ((base * m + 99) div 100) \<le> base * m + 99"
    using y assms(1) by linarith+
  ultimately have w: "bigint_div (base * m + 99) 100 = (base * m + 99) div 100" "base \<le> (base * m + 99) div 100"
    "100 * ((base * m + 99) div 100) \<le> base * m + 99" by blast+
  show ?thesis using assms(1) w by (auto simp: predicted_from_def Let_def)
qed

lemma prediction_confidence_bounds: "5 / 100 \<le> prediction_confidence pol app now \<and> prediction_confidence pol app now \<le> 1"
  by (simp add: prediction_confidence_def Let_def)

text \<open>
  Under any accepted policy a prediction exists, is positive, never exceeds a set hard limit, and
  covers (up to that limit) the memory the app used in the last seven days and every recorded
  startup peak of the retention window; its confidence lies between 5 percent and 1.
\<close>

lemma prediction_covers_observations:
  assumes "policy_ok pol"
  shows "\<exists>r. predictAppMemory appId obs limit pol now = Inr r \<and> 0 < predictedBytes r \<and>
    (0 < limit \<longrightarrow> predictedBytes r \<le> limit) \<and>
    5 / 100 \<le> confidence r \<and> confidence r \<le> 1 \<and>
    (\<forall>p \<in> set obs. mo_appId p = Some appId \<longrightarrow>
       (in_days 7 now p \<longrightarrow> (if 0 < limit then min (memoryCurrentBytes p) limit else memoryCurrentBytes p)
          \<le> predictedBytes r) \<and>
       (in_days (rareEventRetentionDays pol) now p \<longrightarrow>
          (let s = option_or (mo_startupPeakBytes p) 0
           in if 0 < limit then min s limit else s) \<le> predictedBytes r))"
proof -
  obtain m where m: "bigint_of_number (100 + applicationMarginPercent pol) = Inr m" "105 \<le> m"
    using margin_ok [OF assms] by blast
  obtain r where r: "predictAppMemory appId obs limit pol now = Inr r"
    by (simp add: predictAppMemory_def Let_def m)
  let ?app = "filter (\<lambda>i. mo_appId i = Some appId) obs"
  let ?ninety = "filter (in_days (rareEventRetentionDays pol) now) ?app"
  let ?startup = "maxBigInt (map memoryPeakBytes (filter in_startup ?ninety)
                             @ map (\<lambda>i. option_or (mo_startupPeakBytes i) 0) ?ninety)"
  let ?seven = "maxBigInt (map memoryCurrentBytes (filter (in_days 7 now) ?app))"
  obtain q where pb: "predictedBytes r = predicted_from (prediction_base (maxBigInt [q, ?startup, ?seven]) limit) m limit"
    and c: "confidence r = prediction_confidence pol ?app now"
    using r by (auto simp: predictAppMemory_def Let_def m)
  let ?b = "prediction_base (maxBigInt [q, ?startup, ?seven]) limit"
  have b: "0 < ?b" "maxBigInt [q, ?startup, ?seven] \<le> ?b"
    using maxBigInt_nonneg [of "[q, ?startup, ?seven]"] by (auto simp: prediction_base_def)
  have lower: "(if 0 < limit then min x limit else x) \<le> predictedBytes r" if "x \<le> maxBigInt [q, ?startup, ?seven]" for x
    using predicted_from_bounds [OF b(1) m(2), of limit] that b(2) by (auto simp: pb split: if_splits)
  have seven: "memoryCurrentBytes p \<le> maxBigInt [q, ?startup, ?seven]"
    if "p \<in> set obs" "mo_appId p = Some appId" "in_days 7 now p" for p
  proof -
    have "memoryCurrentBytes p \<le> ?seven" using that by (intro maxBigInt_ge) auto
    also have "\<dots> \<le> maxBigInt [q, ?startup, ?seven]" by (intro maxBigInt_ge) simp
    finally show ?thesis .
  qed
  have start: "option_or (mo_startupPeakBytes p) 0 \<le> maxBigInt [q, ?startup, ?seven]"
    if "p \<in> set obs" "mo_appId p = Some appId" "in_days (rareEventRetentionDays pol) now p" for p
  proof -
    have "option_or (mo_startupPeakBytes p) 0 \<le> ?startup" using that by (intro maxBigInt_ge) auto
    also have "\<dots> \<le> maxBigInt [q, ?startup, ?seven]" by (intro maxBigInt_ge) simp
    finally show ?thesis .
  qed
  show ?thesis
    using r predicted_from_bounds [OF b(1) m(2), of limit] prediction_confidence_bounds [of pol ?app now] lower seven start
    by (auto simp: c pb Let_def)
qed


section \<open>Correlated demand\<close>

definition node_floor :: "int \<Rightarrow> int \<Rightarrow> capacity_policy \<Rightarrow> int" where
  "node_floor p99 cur pol = max cur \<lfloor>of_int p99 * (100 + applicationMarginPercent pol) / 100\<rfloor>"

lemma js_round_share: "0 \<le> c \<Longrightarrow> c \<le> 1 \<Longrightarrow> 0 \<le> js_round ((1 - c) * 10000) \<and> js_round ((1 - c) * 10000) \<le> 10000"
  by (auto simp: js_round_def le_floor_iff floor_le_iff)

lemma share_le: "0 \<le> g \<Longrightarrow> 0 \<le> s \<Longrightarrow> s \<le> 10000 \<Longrightarrow> 0 \<le> g * s div 10000 \<and> g * s div 10000 \<le> (g :: int)"
  using mult_left_mono [of s 10000 g] zdiv_mono1 [of "g * s" "g * 10000" 10000]
  by (auto simp: pos_imp_zdiv_nonneg_iff)

text \<open>
  The demand assumed for the apps already on a node is never below what they use now nor below
  the node's own 99th percentile with its margin, never above the larger of that and the sum of the
  individual predictions, and without confidence in the predictions it is that full sum.
\<close>

lemma correlated_demand_between_floor_and_sum:
  assumes "policy_ok pol" and "0 \<le> p99" and "0 \<le> samples"
  shows "\<exists>d. correlatedExistingDemand sumPredicted p99 cur conf samples pol = Inr d \<and>
    cur \<le> d \<and> node_floor p99 cur pol \<le> d \<and> d \<le> max (node_floor p99 cur pol) sumPredicted \<and>
    (conf \<le> 0 \<longrightarrow> d = max (node_floor p99 cur pol) sumPredicted)"
proof -
  obtain m where m: "bigint_of_number (100 + applicationMarginPercent pol) = Inr m" "105 \<le> m"
    "of_int m = 100 + applicationMarginPercent pol"
    using margin_ok [OF assms(1)] by blast
  have "\<lfloor>of_int p99 * (100 + applicationMarginPercent pol) / 100\<rfloor> = \<lfloor>(of_int (p99 * m) / of_int 100 :: rat)\<rfloor>"
    by (simp add: m(3))
  also have "\<dots> = p99 * m div 100" by (rule floor_divide_of_int_eq)
  finally have profile: "bigint_div (p99 * m) 100 = \<lfloor>of_int p99 * (100 + applicationMarginPercent pol) / 100\<rfloor>"
    using assms(2) m(2) by (simp add: bigint_div_nonneg)
  let ?f = "node_floor p99 cur pol"
  have floor: "(if cur < bigint_div (p99 * m) 100 then bigint_div (p99 * m) 100 else cur) = ?f"
    by (simp add: node_floor_def profile)
  have cur: "cur \<le> ?f" by (simp add: node_floor_def)
  let ?c = "min (max 0 conf) (min 1 (of_int samples / of_int (expected_samples pol)))"
  have c: "0 \<le> ?c" "?c \<le> 1" using assms(3) by (auto simp: expected_samples_def)
  let ?s = "js_round ((1 - ?c) * 10000)"
  have s: "0 \<le> ?s" "?s \<le> 10000" using js_round_share [OF c] by blast+
  have full: "?s = 10000" if "conf \<le> 0"
  proof -
    have "?c = 0" using that assms(3) by (auto simp: expected_samples_def)
    then show ?thesis by (simp only: js_round_def) (simp add: floor_eq_iff)
  qed
  show ?thesis
  proof (cases "sumPredicted \<le> ?f")
    case True
    then have "correlatedExistingDemand sumPredicted p99 cur conf samples pol = Inr ?f"
      by (simp only: correlatedExistingDemand_def m sum.case Let_def floor if_True)
    then show ?thesis using True cur by auto
  next
    case False
    define x where "x = (sumPredicted - ?f) * ?s div 10000"
    have "bigint_div ((sumPredicted - ?f) * ?s) 10000 = x"
      using False s by (simp add: bigint_div_nonneg x_def)
    then have eq: "correlatedExistingDemand sumPredicted p99 cur conf samples pol = Inr (?f + x)"
      using False by (simp only: correlatedExistingDemand_def m sum.case Let_def floor if_False)
    have x: "0 \<le> x" "x \<le> sumPredicted - ?f"
      using False s share_le [of "sumPredicted - ?f" ?s] by (simp_all add: x_def)
    have x_full: "conf \<le> 0 \<longrightarrow> x = sumPredicted - ?f"
      using full by (simp add: x_def)
    have mx: "max ?f sumPredicted = sumPredicted" using False by linarith
    show ?thesis
      unfolding eq mx using x x_full cur by (intro exI [of _ "?f + x"]) auto
  qed
qed

section \<open>Node admission\<close>

definition safety_reserve :: "int \<Rightarrow> capacity_policy \<Rightarrow> int" where
  "safety_reserve nodeTotal pol =
     max (minimumSystemReserveBytes pol) \<lfloor>of_int nodeTotal * nodeSafetyBufferPercent pol / 100\<rfloor>"

lemma buffer_ok:
  assumes "policy_ok pol"
  shows "\<exists>b. bigint_of_number (nodeSafetyBufferPercent pol) = Inr b \<and> 10 \<le> b \<and> b \<le> 50 \<and>
    of_int b = nodeSafetyBufferPercent pol"
proof -
  have "of_int \<lfloor>nodeSafetyBufferPercent pol\<rfloor> = nodeSafetyBufferPercent pol"
    "10 \<le> nodeSafetyBufferPercent pol" "nodeSafetyBufferPercent pol \<le> 50"
    using assms by (auto simp: policy_ok_def is_integer_def)
  then show ?thesis by (simp add: bigint_of_number_def is_integer_def le_floor_iff floor_le_iff)
qed

lemma hybrid_admission_iff:
  assumes "policy_ok pol" and "0 \<le> hi_nodeMemoryTotalBytes i"
  shows "\<exists>d. evaluateHybridNodeAdmission i pol = Inr d \<and>
    (hd_allowed d \<longleftrightarrow>
       max 0 (hi_predictedExistingBytes i - hi_currentAppMemoryBytes i)
         + hi_requestedPredictedBytes i + hi_inFlightPredictedBytes i
         + (if 0 < option_or (hi_recentOomEvents i) 0 then 2 else 1) * safety_reserve (hi_nodeMemoryTotalBytes i) pol
         \<le> hi_nodeMemoryAvailableBytes i \<and>
       option_or (hi_psiFullAvg10 i) 0 < 1 \<and> option_or (hi_psiSomeAvg10 i) 0 < 10)"
proof -
  obtain b where b: "bigint_of_number (nodeSafetyBufferPercent pol) = Inr b" "10 \<le> b"
    "of_int b = nodeSafetyBufferPercent pol"
    using buffer_ok [OF assms(1)] by blast
  let ?t = "hi_nodeMemoryTotalBytes i"
  have "\<lfloor>of_int ?t * nodeSafetyBufferPercent pol / 100\<rfloor> = \<lfloor>(of_int (?t * b) / of_int 100 :: rat)\<rfloor>"
    by (simp add: b(3))
  also have "\<dots> = ?t * b div 100" by (rule floor_divide_of_int_eq)
  finally have share: "bigint_div (?t * b) 100 = \<lfloor>of_int ?t * nodeSafetyBufferPercent pol / 100\<rfloor>"
    using assms(2) b(2) by (simp add: bigint_div_nonneg)
  let ?r = "safety_reserve ?t pol"
  have reserve: "(if minimumSystemReserveBytes pol < bigint_div (?t * b) 100 then bigint_div (?t * b) 100
      else minimumSystemReserveBytes pol) = ?r"
    by (simp add: safety_reserve_def share max_def)
  have pos: "0 < ?r" using policy_ok_reserve_pos [OF assms(1)] by (simp add: safety_reserve_def)
  show ?thesis
    using pos by (auto simp: evaluateHybridNodeAdmission_def b(1) Let_def reserve monus_def max_def not_le not_less)
qed

text \<open>
  C33. Under a policy whose settings are within the ranges the policy service enforces, and on a node whose
  memory size is not negative, new work is admitted exactly when neither memory-pressure threshold is reached
  and the available memory covers the predicted growth of the running apps, the requested app, the deployments
  in flight and the physical safety reserve, or twice that reserve when the node reported recent OOM events.
  The reserve is the larger of the configured minimum and the configured share of the node's memory.
\<close>

theorem hybrid_admission_keeps_reserve:
  assumes "policy_ok pol" and "0 \<le> hi_nodeMemoryTotalBytes i"
  shows "\<exists>d. evaluateHybridNodeAdmission i pol = Inr d \<and>
    (hd_allowed d \<longleftrightarrow>
       max 0 (hi_predictedExistingBytes i - hi_currentAppMemoryBytes i)
         + hi_requestedPredictedBytes i + hi_inFlightPredictedBytes i
         + (if 0 < option_or (hi_recentOomEvents i) 0 then 2 else 1) * safety_reserve (hi_nodeMemoryTotalBytes i) pol
         \<le> hi_nodeMemoryAvailableBytes i \<and>
       option_or (hi_psiFullAvg10 i) 0 < 1 \<and> option_or (hi_psiSomeAvg10 i) 0 < 10)"
  using assms by (rule hybrid_admission_iff)

theorem hybrid_admission_keeps_reserve_witness:
  "let i = \<lparr>hi_nodeMemoryTotalBytes = 16 * GiB, hi_nodeMemoryAvailableBytes = 10 * GiB,
        hi_currentAppMemoryBytes = 2 * GiB, hi_predictedExistingBytes = 3 * GiB,
        hi_requestedPredictedBytes = 1 * GiB, hi_inFlightPredictedBytes = 0, hi_psiSomeAvg10 = None,
        hi_psiFullAvg10 = Some (1 / 2), hi_recentOomEvents = None\<rparr>
   in \<exists>d. evaluateHybridNodeAdmission i DEFAULT_CAPACITY_POLICY = Inr d \<and> hd_allowed d"
proof -
  let ?i = "\<lparr>hi_nodeMemoryTotalBytes = 16 * GiB, hi_nodeMemoryAvailableBytes = 10 * GiB,
        hi_currentAppMemoryBytes = 2 * GiB, hi_predictedExistingBytes = 3 * GiB,
        hi_requestedPredictedBytes = 1 * GiB, hi_inFlightPredictedBytes = 0, hi_psiSomeAvg10 = None,
        hi_psiFullAvg10 = Some (1 / 2), hi_recentOomEvents = None\<rparr>"
  have "safety_reserve (16 * GiB) DEFAULT_CAPACITY_POLICY \<le> 4 * GiB"
    by (simp add: safety_reserve_def DEFAULT_CAPACITY_POLICY_def GiB_def floor_le_iff)
  then show ?thesis
    using hybrid_admission_keeps_reserve [OF policy_ok_default, of ?i] by (auto simp: Let_def GiB_def)
qed

end
