(* ===== verification/CapacityLogic.thy ===== *)
theory CapacityLogic
  imports JsNumerals Json
begin

text \<open>
  \<open>capacity/capacity.logic.ts\<close>: the CPU and memory a deployment snapshot demands, and the check
  that a demand fits beside the occupied capacity. \<open>bigint\<close> is \<open>int\<close>. An exception is the left
  summand, with its message. \<open>CapacityDemand\<close> is an ordered commutative monoid, componentwise,
  so demands are summed with the library's \<open>sum_list\<close> and compared with \<open>\<le>\<close>.
\<close>

datatype capacity_demand = CapacityDemand (cpuNano: int) (memoryBytes: int)

instantiation capacity_demand :: "{comm_monoid_add, order}"
begin

definition zero_capacity_demand :: capacity_demand where
  "0 = CapacityDemand 0 0"

definition plus_capacity_demand :: "capacity_demand \<Rightarrow> capacity_demand \<Rightarrow> capacity_demand" where
  "a + b = CapacityDemand (cpuNano a + cpuNano b) (memoryBytes a + memoryBytes b)"

definition less_eq_capacity_demand :: "capacity_demand \<Rightarrow> capacity_demand \<Rightarrow> bool" where
  "a \<le> b \<longleftrightarrow> cpuNano a \<le> cpuNano b \<and> memoryBytes a \<le> memoryBytes b"

definition less_capacity_demand :: "capacity_demand \<Rightarrow> capacity_demand \<Rightarrow> bool" where
  "a < b \<longleftrightarrow> a \<le> b \<and> \<not> b \<le> (a :: capacity_demand)"

instance
  by standard (auto simp: zero_capacity_demand_def plus_capacity_demand_def less_eq_capacity_demand_def
    less_capacity_demand_def intro: capacity_demand.expand)

end

lemma demand_simps [simp]:
  "cpuNano 0 = 0" "memoryBytes 0 = 0"
  "cpuNano (a + b) = cpuNano a + cpuNano b" "memoryBytes (a + b) = memoryBytes a + memoryBytes b"
  by (simp_all add: zero_capacity_demand_def plus_capacity_demand_def)

lemma demand_le_iff: "a \<le> b \<longleftrightarrow> cpuNano a \<le> cpuNano b \<and> memoryBytes a \<le> memoryBytes b"
  by (simp add: less_eq_capacity_demand_def)

instance capacity_demand :: ordered_comm_monoid_add
  by standard (auto simp: demand_le_iff)

record app_resources =
  res_cpu :: string
  res_memoryBytes :: string
  res_gpu :: int

record snapshot_app =
  sa_id :: "uuid option"
  sa_runtimeState :: string
  sa_desiredReplicas :: int
  sa_resources :: app_resources
  sa_volumes :: "uuid list"
  sa_name :: string
  sa_image :: string
  sa_registryId :: "uuid option"
  sa_gpuUuid :: "string option"
  sa_gpuNodeId :: "string option"
  sa_healthCheck :: json

definition NANO_CPUS_PER_CPU :: int where
  "NANO_CPUS_PER_CPU = 1000000000"

text \<open>\<open>/^\d+(?:\.\d+)?$/\<close> with the parts the code then takes from \<open>split(".")\<close>.\<close>

definition cpu_parts :: "string \<Rightarrow> (string \<times> string) option" where
  "cpu_parts s =
     (case split_on CHR ''.'' s of
        [w] \<Rightarrow> (if all_digits w then Some (w, '''') else None)
      | [w, f] \<Rightarrow> (if all_digits w \<and> all_digits f then Some (w, f) else None)
      | _ \<Rightarrow> None)"

definition cpuToNanoCpu :: "string \<Rightarrow> string + int" where
  "cpuToNanoCpu cpu =
     (case cpu_parts (js_trim cpu) of
        None \<Rightarrow> Inl (''Invalid CPU value: '' @ cpu)
      | Some (whole, fraction) \<Rightarrow>
          (if 9 < length fraction \<and> list_ex (\<lambda>c. is_digit c \<and> c \<noteq> CHR ''0'') (drop 9 fraction)
           then Inl (''CPU value has sub-NanoCPU precision: '' @ cpu)
           else
             (let fractionalNano = take 9 (take 9 fraction @ ''000000000'')
              in Inr (digits_value whole * NANO_CPUS_PER_CPU + digits_value fractionalNano))))"

subsection \<open>Demand of a snapshot\<close>

definition app_replicas :: "snapshot_app \<Rightarrow> int" where
  "app_replicas a = (if sa_runtimeState a = ''Running'' then max 0 (sa_desiredReplicas a) else 0)"

definition app_demand :: "snapshot_app \<Rightarrow> string + capacity_demand" where
  "app_demand a =
     (case cpuToNanoCpu (res_cpu (sa_resources a)) of
        Inl e \<Rightarrow> Inl e
      | Inr nano \<Rightarrow>
          (case js_bigint (res_memoryBytes (sa_resources a)) of
             None \<Rightarrow> Inl (bigint_error (res_memoryBytes (sa_resources a)))
           | Some bytes \<Rightarrow> Inr (CapacityDemand (nano * app_replicas a) (bytes * app_replicas a))))"

fun sum_demand :: "capacity_demand \<Rightarrow> snapshot_app list \<Rightarrow> string + capacity_demand" where
  "sum_demand acc [] = Inr acc"
| "sum_demand acc (a # as) =
     (case app_demand a of Inl e \<Rightarrow> Inl e | Inr d \<Rightarrow> sum_demand (acc + d) as)"

definition snapshotDemand :: "string \<Rightarrow> snapshot_app list \<Rightarrow> string + capacity_demand" where
  "snapshotDemand groupState apps =
     (if groupState \<noteq> ''Running'' then Inr (CapacityDemand 0 0) else sum_demand (CapacityDemand 0 0) apps)"

datatype capacity_resource = Cpu | Memory

datatype capacity_fit = Fits | DoesNotFit capacity_resource

definition projectedCapacityFits ::
  "capacity_demand \<Rightarrow> capacity_demand \<Rightarrow> capacity_demand \<Rightarrow> capacity_fit" where
  "projectedCapacityFits supply occupied requested =
     (if cpuNano supply < cpuNano occupied + cpuNano requested then DoesNotFit Cpu
      else if memoryBytes supply < memoryBytes occupied + memoryBytes requested then DoesNotFit Memory
      else Fits)"

subsection \<open>Lemmas\<close>

lemma zero_demand: "CapacityDemand 0 0 = 0"
  by (simp add: zero_capacity_demand_def)

lemma fits_iff: "projectedCapacityFits s occ r = Fits \<longleftrightarrow> occ + r \<le> s"
  by (auto simp: projectedCapacityFits_def demand_le_iff)

definition app_cost :: "snapshot_app \<Rightarrow> capacity_demand" where
  "app_cost a = (case app_demand a of Inl _ \<Rightarrow> 0 | Inr d \<Rightarrow> d)"

lemma sum_demand_Inr:
  "sum_demand acc apps = Inr d \<Longrightarrow> acc + sum_list (map app_cost apps) = d"
  by (induction apps arbitrary: acc) (force simp: app_cost_def add.assoc split: sum.splits)+

lemma sum_demand_Inr_iff:
  "(\<exists>d. sum_demand acc apps = Inr d) \<longleftrightarrow> (\<forall>a \<in> set apps. \<exists>d. app_demand a = Inr d)"
  by (induction apps arbitrary: acc) (auto split: sum.splits)

lemma sum_list_demand_nonneg:
  "\<forall>a \<in> set apps. 0 \<le> app_cost a \<Longrightarrow> 0 \<le> sum_list (map app_cost apps)"
  by (induction apps) (auto intro: add_nonneg_nonneg)

lemma digits_value_nonneg [simp]: "0 \<le> digits_value s"
  by (simp add: digits_value_def)

lemma cpuToNanoCpu_nonneg: "cpuToNanoCpu s = Inr n \<Longrightarrow> 0 \<le> n"
  by (auto simp: cpuToNanoCpu_def NANO_CPUS_PER_CPU_def Let_def split: option.splits if_splits)

lemma app_replicas_nonneg: "0 \<le> app_replicas a"
  by (simp add: app_replicas_def)

lemma parse_dec_zeros: "parse_dec acc (replicate n CHR ''0'') = acc * 10 ^ n"
  by (induction n arbitrary: acc) (auto simp: digit_val_def)

lemma parse_dec_all_zero: "list_all (\<lambda>c. c = CHR ''0'') s \<Longrightarrow> parse_dec acc s = acc * 10 ^ length s"
  by (induction s arbitrary: acc) (auto simp: digit_val_def)

lemma zeros9: "''000000000'' = replicate 9 CHR ''0''"
  by (simp add: eval_nat_numeral)

text \<open>The nine digits of the fraction are its exact value in units of a NanoCPU.\<close>

lemma fraction_value:
  assumes "list_all is_digit f" and "\<not> (9 < length f \<and> list_ex (\<lambda>c. is_digit c \<and> c \<noteq> CHR ''0'') (drop 9 f))"
  shows "parse_dec 0 (take 9 (take 9 f @ ''000000000'')) * 10 ^ length f = parse_dec 0 f * 10 ^ 9"
proof (cases "length f \<le> 9")
  case True
  then have "take 9 (take 9 f @ ''000000000'') = f @ replicate (9 - length f) CHR ''0''"
    by (simp add: zeros9)
  then have "parse_dec 0 (take 9 (take 9 f @ ''000000000'')) = parse_dec 0 f * 10 ^ (9 - length f)"
    by (simp add: parse_dec_append parse_dec_zeros)
  moreover have "(10::nat) ^ (9 - length f) * 10 ^ length f = 10 ^ 9"
    using True by (simp flip: power_add)
  ultimately show ?thesis by (simp add: mult.assoc)
next
  case False
  have "list_all (\<lambda>c. c = CHR ''0'') (drop 9 f)"
    using assms False by (auto simp: list_all_iff list_ex_iff dest: in_set_dropD)
  then have "parse_dec 0 (take 9 f @ drop 9 f) = parse_dec 0 (take 9 f) * 10 ^ (length f - 9)"
    by (simp only: parse_dec_append parse_dec_all_zero length_drop)
  moreover have "(10::nat) ^ (length f - 9) * 10 ^ 9 = 10 ^ (length f - 9 + 9)" by (simp only: power_add)
  then have "(10::nat) ^ (length f - 9) * 10 ^ 9 = 10 ^ length f" using False by simp
  ultimately show ?thesis using False by (simp add: mult.assoc)
qed

lemma cpu_parts_Some:
  "cpu_parts s = Some (w, f) \<Longrightarrow> all_digits w \<and> list_all is_digit f \<and> s = (if f = [] then w else w @ ''.'' @ f)"
proof -
  assume a: "cpu_parts s = Some (w, f)"
  have "join_with ''.'' (split_on CHR ''.'' s) = s" by (rule join_with_split_on)
  with a show ?thesis
    by (auto simp: cpu_parts_def all_digits_def split: list.splits if_splits)
qed

section \<open>Properties\<close>

text \<open>
  CPU amounts are converted exactly: when \<open>cpuToNanoCpu\<close> accepts a string, the string is a
  decimal numeral \<open>w\<close> or \<open>w.f\<close> and the result is exactly its value in billionths, with no digit
  rounded away.
\<close>

lemma cpu_conversion_exact:
  assumes "cpuToNanoCpu cpu = Inr n"
  shows "\<exists>w f. all_digits w \<and> list_all is_digit f \<and> js_trim cpu = (if f = [] then w else w @ ''.'' @ f) \<and>
    n * 10 ^ length f = digits_value (w @ f) * 10 ^ 9"
proof -
  obtain w f where wf: "cpu_parts (js_trim cpu) = Some (w, f)"
    and ok: "\<not> (9 < length f \<and> list_ex (\<lambda>c. is_digit c \<and> c \<noteq> CHR ''0'') (drop 9 f))"
    and n: "n = digits_value w * NANO_CPUS_PER_CPU + digits_value (take 9 (take 9 f @ ''000000000''))"
    using assms by (auto simp: cpuToNanoCpu_def Let_def split: option.splits if_splits)
  note shape = cpu_parts_Some [OF wf]
  have wf_val: "parse_dec 0 (w @ f) = parse_dec 0 w * 10 ^ length f + parse_dec 0 f"
  proof -
    have "parse_dec a f = a * 10 ^ length f + parse_dec 0 f" for a
    proof (induction f arbitrary: a rule: rev_induct)
      case (snoc c f)
      show ?case by (simp add: parse_dec_append) (subst snoc.IH, simp add: algebra_simps)
    qed simp
    then show ?thesis by (metis parse_dec_append)
  qed
  have "int (parse_dec 0 (take 9 (take 9 f @ ''000000000'')) * 10 ^ length f) = int (parse_dec 0 f * 10 ^ 9)"
    using fraction_value [OF _ ok] shape by presburger
  then have "n * 10 ^ length f = digits_value (w @ f) * 10 ^ 9"
    unfolding n digits_value_def wf_val NANO_CPUS_PER_CPU_def by (simp add: algebra_simps)
  with shape show ?thesis by blast
qed


lemmas numeral_eval = cpuToNanoCpu_def cpu_parts_def js_trim_def js_space_def all_digits_def is_digit_def
  digits_value_def digit_val_def NANO_CPUS_PER_CPU_def js_bigint_def

text \<open>
  The demand of a running snapshot is the sum of its apps' demands, each app counting its CPU
  and memory once per running replica; a snapshot that does not run demands nothing. A malformed
  amount of any app, running or not, makes the whole computation throw.
\<close>

lemma snapshot_demand_is_sum:
  "(snapshotDemand g apps = Inr d \<longleftrightarrow>
     (if g \<noteq> ''Running'' then d = 0
      else (\<forall>a \<in> set apps. \<exists>x. app_demand a = Inr x) \<and> d = sum_list (map app_cost apps)))"
  using sum_demand_Inr [of 0 apps] sum_demand_Inr_iff [of 0 apps]
  by (auto simp: snapshotDemand_def zero_demand)

definition sample_app :: snapshot_app where
  "sample_app = \<lparr>sa_id = Some ''a1'', sa_runtimeState = ''Running'', sa_desiredReplicas = 2,
     sa_resources = \<lparr>res_cpu = ''0.5'', res_memoryBytes = ''1024'', res_gpu = 0\<rparr>, sa_volumes = [],
     sa_name = ''web'', sa_image = ''nginx'', sa_registryId = None, sa_gpuUuid = None, sa_gpuNodeId = None, sa_healthCheck = JNull\<rparr>"

lemma sample_app_demand [simp]: "app_demand sample_app = Inr (CapacityDemand 1000000000 2048)"
  by (simp add: app_demand_def sample_app_def app_replicas_def numeral_eval)

text \<open>
  The fit check is exact: a request fits beside the occupied capacity exactly when the sum stays
  within the supply in both resources, and a refusal names a resource that is really short, CPU
  first. Releasing occupied capacity or asking for less never turns an accepted request away.
\<close>

lemma projected_fit_exact:
  "(projectedCapacityFits s occ r = Fits \<longleftrightarrow> occ + r \<le> s) \<and>
   (projectedCapacityFits s occ r = DoesNotFit Cpu \<longleftrightarrow> cpuNano s < cpuNano (occ + r)) \<and>
   (projectedCapacityFits s occ r = DoesNotFit Memory \<longleftrightarrow>
      cpuNano (occ + r) \<le> cpuNano s \<and> memoryBytes s < memoryBytes (occ + r)) \<and>
   (projectedCapacityFits s occ r = Fits \<and> occ' \<le> occ \<and> r' \<le> r \<longrightarrow> projectedCapacityFits s occ' r' = Fits)"
proof (intro conjI impI)
  show "projectedCapacityFits s occ' r' = Fits" if "projectedCapacityFits s occ r = Fits \<and> occ' \<le> occ \<and> r' \<le> r"
    using that add_mono [of occ' occ r' r] by (auto simp: fits_iff intro: order_trans)
qed (auto simp: projectedCapacityFits_def demand_le_iff)

end
