(* ===== verification/JsonValues.thy ===== *)
theory JsonValues
  imports JsNumerals "HOL-Library.Monad_Syntax"
begin

text \<open>
  The values \<open>JSON.parse\<close> yields, as the code inspects them with \<open>typeof\<close>, \<open>in\<close> and \<open>Array.isArray\<close>:
  \<open>VUndefined\<close> is what reading an absent property gives, a number is rational. \<open>guard\<close> and the option
  monad are the early exits of a validation.
\<close>

datatype value_json =
    VUndefined
  | VNull
  | VBool bool
  | VNum rat
  | VStr string
  | VArr "value_json list"
  | VObj "(string \<times> value_json) list"

fun vget :: "value_json \<Rightarrow> string \<Rightarrow> value_json" where
  "vget (VObj kvs) k = (case map_of kvs k of None \<Rightarrow> VUndefined | Some v \<Rightarrow> v)"
| "vget _ k = VUndefined"

fun is_object :: "value_json \<Rightarrow> bool" where
  "is_object (VObj _) = True"
| "is_object _ = False"

fun as_string :: "value_json \<Rightarrow> string option" where
  "as_string (VStr s) = Some s"
| "as_string _ = None"

fun as_array :: "value_json \<Rightarrow> value_json list option" where
  "as_array (VArr vs) = Some vs"
| "as_array _ = None"

fun as_number :: "value_json \<Rightarrow> rat option" where
  "as_number (VNum x) = Some x"
| "as_number _ = None"

definition guard :: "bool \<Rightarrow> unit option" where
  "guard b = (if b then Some () else None)"

lemma guard_Some [simp]: "guard b = Some u \<longleftrightarrow> b"
  by (simp add: guard_def)

definition safe_integer :: "value_json \<Rightarrow> int option" where
  "safe_integer v = do { x \<leftarrow> as_number v; guard (is_integer x \<and> \<bar>x\<bar> \<le> 9007199254740991); Some \<lfloor>x\<rfloor> }"

end
