(* ===== verification/CapacityTelemetry.thy ===== *)
theory CapacityTelemetry
  imports CapacityHybridSafety CapacityLogic JsonValues
begin

text \<open>
  The admission side of \<open>capacity/capacity-telemetry.service.ts\<close>: reading back and validating the
  evidence a worker published (\<open>persistedAdmissionEvidence\<close>, \<open>parseAdmissionEvidence\<close>), scaling
  predictions to a replica count and deciding an admission over all schedulable nodes
  (\<open>evaluateAdmission\<close>). The evidence is a \<open>jsonb\<close> value, modelled by \<open>value_json\<close>, where
  \<open>VUndefined\<close> is what reading an absent property gives. \<open>Date.parse\<close>, which is
  implementation-defined outside the ISO format, is the parameter \<open>parse_date\<close>. A thrown error is
  the left summand.
\<close>

text \<open>The local checks of \<open>parseAdmissionEvidence\<close>, with the value they let through.\<close>

definition decimal :: "value_json \<Rightarrow> int option" where
  "decimal v = do { s \<leftarrow> as_string v; guard (all_digits s); Some (digits_value s) }"

definition optional_nonneg :: "value_json \<Rightarrow> rat option option" where
  "optional_nonneg v =
     (case v of VUndefined \<Rightarrow> Some None | VNum x \<Rightarrow> (if 0 \<le> x then Some (Some x) else None) | _ \<Rightarrow> None)"

record node_evidence =
  ne_nodeId :: string
  ne_observedAt :: millis
  ne_memoryCurrentBytes :: int
  ne_memoryAvailableBytes :: int
  ne_memoryTotalBytes :: int
  ne_psiSomeAvg10 :: "rat option"
  ne_psiFullAvg10 :: "rat option"
  ne_p99Bytes :: int
  ne_sampleCount :: int

record app_evidence =
  ae_appId :: string
  ae_replicas :: int
  ae_hardLimitBytes :: int
  ae_predictedBytes :: int
  ae_confidence :: rat
  ae_recentOomEvents :: int

record admission_evidence =
  av_generatedAt :: string
  av_nodes :: "node_evidence list"
  av_apps :: "app_evidence list"

definition parse_node :: "(string \<Rightarrow> millis option) \<Rightarrow> string set \<Rightarrow> value_json \<Rightarrow> node_evidence option" where
  "parse_node parse_date nodeIds raw = do {
     guard (is_object raw);
     nodeId \<leftarrow> as_string (vget raw ''nodeId'');
     guard (1 \<le> length nodeId \<and> length nodeId \<le> 128 \<and> nodeId \<notin> nodeIds);
     observedText \<leftarrow> as_string (vget raw ''observedAt'');
     observedAt \<leftarrow> parse_date observedText;
     current \<leftarrow> decimal (vget raw ''memoryCurrentBytes'');
     available \<leftarrow> decimal (vget raw ''memoryAvailableBytes'');
     total \<leftarrow> decimal (vget raw ''memoryTotalBytes'');
     p99 \<leftarrow> decimal (vget raw ''p99Bytes'');
     sampleCount \<leftarrow> safe_integer (vget raw ''sampleCount'');
     guard (0 \<le> sampleCount);
     psiSome \<leftarrow> optional_nonneg (vget raw ''memoryPsiSomeAvg10'');
     psiFull \<leftarrow> optional_nonneg (vget raw ''memoryPsiFullAvg10'');
     guard (0 < total \<and> available \<le> total);
     Some \<lparr>ne_nodeId = nodeId, ne_observedAt = observedAt, ne_memoryCurrentBytes = current,
       ne_memoryAvailableBytes = available, ne_memoryTotalBytes = total, ne_psiSomeAvg10 = psiSome,
       ne_psiFullAvg10 = psiFull, ne_p99Bytes = p99, ne_sampleCount = sampleCount\<rparr> }"

fun parse_nodes :: "(string \<Rightarrow> millis option) \<Rightarrow> string set \<Rightarrow> value_json list \<Rightarrow> node_evidence list option" where
  "parse_nodes parse_date nodeIds [] = Some []"
| "parse_nodes parse_date nodeIds (raw # raws) = do {
     node \<leftarrow> parse_node parse_date nodeIds raw;
     nodes \<leftarrow> parse_nodes parse_date (insert (ne_nodeId node) nodeIds) raws;
     Some (node # nodes) }"

definition parse_app :: "string set \<Rightarrow> value_json \<Rightarrow> app_evidence option" where
  "parse_app appIds raw = do {
     guard (is_object raw);
     appId \<leftarrow> as_string (vget raw ''appId'');
     guard (1 \<le> length appId \<and> length appId \<le> 160 \<and> appId \<notin> appIds);
     replicas \<leftarrow> safe_integer (vget raw ''replicas'');
     guard (0 < replicas);
     hardLimit \<leftarrow> decimal (vget raw ''hardLimitBytes'');
     predicted \<leftarrow> decimal (vget raw ''predictedBytes'');
     conf \<leftarrow> as_number (vget raw ''confidence'');
     guard (0 \<le> conf \<and> conf \<le> 1);
     oom \<leftarrow> decimal (vget raw ''recentOomEvents'');
     guard (predicted \<le> hardLimit);
     Some \<lparr>ae_appId = appId, ae_replicas = replicas, ae_hardLimitBytes = hardLimit,
       ae_predictedBytes = predicted, ae_confidence = conf, ae_recentOomEvents = oom\<rparr> }"

fun parse_apps :: "string set \<Rightarrow> value_json list \<Rightarrow> app_evidence list option" where
  "parse_apps appIds [] = Some []"
| "parse_apps appIds (raw # raws) = do {
     app \<leftarrow> parse_app appIds raw;
     apps \<leftarrow> parse_apps (insert (ae_appId app) appIds) raws;
     Some (app # apps) }"

definition parseAdmissionEvidence ::
  "(string \<Rightarrow> millis option) \<Rightarrow> value_json \<Rightarrow> admission_evidence option" where
  "parseAdmissionEvidence parse_date doc = do {
     guard (is_object doc);
     generatedAt \<leftarrow> as_string (vget doc ''generatedAt'');
     _ \<leftarrow> parse_date generatedAt;
     rawNodes \<leftarrow> as_array (vget doc ''nodes'');
     rawApps \<leftarrow> as_array (vget doc ''apps'');
     guard (length rawNodes \<le> 128 \<and> length rawApps \<le> 10000);
     nodes \<leftarrow> parse_nodes parse_date {} rawNodes;
     apps \<leftarrow> parse_apps {} rawApps;
     Some \<lparr>av_generatedAt = generatedAt, av_nodes = nodes, av_apps = apps\<rparr> }"

text \<open>The row of \<open>WorkerReconciliationState\<close> with key \<open>capacityTelemetry\<close> updated last.\<close>

record telemetry_row =
  tr_lastResult :: value_json
  tr_lastSuccessAt :: "millis option"

definition persistedAdmissionEvidence ::
  "(string \<Rightarrow> millis option) \<Rightarrow> capacity_policy \<Rightarrow> telemetry_row option \<Rightarrow> millis \<Rightarrow> admission_evidence option" where
  "persistedAdmissionEvidence parse_date pol state now = do {
     row \<leftarrow> state;
     successAt \<leftarrow> tr_lastSuccessAt row;
     guard (0 \<le> now - successAt \<and> of_int (now - successAt) \<le> maxTelemetryAgeSeconds pol * 1000);
     guard (is_object (tr_lastResult row));
     parseAdmissionEvidence parse_date (vget (tr_lastResult row) ''admissionEvidence'') }"

subsection \<open>Predictions for a replica count\<close>

definition scalePrediction :: "int \<Rightarrow> int \<Rightarrow> int \<Rightarrow> int \<Rightarrow> int" where
  "scalePrediction predicted observedReplicas targetReplicas targetHardLimitBytes =
     (if targetReplicas \<le> 0 \<or> targetHardLimitBytes \<le> 0 then 0
      else if observedReplicas \<le> 0 \<or> 9007199254740991 < observedReplicas \<or> predicted \<le> 0
      then targetHardLimitBytes
      else
        (let scaled = bigint_div (predicted * targetReplicas + observedReplicas - 1) observedReplicas
         in if targetHardLimitBytes < scaled then targetHardLimitBytes else scaled))"

record running_app =
  ra_appId :: string
  ra_hardLimitBytes :: int
  ra_replicas :: int

record deployment_snapshot =
  sn_appGroupId :: uuid
  sn_tenantId :: uuid
  sn_runtimeState :: string
  sn_singleApps :: "snapshot_app list"

definition app_increment ::
  "(string \<Rightarrow> running_app option) \<Rightarrow> (string \<Rightarrow> app_evidence option) \<Rightarrow> (string \<Rightarrow> int option) \<Rightarrow>
   snapshot_app \<Rightarrow> string + int" where
  "app_increment currentByApp evidenceByApp currentPredictionByApp app =
     (if sa_runtimeState app \<noteq> ''Running'' \<or> sa_desiredReplicas app \<le> 0 then Inr 0
      else
        (let targetReplicas = max 0 (sa_desiredReplicas app) in
         case js_bigint (res_memoryBytes (sa_resources app)) of
           None \<Rightarrow> Inl (bigint_error (res_memoryBytes (sa_resources app)))
         | Some bytes \<Rightarrow>
             (let targetHard = bytes * targetReplicas in
              case sa_id app of
                None \<Rightarrow> Inr targetHard
              | Some appId \<Rightarrow>
                  (if appId = '''' then Inr targetHard
                   else
                     (case currentByApp appId of
                        None \<Rightarrow> Inr targetHard
                      | Some running \<Rightarrow>
                          (let baseline = option_or (currentPredictionByApp appId) (ra_hardLimitBytes running);
                               target =
                                 (case evidenceByApp appId of
                                    Some observed \<Rightarrow>
                                      scalePrediction (ae_predictedBytes observed) (ae_replicas observed)
                                        targetReplicas targetHard
                                  | None \<Rightarrow> targetHard)
                           in Inr (if baseline < target then target - baseline else 0)))))))"

definition incrementalPrediction ::
  "(string \<Rightarrow> running_app option) \<Rightarrow> (string \<Rightarrow> app_evidence option) \<Rightarrow> (string \<Rightarrow> int option) \<Rightarrow>
   deployment_snapshot \<Rightarrow> string + int" where
  "incrementalPrediction currentByApp evidenceByApp currentPredictionByApp snapshot =
     (if sn_runtimeState snapshot \<noteq> ''Running'' then Inr 0
      else and_then (traverse (app_increment currentByApp evidenceByApp currentPredictionByApp) (sn_singleApps snapshot))
             (\<lambda>incs. Inr (sum_list incs)))"

subsection \<open>The admission decision\<close>

record admission_prediction =
  ap_appId :: string
  ap_predictedBytes :: int
  ap_confidence :: rat
  ap_recentOomEvents :: int

datatype hybrid_evaluation =
    Usable hybrid_decision "admission_prediction list" int string
  | Unusable string

record admission_input =
  ad_snapshot :: deployment_snapshot
  ad_runningApps :: "running_app list"
  ad_inFlightSnapshots :: "deployment_snapshot list"
  ad_schedulableNodeIds :: "string list"

definition running_prediction :: "(string \<Rightarrow> app_evidence option) \<Rightarrow> running_app \<Rightarrow> admission_prediction" where
  "running_prediction evidenceByApp running =
     (case evidenceByApp (ra_appId running) of
        None \<Rightarrow>
          \<lparr>ap_appId = ra_appId running, ap_predictedBytes = ra_hardLimitBytes running,
           ap_confidence = 0, ap_recentOomEvents = 0\<rparr>
      | Some observed \<Rightarrow>
          \<lparr>ap_appId = ra_appId running,
           ap_predictedBytes =
             scalePrediction (ae_predictedBytes observed) (ae_replicas observed) (ra_replicas running) (ra_hardLimitBytes running),
           ap_confidence = (if ra_replicas running \<le> ae_replicas observed then ae_confidence observed else 0),
           ap_recentOomEvents = ae_recentOomEvents observed\<rparr>)"

definition is_fresh :: "capacity_policy \<Rightarrow> millis \<Rightarrow> node_evidence \<Rightarrow> bool" where
  "is_fresh pol now node \<longleftrightarrow>
     0 \<le> now - ne_observedAt node \<and> of_int (now - ne_observedAt node) \<le> maxTelemetryAgeSeconds pol * 1000"

definition min_confidence :: "admission_prediction list \<Rightarrow> rat" where
  "min_confidence ps = (case ps of [] \<Rightarrow> 0 | p # qs \<Rightarrow> foldl min (ap_confidence p) (map ap_confidence qs))"

definition decide_node ::
  "capacity_policy \<Rightarrow> int \<Rightarrow> rat \<Rightarrow> int \<Rightarrow> int \<Rightarrow> int \<Rightarrow> node_evidence \<Rightarrow> string + string \<times> hybrid_decision" where
  "decide_node pol sumPredicted minConfidence requested inFlight oomEvents0 node =
     and_then (correlatedExistingDemand sumPredicted (ne_p99Bytes node) (ne_memoryCurrentBytes node) minConfidence
                 (ne_sampleCount node) pol)
       (\<lambda>existing.
          and_then (evaluateHybridNodeAdmission
              \<lparr>hi_nodeMemoryTotalBytes = ne_memoryTotalBytes node,
               hi_nodeMemoryAvailableBytes = ne_memoryAvailableBytes node,
               hi_currentAppMemoryBytes = ne_memoryCurrentBytes node,
               hi_predictedExistingBytes = existing,
               hi_requestedPredictedBytes = requested,
               hi_inFlightPredictedBytes = inFlight,
               hi_psiSomeAvg10 = ne_psiSomeAvg10 node,
               hi_psiFullAvg10 = ne_psiFullAvg10 node,
               hi_recentOomEvents = Some oomEvents0\<rparr> pol)
            (\<lambda>decision. Inr (ne_nodeId node, decision)))"

definition select_decision :: "(string \<times> hybrid_decision) list \<Rightarrow> (string \<times> hybrid_decision) option" where
  "select_decision decisions =
     coalesce (head_opt (filter (\<lambda>nd. \<not> hd_allowed (snd nd)) decisions))
       (head_opt (sort_asc (\<lambda>nd. hd_remainingAfterAdmissionBytes (snd nd) - hd_safetyReserveBytes (snd nd)) decisions))"

definition conclude ::
  "(string \<times> hybrid_decision) list \<Rightarrow> admission_prediction list \<Rightarrow> int \<Rightarrow> hybrid_evaluation" where
  "conclude decisions predictions requested =
     (case select_decision decisions of
        None \<Rightarrow> Unusable ''node capacity decision is unavailable''
      | Some (nodeId, selected) \<Rightarrow>
          (let reason = ''node '' @ nodeId @ '': '' @ hd_reason selected
           in Usable (selected\<lparr>hd_reason := reason\<rparr>) predictions requested
                (if list_ex (\<lambda>nd. \<not> hd_allowed (snd nd)) decisions then reason
                 else ''all schedulable nodes preserve the Hybrid physical safety reserve'')))"

text \<open>\<open>incrementalPrediction\<close> with the three maps \<open>evaluateAdmission\<close> builds.\<close>

definition increment_in ::
  "admission_evidence \<Rightarrow> running_app list \<Rightarrow> deployment_snapshot \<Rightarrow> string + int" where
  "increment_in evidence runningApps =
     (let evidenceByApp = js_map_get (map (\<lambda>a. (ae_appId a, a)) (av_apps evidence));
          currentByApp = js_map_get (map (\<lambda>r. (ra_appId r, r)) runningApps);
          currentPredictionByApp = js_map_get
            (map (\<lambda>p. (ap_appId p, ap_predictedBytes p)) (map (running_prediction evidenceByApp) runningApps))
      in incrementalPrediction currentByApp evidenceByApp currentPredictionByApp)"

definition running_predictions :: "admission_evidence \<Rightarrow> running_app list \<Rightarrow> admission_prediction list" where
  "running_predictions evidence runningApps =
     map (running_prediction (js_map_get (map (\<lambda>a. (ae_appId a, a)) (av_apps evidence)))) runningApps"

definition evaluate_with ::
  "capacity_policy \<Rightarrow> admission_evidence \<Rightarrow> millis \<Rightarrow> admission_input \<Rightarrow> string + hybrid_evaluation" where
  "evaluate_with pol evidence now i =
     (let ids = ad_schedulableNodeIds i;
          freshByNodeId = js_map_get (map (\<lambda>n. (ne_nodeId n, n)) (filter (is_fresh pol now) (av_nodes evidence)))
      in
      if ids = [] \<or> length (unique ids) \<noteq> length ids
      then Inr (Unusable ''schedulable Swarm node identity inventory is invalid'')
      else if \<exists>nodeId \<in> set ids. freshByNodeId nodeId = None
      then Inr (Unusable ''authenticated fresh per-node telemetry does not cover every schedulable Swarm node'')
      else
        (let latestNodes = List.map_filter freshByNodeId ids;
             predictions = running_predictions evidence (ad_runningApps i);
             increment = increment_in evidence (ad_runningApps i)
         in and_then (increment (ad_snapshot i))
           (\<lambda>requested. and_then (traverse increment (ad_inFlightSnapshots i))
             (\<lambda>inFlight. and_then
               (traverse (decide_node pol (sum_list (map ap_predictedBytes predictions)) (min_confidence predictions)
                  requested (sum_list inFlight) (sum_list (map ap_recentOomEvents predictions))) latestNodes)
               (\<lambda>decisions. Inr (conclude decisions predictions requested))))))"

text \<open>\<open>restorePolicy\<close>: an invalid stored policy is logged and ignored.\<close>

definition restorePolicy :: "policy_input option \<Rightarrow> policy_service \<Rightarrow> policy_service" where
  "restorePolicy stored s = (case stored of None \<Rightarrow> s | Some i \<Rightarrow> fst (set_policy s i))"

record telemetry_db =
  td_storedPolicy :: "policy_input option"
  td_telemetry :: "telemetry_row option"

definition evaluateAdmission ::
  "(string \<Rightarrow> millis option) \<Rightarrow> telemetry_db \<Rightarrow> millis \<Rightarrow> admission_input \<Rightarrow> policy_service
     \<Rightarrow> policy_service \<times> (string + hybrid_evaluation)" where
  "evaluateAdmission parse_date db now i s =
     (let s' = restorePolicy (td_storedPolicy db) s in
      (s', and_then (current s')
        (\<lambda>pol.
           if pol_mode pol \<noteq> ''Hybrid'' then Inr (Unusable ''capacity mode is Strict'')
           else
             (case persistedAdmissionEvidence parse_date pol (td_telemetry db) now of
                None \<Rightarrow> Inr (Unusable ''fresh worker-published Hybrid admission telemetry is unavailable'')
              | Some evidence \<Rightarrow> evaluate_with pol evidence now i))))"

subsection \<open>Lemmas\<close>

lemma guard_False [simp]: "guard b = None \<longleftrightarrow> \<not> b"
  by (simp add: guard_def)

lemma decimal_nonneg: "decimal v = Some i \<Longrightarrow> 0 \<le> i"
  by (auto simp: decimal_def digits_value_def Option.bind_eq_Some_conv)

lemma optional_nonneg_ge: "optional_nonneg v = Some x \<Longrightarrow> 0 \<le> option_or x 0"
  by (auto simp: optional_nonneg_def split: value_json.splits if_splits)

definition node_sane :: "node_evidence \<Rightarrow> bool" where
  "node_sane n \<longleftrightarrow> ne_nodeId n \<noteq> '''' \<and> 0 \<le> ne_memoryCurrentBytes n \<and> 0 \<le> ne_memoryAvailableBytes n \<and>
     ne_memoryAvailableBytes n \<le> ne_memoryTotalBytes n \<and> 0 < ne_memoryTotalBytes n \<and>
     0 \<le> ne_p99Bytes n \<and> 0 \<le> ne_sampleCount n \<and>
     0 \<le> option_or (ne_psiSomeAvg10 n) 0 \<and> 0 \<le> option_or (ne_psiFullAvg10 n) 0"

definition app_sane :: "app_evidence \<Rightarrow> bool" where
  "app_sane a \<longleftrightarrow> ae_appId a \<noteq> '''' \<and> 0 < ae_replicas a \<and> 0 \<le> ae_predictedBytes a \<and>
     ae_predictedBytes a \<le> ae_hardLimitBytes a \<and> 0 \<le> ae_confidence a \<and> ae_confidence a \<le> 1 \<and>
     0 \<le> ae_recentOomEvents a"

lemma parse_node_sane:
  "parse_node pd seen raw = Some n \<Longrightarrow> node_sane n \<and> ne_nodeId n \<notin> seen"
  by (auto simp: parse_node_def node_sane_def Option.bind_eq_Some_conv
      dest!: decimal_nonneg optional_nonneg_ge)

lemma parse_app_sane:
  "parse_app seen raw = Some a \<Longrightarrow> app_sane a \<and> ae_appId a \<notin> seen"
  by (auto simp: parse_app_def app_sane_def Option.bind_eq_Some_conv dest!: decimal_nonneg)

lemma parse_nodes_sane:
  "parse_nodes pd seen raws = Some ns \<Longrightarrow>
     (\<forall>n \<in> set ns. node_sane n) \<and> distinct (map ne_nodeId ns) \<and> seen \<inter> ne_nodeId ` set ns = {}"
proof (induction raws arbitrary: seen ns)
  case (Cons raw raws)
  then obtain n ms where n: "parse_node pd seen raw = Some n"
    "parse_nodes pd (insert (ne_nodeId n) seen) raws = Some ms" "ns = n # ms"
    by (auto simp: Option.bind_eq_Some_conv)
  then show ?case using Cons.IH [OF n(2)] parse_node_sane [OF n(1)] by auto
qed simp

lemma parse_apps_sane:
  "parse_apps seen raws = Some as \<Longrightarrow>
     (\<forall>a \<in> set as. app_sane a) \<and> distinct (map ae_appId as) \<and> seen \<inter> ae_appId ` set as = {}"
proof (induction raws arbitrary: seen as)
  case (Cons raw raws)
  then obtain a bs where a: "parse_app seen raw = Some a"
    "parse_apps (insert (ae_appId a) seen) raws = Some bs" "as = a # bs"
    by (auto simp: Option.bind_eq_Some_conv)
  then show ?case using Cons.IH [OF a(2)] parse_app_sane [OF a(1)] by auto
qed simp

lemma parsed_evidence_sane:
  assumes "parseAdmissionEvidence pd v = Some e"
  shows "(\<forall>n \<in> set (av_nodes e). node_sane n) \<and> distinct (map ne_nodeId (av_nodes e)) \<and>
    (\<forall>a \<in> set (av_apps e). app_sane a) \<and> distinct (map ae_appId (av_apps e))"
proof -
  obtain rn ra where rn: "parse_nodes pd {} rn = Some (av_nodes e)" and ra: "parse_apps {} ra = Some (av_apps e)"
    using assms by (auto simp: parseAdmissionEvidence_def Option.bind_eq_Some_conv)
  show ?thesis using parse_nodes_sane [OF rn] parse_apps_sane [OF ra] by simp
qed

definition limits_nonneg :: "deployment_snapshot \<Rightarrow> bool" where
  "limits_nonneg snapshot \<longleftrightarrow>
     (\<forall>a \<in> set (sn_singleApps snapshot). \<forall>b. js_bigint (res_memoryBytes (sa_resources a)) = Some b \<longrightarrow> 0 \<le> b)"

lemma app_increment_nonneg:
  assumes "app_increment cur ev pred a = Inr k"
    and "\<forall>b. js_bigint (res_memoryBytes (sa_resources a)) = Some b \<longrightarrow> 0 \<le> b"
  shows "0 \<le> k"
  using assms by (auto simp: app_increment_def Let_def split: if_splits option.splits)

lemma incrementalPrediction_nonneg:
  assumes "incrementalPrediction cur ev pred snapshot = Inr k" and "limits_nonneg snapshot"
  shows "0 \<le> k"
proof (cases "sn_runtimeState snapshot = ''Running''")
  case True
  then obtain incs where incs: "list_all2 (\<lambda>a k. app_increment cur ev pred a = Inr k) (sn_singleApps snapshot) incs"
    and k: "k = sum_list incs"
    using assms(1) by (auto simp: incrementalPrediction_def and_then_Inr_iff traverse_Inr_iff)
  have "0 \<le> x" if x: "x \<in> set incs" for x
  proof -
    obtain j where j: "j < length incs" "x = incs ! j" using x by (auto simp: in_set_conv_nth)
    then have "app_increment cur ev pred (sn_singleApps snapshot ! j) = Inr x"
      using incs by (simp add: list_all2_conv_all_nth)
    moreover have "sn_singleApps snapshot ! j \<in> set (sn_singleApps snapshot)"
      using incs j(1) by (simp add: list_all2_lengthD)
    ultimately show ?thesis using assms(2) app_increment_nonneg unfolding limits_nonneg_def by blast
  qed
  then show ?thesis unfolding k by (intro sum_list_nonneg) auto
qed (use assms in \<open>simp add: incrementalPrediction_def\<close>)

lemma increment_in_nonneg: "increment_in ev apps s = Inr k \<Longrightarrow> limits_nonneg s \<Longrightarrow> 0 \<le> k"
  by (auto simp: increment_in_def Let_def dest: incrementalPrediction_nonneg)

lemma traverse_member:
  "traverse f xs = Inr ys \<Longrightarrow> x \<in> set xs \<Longrightarrow> \<exists>y \<in> set ys. f x = Inr y"
  by (induction xs arbitrary: ys) (auto simp: and_then_Inr_iff)

lemma traverse_member_conv:
  "traverse f xs = Inr ys \<Longrightarrow> y \<in> set ys \<Longrightarrow> \<exists>x \<in> set xs. f x = Inr y"
  by (induction xs arbitrary: ys) (auto simp: and_then_Inr_iff)

lemma select_allowed:
  assumes "select_decision ds = Some nd" and "hd_allowed (snd nd)"
  shows "\<forall>d \<in> set ds. hd_allowed (snd d)"
proof -
  have "filter (\<lambda>nd. \<not> hd_allowed (snd nd)) ds = []"
  proof (rule ccontr)
    assume "filter (\<lambda>nd. \<not> hd_allowed (snd nd)) ds \<noteq> []"
    then obtain d where "head_opt (filter (\<lambda>nd. \<not> hd_allowed (snd nd)) ds) = Some d"
      by (cases "filter (\<lambda>nd. \<not> hd_allowed (snd nd)) ds") auto
    then have "nd = d" "\<not> hd_allowed (snd d)"
      using assms(1) head_opt_SomeD by (force simp: select_decision_def)+
    then show False using assms(2) by simp
  qed
  then show ?thesis by (simp add: filter_empty_conv)
qed

lemma decide_node_allowed:
  assumes "decide_node pol sp mc requested inFlight oom n = Inr (nid, d)" and "hd_allowed d"
    and "policy_ok pol" and "node_sane n" and "0 \<le> oom"
  shows "requested + inFlight + safety_reserve (ne_memoryTotalBytes n) pol \<le> ne_memoryAvailableBytes n \<and>
    option_or (ne_psiFullAvg10 n) 0 < 1 \<and> option_or (ne_psiSomeAvg10 n) 0 < 10"
proof -
  obtain ex i where i: "evaluateHybridNodeAdmission i pol = Inr d"
    "i = \<lparr>hi_nodeMemoryTotalBytes = ne_memoryTotalBytes n,
               hi_nodeMemoryAvailableBytes = ne_memoryAvailableBytes n,
               hi_currentAppMemoryBytes = ne_memoryCurrentBytes n,
               hi_predictedExistingBytes = ex,
               hi_requestedPredictedBytes = requested,
               hi_inFlightPredictedBytes = inFlight,
               hi_psiSomeAvg10 = ne_psiSomeAvg10 n,
               hi_psiFullAvg10 = ne_psiFullAvg10 n,
               hi_recentOomEvents = Some oom\<rparr>"
    using assms(1) by (auto simp: decide_node_def and_then_Inr_iff)
  have pos: "0 < safety_reserve (ne_memoryTotalBytes n) pol"
    using policy_ok_reserve_pos [OF assms(3)] by (simp add: safety_reserve_def)
  have "0 \<le> hi_nodeMemoryTotalBytes i" using assms(4) by (simp add: i(2) node_sane_def)
  from hybrid_admission_iff [OF assms(3) this] i(1) assms(2) show ?thesis
    using pos by (auto simp: i(2) max_def split: if_splits)
qed

lemma latest_nodes_covered:
  assumes "\<not> (\<exists>nodeId \<in> set ids. js_map_get (map (\<lambda>n. (ne_nodeId n, n)) (filter P nodes)) nodeId = None)"
    and "nodeId \<in> set ids"
  shows "\<exists>n \<in> set (List.map_filter (js_map_get (map (\<lambda>n. (ne_nodeId n, n)) (filter P nodes))) ids).
    n \<in> set nodes \<and> P n \<and> ne_nodeId n = nodeId"
proof -
  obtain n where n: "js_map_get (map (\<lambda>n. (ne_nodeId n, n)) (filter P nodes)) nodeId = Some n"
    using assms by fastforce
  from js_map_get_SomeD [OF n] have "n \<in> set nodes \<and> P n \<and> ne_nodeId n = nodeId" by auto
  moreover have "n \<in> set (List.map_filter (js_map_get (map (\<lambda>n. (ne_nodeId n, n)) (filter P nodes))) ids)"
    using n assms(2) unfolding set_map_filter_iff by blast
  ultimately show ?thesis by blast
qed

lemma evaluate_with_allowed:
  assumes "evaluate_with pol ev now i = Inr (Usable d ps requested reason)" and "hd_allowed d"
    and "policy_ok pol" and "\<forall>n \<in> set (av_nodes ev). node_sane n" and "\<forall>a \<in> set (av_apps ev). app_sane a"
    and "\<forall>s \<in> set (ad_inFlightSnapshots i). limits_nonneg s" and "limits_nonneg (ad_snapshot i)"
  shows "0 \<le> requested \<and> ad_schedulableNodeIds i \<noteq> [] \<and>
    (\<forall>nodeId \<in> set (ad_schedulableNodeIds i). \<exists>n \<in> set (av_nodes ev). ne_nodeId n = nodeId \<and> is_fresh pol now n \<and>
      requested + safety_reserve (ne_memoryTotalBytes n) pol \<le> ne_memoryAvailableBytes n \<and>
      option_or (ne_psiFullAvg10 n) 0 < 1 \<and> option_or (ne_psiSomeAvg10 n) 0 < 10)"
proof -
  let ?ids = "ad_schedulableNodeIds i"
  let ?fresh = "js_map_get (map (\<lambda>n. (ne_nodeId n, n)) (filter (is_fresh pol now) (av_nodes ev)))"
  let ?ps = "running_predictions ev (ad_runningApps i)"
  have cov: "\<not> (\<exists>nodeId \<in> set ?ids. ?fresh nodeId = None)" and ids: "?ids \<noteq> []"
    using assms(1) by (auto simp: evaluate_with_def Let_def split: if_splits)
  obtain rq fl ds where rq: "increment_in ev (ad_runningApps i) (ad_snapshot i) = Inr rq"
    and fl: "traverse (increment_in ev (ad_runningApps i)) (ad_inFlightSnapshots i) = Inr fl"
    and ds: "traverse (decide_node pol (sum_list (map ap_predictedBytes ?ps)) (min_confidence ?ps)
                  rq (sum_list fl) (sum_list (map ap_recentOomEvents ?ps))) (List.map_filter ?fresh ?ids) = Inr ds"
    and con: "conclude ds ?ps rq = Usable d ps requested reason"
    using assms(1) by (auto simp: evaluate_with_def Let_def and_then_Inr_iff split: if_splits)
  have fl_pos: "0 \<le> sum_list fl"
    using traverse_member_conv [OF fl] assms(6) increment_in_nonneg by (intro sum_list_nonneg) blast
  have oom_pos: "0 \<le> sum_list (map ap_recentOomEvents ?ps)"
  proof (intro sum_list_nonneg)
    fix x assume "x \<in> set (map ap_recentOomEvents ?ps)"
    then obtain r where "x = ap_recentOomEvents (running_prediction (js_map_get (map (\<lambda>a. (ae_appId a, a)) (av_apps ev))) r)"
      by (auto simp: running_predictions_def)
    then show "0 \<le> x"
      using assms(5) by (auto simp: running_prediction_def app_sane_def split: option.splits dest!: js_map_get_SomeD)
  qed
  obtain sel where sel: "select_decision ds = Some sel" "requested = rq" "hd_allowed (snd sel)"
    using con assms(2) by (auto simp: conclude_def Let_def split: option.splits)
  have "\<exists>n \<in> set (av_nodes ev). ne_nodeId n = nodeId \<and> is_fresh pol now n \<and>
      requested + safety_reserve (ne_memoryTotalBytes n) pol \<le> ne_memoryAvailableBytes n \<and>
      option_or (ne_psiFullAvg10 n) 0 < 1 \<and> option_or (ne_psiSomeAvg10 n) 0 < 10"
    if nodeId: "nodeId \<in> set ?ids" for nodeId
  proof -
    obtain n where n: "n \<in> set (List.map_filter ?fresh ?ids)" "n \<in> set (av_nodes ev)" "is_fresh pol now n" "ne_nodeId n = nodeId"
      using latest_nodes_covered [OF cov nodeId] by blast
    obtain y where y: "y \<in> set ds" "decide_node pol (sum_list (map ap_predictedBytes ?ps)) (min_confidence ?ps)
                  rq (sum_list fl) (sum_list (map ap_recentOomEvents ?ps)) n = Inr y"
      using traverse_member [OF ds n(1)] by blast
    have "hd_allowed (snd y)" using select_allowed [OF sel(1,3)] y(1) by blast
    then have "rq + sum_list fl + safety_reserve (ne_memoryTotalBytes n) pol \<le> ne_memoryAvailableBytes n \<and>
      option_or (ne_psiFullAvg10 n) 0 < 1 \<and> option_or (ne_psiSomeAvg10 n) 0 < 10"
      using decide_node_allowed [of pol _ _ rq "sum_list fl" _ n "fst y" "snd y"] y(2) assms(3,4) n(2) oom_pos by simp
    then show ?thesis using n fl_pos sel(2) by (intro bexI [of _ n]) auto
  qed
  moreover have "0 \<le> rq" using rq assms(7) by (rule increment_in_nonneg)
  ultimately show ?thesis using ids sel(2) by blast
qed

lemma restorePolicy_ok: "service_ok s \<Longrightarrow> service_ok (restorePolicy stored s)"
  by (auto simp: restorePolicy_def set_policy_ok split: option.splits)

section \<open>Properties\<close>

text \<open>
  C39. Published evidence is only used when it is well formed: node and app identities are unique and
  non-empty, every node's available memory is within its positive total, and no prediction exceeds
  its hard limit or carries a confidence outside 0..1.
\<close>

theorem accepted_evidence_is_sane:
  assumes "persistedAdmissionEvidence pd pol st now = Some e"
  shows "(\<forall>n \<in> set (av_nodes e). node_sane n) \<and> distinct (map ne_nodeId (av_nodes e)) \<and>
    (\<forall>a \<in> set (av_apps e). app_sane a) \<and> distinct (map ae_appId (av_apps e)) \<and>
    (\<exists>row t. st = Some row \<and> tr_lastSuccessAt row = Some t \<and> t \<le> now \<and>
       of_int (now - t) \<le> maxTelemetryAgeSeconds pol * 1000)"
proof -
  obtain row t where "st = Some row" "tr_lastSuccessAt row = Some t" "0 \<le> now - t"
    "of_int (now - t) \<le> maxTelemetryAgeSeconds pol * 1000"
    "parseAdmissionEvidence pd (vget (tr_lastResult row) ''admissionEvidence'') = Some e"
    using assms by (auto simp: persistedAdmissionEvidence_def Option.bind_eq_Some_conv)
  then show ?thesis using parsed_evidence_sane by auto
qed

text \<open>
  A Hybrid admission is granted only on evidence: when \<open>evaluateAdmission\<close> allows a deployment, the
  policy in force is within its bounds and in Hybrid mode, and every schedulable node (there is one)
  has a published sample no older than the policy's limit whose available memory holds the request
  and the node's safety reserve, without memory pressure.
\<close>

lemma hybrid_admission_covers_every_node:
  assumes "service_ok s" and "evaluateAdmission pd db now i s = (s', Inr (Usable d ps requested reason))"
    and "hd_allowed d" and "limits_nonneg (ad_snapshot i)" and "\<forall>x \<in> set (ad_inFlightSnapshots i). limits_nonneg x"
  shows "\<exists>pol ev. current s' = Inr pol \<and> policy_ok pol \<and> pol_mode pol = ''Hybrid'' \<and>
    persistedAdmissionEvidence pd pol (td_telemetry db) now = Some ev \<and> 0 \<le> requested \<and>
    ad_schedulableNodeIds i \<noteq> [] \<and>
    (\<forall>nodeId \<in> set (ad_schedulableNodeIds i). \<exists>n \<in> set (av_nodes ev). ne_nodeId n = nodeId \<and> is_fresh pol now n \<and>
      requested + safety_reserve (ne_memoryTotalBytes n) pol \<le> ne_memoryAvailableBytes n \<and>
      option_or (ne_psiFullAvg10 n) 0 < 1 \<and> option_or (ne_psiSomeAvg10 n) 0 < 10)"
proof -
  obtain pol ev where s': "s' = restorePolicy (td_storedPolicy db) s" and pol: "current s' = Inr pol" "pol_mode pol = ''Hybrid''"
    and ev: "persistedAdmissionEvidence pd pol (td_telemetry db) now = Some ev"
    and e: "evaluate_with pol ev now i = Inr (Usable d ps requested reason)"
    using assms(2) by (auto simp: evaluateAdmission_def Let_def and_then_Inr_iff split: if_splits option.splits)
  have ok: "policy_ok pol" using current_ok [OF restorePolicy_ok [OF assms(1)]] pol(1) s' by blast
  have sane: "\<forall>n \<in> set (av_nodes ev). node_sane n" "\<forall>a \<in> set (av_apps ev). app_sane a"
    using ev parsed_evidence_sane by (auto simp: persistedAdmissionEvidence_def Option.bind_eq_Some_conv)
  from evaluate_with_allowed [OF e assms(3) ok sane assms(5,4)] show ?thesis
    using pol ok ev by blast
qed

subsection \<open>A concrete admission\<close>

definition sample_evidence :: value_json where
  "sample_evidence = VObj [(''generatedAt'', VStr ''t''), (''apps'', VArr []),
     (''nodes'', VArr [VObj [(''nodeId'', VStr ''n1''), (''observedAt'', VStr ''t''),
        (''memoryCurrentBytes'', VStr ''0''), (''memoryAvailableBytes'', VStr ''8000000000''),
        (''memoryTotalBytes'', VStr ''9000000000''), (''p99Bytes'', VStr ''0''), (''sampleCount'', VNum 5)]])]"

definition sample_row :: telemetry_row where
  "sample_row = \<lparr>tr_lastResult = VObj [(''admissionEvidence'', sample_evidence)], tr_lastSuccessAt = Some 1000\<rparr>"

definition sample_node :: node_evidence where
  "sample_node = \<lparr>ne_nodeId = ''n1'', ne_observedAt = 1000, ne_memoryCurrentBytes = 0,
     ne_memoryAvailableBytes = 8000000000, ne_memoryTotalBytes = 9000000000, ne_psiSomeAvg10 = None,
     ne_psiFullAvg10 = None, ne_p99Bytes = 0, ne_sampleCount = 5\<rparr>"

lemma sample_decimals:
  "decimal (VStr ''0'') = Some 0" "decimal (VStr ''8000000000'') = Some 8000000000"
  "decimal (VStr ''9000000000'') = Some 9000000000"
  by (simp_all add: decimal_def guard_def numeral_eval)

lemma sample_parse:
  "parseAdmissionEvidence (\<lambda>_. Some 1000) sample_evidence = Some \<lparr>av_generatedAt = ''t'', av_nodes = [sample_node], av_apps = []\<rparr>"
  by (simp add: parseAdmissionEvidence_def sample_evidence_def parse_node_def guard_def sample_decimals
      safe_integer_def optional_nonneg_def sample_node_def)

lemma sample_persisted:
  "persistedAdmissionEvidence (\<lambda>_. Some 1000) DEFAULT_CAPACITY_POLICY (Some sample_row) 2000 =
     Some \<lparr>av_generatedAt = ''t'', av_nodes = [sample_node], av_apps = []\<rparr>"
  by (simp add: persistedAdmissionEvidence_def sample_row_def guard_def sample_parse)
    (simp add: DEFAULT_CAPACITY_POLICY_def)

theorem accepted_evidence_is_sane_witness:
  "node_sane sample_node"
  using accepted_evidence_is_sane [OF sample_persisted] by simp

definition sample_admission :: admission_input where
  "sample_admission = \<lparr>ad_snapshot = \<lparr>sn_appGroupId = ''g'', sn_tenantId = ''t'', sn_runtimeState = ''Running'',
       sn_singleApps = [sample_app]\<rparr>, ad_runningApps = [], ad_inFlightSnapshots = [], ad_schedulableNodeIds = [''n1'']\<rparr>"

lemma sample_evaluate:
  "\<exists>d reason. evaluateAdmission (\<lambda>_. Some 1000) \<lparr>td_storedPolicy = None, td_telemetry = Some sample_row\<rparr> 2000 sample_admission
     \<lparr>ps_override = Some DEFAULT_CAPACITY_POLICY, ps_config = c\<rparr> =
     (\<lparr>ps_override = Some DEFAULT_CAPACITY_POLICY, ps_config = c\<rparr>, Inr (Usable d [] 2048 reason)) \<and> hd_allowed d"
proof -
  let ?ev = "\<lparr>av_generatedAt = ''t'', av_nodes = [sample_node], av_apps = []\<rparr>"
  have h: "pol_mode DEFAULT_CAPACITY_POLICY = ''Hybrid''" by (simp add: DEFAULT_CAPACITY_POLICY_def)
  have f: "is_fresh DEFAULT_CAPACITY_POLICY 2000 sample_node"
    by (simp add: is_fresh_def sample_node_def DEFAULT_CAPACITY_POLICY_def)
  have nid: "ne_nodeId sample_node = ''n1''" by (simp add: sample_node_def)
  have inc: "increment_in ?ev [] (ad_snapshot sample_admission) = Inr 2048"
    by (simp add: increment_in_def incrementalPrediction_def sample_admission_def app_increment_def sample_app_def
      js_map_get_def numeral_eval)
  have dec: "decide_node DEFAULT_CAPACITY_POLICY 0 0 2048 0 0 sample_node = Inr (''n1'', d)"
    if "d = \<lparr>hd_allowed = True, hd_reason = ''predicted growth fits while preserving the physical safety reserve'',
      hd_nodeMemoryTotalBytes = 9000000000, hd_nodeMemoryAvailableBytes = 8000000000,
      hd_safetyReserveBytes = 1800000000, hd_currentAppMemoryBytes = 0, hd_predictedExistingGrowthBytes = 0,
      hd_requestedPredictedBytes = 2048, hd_inFlightPredictedBytes = 0, hd_remainingAfterAdmissionBytes = 7999997952\<rparr>" for d
    using that by (simp add: decide_node_def correlatedExistingDemand_def evaluateHybridNodeAdmission_def Let_def
      DEFAULT_CAPACITY_POLICY_def bigint_of_number_def is_integer_def bigint_div_def sample_node_def monus_def)
  have "\<exists>d reason. evaluate_with DEFAULT_CAPACITY_POLICY ?ev 2000 sample_admission = Inr (Usable d [] 2048 reason) \<and> hd_allowed d"
    using f inc by (simp add: evaluate_with_def Let_def dec [OF refl] running_predictions_def min_confidence_def)
      (simp add: sample_admission_def js_map_get_def nid map_filter_simps dec [OF refl] conclude_def
        select_decision_def sort_asc_def)
  then show ?thesis
    by (simp add: evaluateAdmission_def restorePolicy_def current_def sample_persisted h)
qed

end
