(* ===== verification/CapacityPreflight.thy ===== *)
theory CapacityPreflight
  imports CapacityTelemetry Table "HOL-Library.List_Lexorder" "HOL-Library.Char_ord"
begin

text \<open>
  \<open>capacity/capacity-preflight.service.ts\<close> and \<open>capacity-deployment-admission.service.ts\<close>: whether
  the platform has room for a deployment or a runtime start. \<open>cap_db\<close> holds the rows the queries
  read, each table in the order the database returns it. The advisory lock taken first makes each
  admission run alone, so an admission is a function of the database; only \<open>admitAndAdvance\<close>
  changes it. \<open>parse_date\<close> and \<open>now\<close> are passed on to the telemetry service. The service's
  optional collaborators are present or absent together (\<open>pf_telemetry\<close>).

  A deployment's \<open>stackConfig\<close> is kept as the outcome of \<open>JSON.parse\<close>: no text, text that is not
  JSON, or an object whose checked parts may have another type than the snapshot's (\<open>None\<close>); the
  elements of \<open>singleApps\<close>, which the service does not check, have the declared type.
\<close>

datatype deployment_status = Pending | Deploying | Succeeded | Failed | RollingBack | RolledBack | RollbackFailed

datatype deployment_phase =
    Validating | PreparingArtifacts | GeneratingStack | ApplyingStack | WaitingForRollout
  | RollingBackPhase | Cleanup | Completed

record raw_app_group =
  rg_id :: "string option"
  rg_tenantId :: string
  rg_runtimeState :: "string option"

record raw_snapshot =
  rs_appGroup :: "raw_app_group option"
  rs_singleApps :: "snapshot_app list option"

datatype stack_config = NoConfig | NotJson | ParsedConfig raw_snapshot

record deployment_row =
  dp_id :: uuid
  dp_appGroupId :: uuid
  dp_version :: int
  dp_status :: deployment_status
  dp_phase :: deployment_phase
  dp_stackConfig :: stack_config
  dp_leaseOwner :: "string option"
  dp_leaseExpiresAt :: "millis option"
  dp_heartbeatAt :: "millis option"

record app_group_row =
  ag_id :: uuid
  ag_runtimeState :: string

record single_app_row =
  sr_id :: uuid
  sr_appGroupId :: uuid
  sr_runtimeState :: string
  sr_pendingDeletion :: bool
  sr_memoryBytes :: int
  sr_desiredReplicas :: int
  sr_actualReplicas :: int

record location_row =
  lr_swarmNodeId :: string
  lr_status :: string
  lr_availability :: string
  lr_maintenance :: bool
  lr_health :: string
  lr_availableCpuNano :: int
  lr_availableMemoryBytes :: int

record backend_row =
  be_id :: uuid
  be_status :: string
  be_health :: string
  be_maintenance :: bool
  be_capacityTotal :: "int option"
  be_capacityAvailable :: "int option"

record volume_row =
  vo_id :: uuid
  vo_tenantId :: uuid
  vo_storageBackend :: backend_row

record deployment_event =
  de_deploymentId :: uuid
  de_phase :: deployment_phase
  de_level :: string
  de_message :: string

record cap_db =
  cb_clusters :: "(uuid \<times> string) list"
  cb_locations :: "location_row list"
  cb_appGroups :: "app_group_row list"
  cb_singleApps :: "single_app_row list"
  cb_deployments :: "deployment_row list"
  cb_volumes :: "volume_row list"
  cb_events :: "deployment_event list"
  cb_telemetry :: telemetry_db

datatype capacity_error_code = InsufficientCapacity | PlatformUnavailable

datatype admission =
    Admitted (adm_demand: capacity_demand) (adm_occupied: capacity_demand) (adm_supply: capacity_demand)
  | Refused capacity_error_code string

definition ADMITTED_PHASES :: "deployment_phase list" where
  "ADMITTED_PHASES = [PreparingArtifacts, GeneratingStack, ApplyingStack, WaitingForRollout, Cleanup]"

definition SWARM_CLUSTER_SINGLETON_ID :: uuid where
  "SWARM_CLUSTER_SINGLETON_ID = ''00000000-0000-0000-0000-000000000013''"

definition parseSnapshot :: "stack_config \<Rightarrow> deployment_snapshot option" where
  "parseSnapshot c =
     (case c of
        ParsedConfig r \<Rightarrow> do {
          g \<leftarrow> rs_appGroup r;
          i \<leftarrow> rg_id g;
          st \<leftarrow> rg_runtimeState g;
          apps \<leftarrow> rs_singleApps r;
          Some \<lparr>sn_appGroupId = i, sn_tenantId = rg_tenantId g, sn_runtimeState = st, sn_singleApps = apps\<rparr> }
      | _ \<Rightarrow> None)"

definition snapshot_demand :: "deployment_snapshot \<Rightarrow> string + capacity_demand" where
  "snapshot_demand s = snapshotDemand (sn_runtimeState s) (sn_singleApps s)"

subsection \<open>Supply\<close>

definition schedulable :: "location_row \<Rightarrow> bool" where
  "schedulable r \<longleftrightarrow> lr_status r = ''Ready'' \<and> lr_availability r = ''Active'' \<and> \<not> lr_maintenance r \<and>
     lr_health r \<in> {''Healthy'', ''Degraded''}"

record platform_capacity =
  pc_health :: string
  pc_available :: capacity_demand
  pc_schedulableNodeCount :: int
  pc_schedulableNodeIds :: "string list"

text \<open>The aggregate query; \<open>ARRAY_AGG ... ORDER BY\<close> gives the node ids in ascending order.\<close>

definition platformCapacity :: "cap_db \<Rightarrow> platform_capacity option" where
  "platformCapacity db =
     (case head_opt (filter (\<lambda>c. fst c = SWARM_CLUSTER_SINGLETON_ID) (cb_clusters db)) of
        None \<Rightarrow> None
      | Some c \<Rightarrow> Some
          \<lparr>pc_health = snd c,
           pc_available = CapacityDemand (sum_list (map lr_availableCpuNano (cb_locations db)))
                                         (sum_list (map lr_availableMemoryBytes (cb_locations db))),
           pc_schedulableNodeCount = int (length (filter schedulable (cb_locations db))),
           pc_schedulableNodeIds = sort (map lr_swarmNodeId (filter schedulable (cb_locations db)))\<rparr>)"

definition availablePlatformSupply :: "cap_db \<Rightarrow> admission + capacity_demand \<times> string list" where
  "availablePlatformSupply db =
     (case platformCapacity db of
        None \<Rightarrow> Inl (Refused PlatformUnavailable ''Docker Swarm infrastructure has not been reconciled'')
      | Some p \<Rightarrow>
          (if pc_health p \<in> {''Unknown'', ''Unhealthy''}
           then Inl (Refused PlatformUnavailable (''Docker Swarm health is '' @ pc_health p))
           else if pc_schedulableNodeCount p < 1
           then Inl (Refused PlatformUnavailable ''Docker Swarm has no schedulable Remote Location'')
           else if int (length (pc_schedulableNodeIds p)) \<noteq> pc_schedulableNodeCount p \<or>
                   length (unique (pc_schedulableNodeIds p)) \<noteq> length (pc_schedulableNodeIds p)
           then Inl (Refused PlatformUnavailable ''Docker Swarm schedulable node identity inventory is inconsistent'')
           else Inr (pc_available p, pc_schedulableNodeIds p)))"

subsection \<open>Storage backends\<close>

definition backend_failure :: "backend_row \<Rightarrow> string option" where
  "backend_failure b =
     (if be_maintenance b then Some (''StorageBackend '' @ be_id b @ '' is in maintenance'')
      else if be_status b \<noteq> ''Ready'' then Some (''StorageBackend '' @ be_id b @ '' is not Ready'')
      else if be_health b \<noteq> ''Healthy'' \<and> be_health b \<noteq> ''Degraded''
      then Some (''StorageBackend '' @ be_id b @ '' health is '' @ be_health b)
      else if be_capacityTotal b = None \<or> be_capacityAvailable b = None
      then Some (''StorageBackend '' @ be_id b @ '' capacity is unavailable'')
      else None)"

fun check_backends :: "uuid list \<Rightarrow> backend_row list \<Rightarrow> string option" where
  "check_backends checked [] = None"
| "check_backends checked (b # bs) =
     (if be_id b \<in> set checked then check_backends checked bs
      else (case backend_failure b of
              Some m \<Rightarrow> Some m
            | None \<Rightarrow> check_backends (be_id b # checked) bs))"

definition validateStorageBackends :: "cap_db \<Rightarrow> deployment_snapshot \<Rightarrow> admission option" where
  "validateStorageBackends db snapshot =
     (let volumeIds = unique (concat (map sa_volumes (sn_singleApps snapshot))) in
      if volumeIds = [] then None
      else
        (let volumes = filter (\<lambda>v. vo_id v \<in> set volumeIds \<and> vo_tenantId v = sn_tenantId snapshot) (cb_volumes db) in
         if length volumes \<noteq> length volumeIds
         then Some (Refused PlatformUnavailable ''A referenced Volume or StorageBackend is unavailable'')
         else map_option (Refused PlatformUnavailable) (check_backends [] (map vo_storageBackend volumes))))"

subsection \<open>The demand of a deployed snapshot\<close>

record runtime_override =
  ov_appGroupRuntimeState :: "string option"
  ov_singleAppId :: "uuid option"
  ov_singleAppRuntimeState :: "string option"

definition no_override :: runtime_override where
  "no_override = \<lparr>ov_appGroupRuntimeState = None, ov_singleAppId = None, ov_singleAppRuntimeState = None\<rparr>"

definition snapshot_app_ids :: "deployment_snapshot \<Rightarrow> uuid list" where
  "snapshot_app_ids s = List.map_filter sa_id (sn_singleApps s)"

definition current_apps :: "cap_db \<Rightarrow> deployment_snapshot \<Rightarrow> uuid \<Rightarrow> single_app_row option" where
  "current_apps db s =
     js_map_get (map (\<lambda>r. (sr_id r, r))
       (filter (\<lambda>r. sr_appGroupId r = sn_appGroupId s \<and> sr_id r \<in> set (snapshot_app_ids s)) (cb_singleApps db)))"

definition find_group :: "cap_db \<Rightarrow> uuid \<Rightarrow> app_group_row option" where
  "find_group db i = find_row ag_id i (cb_appGroups db)"

text \<open>\<open>singleApp.id ? currentById.get(singleApp.id) : undefined\<close>.\<close>

definition current_of :: "(uuid \<Rightarrow> single_app_row option) \<Rightarrow> snapshot_app \<Rightarrow> single_app_row option" where
  "current_of currentById a =
     (case sa_id a of None \<Rightarrow> None | Some i \<Rightarrow> if i = '''' then None else currentById i)"

definition app_state :: "runtime_override \<Rightarrow> snapshot_app \<Rightarrow> string \<Rightarrow> string" where
  "app_state ov a state =
     (if ov_singleAppId ov = sa_id a then option_or (ov_singleAppRuntimeState ov) state else state)"

definition live_app_demand ::
  "deployment_snapshot \<Rightarrow> string \<Rightarrow> runtime_override \<Rightarrow> (uuid \<Rightarrow> single_app_row option) \<Rightarrow> snapshot_app
     \<Rightarrow> string + capacity_demand" where
  "live_app_demand s groupState ov currentById a =
     (case current_of currentById a of
        None \<Rightarrow> snapshotDemand (sn_runtimeState s) [a]
      | Some row \<Rightarrow>
          (let currentRuntimeState = app_state ov a (sr_runtimeState row);
               deployedReplicas = max 0 (sa_desiredReplicas a);
               liveRunning = (groupState = ''Running'' \<and> currentRuntimeState = ''Running'');
               replicas = (if liveRunning then max deployedReplicas (max 0 (sr_actualReplicas row))
                           else max 0 (sr_actualReplicas row))
           in snapshotDemand ''Running''
                [a\<lparr>sa_runtimeState := ''Running'', sa_desiredReplicas := replicas\<rparr>]))"

definition succeededRuntimeDemand ::
  "cap_db \<Rightarrow> deployment_snapshot \<Rightarrow> runtime_override \<Rightarrow> string + capacity_demand" where
  "succeededRuntimeDemand db s ov =
     (if length (snapshot_app_ids s) \<noteq> length (sn_singleApps s) then snapshot_demand s
      else
        (case find_group db (sn_appGroupId s) of
           None \<Rightarrow> snapshot_demand s
         | Some g \<Rightarrow>
             and_then (traverse (live_app_demand s (option_or (ov_appGroupRuntimeState ov) (ag_runtimeState g)) ov
                         (current_apps db s)) (sn_singleApps s))
               (\<lambda>ds. Inr (sum_list ds))))"

subsection \<open>The capacity other app groups occupy\<close>

text \<open>A computation stops with a refusal or with an exception.\<close>

datatype failure = Refusal admission | Thrown string

definition throwing :: "string + 'a \<Rightarrow> failure + 'a" where
  "throwing r = (case r of Inl e \<Rightarrow> Inl (Thrown e) | Inr x \<Rightarrow> Inr x)"

definition refusing :: "admission + 'a \<Rightarrow> failure + 'a" where
  "refusing r = (case r of Inl a \<Rightarrow> Inl (Refusal a) | Inr x \<Rightarrow> Inr x)"

definition settle :: "failure + admission \<Rightarrow> string + admission" where
  "settle r = (case r of Inl (Refusal a) \<Rightarrow> Inr a | Inl (Thrown e) \<Rightarrow> Inl e | Inr a \<Rightarrow> Inr a)"

definition unaccountable :: "string \<Rightarrow> uuid \<Rightarrow> failure" where
  "unaccountable which g = Refusal (Refused PlatformUnavailable (''Cannot account '' @ which @ '' capacity for AppGroup '' @ g))"

definition demand_max :: "capacity_demand \<Rightarrow> capacity_demand \<Rightarrow> capacity_demand" where
  "demand_max a b =
     CapacityDemand (if cpuNano b < cpuNano a then cpuNano a else cpuNano b)
                    (if memoryBytes b < memoryBytes a then memoryBytes a else memoryBytes b)"

definition is_active :: "deployment_row \<Rightarrow> bool" where
  "is_active d \<longleftrightarrow> dp_status d = Deploying \<and> dp_phase d \<in> set ADMITTED_PHASES"

definition newest :: "deployment_row list \<Rightarrow> deployment_row option" where
  "newest ds = head_opt (sort_desc dp_version ds)"

definition group_reservation :: "cap_db \<Rightarrow> deployment_row list \<Rightarrow> failure + capacity_demand" where
  "group_reservation db rows =
     (let active = newest (filter is_active rows);
          succeeded = newest (filter (\<lambda>d. dp_status d = Succeeded) rows)
      in case coalesce active succeeded of
           None \<Rightarrow> Inr 0
         | Some selected \<Rightarrow>
             (case parseSnapshot (dp_stackConfig selected) of
                None \<Rightarrow> Inl (unaccountable ''deployment'' (dp_appGroupId selected))
              | Some parsed \<Rightarrow>
                  and_then (throwing (if active \<noteq> None then snapshot_demand parsed
                                      else succeededRuntimeDemand db parsed no_override))
                    (\<lambda>demand.
                       case (active, succeeded) of
                         (Some _, Some old) \<Rightarrow>
                           (case parseSnapshot (dp_stackConfig old) of
                              None \<Rightarrow> Inl (unaccountable ''previous'' (dp_appGroupId old))
                            | Some previous \<Rightarrow>
                                and_then (throwing (succeededRuntimeDemand db previous no_override))
                                  (\<lambda>oldDemand. Inr (demand_max demand oldDemand)))
                       | _ \<Rightarrow> Inr demand)))"

definition reserving_rows :: "cap_db \<Rightarrow> uuid \<Rightarrow> deployment_row list" where
  "reserving_rows db excluded =
     filter (\<lambda>d. dp_appGroupId d \<noteq> excluded \<and> (dp_status d = Succeeded \<or> dp_status d = Deploying)) (cb_deployments db)"

definition by_app_group :: "deployment_row list \<Rightarrow> (uuid \<times> deployment_row list) list" where
  "by_app_group rows = foldl (\<lambda>gs d. group_add (dp_appGroupId d) d gs) [] rows"

definition occupiedCapacity :: "cap_db \<Rightarrow> uuid \<Rightarrow> failure + capacity_demand" where
  "occupiedCapacity db excluded =
     and_then (traverse (\<lambda>g. group_reservation db (snd g)) (by_app_group (reserving_rows db excluded)))
       (\<lambda>ds. Inr (sum_list ds))"

subsection \<open>What the telemetry service is told\<close>

definition in_flight_rows :: "cap_db \<Rightarrow> uuid \<Rightarrow> deployment_row list" where
  "in_flight_rows db excluded = filter (\<lambda>d. dp_appGroupId d \<noteq> excluded \<and> is_active d) (cb_deployments db)"

definition inFlightSnapshots :: "cap_db \<Rightarrow> uuid \<Rightarrow> deployment_snapshot list" where
  "inFlightSnapshots db excluded = List.map_filter (\<lambda>d. parseSnapshot (dp_stackConfig d)) (in_flight_rows db excluded)"

fun latest_per_group :: "uuid list \<Rightarrow> deployment_row list \<Rightarrow> deployment_row list" where
  "latest_per_group seen [] = []"
| "latest_per_group seen (d # ds) =
     (if dp_appGroupId d \<in> set seen then latest_per_group seen ds
      else d # latest_per_group (dp_appGroupId d # seen) ds)"

definition deployed_entry :: "snapshot_app \<Rightarrow> (uuid \<times> int \<times> int) option" where
  "deployed_entry a =
     (case sa_id a of
        None \<Rightarrow> None
      | Some i \<Rightarrow>
          (if i = '''' then None
           else map_option (\<lambda>bytes. (i, max 0 (sa_desiredReplicas a), bytes)) (js_bigint (res_memoryBytes (sa_resources a)))))"

definition running_rows :: "cap_db \<Rightarrow> single_app_row list" where
  "running_rows db =
     filter (\<lambda>r. sr_runtimeState r = ''Running'' \<and> \<not> sr_pendingDeletion r \<and>
               (\<exists>g \<in> set (cb_appGroups db). ag_id g = sr_appGroupId r \<and> ag_runtimeState g = ''Running''))
       (cb_singleApps db)"

definition deployed_by_app :: "cap_db \<Rightarrow> (uuid \<times> int \<times> int) list" where
  "deployed_by_app db =
     (let appGroupIds = map sr_appGroupId (running_rows db);
          deployments = sort_desc dp_version
            (filter (\<lambda>d. dp_appGroupId d \<in> set appGroupIds \<and> dp_status d = Succeeded) (cb_deployments db))
      in concat (map (\<lambda>d. case parseSnapshot (dp_stackConfig d) of
                            None \<Rightarrow> []
                          | Some parsed \<Rightarrow> List.map_filter deployed_entry (sn_singleApps parsed))
                   (latest_per_group [] deployments)))"

definition running_of :: "(uuid \<times> int \<times> int) list \<Rightarrow> single_app_row \<Rightarrow> running_app option" where
  "running_of deployedByApp r =
     (let deployed = js_map_get deployedByApp (sr_id r);
          replicas = max 0 (max (sr_actualReplicas r)
            (case deployed of None \<Rightarrow> sr_desiredReplicas r | Some (n, _) \<Rightarrow> n));
          bytes = (case deployed of None \<Rightarrow> sr_memoryBytes r | Some (_, b) \<Rightarrow> b)
      in if replicas \<le> 0 then None
         else Some \<lparr>ra_appId = sr_id r, ra_hardLimitBytes = bytes * replicas, ra_replicas = replicas\<rparr>)"

definition currentRunningApps :: "cap_db \<Rightarrow> running_app list" where
  "currentRunningApps db = List.map_filter (running_of (deployed_by_app db)) (running_rows db)"

subsection \<open>Fitting an admission\<close>

definition strictCapacityFailure ::
  "capacity_resource \<Rightarrow> capacity_demand \<Rightarrow> capacity_demand \<Rightarrow> capacity_demand \<Rightarrow> admission" where
  "strictCapacityFailure resource supply occupied demand =
     (let field = (case resource of Cpu \<Rightarrow> cpuNano | Memory \<Rightarrow> memoryBytes);
          unit = (case resource of Cpu \<Rightarrow> '' NanoCPU'' | Memory \<Rightarrow> '' bytes'');
          name = (case resource of Cpu \<Rightarrow> ''cpu'' | Memory \<Rightarrow> ''memory'');
          available = (if field occupied < field supply then field supply - field occupied else 0)
      in Refused InsufficientCapacity
           (''Insufficient platform '' @ name @ '' capacity (requested='' @ show_int (field demand) @ unit @
            '', reserved='' @ show_int (field occupied) @ unit @ '', allocatable='' @ show_int (field supply) @ unit @
            '', unreserved='' @ show_int available @ unit @ '')''))"

definition hybrid_refusal :: "hybrid_decision \<Rightarrow> admission" where
  "hybrid_refusal d = Refused InsufficientCapacity
     (''Insufficient platform memory capacity in Hybrid mode (reason='' @ hd_reason d @
      '', memAvailable='' @ show_int (hd_nodeMemoryAvailableBytes d) @ '' bytes'' @
      '', predictedExistingGrowth='' @ show_int (hd_predictedExistingGrowthBytes d) @ '' bytes'' @
      '', requestedPredicted='' @ show_int (hd_requestedPredictedBytes d) @ '' bytes'' @
      '', inFlightPredicted='' @ show_int (hd_inFlightPredictedBytes d) @ '' bytes'' @
      '', safetyReserve='' @ show_int (hd_safetyReserveBytes d) @ '' bytes'' @
      '', remainingAfterAdmission='' @ show_int (hd_remainingAfterAdmissionBytes d) @ '' bytes)'')"

record preflight =
  pf_telemetry :: "policy_service option"
  pf_parse_date :: "string \<Rightarrow> millis option"

definition declared_fit :: "capacity_demand \<Rightarrow> capacity_demand \<Rightarrow> capacity_demand \<Rightarrow> admission" where
  "declared_fit supply occupied demand =
     (case projectedCapacityFits supply occupied demand of
        Fits \<Rightarrow> Admitted demand occupied supply
      | DoesNotFit resource \<Rightarrow> strictCapacityFailure resource supply occupied demand)"

definition fitAdmission ::
  "cap_db \<Rightarrow> millis \<Rightarrow> deployment_snapshot \<Rightarrow> capacity_demand \<Rightarrow> capacity_demand \<Rightarrow> capacity_demand \<Rightarrow>
   string list \<Rightarrow> preflight \<Rightarrow> preflight \<times> (failure + admission)" where
  "fitAdmission db now snapshot supply occupied demand nodeIds pf =
     (if projectedCapacityFits supply occupied demand = DoesNotFit Cpu
      then (pf, Inr (strictCapacityFailure Cpu supply occupied demand))
      else
        (case pf_telemetry pf of
           None \<Rightarrow> (pf, Inr (declared_fit supply occupied demand))
         | Some policies \<Rightarrow>
             (case current policies of
                Inl e \<Rightarrow> (pf, Inl (Thrown e))
              | Inr pol \<Rightarrow>
                  (if pol_mode pol \<noteq> ''Hybrid'' then (pf, Inr (declared_fit supply occupied demand))
                   else
                     (case evaluateAdmission (pf_parse_date pf) (cb_telemetry db) now
                         \<lparr>ad_snapshot = snapshot, ad_runningApps = currentRunningApps db,
                          ad_inFlightSnapshots = inFlightSnapshots db (sn_appGroupId snapshot),
                          ad_schedulableNodeIds = nodeIds\<rparr> policies of
                        (policies', r) \<Rightarrow>
                          (pf\<lparr>pf_telemetry := Some policies'\<rparr>,
                           (case r of
                              Inl e \<Rightarrow> Inl (Thrown e)
                            | Inr (Usable d _ _ _) \<Rightarrow>
                                Inr (if hd_allowed d then Admitted demand occupied supply else hybrid_refusal d)
                            | Inr (Unusable _) \<Rightarrow> Inr (declared_fit supply occupied demand))))))))"

subsection \<open>Admitting a deployment\<close>

text \<open>The checks before the fit, in their order: supply, storage, occupied capacity.\<close>

definition preconditions ::
  "cap_db \<Rightarrow> deployment_snapshot \<Rightarrow> uuid \<Rightarrow> failure + capacity_demand \<times> string list \<times> capacity_demand" where
  "preconditions db snapshot excluded =
     and_then (refusing (availablePlatformSupply db))
       (\<lambda>(supply, nodeIds).
          case validateStorageBackends db snapshot of
            Some refusal \<Rightarrow> Inl (Refusal refusal)
          | None \<Rightarrow> and_then (occupiedCapacity db excluded) (\<lambda>occupied. Inr (supply, nodeIds, occupied)))"

definition admitDeployment ::
  "cap_db \<Rightarrow> millis \<Rightarrow> deployment_snapshot \<Rightarrow> preflight \<Rightarrow> preflight \<times> (string + admission)" where
  "admitDeployment db now snapshot pf =
     (case preconditions db snapshot (sn_appGroupId snapshot) of
        Inl f \<Rightarrow> (pf, settle (Inl f))
      | Inr (supply, nodeIds, occupied) \<Rightarrow>
          (case snapshot_demand snapshot of
             Inl e \<Rightarrow> (pf, Inl e)
           | Inr demand \<Rightarrow> map_prod id settle (fitAdmission db now snapshot supply occupied demand nodeIds pf)))"

subsection \<open>Admitting a runtime start\<close>

definition start_override :: "uuid option \<Rightarrow> runtime_override" where
  "start_override singleAppId =
     \<lparr>ov_appGroupRuntimeState = (if singleAppId = None then Some ''Running'' else None),
      ov_singleAppId = singleAppId,
      ov_singleAppRuntimeState = (if singleAppId = None then None else Some ''Running'')\<rparr>"

definition started_app :: "string \<Rightarrow> runtime_override \<Rightarrow> (uuid \<Rightarrow> single_app_row option) \<Rightarrow> snapshot_app \<Rightarrow> snapshot_app" where
  "started_app groupState ov currentById a =
     (let row = current_of currentById a;
          runtimeState = app_state ov a (case row of None \<Rightarrow> sa_runtimeState a | Some r \<Rightarrow> sr_runtimeState r);
          observedReplicas = max 0 (case row of None \<Rightarrow> 0 | Some r \<Rightarrow> sr_actualReplicas r);
          deployedReplicas = max 0 (sa_desiredReplicas a);
          runnable = (groupState = ''Running'' \<and> runtimeState = ''Running'')
      in a\<lparr>sa_runtimeState := (if runnable then ''Running'' else ''Stopped''),
           sa_desiredReplicas := (if runnable then max deployedReplicas observedReplicas else observedReplicas)\<rparr>)"

definition runtimeStartAdmissionSnapshot ::
  "cap_db \<Rightarrow> deployment_snapshot \<Rightarrow> runtime_override \<Rightarrow> deployment_snapshot" where
  "runtimeStartAdmissionSnapshot db s ov =
     (if length (snapshot_app_ids s) \<noteq> length (sn_singleApps s)
      then s\<lparr>sn_runtimeState := option_or (ov_appGroupRuntimeState ov) (sn_runtimeState s),
             sn_singleApps := map (\<lambda>a. a\<lparr>sa_runtimeState := app_state ov a (sa_runtimeState a)\<rparr>) (sn_singleApps s)\<rparr>
      else
        (let groupState = option_or (ov_appGroupRuntimeState ov)
               (case find_group db (sn_appGroupId s) of None \<Rightarrow> sn_runtimeState s | Some g \<Rightarrow> ag_runtimeState g)
         in s\<lparr>sn_runtimeState := groupState,
              sn_singleApps := map (started_app groupState ov (current_apps db s)) (sn_singleApps s)\<rparr>))"

definition admitRuntimeStart ::
  "cap_db \<Rightarrow> millis \<Rightarrow> uuid \<Rightarrow> uuid option \<Rightarrow> preflight \<Rightarrow> preflight \<times> (string + admission)" where
  "admitRuntimeStart db now appGroupId singleAppId pf =
     (case newest (filter (\<lambda>d. dp_appGroupId d = appGroupId \<and> dp_status d = Succeeded) (cb_deployments db)) of
        None \<Rightarrow> (pf, Inr (Admitted 0 0 0))
      | Some deployment \<Rightarrow>
          (if dp_stackConfig deployment = NoConfig then (pf, Inr (Admitted 0 0 0))
           else
             (case parseSnapshot (dp_stackConfig deployment) of
                None \<Rightarrow> (pf, settle (Inl (unaccountable ''deployment'' appGroupId)))
              | Some snapshot \<Rightarrow>
                  (case succeededRuntimeDemand db snapshot (start_override singleAppId) of
                     Inl e \<Rightarrow> (pf, Inl e)
                   | Inr demand \<Rightarrow>
                       (if demand = 0 then (pf, Inr (Admitted demand 0 0))
                        else
                          (case preconditions db snapshot appGroupId of
                             Inl f \<Rightarrow> (pf, settle (Inl f))
                           | Inr (supply, nodeIds, occupied) \<Rightarrow>
                               map_prod id settle
                                 (fitAdmission db now (runtimeStartAdmissionSnapshot db snapshot (start_override singleAppId))
                                    supply occupied demand nodeIds pf)))))))"

subsection \<open>\<open>capacity-deployment-admission.service.ts\<close>\<close>

definition advance_row :: "'a deployment_row_scheme \<Rightarrow> millis \<Rightarrow> 'b deployment_row_scheme \<Rightarrow> 'b deployment_row_scheme" where
  "advance_row d now row =
     row\<lparr>dp_phase := PreparingArtifacts, dp_status := Deploying, dp_leaseOwner := dp_leaseOwner d,
         dp_leaseExpiresAt := dp_leaseExpiresAt d, dp_heartbeatAt := Some now\<rparr>"

text \<open>The transaction: a refusal or an exception leaves the database as it was, and so does a
  deployment that no longer exists (\<open>update\<close> throws).\<close>

definition admitAndAdvance ::
  "deployment_row \<Rightarrow> deployment_snapshot \<Rightarrow> string option \<Rightarrow> millis \<Rightarrow> preflight \<Rightarrow> cap_db
     \<Rightarrow> cap_db \<times> preflight \<times> (string + admission)" where
  "admitAndAdvance d snapshot message now pf db =
     (case admitDeployment db now snapshot pf of
        (pf', Inr (Admitted demand occupied supply)) \<Rightarrow>
          (if find_row dp_id (dp_id d) (cb_deployments db) = None
           then (db, pf', Inl ''Record to update not found'')
           else
             (db\<lparr>cb_deployments := fst (update_where (\<lambda>r. dp_id r = dp_id d) (advance_row d now) (cb_deployments db)),
                 cb_events := cb_events db @
                   [\<lparr>de_deploymentId = dp_id d, de_phase = PreparingArtifacts, de_level = ''Info'',
                     de_message = option_or message ''Deployment advanced to PreparingArtifacts''\<rparr>]\<rparr>,
              pf', Inr (Admitted demand occupied supply)))
      | (pf', r) \<Rightarrow> (db, pf', r))"

end
