(* ===== verification/CapacityReservation.thy ===== *)
theory CapacityReservation
  imports CapacityPreflight
begin

text \<open>
  What the admission of \<open>capacity-preflight.service.ts\<close> guarantees: the reservation of every app
  group is a high-water mark of its rollout, an admitted deployment fits beside the reservations of
  all others, a refusal changes nothing and a granted admission is counted by the next one.
\<close>

section \<open>Grouping by app group\<close>

lemma group_add_map_of:
  "map_of (group_add k v gs) = (map_of gs)(k \<mapsto> (case map_of gs k of None \<Rightarrow> [v] | Some vs \<Rightarrow> vs @ [v]))"
  by (induction k v gs rule: group_add.induct) (auto simp: fun_eq_iff)

lemma group_add_keys: "fst ` set (group_add k v gs) = insert k (fst ` set gs)"
  by (induction k v gs rule: group_add.induct) auto

lemma group_add_distinct: "distinct (map fst gs) \<Longrightarrow> distinct (map fst (group_add k v gs))"
proof (induction k v gs rule: group_add.induct)
  case (2 k v k' vs gs)
  then show ?case using group_add_keys [of k v gs] by (auto simp: image_iff)
qed simp

lemma by_app_group_snoc: "by_app_group (rows @ [d]) = group_add (dp_appGroupId d) d (by_app_group rows)"
  by (simp add: by_app_group_def)

lemma by_app_group_distinct: "distinct (map fst (by_app_group rows))"
  by (induction rows rule: rev_induct) (simp_all add: by_app_group_snoc group_add_distinct, simp add: by_app_group_def)

lemma by_app_group_map_of:
  "map_of (by_app_group rows) g =
     (let rs = filter (\<lambda>d. dp_appGroupId d = g) rows in if rs = [] then None else Some rs)"
  by (induction rows rule: rev_induct)
    (auto simp: by_app_group_snoc group_add_map_of Let_def, simp_all add: by_app_group_def)

lemma by_app_group_entry:
  "(g, rs) \<in> set (by_app_group rows) \<longleftrightarrow> rs = filter (\<lambda>d. dp_appGroupId d = g) rows \<and> rs \<noteq> []"
  using by_app_group_map_of [of rows g] map_of_eq_Some_iff [OF by_app_group_distinct, of rows g rs]
  by (auto simp: Let_def split: if_splits)

section \<open>Demands\<close>

lemma app_demand_cpu: "app_demand a = Inr d \<Longrightarrow> 0 \<le> cpuNano d"
proof -
  have "0 \<le> n" if "cpuToNanoCpu cpu = Inr n" for cpu n
    using that by (auto simp: cpuToNanoCpu_def digits_value_def NANO_CPUS_PER_CPU_def Let_def
        split: option.splits if_splits)
  then show "app_demand a = Inr d \<Longrightarrow> 0 \<le> cpuNano d"
    by (auto simp: app_demand_def app_replicas_def split: sum.splits option.splits)
qed

lemma sum_cpu_nonneg: "\<forall>d \<in> set ds. 0 \<le> cpuNano d \<Longrightarrow> 0 \<le> cpuNano (sum_list ds)"
  by (induction ds) auto

lemma sum_list_cpu_member: "\<forall>d \<in> set ds. 0 \<le> cpuNano d \<Longrightarrow> x \<in> set ds \<Longrightarrow> cpuNano x \<le> cpuNano (sum_list ds)"
proof (induction ds)
  case (Cons d ds)
  then show ?case using sum_cpu_nonneg [of ds] by auto
qed simp

lemma snapshotDemand_cpu: "snapshotDemand g apps = Inr d \<Longrightarrow> 0 \<le> cpuNano d"
proof (cases "g = ''Running''")
  case True
  moreover assume "snapshotDemand g apps = Inr d"
  ultimately have "sum_demand 0 apps = Inr d" by (simp add: snapshotDemand_def zero_demand)
  then have d: "d = sum_list (map app_cost apps)" using sum_demand_Inr [of 0 apps d] by simp
  have "0 \<le> cpuNano (app_cost a)" for a
    by (cases "app_demand a") (auto simp: app_cost_def app_demand_cpu)
  then show ?thesis unfolding d by (intro sum_cpu_nonneg) auto
qed (simp add: snapshotDemand_def zero_demand)

lemma snapshot_demand_cpu: "snapshot_demand s = Inr d \<Longrightarrow> 0 \<le> cpuNano d"
  by (simp add: snapshot_demand_def snapshotDemand_cpu)

lemma live_app_demand_cpu: "live_app_demand s g ov cur a = Inr d \<Longrightarrow> 0 \<le> cpuNano d"
  by (auto simp: live_app_demand_def Let_def snapshotDemand_cpu split: option.splits)

lemma succeededRuntimeDemand_cpu: "succeededRuntimeDemand db s ov = Inr d \<Longrightarrow> 0 \<le> cpuNano d"
  by (auto simp: succeededRuntimeDemand_def and_then_Inr_iff snapshot_demand_cpu
      split: if_splits option.splits intro!: sum_cpu_nonneg dest!: traverse_member_conv live_app_demand_cpu)

lemma throwing_Inr [simp]: "throwing r = Inr x \<longleftrightarrow> r = Inr x"
  by (cases r) (auto simp: throwing_def)

lemma throwing_simps [simp]: "throwing (Inr x) = Inr x" "throwing (Inl e) = Inl (Thrown e)"
  by (simp_all add: throwing_def)

lemma refusing_Inr [simp]: "refusing r = Inr x \<longleftrightarrow> r = Inr x"
  by (cases r) (auto simp: refusing_def)

lemma settle_Inr_Admitted: "settle r = Inr (Admitted d oc s) \<longleftrightarrow> r = Inl (Refusal (Admitted d oc s)) \<or> r = Inr (Admitted d oc s)"
  by (auto simp: settle_def split: sum.splits failure.splits)

lemma demand_max_ge: "a \<le> demand_max a b \<and> b \<le> demand_max a b"
  by (simp add: demand_max_def demand_le_iff)

lemma demand_max_cpu: "0 \<le> cpuNano a \<Longrightarrow> 0 \<le> cpuNano b \<Longrightarrow> 0 \<le> cpuNano (demand_max a b)"
  by (simp add: demand_max_def)

section \<open>Reservations\<close>

lemma newest_in: "newest ds = Some d \<Longrightarrow> d \<in> set ds"
  by (auto simp: newest_def dest: head_sort_desc_greatest)

lemma newest_Nil [simp]: "newest [] = None"
  by (simp add: newest_def)

text \<open>What one app group must at least be charged: the demand of its newest admitted rollout and the
  demand of what its newest successful deployment still runs.\<close>

definition covers_group :: "cap_db \<Rightarrow> deployment_row list \<Rightarrow> capacity_demand \<Rightarrow> bool" where
  "covers_group db rows r \<longleftrightarrow>
     (\<forall>d. newest (filter is_active rows) = Some d \<longrightarrow>
        (\<exists>s x. parseSnapshot (dp_stackConfig d) = Some s \<and> snapshot_demand s = Inr x \<and> x \<le> r)) \<and>
     (\<forall>d. newest (filter (\<lambda>d. dp_status d = Succeeded) rows) = Some d \<longrightarrow>
        (\<exists>s x. parseSnapshot (dp_stackConfig d) = Some s \<and> succeededRuntimeDemand db s no_override = Inr x \<and> x \<le> r))"

lemma group_reservation_covers:
  assumes "group_reservation db rows = Inr r"
  shows "covers_group db rows r \<and> 0 \<le> cpuNano r"
proof -
  let ?a = "newest (filter is_active rows)" and ?s = "newest (filter (\<lambda>d. dp_status d = Succeeded) rows)"
  show ?thesis
  proof (cases ?a)
    case None
    then show ?thesis
      using assms by (cases ?s) (auto simp: group_reservation_def Let_def covers_group_def and_then_Inr_iff
        succeededRuntimeDemand_cpu split: option.splits)
  next
    case a: (Some a)
    then obtain s x where s: "parseSnapshot (dp_stackConfig a) = Some s" "snapshot_demand s = Inr x"
      using assms by (cases "parseSnapshot (dp_stackConfig a)") (auto simp: group_reservation_def Let_def and_then_Inr_iff)
    show ?thesis
    proof (cases ?s)
      case None
      then show ?thesis
        using assms a s by (auto simp: group_reservation_def Let_def covers_group_def snapshot_demand_cpu)
    next
      case old: (Some old)
      then obtain p y where "parseSnapshot (dp_stackConfig old) = Some p" "succeededRuntimeDemand db p no_override = Inr y"
        "r = demand_max x y"
        using assms a s by (cases "parseSnapshot (dp_stackConfig old)")
          (auto simp: group_reservation_def Let_def and_then_Inr_iff)
      then show ?thesis
        using a old s demand_max_ge [of x y] snapshot_demand_cpu succeededRuntimeDemand_cpu
        by (auto simp: covers_group_def demand_max_cpu)
    qed
  qed
qed

definition group_rows :: "cap_db \<Rightarrow> uuid \<Rightarrow> deployment_row list" where
  "group_rows db g = filter (\<lambda>d. dp_appGroupId d = g) (cb_deployments db)"

lemma covers_group_rows:
  assumes "g \<noteq> excluded"
  shows "covers_group db (filter (\<lambda>d. dp_appGroupId d = g) (reserving_rows db excluded)) r
    \<longleftrightarrow> covers_group db (group_rows db g) r"
proof -
  have "filter is_active (filter (\<lambda>d. dp_appGroupId d = g) (reserving_rows db excluded)) = filter is_active (group_rows db g)"
    "filter (\<lambda>d. dp_status d = Succeeded) (filter (\<lambda>d. dp_appGroupId d = g) (reserving_rows db excluded)) =
     filter (\<lambda>d. dp_status d = Succeeded) (group_rows db g)"
    using assms by (auto simp: reserving_rows_def group_rows_def is_active_def intro: filter_cong)
  then show ?thesis by (simp add: covers_group_def)
qed

definition reserves :: "cap_db \<Rightarrow> uuid \<Rightarrow> bool" where
  "reserves db g \<longleftrightarrow> (\<exists>d \<in> set (group_rows db g). dp_status d = Succeeded \<or> dp_status d = Deploying)"

lemma occupied_reservations:
  assumes "occupiedCapacity db excluded = Inr occupied"
  shows "\<exists>rs. distinct (map fst rs) \<and> fst ` set rs = {g. g \<noteq> excluded \<and> reserves db g} \<and>
    occupied = sum_list (map snd rs) \<and>
    (\<forall>gr \<in> set rs. covers_group db (group_rows db (fst gr)) (snd gr) \<and> 0 \<le> cpuNano (snd gr))"
proof -
  let ?gs = "by_app_group (reserving_rows db excluded)"
  obtain ds where ds: "list_all2 (\<lambda>g d. group_reservation db (snd g) = Inr d) ?gs ds" "occupied = sum_list ds"
    using assms by (auto simp: occupiedCapacity_def and_then_Inr_iff traverse_Inr_iff)
  have len: "length ?gs = length ds" using ds(1) by (rule list_all2_lengthD)
  let ?rs = "zip (map fst ?gs) ds"
  have "map fst ?rs = map fst ?gs" "map snd ?rs = ds" using len by simp_all
  then have 1: "distinct (map fst ?rs)" "occupied = sum_list (map snd ?rs)" "fst ` set ?rs = fst ` set ?gs"
    using by_app_group_distinct ds(2) by (simp_all flip: set_map)
  have keys: "fst ` set ?gs = {g. g \<noteq> excluded \<and> reserves db g}"
  proof -
    have "g \<in> fst ` set ?gs \<longleftrightarrow> (\<exists>d \<in> set (reserving_rows db excluded). dp_appGroupId d = g)" for g
      using map_of_eq_None_iff [of ?gs g] by (auto simp: by_app_group_map_of Let_def filter_empty_conv split: if_splits)
    then show ?thesis by (auto simp: reserving_rows_def reserves_def group_rows_def)
  qed
  have 2: "covers_group db (group_rows db (fst gr)) (snd gr) \<and> 0 \<le> cpuNano (snd gr)" if gr: "gr \<in> set ?rs" for gr
  proof -
    obtain j where j: "j < length ds" "gr = (fst (?gs ! j), ds ! j)"
      using gr len by (auto simp: set_zip)
    have e: "?gs ! j \<in> set ?gs" using j(1) len by simp
    then have rows: "snd (?gs ! j) = filter (\<lambda>d. dp_appGroupId d = fst (?gs ! j)) (reserving_rows db excluded)"
      using by_app_group_entry [of "fst (?gs ! j)" "snd (?gs ! j)"] by simp
    have "fst (?gs ! j) \<noteq> excluded" using e keys by blast
    moreover have "group_reservation db (snd (?gs ! j)) = Inr (ds ! j)"
      using ds(1) j(1) len by (simp add: list_all2_conv_all_nth)
    ultimately show ?thesis
      using group_reservation_covers [of db "snd (?gs ! j)" "ds ! j"] covers_group_rows j(2) rows by simp
  qed
  have 3: "fst ` set ?rs = {g. g \<noteq> excluded \<and> reserves db g}" using 1(3) keys by (rule trans)
  show ?thesis
  proof (intro exI [of _ ?rs] conjI ballI)
    fix gr assume gr: "gr \<in> set ?rs"
    show "covers_group db (group_rows db (fst gr)) (snd gr)" "0 \<le> cpuNano (snd gr)" using 2 [OF gr] by blast+
  qed (fact 1(1) 3 1(2))+
qed

section \<open>The checks before the fit\<close>

fun plain_failure :: "failure \<Rightarrow> bool" where
  "plain_failure (Refusal (Refused c m)) = True"
| "plain_failure (Refusal (Admitted d oc s)) = False"
| "plain_failure (Thrown e) = True"

lemma settle_plain: "plain_failure f \<Longrightarrow> settle (Inl f) \<noteq> Inr (Admitted d oc s)"
  by (cases f rule: plain_failure.cases) (auto simp: settle_def)

lemma throwing_plain: "throwing r = Inl f \<Longrightarrow> plain_failure f"
  by (cases r) auto

lemma and_then_Inl_iff: "and_then r f = Inl e \<longleftrightarrow> r = Inl e \<or> (\<exists>x. r = Inr x \<and> f x = Inl e)"
  by (cases r) auto

lemma traverse_plain:
  assumes "\<And>x g. f x = Inl g \<Longrightarrow> plain_failure g"
  shows "traverse f xs = Inl h \<Longrightarrow> plain_failure h"
  using assms by (induction xs arbitrary: h) (auto simp: and_then_Inl_iff)

lemma group_reservation_plain: "group_reservation db rows = Inl f \<Longrightarrow> plain_failure f"
  by (auto simp: group_reservation_def Let_def unaccountable_def and_then_Inl_iff throwing_plain
      split: option.splits)

lemma occupiedCapacity_plain: "occupiedCapacity db g = Inl f \<Longrightarrow> plain_failure f"
  using traverse_plain [of "\<lambda>g. group_reservation db (snd g)"] group_reservation_plain
  by (auto simp: occupiedCapacity_def and_then_Inl_iff)

definition total_available :: "cap_db \<Rightarrow> capacity_demand" where
  "total_available db =
     CapacityDemand (sum_list (map lr_availableCpuNano (cb_locations db)))
                    (sum_list (map lr_availableMemoryBytes (cb_locations db)))"

definition schedulable_ids :: "cap_db \<Rightarrow> string list" where
  "schedulable_ids db = sort (map lr_swarmNodeId (filter schedulable (cb_locations db)))"

definition platform_ready :: "cap_db \<Rightarrow> bool" where
  "platform_ready db \<longleftrightarrow>
     (\<exists>health. (SWARM_CLUSTER_SINGLETON_ID, health) \<in> set (cb_clusters db) \<and> health \<notin> {''Unknown'', ''Unhealthy''}) \<and>
     schedulable_ids db \<noteq> []"

lemma availablePlatformSupply_Inr:
  "availablePlatformSupply db = Inr (supply, ids) \<Longrightarrow>
     supply = total_available db \<and> ids = schedulable_ids db \<and> platform_ready db"
  by (auto simp: availablePlatformSupply_def platformCapacity_def total_available_def schedulable_ids_def
      platform_ready_def split: option.splits if_splits dest!: head_opt_SomeD)

lemma availablePlatformSupply_plain: "availablePlatformSupply db = Inl a \<Longrightarrow> plain_failure (Refusal a)"
  by (auto simp: availablePlatformSupply_def split: option.splits if_splits)

lemma validateStorageBackends_plain: "validateStorageBackends db s = Some a \<Longrightarrow> plain_failure (Refusal a)"
  by (auto simp: validateStorageBackends_def Let_def split: if_splits)

lemma preconditions_Inr:
  "preconditions db s g = Inr (supply, ids, occupied) \<Longrightarrow>
     supply = total_available db \<and> ids = schedulable_ids db \<and> platform_ready db \<and>
     validateStorageBackends db s = None \<and> occupiedCapacity db g = Inr occupied"
  by (auto simp: preconditions_def and_then_Inr_iff dest!: availablePlatformSupply_Inr split: option.splits)

lemma preconditions_plain: "preconditions db s g = Inl f \<Longrightarrow> plain_failure f"
  by (auto simp: preconditions_def and_then_Inl_iff refusing_def availablePlatformSupply_plain
      validateStorageBackends_plain occupiedCapacity_plain split: option.splits sum.splits)

section \<open>Admissions\<close>

definition hybrid_allows :: "cap_db \<Rightarrow> millis \<Rightarrow> deployment_snapshot \<Rightarrow> preflight \<Rightarrow> bool" where
  "hybrid_allows db now s pf \<longleftrightarrow>
     (\<exists>policies pol d ps rq reason. pf_telemetry pf = Some policies \<and> current policies = Inr pol \<and>
        pol_mode pol = ''Hybrid'' \<and> hd_allowed d \<and>
        snd (evaluateAdmission (pf_parse_date pf) (cb_telemetry db) now
          \<lparr>ad_snapshot = s, ad_runningApps = currentRunningApps db,
           ad_inFlightSnapshots = inFlightSnapshots db (sn_appGroupId s),
           ad_schedulableNodeIds = schedulable_ids db\<rparr> policies) = Inr (Usable d ps rq reason))"

lemma declared_fit_Admitted:
  "declared_fit supply occupied demand = Admitted d oc sp \<longleftrightarrow>
     d = demand \<and> oc = occupied \<and> sp = supply \<and> occupied + demand \<le> supply"
  by (auto simp: declared_fit_def fits_iff [symmetric] strictCapacityFailure_def Let_def split: capacity_fit.splits)

lemma not_cpu_refused:
  "projectedCapacityFits supply occupied demand \<noteq> DoesNotFit Cpu \<longleftrightarrow>
     cpuNano occupied + cpuNano demand \<le> cpuNano supply"
  by (auto simp: projectedCapacityFits_def)

lemma fitAdmission_Admitted:
  assumes "fitAdmission db now s supply occupied demand (schedulable_ids db) pf = (pf', r)"
    and "settle r = Inr (Admitted d oc sp)"
  shows "d = demand \<and> oc = occupied \<and> sp = supply \<and> cpuNano occupied + cpuNano demand \<le> cpuNano supply \<and>
    (memoryBytes occupied + memoryBytes demand \<le> memoryBytes supply \<or> hybrid_allows db now s pf)"
proof (cases "projectedCapacityFits supply occupied demand = DoesNotFit Cpu")
  case True
  then show ?thesis using assms by (auto simp: fitAdmission_def settle_def strictCapacityFailure_def Let_def)
next
  case False
  then have cpu: "cpuNano occupied + cpuNano demand \<le> cpuNano supply" by (simp add: not_cpu_refused)
  show ?thesis
  proof (cases "r = Inr (declared_fit supply occupied demand)")
    case True
    then show ?thesis using assms(2) cpu by (auto simp: settle_def declared_fit_Admitted demand_le_iff)
  next
    case F: False
    then obtain policies pol where p: "pf_telemetry pf = Some policies" "current policies = Inr pol" "pol_mode pol = ''Hybrid''"
      using assms False by (auto simp: fitAdmission_def settle_def split: option.splits sum.splits if_splits)
    then show ?thesis
      using assms False F cpu
      by (auto simp: fitAdmission_def settle_def hybrid_refusal_def hybrid_allows_def
          split: prod.splits sum.splits hybrid_evaluation.splits if_splits)
  qed
qed

lemma admission_fits:
  assumes "admitDeployment db now s pf = (pf', Inr (Admitted demand occupied supply))"
  shows "snapshot_demand s = Inr demand \<and> occupiedCapacity db (sn_appGroupId s) = Inr occupied \<and>
    supply = total_available db \<and> platform_ready db \<and> validateStorageBackends db s = None \<and>
    cpuNano occupied + cpuNano demand \<le> cpuNano supply \<and>
    (memoryBytes occupied + memoryBytes demand \<le> memoryBytes supply \<or> hybrid_allows db now s pf)"
proof (cases "preconditions db s (sn_appGroupId s)")
  case (Inl f)
  then show ?thesis using assms settle_plain [OF preconditions_plain [OF Inl]] by (simp add: admitDeployment_def)
next
  case (Inr x)
  obtain sup ids oc where x: "x = (sup, ids, oc)" by (cases x)
  note pre = preconditions_Inr [OF Inr [unfolded x]]
  obtain dem where dem: "snapshot_demand s = Inr dem"
    using assms Inr x by (cases "snapshot_demand s") (auto simp: admitDeployment_def)
  obtain pf'' r where f: "fitAdmission db now s sup oc dem (schedulable_ids db) pf = (pf'', r)"
    by (cases "fitAdmission db now s sup oc dem (schedulable_ids db) pf")
  then have "settle r = Inr (Admitted demand occupied supply)"
    using assms Inr x dem pre by (simp add: admitDeployment_def)
  from fitAdmission_Admitted [OF f this] show ?thesis using pre dem by simp
qed

lemma admitted_demand: "admitDeployment db now s pf = (pf', Inr (Admitted demand oc sp)) \<Longrightarrow> snapshot_demand s = Inr demand"
  by (blast dest: admission_fits)

lemma admitted_occupied:
  "admitDeployment db now s pf = (pf', Inr (Admitted demand oc sp)) \<Longrightarrow>
     occupiedCapacity db (sn_appGroupId s) = Inr oc \<and> cpuNano oc + cpuNano demand \<le> cpuNano sp"
  by (blast dest: admission_fits)

text \<open>
  C2. No deployment is admitted beyond the platform's capacity. An admitted deployment's demand is that
  of its snapshot, the cluster is healthy with a schedulable node, its storage backends are usable,
  and beside the capacity all other app groups occupy its CPU always fits the supply; its memory
  fits too unless the Hybrid evaluation allowed it.
\<close>

theorem admitted_deployment_fits:
  assumes "admitDeployment db now s pf = (pf', Inr (Admitted demand occupied supply))"
  shows "snapshot_demand s = Inr demand \<and> occupiedCapacity db (sn_appGroupId s) = Inr occupied \<and>
    supply = total_available db \<and> platform_ready db \<and> validateStorageBackends db s = None \<and>
    cpuNano occupied + cpuNano demand \<le> cpuNano supply \<and>
    (memoryBytes occupied + memoryBytes demand \<le> memoryBytes supply \<or> hybrid_allows db now s pf)"
  using assms by (rule admission_fits)

text \<open>
  The capacity other app groups occupy is charged per group, each group with a successful or
  running deployment exactly once, at the high-water mark of its rollout: at least the demand of
  its newest admitted deployment and at least that of what its newest successful deployment still
  runs.
\<close>

lemma occupied_is_high_water_mark:
  assumes "occupiedCapacity db excluded = Inr occupied"
  shows "\<exists>rs. distinct (map fst rs) \<and> fst ` set rs = {g. g \<noteq> excluded \<and> reserves db g} \<and>
    occupied = sum_list (map snd rs) \<and>
    (\<forall>gr \<in> set rs. covers_group db (group_rows db (fst gr)) (snd gr) \<and> 0 \<le> cpuNano (snd gr))"
  using assms by (rule occupied_reservations)

lemma admitAndAdvance_Admitted:
  assumes "admitAndAdvance d s m now pf db = (db', pf', Inr (Admitted demand oc sp))"
  shows "admitDeployment db now s pf = (pf', Inr (Admitted demand oc sp)) \<and>
    cb_deployments db' = map (\<lambda>r. if dp_id r = dp_id d then advance_row d now r else r) (cb_deployments db)"
  using assms by (auto simp: admitAndAdvance_def update_where_def split: prod.splits sum.splits admission.splits if_splits)

lemma newest_unique:
  assumes "d \<in> set ds" and "\<forall>e \<in> set ds. e \<noteq> d \<longrightarrow> dp_version e < dp_version d"
  shows "newest ds = Some d"
proof -
  have "newest ds \<noteq> None" using assms(1) by (auto simp: newest_def)
  then obtain e where e: "newest ds = Some e" by blast
  then have "e \<in> set ds" "\<forall>x \<in> set ds. dp_version x \<le> dp_version e"
    using head_sort_desc_greatest [of dp_version ds e] by (auto simp: newest_def)
  then have "e = d" using assms by force
  then show ?thesis using e by simp
qed

lemma advanced_is_newest:
  assumes db': "cb_deployments db' = map (\<lambda>r. if dp_id r = dp_id d then advance_row d now r else r) (cb_deployments db)"
    and "distinct (map dp_id (cb_deployments db))" and "d \<in> set (cb_deployments db)" and "dp_appGroupId d = g"
    and "\<forall>e \<in> set (group_rows db g). is_active e \<and> e \<noteq> d \<longrightarrow> dp_version e < dp_version d"
  shows "newest (filter is_active (group_rows db' g)) = Some (advance_row d now d)"
proof (rule newest_unique)
  have "advance_row d now d \<in> set (cb_deployments db')" using assms(3) by (force simp: db')
  then show "advance_row d now d \<in> set (filter is_active (group_rows db' g))"
    using assms(4) by (simp add: group_rows_def is_active_def ADMITTED_PHASES_def advance_row_def)
  show "\<forall>e \<in> set (filter is_active (group_rows db' g)). e \<noteq> advance_row d now d \<longrightarrow> dp_version e < dp_version (advance_row d now d)"
  proof (intro ballI impI)
    fix e assume e: "e \<in> set (filter is_active (group_rows db' g))" "e \<noteq> advance_row d now d"
    then obtain r where r: "r \<in> set (cb_deployments db)" "e = (if dp_id r = dp_id d then advance_row d now r else r)"
      by (auto simp: group_rows_def db')
    have "dp_id r \<noteq> dp_id d" using r e(2) distinct_key_eq [OF assms(2) r(1) assms(3)] by auto
    then have "e = r" "r \<noteq> d" using r by auto
    then show "dp_version e < dp_version (advance_row d now d)"
      using assms(5) r e(1) by (simp add: group_rows_def advance_row_def)
  qed
qed

text \<open>
  Admissions do not overcommit: once a deployment (the newest of its group) is admitted and advanced,
  every later admission of another group finds its whole demand reserved, so that the CPU of both
  fits the supply together.
\<close>

lemma successive_admissions_share_supply:
  assumes "distinct (map dp_id (cb_deployments db))" and "d \<in> set (cb_deployments db)"
    and "parseSnapshot (dp_stackConfig d) = Some s" and "dp_appGroupId d = sn_appGroupId s"
    and "\<forall>e \<in> set (group_rows db (sn_appGroupId s)). is_active e \<and> e \<noteq> d \<longrightarrow> dp_version e < dp_version d"
    and "admitAndAdvance d s m now pf db = (db', pf', Inr (Admitted demand oc sp))"
    and "admitDeployment db' now2 s2 pf2 = (pf2', Inr (Admitted demand2 oc2 sp2))"
    and "sn_appGroupId s2 \<noteq> sn_appGroupId s"
  shows "cpuNano demand \<le> cpuNano oc2 \<and> cpuNano demand + cpuNano demand2 \<le> cpuNano sp2"
proof -
  let ?g = "sn_appGroupId s"
  note adv = admitAndAdvance_Admitted [OF assms(6)]
  have demand: "snapshot_demand s = Inr demand" using admitted_demand adv by blast
  note second = admitted_occupied [OF assms(7)]
  have new: "newest (filter is_active (group_rows db' ?g)) = Some (advance_row d now d)"
    using advanced_is_newest [OF _ assms(1,2,4,5)] adv by blast
  then have "advance_row d now d \<in> set (group_rows db' ?g)" using newest_in by fastforce
  then have res: "reserves db' ?g" by (force simp: reserves_def advance_row_def)
  obtain rs where rs: "fst ` set rs = {g. g \<noteq> sn_appGroupId s2 \<and> reserves db' g}" "oc2 = sum_list (map snd rs)"
    "\<forall>gr \<in> set rs. covers_group db' (group_rows db' (fst gr)) (snd gr) \<and> 0 \<le> cpuNano (snd gr)"
    using occupied_reservations second by blast
  have "?g \<in> fst ` set rs" using rs(1) res assms(8) by auto
  then obtain r where r: "(?g, r) \<in> set rs" by auto
  have "covers_group db' (group_rows db' ?g) r" using rs(3) r by force
  then have "demand \<le> r" using new assms(3) demand by (auto simp: covers_group_def advance_row_def)
  moreover have "cpuNano r \<le> cpuNano oc2"
    unfolding rs(2) using rs(3) r by (intro sum_list_cpu_member) force+
  ultimately show ?thesis using second by (auto simp: demand_le_iff)
qed

section \<open>A concrete platform\<close>

definition sample_config :: "uuid \<Rightarrow> raw_snapshot" where
  "sample_config g = \<lparr>rs_appGroup = Some \<lparr>rg_id = Some g, rg_tenantId = ''t'', rg_runtimeState = Some ''Running''\<rparr>,
     rs_singleApps = Some [sample_app]\<rparr>"

definition sample_deployment :: "uuid \<Rightarrow> deployment_row" where
  "sample_deployment g = \<lparr>dp_id = ''d'' @ g, dp_appGroupId = g, dp_version = 1, dp_status = Deploying, dp_phase = Validating,
     dp_stackConfig = ParsedConfig (sample_config g), dp_leaseOwner = None, dp_leaseExpiresAt = None, dp_heartbeatAt = None\<rparr>"

definition sample_db :: cap_db where
  "sample_db = \<lparr>cb_clusters = [(SWARM_CLUSTER_SINGLETON_ID, ''Healthy'')],
     cb_locations = [\<lparr>lr_swarmNodeId = ''n1'', lr_status = ''Ready'', lr_availability = ''Active'', lr_maintenance = False,
       lr_health = ''Healthy'', lr_availableCpuNano = 4000000000, lr_availableMemoryBytes = 10000\<rparr>],
     cb_appGroups = [], cb_singleApps = [], cb_deployments = [sample_deployment ''1'', sample_deployment ''2''],
     cb_volumes = [], cb_events = [], cb_telemetry = \<lparr>td_storedPolicy = None, td_telemetry = None\<rparr>\<rparr>"

definition sample_snapshot :: "uuid \<Rightarrow> deployment_snapshot" where
  "sample_snapshot g = \<lparr>sn_appGroupId = g, sn_tenantId = ''t'', sn_runtimeState = ''Running'', sn_singleApps = [sample_app]\<rparr>"

definition strict_preflight :: preflight where
  "strict_preflight = \<lparr>pf_telemetry = None, pf_parse_date = (\<lambda>_. None)\<rparr>"

lemma sample_parse_snapshot: "parseSnapshot (ParsedConfig (sample_config g)) = Some (sample_snapshot g)"
  by (simp add: parseSnapshot_def sample_config_def sample_snapshot_def)

lemma sample_demand: "snapshot_demand (sample_snapshot g) = Inr (CapacityDemand 1000000000 2048)"
  by (simp add: snapshot_demand_def sample_snapshot_def snapshotDemand_def plus_capacity_demand_def)

lemma sample_supply: "availablePlatformSupply sample_db = Inr (CapacityDemand 4000000000 10000, [''n1''])"
  by (simp add: availablePlatformSupply_def platformCapacity_def sample_db_def schedulable_def)

lemma sample_storage: "validateStorageBackends db (sample_snapshot g) = None"
  by (simp add: validateStorageBackends_def sample_snapshot_def sample_app_def)

lemma sample_rows [simp]:
  "cb_deployments sample_db = [sample_deployment ''1'', sample_deployment ''2'']"
  "dp_appGroupId (sample_deployment g) = g" "dp_status (sample_deployment g) = Deploying"
  "dp_id (sample_deployment g) = ''d'' @ g" "dp_version (sample_deployment g) = 1"
  "dp_stackConfig (sample_deployment g) = ParsedConfig (sample_config g)"
  "\<not> is_active (sample_deployment g)" "is_active (advance_row d now r)" "dp_appGroupId (advance_row d now r) = dp_appGroupId r"
  "dp_status (advance_row d now r) = Deploying" "dp_stackConfig (advance_row d now r) = dp_stackConfig r"
  by (simp_all add: sample_db_def sample_deployment_def is_active_def ADMITTED_PHASES_def advance_row_def)

lemma sample_idle_reservation: "group_reservation db [sample_deployment h] = Inr 0"
  by (simp add: group_reservation_def Let_def)

lemma sample_occupied: "occupiedCapacity sample_db g = Inr 0"
  by (simp add: occupiedCapacity_def reserving_rows_def by_app_group_def sample_idle_reservation)

lemma sample_admit:
  "admitDeployment sample_db now (sample_snapshot g) strict_preflight =
     (strict_preflight, Inr (Admitted (CapacityDemand 1000000000 2048) 0 (CapacityDemand 4000000000 10000)))"
  by (simp add: admitDeployment_def preconditions_def refusing_def sample_supply sample_storage sample_occupied sample_demand
      fitAdmission_def strict_preflight_def projectedCapacityFits_def declared_fit_def settle_def)

theorem admitted_deployment_fits_witness:
  "platform_ready sample_db \<and> CapacityDemand 4000000000 10000 = total_available sample_db"
  using admitted_deployment_fits [OF sample_admit] by blast

lemma sample_advance:
  "\<exists>db'. admitAndAdvance (sample_deployment ''1'') (sample_snapshot ''1'') None 5 strict_preflight sample_db =
     (db', strict_preflight, Inr (Admitted (CapacityDemand 1000000000 2048) 0 (CapacityDemand 4000000000 10000))) \<and>
     cb_deployments db' = [advance_row (sample_deployment ''1'') 5 (sample_deployment ''1''), sample_deployment ''2''] \<and>
     cb_clusters db' = cb_clusters sample_db \<and> cb_locations db' = cb_locations sample_db"
  by (simp add: admitAndAdvance_def sample_admit find_row_def update_where_def)

lemma sample_advanced_occupied:
  assumes "cb_deployments db' = [advance_row (sample_deployment ''1'') 5 (sample_deployment ''1''), sample_deployment ''2'']"
  shows "occupiedCapacity db' ''2'' = Inr (CapacityDemand 1000000000 2048)"
proof -
  have "group_reservation db' [advance_row d 5 (sample_deployment ''1'')] = Inr (CapacityDemand 1000000000 2048)" for d :: deployment_row
    by (simp add: group_reservation_def Let_def newest_def sort_desc_def sample_parse_snapshot sample_demand)
  then show ?thesis
    by (simp add: occupiedCapacity_def reserving_rows_def by_app_group_def assms)
qed

lemma sample_second_admission:
  fixes db' :: cap_db
  assumes "cb_deployments db' = [advance_row (sample_deployment ''1'') 5 (sample_deployment ''1''), sample_deployment ''2'']"
    and "cb_clusters db' = cb_clusters sample_db" and "cb_locations db' = cb_locations sample_db"
  shows "admitDeployment db' now (sample_snapshot ''2'') strict_preflight = (strict_preflight,
    Inr (Admitted (CapacityDemand 1000000000 2048) (CapacityDemand 1000000000 2048) (CapacityDemand 4000000000 10000)))"
proof -
  have "availablePlatformSupply db' = availablePlatformSupply sample_db"
    unfolding availablePlatformSupply_def platformCapacity_def assms(2,3) by (rule refl)
  moreover have "sn_appGroupId (sample_snapshot ''2'') = ''2''" by (simp add: sample_snapshot_def)
  ultimately show ?thesis
    by (simp add: admitDeployment_def preconditions_def refusing_def sample_supply sample_storage
      sample_advanced_occupied [OF assms(1)] sample_demand fitAdmission_def projectedCapacityFits_def declared_fit_def settle_def)
      (simp add: strict_preflight_def declared_fit_def projectedCapacityFits_def settle_def)
qed

end
