(* ===== verification/NetworkAddressing.thy ===== *)
theory NetworkAddressing
  imports JsNumerals "HOL-Library.Word"
begin

unbundle bit_operations_syntax

text \<open>
  \<open>networking/network-addressing.ts\<close>: IPv4 addresses and CIDR blocks and the allocators that hand
  out free ones. JavaScript's \<open>>>> 0\<close> makes an unsigned 32-bit number, so an address is a \<open>32 word\<close>;
  where the code adds offsets to an address as an ordinary number, which does not wrap, the model
  uses \<open>uint\<close>. An allocator is a search for the first free candidate (\<open>search_from\<close>). A thrown
  error is the left summand.
\<close>

definition DEFAULT_NETWORK_POOL :: string where
  "DEFAULT_NETWORK_POOL = ''10.240.0.0/16''"

definition DEFAULT_OVERLAY_POOL :: string where
  "DEFAULT_OVERLAY_POOL = ''10.200.0.0/16''"

definition DEFAULT_GATE_TUNNEL_POOL :: string where
  "DEFAULT_GATE_TUNNEL_POOL = ''100.96.0.0/11''"

definition DEFAULT_DEVICE_VPN_POOL :: string where
  "DEFAULT_DEVICE_VPN_POOL = ''100.64.0.0/11''"

definition DEFAULT_NETWORK_PREFIX :: int where
  "DEFAULT_NETWORK_PREFIX = 24"

definition FIRST_APPLICATION_HOST_OFFSET :: int where
  "FIRST_APPLICATION_HOST_OFFSET = 10"

record ipv4_cidr =
  nc_normalized :: string
  nc_network :: "32 word"
  nc_broadcast :: "32 word"
  nc_prefix :: nat
  nc_mask :: "32 word"

subsection \<open>Parsing and printing\<close>

fun octets :: "32 word \<Rightarrow> string list \<Rightarrow> 32 word option" where
  "octets result [] = Some result"
| "octets result (part # parts) =
     (if \<not> (all_digits part \<and> length part \<le> 3) then None
      else if 255 < parse_dec 0 part then None
      else octets (push_bit 8 result OR of_nat (parse_dec 0 part)) parts)"

definition ipv4ToInt :: "string \<Rightarrow> 32 word option" where
  "ipv4ToInt value =
     (let parts = split_on CHR ''.'' (js_trim value)
      in if length parts \<noteq> 4 then None else octets 0 parts)"

definition intToIpv4 :: "32 word \<Rightarrow> string" where
  "intToIpv4 n =
     join_with ''.''
       (map (\<lambda>o1. show_nat (unat o1)) [drop_bit 24 n AND 255, drop_bit 16 n AND 255, drop_bit 8 n AND 255, n AND 255])"

definition make_cidr :: "32 word \<Rightarrow> nat \<Rightarrow> ipv4_cidr" where
  "make_cidr address prefix =
     (let mask1 = (if prefix = 0 then 0 else push_bit (32 - prefix) (- 1));
          network = address AND mask1;
          hostMask = NOT mask1;
          broadcast = network OR hostMask
      in \<lparr>nc_normalized = intToIpv4 network @ ''/'' @ show_nat prefix, nc_network = network,
          nc_broadcast = broadcast, nc_prefix = prefix, nc_mask = mask1\<rparr>)"

definition prefix_of :: "string list \<Rightarrow> rat option" where
  "prefix_of parts =
     (case parts of
        _ # p # _ \<Rightarrow> (if p = '''' then Some 32 else js_number p)
      | _ \<Rightarrow> Some 32)"

definition parseIpv4Cidr :: "string \<Rightarrow> ipv4_cidr option" where
  "parseIpv4Cidr input =
     (let parts = split_on CHR ''/'' (js_trim input) in
      case ipv4ToInt (hd parts) of
        None \<Rightarrow> None
      | Some address \<Rightarrow>
          (case prefix_of parts of
             None \<Rightarrow> None
           | Some prefix \<Rightarrow>
               (if \<not> is_integer prefix \<or> prefix < 0 \<or> 32 < prefix then None
                else Some (make_cidr address (nat \<lfloor>prefix\<rfloor>)))))"

definition private_ranges :: "ipv4_cidr list" where
  "private_ranges = List.map_filter parseIpv4Cidr [''10.0.0.0/8'', ''172.16.0.0/12'', ''192.168.0.0/16'']"

definition isPrivateIpv4Cidr :: "ipv4_cidr \<Rightarrow> bool" where
  "isPrivateIpv4Cidr cidr \<longleftrightarrow>
     list_ex (\<lambda>range. nc_network range \<le> nc_network cidr \<and> nc_broadcast cidr \<le> nc_broadcast range) private_ranges"

definition cidrsOverlap :: "ipv4_cidr \<Rightarrow> ipv4_cidr \<Rightarrow> bool" where
  "cidrsOverlap a b \<longleftrightarrow> nc_network a \<le> nc_broadcast b \<and> nc_network b \<le> nc_broadcast a"

definition containsIpv4 :: "ipv4_cidr \<Rightarrow> string \<Rightarrow> bool" where
  "containsIpv4 cidr address \<longleftrightarrow>
     (case ipv4ToInt address of
        None \<Rightarrow> False
      | Some value \<Rightarrow> nc_network cidr \<le> value \<and> value \<le> nc_broadcast cidr)"

subsection \<open>Allocators\<close>

text \<open>The loop \<open>for (v = first; v + width <= last; v += step)\<close> that returns at the first \<open>v\<close> for which
  \<open>free v\<close> holds.\<close>

function search_from :: "int \<Rightarrow> int \<Rightarrow> int \<Rightarrow> (int \<Rightarrow> bool) \<Rightarrow> int \<Rightarrow> int option" where
  "search_from step width final free v =
     (if step \<le> 0 \<or> final < v + width then None
      else if free v then Some v
      else search_from step width final free (v + step))"
  by pat_completeness auto
termination by (relation "measure (\<lambda>(step, width, final, free, v). nat (final - v - width + 1))") auto

declare search_from.simps [simp del]

definition address_text :: "int \<Rightarrow> string" where
  "address_text v = intToIpv4 (word_of_int v)"

definition nextAvailableApplicationAddress :: "ipv4_cidr \<Rightarrow> string list \<Rightarrow> string option" where
  "nextAvailableApplicationAddress cidr used =
     (let first = uint (nc_network cidr) + FIRST_APPLICATION_HOST_OFFSET;
          last1 = uint (nc_broadcast cidr) - 1
      in map_option address_text (search_from 1 0 last1 (\<lambda>v. address_text v \<notin> set used) first))"

text \<open>\<open>value.split("/")[0]?.trim()\<close>, empty results dropped.\<close>

definition host_parts :: "string list \<Rightarrow> string list" where
  "host_parts used = filter (\<lambda>s. s \<noteq> '''') (map (\<lambda>s. js_trim (hd (split_on CHR ''/'' s))) used)"

record gate_tunnel =
  gt_cidr :: string
  gt_server :: string
  gt_client :: string

definition nextAvailableGateTunnel :: "string list \<Rightarrow> string \<Rightarrow> string + gate_tunnel option" where
  "nextAvailableGateTunnel usedAddresses poolInput =
     (case parseIpv4Cidr poolInput of
        None \<Rightarrow> Inl ''Invalid Gate tunnel pool''
      | Some pool \<Rightarrow>
          (if 30 < nc_prefix pool then Inl ''Invalid Gate tunnel pool''
           else
             (let used = host_parts usedAddresses in
              Inr (map_option
                (\<lambda>network. \<lparr>gt_cidr = address_text network @ ''/30'', gt_server = address_text (network + 1) @ ''/30'',
                             gt_client = address_text (network + 2) @ ''/30''\<rparr>)
                (search_from 4 3 (uint (nc_broadcast pool))
                  (\<lambda>network. address_text (network + 1) \<notin> set used \<and> address_text (network + 2) \<notin> set used)
                  (uint (nc_network pool)))))))"

definition nextAvailableDeviceVpnAddress :: "string list \<Rightarrow> string \<Rightarrow> string + string option" where
  "nextAvailableDeviceVpnAddress usedAddresses poolInput =
     (case parseIpv4Cidr poolInput of
        None \<Rightarrow> Inl ''Invalid Device VPN address pool''
      | Some pool \<Rightarrow>
          (if 30 < nc_prefix pool then Inl ''Invalid Device VPN address pool''
           else
             (let used = host_parts usedAddresses in
              Inr (map_option address_text
                (search_from 1 0 (uint (nc_broadcast pool) - 1) (\<lambda>v. address_text v \<notin> set used)
                  (uint (nc_network pool) + 2))))))"

text \<open>The values the loop \<open>for (v = first; v + width <= last; v += step)\<close> visits.\<close>

function loop_values :: "int \<Rightarrow> int \<Rightarrow> int \<Rightarrow> int \<Rightarrow> int list" where
  "loop_values step width final v =
     (if step \<le> 0 \<or> final < v + width then [] else v # loop_values step width final (v + step))"
  by pat_completeness auto
termination by (relation "measure (\<lambda>(step, width, final, v). nat (final - v - width + 1))") auto

declare loop_values.simps [simp del]

definition subnet_at :: "int \<Rightarrow> int \<Rightarrow> ipv4_cidr option" where
  "subnet_at prefix network = parseIpv4Cidr (address_text network @ ''/'' @ show_int prefix)"

definition candidateSubnets :: "string \<Rightarrow> int \<Rightarrow> string + ipv4_cidr list" where
  "candidateSubnets poolInput prefix =
     (case parseIpv4Cidr poolInput of
        None \<Rightarrow> Inl ''Invalid network pool''
      | Some pool \<Rightarrow>
          (if prefix < int (nc_prefix pool) \<or> 30 < prefix then Inl ''Invalid child network prefix''
           else Inr (List.map_filter (subnet_at prefix)
                  (let blockSize = 2 ^ nat (32 - prefix)
                   in loop_values blockSize (blockSize - 1) (uint (nc_broadcast pool)) (uint (nc_network pool))))))"

definition nextAvailableNetworkCidr :: "string list \<Rightarrow> string \<Rightarrow> int \<Rightarrow> string + string option" where
  "nextAvailableNetworkCidr existingCidrs poolInput prefix =
     (let existing = List.map_filter parseIpv4Cidr existingCidrs in
      case candidateSubnets poolInput prefix of
        Inl e \<Rightarrow> Inl e
      | Inr candidates \<Rightarrow>
          Inr (map_option nc_normalized
            (head_opt (filter (\<lambda>candidate. \<not> list_ex (\<lambda>item. cidrsOverlap item candidate) existing) candidates))))"

end
