(* ===== verification/AddressAllocation.thy ===== *)
theory AddressAllocation
  imports NetworkAddressing
begin

unbundle bit_operations_syntax

text \<open>
  Properties of \<open>network-addressing.ts\<close>: printing and parsing addresses are inverse, a parsed block is
  the aligned range of its prefix, overlap means a common address, and the allocators (instances of
  one \<open>allocator\<close> contract) return the first free candidate, so that repeated allocation never
  hands out the same one twice.
\<close>

section \<open>Printing and parsing\<close>

lemma and_255: "w AND (255 :: 32 word) = take_bit 8 w"
  by (simp add: take_bit_eq_mask mask_eq_exp_minus_1)

lemma octet_bound: "unat (w AND (255 :: 32 word)) < 256"
proof -
  have "uint (take_bit 8 w) = take_bit 8 (uint w)" by (rule unsigned_take_bit_eq)
  also have "\<dots> = uint w mod 256" by (simp add: take_bit_eq_mod)
  finally have "uint (take_bit 8 w) < 256" using pos_mod_bound [of 256 "uint w"] by linarith
  then have "nat (uint (take_bit 8 w)) < 256" by linarith
  then show ?thesis by (simp only: and_255 unat_eq_nat_uint)
qed

lemma show_nat_no: "\<not> is_digit d \<Longrightarrow> d \<notin> set (show_nat n)"
  using show_nat_digits [of n] by (auto simp: list_all_iff)

lemma octets_show:
  assumes "n < 256"
  shows "octets acc (show_nat n # parts) = octets (push_bit 8 acc OR of_nat n) parts"
proof -
  have "length (show_nat n) \<le> Suc 2" using assms by (intro show_nat_length) simp
  then show ?thesis using assms by simp
qed

lemma octets_join:
  "push_bit 8 (push_bit 8 (push_bit 8 (push_bit 8 0 OR (drop_bit 24 w AND 255)) OR (drop_bit 16 w AND 255))
     OR (drop_bit 8 w AND 255)) OR (w AND 255) = (w :: 32 word)"
proof (rule bit_word_eqI)
  fix n assume n: "n < LENGTH(32)"
  then consider "n < 8" | "8 \<le> n" "n < 16" | "16 \<le> n" "n < 24" | "24 \<le> n" "n < 32" by force
  then show "bit (push_bit 8 (push_bit 8 (push_bit 8 (push_bit 8 0 OR (drop_bit 24 w AND 255)) OR (drop_bit 16 w AND 255))
       OR (drop_bit 8 w AND 255)) OR (w AND 255)) n = bit w n"
    unfolding and_255 by cases (auto simp: bit_simps)
qed

lemma js_trim_no_space: "\<forall>c \<in> set s. \<not> js_space c \<Longrightarrow> js_trim s = s"
  by (rule js_trim_id) (cases "s = []", auto)

lemma dot_no_space [simp]: "\<not> js_space CHR ''.''" "\<not> js_space CHR ''/''"
  by (simp_all add: js_space_def)

lemma intToIpv4_parts:
  "split_on CHR ''.'' (intToIpv4 w) =
     map (\<lambda>o1. show_nat (unat o1)) [drop_bit 24 w AND 255, drop_bit 16 w AND 255, drop_bit 8 w AND 255, w AND 255]"
  unfolding intToIpv4_def
  by (rule split_on_join_with) (simp_all add: show_nat_no)

lemma intToIpv4_chars: "\<forall>c \<in> set (intToIpv4 w). is_digit c \<or> c = CHR ''.''"
  using show_nat_digits by (auto simp: intToIpv4_def list_all_iff)

lemma intToIpv4_trim [simp]: "js_trim (intToIpv4 w) = intToIpv4 w"
  using intToIpv4_chars [of w] by (intro js_trim_no_space) (auto simp: is_digit_not_space dot_no_space)

lemma ipv4_roundtrip: "ipv4ToInt (intToIpv4 w) = Some w"
proof -
  have u: "(of_nat (unat v) :: 32 word) = v" for v by simp
  have "octets 0 (split_on CHR ''.'' (intToIpv4 w)) = Some w"
    unfolding intToIpv4_parts list.map octets_show [OF octet_bound] u octets.simps(1) octets_join by (rule refl)
  moreover have "length (split_on CHR ''.'' (intToIpv4 w)) = 4"
    unfolding intToIpv4_parts by simp
  ultimately show ?thesis by (simp add: ipv4ToInt_def Let_def)
qed

lemma intToIpv4_inject: "intToIpv4 v = intToIpv4 w \<longleftrightarrow> v = w"
  by (metis ipv4_roundtrip option.inject)

lemma intToIpv4_no_slash: "CHR ''/'' \<notin> set (intToIpv4 w)"
  using intToIpv4_chars [of w] by auto

lemma intToIpv4_not_Nil [simp]: "intToIpv4 w \<noteq> []"
proof
  assume "intToIpv4 w = []"
  then have "length (split_on CHR ''.'' (intToIpv4 w)) = 1" by simp
  then show False unfolding intToIpv4_parts by simp
qed

lemma cidr_text_trim: "js_trim (intToIpv4 w @ CHR ''/'' # show_nat p) = intToIpv4 w @ CHR ''/'' # show_nat p"
proof (rule js_trim_no_space)
  show "\<forall>c \<in> set (intToIpv4 w @ CHR ''/'' # show_nat p). \<not> js_space c"
    using intToIpv4_chars [of w] show_nat_digits [of p] by (auto simp: list_all_iff is_digit_not_space)
qed

lemma parse_cidr_text:
  assumes "p \<le> 32"
  shows "parseIpv4Cidr (intToIpv4 w @ ''/'' @ show_nat p) = Some (make_cidr w p)"
proof -
  have "CHR ''/'' \<notin> set (show_nat p)"
    using show_nat_digits [of p] by (auto simp: list_all_iff)
  then have s: "split_on CHR ''/'' (intToIpv4 w @ CHR ''/'' # show_nat p) = [intToIpv4 w, show_nat p]"
    using split_on_append [OF intToIpv4_no_slash, of w "show_nat p"] split_on_no_sep by simp
  have n: "js_number (show_nat p) = Some (of_nat p)" using js_number_digits [of "show_nat p"] by simp
  have i: "is_integer (of_nat p)" "\<lfloor>(of_nat p :: rat)\<rfloor> = int p" by (simp_all add: is_integer_def)
  show ?thesis
    using assms by (simp add: parseIpv4Cidr_def Let_def cidr_text_trim s ipv4_roundtrip prefix_of_def n i)
qed

section \<open>Blocks\<close>

lemma mask_push: "p \<le> 32 \<Longrightarrow> (if p = 0 then 0 else push_bit (32 - p) (- 1)) = NOT (mask (32 - p) :: 32 word)"
proof (cases "p = 0")
  case True
  then show ?thesis by (simp add: mask_eq_exp_minus_1)
next
  case False
  have "push_bit (32 - p) (- 1 :: 32 word) = - (2 ^ (32 - p))" by (simp add: push_bit_eq_mult)
  then show ?thesis using False by (simp only: minus_exp_eq_not_mask if_False)
qed

lemma and_not_mask_drop: "(a :: 32 word) AND NOT (mask n) = push_bit n (drop_bit n a)"
  by (rule bit_word_eqI) (auto simp: bit_simps)

lemma uint_align: "uint (push_bit n (drop_bit n (a :: 32 word))) = uint a div 2 ^ n * 2 ^ n"
proof -
  have l: "uint a < 2 ^ 32" "0 \<le> uint a" using uint_bounded [of a] by simp_all
  have "uint a div 2 ^ n * 2 ^ n \<le> uint a" by (simp add: minus_mod_eq_div_mult [symmetric])
  then have "uint a div 2 ^ n * 2 ^ n < 2 ^ 32" using l by linarith
  moreover have "take_bit 32 (uint a) = uint a" using l by (simp add: take_bit_int_eq_self)
  moreover from this have "uint (push_bit n (drop_bit n a)) = take_bit 32 (push_bit n (drop_bit n (uint a)))"
    by (simp add: unsigned_push_bit_eq unsigned_drop_bit_eq take_bit_push_bit)
  moreover have "0 \<le> uint a div 2 ^ n * 2 ^ n" using l(2) by (simp add: pos_imp_zdiv_nonneg_iff)
  ultimately show ?thesis
    using take_bit_int_eq_self [of "uint a div 2 ^ n * 2 ^ n" 32] by (simp only: push_bit_eq_mult drop_bit_eq_div)
qed


lemma uint_mask: "n \<le> 32 \<Longrightarrow> uint (mask n :: 32 word) = 2 ^ n - 1"
proof -
  assume n: "n \<le> 32"
  have "uint (take_bit n (- 1 :: 32 word)) = take_bit n (uint (- 1 :: 32 word))" by (rule unsigned_take_bit_eq)
  also have "uint (- 1 :: 32 word) = mask 32" by (simp add: unsigned_minus_1_eq_mask)
  also have "take_bit n (mask 32 :: int) = mask n" using n by (simp add: take_bit_of_mask min_def)
  finally show ?thesis by (simp only: take_bit_minus_one_eq_mask mask_eq_exp_minus_1)
qed

text \<open>What \<open>parseIpv4Cidr\<close> returns: the aligned block of \<open>2 ^ (32 - prefix)\<close> addresses.\<close>

definition cidr_ok :: "ipv4_cidr \<Rightarrow> bool" where
  "cidr_ok c \<longleftrightarrow> nc_prefix c \<le> 32 \<and> c = make_cidr (nc_network c) (nc_prefix c) \<and>
     uint (nc_network c) mod 2 ^ (32 - nc_prefix c) = 0 \<and>
     uint (nc_broadcast c) = uint (nc_network c) + 2 ^ (32 - nc_prefix c) - 1"

lemma make_cidr_network:
  assumes "p \<le> 32"
  shows "nc_network (make_cidr a p) = push_bit (32 - p) (drop_bit (32 - p) a)"
    "nc_broadcast (make_cidr a p) = push_bit (32 - p) (drop_bit (32 - p) a) OR mask (32 - p)"
    "nc_prefix (make_cidr a p) = p"
  using mask_push [OF assms] by (simp_all only: make_cidr_def Let_def and_not_mask_drop ipv4_cidr.simps bit.double_compl)

lemma make_cidr_range:
  assumes "p \<le> 32"
  shows "uint (nc_network (make_cidr a p)) = uint a div 2 ^ (32 - p) * 2 ^ (32 - p)"
    "uint (nc_broadcast (make_cidr a p)) = uint a div 2 ^ (32 - p) * 2 ^ (32 - p) + 2 ^ (32 - p) - 1"
proof -
  let ?n = "32 - p" and ?w = "push_bit (32 - p) (drop_bit (32 - p) a)"
  show net: "uint (nc_network (make_cidr a p)) = uint a div 2 ^ ?n * 2 ^ ?n"
    by (simp add: make_cidr_network [OF assms] uint_align)
  have "?w AND mask ?n = 0" by (rule bit_word_eqI) (auto simp: bit_simps)
  then have "?w OR mask ?n = ?w + mask ?n" by (simp add: disjunctive_add_eq_or)
  then have "uint (?w OR mask ?n) = (uint ?w + uint (mask ?n :: 32 word)) mod 2 ^ 32"
    by (simp add: uint_word_ariths)
  then have "uint (?w OR mask ?n) = (uint a div 2 ^ ?n * 2 ^ ?n + (2 ^ ?n - 1)) mod 2 ^ 32"
    by (simp only: uint_align uint_mask)
  moreover have "uint a div 2 ^ ?n * 2 ^ ?n + (2 ^ ?n - 1) < 2 ^ 32"
  proof -
    have "uint a < 2 ^ 32" using uint_bounded [of a] by simp
    also have "(2 :: int) ^ 32 = 2 ^ p * 2 ^ ?n" using assms by (simp flip: power_add)
    finally have lt: "uint a < 2 ^ p * 2 ^ ?n" .
    have "uint a div 2 ^ ?n < 2 ^ p"
    proof (rule ccontr)
      assume "\<not> uint a div 2 ^ ?n < 2 ^ p"
      then have "2 ^ p * 2 ^ ?n \<le> uint a div 2 ^ ?n * 2 ^ ?n" by (intro mult_right_mono) auto
      also have "\<dots> \<le> uint a" by (simp add: minus_mod_eq_div_mult [symmetric])
      finally show False using lt by simp
    qed
    then have "uint a div 2 ^ ?n + 1 \<le> 2 ^ p" by linarith
    then have "(uint a div 2 ^ ?n + 1) * 2 ^ ?n \<le> 2 ^ p * 2 ^ ?n" by (intro mult_right_mono) auto
    also have "(2 :: int) ^ p * 2 ^ ?n = 2 ^ 32" using assms by (simp flip: power_add)
    finally show ?thesis by (simp add: algebra_simps)
  qed
  moreover have "0 \<le> uint a div 2 ^ ?n * 2 ^ ?n + (2 ^ ?n - 1)"
    by (simp add: pos_imp_zdiv_nonneg_iff)
  ultimately have "uint (?w OR mask ?n) = uint a div 2 ^ ?n * 2 ^ ?n + (2 ^ ?n - 1)"
    by (simp only: mod_pos_pos_trivial)
  then show "uint (nc_broadcast (make_cidr a p)) = uint a div 2 ^ ?n * 2 ^ ?n + 2 ^ ?n - 1"
    by (simp add: make_cidr_network [OF assms])
qed

lemma make_cidr_ok: "p \<le> 32 \<Longrightarrow> cidr_ok (make_cidr a p)"
proof -
  assume p: "p \<le> 32"
  let ?c = "make_cidr a p" and ?n = "32 - p"
  have pre: "nc_prefix ?c = p" by (rule make_cidr_network(3) [OF p])
  have "push_bit ?n (drop_bit ?n (push_bit ?n (drop_bit ?n a))) = push_bit ?n (drop_bit ?n a)"
    by (rule bit_word_eqI) (auto simp: bit_simps)
  then have idem: "nc_network (make_cidr (nc_network ?c) p) = nc_network ?c"
    by (simp only: make_cidr_network(1) [OF p])
  have same: "make_cidr b p = \<lparr>nc_normalized = intToIpv4 (nc_network (make_cidr b p)) @ ''/'' @ show_nat p,
      nc_network = nc_network (make_cidr b p), nc_broadcast = nc_network (make_cidr b p) OR NOT (NOT (mask ?n)),
      nc_prefix = p, nc_mask = NOT (mask ?n)\<rparr>" for b
    unfolding make_cidr_def Let_def mask_push [OF p] by simp
  have "make_cidr (nc_network ?c) p = ?c"
    using same [of a] same [of "nc_network ?c"] idem by simp
  then show ?thesis
    using make_cidr_range [OF p, of a] p by (simp add: cidr_ok_def pre)
qed


lemma parse_make:
  assumes "parseIpv4Cidr s = Some c"
  obtains a p where "c = make_cidr a p" "p \<le> 32"
proof -
  obtain a x where c: "c = make_cidr a (nat \<lfloor>x\<rfloor>)" "0 \<le> x" "x \<le> (32 :: rat)"
    using assms by (auto simp: parseIpv4Cidr_def Let_def not_less split: option.splits if_splits)
  have "nat \<lfloor>x\<rfloor> \<le> 32" using c(3) by linarith
  with c(1) show thesis by (rule that)
qed

lemma parse_ok: "parseIpv4Cidr s = Some c \<Longrightarrow> cidr_ok c"
  by (metis parse_make make_cidr_ok)

lemma cidr_ok_normalized:
  assumes "cidr_ok c"
  shows "nc_normalized c = intToIpv4 (nc_network c) @ ''/'' @ show_nat (nc_prefix c)"
proof -
  have c: "c = make_cidr (nc_network c) (nc_prefix c)" using assms by (simp add: cidr_ok_def)
  have "nc_normalized (make_cidr a p) = intToIpv4 (nc_network (make_cidr a p)) @ ''/'' @ show_nat p" for a p
    by (simp add: make_cidr_def Let_def)
  then show ?thesis using c by metis
qed

lemma parse_normalized: "cidr_ok c \<Longrightarrow> parseIpv4Cidr (nc_normalized c) = Some c"
  using parse_cidr_text [of "nc_prefix c" "nc_network c"] by (simp add: cidr_ok_normalized) (simp add: cidr_ok_def)

lemma contains_address: "containsIpv4 c (intToIpv4 w) \<longleftrightarrow> nc_network c \<le> w \<and> w \<le> nc_broadcast c"
  by (simp add: containsIpv4_def ipv4_roundtrip)

definition block_size :: "ipv4_cidr \<Rightarrow> int" where
  "block_size c = 2 ^ (32 - nc_prefix c)"

lemma block_member:
  assumes "cidr_ok c"
  shows "nc_network c \<le> w \<and> w \<le> nc_broadcast c \<longleftrightarrow> uint w div block_size c = uint (nc_network c) div block_size c"
proof -
  let ?b = "block_size c" and ?n = "uint (nc_network c)"
  have b: "0 < ?b" by (simp add: block_size_def)
  have n: "?n = ?n div ?b * ?b" using assms div_mult_mod_eq [of ?n ?b] by (simp add: cidr_ok_def block_size_def)
  have "nc_network c \<le> w \<and> w \<le> nc_broadcast c \<longleftrightarrow> ?n \<le> uint w \<and> uint w \<le> ?n + ?b - 1"
    using assms by (simp add: word_le_def cidr_ok_def block_size_def)
  also have "\<dots> \<longleftrightarrow> uint w div ?b = ?n div ?b"
  proof
    assume h: "?n \<le> uint w \<and> uint w \<le> ?n + ?b - 1"
    have "uint w = ?n div ?b * ?b + (uint w - ?n)" using n by simp
    moreover have "0 \<le> uint w - ?n" "uint w - ?n < ?b" using h by auto
    ultimately show "uint w div ?b = ?n div ?b"
      by (metis div_pos_pos_trivial add_0 div_mult_self3 less_irrefl b add.commute)
  next
    assume h: "uint w div ?b = ?n div ?b"
    have "uint w = uint w div ?b * ?b + uint w mod ?b" by simp
    then have "uint w = ?n + uint w mod ?b" by (simp only: h n [symmetric])
    then show "?n \<le> uint w \<and> uint w \<le> ?n + ?b - 1"
      using pos_mod_bound [OF b, of "uint w"] pos_mod_sign [OF b, of "uint w"] by linarith
  qed
  finally show ?thesis .
qed

lemma block_nested:
  assumes "cidr_ok a" "cidr_ok b" "nc_prefix b \<le> nc_prefix a"
    and "nc_network a \<le> w \<and> w \<le> nc_broadcast a" "nc_network b \<le> w \<and> w \<le> nc_broadcast b"
    and "nc_network a \<le> v \<and> v \<le> nc_broadcast a"
  shows "nc_network b \<le> v \<and> v \<le> nc_broadcast b"
proof -
  let ?k = "2 ^ (nc_prefix a - nc_prefix b) :: int"
  have "32 - nc_prefix b = (32 - nc_prefix a) + (nc_prefix a - nc_prefix b)"
    using assms(1,3) by (simp add: cidr_ok_def)
  then have k: "block_size b = block_size a * ?k" by (simp add: block_size_def power_add)
  have "uint v div block_size a = uint w div block_size a"
    using assms(1,4,6) block_member by simp
  then have "uint v div block_size b = uint w div block_size b"
    unfolding k by (simp add: zdiv_zmult2_eq)
  then show ?thesis using block_member [OF assms(2)] assms(5) by simp
qed

lemma overlap_common:
  assumes "cidr_ok a" "cidr_ok b"
  shows "cidrsOverlap a b \<longleftrightarrow> (\<exists>w. (nc_network a \<le> w \<and> w \<le> nc_broadcast a) \<and> (nc_network b \<le> w \<and> w \<le> nc_broadcast b))"
proof
  assume o: "cidrsOverlap a b"
  have ne: "nc_network c \<le> nc_broadcast c" if "cidr_ok c" for c
    using that by (simp add: cidr_ok_def word_le_def)
  let ?w = "max (nc_network a) (nc_network b)"
  have "(nc_network a \<le> ?w \<and> ?w \<le> nc_broadcast a) \<and> (nc_network b \<le> ?w \<and> ?w \<le> nc_broadcast b)"
    using o ne [OF assms(1)] ne [OF assms(2)] by (auto simp: cidrsOverlap_def)
  then show "\<exists>w. (nc_network a \<le> w \<and> w \<le> nc_broadcast a) \<and> (nc_network b \<le> w \<and> w \<le> nc_broadcast b)" ..
qed (auto simp: cidrsOverlap_def intro: order_trans)


section \<open>The allocator contract\<close>

lemma search_from_values:
  "search_from step width final free v = head_opt (filter free (loop_values step width final v))"
proof (induction step width final free v rule: search_from.induct)
  case (1 step width final free v)
  then show ?case
    by (simp add: search_from.simps [of step width final free v] loop_values.simps [of step width final v])
qed

lemma loop_values_member:
  assumes "0 < step"
  shows "x \<in> set (loop_values step width final v) \<longleftrightarrow> (\<exists>k. x = v + int k * step) \<and> x + width \<le> final"
  using assms
proof (induction step width final v rule: loop_values.induct)
  case (1 step width final v)
  show ?case
  proof (cases "final < v + width")
    case True
    then show ?thesis using 1(2) by (auto simp: loop_values.simps [of step width final v])
      (metis add.assoc add.commute add_le_cancel_left le_less_trans less_le_not_le mult_nonneg_nonneg of_nat_0_le_iff
        order_less_imp_le add_increasing2)
  next
    case False
    have "(\<exists>k. x = v + int k * step) \<longleftrightarrow> x = v \<or> (\<exists>k. x = v + step + int k * step)"
    proof
      assume "\<exists>k. x = v + int k * step"
      then obtain k where k: "x = v + int k * step" ..
      show "x = v \<or> (\<exists>k. x = v + step + int k * step)"
        using k by (cases k) (auto simp: algebra_simps)
    next
      assume "x = v \<or> (\<exists>k. x = v + step + int k * step)"
      then show "\<exists>k. x = v + int k * step"
      proof
        assume "\<exists>k. x = v + step + int k * step"
        then obtain k where "x = v + step + int k * step" ..
        then show ?thesis by (intro exI [of _ "Suc k"]) (simp add: algebra_simps)
      qed (auto intro: exI [of _ 0])
    qed
    then show ?thesis using False 1 by (auto simp: loop_values.simps [of step width final v])
  qed
qed

text \<open>Allocating \<open>n\<close> times, recording every grant.\<close>

fun allocate_many :: "('u \<Rightarrow> 'c option) \<Rightarrow> ('u \<Rightarrow> 'c \<Rightarrow> 'u) \<Rightarrow> nat \<Rightarrow> 'u \<Rightarrow> 'c list" where
  "allocate_many allocate grant 0 used = []"
| "allocate_many allocate grant (Suc n) used =
     (case allocate used of
        None \<Rightarrow> []
      | Some c \<Rightarrow> c # allocate_many allocate grant n (grant used c))"

text \<open>
  The contract of an allocator: from a pool and the record of what is in use it returns the first
  candidate not taken, and recording a grant takes the granted candidate and frees none.
\<close>

locale allocator =
  fixes candidates :: "'p \<Rightarrow> 'c list"
    and taken :: "'u \<Rightarrow> 'c \<Rightarrow> bool"
    and grant :: "'u \<Rightarrow> 'c \<Rightarrow> 'u"
    and allocate :: "'p \<Rightarrow> 'u \<Rightarrow> 'c option"
  assumes first_free: "allocate p used = head_opt (filter (\<lambda>c. \<not> taken used c) (candidates p))"
    and grant_taken: "c \<in> set (candidates p) \<Longrightarrow> taken (grant used c) c"
    and grant_keeps: "c \<in> set (candidates p) \<Longrightarrow> taken used d \<Longrightarrow> taken (grant used c) d"
begin

lemma allocated: "allocate p used = Some c \<Longrightarrow> c \<in> set (candidates p) \<and> \<not> taken used c"
  by (auto simp: first_free dest: head_opt_SomeD)

lemma exhausted_iff: "allocate p used = None \<longleftrightarrow> (\<forall>c \<in> set (candidates p). taken used c)"
  by (auto simp: first_free filter_empty_conv)

lemma many_members:
  "c \<in> set (allocate_many (allocate p) grant n used) \<Longrightarrow> c \<in> set (candidates p) \<and> \<not> taken used c"
proof (induction n arbitrary: used)
  case (Suc n)
  then obtain d where d: "allocate p used = Some d"
    and c: "c = d \<or> c \<in> set (allocate_many (allocate p) grant n (grant used d))"
    using Suc.prems by (cases "allocate p used") auto
  from c show ?case
  proof
    assume "c \<in> set (allocate_many (allocate p) grant n (grant used d))"
    from Suc.IH [OF this] show ?thesis using grant_keeps allocated [OF d] by blast
  qed (use allocated [OF d] in blast)
qed simp

lemma many_distinct: "distinct (allocate_many (allocate p) grant n used)"
proof (induction n arbitrary: used)
  case (Suc n)
  show ?case
  proof (cases "allocate p used")
    case (Some c)
    have "c \<notin> set (allocate_many (allocate p) grant n (grant used c))"
      using many_members [of c p n "grant used c"] grant_taken [of c p used] allocated [OF Some] by blast
    then show ?thesis using Some Suc.IH [of "grant used c"] by simp
  qed simp
qed simp

end

section \<open>The allocators of the source\<close>

definition application_candidates :: "ipv4_cidr \<Rightarrow> string list" where
  "application_candidates cidr =
     map address_text (loop_values 1 0 (uint (nc_broadcast cidr) - 1) (uint (nc_network cidr) + FIRST_APPLICATION_HOST_OFFSET))"

lemma map_head_opt: "map_option f (head_opt xs) = head_opt (map f xs)"
  by (cases xs) auto

lemma filter_map_comp: "map f (filter (\<lambda>x. P (f x)) xs) = filter P (map f xs)"
  by (simp add: filter_map comp_def)

interpretation app: allocator application_candidates "\<lambda>used a. a \<in> set used" "\<lambda>used a. a # used"
  nextAvailableApplicationAddress
  by unfold_locales
    (simp_all add: nextAvailableApplicationAddress_def application_candidates_def Let_def search_from_values map_head_opt
      filter_map_comp [where P = "\<lambda>a. a \<notin> set _", symmetric])

definition usable_pool :: "string \<Rightarrow> ipv4_cidr option" where
  "usable_pool poolInput =
     (case parseIpv4Cidr poolInput of None \<Rightarrow> None | Some pool \<Rightarrow> if 30 < nc_prefix pool then None else Some pool)"

definition vpn_candidates :: "string \<Rightarrow> string list" where
  "vpn_candidates poolInput =
     (case usable_pool poolInput of
        None \<Rightarrow> []
      | Some pool \<Rightarrow> map address_text (loop_values 1 0 (uint (nc_broadcast pool) - 1) (uint (nc_network pool) + 2)))"

definition granted :: "string + 'a option \<Rightarrow> 'a option" where
  "granted r = (case r of Inl e \<Rightarrow> None | Inr x \<Rightarrow> x)"

lemma host_parts_address:
  "a \<in> set (host_parts (address_text v # used)) \<longleftrightarrow> a = address_text v \<or> a \<in> set (host_parts used)"
  "a \<in> set (host_parts ((address_text v @ ''/30'') # used)) \<longleftrightarrow> a = address_text v \<or> a \<in> set (host_parts used)"
proof -
  have 1: "split_on CHR ''/'' (intToIpv4 w) = [intToIpv4 w]" for w by (rule split_on_no_sep) (rule intToIpv4_no_slash)
  have 2: "split_on CHR ''/'' (intToIpv4 w @ CHR ''/'' # t) = intToIpv4 w # split_on CHR ''/'' t" for w t
    by (rule split_on_append) (rule intToIpv4_no_slash)
  show "a \<in> set (host_parts (address_text v # used)) \<longleftrightarrow> a = address_text v \<or> a \<in> set (host_parts used)"
    by (simp add: host_parts_def address_text_def 1)
  show "a \<in> set (host_parts ((address_text v @ ''/30'') # used)) \<longleftrightarrow> a = address_text v \<or> a \<in> set (host_parts used)"
    by (simp add: host_parts_def address_text_def 2)
qed

interpretation vpn: allocator vpn_candidates "\<lambda>used a. a \<in> set (host_parts used)" "\<lambda>used a. a # used"
  "\<lambda>poolInput used. granted (nextAvailableDeviceVpnAddress used poolInput)"
proof unfold_locales
  fix p used
  show "granted (nextAvailableDeviceVpnAddress used p) = head_opt (filter (\<lambda>a. a \<notin> set (host_parts used)) (vpn_candidates p))"
    by (simp add: granted_def nextAvailableDeviceVpnAddress_def vpn_candidates_def usable_pool_def search_from_values Let_def
      map_head_opt filter_map_comp [where P = "\<lambda>a. a \<notin> set _", symmetric] split: option.splits)
next
  fix a p used assume "a \<in> set (vpn_candidates p)"
  then obtain v where "a = address_text v" by (auto simp: vpn_candidates_def split: option.splits)
  then show "a \<in> set (host_parts (a # used))" by (simp add: host_parts_address)
next
  fix a p used d assume "a \<in> set (vpn_candidates p)" "d \<in> set (host_parts used)"
  then show "d \<in> set (host_parts (a # used))" by (simp add: host_parts_def)
qed


definition tunnel_at :: "int \<Rightarrow> gate_tunnel" where
  "tunnel_at network = \<lparr>gt_cidr = address_text network @ ''/30'', gt_server = address_text (network + 1) @ ''/30'',
     gt_client = address_text (network + 2) @ ''/30''\<rparr>"

definition gate_candidates :: "string \<Rightarrow> gate_tunnel list" where
  "gate_candidates poolInput =
     (case usable_pool poolInput of
        None \<Rightarrow> []
      | Some pool \<Rightarrow> map tunnel_at (loop_values 4 3 (uint (nc_broadcast pool)) (uint (nc_network pool))))"

definition host_of :: "string \<Rightarrow> string" where
  "host_of s = hd (split_on CHR ''/'' s)"

lemma host_of_address [simp]: "host_of (address_text v @ ''/30'') = address_text v"
  using split_on_append [OF intToIpv4_no_slash, of "word_of_int v" "''30''"]
  by (simp add: host_of_def address_text_def)

definition tunnel_taken :: "string list \<Rightarrow> gate_tunnel \<Rightarrow> bool" where
  "tunnel_taken used t \<longleftrightarrow>
     host_of (gt_server t) \<in> set (host_parts used) \<or> host_of (gt_client t) \<in> set (host_parts used)"

lemma tunnel_at_taken:
  "tunnel_taken used (tunnel_at v) \<longleftrightarrow>
     address_text (v + 1) \<in> set (host_parts used) \<or> address_text (v + 2) \<in> set (host_parts used)"
  unfolding tunnel_taken_def tunnel_at_def gate_tunnel.simps host_of_address by (rule refl)

interpretation gate: allocator gate_candidates tunnel_taken "\<lambda>used t. gt_server t # gt_client t # used"
  "\<lambda>poolInput used. granted (nextAvailableGateTunnel used poolInput)"
proof unfold_locales
  fix p used
  have "filter (\<lambda>t. \<not> tunnel_taken used t) (map tunnel_at vs) =
      map tunnel_at (filter (\<lambda>v. address_text (v + 1) \<notin> set (host_parts used) \<and> address_text (v + 2) \<notin> set (host_parts used)) vs)" for vs
    by (simp add: filter_map comp_def tunnel_at_taken)
  then show "granted (nextAvailableGateTunnel used p) = head_opt (filter (\<lambda>t. \<not> tunnel_taken used t) (gate_candidates p))"
    by (simp add: granted_def nextAvailableGateTunnel_def gate_candidates_def usable_pool_def search_from_values Let_def
      tunnel_at_def [abs_def, symmetric] map_head_opt split: option.splits)
next
  fix t p used assume "t \<in> set (gate_candidates p)"
  then obtain v where "t = tunnel_at v" by (auto simp: gate_candidates_def split: option.splits)
  then show "tunnel_taken (gt_server t # gt_client t # used) t"
    unfolding \<open>t = tunnel_at v\<close> tunnel_at_taken unfolding tunnel_at_def gate_tunnel.simps host_parts_address by blast
next
  fix t p used d assume "t \<in> set (gate_candidates p)" "tunnel_taken used d"
  then show "tunnel_taken (gt_server t # gt_client t # used) d"
    by (auto simp: tunnel_taken_def host_parts_def)
qed

definition subnet_candidates :: "string \<times> int \<Rightarrow> string list" where
  "subnet_candidates pp =
     (case candidateSubnets (fst pp) (snd pp) of Inl e \<Rightarrow> [] | Inr cs \<Rightarrow> map nc_normalized cs)"

definition cidr_taken :: "string list \<Rightarrow> string \<Rightarrow> bool" where
  "cidr_taken existing text1 \<longleftrightarrow>
     (case parseIpv4Cidr text1 of
        None \<Rightarrow> False
      | Some c \<Rightarrow> list_ex (\<lambda>item. cidrsOverlap item c) (List.map_filter parseIpv4Cidr existing))"

lemma candidate_ok:
  assumes "candidateSubnets pool prefix = Inr cs" and "c \<in> set cs"
  shows "cidr_ok c"
proof -
  have "\<exists>v. subnet_at prefix v = Some c"
    using assms by (auto simp: candidateSubnets_def Let_def set_map_filter_iff split: option.splits if_splits)
  then show ?thesis by (auto simp: subnet_at_def intro: parse_ok)
qed

lemma candidate_taken:
  assumes "candidateSubnets pool prefix = Inr cs" and "c \<in> set cs"
  shows "cidr_taken existing (nc_normalized c) \<longleftrightarrow> list_ex (\<lambda>item. cidrsOverlap item c) (List.map_filter parseIpv4Cidr existing)"
  using parse_normalized [OF candidate_ok [OF assms]] by (simp add: cidr_taken_def)

lemma self_overlap: "cidr_ok c \<Longrightarrow> cidrsOverlap c c"
  by (simp add: cidrsOverlap_def cidr_ok_def word_le_def)

interpretation net: allocator subnet_candidates cidr_taken "\<lambda>existing text1. text1 # existing"
  "\<lambda>pp existing. granted (nextAvailableNetworkCidr existing (fst pp) (snd pp))"
proof unfold_locales
  fix pp existing
  show "granted (nextAvailableNetworkCidr existing (fst pp) (snd pp)) =
      head_opt (filter (\<lambda>c. \<not> cidr_taken existing c) (subnet_candidates pp))"
  proof (cases "candidateSubnets (fst pp) (snd pp)")
    case (Inr cs)
    have "filter (\<lambda>c. \<not> cidr_taken existing c) (map nc_normalized cs) =
        map nc_normalized (filter (\<lambda>c. \<not> list_ex (\<lambda>item. cidrsOverlap item c) (List.map_filter parseIpv4Cidr existing)) cs)"
      using candidate_taken [OF Inr] by (simp add: filter_map comp_def cong: filter_cong)
    then show ?thesis
      by (simp add: granted_def nextAvailableNetworkCidr_def subnet_candidates_def Inr Let_def map_head_opt)
  qed (simp add: granted_def nextAvailableNetworkCidr_def subnet_candidates_def)
next
  fix t pp existing assume "t \<in> set (subnet_candidates pp)"
  then obtain cs c where "candidateSubnets (fst pp) (snd pp) = Inr cs" "c \<in> set cs" "t = nc_normalized c"
    by (cases "candidateSubnets (fst pp) (snd pp)") (auto simp: subnet_candidates_def)
  then show "cidr_taken (t # existing) t"
    using parse_normalized [OF candidate_ok] self_overlap [OF candidate_ok] by (simp add: cidr_taken_def map_filter_simps)
next
  fix t pp existing d assume "cidr_taken existing d"
  then show "cidr_taken (t # existing) d"
    by (auto simp: cidr_taken_def map_filter_simps split: option.splits)
qed


section \<open>Properties\<close>

lemma uint_small: "0 \<le> x \<Longrightarrow> x < 2 ^ 32 \<Longrightarrow> uint (word_of_int x :: 32 word) = x"
  by (simp add: uint_word_of_int)

lemma member_mask:
  assumes "cidr_ok c"
  shows "nc_network c \<le> w \<and> w \<le> nc_broadcast c \<longleftrightarrow> w AND nc_mask c = nc_network c"
proof -
  let ?p = "nc_prefix c"
  have p: "?p \<le> 32" and c: "c = make_cidr (nc_network c) ?p" using assms by (simp_all add: cidr_ok_def)
  have "nc_mask (make_cidr a ?p) = NOT (mask (32 - ?p))" for a
    unfolding make_cidr_def Let_def mask_push [OF p] by simp
  then have m: "nc_mask c = NOT (mask (32 - ?p))" using c by metis
  have "nc_network (make_cidr w ?p) = w AND nc_mask c"
    unfolding m make_cidr_network(1) [OF p] and_not_mask_drop by (rule refl)
  then have u: "uint (w AND nc_mask c) = uint w div block_size c * block_size c"
    using make_cidr_range(1) [OF p, of w] by (simp add: block_size_def)
  have n: "uint (nc_network c) = uint (nc_network c) div block_size c * block_size c"
    using assms div_mult_mod_eq [of "uint (nc_network c)" "block_size c"] by (simp add: cidr_ok_def block_size_def)
  have b: "block_size c \<noteq> 0" by (simp add: block_size_def)
  have "w AND nc_mask c = nc_network c \<longleftrightarrow> uint (w AND nc_mask c) = uint (nc_network c)" by (simp add: word_uint_eq_iff)
  also have "\<dots> \<longleftrightarrow> uint w div block_size c = uint (nc_network c) div block_size c"
    using b n u by (metis mult_cancel_right)
  finally show ?thesis using block_member [OF assms, of w] by simp
qed

text \<open>
  A parsed CIDR is in normal form: it is the aligned block of its prefix, its normalized text
  parses to the same block, and an address belongs to it exactly when masking the address gives the
  network; printing an address and parsing it back gives the address.
\<close>

lemma cidr_normal_form:
  assumes "parseIpv4Cidr s = Some c"
  shows "cidr_ok c \<and> parseIpv4Cidr (nc_normalized c) = Some c \<and>
    (\<forall>w. containsIpv4 c (intToIpv4 w) \<longleftrightarrow> w AND nc_mask c = nc_network c) \<and>
    (\<forall>w. ipv4ToInt (intToIpv4 w) = Some w)"
  using parse_ok [OF assms] by (simp add: parse_normalized contains_address member_mask ipv4_roundtrip)

text \<open>
  Two networks overlap exactly when some address belongs to both, and then the one with the longer
  prefix lies inside the other.
\<close>

lemma overlap_is_common_address:
  assumes "parseIpv4Cidr s = Some a" and "parseIpv4Cidr t = Some b" and "nc_prefix b \<le> nc_prefix a"
  shows "(cidrsOverlap a b \<longleftrightarrow> (\<exists>w. containsIpv4 a (intToIpv4 w) \<and> containsIpv4 b (intToIpv4 w))) \<and>
    (cidrsOverlap a b \<longrightarrow> (\<forall>w. containsIpv4 a (intToIpv4 w) \<longrightarrow> containsIpv4 b (intToIpv4 w)))"
  using overlap_common [OF parse_ok [OF assms(1)] parse_ok [OF assms(2)]]
    block_nested [OF parse_ok [OF assms(1)] parse_ok [OF assms(2)] assms(3)]
  unfolding contains_address by blast

text \<open>
  \<open>nextAvailableApplicationAddress\<close> returns an unused address of the network between the ten
  reserved ones and the broadcast address, and gives up only when all of these are in use.
\<close>

lemma application_address_allocation:
  assumes "parseIpv4Cidr s = Some c"
  shows "case nextAvailableApplicationAddress c used of
    Some a \<Rightarrow> a \<notin> set used \<and> containsIpv4 c a \<and>
      (\<exists>w. a = intToIpv4 w \<and> uint (nc_network c) + 10 \<le> uint w \<and> uint w < uint (nc_broadcast c))
  | None \<Rightarrow> (\<forall>w. uint (nc_network c) + 10 \<le> uint w \<and> uint w < uint (nc_broadcast c) \<longrightarrow> intToIpv4 w \<in> set used)"
proof -
  let ?n = "uint (nc_network c)" and ?b = "uint (nc_broadcast c)"
  have cand: "a \<in> set (application_candidates c) \<longleftrightarrow> (\<exists>w. a = intToIpv4 w \<and> ?n + 10 \<le> uint w \<and> uint w < ?b)" for a
  proof
    assume "a \<in> set (application_candidates c)"
    then obtain k where k: "a = address_text (?n + 10 + int k)" "?n + 10 + int k \<le> ?b - 1"
      by (auto simp: application_candidates_def loop_values_member FIRST_APPLICATION_HOST_OFFSET_def)
    have "?b < 2 ^ 32" "0 \<le> ?n" using uint_bounded [of "nc_broadcast c"] by simp_all
    then have "uint (word_of_int (?n + 10 + int k) :: 32 word) = ?n + 10 + int k"
      using k(2) by (intro uint_small) linarith+
    then show "\<exists>w. a = intToIpv4 w \<and> ?n + 10 \<le> uint w \<and> uint w < ?b"
      using k by (intro exI [of _ "word_of_int (?n + 10 + int k)"]) (simp add: address_text_def)
  next
    assume "\<exists>w. a = intToIpv4 w \<and> ?n + 10 \<le> uint w \<and> uint w < ?b"
    then obtain w where w: "a = intToIpv4 w" "?n + 10 \<le> uint w" "uint w < ?b" by blast
    have "uint w = ?n + 10 + int (nat (uint w - ?n - 10))" using w(2) by simp
    then have "\<exists>k. uint w = ?n + FIRST_APPLICATION_HOST_OFFSET + int k * 1"
      unfolding FIRST_APPLICATION_HOST_OFFSET_def mult_1_right by (rule exI)
    moreover have "a = address_text (uint w)" using w(1) by (simp add: address_text_def)
    ultimately show "a \<in> set (application_candidates c)"
      using w(3) by (simp add: application_candidates_def loop_values_member)
  qed
  show ?thesis
  proof (cases "nextAvailableApplicationAddress c used")
    case None
    then show ?thesis using app.exhausted_iff [of c used] cand by auto
  next
    case (Some a)
    then obtain w where w: "a = intToIpv4 w" "?n + 10 \<le> uint w" "uint w < ?b" "a \<notin> set used"
      using app.allocated [OF Some] cand by blast
    then have "containsIpv4 c a" by (simp add: contains_address word_le_def)
    then show ?thesis using Some w by auto
  qed
qed

lemmas text_eval = js_trim_no_space js_space_def all_digits_def is_digit_def digit_val_def

lemma sample_address:
  "parseIpv4Cidr ''10.240.3.7/24'' = Some (make_cidr 183501575 24)"
  "parseIpv4Cidr ''10.240.0.0/16'' = Some (make_cidr 183500800 16)"
proof -
  have d: "js_number ''24'' = Some 24" "js_number ''16'' = Some 16"
    by (subst js_number_digits; simp add: text_eval)+
  have i: "ipv4ToInt ''10.240.3.7'' = Some 183501575" "ipv4ToInt ''10.240.0.0'' = Some 183500800"
    by (simp_all add: ipv4ToInt_def Let_def text_eval)
  have t: "js_trim ''10.240.3.7/24'' = ''10.240.3.7/24''" "js_trim ''10.240.0.0/16'' = ''10.240.0.0/16''"
    by (simp_all add: text_eval)
  show "parseIpv4Cidr ''10.240.3.7/24'' = Some (make_cidr 183501575 24)"
    "parseIpv4Cidr ''10.240.0.0/16'' = Some (make_cidr 183500800 16)"
    by (simp_all add: parseIpv4Cidr_def Let_def t i prefix_of_def d)
qed

lemma candidate_block:
  assumes "parseIpv4Cidr poolInput = Some pool" and "candidateSubnets poolInput prefix = Inr cs" and "c \<in> set cs"
  shows "int (nc_prefix c) = prefix \<and> nc_network pool \<le> nc_network c \<and> nc_broadcast c \<le> nc_broadcast pool"
proof -
  define bs :: int where "bs = 2 ^ nat (32 - prefix)"
  have bs: "0 < bs" by (simp add: bs_def)
  have ok: "cidr_ok pool" using assms(1) by (rule parse_ok)
  have pre: "int (nc_prefix pool) \<le> prefix" "prefix \<le> 30"
    using assms(1,2) by (auto simp: candidateSubnets_def split: if_splits)
  obtain v where v: "v \<in> set (loop_values bs (bs - 1) (uint (nc_broadcast pool)) (uint (nc_network pool)))"
    "subnet_at prefix v = Some c"
    using assms by (auto simp: candidateSubnets_def Let_def set_map_filter_iff bs_def split: if_splits)
  then obtain k where k: "v = uint (nc_network pool) + int k * bs" "v + (bs - 1) \<le> uint (nc_broadcast pool)"
    using loop_values_member [OF bs] by blast
  let ?p = "nat prefix"
  have p: "?p \<le> 32" "0 \<le> prefix" using pre by auto
  have c: "c = make_cidr (word_of_int v) ?p"
    using v(2) parse_cidr_text [OF p(1), of "word_of_int v"] p(2) by (simp add: subnet_at_def address_text_def show_int_def)
  have "uint (nc_broadcast pool) < 2 ^ 32" "0 \<le> uint (nc_network pool)" using uint_bounded [of "nc_broadcast pool"] by simp_all
  moreover have "0 \<le> int k * bs" using bs by simp
  ultimately have uv: "uint (word_of_int v :: 32 word) = v"
    using k bs by (intro uint_small) linarith+
  have n: "2 ^ (32 - ?p) = bs" using p by (simp add: bs_def nat_diff_distrib)
  have "bs dvd 2 ^ (32 - nc_prefix pool)"
    unfolding n [symmetric] using pre p by (intro le_imp_power_dvd) linarith
  moreover have "2 ^ (32 - nc_prefix pool) dvd uint (nc_network pool)"
    using ok by (simp add: cidr_ok_def mod_eq_0_iff_dvd)
  ultimately have "bs dvd uint (nc_network pool)" by (rule dvd_trans)
  then have "bs dvd v" unfolding k(1) by simp
  then have div: "v div bs * bs = v" by simp
  have "uint (nc_network c) = v" "uint (nc_broadcast c) = v + bs - 1"
    using make_cidr_range [OF p(1), of "word_of_int v"] uv div n by (simp_all add: c)
  then show ?thesis
    using k bs p(2) make_cidr_network(3) [OF p(1)] by (simp add: c word_le_def)
qed

lemma subnet_allocation:
  assumes "nextAvailableNetworkCidr existing poolInput prefix = Inr (Some r)"
  shows "\<exists>c pool. parseIpv4Cidr poolInput = Some pool \<and> parseIpv4Cidr r = Some c \<and> nc_normalized c = r \<and>
    int (nc_prefix c) = prefix \<and> nc_network pool \<le> nc_network c \<and> nc_broadcast c \<le> nc_broadcast pool \<and>
    (\<forall>e \<in> set existing. \<forall>x. parseIpv4Cidr e = Some x \<longrightarrow> \<not> cidrsOverlap x c)"
proof -
  have "granted (nextAvailableNetworkCidr existing (fst (poolInput, prefix)) (snd (poolInput, prefix))) = Some r"
    by (simp add: granted_def assms)
  note al = net.allocated [OF this]
  obtain cs where cs: "candidateSubnets poolInput prefix = Inr cs"
    using assms by (cases "candidateSubnets poolInput prefix") (auto simp: nextAvailableNetworkCidr_def)
  obtain c where c: "c \<in> set cs" "r = nc_normalized c"
    using al cs by (auto simp: subnet_candidates_def)
  obtain pool where pool: "parseIpv4Cidr poolInput = Some pool"
    using cs by (auto simp: candidateSubnets_def split: option.splits)
  have okc: "cidr_ok c" by (rule candidate_ok [OF cs c(1)])
  have "\<not> cidrsOverlap x c" if "e \<in> set existing" "parseIpv4Cidr e = Some x" for e x
    using al that candidate_taken [OF cs c(1)] by (auto simp: c(2) list_ex_iff set_map_filter_iff)
  then show ?thesis
    using pool parse_normalized [OF okc] candidate_block [OF pool cs c(1)] c(2) by auto
qed

text \<open>
  C36. A network allocated from a pool is a block of the requested prefix inside the pool, in normal
  form, and shares no address with any existing network.
\<close>

theorem network_cidr_allocation:
  assumes "nextAvailableNetworkCidr existing poolInput prefix = Inr (Some r)"
  shows "\<exists>c pool. parseIpv4Cidr poolInput = Some pool \<and> parseIpv4Cidr r = Some c \<and> nc_normalized c = r \<and>
    int (nc_prefix c) = prefix \<and> nc_network pool \<le> nc_network c \<and> nc_broadcast c \<le> nc_broadcast pool \<and>
    (\<forall>e \<in> set existing. \<forall>x. parseIpv4Cidr e = Some x \<longrightarrow>
       \<not> (\<exists>w. containsIpv4 x (intToIpv4 w) \<and> containsIpv4 c (intToIpv4 w)))"
proof -
  obtain c pool where c: "parseIpv4Cidr poolInput = Some pool" "parseIpv4Cidr r = Some c" "nc_normalized c = r"
    "int (nc_prefix c) = prefix" "nc_network pool \<le> nc_network c" "nc_broadcast c \<le> nc_broadcast pool"
    "\<forall>e \<in> set existing. \<forall>x. parseIpv4Cidr e = Some x \<longrightarrow> \<not> cidrsOverlap x c"
    using subnet_allocation [OF assms] by auto
  have "\<not> (\<exists>w. containsIpv4 x (intToIpv4 w) \<and> containsIpv4 c (intToIpv4 w))"
    if "e \<in> set existing" "parseIpv4Cidr e = Some x" for e x
    using c(7) that overlap_common [OF parse_ok [OF that(2)] parse_ok [OF c(2)]] unfolding contains_address by blast
  then show ?thesis using c by blast
qed

text \<open>
  Repeated allocation never hands out the same resource twice, and each is free when it is handed
  out: application addresses, device VPN addresses, gate tunnels and networks.
\<close>

lemma allocations_never_repeat:
  "distinct (allocate_many (nextAvailableApplicationAddress c) (\<lambda>used a. a # used) n used) \<and>
   distinct (allocate_many (\<lambda>used. granted (nextAvailableDeviceVpnAddress used pool)) (\<lambda>used a. a # used) n used) \<and>
   distinct (allocate_many (\<lambda>used. granted (nextAvailableGateTunnel used pool)) (\<lambda>used t. gt_server t # gt_client t # used) n used) \<and>
   distinct (allocate_many (\<lambda>used. granted (nextAvailableNetworkCidr used pool prefix)) (\<lambda>used a. a # used) n used)"
  using app.many_distinct vpn.many_distinct gate.many_distinct net.many_distinct [of "(pool, prefix)"] by simp


lemma sample_second_half:
  "nextAvailableNetworkCidr [''10.240.3.7/24''] ''10.240.0.0/16'' 17 = Inr (Some (nc_normalized (make_cidr 183533568 17)))"
proof -
  have n: "uint (nc_network (make_cidr 183500800 16)) = 183500800" "uint (nc_broadcast (make_cidr 183500800 16)) = 183566335"
    using make_cidr_range [of 16 183500800] by simp_all
  have l: "loop_values 32768 32767 183566335 183500800 = [183500800, 183533568]"
    by (simp add: loop_values.simps [of _ _ _ 183500800] loop_values.simps [of _ _ _ 183533568]
        loop_values.simps [of _ _ _ 183566336])
  have a: "subnet_at 17 183500800 = Some (make_cidr 183500800 17)" "subnet_at 17 183533568 = Some (make_cidr 183533568 17)"
    using parse_cidr_text [of 17] by (simp_all add: subnet_at_def address_text_def show_int_def)
  have p: "nc_prefix (make_cidr 183500800 16) = 16" by (simp add: make_cidr_network)
  have c: "candidateSubnets ''10.240.0.0/16'' 17 = Inr [make_cidr 183500800 17, make_cidr 183533568 17]"
    unfolding candidateSubnets_def sample_address(2) by (simp add: p n l a map_filter_simps)
  have o: "cidrsOverlap (make_cidr 183501575 24) (make_cidr 183500800 17)" "\<not> cidrsOverlap (make_cidr 183501575 24) (make_cidr 183533568 17)"
    using make_cidr_range [of 24 183501575] make_cidr_range [of 17 183500800] make_cidr_range [of 17 183533568]
    by (simp_all add: cidrsOverlap_def word_le_def)
  show ?thesis
    by (simp add: nextAvailableNetworkCidr_def c sample_address(1) map_filter_simps o)
qed

theorem network_cidr_allocation_witness:
  "\<exists>c. parseIpv4Cidr (nc_normalized (make_cidr 183533568 17)) = Some c \<and> int (nc_prefix c) = 17"
  using network_cidr_allocation [OF sample_second_half] by auto

end
