(* ===== verification/JsStrings.thy ===== *)
theory JsStrings
  imports Prelude
begin

text \<open>
  The string operations of the JavaScript library the components share: character classes of
  regular expressions, case, splitting at white space, and replacing a character.
\<close>

subsection \<open>Character classes\<close>

definition is_hex :: "char \<Rightarrow> bool" where
  "is_hex c \<longleftrightarrow> (let n = (of_char c :: nat) in is_digit c \<or> (97 \<le> n \<and> n \<le> 102) \<or> (65 \<le> n \<and> n \<le> 70))"

definition is_upper :: "char \<Rightarrow> bool" where
  "is_upper c \<longleftrightarrow> (let n = (of_char c :: nat) in 65 \<le> n \<and> n \<le> 90)"

definition is_lower :: "char \<Rightarrow> bool" where
  "is_lower c \<longleftrightarrow> (let n = (of_char c :: nat) in 97 \<le> n \<and> n \<le> 122)"

definition lower :: "char \<Rightarrow> char" where
  "lower c = (if is_upper c then char_of ((of_char c :: nat) + 32) else c)"

definition toLowerCase :: "string \<Rightarrow> string" where
  "toLowerCase s = map lower s"

definition is_word_char :: "char \<Rightarrow> bool" where
  "is_word_char c \<longleftrightarrow> is_digit c \<or> is_upper c \<or> is_lower c \<or> c = CHR ''_''"

text \<open>\<open>s.replaceAll(a, b)\<close> for two characters.\<close>

definition replace_char :: "char \<Rightarrow> char \<Rightarrow> string \<Rightarrow> string" where
  "replace_char a b s = map (\<lambda>c. if c = a then b else c) s"

text \<open>\<open>value.length > n ? value.slice(0, n) : value\<close>.\<close>

definition truncate_text :: "string \<Rightarrow> nat \<Rightarrow> string" where
  "truncate_text s n = (if n < length s then take n s else s)"

lemma length_truncate: "length (truncate_text s n) \<le> n"
  by (simp add: truncate_text_def)

text \<open>\<open>s.startsWith(p)\<close>, \<open>s.endsWith(p)\<close> and \<open>s.includes(p)\<close>.\<close>

definition starts_with :: "string \<Rightarrow> string \<Rightarrow> bool" where
  "starts_with s p \<longleftrightarrow> take (length p) s = p"

definition ends_with :: "string \<Rightarrow> string \<Rightarrow> bool" where
  "ends_with s p \<longleftrightarrow> length p \<le> length s \<and> drop (length s - length p) s = p"

fun contains_text :: "string \<Rightarrow> string \<Rightarrow> bool" where
  "contains_text [] p \<longleftrightarrow> p = []"
| "contains_text (c # cs) p \<longleftrightarrow> starts_with (c # cs) p \<or> contains_text cs p"

lemma starts_with_iff: "starts_with s p \<longleftrightarrow> (\<exists>t. s = p @ t)"
  unfolding starts_with_def by (metis append_eq_conv_conj append_take_drop_id)

lemma ends_with_iff: "ends_with s p \<longleftrightarrow> (\<exists>t. s = t @ p)"
proof
  assume "ends_with s p"
  then show "\<exists>t. s = t @ p" unfolding ends_with_def by (metis append_take_drop_id)
qed (auto simp: ends_with_def)

lemma contains_text_iff: "contains_text s p \<longleftrightarrow> (\<exists>l r. s = l @ p @ r)"
proof (induction s)
  case (Cons c s)
  have "(\<exists>l r. c # s = l @ p @ r) \<longleftrightarrow> (\<exists>r. c # s = p @ r) \<or> (\<exists>l r. s = l @ p @ r)"
    by (metis append_Cons append_Nil append_eq_Cons_conv)
  then show ?case using Cons by (simp add: starts_with_iff)
qed auto

subsection \<open>Splitting at white space\<close>

text \<open>\<open>s.split(/\s+/)\<close>.\<close>

fun split_ws :: "string \<Rightarrow> string list" where
  "split_ws [] = [[]]"
| "split_ws (c # cs) =
     (if js_space c then (if cs \<noteq> [] \<and> js_space (hd cs) then split_ws cs else [] # split_ws cs)
      else (case split_ws cs of [] \<Rightarrow> [[c]] | w # ws \<Rightarrow> (c # w) # ws))"

lemma split_ws_not_Nil [simp]: "split_ws s \<noteq> []"
  by (induction s) (auto split: list.splits)

lemma split_ws_word: "list_all (\<lambda>c. \<not> js_space c) w \<Longrightarrow> split_ws w = [w]"
  by (induction w) auto

lemma split_ws_append:
  assumes "list_all (\<lambda>c. \<not> js_space c) w" and "s \<noteq> []" and "\<not> js_space (hd s)"
  shows "split_ws (w @ CHR '' '' # s) = w # split_ws s"
proof -
  have "js_space CHR '' ''" by (simp add: js_space_def)
  then show ?thesis using assms by (induction w) auto
qed

end
