(* ===== verification/EgressGuard.thy ===== *)
theory EgressGuard
  imports JsStrings JsNumerals Json
begin

text \<open>
  \<open>network-egress/egress-guard.logic.ts\<close>, and the pure parts of \<open>egress-guard.runner.ts\<close>: which
  containers are tenant workloads, the deny rules of a workload, the one \<open>iptables-restore\<close>
  transaction that installs them, how the denied destinations are read back from an installed chain
  while the policy snapshot is missing, and the tracker of a snapshot outage. Labels, networks and
  gateway entries are JavaScript objects, modelled as finite partial functions; a thrown error is the
  left summand. \<open>parse\<close> stands for \<open>JSON.parse\<close> after base64 decoding (\<open>None\<close>: it throws).
\<close>

section \<open>Texts\<close>

text \<open>\<open>tokens.indexOf(t)\<close> together with \<open>tokens[index + 1]\<close>: the token after the first \<open>t\<close>.
  \<open>None\<close>: there is no \<open>t\<close>; \<open>Some None\<close>: nothing follows it.\<close>

fun after_token :: "string \<Rightarrow> string list \<Rightarrow> string option option" where
  "after_token t [] = None"
| "after_token t (x # xs) = (if x = t then Some (head_opt xs) else after_token t xs)"

section \<open>Addresses: \<open>isIP\<close> of \<open>node:net\<close>\<close>

definition v4_octet :: "string \<Rightarrow> bool" where
  "v4_octet s \<longleftrightarrow> all_digits s \<and> length s \<le> 3 \<and> parse_dec 0 s \<le> 255 \<and> (length s = 1 \<or> hd s \<noteq> CHR ''0'')"

definition isIPv4 :: "string \<Rightarrow> bool" where
  "isIPv4 s \<longleftrightarrow> (let parts = split_on CHR ''.'' s in length parts = 4 \<and> list_all v4_octet parts)"

definition v6_group :: "string \<Rightarrow> bool" where
  "v6_group s \<longleftrightarrow> s \<noteq> [] \<and> length s \<le> 4 \<and> list_all is_hex s"

text \<open>The number of 16-bit groups written by the parts; only the last one may be a dotted quad.\<close>

fun v6_count :: "bool \<Rightarrow> string list \<Rightarrow> nat option" where
  "v6_count quad [] = Some 0"
| "v6_count quad [s] = (if v6_group s then Some 1 else if quad \<and> isIPv4 s then Some 2 else None)"
| "v6_count quad (s # t # ss) = (if v6_group s then map_option Suc (v6_count quad (t # ss)) else None)"

fun split_double :: "string \<Rightarrow> (string \<times> string) option" where
  "split_double (a # b # cs) =
     (if a = CHR '':'' \<and> b = CHR '':'' then Some ([], cs)
      else map_option (\<lambda>(l, r). (a # l, r)) (split_double (b # cs)))"
| "split_double _ = None"

definition v6_parts :: "string \<Rightarrow> string list" where
  "v6_parts s = (if s = [] then [] else split_on CHR '':'' s)"

definition v6_body :: "string \<Rightarrow> bool" where
  "v6_body s \<longleftrightarrow>
     (case split_double s of
        None \<Rightarrow> v6_count True (v6_parts s) = Some 8
      | Some (l, r) \<Rightarrow>
          (case (v6_count False (v6_parts l), v6_count True (v6_parts r)) of
             (Some m, Some n) \<Rightarrow> m + n \<le> 7
           | _ \<Rightarrow> False))"

definition zone_char :: "char \<Rightarrow> bool" where
  "zone_char c \<longleftrightarrow> is_digit c \<or> is_upper c \<or> is_lower c \<or> c \<in> {CHR ''-'', CHR ''.'', CHR '':''}"

definition isIPv6 :: "string \<Rightarrow> bool" where
  "isIPv6 s \<longleftrightarrow>
     (case split_on CHR ''%'' s of
        [b] \<Rightarrow> v6_body b
      | [b, zone] \<Rightarrow> v6_body b \<and> zone \<noteq> [] \<and> list_all zone_char zone
      | _ \<Rightarrow> False)"

datatype ip_family = Family4 | Family6

definition isIP :: "string \<Rightarrow> ip_family option" where
  "isIP s = (if isIPv4 s then Some Family4 else if isIPv6 s then Some Family6 else None)"

fun max_prefix :: "ip_family \<Rightarrow> nat" where
  "max_prefix Family4 = 32"
| "max_prefix Family6 = 128"

section \<open>The policy snapshot\<close>

record egress_policy =
  ep_version :: int
  ep_enabled :: bool
  ep_revision :: rat
  ep_blocked4 :: "string list"
  ep_blocked6 :: "string list"

definition DEFAULT_BLOCKED_IPV4_CIDRS :: "string list" where
  "DEFAULT_BLOCKED_IPV4_CIDRS =
     [''10.0.0.0/8'', ''100.64.0.0/10'', ''127.0.0.0/8'', ''169.254.0.0/16'', ''172.16.0.0/12'', ''192.168.0.0/16'']"

definition DEFAULT_BLOCKED_IPV6_CIDRS :: "string list" where
  "DEFAULT_BLOCKED_IPV6_CIDRS = [''::1/128'', ''fc00::/7'', ''fe80::/10'']"

definition DEFAULT_EGRESS_POLICY :: egress_policy where
  "DEFAULT_EGRESS_POLICY =
     \<lparr>ep_version = 2, ep_enabled = True, ep_revision = 0,
      ep_blocked4 = DEFAULT_BLOCKED_IPV4_CIDRS, ep_blocked6 = DEFAULT_BLOCKED_IPV6_CIDRS\<rparr>"

definition json_number :: "json option \<Rightarrow> rat option" where
  "json_number j = (case j of Some (JNum t) \<Rightarrow> js_number t | _ \<Rightarrow> None)"

definition json_strings :: "json option \<Rightarrow> string list option" where
  "json_strings j =
     (case j of
        Some (JArr xs) \<Rightarrow>
          (if list_all (\<lambda>x. case x of JStr _ \<Rightarrow> True | _ \<Rightarrow> False) xs
           then Some (List.map_filter (\<lambda>x. case x of JStr t \<Rightarrow> Some t | _ \<Rightarrow> None) xs) else None)
      | _ \<Rightarrow> None)"

text \<open>\<open>isPolicy\<close>, returning the fields it has checked.\<close>

definition as_policy :: "json \<Rightarrow> egress_policy option" where
  "as_policy value =
     (case value of
        JObj item \<Rightarrow>
          (case (json_number (map_of item ''version''), map_of item ''enabled'', json_number (map_of item ''revision''),
                 json_strings (map_of item ''blockedIpv4Cidrs''), json_strings (map_of item ''blockedIpv6Cidrs'')) of
             (Some version, Some (JBool enabled), Some revision, Some b4, Some b6) \<Rightarrow>
               (if version = 2 \<and> is_integer revision
                then Some \<lparr>ep_version = 2, ep_enabled = enabled, ep_revision = revision, ep_blocked4 = b4, ep_blocked6 = b6\<rparr>
                else None)
           | _ \<Rightarrow> None)
      | _ \<Rightarrow> None)"

definition hasAuthoritativeEgressPolicy :: "(string \<Rightarrow> json option) \<Rightarrow> string option \<Rightarrow> bool" where
  "hasAuthoritativeEgressPolicy parse encoded \<longleftrightarrow>
     (case encoded of
        None \<Rightarrow> False
      | Some text \<Rightarrow>
          (if text = '''' then False
           else (case parse text of None \<Rightarrow> False | Some value \<Rightarrow> as_policy value \<noteq> None)))"

definition decodeEgressPolicy :: "(string \<Rightarrow> json option) \<Rightarrow> string option \<Rightarrow> egress_policy" where
  "decodeEgressPolicy parse encoded =
     (case encoded of
        None \<Rightarrow> DEFAULT_EGRESS_POLICY
      | Some text \<Rightarrow>
          (if text = '''' then DEFAULT_EGRESS_POLICY
           else (case parse text of
                   None \<Rightarrow> DEFAULT_EGRESS_POLICY
                 | Some value \<Rightarrow>
                     (case as_policy value of
                        None \<Rightarrow> DEFAULT_EGRESS_POLICY
                      | Some policy \<Rightarrow> policy\<lparr>ep_enabled := True\<rparr>))))"

section \<open>Tenant workloads\<close>

record docker_container =
  dc_id :: "string option"
  dc_labels :: "(string \<rightharpoonup> string) option"
  dc_networks :: "(string \<rightharpoonup> string option \<times> string option) option"

text \<open>A gateway entry: its \<open>IPv4Address\<close> and \<open>IPv6Address\<close>.\<close>

type_synonym gateway_containers = "string \<rightharpoonup> string option \<times> string option"

record tenant_workload =
  tw_container :: string
  tw_app_group :: string
  tw_ipv4 :: "string option"
  tw_ipv6 :: "string option"

definition stripPrefix :: "string option \<Rightarrow> string option" where
  "stripPrefix value =
     (case value of
        None \<Rightarrow> None
      | Some text \<Rightarrow>
          (if text = '''' then None
           else (let address = js_trim (hd (split_on CHR ''/'' text))
                 in if address = '''' then None else Some address)))"

definition isUuid :: "string \<Rightarrow> bool" where
  "isUuid value \<longleftrightarrow>
     (case split_on CHR ''-'' value of
        [a, b, c, d, e] \<Rightarrow>
          list_all (list_all is_hex) [a, b, c, d, e] \<and> map length [a, b, c, d, e] = [8, 4, 4, 4, 12] \<and>
          hd c \<in> set ''12345'' \<and> lower (hd d) \<in> set ''89ab''
      | _ \<Rightarrow> False)"

definition stack_app_group :: "string \<Rightarrow> string option" where
  "stack_app_group stack =
     (case split_on CHR ''_'' stack of
        [rp, a, b, c, d, e] \<Rightarrow>
          (if toLowerCase rp = ''rp'' \<and> list_all (list_all is_hex) [a, b, c, d, e] \<and>
              map length [a, b, c, d, e] = [8, 4, 4, 4, 12]
           then (let candidate = toLowerCase (join_with ''-'' [a, b, c, d, e])
                 in if isUuid candidate then Some candidate else None)
           else None)
      | _ \<Rightarrow> None)"

definition appGroupIdFromLabels :: "(string \<rightharpoonup> string) \<Rightarrow> string option" where
  "appGroupIdFromLabels labels =
     (case labels ''resourceportal.app-group-id'' of
        Some explicit \<Rightarrow>
          (if isUuid explicit then Some (toLowerCase explicit)
           else stack_app_group (option_or (labels ''com.docker.stack.namespace'') ''''))
      | None \<Rightarrow> stack_app_group (option_or (labels ''com.docker.stack.namespace'') ''''))"

definition workload_of :: "gateway_containers \<Rightarrow> docker_container \<Rightarrow> tenant_workload option" where
  "workload_of gateway container =
     (case dc_id container of
        None \<Rightarrow> None
      | Some containerId \<Rightarrow>
          (if containerId = '''' then None
           else (case appGroupIdFromLabels (option_or (dc_labels container) Map.empty) of
                   None \<Rightarrow> None
                 | Some appGroupId \<Rightarrow>
                     (let gatewayEntry = gateway containerId;
                          attachedBridge = Option.bind (dc_networks container) (\<lambda>networks. networks ''docker_gwbridge'');
                          ipv4 = stripPrefix (coalesce (Option.bind gatewayEntry fst) (Option.bind attachedBridge fst));
                          ipv6 = stripPrefix (coalesce (Option.bind gatewayEntry snd) (Option.bind attachedBridge snd))
                      in if ipv4 = None \<and> ipv6 = None then None
                         else Some \<lparr>tw_container = containerId, tw_app_group = appGroupId, tw_ipv4 = ipv4, tw_ipv6 = ipv6\<rparr>))))"

text \<open>\<open>collate\<close> is the sort key of \<open>localeCompare\<close>.\<close>

definition tenantWorkloads ::
    "(string \<Rightarrow> 'k :: linorder) \<Rightarrow> docker_container list \<Rightarrow> gateway_containers option \<Rightarrow> tenant_workload list" where
  "tenantWorkloads collate containers gateway =
     sort_key (\<lambda>w. collate (tw_container w))
       (List.map_filter (workload_of (option_or gateway Map.empty)) containers)"

section \<open>Firewall rules\<close>

fun workload_source :: "ip_family \<Rightarrow> tenant_workload \<Rightarrow> string option" where
  "workload_source Family4 w = tw_ipv4 w"
| "workload_source Family6 w = tw_ipv6 w"

fun blocked_cidrs :: "ip_family \<Rightarrow> egress_policy \<Rightarrow> string list" where
  "blocked_cidrs Family4 p = ep_blocked4 p"
| "blocked_cidrs Family6 p = ep_blocked6 p"

definition deny_rule :: "ip_family \<Rightarrow> string \<Rightarrow> string \<Rightarrow> string list" where
  "deny_rule family source cidr =
     [''-s'', source @ ''/'' @ show_nat (max_prefix family), ''-d'', cidr, ''-j'', ''REJECT'']"

definition workload_rules :: "egress_policy \<Rightarrow> ip_family \<Rightarrow> tenant_workload \<Rightarrow> string list list" where
  "workload_rules policy family workload =
     (case workload_source family workload of
        None \<Rightarrow> []
      | Some source \<Rightarrow>
          (if source = '''' \<or> isIP source \<noteq> Some family then []
           else map (deny_rule family source) (blocked_cidrs family policy)))"

definition firewallRulesForWorkloads :: "egress_policy \<Rightarrow> tenant_workload list \<Rightarrow> ip_family \<Rightarrow> string list list" where
  "firewallRulesForWorkloads policy workloads family = concat (map (workload_rules policy family) workloads)"

definition chain_name :: "string \<Rightarrow> bool" where
  "chain_name s \<longleftrightarrow> s \<noteq> [] \<and> list_all (\<lambda>c. is_upper c \<or> is_digit c \<or> c = CHR ''-'') s"

definition safe_token :: "string \<Rightarrow> bool" where
  "safe_token s \<longleftrightarrow>
     s \<noteq> [] \<and> list_all (\<lambda>c. is_upper c \<or> is_lower c \<or> is_digit c \<or> c \<in> set ''._:!/-'') s"

definition append_line :: "string list \<Rightarrow> string \<Rightarrow> string" where
  "append_line rule chain = ''-A '' @ chain @ '' '' @ join_with '' '' rule"

definition newline :: string where
  "newline = [CHR 0x0A]"

definition renderAtomicEgressRules :: "string \<Rightarrow> string \<Rightarrow> string list list \<Rightarrow> string + string" where
  "renderAtomicEgressRules forwardChain hostChain rules =
     (let chains = [forwardChain, hostChain] in
      if \<not> list_all chain_name chains then Inl ''Invalid egress chain name''
      else if \<not> list_all (list_all safe_token) rules then Inl ''Unsafe egress policy token''
      else Inr (join_with newline
        (([''*filter''] @ map (\<lambda>chain. ''-F '' @ chain) chains @
          concat (map (\<lambda>rule. map (append_line rule) chains) rules)) @ [''COMMIT'', ''''])))"

definition shouldPreserveExistingFirewallState :: "bool \<Rightarrow> bool \<Rightarrow> bool \<Rightarrow> bool \<Rightarrow> bool" where
  "shouldPreserveExistingFirewallState forwardChain hostChain forwardJump hostJump \<longleftrightarrow>
     forwardChain \<and> hostChain \<and> forwardJump \<and> hostJump"

section \<open>Reading the installed rules back\<close>

definition valid_destination :: "ip_family \<Rightarrow> string \<Rightarrow> bool" where
  "valid_destination family cidr \<longleftrightarrow>
     (let parts = split_on CHR ''/'' cidr in
      isIP (hd parts) = Some family \<and>
      (case parts of
         _ # prefix # _ \<Rightarrow> all_digits prefix \<and> length prefix \<le> 3 \<and> parse_dec 0 prefix \<le> max_prefix family
       | _ \<Rightarrow> True))"

definition denied_destination :: "string \<Rightarrow> ip_family \<Rightarrow> string \<Rightarrow> string option" where
  "denied_destination chain family line =
     (let tokens = split_ws (js_trim line) in
      if take 2 tokens \<noteq> [''-A'', chain] then None
      else (case after_token ''-j'' tokens of
              None \<Rightarrow> None
            | Some action \<Rightarrow>
                (if option_or action '''' \<notin> {''REJECT'', ''DROP''} then None
                 else (case after_token ''-d'' tokens of
                         Some (Some cidr) \<Rightarrow>
                           (if cidr \<noteq> '''' \<and> valid_destination family cidr then Some cidr else None)
                       | _ \<Rightarrow> None))))"

definition installedDeniedDestinations :: "string \<Rightarrow> string \<Rightarrow> ip_family \<Rightarrow> string list" where
  "installedDeniedDestinations chainRules chain family =
     sort (unique (List.map_filter (denied_destination chain family) (split_on CHR 0x0A chainRules)))"

end
