(* ===== verification/EgressOutage.thy ===== *)
theory EgressOutage
  imports EgressGuard
begin

text \<open>
  The egress guard while the authoritative policy snapshot is missing: \<open>EgressSnapshotFreshnessTracker\<close>
  of \<open>egress-guard.logic.ts\<close> as a state with one \<open>observe\<close> step, and the rules
  \<open>preserveAndExtendDeniedWorkloads\<close> of \<open>egress-guard.runner.ts\<close> adds. The lemmas show that the
  rendered transaction reads back token by token, that the denied destinations are recovered from it,
  and that the tracker follows the outages of its observation history.
\<close>

section \<open>The freshness tracker\<close>

datatype freshness = Authoritative | Degraded

datatype outage_event = Missing | StillMissing | Restored

record tracker =
  missing_since :: "int option"
  last_warning :: "int option"

record observation =
  ob_freshness :: freshness
  ob_event :: "outage_event option"
  ob_duration :: int

definition new_tracker :: tracker where
  "new_tracker = \<lparr>missing_since = None, last_warning = None\<rparr>"

definition observe_authoritative :: "tracker \<Rightarrow> int \<Rightarrow> tracker \<times> observation" where
  "observe_authoritative t now =
     (\<lparr>missing_since = None, last_warning = None\<rparr>,
      \<lparr>ob_freshness = Authoritative,
       ob_event = (if missing_since t = None then None else Some Restored),
       ob_duration = (case missing_since t of None \<Rightarrow> 0 | Some since \<Rightarrow> max 0 (now - since))\<rparr>)"

definition observe_degraded :: "int \<Rightarrow> tracker \<Rightarrow> int \<Rightarrow> tracker \<times> observation" where
  "observe_degraded reminder t now =
     (let firstMissing = (missing_since t = None);
          since = option_or (missing_since t) now;
          repeatDue = (case last_warning t of None \<Rightarrow> True | Some warned \<Rightarrow> reminder \<le> now - warned)
      in (\<lparr>missing_since = Some since, last_warning = (if repeatDue then Some now else last_warning t)\<rparr>,
          \<lparr>ob_freshness = Degraded,
           ob_event = (if firstMissing then Some Missing else if repeatDue then Some StillMissing else None),
           ob_duration = max 0 (now - since)\<rparr>))"

text \<open>The time of an observation is \<open>None\<close> when it is not a finite number.\<close>

definition observe :: "int \<Rightarrow> tracker \<Rightarrow> freshness \<Rightarrow> int option \<Rightarrow> string + tracker \<times> observation" where
  "observe reminder t fresh nowMs =
     (case nowMs of
        None \<Rightarrow> Inl ''Invalid egress snapshot observation time''
      | Some now \<Rightarrow>
          Inr (case fresh of Authoritative \<Rightarrow> observe_authoritative t now | Degraded \<Rightarrow> observe_degraded reminder t now))"

text \<open>A run of observations, most recent first, and the abstract state it stands for: the time the
  running outage began.\<close>

type_synonym history = "(freshness \<times> int) list"

fun track :: "int \<Rightarrow> history \<Rightarrow> tracker" where
  "track reminder [] = new_tracker"
| "track reminder ((fresh, now) # h) =
     (case observe reminder (track reminder h) fresh (Some now) of Inl e \<Rightarrow> track reminder h | Inr (t, r) \<Rightarrow> t)"

definition running_outage :: "history \<Rightarrow> int list" where
  "running_outage h = map snd (takeWhile (\<lambda>(fresh, now). fresh = Degraded) h)"

text \<open>The warnings given in the running outage, most recent first.\<close>

fun warnings :: "int \<Rightarrow> history \<Rightarrow> int list" where
  "warnings reminder [] = []"
| "warnings reminder ((fresh, now) # h) =
     (case observe reminder (track reminder h) fresh (Some now) of
        Inl e \<Rightarrow> warnings reminder h
      | Inr (t, r) \<Rightarrow>
          (if fresh = Authoritative then []
           else if ob_event r \<noteq> None then now # warnings reminder h else warnings reminder h))"

section \<open>Extending the installed denies\<close>

text \<open>The destinations denied by either chain join the policy of the family.\<close>

definition extend_policy :: "ip_family \<Rightarrow> egress_policy \<Rightarrow> string list \<Rightarrow> egress_policy" where
  "extend_policy family policy installed =
     (case family of
        Family4 \<Rightarrow> policy\<lparr>ep_blocked4 := unique (ep_blocked4 policy @ installed)\<rparr>
      | Family6 \<Rightarrow> policy\<lparr>ep_blocked6 := unique (ep_blocked6 policy @ installed)\<rparr>)"

fun binary_of :: "ip_family \<Rightarrow> string" where
  "binary_of Family4 = ''iptables''"
| "binary_of Family6 = ''ip6tables''"

definition FORWARD_CHAIN :: string where
  "FORWARD_CHAIN = ''RP-TENANT-EGRESS''"

definition HOST_CHAIN :: string where
  "HOST_CHAIN = ''RP-TENANT-HOST''"

text \<open>\<open>chain_text c\<close>: the output of \<open>iptables -S c\<close>, \<open>None\<close> when the command fails; \<open>available\<close>:
  the family's tool and chain exist. The result is the rules that must be present in each chain.\<close>

definition preserved_rules ::
    "bool \<Rightarrow> egress_policy \<Rightarrow> (string \<Rightarrow> string option) \<Rightarrow> tenant_workload list \<Rightarrow> ip_family \<Rightarrow> string + string list list" where
  "preserved_rules available policy chain_text workloads family =
     (if \<not> list_ex (\<lambda>w. option_or (workload_source family w) '''' \<noteq> '''') workloads then Inr []
      else if family = Family6 \<and> \<not> available
        then Inl ''IPv6 protection is unavailable while policy snapshot is missing''
      else
        and_then (traverse
            (\<lambda>chain. case chain_text chain of
               None \<Rightarrow> Inl (''Cannot read '' @ binary_of family @ '' '' @ chain @ '' during policy snapshot outage'')
             | Some out \<Rightarrow> Inr (installedDeniedDestinations out chain family))
            [FORWARD_CHAIN, HOST_CHAIN])
          (\<lambda>installed. Inr (firewallRulesForWorkloads (extend_policy family policy (concat installed)) workloads family)))"

text \<open>Each rule is appended to the chains that lack it.\<close>

fun append_missing :: "(string \<Rightarrow> string list list) \<Rightarrow> (string \<times> string list) list \<Rightarrow> string \<Rightarrow> string list list" where
  "append_missing fw [] = fw"
| "append_missing fw ((chain, rule) # todo) =
     append_missing (if rule \<in> set (fw chain) then fw else fw(chain := fw chain @ [rule])) todo"

definition extend_chains :: "(string \<Rightarrow> string list list) \<Rightarrow> string list list \<Rightarrow> string \<Rightarrow> string list list" where
  "extend_chains fw rules =
     append_missing fw (concat (map (\<lambda>rule. [(FORWARD_CHAIN, rule), (HOST_CHAIN, rule)]) rules))"

section \<open>Words and lines\<close>

definition word_ok :: "string \<Rightarrow> bool" where
  "word_ok w \<longleftrightarrow> w \<noteq> [] \<and> list_all (\<lambda>c. \<not> js_space c) w"

lemma join_words_hd: "ws \<noteq> [] \<Longrightarrow> list_all word_ok ws \<Longrightarrow> join_with '' '' ws \<noteq> [] \<and> \<not> js_space (hd (join_with '' '' ws))"
  by (cases "('' '', ws)" rule: join_with.cases) (auto simp: word_ok_def list_all_iff hd_append)

lemma join_words_last: "ws \<noteq> [] \<Longrightarrow> list_all word_ok ws \<Longrightarrow> \<not> js_space (last (join_with '' '' ws))"
proof (induction "'' ''" ws rule: join_with.induct)
  case (3 w v ws)
  then show ?case using join_words_hd [of "v # ws"] by simp
qed (auto simp: word_ok_def list_all_iff)

lemma split_ws_join: "ws \<noteq> [] \<Longrightarrow> list_all word_ok ws \<Longrightarrow> split_ws (join_with '' '' ws) = ws"
proof (induction "'' ''" ws rule: join_with.induct)
  case (3 w v ws)
  then show ?case using join_words_hd [of "v # ws"] split_ws_append [of w "join_with '' '' (v # ws)"]
    by (simp add: word_ok_def)
qed (auto simp: word_ok_def split_ws_word)

lemma trim_join: "ws \<noteq> [] \<Longrightarrow> list_all word_ok ws \<Longrightarrow> js_trim (join_with '' '' ws) = join_with '' '' ws"
  using join_words_hd [of ws] join_words_last [of ws] by (intro js_trim_id) auto

lemma join_cons: "ws \<noteq> [] \<Longrightarrow> join_with sep (w # ws) = w @ sep @ join_with sep ws"
  by (cases ws) auto

lemma set_join_with: "c \<in> set (join_with sep ws) \<Longrightarrow> c \<in> set sep \<or> (\<exists>w \<in> set ws. c \<in> set w)"
  by (induction sep ws rule: join_with.induct) auto

lemma range_not_space:
  "is_upper c \<or> is_lower c \<or> is_digit c \<or> c \<in> set ''._:!/-'' \<Longrightarrow> \<not> js_space c"
  by (auto simp: is_upper_def is_lower_def is_digit_def js_space_def Let_def)

lemma safe_word: "safe_token s \<Longrightarrow> word_ok s"
  using range_not_space by (auto simp: safe_token_def word_ok_def list_all_iff)

lemma chain_word: "chain_name s \<Longrightarrow> word_ok s"
  using range_not_space by (auto simp: chain_name_def word_ok_def list_all_iff)

lemma word_no_newline: "word_ok s \<Longrightarrow> CHR 0x0A \<notin> set s"
  by (auto simp: word_ok_def list_all_iff js_space_def)

lemma words_no_newline: "list_all word_ok ws \<Longrightarrow> CHR 0x0A \<notin> set (join_with '' '' ws)"
  using word_no_newline by (auto simp: list_all_iff dest!: set_join_with)

definition line_words :: "string \<Rightarrow> string list" where
  "line_words line = split_ws (js_trim line)"

lemma line_words_join: "ws \<noteq> [] \<Longrightarrow> list_all word_ok ws \<Longrightarrow> line_words (join_with '' '' ws) = ws"
  by (simp add: line_words_def trim_join split_ws_join)


section \<open>The rendered transaction\<close>

definition transaction :: "string \<Rightarrow> string \<Rightarrow> string list list \<Rightarrow> string list list" where
  "transaction f h rules =
     [[''*filter''], [''-F'', f], [''-F'', h]] @
     concat (map (\<lambda>rule. [''-A'' # f # rule, ''-A'' # h # rule]) rules) @ [[''COMMIT'']]"

lemma append_line_words: "rule \<noteq> [] \<Longrightarrow> append_line rule chain = join_with '' '' (''-A'' # chain # rule)"
  by (simp add: append_line_def join_cons)

lemma word_ok_consts [simp]: "word_ok ''-A''" "word_ok ''-F''" "word_ok ''*filter''" "word_ok ''COMMIT''"
  by (simp_all add: word_ok_def js_space_def)

lemma transaction_words:
  assumes "list_all chain_name [f, h]" and "list_all (list_all safe_token) rules"
  shows "list_all (list_all word_ok) (transaction f h rules)" "[] \<notin> set (transaction f h rules)"
  using assms chain_word safe_word by (auto simp: transaction_def list_all_iff)

lemma render_lines:
  assumes "renderAtomicEgressRules f h rules = Inr out" and "[] \<notin> set rules"
  shows "split_on CHR 0x0A out = map (join_with '' '') (transaction f h rules) @ ['''']"
proof -
  have ok: "list_all chain_name [f, h]" "list_all (list_all safe_token) rules"
    using assms(1) by (auto simp: renderAtomicEgressRules_def Let_def split: if_splits)
  let ?lines = "map (join_with '' '') (transaction f h rules) @ ['''']"
  have "concat (map (\<lambda>rule. map (append_line rule) [f, h]) rules) =
      map (join_with '' '') (concat (map (\<lambda>rule. [''-A'' # f # rule, ''-A'' # h # rule]) rules))"
    using assms(2) by (induction rules) (auto simp: append_line_words)
  then have "out = join_with newline ?lines"
    using assms(1) ok by (simp add: renderAtomicEgressRules_def Let_def transaction_def)
  moreover have "\<forall>l \<in> set ?lines. CHR 0x0A \<notin> set l"
    using transaction_words(1) [OF ok] words_no_newline by (auto simp: list_all_iff)
  ultimately show ?thesis
    using split_on_join_with [of ?lines "CHR 0x0A"] by (simp add: newline_def)
qed

lemma line_words_transaction:
  assumes "list_all chain_name [f, h]" and "list_all (list_all safe_token) rules"
  shows "map line_words (map (join_with '' '') (transaction f h rules)) = transaction f h rules"
proof -
  have "line_words (join_with '' '' ws) = ws" if "ws \<in> set (transaction f h rules)" for ws
    using transaction_words [OF assms] that by (intro line_words_join) (auto simp: list_all_iff)
  then show ?thesis by (simp add: map_idI)
qed

section \<open>Recovering the denied destinations\<close>

definition denied_words :: "string \<Rightarrow> ip_family \<Rightarrow> string list \<Rightarrow> string option" where
  "denied_words chain family tokens =
     (if take 2 tokens \<noteq> [''-A'', chain] then None
      else (case after_token ''-j'' tokens of
              None \<Rightarrow> None
            | Some action \<Rightarrow>
                (if option_or action '''' \<notin> {''REJECT'', ''DROP''} then None
                 else (case after_token ''-d'' tokens of
                         Some (Some cidr) \<Rightarrow>
                           (if cidr \<noteq> '''' \<and> valid_destination family cidr then Some cidr else None)
                       | _ \<Rightarrow> None))))"

lemma denied_destination_words: "denied_destination chain family line = denied_words chain family (line_words line)"
  by (simp add: denied_destination_def denied_words_def line_words_def Let_def)

lemma sort_unique_set: "set xs = set ys \<Longrightarrow> sort (unique xs) = sort (unique ys)"
  by (intro sorted_distinct_set_unique) auto

lemma valid_destination_option: "valid_destination family cidr \<Longrightarrow> cidr \<noteq> ''-j'' \<and> cidr \<noteq> ''-d'' \<and> cidr \<noteq> ''''"
proof -
  have "isIP ''-j'' = None" "isIP ''-d'' = None" "isIP '''' = None"
    by (simp_all add: isIP_def isIPv4_def isIPv6_def v6_body_def v6_parts_def v6_group_def is_hex_def is_digit_def
        all_digits_def v4_octet_def)
  then show "valid_destination family cidr \<Longrightarrow> ?thesis" by (auto simp: valid_destination_def)
qed

lemma denied_words_rule:
  assumes "chain_name c" and "valid_destination family cidr"
  shows "denied_words chain family (''-A'' # c # deny_rule family source cidr @ extra) = (if c = chain then Some cidr else None)"
proof -
  have c: "c \<noteq> ''-j'' \<and> c \<noteq> ''-d''"
    using assms(1) by (auto simp: chain_name_def is_upper_def is_digit_def)
  have src: "source @ ''/'' @ x \<noteq> ''-j''" "source @ ''/'' @ x \<noteq> ''-d''" for x
    by (auto simp: append_eq_Cons_conv)
  show ?thesis
    using c src valid_destination_option [OF assms(2)] assms(2)
    by (simp add: denied_words_def deny_rule_def option_or_def)
qed

lemma denied_words_other: "hd tokens \<noteq> ''-A'' \<Longrightarrow> denied_words chain family tokens = None"
  by (cases tokens) (auto simp: denied_words_def)

lemma installed_iff:
  "cidr \<in> set (installedDeniedDestinations out chain family) \<longleftrightarrow>
     (\<exists>line \<in> set (split_on CHR 0x0A out). denied_words chain family (line_words line) = Some cidr)"
  by (simp add: installedDeniedDestinations_def set_map_filter_iff denied_destination_words)

definition protected_by :: "ip_family \<Rightarrow> tenant_workload \<Rightarrow> string \<Rightarrow> bool" where
  "protected_by family w source \<longleftrightarrow> workload_source family w = Some source \<and> isIP source = Some family"

lemma rule_iff:
  "rule \<in> set (firewallRulesForWorkloads policy workloads family) \<longleftrightarrow>
     (\<exists>w \<in> set workloads. \<exists>source. protected_by family w source \<and>
        (\<exists>cidr \<in> set (blocked_cidrs family policy). rule = deny_rule family source cidr))"
proof -
  have e: "isIP '''' = None" by (simp add: isIP_def isIPv4_def isIPv6_def v6_body_def v6_parts_def)
  have "rule \<in> set (workload_rules policy family w) \<longleftrightarrow>
      (\<exists>source. protected_by family w source \<and> (\<exists>cidr \<in> set (blocked_cidrs family policy). rule = deny_rule family source cidr))" for w
    using e by (cases "workload_source family w") (auto simp: workload_rules_def protected_by_def)
  then show ?thesis by (auto simp: firewallRulesForWorkloads_def)
qed

lemma rules_not_Nil: "[] \<notin> set (firewallRulesForWorkloads policy workloads family)"
  by (auto simp: rule_iff deny_rule_def)

lemma recovered:
  assumes "renderAtomicEgressRules f h (firewallRulesForWorkloads policy workloads family) = Inr out"
    and "chain \<in> {f, h}" and "list_all (valid_destination family) (blocked_cidrs family policy)"
    and "w \<in> set workloads" and "protected_by family w source"
  shows "installedDeniedDestinations out chain family = sort (unique (blocked_cidrs family policy))"
proof -
  let ?rules = "firewallRulesForWorkloads policy workloads family"
  have ok: "list_all chain_name [f, h]" "list_all (list_all safe_token) ?rules"
    using assms(1) by (auto simp: renderAtomicEgressRules_def Let_def split: if_splits)
  have lines: "set (map line_words (split_on CHR 0x0A out)) = set (transaction f h ?rules) \<union> {['''']}"
    unfolding render_lines [OF assms(1) rules_not_Nil] map_append set_append line_words_transaction [OF ok]
    by (simp add: line_words_def js_trim_def)
  have "cidr \<in> set (installedDeniedDestinations out chain family) \<longleftrightarrow> cidr \<in> set (blocked_cidrs family policy)" for cidr
  proof -
    have "cidr \<in> set (installedDeniedDestinations out chain family) \<longleftrightarrow>
        (\<exists>ws \<in> set (map line_words (split_on CHR 0x0A out)). denied_words chain family ws = Some cidr)"
      by (auto simp: installed_iff)
    also have "\<dots> \<longleftrightarrow> (\<exists>rule \<in> set ?rules. \<exists>c \<in> {f, h}. denied_words chain family (''-A'' # c # rule) = Some cidr)"
      unfolding lines by (auto simp: transaction_def denied_words_other)
    also have "\<dots> \<longleftrightarrow> cidr \<in> set (blocked_cidrs family policy)"
    proof
      assume "\<exists>rule \<in> set ?rules. \<exists>c \<in> {f, h}. denied_words chain family (''-A'' # c # rule) = Some cidr"
      then obtain rule c where r: "rule \<in> set ?rules" "c \<in> {f, h}" "denied_words chain family (''-A'' # c # rule) = Some cidr"
        by blast
      from r(1) obtain src d where d: "d \<in> set (blocked_cidrs family policy)" "rule = deny_rule family src d"
        unfolding rule_iff by blast
      note x = r(2) d(1) r(3) [unfolded d(2)]
      have "chain_name c" "valid_destination family d" using x(1,2) ok(1) assms(3) by (auto simp: list_all_iff)
      from denied_words_rule [OF this, of chain src "[]"] x(2,3)
      show "cidr \<in> set (blocked_cidrs family policy)" by (auto split: if_splits)
    next
      assume c: "cidr \<in> set (blocked_cidrs family policy)"
      have "chain_name chain" "valid_destination family cidr" using c ok(1) assms(2,3) by (auto simp: list_all_iff)
      from denied_words_rule [OF this, of chain source "[]"]
      have "denied_words chain family (''-A'' # chain # deny_rule family source cidr) = Some cidr" by simp
      moreover have "deny_rule family source cidr \<in> set ?rules" using assms(4,5) c by (auto simp: rule_iff)
      ultimately show "\<exists>rule \<in> set ?rules. \<exists>c \<in> {f, h}. denied_words chain family (''-A'' # c # rule) = Some cidr"
        using assms(2) by blast
    qed
    finally show ?thesis .
  qed
  then have "set (List.map_filter (denied_destination chain family) (split_on CHR 0x0A out)) = set (blocked_cidrs family policy)"
    by (auto simp: installedDeniedDestinations_def)
  then show ?thesis unfolding installedDeniedDestinations_def by (rule sort_unique_set)
qed

section \<open>Extending the chains\<close>

text \<open>\<open>iptables -S\<close> prints every rule of the chain on a line of its own, possibly with further words
  such as \<open>--reject-with\<close>.\<close>

definition lists_rules :: "string \<Rightarrow> string \<Rightarrow> string list list \<Rightarrow> bool" where
  "lists_rules out chain rules \<longleftrightarrow>
     (\<forall>rule \<in> set rules. \<exists>line \<in> set (split_on CHR 0x0A out). \<exists>extra. line_words line = ''-A'' # chain # rule @ extra)"

lemma listed_recovered:
  assumes "lists_rules out chain (firewallRulesForWorkloads policy workloads family)" and "chain_name chain"
    and "list_all (valid_destination family) (blocked_cidrs family policy)"
    and "w \<in> set workloads" and "protected_by family w source" and "cidr \<in> set (blocked_cidrs family policy)"
  shows "cidr \<in> set (installedDeniedDestinations out chain family)"
proof -
  have "deny_rule family source cidr \<in> set (firewallRulesForWorkloads policy workloads family)"
    using assms(4-6) by (auto simp: rule_iff)
  then obtain line extra where "line \<in> set (split_on CHR 0x0A out)" "line_words line = ''-A'' # chain # deny_rule family source cidr @ extra"
    using assms(1) by (auto simp: lists_rules_def)
  moreover have "valid_destination family cidr" using assms(3,6) by (auto simp: list_all_iff)
  ultimately show ?thesis using denied_words_rule [OF assms(2), of family cidr chain source extra] unfolding installed_iff by force
qed

lemma append_missing_keeps: "\<exists>added. append_missing fw todo c = fw c @ added"
proof (induction todo arbitrary: fw)
  case (Cons x todo)
  obtain chain rule where x: "x = (chain, rule)" by fastforce
  obtain more where more: "append_missing (fw(chain := fw chain @ [rule])) todo c = (fw(chain := fw chain @ [rule])) c @ more"
    using Cons.IH by blast
  show ?case
  proof (cases "rule \<in> set (fw chain)")
    case True
    then show ?thesis using Cons.IH [of fw] by (simp add: x)
  next
    case False
    have "append_missing fw (x # todo) c = (fw(chain := fw chain @ [rule])) c @ more"
      using False more by (simp only: x append_missing.simps if_False)
    then show ?thesis by (cases "c = chain") auto
  qed
qed simp

lemma append_missing_adds: "(c, rule) \<in> set todo \<Longrightarrow> rule \<in> set (append_missing fw todo c)"
proof (induction todo arbitrary: fw)
  case (Cons x todo)
  obtain chain r where x: "x = (chain, r)" by fastforce
  show ?case
  proof (cases "x = (c, rule)")
    case True
    then show ?thesis
      using append_missing_keeps [of fw todo c] append_missing_keeps [of "fw(c := fw c @ [rule])" todo c] by auto
  qed (use Cons x in auto)
qed simp

lemma extend_chains_keeps: "\<exists>added. extend_chains fw rules c = fw c @ added"
  unfolding extend_chains_def by (rule append_missing_keeps)

lemma extend_chains_adds: "rule \<in> set rules \<Longrightarrow> c \<in> {FORWARD_CHAIN, HOST_CHAIN} \<Longrightarrow> rule \<in> set (extend_chains fw rules c)"
  unfolding extend_chains_def by (rule append_missing_adds) auto

lemma blocked_extend: "set (blocked_cidrs family (extend_policy family policy installed)) = set (blocked_cidrs family policy) \<union> set installed"
  by (cases family) (auto simp: extend_policy_def)

lemma guard_chain_names [simp]: "chain_name FORWARD_CHAIN" "chain_name HOST_CHAIN"
  by (simp_all add: chain_name_def FORWARD_CHAIN_def HOST_CHAIN_def is_upper_def)


section \<open>The tracker\<close>

lemma track_Cons [simp]:
  "track r ((Authoritative, now) # h) = new_tracker"
  "track r ((Degraded, now) # h) = fst (observe_degraded r (track r h) now)"
  by (simp_all add: observe_def observe_authoritative_def new_tracker_def split: prod.splits)

lemma running_outage_Cons [simp]:
  "running_outage [] = []" "running_outage ((Authoritative, now) # h) = []"
  "running_outage ((Degraded, now) # h) = now # running_outage h"
  by (simp_all add: running_outage_def)

lemma warnings_Cons [simp]:
  "warnings r ((Authoritative, now) # h) = []"
  "warnings r ((Degraded, now) # h) =
     (if ob_event (snd (observe_degraded r (track r h) now)) \<noteq> None then now # warnings r h else warnings r h)"
  by (simp_all add: observe_def observe_authoritative_def split: prod.splits)

declare track.simps(2) [simp del] warnings.simps(2) [simp del]

fun spaced :: "int \<Rightarrow> int list \<Rightarrow> bool" where
  "spaced r (later # earlier # ws) \<longleftrightarrow> r \<le> later - earlier \<and> spaced r (earlier # ws)"
| "spaced r _ \<longleftrightarrow> True"

definition tracker_spec :: "int \<Rightarrow> history \<Rightarrow> bool" where
  "tracker_spec r h \<longleftrightarrow>
     missing_since (track r h) = (if running_outage h = [] then None else Some (last (running_outage h))) \<and>
     last_warning (track r h) = head_opt (warnings r h) \<and>
     set (warnings r h) \<subseteq> set (running_outage h) \<and> spaced r (warnings r h) \<and>
     (running_outage h \<noteq> [] \<longrightarrow> warnings r h \<noteq> [] \<and> last (warnings r h) = last (running_outage h) \<and>
        (hd (warnings r h) = hd (running_outage h) \<or> hd (running_outage h) - hd (warnings r h) < r))"

lemma tracker_ok: "tracker_spec r h"
proof (induction h)
  case Nil
  show ?case by (simp add: tracker_spec_def new_tracker_def)
next
  case (Cons x h)
  obtain fresh now where x: "x = (fresh, now)" by fastforce
  show ?case
  proof (cases fresh)
    case Authoritative
    then show ?thesis by (simp add: x tracker_spec_def new_tracker_def)
  next
    case Degraded
    show ?thesis
    proof (cases "running_outage h")
      case Nil
      then have "warnings r h = []" "missing_since (track r h) = None" "last_warning (track r h) = None"
        using Cons.IH by (auto simp: tracker_spec_def)
      then show ?thesis using Nil Degraded by (simp add: x tracker_spec_def observe_degraded_def Let_def)
    next
      case (Cons o1 os)
      then obtain w ws where w: "warnings r h = w # ws"
        using Cons.IH by (cases "warnings r h") (auto simp: tracker_spec_def)
      show ?thesis
        using Cons w Cons.IH Degraded
        by (auto simp: x tracker_spec_def observe_degraded_def Let_def)
    qed
  qed
qed

section \<open>Properties\<close>

text \<open>
  The tracker reports outages as they are: after any history, an observation reports the start
  of an outage, its end or a reminder exactly when one is due, with the time since the outage began;
  the warnings of an outage begin with it and are at least the reminder interval apart, and none is
  overdue.
\<close>

lemma tracker_follows_outages:
  "case observe r (track r h) fresh (Some now) of
     Inl e \<Rightarrow> False
   | Inr (t, ob) \<Rightarrow>
       t = track r ((fresh, now) # h) \<and>
       ob_event ob =
         (case fresh of
            Authoritative \<Rightarrow> (if running_outage h = [] then None else Some Restored)
          | Degraded \<Rightarrow> (if running_outage h = [] then Some Missing
                         else if r \<le> now - hd (warnings r h) then Some StillMissing else None)) \<and>
       ob_duration ob = (if running_outage h = [] then 0 else max 0 (now - last (running_outage h))) \<and>
       spaced r (warnings r h) \<and>
       (running_outage h = [] \<or>
         last (warnings r h) = last (running_outage h) \<and>
         (hd (warnings r h) = hd (running_outage h) \<or> hd (running_outage h) - hd (warnings r h) < r))"
proof -
  note ok = tracker_ok [of r h, unfolded tracker_spec_def]
  have o: "case observe r (track r h) fresh (Some now) of Inl e \<Rightarrow> False | Inr (t, ob) \<Rightarrow> t = track r ((fresh, now) # h)"
    by (cases fresh) (auto simp: observe_def observe_authoritative_def new_tracker_def split: prod.splits)
  show ?thesis
  proof (cases "running_outage h")
    case Nil
    then have "warnings r h = []" using ok by simp
    then show ?thesis
      using o ok Nil by (cases fresh) (auto simp: observe_def observe_authoritative_def observe_degraded_def Let_def)
  next
    case (Cons o1 os)
    then obtain w ws where "warnings r h = w # ws" using ok by (cases "warnings r h") auto
    then show ?thesis
      using o ok Cons by (cases fresh) (auto simp: observe_def observe_authoritative_def observe_degraded_def Let_def)
  qed
qed

text \<open>
  Tenant egress is denied: whatever the encoded policy holds, the policy applied is enabled, and
  the rules are exactly one deny per blocked destination for every address of every container that
  carries a tenant label, none for any other container.
\<close>

lemma tenant_egress_is_denied:
  fixes collate :: "string \<Rightarrow> 'k :: linorder"
  shows "ep_enabled (decodeEgressPolicy parse encoded) \<and>
    (rule \<in> set (firewallRulesForWorkloads (decodeEgressPolicy parse encoded) (tenantWorkloads collate containers gateway) family) \<longleftrightarrow>
      (\<exists>container \<in> set containers. \<exists>w source. \<exists>cidr \<in> set (blocked_cidrs family (decodeEgressPolicy parse encoded)).
         workload_of (option_or gateway Map.empty) container = Some w \<and> workload_source family w = Some source \<and>
         isIP source = Some family \<and> rule = deny_rule family source cidr))"
proof -
  have "ep_enabled (decodeEgressPolicy parse encoded)"
    by (simp add: decodeEgressPolicy_def DEFAULT_EGRESS_POLICY_def split: option.splits)
  moreover have "w \<in> set (tenantWorkloads collate containers gateway) \<longleftrightarrow>
      (\<exists>container \<in> set containers. workload_of (option_or gateway Map.empty) container = Some w)" for w
    by (simp add: tenantWorkloads_def set_map_filter_iff)
  ultimately show ?thesis unfolding rule_iff protected_by_def by blast
qed

text \<open>
  C38. The rendered firewall update is one transaction that says what it means: rendering fails exactly
  when a chain name or a token is unsafe; otherwise its lines, read back word by word, flush both
  chains once, append every rule to both of them in order, and commit.
\<close>

theorem firewall_transaction:
  assumes "[] \<notin> set rules"
  shows "case renderAtomicEgressRules f h rules of
      Inl e \<Rightarrow> \<not> (chain_name f \<and> chain_name h \<and> list_all (list_all safe_token) rules)
    | Inr out \<Rightarrow>
        chain_name f \<and> chain_name h \<and> list_all (list_all safe_token) rules \<and>
        map line_words (split_on CHR 0x0A out) =
          [[''*filter''], [''-F'', f], [''-F'', h]] @
          concat (map (\<lambda>rule. [''-A'' # f # rule, ''-A'' # h # rule]) rules) @ [[''COMMIT''], ['''']]"
proof (cases "renderAtomicEgressRules f h rules")
  case (Inl e)
  then show ?thesis by (auto simp: renderAtomicEgressRules_def Let_def split: if_splits)
next
  case (Inr out)
  then have ok: "list_all chain_name [f, h]" "list_all (list_all safe_token) rules"
    by (auto simp: renderAtomicEgressRules_def Let_def split: if_splits)
  have "map line_words (split_on CHR 0x0A out) = transaction f h rules @ [['''']]"
    unfolding render_lines [OF Inr assms] map_append line_words_transaction [OF ok]
    by (simp add: line_words_def js_trim_def)
  then show ?thesis using Inr ok by (simp add: transaction_def)
qed

text \<open>
  The denied destinations read back from a chain the guard has installed are exactly the blocked
  destinations of its policy, sorted and without repetition, as soon as one workload is protected.
\<close>

lemma denied_destinations_recovered:
  assumes "renderAtomicEgressRules f h (firewallRulesForWorkloads policy workloads family) = Inr out"
    and "chain \<in> {f, h}" and "list_all (valid_destination family) (blocked_cidrs family policy)"
    and "w \<in> set workloads" and "workload_source family w = Some source" and "isIP source = Some family"
  shows "installedDeniedDestinations out chain family = sort (unique (blocked_cidrs family policy))"
  using recovered [OF assms(1-4)] assms(5,6) by (simp add: protected_by_def)

text \<open>
  C37. While the snapshot is missing nothing is loosened: if both chains list the rules of an earlier
  policy, the guard computes rules that deny every current workload both the destinations denied
  before and those of its fallback policy, and adding them to the chains keeps every installed rule.
\<close>

theorem outage_keeps_denying:
  assumes "\<forall>c \<in> {FORWARD_CHAIN, HOST_CHAIN}. \<exists>out. chain_text c = Some out \<and>
      lists_rules out c (firewallRulesForWorkloads old oldWorkloads family)"
    and "list_all (valid_destination family) (blocked_cidrs family old)"
    and "w \<in> set oldWorkloads" and "workload_source family w = Some source" and "isIP source = Some family"
    and "family = Family4 \<or> available"
    and "v \<in> set workloads" and "workload_source family v = Some s" and "isIP s = Some family"
  shows "\<exists>rules. preserved_rules available policy chain_text workloads family = Inr rules \<and>
    (\<forall>cidr \<in> set (blocked_cidrs family old) \<union> set (blocked_cidrs family policy). \<forall>c \<in> {FORWARD_CHAIN, HOST_CHAIN}.
       deny_rule family s cidr \<in> set (extend_chains fw rules c)) \<and>
    (\<forall>c. \<exists>added. extend_chains fw rules c = fw c @ added)"
proof -
  obtain o1 o2 where t: "chain_text FORWARD_CHAIN = Some o1" "chain_text HOST_CHAIN = Some o2"
    and l: "lists_rules o1 FORWARD_CHAIN (firewallRulesForWorkloads old oldWorkloads family)"
    using assms(1) by blast
  define installed where "installed = concat [installedDeniedDestinations o1 FORWARD_CHAIN family,
      installedDeniedDestinations o2 HOST_CHAIN family]"
  define rules where "rules = firewallRulesForWorkloads (extend_policy family policy installed) workloads family"
  have "isIP '''' = None" by (simp add: isIP_def isIPv4_def isIPv6_def v6_body_def v6_parts_def)
  then have "list_ex (\<lambda>w. option_or (workload_source family w) '''' \<noteq> '''') workloads"
    using assms(7-9) by (force simp: list_ex_iff)
  then have r: "preserved_rules available policy chain_text workloads family = Inr rules"
    using assms(6) by (auto simp: preserved_rules_def t rules_def installed_def)
  have "deny_rule family s cidr \<in> set rules"
    if "cidr \<in> set (blocked_cidrs family old) \<union> set (blocked_cidrs family policy)" for cidr
  proof -
    have "cidr \<in> set installed" if "cidr \<in> set (blocked_cidrs family old)"
      using listed_recovered [OF l _ assms(2,3) _ that] assms(4,5) by (simp add: protected_by_def installed_def)
    then show ?thesis
      using that assms(7-9) unfolding rules_def rule_iff protected_by_def blocked_extend by blast
  qed
  then show ?thesis using r extend_chains_adds extend_chains_keeps by blast
qed


section \<open>Witnesses\<close>

lemma rendered_lists_rules:
  assumes "renderAtomicEgressRules f h rules = Inr out" and "[] \<notin> set rules" and "c \<in> {f, h}"
  shows "lists_rules out c rules"
proof -
  have ok: "list_all chain_name [f, h]" "list_all (list_all safe_token) rules"
    using assms(1) by (auto simp: renderAtomicEgressRules_def Let_def split: if_splits)
  have "\<exists>line \<in> set (split_on CHR 0x0A out). line_words line = ''-A'' # c # rule" if "rule \<in> set rules" for rule
  proof -
    have "''-A'' # c # rule \<in> set (map line_words (map (join_with '' '') (transaction f h rules)))"
      unfolding line_words_transaction [OF ok] using that assms(3) by (auto simp: transaction_def)
    then show ?thesis unfolding render_lines [OF assms(1,2)] by force
  qed
  then show ?thesis unfolding lists_rules_def by (metis append_Nil2)
qed

definition sample_workload :: tenant_workload where
  "sample_workload = \<lparr>tw_container = ''c1'', tw_app_group = ''g1'', tw_ipv4 = Some ''172.18.0.5'', tw_ipv6 = None\<rparr>"

definition sample_policy :: egress_policy where
  "sample_policy = DEFAULT_EGRESS_POLICY\<lparr>ep_blocked4 := [''203.0.113.0/24'', ''10.0.0.0/8'']\<rparr>"

lemmas egress_eval = isIP_def isIPv4_def v4_octet_def all_digits_def is_digit_def digit_val_def

lemma sample_addresses [simp]:
  "isIP ''172.18.0.5'' = Some Family4" "tw_ipv4 sample_workload = Some ''172.18.0.5''"
  "ep_blocked4 sample_policy = [''203.0.113.0/24'', ''10.0.0.0/8'']"
  "valid_destination Family4 ''203.0.113.0/24''" "valid_destination Family4 ''10.0.0.0/8''"
  by (simp_all add: egress_eval sample_workload_def sample_policy_def valid_destination_def Let_def)

lemma sample_rules:
  "firewallRulesForWorkloads sample_policy [sample_workload] Family4 =
     [deny_rule Family4 ''172.18.0.5'' ''203.0.113.0/24'', deny_rule Family4 ''172.18.0.5'' ''10.0.0.0/8'']"
  by (simp add: firewallRulesForWorkloads_def workload_rules_def)

lemma safe_source: "safe_token s \<Longrightarrow> safe_token (s @ ''/'' @ show_nat n)"
  using show_nat_digits [of n] by (auto simp: safe_token_def list_all_iff)

lemma sample_safe: "list_all (list_all safe_token) (firewallRulesForWorkloads sample_policy [sample_workload] Family4)"
proof -
  have "safe_token ''172.18.0.5''" by (simp add: safe_token_def is_digit_def)
  from safe_source [OF this, of 32] show ?thesis
    by (simp add: sample_rules deny_rule_def) (simp add: safe_token_def is_upper_def is_lower_def is_digit_def)
qed

lemma sample_text:
  obtains out where "renderAtomicEgressRules FORWARD_CHAIN HOST_CHAIN
      (firewallRulesForWorkloads sample_policy [sample_workload] Family4) = Inr out"
  using sample_safe by (simp add: renderAtomicEgressRules_def Let_def)

theorem firewall_transaction_witness:
  "\<exists>out. renderAtomicEgressRules FORWARD_CHAIN HOST_CHAIN [[''-j'', ''DROP'']] = Inr out \<and>
    map line_words (split_on CHR 0x0A out) =
      [[''*filter''], [''-F'', FORWARD_CHAIN], [''-F'', HOST_CHAIN],
       [''-A'', FORWARD_CHAIN, ''-j'', ''DROP''], [''-A'', HOST_CHAIN, ''-j'', ''DROP''], [''COMMIT''], ['''']]"
proof -
  have "list_all (list_all safe_token) [[''-j'', ''DROP'']]"
    by (simp add: safe_token_def is_upper_def is_lower_def is_digit_def)
  then show ?thesis
    using firewall_transaction [of "[[''-j'', ''DROP'']]" FORWARD_CHAIN HOST_CHAIN] by (auto split: sum.splits)
qed

theorem outage_keeps_denying_witness:
  "\<exists>chain_text rules. preserved_rules True DEFAULT_EGRESS_POLICY chain_text [sample_workload] Family4 = Inr rules \<and>
    deny_rule Family4 ''172.18.0.5'' ''203.0.113.0/24'' \<in> set (extend_chains (\<lambda>c. []) rules HOST_CHAIN)"
proof -
  let ?rules = "firewallRulesForWorkloads sample_policy [sample_workload] Family4"
  obtain out where out: "renderAtomicEgressRules FORWARD_CHAIN HOST_CHAIN ?rules = Inr out" by (rule sample_text)
  have "\<forall>c \<in> {FORWARD_CHAIN, HOST_CHAIN}. \<exists>out2. Some out = Some out2 \<and> lists_rules out2 c ?rules"
    using rendered_lists_rules [OF out rules_not_Nil] by auto
  from outage_keeps_denying [of "\<lambda>c. Some out", OF this, of sample_workload "''172.18.0.5''" True sample_workload
      "[sample_workload]" "''172.18.0.5''" DEFAULT_EGRESS_POLICY "\<lambda>c. []"]
  show ?thesis by auto
qed

end
