(* ===== verification/Rollout.thy ===== *)
theory Rollout
  imports JsStrings JsNumerals "HOL-Library.Multiset"
begin

text \<open>
  \<open>internal/stack-rollout.service.ts\<close> and \<open>app-groups/runtime-drift.ts\<close>: waiting for a Docker
  stack to converge, checking that removed GPU services have no running task, and comparing the
  observed services with the expected ones. What a \<open>docker\<close> command prints is given to the model;
  \<open>parse_row\<close> stands for \<open>JSON.parse\<close> of a line (\<open>None\<close>: it throws). A polling loop need not end
  for every interval, so its result is an option: \<open>None\<close> means that it never returns.
\<close>

section \<open>Configuration\<close>

text \<open>\<open>Number\<close> rounds to the nearest double: what is at least half way beyond the greatest one is infinite, what
  is at most half the least positive one is zero, and neither is taken. In between, a numeral of up to
  fifteen digits is read exactly.\<close>

definition positive_finite :: "rat \<Rightarrow> bool" where
  "positive_finite x \<longleftrightarrow> 1 / 2 ^ 1075 < x \<and> x < 2 ^ 1024 - 2 ^ 970"

definition positiveIntegerConfig :: "string option \<Rightarrow> int \<Rightarrow> int" where
  "positiveIntegerConfig raw fallback =
     (case raw of
        None \<Rightarrow> fallback
      | Some text \<Rightarrow>
          (if text = '''' then fallback
           else (case js_number text of
                   None \<Rightarrow> fallback
                 | Some parsed \<Rightarrow> (if positive_finite parsed then \<lfloor>parsed\<rfloor> else fallback))))"

section \<open>Service rows\<close>

record docker_result =
  dr_exitCode :: int
  dr_stdout :: string
  dr_stderr :: string

record service_row =
  sv_name :: "string option"
  sv_replicas :: "string option"

record expected_service =
  ex_name :: string
  ex_desiredReplicas :: int

record rollout_result =
  ro_success :: bool
  ro_message :: string
  ro_details :: string

definition MAX_SAFE_INTEGER :: nat where
  "MAX_SAFE_INTEGER = 9007199254740991"

definition parseReplicas :: "string option \<Rightarrow> (nat \<times> nat) option" where
  "parseReplicas value =
     (case value of
        None \<Rightarrow> None
      | Some text \<Rightarrow>
          (case split_on CHR ''/'' (js_trim text) of
             [a, b] \<Rightarrow>
               (if all_digits a \<and> all_digits b \<and> parse_dec 0 a \<le> MAX_SAFE_INTEGER \<and> parse_dec 0 b \<le> MAX_SAFE_INTEGER
                then Some (parse_dec 0 a, parse_dec 0 b) else None)
           | _ \<Rightarrow> None))"

definition non_empty_lines :: "string \<Rightarrow> string list" where
  "non_empty_lines s = filter (\<lambda>l. l \<noteq> '''') (split_on CHR 0x0A s)"

definition parseServiceRows :: "(string \<Rightarrow> service_row option) \<Rightarrow> string \<Rightarrow> string + service_row list" where
  "parseServiceRows parse_row stdout =
     traverse (\<lambda>line. case parse_row line of None \<Rightarrow> Inl ''Unexpected token in JSON'' | Some r \<Rightarrow> Inr r)
       (filter (\<lambda>l. l \<noteq> '''') (map js_trim (split_on CHR 0x0A stdout)))"

text \<open>One expected service: whether it is ready, and the line added to the details.\<close>

definition evaluate_expected :: "service_row list \<Rightarrow> expected_service \<Rightarrow> bool \<times> string" where
  "evaluate_expected rows e =
     (case js_map_get (map (\<lambda>r. (sv_name r, r)) rows) (Some (ex_name e)) of
        None \<Rightarrow> (False, ex_name e @ '': missing'')
      | Some service \<Rightarrow>
          (case parseReplicas (sv_replicas service) of
             None \<Rightarrow> (False, ex_name e @ '': invalid replicas ('' @ option_or (sv_replicas service) ''unknown'' @ '')'')
           | Some (running, desired) \<Rightarrow>
               (int running = ex_desiredReplicas e \<and> int desired = ex_desiredReplicas e,
                ex_name e @ '': '' @ show_nat running @ ''/'' @ show_nat desired @ '' replicas'')))"

definition evaluate_row :: "expected_service list \<Rightarrow> service_row \<Rightarrow> string option" where
  "evaluate_row expected row =
     (case sv_name row of
        None \<Rightarrow> Some ''unknown: unexpected service''
      | Some name \<Rightarrow>
          (if name = '''' \<or> name \<notin> ex_name ` set expected then Some (name @ '': unexpected service'') else None))"

definition evaluateServices :: "service_row list \<Rightarrow> expected_service list \<Rightarrow> bool \<times> string" where
  "evaluateServices rows expected =
     (let found = map (evaluate_expected rows) expected;
          extra = List.map_filter (evaluate_row expected) rows
      in (list_all fst found \<and> extra = [], join_with [CHR 0x0A] (map snd found @ extra)))"

section \<open>Polling\<close>

text \<open>One poll: what the command prints, and the milliseconds it takes.\<close>

record rollout_poll =
  po_result :: docker_result
  po_elapsed :: nat

definition poll_details :: "docker_result \<Rightarrow> string" where
  "poll_details r =
     (if dr_stderr r \<noteq> '''' then dr_stderr r
      else if dr_stdout r \<noteq> '''' then dr_stdout r
      else ''Exit code '' @ show_int (dr_exitCode r))"

record rollout_env =
  re_parse_row :: "string \<Rightarrow> service_row option"
  re_expected :: "expected_service list"
  re_deadline :: int
  re_interval :: int
  re_checks :: int
  re_poll :: "nat \<Rightarrow> rollout_poll"

text \<open>The \<open>while\<close> loop at its \<open>i\<close>-th poll, at time \<open>now\<close>, after \<open>ready\<close> consecutive ready polls.\<close>

partial_function (option) rollout_loop ::
    "rollout_env \<Rightarrow> nat \<Rightarrow> int \<Rightarrow> int \<Rightarrow> string \<Rightarrow> (string + rollout_result) option" where
  "rollout_loop env i now ready lastDetails =
     (if re_deadline env < now
      then Some (Inr \<lparr>ro_success = False, ro_message = ''Rollout timed out'',
             ro_details = (if lastDetails = '''' then ''No rollout status available'' else lastDetails)\<rparr>)
      else
        (let result = po_result (re_poll env i) in
         if dr_exitCode result \<noteq> 0
         then Some (Inr \<lparr>ro_success = False, ro_message = ''Docker stack services failed'', ro_details = poll_details result\<rparr>)
         else
           (case parseServiceRows (re_parse_row env) (dr_stdout result) of
              Inl e \<Rightarrow> Some (Inl e)
            | Inr rows \<Rightarrow>
                (case evaluateServices rows (re_expected env) of
                   (success, details) \<Rightarrow>
                     (let consecutive = (if success then ready + 1 else 0) in
                      if re_checks env \<le> consecutive
                      then Some (Inr \<lparr>ro_success = True, ro_message = ''Rollout completed'', ro_details = details\<rparr>)
                      else rollout_loop env (Suc i) (now + int (po_elapsed (re_poll env i)) + re_interval env)
                             consecutive details)))))"

definition stability_checks :: "int option \<Rightarrow> int" where
  "stability_checks checks = max 1 (min 10 (option_or checks 1))"

definition waitForRollout ::
    "(string \<Rightarrow> string option) \<Rightarrow> (string \<Rightarrow> service_row option) \<Rightarrow> (nat \<Rightarrow> rollout_poll) \<Rightarrow> int \<Rightarrow>
     expected_service list \<Rightarrow> int option \<Rightarrow> (string + rollout_result) option" where
  "waitForRollout config parse_row polls now expected checks =
     rollout_loop
       \<lparr>re_parse_row = parse_row, re_expected = expected,
        re_deadline = now + positiveIntegerConfig (config ''DOCKER_ROLLOUT_TIMEOUT_MS'') 300000,
        re_interval = positiveIntegerConfig (config ''DOCKER_ROLLOUT_POLL_INTERVAL_MS'') 5000,
        re_checks = stability_checks checks, re_poll = polls\<rparr> 0 now 0 ''''"

section \<open>Removed GPU services\<close>

definition docker_name :: "string \<Rightarrow> bool" where
  "docker_name s \<longleftrightarrow> s \<noteq> [] \<and> length s \<le> 128 \<and>
     list_all (\<lambda>c. is_lower c \<or> is_digit c \<or> c = CHR ''_'' \<or> c = CHR ''-'') s"

text \<open>\<open>s.replace(/\s+\*$/, "")\<close>.\<close>

definition strip_star :: "string \<Rightarrow> string" where
  "strip_star s =
     (if s \<noteq> [] \<and> last s = CHR ''*''
      then (let head = rev (dropWhile js_space (rev (butlast s)))
            in if length head < length (butlast s) then head else s)
      else s)"

definition node_id :: "string \<Rightarrow> bool" where
  "node_id s \<longleftrightarrow> 20 \<le> length s \<and> length s \<le> 40 \<and> list_all (\<lambda>c. is_lower c \<or> is_digit c) s"

text \<open>The id of a node line, \<open>None\<close> when the node is not ready and active.\<close>

definition parse_node_line :: "string \<Rightarrow> string option" where
  "parse_node_line line =
     (case split_on CHR ''|'' line of
        rawId # status # availability # _ \<Rightarrow>
          (let i = strip_star (js_trim rawId)
           in if node_id i \<and> status = ''Ready'' \<and> availability = ''Active'' then Some i else None)
      | _ \<Rightarrow> None)"

text \<open>\<open>/^(?:Shutdown|Complete|Failed|Rejected)\b/i\<close>.\<close>

definition stopped_state :: "string \<Rightarrow> bool" where
  "stopped_state s \<longleftrightarrow>
     list_ex (\<lambda>w. starts_with (toLowerCase s) w \<and> (length s = length w \<or> \<not> is_word_char (s ! length w)))
       [''shutdown'', ''complete'', ''failed'', ''rejected'']"

definition task_stopped :: "string list \<Rightarrow> string \<Rightarrow> bool" where
  "task_stopped services line =
     (case split_on CHR ''|'' line of
        name # rest \<Rightarrow>
          (if name = '''' \<or> \<not> list_ex (\<lambda>service. starts_with name (service @ ''.'')) services then True
           else (case rest of state # _ \<Rightarrow> state \<noteq> '''' \<and> stopped_state state | [] \<Rightarrow> False))
      | [] \<Rightarrow> True)"

definition verifyRemovedGpuServiceTasks ::
    "docker_result \<Rightarrow> docker_result \<Rightarrow> (string \<Rightarrow> docker_result) \<Rightarrow> string \<Rightarrow> string list \<Rightarrow> bool" where
  "verifyRemovedGpuServiceTasks nodes cur tasks stackName removed =
     (if removed = [] then True
      else if \<not> docker_name stackName \<or> \<not> list_all docker_name removed then False
      else
        (let services = map (\<lambda>name. stackName @ ''_'' @ name) removed in
         if dr_exitCode nodes \<noteq> 0 \<or> js_trim (dr_stdout nodes) = '''' then False
         else
           (let parsed = map parse_node_line (non_empty_lines (dr_stdout nodes)) in
            if None \<in> set parsed then False
            else
              (let ids = map the parsed in
               if ids = [] \<or> 128 < length ids then False
               else if dr_exitCode cur \<noteq> 0 \<or> list_ex (\<lambda>name. name \<in> set services) (non_empty_lines (dr_stdout cur))
               then False
               else list_all (\<lambda>i. dr_exitCode (tasks i) = 0 \<and>
                      list_all (task_stopped services) (non_empty_lines (dr_stdout (tasks i)))) ids))))"

section \<open>Drift\<close>

record runtime_service =
  rt_name :: string
  rt_image :: string
  rt_desiredReplicas :: int

datatype drift_status = InSync | Drifted | DriftUnknown

text \<open>\<open>image.replace(/@sha256:[a-f0-9]+$/i, "")\<close>: the pattern has no other \<open>@\<close>, so it can only match
  from the last one on.\<close>

definition normalizeImage :: "string \<Rightarrow> string" where
  "normalizeImage img =
     (case rev (split_on CHR ''@'' img) of
        digest # part # parts \<Rightarrow>
          (if starts_with (toLowerCase digest) ''sha256:'' \<and> 7 < length digest \<and> list_all is_hex (drop 7 digest)
           then join_with ''@'' (rev (part # parts)) else img)
      | _ \<Rightarrow> img)"

definition service_in_sync :: "runtime_service list \<Rightarrow> runtime_service \<Rightarrow> bool" where
  "service_in_sync observed e =
     (case js_map_get (map (\<lambda>s. (rt_name s, s)) observed) (rt_name e) of
        None \<Rightarrow> False
      | Some actual \<Rightarrow>
          normalizeImage (rt_image actual) = normalizeImage (rt_image e) \<and>
          rt_desiredReplicas actual = rt_desiredReplicas e)"

definition deriveAppGroupDriftStatus :: "runtime_service list \<Rightarrow> runtime_service list option \<Rightarrow> drift_status" where
  "deriveAppGroupDriftStatus expected observed =
     (case observed of
        None \<Rightarrow> DriftUnknown
      | Some services \<Rightarrow>
          (if length expected \<noteq> length services then Drifted
           else if list_all (service_in_sync services) expected then InSync else Drifted))"


section \<open>The loop\<close>

definition converged :: "rollout_env \<Rightarrow> nat \<Rightarrow> bool" where
  "converged env k \<longleftrightarrow>
     dr_exitCode (po_result (re_poll env k)) = 0 \<and>
     (\<exists>rows. parseServiceRows (re_parse_row env) (dr_stdout (po_result (re_poll env k))) = Inr rows \<and>
        fst (evaluateServices rows (re_expected env)))"

lemma rollout_loop_bounded:
  assumes "0 < re_interval env" and "re_deadline env < now + int n * re_interval env"
  shows "\<exists>r. \<forall>polls. (\<forall>k < n. polls (i + k) = re_poll env (i + k)) \<longrightarrow>
    rollout_loop (env\<lparr>re_poll := polls\<rparr>) i now ready d = Some r"
  using assms(2)
proof (induction n arbitrary: i now ready d)
  case 0
  then show ?case by (simp add: rollout_loop.simps [of _ i])
next
  case (Suc n)
  let ?res = "po_result (re_poll env i)" and ?now = "now + int (po_elapsed (re_poll env i)) + re_interval env"
  have "re_deadline env < ?now + int n * re_interval env"
    using Suc.prems by (simp add: algebra_simps)
  note later = Suc.IH [OF this, of "Suc i"]
  have shift: "(\<forall>k < Suc n. polls (i + k) = re_poll env (i + k)) \<longleftrightarrow>
      polls i = re_poll env i \<and> (\<forall>k < n. polls (Suc i + k) = re_poll env (Suc i + k))" for polls
    by (auto simp: less_Suc_eq_0_disj)
  show ?case
  proof (cases "parseServiceRows (re_parse_row env) (dr_stdout ?res)")
    case (Inr rows)
    obtain success details where e: "evaluateServices rows (re_expected env) = (success, details)" by fastforce
    let ?ready = "if success then ready + 1 else 0"
    obtain r where r: "rollout_loop (env\<lparr>re_poll := polls\<rparr>) (Suc i) ?now ?ready details = Some r"
      if "\<forall>k < n. polls (Suc i + k) = re_poll env (Suc i + k)" for polls
      using later [of ?ready details] by blast
    have "rollout_loop (env\<lparr>re_poll := polls\<rparr>) i now ready d = Some
        (if re_deadline env < now then Inr \<lparr>ro_success = False, ro_message = ''Rollout timed out'',
             ro_details = (if d = '''' then ''No rollout status available'' else d)\<rparr>
         else if dr_exitCode ?res \<noteq> 0
         then Inr \<lparr>ro_success = False, ro_message = ''Docker stack services failed'', ro_details = poll_details ?res\<rparr>
         else if re_checks env \<le> ?ready then Inr \<lparr>ro_success = True, ro_message = ''Rollout completed'', ro_details = details\<rparr>
         else r)" (is "_ = Some ?v")
      if "polls i = re_poll env i" "\<forall>k < n. polls (Suc i + k) = re_poll env (Suc i + k)" for polls
      using r [OF that(2)] that(1) by (subst rollout_loop.simps) (simp add: Let_def Inr e)
    then show ?thesis unfolding shift by (intro exI [of _ ?v]) blast
  next
    case (Inl e)
    have "rollout_loop (env\<lparr>re_poll := polls\<rparr>) i now ready d = Some
        (if re_deadline env < now then Inr \<lparr>ro_success = False, ro_message = ''Rollout timed out'',
             ro_details = (if d = '''' then ''No rollout status available'' else d)\<rparr>
         else if dr_exitCode ?res \<noteq> 0
         then Inr \<lparr>ro_success = False, ro_message = ''Docker stack services failed'', ro_details = poll_details ?res\<rparr>
         else Inl e)" (is "_ = Some ?v")
      if "polls i = re_poll env i" for polls
      using that by (subst rollout_loop.simps) (simp add: Let_def Inl)
    then show ?thesis unfolding shift by (intro exI [of _ ?v]) blast
  qed
qed

text \<open>How many polls in a row were ready before poll \<open>i\<close>, and the first poll that completes \<open>checks\<close> of them.\<close>

fun ready_streak :: "(nat \<Rightarrow> bool) \<Rightarrow> nat \<Rightarrow> nat" where
  "ready_streak ready 0 = 0"
| "ready_streak ready (Suc i) = (if ready i then Suc (ready_streak ready i) else 0)"

definition decisive_poll :: "(nat \<Rightarrow> bool) \<Rightarrow> nat \<Rightarrow> nat \<Rightarrow> bool" where
  "decisive_poll ready checks k \<longleftrightarrow>
     (\<forall>j < checks. j \<le> k \<and> ready (k - j)) \<and> (\<forall>m < k. \<exists>j < checks. m < j \<or> \<not> ready (m - j))"

lemma streak_iff: "c \<le> ready_streak ready n \<longleftrightarrow> (\<forall>j < c. j < n \<and> ready (n - Suc j))"
proof (induction n arbitrary: c)
  case (Suc n)
  then show ?case by (cases c) (auto simp: less_Suc_eq_0_disj)
qed auto

lemma decisive_streak:
  "decisive_poll ready checks k \<longleftrightarrow> checks \<le> ready_streak ready (Suc k) \<and> (\<forall>m < k. ready_streak ready (Suc m) < checks)"
proof -
  have row: "checks \<le> ready_streak ready (Suc m) \<longleftrightarrow> (\<forall>j < checks. j \<le> m \<and> ready (m - j))" for m
    unfolding streak_iff by (auto simp: less_Suc_eq_le)
  show ?thesis unfolding decisive_poll_def row not_le [symmetric] by (auto simp: not_le)
qed

lemma rollout_loop_success:
  assumes "rollout_loop env i now ready d = Some r" and "r = Inr res" and "ro_success res"
    and "ready = int (ready_streak (converged env) i)" and "ready < re_checks env"
  shows "\<exists>k \<ge> i. re_checks env \<le> int (ready_streak (converged env) (Suc k)) \<and>
    (\<forall>m. i \<le> m \<and> m \<le> k \<longrightarrow> int (ready_streak (converged env) m) < re_checks env) \<and>
    (\<forall>m. i \<le> m \<and> m \<le> k \<longrightarrow> dr_exitCode (po_result (re_poll env m)) = 0) \<and>
    (\<forall>polls. (\<forall>m. i \<le> m \<and> m \<le> k \<longrightarrow> polls m = re_poll env m) \<longrightarrow> rollout_loop (env\<lparr>re_poll := polls\<rparr>) i now ready d = Some r)"
  using assms
proof (induction rule: rollout_loop.raw_induct [rotated 1, consumes 1, case_names step])
  case (step loop env i now ready d r)
  note prems = step(2-)
  let ?result = "po_result (re_poll env i)"
  have go: "\<not> re_deadline env < now" "dr_exitCode ?result = 0"
    using prems(1-3) by (auto simp: Let_def split: if_splits)
  obtain rows where rows: "parseServiceRows (re_parse_row env) (dr_stdout ?result) = Inr rows"
    using prems(1-3) go by (auto simp: Let_def split: sum.splits)
  obtain success details where e: "evaluateServices rows (re_expected env) = (success, details)" by fastforce
  let ?ready = "if success then ready + 1 else 0" and ?now = "now + int (po_elapsed (re_poll env i)) + re_interval env"
  have "converged env i \<longleftrightarrow> success" using go rows e by (simp add: converged_def)
  then have streak: "?ready = int (ready_streak (converged env) (Suc i))" using prems(4) by simp
  have again: "rollout_loop (env\<lparr>re_poll := polls\<rparr>) i now ready d =
      (if re_checks env \<le> ?ready then Some (Inr \<lparr>ro_success = True, ro_message = ''Rollout completed'', ro_details = details\<rparr>)
       else rollout_loop (env\<lparr>re_poll := polls\<rparr>) (Suc i) ?now ?ready details)" if "polls i = re_poll env i" for polls
    using go rows e that by (subst rollout_loop.simps) (simp add: Let_def)
  show ?case
  proof (cases "re_checks env \<le> ?ready")
    case True
    have "r = Inr \<lparr>ro_success = True, ro_message = ''Rollout completed'', ro_details = details\<rparr>"
      using prems(1) go rows e True by (simp add: Let_def)
    then show ?thesis
      using True streak prems(4,5) go again by (intro exI [of _ i]) (simp add: le_antisym [of i, symmetric] eq_iff [symmetric])
  next
    case False
    have next_loop: "loop env (Suc i) ?now ?ready details = Some r"
      using prems(1) go rows e False by (simp add: Let_def)
    from step(1) [OF next_loop prems(2,3) streak] False obtain k where k: "Suc i \<le> k"
      "re_checks env \<le> int (ready_streak (converged env) (Suc k))"
      "\<forall>m. Suc i \<le> m \<and> m \<le> k \<longrightarrow> int (ready_streak (converged env) m) < re_checks env"
      "\<forall>m. Suc i \<le> m \<and> m \<le> k \<longrightarrow> dr_exitCode (po_result (re_poll env m)) = 0"
      "\<forall>polls. (\<forall>m. Suc i \<le> m \<and> m \<le> k \<longrightarrow> polls m = re_poll env m) \<longrightarrow>
         rollout_loop (env\<lparr>re_poll := polls\<rparr>) (Suc i) ?now ?ready details = Some r" by auto
    have range: "i \<le> m \<and> m \<le> k \<longleftrightarrow> m = i \<or> Suc i \<le> m \<and> m \<le> k" for m using k(1) by auto
    show ?thesis
    proof (intro exI [of _ k] conjI allI impI)
      show "rollout_loop (env\<lparr>re_poll := polls\<rparr>) i now ready d = Some r"
        if "\<forall>m. i \<le> m \<and> m \<le> k \<longrightarrow> polls m = re_poll env m" for polls
        using again [of polls] that k(1,5) False by auto
    qed (use k go prems(4,5) range in \<open>auto simp: Suc_le_eq\<close>)
  qed
qed

lemma evaluate_success:
  "fst (evaluateServices rows expected) \<longleftrightarrow>
     (\<forall>e \<in> set expected. \<exists>row n. js_map_get (map (\<lambda>r. (sv_name r, r)) rows) (Some (ex_name e)) = Some row \<and>
        parseReplicas (sv_replicas row) = Some (n, n) \<and> int n = ex_desiredReplicas e) \<and>
     (\<forall>row \<in> set rows. \<exists>name. sv_name row = Some name \<and> name \<noteq> '''' \<and> name \<in> ex_name ` set expected)"
proof -
  have "fst (evaluate_expected rows e) \<longleftrightarrow> (\<exists>row n. js_map_get (map (\<lambda>r. (sv_name r, r)) rows) (Some (ex_name e)) = Some row \<and>
        parseReplicas (sv_replicas row) = Some (n, n) \<and> int n = ex_desiredReplicas e)" for e
    by (auto simp: evaluate_expected_def split: option.splits)
  moreover have "evaluate_row expected row = None \<longleftrightarrow>
      (\<exists>name. sv_name row = Some name \<and> name \<noteq> '''' \<and> name \<in> ex_name ` set expected)" for row
    by (auto simp: evaluate_row_def split: option.splits)
  moreover have "List.map_filter f xs = [] \<longleftrightarrow> (\<forall>x \<in> set xs. f x = None)" for f :: "service_row \<Rightarrow> string option" and xs
    by (induction xs) (auto simp: map_filter_simps split: option.splits)
  ultimately show ?thesis by (simp add: evaluateServices_def list_all_iff)
qed

section \<open>Drift\<close>

definition service_key :: "runtime_service \<Rightarrow> string \<times> string \<times> int" where
  "service_key s = (rt_name s, normalizeImage (rt_image s), rt_desiredReplicas s)"

lemma service_in_sync_iff:
  assumes "distinct (map rt_name observed)"
  shows "service_in_sync observed e \<longleftrightarrow> service_key e \<in> service_key ` set observed"
proof -
  let ?kvs = "map (\<lambda>s. (rt_name s, s)) observed"
  have d: "distinct (map fst ?kvs)" using assms by (simp add: comp_def)
  then have "distinct (map fst (rev ?kvs))" by (metis rev_map distinct_rev)
  then have g: "js_map_get ?kvs n = Some s \<longleftrightarrow> s \<in> set observed \<and> rt_name s = n" for n s
    unfolding js_map_get_def by (auto simp: map_of_eq_Some_iff)
  show ?thesis
  proof (cases "js_map_get ?kvs (rt_name e)")
    case None
    then have "rt_name e \<notin> rt_name ` set observed" by (simp add: js_map_get_None_iff image_image)
    then show ?thesis using None by (auto simp: service_in_sync_def service_key_def)
  next
    case (Some s)
    then have s: "s \<in> set observed" "rt_name s = rt_name e" using g by auto
    have "service_key e \<in> service_key ` set observed \<longleftrightarrow> service_key s = service_key e"
    proof
      assume "service_key e \<in> service_key ` set observed"
      then obtain t where t: "t \<in> set observed" "service_key t = service_key e" by force
      then have "rt_name t = rt_name e" by (simp add: service_key_def)
      with t(1) have "t = s" using g [of "rt_name e" t] Some by simp
      then show "service_key s = service_key e" using t(2) by simp
    next
      assume "service_key s = service_key e"
      then have "service_key e = service_key s" by (rule sym)
      then show "service_key e \<in> service_key ` set observed" using s(1) by (rule image_eqI)
    qed
    then show ?thesis using s(2) by (simp add: service_in_sync_def service_key_def Some)
  qed
qed

lemma drift_core:
  assumes "distinct (map rt_name expected)" and "distinct (map rt_name observed)"
  shows "deriveAppGroupDriftStatus expected (Some observed) =
    (if mset (map service_key expected) = mset (map service_key observed) then InSync else Drifted)"
proof -
  have dk: "distinct (map service_key xs)" if "distinct (map rt_name xs)" for xs
    using that by (auto simp: distinct_map service_key_def inj_on_def)
  have "length expected = length observed \<and> list_all (service_in_sync observed) expected \<longleftrightarrow>
      mset (map service_key expected) = mset (map service_key observed)" (is "?L \<longleftrightarrow> ?R")
  proof
    assume ?R
    then have "length (map service_key expected) = length (map service_key observed)"
      "set (map service_key expected) = set (map service_key observed)"
      by (rule mset_eq_length, rule mset_eq_setD)
    then show ?L by (auto simp: list_all_iff service_in_sync_iff [OF assms(2)])
  next
    assume ?L
    then have "set (map service_key expected) \<subseteq> set (map service_key observed)"
      by (auto simp: list_all_iff service_in_sync_iff [OF assms(2)])
    moreover have "card (set (map service_key expected)) = card (set (map service_key observed))"
      using \<open>?L\<close> distinct_card [OF dk [OF assms(1)]] distinct_card [OF dk [OF assms(2)]] by simp
    ultimately have "set (map service_key expected) = set (map service_key observed)"
      by (intro card_subset_eq) auto
    then show ?R using dk [OF assms(1)] dk [OF assms(2)] by (simp only: set_eq_iff_mset_eq_distinct)
  qed
  then show ?thesis by (auto simp: deriveAppGroupDriftStatus_def)
qed

lemma below_next_multiple:
  assumes "0 < (d :: int)"
  shows "t < (t div d + 1) * d"
proof -
  have "t mod d < d" using assms by simp
  moreover have "t = t div d * d + t mod d" by simp
  moreover have "(t div d + 1) * d = t div d * d + d" by (simp add: distrib_right)
  ultimately show ?thesis by linarith
qed

section \<open>Properties\<close>

text \<open>
  C34. Waiting for a rollout ends: with a positive polling interval the loop returns, whatever Docker
  answers and however long each command takes, after at most one poll per interval of the timeout
  and one more; later answers have no influence on the result.
\<close>

theorem rollout_terminates:
  assumes "0 < positiveIntegerConfig (config ''DOCKER_ROLLOUT_POLL_INTERVAL_MS'') 5000"
    and "positiveIntegerConfig (config ''DOCKER_ROLLOUT_TIMEOUT_MS'') 300000 div
      positiveIntegerConfig (config ''DOCKER_ROLLOUT_POLL_INTERVAL_MS'') 5000 < int n"
  shows "\<exists>r. \<forall>polls'. (\<forall>k < n. polls' k = polls k) \<longrightarrow>
    waitForRollout config parse_row polls' now expected checks = Some r"
proof -
  let ?interval = "positiveIntegerConfig (config ''DOCKER_ROLLOUT_POLL_INTERVAL_MS'') 5000"
  let ?timeout = "positiveIntegerConfig (config ''DOCKER_ROLLOUT_TIMEOUT_MS'') 300000"
  define env where "env = \<lparr>re_parse_row = parse_row, re_expected = expected, re_deadline = now + ?timeout,
      re_interval = ?interval, re_checks = stability_checks checks, re_poll = polls\<rparr>"
  have "?timeout < (?timeout div ?interval + 1) * ?interval"
    by (rule below_next_multiple [OF assms(1)])
  also have "\<dots> \<le> int n * ?interval" using assms by (intro mult_right_mono) auto
  finally have "re_deadline env < now + int n * re_interval env" by (simp add: env_def)
  then have "\<exists>r. \<forall>polls'. (\<forall>k < n. polls' (0 + k) = re_poll env (0 + k)) \<longrightarrow>
      rollout_loop (env\<lparr>re_poll := polls'\<rparr>) 0 now 0 '''' = Some r"
    using assms(1) by (intro rollout_loop_bounded) (simp_all add: env_def)
  then show ?thesis by (simp add: waitForRollout_def env_def)
qed

text \<open>What a poll shows when the rollout has converged: every expected service with exactly its
  replicas desired and running, and no other service.\<close>

definition poll_converged :: "(string \<Rightarrow> service_row option) \<Rightarrow> expected_service list \<Rightarrow> rollout_poll \<Rightarrow> bool" where
  "poll_converged parse_row expected poll \<longleftrightarrow>
    (\<exists>rows. dr_exitCode (po_result poll) = 0 \<and>
       parseServiceRows parse_row (dr_stdout (po_result poll)) = Inr rows \<and>
       (\<forall>e \<in> set expected. \<exists>row n. js_map_get (map (\<lambda>r. (sv_name r, r)) rows) (Some (ex_name e)) = Some row \<and>
          parseReplicas (sv_replicas row) = Some (n, n) \<and> int n = ex_desiredReplicas e) \<and>
       (\<forall>row \<in> set rows. \<exists>name. sv_name row = Some name \<and> name \<noteq> '''' \<and> name \<in> ex_name ` set expected))"

text \<open>
  A rollout is only reported successful when it has converged and stayed so: the result is decided by the first
  poll that completes as many ready polls in a row as stability checks were asked for, every earlier command
  succeeded, and later answers have no influence.
\<close>

lemma rollout_converged:
  assumes r: "waitForRollout config parse_row polls now expected checks = Some (Inr r)" and "ro_success r"
  shows "\<exists>k. decisive_poll (\<lambda>j. poll_converged parse_row expected (polls j)) (nat (stability_checks checks)) k \<and>
    (\<forall>j \<le> k. dr_exitCode (po_result (polls j)) = 0) \<and>
    (\<forall>polls'. (\<forall>j \<le> k. polls' j = polls j) \<longrightarrow> waitForRollout config parse_row polls' now expected checks = Some (Inr r))"
proof -
  let ?env = "\<lparr>re_parse_row = parse_row, re_expected = expected,
        re_deadline = now + positiveIntegerConfig (config ''DOCKER_ROLLOUT_TIMEOUT_MS'') 300000,
        re_interval = positiveIntegerConfig (config ''DOCKER_ROLLOUT_POLL_INTERVAL_MS'') 5000,
        re_checks = stability_checks checks, re_poll = polls\<rparr>"
  have conv: "converged ?env = (\<lambda>j. poll_converged parse_row expected (polls j))"
    unfolding fun_eq_iff converged_def evaluate_success poll_converged_def by auto
  have "0 < stability_checks checks" by (simp add: stability_checks_def)
  then obtain k where k: "re_checks ?env \<le> int (ready_streak (converged ?env) (Suc k))"
    "\<forall>m \<le> k. int (ready_streak (converged ?env) m) < re_checks ?env"
    "\<forall>m \<le> k. dr_exitCode (po_result (re_poll ?env m)) = 0"
    "\<forall>polls'. (\<forall>m \<le> k. polls' m = re_poll ?env m) \<longrightarrow> rollout_loop (?env\<lparr>re_poll := polls'\<rparr>) 0 now 0 '''' = Some (Inr r)"
    using rollout_loop_success [OF r [unfolded waitForRollout_def] refl assms(2)] by auto
  have "decisive_poll (converged ?env) (nat (stability_checks checks)) k"
    unfolding decisive_streak
  proof (intro conjI allI impI)
    show "ready_streak (converged ?env) (Suc m) < nat (stability_checks checks)" if "m < k" for m
      using k(2) [rule_format, of "Suc m"] that by (simp del: ready_streak.simps)
  qed (use k(1) in \<open>simp del: ready_streak.simps\<close>)
  then show ?thesis unfolding conv using k(3,4) by (intro exI [of _ k]) (simp add: waitForRollout_def)
qed

text \<open>
  Drift detection is exact: with service names unique on both sides, a stack is in sync exactly
  when observed and expected services agree as multisets in name, image (up to its digest) and
  desired replicas.
\<close>

lemma drift_detection_exact:
  assumes "distinct (map rt_name expected)" and "distinct (map rt_name observed)"
  shows "deriveAppGroupDriftStatus expected (Some observed) =
    (if mset (map service_key expected) = mset (map service_key observed) then InSync else Drifted)"
  using assms by (rule drift_core)

definition sample_poll :: "nat \<Rightarrow> rollout_poll" where
  "sample_poll k = \<lparr>po_result = \<lparr>dr_exitCode = 0, dr_stdout = (if k < 2 then ''a'' else ''b''), dr_stderr = ''''\<rparr>, po_elapsed = k\<rparr>"

definition sample_parse :: "string \<Rightarrow> service_row option" where
  "sample_parse line = Some \<lparr>sv_name = Some ''web'', sv_replicas = Some (if line = ''a'' then ''1/2'' else ''2/2'')\<rparr>"

lemmas rollout_eval = evaluateServices_def evaluate_expected_def evaluate_row_def parseServiceRows_def parseReplicas_def
  js_map_get_def js_trim_def js_space_def all_digits_def is_digit_def digit_val_def MAX_SAFE_INTEGER_def map_filter_simps

lemma sample_rollout:
  "waitForRollout (\<lambda>_. None) sample_parse sample_poll 0 [\<lparr>ex_name = ''web'', ex_desiredReplicas = 2\<rparr>] (Some 1) =
     Some (Inr \<lparr>ro_success = True, ro_message = ''Rollout completed'', ro_details = ''web: '' @ show_nat 2 @ ''/'' @ show_nat 2 @ '' replicas''\<rparr>)"
proof -
  have p: "parseServiceRows sample_parse x = Inr [\<lparr>sv_name = Some ''web'', sv_replicas = Some (if x = ''a'' then ''1/2'' else ''2/2'')\<rparr>]"
    if "x \<in> {''a'', ''b''}" for x
    using that by (auto simp: parseServiceRows_def sample_parse_def js_trim_def js_space_def)
  have e: "evaluateServices [\<lparr>sv_name = Some ''web'', sv_replicas = Some ''1/2''\<rparr>] [\<lparr>ex_name = ''web'', ex_desiredReplicas = 2\<rparr>] =
      (False, ''web: '' @ show_nat 1 @ ''/'' @ show_nat 2 @ '' replicas'')"
    "evaluateServices [\<lparr>sv_name = Some ''web'', sv_replicas = Some ''2/2''\<rparr>] [\<lparr>ex_name = ''web'', ex_desiredReplicas = 2\<rparr>] =
      (True, ''web: '' @ show_nat 2 @ ''/'' @ show_nat 2 @ '' replicas'')"
    by (simp_all add: rollout_eval) (simp_all add: numeral_2_eq_2)
  show ?thesis
    unfolding waitForRollout_def positiveIntegerConfig_def stability_checks_def
    by (simp add: rollout_loop.simps [of _ 0] rollout_loop.simps [of _ "Suc 0"] rollout_loop.simps [of _ "Suc (Suc 0)"]
        sample_poll_def p e)
qed

theorem rollout_terminates_witness:
  "waitForRollout (\<lambda>_. None) sample_parse sample_poll 0 [\<lparr>ex_name = ''web'', ex_desiredReplicas = 2\<rparr>] (Some 1) \<noteq> None"
proof -
  have "0 < positiveIntegerConfig None 5000" "positiveIntegerConfig None 300000 div positiveIntegerConfig None 5000 < int 61"
    by (simp_all add: positiveIntegerConfig_def)
  from rollout_terminates [of "\<lambda>_. None", OF this, of sample_poll sample_parse 0 "[\<lparr>ex_name = ''web'', ex_desiredReplicas = 2\<rparr>]" "Some 1"]
  show ?thesis by auto
qed

end
