(* ===== verification/Deployments.thy ===== *)
theory Deployments
  imports CapacityReservation Rollout
begin

text \<open>
  \<open>internal/deployment-execution.service.ts\<close>: a worker takes a deployment through its phases. The
  state is the rows the service reads and writes; a deployment row extends the one the capacity
  component reads. One definition per transaction and per handler; a thrown exception is the left
  summand of a result and leaves the database as the transactions before it left it. What Docker,
  the registries and the artifact renderer answer is given to a handler as an outcome. While a
  handler waits for Docker other requests run: \<open>during\<close> is what they make of the database.
\<close>

section \<open>State\<close>

record deployment = deployment_row +
  dx_startedAt :: "millis option"
  dx_completedAt :: "millis option"
  dx_errorCode :: "string option"
  dx_errorMessage :: "string option"
  dx_rollbackTarget :: "int option"
  dx_sourceDraftRevision :: int
  dx_renderedStack :: "string option"
  dx_renderedSha :: "string option"
  dx_renderedAt :: "millis option"

record app_group = app_group_row +
  gr_status :: string
  gr_drift :: string
  gr_draftRevision :: int
  gr_currentVersion :: "int option"
  gr_pendingChanges :: bool

record single_app = single_app_row +
  ap_name :: string

record gpu_location =
  gl_swarmNodeId :: string
  gl_status :: string
  gl_availability :: string
  gl_gpuCount :: int
  gl_lastSeenAt :: "millis option"

record gpu_device =
  gp_uuid :: string
  gp_app :: "uuid option"
  gp_state :: string
  gp_allocatedAt :: "millis option"
  gp_observedState :: string
  gp_lastObservedAt :: "millis option"
  gp_location :: "gpu_location option"

record registry_row =
  ry_id :: uuid
  ry_tenantId :: uuid
  ry_host :: string
  ry_authType :: string
  ry_username :: "string option"
  ry_credentialData :: string

record dep_db =
  dd_platform :: cap_db
  dd_groups :: "app_group list"
  dd_apps :: "single_app list"
  dd_deployments :: "deployment list"
  dd_gpus :: "gpu_device list"
  dd_registries :: "registry_row list"
  dd_events :: "deployment_event list"

text \<open>The rows the capacity admission reads.\<close>

definition cap_view :: "dep_db \<Rightarrow> cap_db" where
  "cap_view db = (dd_platform db)\<lparr>cb_appGroups := map app_group_row.truncate (dd_groups db),
     cb_singleApps := map single_app_row.truncate (dd_apps db),
     cb_deployments := map deployment_row.truncate (dd_deployments db), cb_events := dd_events db\<rparr>"

datatype dep_error =
    DepNotFound string
  | DepConflict string
  | DepLeaseActive
  | DepMissingRecord
  | DepThrown string
  | DepNeverReturns

type_synonym 'a dep_result = "dep_db \<times> (dep_error + 'a)"

definition is_terminal :: "deployment_status \<Rightarrow> bool" where
  "is_terminal s \<longleftrightarrow> s \<in> {Succeeded, Failed, RolledBack, RollbackFailed}"

definition find_deployment :: "dep_db \<Rightarrow> uuid \<Rightarrow> deployment option" where
  "find_deployment db i = find_row dp_id i (dd_deployments db)"

text \<open>\<open>update({ where: { id }, data })\<close>: throws when the row is gone, else returns the new row.\<close>

definition update_deployment :: "dep_db \<Rightarrow> uuid \<Rightarrow> (deployment \<Rightarrow> deployment) \<Rightarrow> deployment dep_result" where
  "update_deployment db i f =
     (case update_where (\<lambda>r. dp_id r = i) f (dd_deployments db) of
        (t, []) \<Rightarrow> (db, Inl DepMissingRecord)
      | (t, r # _) \<Rightarrow> (db\<lparr>dd_deployments := t\<rparr>, Inr r))"

definition update_group :: "dep_db \<Rightarrow> uuid \<Rightarrow> (app_group \<Rightarrow> app_group) \<Rightarrow> app_group dep_result" where
  "update_group db g f =
     (case update_where (\<lambda>r. ag_id r = g) f (dd_groups db) of
        (t, []) \<Rightarrow> (db, Inl DepMissingRecord)
      | (t, r # _) \<Rightarrow> (db\<lparr>dd_groups := t\<rparr>, Inr r))"

text \<open>Sequencing of statements that may throw, and a transaction, which an exception rolls back.\<close>

definition try_then :: "'a dep_result \<Rightarrow> (dep_db \<Rightarrow> 'a \<Rightarrow> 'b dep_result) \<Rightarrow> 'b dep_result" where
  "try_then m f = (case m of (db, Inl e) \<Rightarrow> (db, Inl e) | (db, Inr x) \<Rightarrow> f db x)"

definition in_transaction :: "dep_db \<Rightarrow> 'a dep_result \<Rightarrow> 'a dep_result" where
  "in_transaction db m = (case m of (db', Inl e) \<Rightarrow> (db, Inl e) | (db', Inr x) \<Rightarrow> (db', Inr x))"

definition createDeploymentEvent :: "dep_db \<Rightarrow> uuid \<Rightarrow> deployment_phase \<Rightarrow> string \<Rightarrow> string \<Rightarrow> dep_db" where
  "createDeploymentEvent db i phase level message =
     db\<lparr>dd_events := dd_events db @ [\<lparr>de_deploymentId = i, de_phase = phase, de_level = level, de_message = message\<rparr>]\<rparr>"

text \<open>A transaction that updates the row and records an event.\<close>

definition update_with_event ::
    "dep_db \<Rightarrow> uuid \<Rightarrow> (deployment \<Rightarrow> deployment) \<Rightarrow> deployment_phase \<Rightarrow> string \<Rightarrow> string \<Rightarrow> deployment dep_result" where
  "update_with_event db i f phase level message =
     (case update_deployment db i f of
        (db', Inl e) \<Rightarrow> (db', Inl e)
      | (db', Inr r) \<Rightarrow> (createDeploymentEvent db' i phase level message, Inr r))"

section \<open>Leases and phases\<close>

definition DEFAULT_LEASE_SECONDS :: int where
  "DEFAULT_LEASE_SECONDS = 300"

definition calculateLeaseExpiration :: "millis \<Rightarrow> int option \<Rightarrow> millis" where
  "calculateLeaseExpiration now leaseSeconds = now + option_or leaseSeconds DEFAULT_LEASE_SECONDS * 1000"

fun ALLOWED_PHASE_TRANSITIONS :: "deployment_phase \<Rightarrow> deployment_phase list" where
  "ALLOWED_PHASE_TRANSITIONS Validating = [PreparingArtifacts]"
| "ALLOWED_PHASE_TRANSITIONS PreparingArtifacts = [GeneratingStack]"
| "ALLOWED_PHASE_TRANSITIONS GeneratingStack = [ApplyingStack]"
| "ALLOWED_PHASE_TRANSITIONS ApplyingStack = [WaitingForRollout]"
| "ALLOWED_PHASE_TRANSITIONS WaitingForRollout = [Cleanup, Completed]"
| "ALLOWED_PHASE_TRANSITIONS RollingBackPhase = [Cleanup]"
| "ALLOWED_PHASE_TRANSITIONS Cleanup = [Completed]"
| "ALLOWED_PHASE_TRANSITIONS Completed = []"

fun status_text :: "deployment_status \<Rightarrow> string" where
  "status_text Pending = ''Pending''"
| "status_text Deploying = ''Deploying''"
| "status_text Succeeded = ''Succeeded''"
| "status_text Failed = ''Failed''"
| "status_text RollingBack = ''RollingBack''"
| "status_text RolledBack = ''RolledBack''"
| "status_text RollbackFailed = ''RollbackFailed''"

fun phase_text :: "deployment_phase \<Rightarrow> string" where
  "phase_text Validating = ''Validating''"
| "phase_text PreparingArtifacts = ''PreparingArtifacts''"
| "phase_text GeneratingStack = ''GeneratingStack''"
| "phase_text ApplyingStack = ''ApplyingStack''"
| "phase_text WaitingForRollout = ''WaitingForRollout''"
| "phase_text RollingBackPhase = ''RollingBack''"
| "phase_text Cleanup = ''Cleanup''"
| "phase_text Completed = ''Completed''"

definition assertDeploymentIsActive :: "deployment_status \<Rightarrow> dep_error option" where
  "assertDeploymentIsActive status =
     (if status \<noteq> Deploying then Some (DepConflict (''Deployment is not active: '' @ status_text status)) else None)"

definition assertPhaseTransition :: "deployment_phase \<Rightarrow> deployment_phase \<Rightarrow> dep_error option" where
  "assertPhaseTransition currentPhase nextPhase =
     (if nextPhase \<notin> set (ALLOWED_PHASE_TRANSITIONS currentPhase)
      then Some (DepConflict (''Invalid deployment phase transition: '' @ phase_text currentPhase @ '' -> '' @ phase_text nextPhase))
      else None)"

definition findWorkerDeploymentOrThrow :: "dep_db \<Rightarrow> uuid \<Rightarrow> string \<Rightarrow> dep_error + deployment" where
  "findWorkerDeploymentOrThrow db i workerId =
     (case find_deployment db i of
        None \<Rightarrow> Inl (DepNotFound ''Deployment not found'')
      | Some d \<Rightarrow>
          (case assertDeploymentIsActive (dp_status d) of
             Some e \<Rightarrow> Inl e
           | None \<Rightarrow>
               (if dp_leaseOwner d \<noteq> Some workerId then Inl (DepConflict ''Deployment is leased by another worker'')
                else Inr d)))"

section \<open>Heartbeat and failure\<close>

definition heartbeat_deployment_row :: "millis \<Rightarrow> int option \<Rightarrow> deployment \<Rightarrow> deployment" where
  "heartbeat_deployment_row now leaseSeconds r =
     r\<lparr>dp_heartbeatAt := Some now, dp_leaseExpiresAt := Some (calculateLeaseExpiration now leaseSeconds)\<rparr>"

definition heartbeatDeployment :: "dep_db \<Rightarrow> millis \<Rightarrow> uuid \<Rightarrow> string \<Rightarrow> int option \<Rightarrow> deployment dep_result" where
  "heartbeatDeployment db now i workerId leaseSeconds =
     (case findWorkerDeploymentOrThrow db i workerId of
        Inl e \<Rightarrow> (db, Inl e)
      | Inr d \<Rightarrow> update_deployment db i (heartbeat_deployment_row now leaseSeconds))"

definition release_lease :: "deployment \<Rightarrow> deployment" where
  "release_lease r = r\<lparr>dp_leaseOwner := None, dp_leaseExpiresAt := None, dp_heartbeatAt := None\<rparr>"

definition failed_row :: "millis \<Rightarrow> string \<Rightarrow> string option \<Rightarrow> deployment \<Rightarrow> deployment" where
  "failed_row now errorCode errorMessage r =
     (release_lease r)\<lparr>dp_status := Failed, dx_errorCode := Some errorCode, dx_errorMessage := errorMessage,
       dx_completedAt := Some now\<rparr>"

definition failDeploymentWithPhase ::
    "dep_db \<Rightarrow> millis \<Rightarrow> uuid \<Rightarrow> deployment_phase \<Rightarrow> string \<Rightarrow> string \<Rightarrow> deployment dep_result" where
  "failDeploymentWithPhase db now i phase errorCode errorMessage =
     update_with_event db i (failed_row now errorCode (Some errorMessage)) phase ''Error'' errorMessage"

definition failDeployment :: "dep_db \<Rightarrow> millis \<Rightarrow> uuid \<Rightarrow> string \<Rightarrow> string \<Rightarrow> string option \<Rightarrow> deployment dep_result" where
  "failDeployment db now i workerId errorCode errorMessage =
     (case findWorkerDeploymentOrThrow db i workerId of
        Inl e \<Rightarrow> (db, Inl e)
      | Inr d \<Rightarrow>
          update_with_event db i (failed_row now errorCode errorMessage) (dp_phase d) ''Error''
            (option_or errorMessage errorCode))"

definition failProvisioning :: "dep_db \<Rightarrow> millis \<Rightarrow> uuid \<Rightarrow> string \<Rightarrow> string \<Rightarrow> string \<Rightarrow> deployment dep_result" where
  "failProvisioning db now i errorCode message details =
     update_with_event db i
       (failed_row now errorCode (Some (truncate_text (if details \<noteq> '''' then details else message) 2000)))
       PreparingArtifacts ''Error'' (truncate_text (message @ [CHR 0x0A] @ details) 2000)"

definition touch_row :: "millis \<Rightarrow> deployment \<Rightarrow> deployment" where
  "touch_row now r = r\<lparr>dp_heartbeatAt := Some now\<rparr>"

definition recordProvisioningSuccess :: "dep_db \<Rightarrow> millis \<Rightarrow> uuid \<Rightarrow> string \<Rightarrow> deployment dep_result" where
  "recordProvisioningSuccess db now i message =
     update_with_event db i (touch_row now) PreparingArtifacts ''Info''
       (truncate_text (if message \<noteq> '''' then message else ''Provisioned deployment artifacts'') 2000)"

section \<open>Artifacts\<close>

text \<open>What the service computes outside this component: \<open>sha\<close> is SHA-256, \<open>sensitive\<close> is
  \<open>hasProtectedSensitiveEnvironment\<close>, \<open>render\<close> is \<open>renderStack\<close>, an error when it throws.\<close>

record artifact_tools =
  at_sha :: "string \<Rightarrow> string"
  at_sensitive :: "stack_config \<Rightarrow> bool"
  at_render :: "stack_config \<Rightarrow> dep_error + string"

definition isDeploymentArtifactDigest :: "string option \<Rightarrow> bool" where
  "isDeploymentArtifactDigest value =
     (case value of
        None \<Rightarrow> False
      | Some s \<Rightarrow> length s = 64 \<and> list_all (\<lambda>c. is_digit c \<or> (97 \<le> (of_char c :: nat) \<and> (of_char c :: nat) \<le> 102)) s)"

definition deploymentArtifactMatches :: "artifact_tools \<Rightarrow> string \<Rightarrow> string \<Rightarrow> bool" where
  "deploymentArtifactMatches tools renderedStack expectedSha256 \<longleftrightarrow>
     isDeploymentArtifactDigest (Some expectedSha256) \<and> at_sha tools renderedStack = expectedSha256"

definition has_text :: "string option \<Rightarrow> bool" where
  "has_text s \<longleftrightarrow> s \<noteq> None \<and> s \<noteq> Some ''''"

text \<open>The re-read at the end: the stored artifact, if its digest matches.\<close>

definition stored_artifact :: "artifact_tools \<Rightarrow> dep_db \<Rightarrow> uuid \<Rightarrow> (string \<times> string) dep_result" where
  "stored_artifact tools db i =
     (case find_deployment db i of
        None \<Rightarrow> (db, Inl DepMissingRecord)
      | Some d \<Rightarrow>
          (case (dx_renderedStack d, dx_renderedSha d) of
             (Some stack, Some digest) \<Rightarrow>
               (if stack \<noteq> '''' \<and> digest \<noteq> '''' \<and> deploymentArtifactMatches tools stack digest
                then (db, Inr (stack, digest))
                else (db, Inl (DepConflict ''Deployment artifact integrity could not be established'')))
           | _ \<Rightarrow> (db, Inl (DepConflict ''Deployment artifact integrity could not be established''))))"

definition update_matching :: "dep_db \<Rightarrow> (deployment \<Rightarrow> bool) \<Rightarrow> (deployment \<Rightarrow> deployment) \<Rightarrow> dep_db" where
  "update_matching db P f = db\<lparr>dd_deployments := fst (update_where P f (dd_deployments db))\<rparr>"

definition ensureDeploymentArtifact :: "artifact_tools \<Rightarrow> dep_db \<Rightarrow> millis \<Rightarrow> uuid \<Rightarrow> (string \<times> string) dep_result" where
  "ensureDeploymentArtifact tools db now i =
     (case find_deployment db i of
        None \<Rightarrow> (db, Inl (DepNotFound ''Deployment was not found''))
      | Some cur \<Rightarrow>
          (if dp_stackConfig cur \<noteq> NoConfig \<and> at_sensitive tools (dp_stackConfig cur)
           then
             (let db' = (if has_text (dx_renderedStack cur)
                         then update_matching db (\<lambda>r. dp_id r = i)
                                (\<lambda>r. r\<lparr>dx_renderedStack := None, dx_renderedSha := None, dx_renderedAt := None\<rparr>)
                         else db)
              in (case at_render tools (dp_stackConfig cur) of
                    Inl e \<Rightarrow> (db', Inl e)
                  | Inr stack \<Rightarrow> (db', Inr (stack, at_sha tools stack))))
           else
             (case dx_renderedStack cur of
                Some (c # cs) \<Rightarrow>
                  (if has_text (dx_renderedSha cur) \<and> \<not> deploymentArtifactMatches tools (c # cs) (the (dx_renderedSha cur))
                   then (db, Inl (DepConflict ''Persisted deployment artifact does not match its SHA-256 digest''))
                   else
                     (let db' = (if has_text (dx_renderedSha cur) then db
                                 else update_matching db
                                        (\<lambda>r. dp_id r = i \<and> dx_renderedStack r = Some (c # cs) \<and> dx_renderedSha r = None)
                                        (\<lambda>r. r\<lparr>dx_renderedSha := Some (at_sha tools (c # cs)),
                                               dx_renderedAt := Some (option_or (dx_renderedAt cur) now)\<rparr>))
                      in stored_artifact tools db' i))
              | _ \<Rightarrow>
                  (if dp_stackConfig cur = NoConfig
                   then (db, Inl (DepConflict ''Deployment has neither a rendered stack nor source stack config''))
                   else
                     (case at_render tools (dp_stackConfig cur) of
                        Inl e \<Rightarrow> (db, Inl e)
                      | Inr stack \<Rightarrow>
                          stored_artifact tools
                            (update_matching db (\<lambda>r. dp_id r = i \<and> dx_renderedStack r = None)
                               (\<lambda>r. r\<lparr>dx_renderedStack := Some stack, dx_renderedSha := Some (at_sha tools stack),
                                      dx_renderedAt := Some now\<rparr>)) i)))))"

end
