(* ===== verification/DeploymentExecution.thy ===== *)
theory DeploymentExecution
  imports Deployments
begin

text \<open>
  \<open>internal/deployment-execution.service.ts\<close>, the handlers that act on Docker: \<open>advanceDeployment\<close>
  and the steps it calls. \<open>docker\<close> holds what the calls to Docker answer, \<open>dk_during\<close> what other
  requests make of the database meanwhile and \<open>dk_now\<close> the time when the call is back. Between two
  database statements without such a call nothing else runs.
\<close>

section \<open>Docker\<close>

datatype await =
    AwaitProvision | AwaitApply | AwaitRollout | AwaitGpuTasks | AwaitRollbackApply
  | AwaitRollbackRollout | AwaitInspect | AwaitClaim | AwaitPhase deployment_phase

record step_result =
  st_success :: bool
  st_message :: string
  st_details :: string

record apply_result =
  al_command :: string
  al_exitCode :: int
  al_stdout :: string
  al_stderr :: string

record registry_login =
  lg_host :: string
  lg_authType :: string
  lg_username :: "string option"
  lg_credential :: string

record docker =
  dk_during :: "await \<Rightarrow> dep_db \<Rightarrow> dep_db"
  dk_now :: "await \<Rightarrow> millis"
  dk_credential :: "string \<Rightarrow> string"
  dk_login :: "registry_login list \<Rightarrow> step_result"
  dk_secrets :: "raw_snapshot \<Rightarrow> step_result"
  dk_configs :: "raw_snapshot \<Rightarrow> step_result"
  dk_volumes :: "uuid list \<Rightarrow> step_result"
  dk_apply :: "await \<Rightarrow> registry_login list \<Rightarrow> string \<Rightarrow> string \<times> string \<Rightarrow> dep_error + step_result \<times> apply_result option"
  dk_config :: "string \<Rightarrow> string option"
  dk_parse_row :: "string \<Rightarrow> service_row option"
  dk_start :: "await \<Rightarrow> millis"
  dk_polls :: "await \<Rightarrow> nat \<Rightarrow> rollout_poll"
  dk_nodes :: docker_result
  dk_services :: "string \<Rightarrow> docker_result"
  dk_tasks :: "string \<Rightarrow> docker_result"
  dk_inspect :: "string \<Rightarrow> runtime_service list option"

text \<open>The wait for a rollout, on the answers Docker gives to its polls; a line that is no JSON throws. With a
  positive polling interval it returns (\<open>rollout_terminates\<close>). An interval configured between zero and one is
  rounded to zero, and with polls that take no time the loop then need not end: nothing more happens in the
  caller, which is the result \<open>DepNeverReturns\<close>.\<close>

definition dk_rollout :: "docker \<Rightarrow> await \<Rightarrow> expected_service list \<Rightarrow> int option \<Rightarrow> dep_error + rollout_result" where
  "dk_rollout dk aw expected checks =
     (case waitForRollout (dk_config dk) (dk_parse_row dk) (dk_polls dk aw) (dk_start dk aw) expected checks of
        None \<Rightarrow> Inl DepNeverReturns
      | Some (Inl e) \<Rightarrow> Inl (DepThrown e)
      | Some (Inr r) \<Rightarrow> Inr r)"

text \<open>The check that the tasks of removed services have stopped, on what \<open>docker node ls\<close>, \<open>service ls\<close> and
  \<open>node ps\<close> print.\<close>

definition dk_gpu_tasks :: "docker \<Rightarrow> string \<Rightarrow> string list \<Rightarrow> bool" where
  "dk_gpu_tasks dk stack removed = verifyRemovedGpuServiceTasks (dk_nodes dk) (dk_services dk stack) (dk_tasks dk) stack removed"

text \<open>What the service reads outside this component: the checks of \<open>validateDeploymentSnapshot\<close>, and
  the state of the capacity preflight.\<close>

record worker_tools = artifact_tools +
  at_validate :: "dep_db \<Rightarrow> deployment \<Rightarrow> dep_error + (string \<times> string) option"
  at_preflight :: preflight

section \<open>Snapshots\<close>

definition parseStackConfig :: "stack_config \<Rightarrow> dep_error + raw_snapshot" where
  "parseStackConfig c =
     (case c of
        NoConfig \<Rightarrow> Inl (DepConflict ''Deployment has no stack config'')
      | NotJson \<Rightarrow> Inl (DepThrown ''SyntaxError'')
      | ParsedConfig r \<Rightarrow> Inr r)"

definition snapshot_apps :: "raw_snapshot \<Rightarrow> dep_error + snapshot_app list" where
  "snapshot_apps s = (case rs_singleApps s of None \<Rightarrow> Inl (DepThrown ''TypeError'') | Some apps \<Rightarrow> Inr apps)"

definition effectiveReplicas :: "raw_snapshot \<Rightarrow> snapshot_app \<Rightarrow> dep_error + int" where
  "effectiveReplicas s app =
     (case rs_appGroup s of
        None \<Rightarrow> Inl (DepThrown ''TypeError'')
      | Some g \<Rightarrow>
          Inr (if rg_runtimeState g \<noteq> Some ''Running'' \<or> sa_runtimeState app \<noteq> ''Running'' then 0
               else sa_desiredReplicas app))"

definition stackName :: "uuid \<Rightarrow> string" where
  "stackName appGroupId = ''rp_'' @ replace_char CHR ''-'' CHR ''_'' appGroupId"

definition serviceName :: "string \<Rightarrow> string" where
  "serviceName name = replace_char CHR ''-'' CHR ''_'' name"

definition expected_service_of :: "string \<Rightarrow> raw_snapshot \<Rightarrow> snapshot_app \<Rightarrow> dep_error + expected_service" where
  "expected_service_of stack s app =
     and_then (effectiveReplicas s app)
       (\<lambda>n. Inr \<lparr>ex_name = stack @ ''_'' @ serviceName (sa_name app), ex_desiredReplicas = n\<rparr>)"

definition expectedServices :: "string \<Rightarrow> raw_snapshot \<Rightarrow> dep_error + expected_service list" where
  "expectedServices stack s = and_then (snapshot_apps s) (traverse (expected_service_of stack s))"

text \<open>\<open>renderHealthCheck(healthCheck) !== undefined\<close>.\<close>

definition has_health_check :: "json \<Rightarrow> bool" where
  "has_health_check h =
     (case h of
        JObj kvs \<Rightarrow> (case map_of kvs ''command'' of Some (JStr c) \<Rightarrow> js_trim c \<noteq> '''' | _ \<Rightarrow> False)
      | _ \<Rightarrow> False)"

definition readinessStabilityChecks :: "raw_snapshot \<Rightarrow> int" where
  "readinessStabilityChecks s =
     (if list_ex (\<lambda>app. has_health_check (sa_healthCheck app)) (option_or (rs_singleApps s) []) then 3 else 1)"

section \<open>GPU ownership\<close>

text \<open>\<open>/^GPU-[0-9a-f]{8}(?:-[0-9a-f]{4}){3}-[0-9a-f]{12}$/i\<close> and \<open>/^[a-z0-9]{20,64}$/\<close>.\<close>

definition gpu_uuid :: "string \<Rightarrow> bool" where
  "gpu_uuid s \<longleftrightarrow>
     (case split_on CHR ''-'' s of
        p # parts \<Rightarrow> toLowerCase p = ''gpu'' \<and> map length parts = [8, 4, 4, 4, 12] \<and> list_all (list_all is_hex) parts
      | [] \<Rightarrow> False)"

definition gpu_node_id :: "string \<Rightarrow> bool" where
  "gpu_node_id s \<longleftrightarrow> 20 \<le> length s \<and> length s \<le> 64 \<and> list_all (\<lambda>c. is_lower c \<or> is_digit c) s"

definition GPU_FRESH_MILLIS :: int where
  "GPU_FRESH_MILLIS = 120000"

definition gpu_request_ok :: "snapshot_app \<Rightarrow> bool" where
  "gpu_request_ok app \<longleftrightarrow>
     res_gpu (sa_resources app) = 1 \<and> has_text (sa_id app) \<and> gpu_uuid (option_or (sa_gpuUuid app) '''') \<and>
     gpu_node_id (option_or (sa_gpuNodeId app) '''') \<and> sa_desiredReplicas app = 1"

definition seen_recently :: "millis \<Rightarrow> millis option \<Rightarrow> bool" where
  "seen_recently now t = (case t of None \<Rightarrow> False | Some t \<Rightarrow> now - t \<le> GPU_FRESH_MILLIS)"

definition gpu_owned :: "gpu_device list \<Rightarrow> millis \<Rightarrow> snapshot_app \<Rightarrow> bool" where
  "gpu_owned devices now app =
     (case head_opt (filter (\<lambda>r. Some (gp_uuid r) = sa_gpuUuid app) devices) of
        None \<Rightarrow> False
      | Some device \<Rightarrow>
          gp_app device = sa_id app \<and> gp_state device = ''Allocated'' \<and> gp_observedState device = ''Available'' \<and>
          seen_recently now (gp_lastObservedAt device) \<and>
          (case gp_location device of
             None \<Rightarrow> False
           | Some l \<Rightarrow> Some (gl_swarmNodeId l) = sa_gpuNodeId app \<and> gl_status l = ''Ready'' \<and>
               gl_availability l = ''Active'' \<and> 1 \<le> gl_gpuCount l \<and> seen_recently now (gl_lastSeenAt l)))"

definition verifyGpuArtifactOwnership :: "dep_db \<Rightarrow> millis \<Rightarrow> raw_snapshot \<Rightarrow> uuid \<Rightarrow> bool" where
  "verifyGpuArtifactOwnership db now s appGroupId =
     (case rs_singleApps s of
        None \<Rightarrow> False
      | Some apps \<Rightarrow>
          (let gpuApps = filter (\<lambda>app. res_gpu (sa_resources app) \<noteq> 0) apps in
           if \<not> list_all gpu_request_ok gpuApps then False
           else if gpuApps = [] then True
           else if Option.bind (rs_appGroup s) rg_id \<noteq> Some appGroupId \<or> \<not> distinct (map sa_gpuUuid gpuApps) then False
           else
             (let devices = filter (\<lambda>r. Some (gp_uuid r) \<in> set (map sa_gpuUuid gpuApps)) (dd_gpus db)
              in length devices = length gpuApps \<and> list_all (gpu_owned devices now) gpuApps)))"

section \<open>Applying a stack\<close>

text \<open>The registries the snapshot names, each once, and the login of each; the error has the details.\<close>

definition registry_ids :: "raw_snapshot \<Rightarrow> dep_error + uuid list" where
  "registry_ids s = and_then (snapshot_apps s) (\<lambda>apps. Inr (unique (List.map_filter sa_registryId apps)))"

definition login_of :: "docker \<Rightarrow> registry_row \<Rightarrow> registry_login" where
  "login_of dk r = \<lparr>lg_host = ry_host r, lg_authType = ry_authType r, lg_username = ry_username r,
     lg_credential = dk_credential dk (ry_credentialData r)\<rparr>"

definition find_login :: "docker \<Rightarrow> registry_row list \<Rightarrow> string \<Rightarrow> uuid \<Rightarrow> (string \<times> string) + registry_login" where
  "find_login dk registries tenantId registryId =
     (case find_row ry_id registryId registries of
        None \<Rightarrow> Inl (''Registry '' @ registryId @ '' is missing'',
                     ''Registry '' @ registryId @ '' was not found for tenant '' @ tenantId)
      | Some r \<Rightarrow> Inr (login_of dk r))"

definition resolveRegistryLogins ::
    "docker \<Rightarrow> dep_db \<Rightarrow> raw_snapshot \<Rightarrow> dep_error + ((string \<times> string) + registry_login list)" where
  "resolveRegistryLogins dk db s =
     and_then (registry_ids s)
       (\<lambda>ids. if ids = [] then Inr (Inr [])
              else
                (case rs_appGroup s of
                   None \<Rightarrow> Inl (DepThrown ''TypeError'')
                 | Some g \<Rightarrow>
                     (let registries = filter (\<lambda>r. ry_id r \<in> set ids \<and> ry_tenantId r = rg_tenantId g) (dd_registries db)
                      in Inr (traverse (find_login dk registries (rg_tenantId g)) ids))))"

definition applyWithScopedRegistryAuth ::
    "docker \<Rightarrow> await \<Rightarrow> dep_db \<Rightarrow> millis \<Rightarrow> raw_snapshot \<Rightarrow> string \<Rightarrow> string \<times> string \<Rightarrow> uuid \<Rightarrow> apply_result dep_result" where
  "applyWithScopedRegistryAuth dk w db now s stack artifact appGroupId =
     (if \<not> verifyGpuArtifactOwnership db now s appGroupId
      then (db, Inr \<lparr>al_command = ''verify exclusive GPU ownership'', al_exitCode = 1, al_stdout = '''',
                     al_stderr = ''GpuRollbackOwnershipNotVerified''\<rparr>)
      else
        (case resolveRegistryLogins dk db s of
           Inl e \<Rightarrow> (db, Inl e)
         | Inr (Inl (message, details)) \<Rightarrow>
             (db, Inr \<lparr>al_command = ''resolve tenant registry credentials'', al_exitCode = 1, al_stdout = '''',
                       al_stderr = details\<rparr>)
         | Inr (Inr logins) \<Rightarrow>
             (dk_during dk w db,
              and_then (dk_apply dk w logins stack artifact)
                (\<lambda>(auth, result).
                   case result of
                     Some r \<Rightarrow>
                       if st_success auth then Inr r
                       else Inr \<lparr>al_command = ''authenticate tenant registry'', al_exitCode = 1, al_stdout = '''',
                              al_stderr = (if st_details auth \<noteq> '''' then st_details auth else st_message auth)\<rparr>
                   | None \<Rightarrow>
                       Inr \<lparr>al_command = ''authenticate tenant registry'', al_exitCode = 1, al_stdout = '''',
                              al_stderr = (if st_details auth \<noteq> '''' then st_details auth else st_message auth)\<rparr>))))"

definition result_text :: "apply_result \<Rightarrow> string" where
  "result_text r =
     (if al_stderr r \<noteq> '''' then al_stderr r
      else if al_stdout r \<noteq> '''' then al_stdout r
      else ''Exit code '' @ show_int (al_exitCode r))"

definition lines2 :: "string \<Rightarrow> string \<Rightarrow> string" where
  "lines2 a b = a @ [CHR 0x0A] @ b"

definition applyRenderedStack ::
    "worker_tools \<Rightarrow> docker \<Rightarrow> dep_db \<Rightarrow> millis \<Rightarrow> uuid \<Rightarrow> string \<Rightarrow> deployment dep_result" where
  "applyRenderedStack tools dk db now i workerId =
     (case findWorkerDeploymentOrThrow db i workerId of
        Inl e \<Rightarrow> (db, Inl e)
      | Inr d \<Rightarrow>
          try_then (ensureDeploymentArtifact (artifact_tools.truncate tools) db now (dp_id d)) (\<lambda>db artifact.
          try_then (db, parseStackConfig (dp_stackConfig d)) (\<lambda>db snapshot.
          try_then (applyWithScopedRegistryAuth dk AwaitApply db now snapshot (stackName (dp_appGroupId d)) artifact
                      (dp_appGroupId d)) (\<lambda>db result.
            if al_exitCode result \<noteq> 0
            then update_with_event db i
                   (failed_row (dk_now dk AwaitApply) ''DockerStackDeployFailed'' (Some (truncate_text (result_text result) 2000)))
                   ApplyingStack ''Error''
                   (truncate_text (lines2 (al_command result)
                      (if al_stderr result \<noteq> '''' then al_stderr result else al_stdout result)) 2000)
            else update_with_event db i (touch_row (dk_now dk AwaitApply)) ApplyingStack ''Info''
                   (truncate_text (lines2 (al_command result)
                      (if al_stdout result \<noteq> '''' then al_stdout result else ''Docker stack deploy succeeded'')) 2000)))))"

section \<open>Provisioning\<close>

text \<open>\<open>[...].filter(Boolean).join("\n")\<close>.\<close>

definition joined :: "string list \<Rightarrow> string" where
  "joined parts = join_with [CHR 0x0A] (filter (\<lambda>p. p \<noteq> '''') parts)"

definition provisionRegistryAuth :: "docker \<Rightarrow> dep_db \<Rightarrow> raw_snapshot \<Rightarrow> dep_error + step_result" where
  "provisionRegistryAuth dk db s =
     and_then (resolveRegistryLogins dk db s)
       (\<lambda>r. case r of
              Inl (message, details) \<Rightarrow> Inr \<lparr>st_success = False, st_message = message, st_details = details\<rparr>
            | Inr logins \<Rightarrow> Inr (dk_login dk logins))"

definition provisionArtifacts :: "docker \<Rightarrow> dep_db \<Rightarrow> uuid \<Rightarrow> string \<Rightarrow> deployment dep_result" where
  "provisionArtifacts dk db i workerId =
     (case findWorkerDeploymentOrThrow db i workerId of
        Inl e \<Rightarrow> (db, Inl e)
      | Inr d \<Rightarrow>
          try_then (db, parseStackConfig (dp_stackConfig d)) (\<lambda>db s.
          try_then (db, provisionRegistryAuth dk db s) (\<lambda>db auth.
          try_then (dk_during dk AwaitProvision db, snapshot_apps s) (\<lambda>db apps.
            let now = dk_now dk AwaitProvision; secrets = dk_secrets dk s; configs = dk_configs dk s;
                volumes = concat (map sa_volumes apps); result = dk_volumes dk volumes
            in if \<not> st_success auth then failProvisioning db now i ''RegistryAuthFailed'' (st_message auth) (st_details auth)
               else if \<not> st_success secrets
               then failProvisioning db now i ''SecretProvisioningFailed'' (st_message secrets) (st_details secrets)
               else if \<not> st_success configs
               then failProvisioning db now i ''ConfigProvisioningFailed'' (st_message configs) (st_details configs)
               else if volumes = []
               then recordProvisioningSuccess db now i
                      (joined [st_message auth, st_details auth, st_message secrets, st_details secrets,
                               st_message configs, st_details configs])
               else if \<not> st_success result
               then failProvisioning db now i ''VolumeProvisioningFailed'' (st_message result) (st_details result)
               else recordProvisioningSuccess db now i
                      (joined [st_message secrets, st_details secrets, st_message auth, st_details auth,
                               st_message result, st_details result, st_message configs, st_details configs])))))"

section \<open>The end of a rollout\<close>

definition finished_row :: "millis \<Rightarrow> deployment_status \<Rightarrow> deployment \<Rightarrow> deployment" where
  "finished_row now status r =
     (release_lease r)\<lparr>dp_phase := Completed, dp_status := status, dx_completedAt := Some now\<rparr>"

definition version_text :: "int option \<Rightarrow> string" where
  "version_text v = (case v of None \<Rightarrow> ''null'' | Some n \<Rightarrow> show_int n)"

text \<open>The apps marked for deletion go, and the GPUs they held are free again.\<close>

definition free_gpu :: "uuid list \<Rightarrow> gpu_device \<Rightarrow> gpu_device" where
  "free_gpu ids r =
     (if (\<exists>i \<in> set ids. gp_app r = Some i) then r\<lparr>gp_app := None, gp_state := ''Free'', gp_allocatedAt := None\<rparr> else r)"

definition deleted_apps :: "dep_db \<Rightarrow> uuid \<Rightarrow> single_app list" where
  "deleted_apps db g = filter (\<lambda>a. sr_appGroupId a = g \<and> sr_pendingDeletion a) (dd_apps db)"

definition delete_apps :: "dep_db \<Rightarrow> uuid list \<Rightarrow> dep_db" where
  "delete_apps db ids =
     db\<lparr>dd_gpus := map (free_gpu ids) (dd_gpus db), dd_apps := filter (\<lambda>a. sr_id a \<notin> set ids) (dd_apps db)\<rparr>"

definition completed_group :: "deployment \<Rightarrow> app_group \<Rightarrow> app_group" where
  "completed_group d g =
     (case dx_rollbackTarget d of
        Some target \<Rightarrow>
          g\<lparr>gr_currentVersion := Some target, gr_pendingChanges := True, gr_status := ''Ready'', gr_drift := ''InSync''\<rparr>
      | None \<Rightarrow>
          g\<lparr>gr_currentVersion := Some (dp_version d),
            gr_pendingChanges := (gr_draftRevision g \<noteq> dx_sourceDraftRevision d)\<rparr>)"

text \<open>The transaction of \<open>waitForRollout\<close> after a converged rollout. The runtime observation that follows it
  (\<open>runtimeDrift.reconcileOne\<close>, whose errors are caught) is left out.\<close>

definition completeRollout :: "dep_db \<Rightarrow> millis \<Rightarrow> deployment \<Rightarrow> rollout_result \<Rightarrow> deployment dep_result" where
  "completeRollout db now d result =
     in_transaction db
       (let deleted = deleted_apps db (dp_appGroupId d);
            status = (if dx_rollbackTarget d \<noteq> None then RolledBack else Succeeded);
            text = lines2 (ro_message result) (ro_details result)
        in try_then (update_deployment (delete_apps db (map sr_id deleted)) (dp_id d) (finished_row now status)) (\<lambda>db next.
           try_then (update_group db (dp_appGroupId d) (completed_group d)) (\<lambda>db g.
             let db = createDeploymentEvent db (dp_id d) Completed ''Info''
                   (truncate_text
                      (if dx_rollbackTarget d \<noteq> None
                       then lines2 (''Rolled back to deployment v'' @ version_text (dx_rollbackTarget d)) text else text) 2000)
             in (if deleted \<noteq> []
                 then createDeploymentEvent db (dp_id d) Cleanup ''Info''
                        (''Deleted '' @ show_nat (length deleted) @ '' pending single app(s): '' @
                         join_with '', '' (map ap_name deleted))
                 else db, Inr next))))"

section \<open>Automatic rollback\<close>

definition rollback_target :: "dep_db \<Rightarrow> deployment \<Rightarrow> deployment option" where
  "rollback_target db d =
     head_opt (sort_desc dp_version
       (filter (\<lambda>r. dp_appGroupId r = dp_appGroupId d \<and> dp_status r = Succeeded \<and> dp_version r < dp_version d)
          (dd_deployments db)))"

definition rolling_back_row :: "millis \<Rightarrow> int \<Rightarrow> string \<Rightarrow> deployment \<Rightarrow> deployment" where
  "rolling_back_row now target message r =
     r\<lparr>dp_status := RollingBack, dp_phase := RollingBackPhase, dx_rollbackTarget := Some target,
       dx_errorCode := Some ''RolloutFailed'', dx_errorMessage := Some message, dp_heartbeatAt := Some now\<rparr>"

definition rollback_failed_row :: "millis \<Rightarrow> string \<Rightarrow> deployment \<Rightarrow> deployment" where
  "rollback_failed_row now message r =
     (finished_row now RollbackFailed r)\<lparr>dx_errorCode := Some ''RollbackFailed'', dx_errorMessage := Some (truncate_text message 2000)\<rparr>"

definition broken_group :: "app_group \<Rightarrow> app_group" where
  "broken_group g = g\<lparr>gr_status := ''Error'', gr_drift := ''Unknown''\<rparr>"

definition rolled_back_group :: "int \<Rightarrow> app_group \<Rightarrow> app_group" where
  "rolled_back_group version g = g\<lparr>gr_currentVersion := Some version, gr_pendingChanges := True\<rparr>"

text \<open>The nested update writes the group of the row.\<close>

definition close_deployment ::
    "dep_db \<Rightarrow> uuid \<Rightarrow> (deployment \<Rightarrow> deployment) \<Rightarrow> (app_group \<Rightarrow> app_group) \<Rightarrow> string \<Rightarrow> string \<Rightarrow> deployment dep_result" where
  "close_deployment db i f g level message =
     in_transaction db
       (try_then (update_deployment db i f) (\<lambda>db next.
        try_then (update_group db (dp_appGroupId next) g) (\<lambda>db _.
          (createDeploymentEvent db i Completed level message, Inr next))))"

definition markRollbackFailed :: "dep_db \<Rightarrow> millis \<Rightarrow> uuid \<Rightarrow> int \<Rightarrow> string \<Rightarrow> deployment dep_result" where
  "markRollbackFailed db now i target message =
     close_deployment db i (rollback_failed_row now message) broken_group ''Error''
       (truncate_text (lines2 (''Rollback to deployment v'' @ show_int target @ '' failed'') message) 2000)"

definition rollbackAfterRuntimeFailure ::
    "worker_tools \<Rightarrow> docker \<Rightarrow> dep_db \<Rightarrow> millis \<Rightarrow> deployment \<Rightarrow> string \<Rightarrow> string \<Rightarrow> deployment dep_result" where
  "rollbackAfterRuntimeFailure tools dk db now d message details =
     (let text = truncate_text (lines2 message details) 2000 in
      case rollback_target db d of
        None \<Rightarrow> failDeploymentWithPhase db now (dp_id d) WaitingForRollout ''RolloutFailed'' text
      | Some target \<Rightarrow>
          (if dp_stackConfig target = NoConfig
           then failDeploymentWithPhase db now (dp_id d) WaitingForRollout ''RolloutFailed'' text
           else
             (let back = ''Rolling back to deployment v'' @ show_int (dp_version target) in
              try_then (update_with_event db (dp_id d) (rolling_back_row now (dp_version target) text) WaitingForRollout ''Error'' text)
                (\<lambda>db _. let db = createDeploymentEvent db (dp_id d) RollingBackPhase ''Info'' back in
              try_then (db, parseStackConfig (dp_stackConfig target)) (\<lambda>db s.
              try_then (ensureDeploymentArtifact (artifact_tools.truncate tools) db now (dp_id target)) (\<lambda>db artifact.
              try_then (applyWithScopedRegistryAuth dk AwaitRollbackApply db now s (stackName (dp_appGroupId d)) artifact
                          (dp_appGroupId d)) (\<lambda>db applied.
                if al_exitCode applied \<noteq> 0
                then markRollbackFailed db (dk_now dk AwaitRollbackApply) (dp_id d) (dp_version target)
                       (lines2 ''Rollback stack deploy failed'' (lines2 (al_command applied) (result_text applied)))
                else
                  try_then (db, expectedServices (stackName (dp_appGroupId d)) s) (\<lambda>db expected.
                  try_then (dk_during dk AwaitRollbackRollout db, dk_rollout dk AwaitRollbackRollout expected None) (\<lambda>db result.
                    if \<not> ro_success result
                    then markRollbackFailed db (dk_now dk AwaitRollbackRollout) (dp_id d) (dp_version target)
                           (lines2 (ro_message result) (ro_details result))
                    else close_deployment db (dp_id d) (finished_row (dk_now dk AwaitRollbackRollout) RolledBack)
                           (rolled_back_group (dp_version target)) ''Info''
                           (''Rolled back to deployment v'' @ show_int (dp_version target)))))))))))"

section \<open>\<open>waitForRollout\<close> and \<open>advanceDeployment\<close>\<close>

text \<open>The services of the apps marked for deletion that still hold a GPU.\<close>

definition removed_gpu_services :: "dep_db \<Rightarrow> uuid \<Rightarrow> string list" where
  "removed_gpu_services db g =
     List.map_filter
       (\<lambda>r. map_option (\<lambda>a. serviceName (ap_name a)) (head_opt (filter (\<lambda>a. gp_app r = Some (sr_id a)) (deleted_apps db g))))
       (dd_gpus db)"

definition waitForDeployment ::
    "worker_tools \<Rightarrow> docker \<Rightarrow> dep_db \<Rightarrow> uuid \<Rightarrow> string \<Rightarrow> deployment dep_result" where
  "waitForDeployment tools dk db i workerId =
     (case findWorkerDeploymentOrThrow db i workerId of
        Inl e \<Rightarrow> (db, Inl e)
      | Inr d \<Rightarrow>
          (let stack = stackName (dp_appGroupId d) in
           try_then (db, parseStackConfig (dp_stackConfig d)) (\<lambda>db s.
           try_then (db, expectedServices stack s) (\<lambda>db expected.
           try_then (dk_during dk AwaitRollout db, dk_rollout dk AwaitRollout expected (Some (readinessStabilityChecks s))) (\<lambda>db result.
             if \<not> ro_success result
             then rollbackAfterRuntimeFailure tools dk db (dk_now dk AwaitRollout) d (ro_message result) (ro_details result)
             else
               (let removed = removed_gpu_services db (dp_appGroupId d) in
                if removed = [] then completeRollout db (dk_now dk AwaitRollout) d result
                else
                  (let db = dk_during dk AwaitGpuTasks db in
                   if \<not> dk_gpu_tasks dk stack removed
                   then rollbackAfterRuntimeFailure tools dk db (dk_now dk AwaitGpuTasks) d ''GPU runtime cleanup unverified''
                          ''A removed GPU-backed service still has active tasks or a Swarm node is unavailable''
                   else completeRollout db (dk_now dk AwaitGpuTasks) d result)))))))"

text \<open>\<open>admitAndAdvance\<close> of the capacity component on the whole row.\<close>

definition admit_and_advance ::
    "worker_tools \<Rightarrow> dep_db \<Rightarrow> millis \<Rightarrow> deployment \<Rightarrow> deployment_snapshot \<Rightarrow> string option \<Rightarrow>
     dep_db \<times> (dep_error + admission)" where
  "admit_and_advance tools db now d snapshot message =
     (case admitDeployment (cap_view db) now snapshot (at_preflight tools) of
        (pf, Inl e) \<Rightarrow> (db, Inl (DepThrown e))
      | (pf, Inr (Refused code text)) \<Rightarrow> (db, Inr (Refused code text))
      | (pf, Inr (Admitted demand occupied supply)) \<Rightarrow>
          (case update_with_event db (dp_id d) (advance_row d now) PreparingArtifacts ''Info''
                  (option_or message ''Deployment advanced to PreparingArtifacts'') of
             (db', Inl e) \<Rightarrow> (db, Inl e)
           | (db', Inr row) \<Rightarrow> (db', Inr (Admitted demand occupied supply))))"

fun capacity_code_text :: "capacity_error_code \<Rightarrow> string" where
  "capacity_code_text InsufficientCapacity = ''InsufficientCapacity''"
| "capacity_code_text PlatformUnavailable = ''PlatformUnavailable''"

text \<open>The phase \<open>PreparingArtifacts\<close>: validation, admission, provisioning. A snapshot that is not of
  its declared shape throws.\<close>

definition advanceToPreparing ::
    "worker_tools \<Rightarrow> docker \<Rightarrow> dep_db \<Rightarrow> millis \<Rightarrow> deployment \<Rightarrow> string \<Rightarrow> string option \<Rightarrow> deployment dep_result" where
  "advanceToPreparing tools dk db now d workerId message =
     try_then (db, at_validate tools db d) (\<lambda>db invalid.
       case invalid of
         Some (code, text) \<Rightarrow> failDeploymentWithPhase db now (dp_id d) Validating code text
       | None \<Rightarrow>
           (case parseSnapshot (dp_stackConfig d) of
              None \<Rightarrow> (db, Inl (DepThrown ''TypeError''))
            | Some snapshot \<Rightarrow>
                try_then (admit_and_advance tools db now d snapshot message) (\<lambda>db admission.
                  case admission of
                    Refused code text \<Rightarrow> failDeploymentWithPhase db now (dp_id d) Validating (capacity_code_text code) text
                  | Admitted demand occupied supply \<Rightarrow> provisionArtifacts dk db (dp_id d) workerId)))"

definition advanced_row :: "millis \<Rightarrow> deployment \<Rightarrow> deployment_phase \<Rightarrow> (string \<times> string) option \<Rightarrow> deployment \<Rightarrow> deployment" where
  "advanced_row now d phase artifact row =
     (let r = (case artifact of
                 None \<Rightarrow> row
               | Some (stack, digest) \<Rightarrow>
                   row\<lparr>dx_renderedStack := Some stack, dx_renderedSha := Some digest, dx_renderedAt := Some now\<rparr>)
      in if phase = Completed
         then (release_lease r)\<lparr>dp_phase := phase, dp_status := Succeeded, dx_completedAt := Some now\<rparr>
         else r\<lparr>dp_phase := phase, dp_status := Deploying, dp_leaseOwner := dp_leaseOwner d,
                dp_leaseExpiresAt := dp_leaseExpiresAt d, dp_heartbeatAt := Some now\<rparr>)"

text \<open>The stack rendered when the next phase is \<open>GeneratingStack\<close>; it is kept only when the
  configuration has no sensitive value and the text is not empty.\<close>

definition persisted_artifact :: "worker_tools \<Rightarrow> deployment \<Rightarrow> deployment_phase \<Rightarrow> dep_error + (string \<times> string) option" where
  "persisted_artifact tools d phase =
     (if phase \<noteq> GeneratingStack then Inr None
      else
        and_then (at_render tools (dp_stackConfig d))
          (\<lambda>stack. Inr (if at_sensitive tools (dp_stackConfig d) \<or> stack = '''' then None
                        else Some (stack, at_sha tools stack))))"

definition advanceDeployment ::
    "worker_tools \<Rightarrow> docker \<Rightarrow> dep_db \<Rightarrow> millis \<Rightarrow> uuid \<Rightarrow> string \<Rightarrow> deployment_phase \<Rightarrow> string option \<Rightarrow> deployment dep_result" where
  "advanceDeployment tools dk db now i workerId phase message =
     (case findWorkerDeploymentOrThrow db i workerId of
        Inl e \<Rightarrow> (db, Inl e)
      | Inr d \<Rightarrow>
          (case assertPhaseTransition (dp_phase d) phase of
             Some e \<Rightarrow> (db, Inl e)
           | None \<Rightarrow>
               (if phase = PreparingArtifacts then advanceToPreparing tools dk db now d workerId message
                else
                  try_then (db, persisted_artifact tools d phase) (\<lambda>db artifact.
                  try_then (update_with_event db i (advanced_row now d phase artifact) phase ''Info''
                              (option_or message (''Deployment advanced to '' @ phase_text phase))) (\<lambda>db updated.
                    if phase = ApplyingStack then applyRenderedStack tools dk db now (dp_id updated) workerId
                    else if phase = WaitingForRollout then waitForDeployment tools dk db (dp_id updated) workerId
                    else (db, Inr updated))))))"

end
