(* ===== verification/DeploymentRecovery.thy ===== *)
theory DeploymentRecovery
  imports OperationRetry DeploymentExecution
begin

text \<open>
  \<open>internal/deployment-recovery.service.ts\<close> and
  \<open>operations/executors/deployment-operation.executor.ts\<close>: an operation claims its deployment, brings
  a rollout that a dead worker left behind into a known state, and takes it through the remaining
  phases.
\<close>

section \<open>Claim and heartbeat\<close>

definition createEvent :: "dep_db \<Rightarrow> uuid \<Rightarrow> deployment_phase \<Rightarrow> string \<Rightarrow> string \<Rightarrow> dep_db" where
  "createEvent db i phase level message = createDeploymentEvent db i phase level (truncate_text message 2000)"

definition leased_by_another :: "millis \<Rightarrow> string \<Rightarrow> deployment \<Rightarrow> bool" where
  "leased_by_another now workerId r \<longleftrightarrow>
     dp_leaseOwner r \<noteq> None \<and> dp_leaseOwner r \<noteq> Some workerId \<and>
     (case dp_leaseExpiresAt r of None \<Rightarrow> False | Some t \<Rightarrow> now < t)"

definition lease_available :: "millis \<Rightarrow> string \<Rightarrow> deployment \<Rightarrow> bool" where
  "lease_available now workerId r \<longleftrightarrow>
     dp_leaseOwner r = Some workerId \<or> dp_leaseOwner r = None \<or>
     (case dp_leaseExpiresAt r of None \<Rightarrow> True | Some t \<Rightarrow> t \<le> now)"

definition claimed_deployment_row :: "millis \<Rightarrow> string \<Rightarrow> int option \<Rightarrow> deployment \<Rightarrow> deployment \<Rightarrow> deployment" where
  "claimed_deployment_row now workerId leaseSeconds cur r =
     r\<lparr>dp_status := (if dp_status cur = Pending then Deploying else dp_status cur), dp_leaseOwner := Some workerId,
       dp_leaseExpiresAt := Some (calculateLeaseExpiration now leaseSeconds), dp_heartbeatAt := Some now,
       dx_startedAt := Some (option_or (dx_startedAt cur) now)\<rparr>"

text \<open>Other transactions may commit between the read and the update.\<close>

definition claimDeploymentById ::
    "docker \<Rightarrow> dep_db \<Rightarrow> millis \<Rightarrow> uuid \<Rightarrow> string \<Rightarrow> int option \<Rightarrow> deployment dep_result" where
  "claimDeploymentById dk db now i workerId leaseSeconds =
     (case find_deployment db i of
        None \<Rightarrow> (db, Inl (DepNotFound ''Deployment not found''))
      | Some cur \<Rightarrow>
          (if is_terminal (dp_status cur) then (db, Inr cur)
           else if leased_by_another now workerId cur then (db, Inl DepLeaseActive)
           else
             (let db = dk_during dk AwaitClaim db in
              case update_where (\<lambda>r. dp_id r = i \<and> lease_available now workerId r)
                     (claimed_deployment_row now workerId leaseSeconds cur) (dd_deployments db) of
                (t, []) \<Rightarrow> (db, Inl DepLeaseActive)
              | (t, next # _) \<Rightarrow>
                  (createEvent (db\<lparr>dd_deployments := t\<rparr>) i (dp_phase cur) ''Info''
                     ((if dp_status cur = Pending then ''Deployment claimed through Operation by ''
                       else ''Deployment execution resumed through Operation by '') @ workerId), Inr next))))"

definition findClaimedDeployment :: "dep_db \<Rightarrow> uuid \<Rightarrow> string \<Rightarrow> dep_error + deployment" where
  "findClaimedDeployment db i workerId =
     (case find_deployment db i of
        None \<Rightarrow> Inl (DepNotFound ''Deployment not found'')
      | Some d \<Rightarrow>
          (if dp_status d \<noteq> Deploying \<and> dp_status d \<noteq> RollingBack
           then Inl (DepConflict (''Deployment is not recoverable: '' @ status_text (dp_status d)))
           else if dp_leaseOwner d \<noteq> Some workerId then Inl (DepConflict ''Deployment is leased by another worker'')
           else Inr d))"

definition recovery_heartbeat :: "dep_db \<Rightarrow> millis \<Rightarrow> uuid \<Rightarrow> string \<Rightarrow> int option \<Rightarrow> deployment dep_result" where
  "recovery_heartbeat db now i workerId leaseSeconds =
     (case findClaimedDeployment db i workerId of
        Inl e \<Rightarrow> (db, Inl e)
      | Inr d \<Rightarrow> update_deployment db i (heartbeat_deployment_row now leaseSeconds))"

section \<open>Recovery\<close>

text \<open>\<open>None\<close> is the deferred recovery, which leaves the deployment for a later attempt.\<close>

definition lapsed_row :: "deployment \<Rightarrow> deployment" where
  "lapsed_row r = r\<lparr>dp_leaseOwner := None, dp_leaseExpiresAt := Some 0, dp_heartbeatAt := None\<rparr>"

definition deferRecovery :: "dep_db \<Rightarrow> deployment \<Rightarrow> string \<Rightarrow> deployment option dep_result" where
  "deferRecovery db d message =
     (case update_where (\<lambda>r. dp_id r = dp_id d \<and> dp_status r = dp_status d \<and> dp_leaseOwner r = dp_leaseOwner d)
             lapsed_row (dd_deployments db) of
        (t, [r]) \<Rightarrow>
          (createEvent (db\<lparr>dd_deployments := t\<rparr>) (dp_id d) (dp_phase d) ''Warning'' (''Worker recovery deferred: '' @ message),
           Inr None)
      | (t, _) \<Rightarrow> (db\<lparr>dd_deployments := t\<rparr>, Inr None))"

definition expected_runtime_service :: "string \<Rightarrow> raw_snapshot \<Rightarrow> snapshot_app \<Rightarrow> dep_error + runtime_service" where
  "expected_runtime_service stack s app =
     and_then (effectiveReplicas s app)
       (\<lambda>n. Inr \<lparr>rt_name = stack @ ''_'' @ serviceName (sa_name app), rt_image = sa_image app, rt_desiredReplicas = n\<rparr>)"

definition expectedRuntimeServices :: "string \<Rightarrow> raw_snapshot \<Rightarrow> dep_error + runtime_service list" where
  "expectedRuntimeServices stack s = and_then (snapshot_apps s) (traverse (expected_runtime_service stack s))"

definition inspectDeploymentRuntime :: "docker \<Rightarrow> uuid \<Rightarrow> raw_snapshot \<Rightarrow> dep_error + drift_status option" where
  "inspectDeploymentRuntime dk appGroupId s =
     and_then (expectedRuntimeServices (stackName appGroupId) s)
       (\<lambda>expected. Inr (case dk_inspect dk (stackName appGroupId) of
                          None \<Rightarrow> None
                        | Some observed \<Rightarrow> Some (deriveAppGroupDriftStatus expected (Some observed))))"

text \<open>A step whose result is the deployment.\<close>

definition settled :: "deployment dep_result \<Rightarrow> deployment option dep_result" where
  "settled m = try_then m (\<lambda>db d. (db, Inr (Some d)))"

definition reconcileApplyingStack ::
    "worker_tools \<Rightarrow> docker \<Rightarrow> dep_db \<Rightarrow> deployment \<Rightarrow> string \<Rightarrow> deployment option dep_result" where
  "reconcileApplyingStack tools dk db d workerId =
     try_then (db, parseStackConfig (dp_stackConfig d)) (\<lambda>db s.
     try_then (dk_during dk AwaitInspect db, inspectDeploymentRuntime dk (dp_appGroupId d) s) (\<lambda>db observed.
       case observed of
         None \<Rightarrow> deferRecovery db d ''Docker Swarm state could not be inspected before resuming stack apply''
       | Some status \<Rightarrow>
           (if status = InSync
            then (createEvent db (dp_id d) ApplyingStack ''Info''
                    ''Worker recovery found the desired stack already applied; skipping duplicate docker stack deploy'', Inr (Some d))
            else settled (applyRenderedStack tools dk
                   (createEvent db (dp_id d) ApplyingStack ''Warning''
                      ''Worker recovery observed an incomplete stack apply; reconciling desired stack after inspection'')
                   (dk_now dk AwaitInspect) (dp_id d) workerId))))"

definition reconcileWaitingForRollout ::
    "worker_tools \<Rightarrow> docker \<Rightarrow> dep_db \<Rightarrow> deployment \<Rightarrow> string \<Rightarrow> deployment option dep_result" where
  "reconcileWaitingForRollout tools dk db d workerId =
     try_then (db, parseStackConfig (dp_stackConfig d)) (\<lambda>db s.
     try_then (dk_during dk AwaitInspect db, inspectDeploymentRuntime dk (dp_appGroupId d) s) (\<lambda>db observed.
       case observed of
         None \<Rightarrow> deferRecovery db d ''Docker Swarm state could not be inspected before resuming rollout''
       | Some status \<Rightarrow>
           (if status \<noteq> InSync
            then
              try_then (applyRenderedStack tools dk
                (createEvent db (dp_id d) WaitingForRollout ''Warning''
                   ''Worker recovery observed runtime drift during rollout; reconciling desired stack after inspection'')
                (dk_now dk AwaitInspect) (dp_id d) workerId) (\<lambda>db applied.
                if is_terminal (dp_status applied) then (db, Inr (Some applied))
                else settled (waitForDeployment tools dk db (dp_id d) workerId))
            else settled (waitForDeployment tools dk
                   (createEvent db (dp_id d) WaitingForRollout ''Info''
                      ''Worker recovery found the desired stack present; resuming rollout observation without duplicate apply'')
                   (dp_id d) workerId))))"

subsection \<open>Rollbacks\<close>

definition recovery_rollback_failed :: "dep_db \<Rightarrow> millis \<Rightarrow> deployment \<Rightarrow> string \<Rightarrow> deployment option dep_result" where
  "recovery_rollback_failed db now d message =
     settled (close_deployment db (dp_id d) (rollback_failed_row now message) broken_group ''Error''
       (truncate_text (lines2 (''Rollback to deployment v'' @
          (case dx_rollbackTarget d of None \<Rightarrow> ''unknown'' | Some v \<Rightarrow> show_int v) @
          '' failed during worker recovery'') message) 2000))"

definition completeRollback :: "dep_db \<Rightarrow> millis \<Rightarrow> deployment \<Rightarrow> int \<Rightarrow> rollout_result \<Rightarrow> deployment option dep_result" where
  "completeRollback db now d version result =
     settled (close_deployment db (dp_id d) (finished_row now RolledBack) (rolled_back_group version) ''Info''
       (truncate_text (lines2 (''Worker recovery completed rollback to deployment v'' @ show_int version)
          (lines2 (ro_message result) (ro_details result))) 2000))"

definition recovery_target :: "dep_db \<Rightarrow> deployment \<Rightarrow> int \<Rightarrow> deployment option" where
  "recovery_target db d version =
     head_opt (filter (\<lambda>r. dp_appGroupId r = dp_appGroupId d \<and> dp_version r = version \<and> dp_status r = Succeeded \<and>
       dp_stackConfig r \<noteq> NoConfig) (dd_deployments db))"

text \<open>The rollout of the target, and how it ends.\<close>

definition observe_rollback ::
    "docker \<Rightarrow> dep_db \<Rightarrow> deployment \<Rightarrow> int \<Rightarrow> runtime_service list \<Rightarrow> deployment option dep_result" where
  "observe_rollback dk db d version services =
     (let expected = map (\<lambda>s. \<lparr>ex_name = rt_name s, ex_desiredReplicas = rt_desiredReplicas s\<rparr>) services;
          now = dk_now dk AwaitRollbackRollout
      in try_then (dk_during dk AwaitRollbackRollout db, dk_rollout dk AwaitRollbackRollout expected None) (\<lambda>db result.
           if \<not> ro_success result
           then recovery_rollback_failed db now d (lines2 (ro_message result) (ro_details result))
           else completeRollback db now d version result))"

definition recoverRollback :: "worker_tools \<Rightarrow> docker \<Rightarrow> dep_db \<Rightarrow> millis \<Rightarrow> deployment \<Rightarrow> deployment option dep_result" where
  "recoverRollback tools dk db now d =
     (case dx_rollbackTarget d of
        None \<Rightarrow> recovery_rollback_failed db now d ''Rollback target version is missing during worker recovery''
      | Some version \<Rightarrow>
          (case recovery_target db d version of
             None \<Rightarrow> recovery_rollback_failed db now d
                       (''Rollback target v'' @ show_int version @ '' is unavailable during worker recovery'')
           | Some target \<Rightarrow>
               (let stack = stackName (dp_appGroupId d) in
                try_then (db, parseStackConfig (dp_stackConfig d)) (\<lambda>db _.
                try_then (db, parseStackConfig (dp_stackConfig target)) (\<lambda>db s.
                try_then (db, expectedRuntimeServices stack s) (\<lambda>db services.
                try_then (dk_during dk AwaitInspect db, inspectDeploymentRuntime dk (dp_appGroupId target) s) (\<lambda>db observed.
                  case observed of
                    None \<Rightarrow> deferRecovery db d ''Docker Swarm state could not be inspected before resuming rollback''
                  | Some status \<Rightarrow>
                      (if status \<noteq> InSync
                       then
                         try_then (ensureDeploymentArtifact (artifact_tools.truncate tools)
                           (createEvent db (dp_id d) RollingBackPhase ''Warning''
                              (''Worker recovery observed an incomplete rollback to v'' @ show_int version @
                               ''; reconciling rollback target after inspection''))
                           (dk_now dk AwaitInspect) (dp_id target)) (\<lambda>db artifact.
                         try_then (applyWithScopedRegistryAuth dk AwaitRollbackApply db (dk_now dk AwaitInspect) s stack artifact
                                     (dp_appGroupId d)) (\<lambda>db applied.
                           if al_exitCode applied \<noteq> 0
                           then recovery_rollback_failed db (dk_now dk AwaitRollbackApply) d
                                  (lines2 ''Rollback stack deploy failed'' (lines2 (al_command applied) (result_text applied)))
                           else observe_rollback dk db d version services))
                       else observe_rollback dk
                              (createEvent db (dp_id d) RollingBackPhase ''Info''
                                 (''Worker recovery found rollback target v'' @ show_int version @
                                  '' already applied; skipping duplicate stack deploy''))
                              d version services))))))))"

definition reconcileClaimedDeployment ::
    "worker_tools \<Rightarrow> docker \<Rightarrow> dep_db \<Rightarrow> millis \<Rightarrow> uuid \<Rightarrow> string \<Rightarrow> deployment option dep_result" where
  "reconcileClaimedDeployment tools dk db now i workerId =
     (case findClaimedDeployment db i workerId of
        Inl e \<Rightarrow> (db, Inl e)
      | Inr d \<Rightarrow>
          (if dp_status d = RollingBack then recoverRollback tools dk db now d
           else
             (case dp_phase d of
                PreparingArtifacts \<Rightarrow>
                  settled (provisionArtifacts dk
                    (createEvent db (dp_id d) (dp_phase d) ''Info''
                       ''Worker recovery is replaying idempotent artifact provisioning'') (dp_id d) workerId)
              | ApplyingStack \<Rightarrow> reconcileApplyingStack tools dk db d workerId
              | WaitingForRollout \<Rightarrow> reconcileWaitingForRollout tools dk db d workerId
              | RollingBackPhase \<Rightarrow> (db, Inl (DepConflict ''Deploying deployment cannot be in RollingBack phase''))
              | _ \<Rightarrow> (db, Inr (Some d)))))"

section \<open>The executor\<close>

text \<open>An exception as the operation worker sees it. The HTTP exceptions of NestJS carry no string code.\<close>

definition executionError :: "string \<Rightarrow> string \<Rightarrow> bool \<Rightarrow> thrown" where
  "executionError code message retryable =
     \<lparr>th_value = JObj [(''message'', JStr message), (''code'', JStr code), (''retryable'', JBool retryable)],
      th_isError = True, th_text = ''Error: '' @ message\<rparr>"

definition http_exception :: "string \<Rightarrow> string \<Rightarrow> thrown" where
  "http_exception name message =
     \<lparr>th_value = JObj [(''response'', JObj [(''message'', JStr message)]), (''message'', JStr message)],
      th_isError = True, th_text = name @ '': '' @ message\<rparr>"

fun thrown_of :: "dep_error \<Rightarrow> thrown" where
  "thrown_of (DepNotFound m) = http_exception ''NotFoundException'' m"
| "thrown_of (DepConflict m) = http_exception ''ConflictException'' m"
| "thrown_of DepLeaseActive =
     \<lparr>th_value = JObj [(''response'', JObj [(''message'', JStr ''Deployment is leased by another worker'')]),
        (''message'', JStr ''Deployment is leased by another worker''), (''code'', JStr ''DeploymentLeaseActive''),
        (''retryable'', JBool True)],
      th_isError = True, th_text = ''ConflictException: Deployment is leased by another worker''\<rparr>"
| "thrown_of DepMissingRecord =
     \<lparr>th_value = JObj [(''message'', JStr ''Record to update not found''), (''code'', JStr ''P2025'')],
      th_isError = True, th_text = ''PrismaClientKnownRequestError''\<rparr>"
| "thrown_of (DepThrown m) =
     \<lparr>th_value = JObj [(''message'', JStr m)], th_isError = True, th_text = ''Error: '' @ m\<rparr>"
| "thrown_of DepNeverReturns = \<lparr>th_value = JNull, th_isError = False, th_text = ''''\<rparr>"

definition executor_leaseSeconds :: "operation \<Rightarrow> millis \<Rightarrow> int" where
  "executor_leaseSeconds op now =
     (case op_leaseExpiresAt op of None \<Rightarrow> 300 | Some t \<Rightarrow> max 15 (- ((now - t) div 1000)))"

fun remainingPhases :: "deployment_phase \<Rightarrow> deployment_phase list" where
  "remainingPhases Validating = [PreparingArtifacts, GeneratingStack, ApplyingStack, WaitingForRollout]"
| "remainingPhases PreparingArtifacts = [GeneratingStack, ApplyingStack, WaitingForRollout]"
| "remainingPhases GeneratingStack = [ApplyingStack, WaitingForRollout]"
| "remainingPhases ApplyingStack = [WaitingForRollout]"
| "remainingPhases Cleanup = [Completed]"
| "remainingPhases WaitingForRollout = []"
| "remainingPhases RollingBackPhase = []"
| "remainingPhases Completed = []"

text \<open>The loop over the remaining phases.\<close>

fun run_phases ::
    "worker_tools \<Rightarrow> docker \<Rightarrow> operation \<Rightarrow> string \<Rightarrow> int \<Rightarrow> uuid \<Rightarrow> deployment_phase list \<Rightarrow> dep_db \<Rightarrow>
     deployment \<Rightarrow> deployment dep_result" where
  "run_phases tools dk op workerId leaseSeconds i [] db d = (db, Inr d)"
| "run_phases tools dk op workerId leaseSeconds i (phase # phases) db d =
     (if is_terminal (dp_status d) then (db, Inr d)
      else
        try_then (heartbeatDeployment (dk_during dk (AwaitPhase phase) db) (dk_now dk (AwaitPhase phase)) i workerId (Some leaseSeconds))
          (\<lambda>db _.
        try_then (advanceDeployment tools dk db (dk_now dk (AwaitPhase phase)) i workerId phase
                    (Some (''Operation '' @ op_id op @ '' advanced deployment to '' @ phase_text phase))) (\<lambda>db d.
          run_phases tools dk op workerId leaseSeconds i phases db d)))"

definition deployment_result :: "deployment \<Rightarrow> json" where
  "deployment_result d =
     JObj [(''deploymentId'', JStr (dp_id d)), (''version'', JNum (show_int (dp_version d))),
           (''deploymentStatus'', JStr (status_text (dp_status d))), (''phase'', JStr (phase_text (dp_phase d))),
           (''rollbackTargetVersion'', (case dx_rollbackTarget d of None \<Rightarrow> JNull | Some v \<Rightarrow> JNum (show_int v)))]"

definition terminalResult :: "operation \<Rightarrow> deployment \<Rightarrow> thrown + execution_result" where
  "terminalResult op d =
     (if dp_status d = Failed
      then Inl (executionError (option_or (dx_errorCode d) ''DeploymentFailed'')
                  (option_or (dx_errorMessage d) ''App Group deployment failed'') False)
      else if dp_status d = RollbackFailed
      then Inl (executionError (option_or (dx_errorCode d) ''RollbackFailed'')
                  (option_or (dx_errorMessage d) ''App Group rollback failed'') False)
      else if \<not> is_terminal (dp_status d)
      then Inl (executionError ''DeploymentIncomplete''
                  (''Deployment stopped in '' @ status_text (dp_status d) @ ''/'' @ phase_text (dp_phase d)) True)
      else Inr \<lparr>ex_resourceId = Some (dp_id d), ex_result = Some (deployment_result d),
             ex_terminalStatus =
               Some (if op_type op = APP_GROUP_ROLLBACK \<or> dp_status d = RolledBack then operation_status.RolledBack
                     else operation_status.Succeeded)\<rparr>)"

definition execute :: "worker_tools \<Rightarrow> docker \<Rightarrow> dep_db \<Rightarrow> millis \<Rightarrow> operation \<Rightarrow> dep_db \<times> (thrown + execution_result)" where
  "execute tools dk db now op =
     (if \<not> has_text (op_resourceId op)
      then (db, Inl (executionError ''OperationResourceRequired'' ''Deployment Operation has no deployment id'' False))
      else if \<not> has_text (op_leaseOwner op)
      then (db, Inl (executionError ''OperationLeaseMissing'' ''Deployment Operation has no lease owner'' True))
      else
        (let i = the (op_resourceId op); workerId = the (op_leaseOwner op); leaseSeconds = executor_leaseSeconds op now in
         case claimDeploymentById dk db now i workerId (Some leaseSeconds) of
           (db1, Inl e) \<Rightarrow> (db1, Inl (thrown_of e))
         | (db1, Inr claimed) \<Rightarrow>
             (if is_terminal (dp_status claimed) then (db1, terminalResult op claimed)
              else
                (case reconcileClaimedDeployment tools dk db1 now i workerId of
                   (db2, Inl e) \<Rightarrow> (db2, Inl (thrown_of e))
                 | (db2, Inr None) \<Rightarrow>
                     (db2, Inl (executionError ''DeploymentRecoveryDeferred''
                        ''Deployment recovery could not safely determine runtime state yet'' True))
                 | (db2, Inr (Some d)) \<Rightarrow>
                     (case run_phases tools dk op workerId leaseSeconds i (remainingPhases (dp_phase d)) db2 d of
                        (db3, Inl e) \<Rightarrow> (db3, Inl (thrown_of e))
                      | (db3, Inr final) \<Rightarrow> (db3, terminalResult op final))))))"

end
