(* ===== verification/DeploymentSafety.thy ===== *)
theory DeploymentSafety
  imports DeploymentRecovery
begin

text \<open>
  What the handlers of a deployment guarantee. The locale \<open>deployment_rows\<close> is the contract between
  them and a property of rows: a property that every assignment to the row of the executed
  deployment keeps, and that other requests keep, is kept by the whole execution.
\<close>

section \<open>Statements\<close>

definition rows_ok :: "(deployment \<Rightarrow> bool) \<Rightarrow> dep_db \<Rightarrow> bool" where
  "rows_ok ok db \<longleftrightarrow> list_all ok (dd_deployments db)"

definition keeps :: "(deployment \<Rightarrow> bool) \<Rightarrow> dep_db \<times> 'a \<Rightarrow> bool" where
  "keeps ok m \<longleftrightarrow> rows_ok ok (fst m)"

lemma keeps_pair [simp]: "keeps ok (db, r) \<longleftrightarrow> rows_ok ok db"
  by (simp add: keeps_def)

lemma keeps_try_then:
  assumes "keeps ok m" and "\<And>db x. m = (db, Inr x) \<Longrightarrow> rows_ok ok db \<Longrightarrow> keeps ok (f db x)"
  shows "keeps ok (try_then m f)"
  using assms by (auto simp: try_then_def split: prod.splits sum.splits)

lemma keeps_in_transaction: "rows_ok ok db \<Longrightarrow> keeps ok m \<Longrightarrow> keeps ok (in_transaction db m)"
  by (auto simp: in_transaction_def split: prod.splits sum.splits)

lemma rows_ok_frame [simp]:
  "rows_ok ok (createDeploymentEvent db i phase level message) = rows_ok ok db"
  "rows_ok ok (createEvent db i phase level message) = rows_ok ok db"
  "rows_ok ok (delete_apps db ids) = rows_ok ok db"
  "rows_ok ok (db\<lparr>dd_groups := gs\<rparr>) = rows_ok ok db"
  by (simp_all add: rows_ok_def createDeploymentEvent_def createEvent_def delete_apps_def)

lemma keeps_update_group: "rows_ok ok db \<Longrightarrow> keeps ok (update_group db g f)"
  by (auto simp: update_group_def split: prod.splits list.splits)

lemma rows_ok_update_where:
  assumes "rows_ok ok db" and "\<And>r. ok r \<Longrightarrow> P r \<Longrightarrow> ok (f r)"
  shows "rows_ok ok (db\<lparr>dd_deployments := fst (update_where P f (dd_deployments db))\<rparr>)"
  using assms by (auto simp: rows_ok_def update_where_def list_all_iff)

lemma keeps_update_deployment:
  assumes "rows_ok ok db" and "\<And>r. ok r \<Longrightarrow> dp_id r = i \<Longrightarrow> ok (f r)"
  shows "keeps ok (update_deployment db i f)"
  using rows_ok_update_where [OF assms(1), of "\<lambda>r. dp_id r = i" f] assms
  by (auto simp: update_deployment_def split: prod.splits list.splits)

lemma keeps_update_with_event:
  assumes "rows_ok ok db" and "\<And>r. ok r \<Longrightarrow> dp_id r = i \<Longrightarrow> ok (f r)"
  shows "keeps ok (update_with_event db i f phase level message)"
  using keeps_update_deployment [of ok db i f] assms
  by (auto simp: update_with_event_def keeps_def split: prod.splits sum.splits)

lemma keeps_close_deployment:
  assumes "rows_ok ok db" and "\<And>r. ok r \<Longrightarrow> dp_id r = i \<Longrightarrow> ok (f r)"
  shows "keeps ok (close_deployment db i f g level message)"
  unfolding close_deployment_def using assms
  by (intro keeps_in_transaction keeps_try_then keeps_update_deployment keeps_update_group) auto

lemma find_deployment_ok: "rows_ok ok db \<Longrightarrow> find_deployment db i = Some d \<Longrightarrow> ok d \<and> dp_id d = i"
  by (auto simp: rows_ok_def list_all_iff find_deployment_def dest: find_row_SomeD)

lemma findWorkerDeploymentOrThrow_Inr:
  "findWorkerDeploymentOrThrow db i w = Inr d \<longleftrightarrow>
     find_deployment db i = Some d \<and> dp_status d = Deploying \<and> dp_leaseOwner d = Some w"
  by (auto simp: findWorkerDeploymentOrThrow_def assertDeploymentIsActive_def split: option.splits if_splits)

lemma findClaimedDeployment_Inr:
  "findClaimedDeployment db i w = Inr d \<longleftrightarrow>
     find_deployment db i = Some d \<and> (dp_status d = Deploying \<or> dp_status d = RollingBack) \<and> dp_leaseOwner d = Some w"
  by (auto simp: findClaimedDeployment_def split: option.splits if_splits)

section \<open>The contract of a row property\<close>

locale deployment_rows =
  fixes ok :: "deployment \<Rightarrow> bool" and i :: uuid and dk :: docker
  assumes failed: "ok r \<Longrightarrow> dp_id r = i \<Longrightarrow> ok (failed_row now code details r)"
    and touched: "ok r \<Longrightarrow> dp_id r = i \<Longrightarrow> ok (touch_row now r)"
    and beaten: "ok r \<Longrightarrow> dp_id r = i \<Longrightarrow> ok (heartbeat_deployment_row now s r)"
    and finished: "ok r \<Longrightarrow> dp_id r = i \<Longrightarrow> ok (finished_row now status r)"
    and rolling: "ok r \<Longrightarrow> dp_id r = i \<Longrightarrow> ok (rolling_back_row now v text r)"
    and rollback_failed: "ok r \<Longrightarrow> dp_id r = i \<Longrightarrow> ok (rollback_failed_row now text r)"
    and admitted: "ok r \<Longrightarrow> dp_id r = i \<Longrightarrow> ok (advance_row d now r)"
    and advanced: "ok r \<Longrightarrow> dp_id r = i \<Longrightarrow> ok (advanced_row now d phase artifact r)"
    and claimed: "ok r \<Longrightarrow> dp_id r = i \<Longrightarrow> ok cur \<Longrightarrow> \<not> is_terminal (dp_status cur) \<Longrightarrow>
      ok (claimed_deployment_row now w s cur r)"
    and lapsed: "ok r \<Longrightarrow> dp_id r = i \<Longrightarrow> ok (lapsed_row r)"
    and rendered: "ok r \<Longrightarrow> ok (r\<lparr>dx_renderedStack := st, dx_renderedSha := sh, dx_renderedAt := ra\<rparr>)"
    and meanwhile: "rows_ok ok db \<Longrightarrow> rows_ok ok (dk_during dk aw db)"
begin

lemmas row_steps = failed touched beaten finished rolling rollback_failed admitted advanced lapsed

lemma digest_set: "ok r \<Longrightarrow> ok (r\<lparr>dx_renderedSha := sh, dx_renderedAt := ra\<rparr>)"
  using rendered [where r = r and st = "dx_renderedStack r"] by simp

lemma keeps_artifact: "rows_ok ok db \<Longrightarrow> keeps ok (ensureDeploymentArtifact tools db now j)"
  unfolding ensureDeploymentArtifact_def stored_artifact_def update_matching_def
  by (auto simp: Let_def rendered digest_set rows_ok_update_where split: option.splits sum.splits list.splits if_splits)

lemma keeps_apply: "rows_ok ok db \<Longrightarrow> keeps ok (applyWithScopedRegistryAuth dk w db now s stack artifact g)"
  by (auto simp: applyWithScopedRegistryAuth_def meanwhile split: sum.splits prod.splits)

lemma keeps_applyRenderedStack: "rows_ok ok db \<Longrightarrow> keeps ok (applyRenderedStack tools dk db now i w)"
  unfolding applyRenderedStack_def
  by (auto simp: row_steps keeps_artifact keeps_apply keeps_update_with_event split: sum.splits intro!: keeps_try_then)

lemma keeps_provisioning:
  "rows_ok ok db \<Longrightarrow> keeps ok (failProvisioning db now i code message details)"
  "rows_ok ok db \<Longrightarrow> keeps ok (recordProvisioningSuccess db now i message)"
  by (simp_all add: failProvisioning_def recordProvisioningSuccess_def row_steps keeps_update_with_event)

lemma keeps_provisionArtifacts: "rows_ok ok db \<Longrightarrow> keeps ok (provisionArtifacts dk db i w)"
  unfolding provisionArtifacts_def
  by (auto simp: keeps_provisioning meanwhile Let_def split: sum.splits intro!: keeps_try_then)

lemma keeps_failDeploymentWithPhase: "rows_ok ok db \<Longrightarrow> keeps ok (failDeploymentWithPhase db now i phase code text)"
  by (simp add: failDeploymentWithPhase_def row_steps keeps_update_with_event)

lemma keeps_completeRollout: "rows_ok ok db \<Longrightarrow> dp_id d = i \<Longrightarrow> keeps ok (completeRollout db now d result)"
  unfolding completeRollout_def Let_def
  by (intro keeps_in_transaction keeps_try_then keeps_update_deployment keeps_update_group) (auto simp: row_steps)

lemma keeps_markRollbackFailed: "rows_ok ok db \<Longrightarrow> keeps ok (markRollbackFailed db now i v text)"
  by (simp add: markRollbackFailed_def row_steps keeps_close_deployment)

lemma keeps_rollback:
  assumes ok: "rows_ok ok db" and d: "dp_id d = i"
  shows "keeps ok (rollbackAfterRuntimeFailure tools dk db now d message details)"
proof -
  note steps = keeps_update_with_event keeps_artifact keeps_apply meanwhile keeps_markRollbackFailed
    keeps_close_deployment row_steps
  show ?thesis
    unfolding rollbackAfterRuntimeFailure_def Let_def d using ok
    by (cases "rollback_target db d") (auto simp: keeps_failDeploymentWithPhase steps intro!: keeps_try_then)
qed

lemma keeps_waitForDeployment: "rows_ok ok db \<Longrightarrow> keeps ok (waitForDeployment tools dk db i w)"
proof (cases "findWorkerDeploymentOrThrow db i w")
  case (Inr d)
  moreover assume "rows_ok ok db"
  ultimately have "dp_id d = i" "rows_ok ok db" by (auto simp: findWorkerDeploymentOrThrow_Inr dest: find_deployment_ok)
  then show ?thesis unfolding waitForDeployment_def Let_def Inr
    by (auto simp: keeps_rollback keeps_completeRollout meanwhile intro!: keeps_try_then)
qed (simp add: waitForDeployment_def)

lemma keeps_admission:
  assumes "rows_ok ok db" and "dp_id d = i"
  shows "keeps ok (admit_and_advance tools db now d snapshot message)"
proof -
  let ?msg = "option_or message ''Deployment advanced to PreparingArtifacts''"
  obtain db' r where u: "update_with_event db i (advance_row d now) PreparingArtifacts ''Info'' ?msg = (db', r)" by fastforce
  have "rows_ok ok db'"
    using keeps_update_with_event [of ok db i "advance_row d now" PreparingArtifacts "''Info''" ?msg] assms(1) u
    by (simp add: row_steps)
  then show ?thesis
    unfolding admit_and_advance_def assms(2) u using assms(1) by (auto split: prod.splits sum.splits admission.splits)
qed

lemma keeps_advanceToPreparing:
  assumes "rows_ok ok db" and "dp_id d = i"
  shows "keeps ok (advanceToPreparing tools dk db now d w message)"
  unfolding advanceToPreparing_def using assms(1)
  by (auto simp: assms(2) keeps_failDeploymentWithPhase keeps_provisionArtifacts keeps_admission
      split: option.splits admission.splits intro!: keeps_try_then)

lemma update_with_event_Inr:
  "update_with_event db j f phase level message = (db', Inr r) \<Longrightarrow>
     \<exists>r0. find_deployment db j = Some r0 \<and> r = f r0"
  by (auto simp: update_with_event_def update_deployment_def update_where_def find_deployment_def find_row_def
      split: prod.splits sum.splits list.splits)

lemma keeps_advanceDeployment: "rows_ok ok db \<Longrightarrow> keeps ok (advanceDeployment tools dk db now i w phase message)"
proof (cases "findWorkerDeploymentOrThrow db i w")
  case (Inr d)
  assume ok: "rows_ok ok db"
  then have d: "dp_id d = i" using Inr by (auto simp: findWorkerDeploymentOrThrow_Inr dest: find_deployment_ok)
  have upd: "dp_id updated = i"
    if "update_with_event db i (advanced_row now d phase artifact) ph l m = (db', Inr updated)" for db db' updated artifact ph l m
    using update_with_event_Inr [OF that]
    by (auto simp: advanced_row_def Let_def release_lease_def find_deployment_def split: option.splits prod.splits
        dest: find_row_SomeD)
  show ?thesis
    unfolding advanceDeployment_def Inr using ok
    by (auto simp: d keeps_advanceToPreparing keeps_update_with_event row_steps upd keeps_applyRenderedStack
        keeps_waitForDeployment split: option.splits intro!: keeps_try_then)
qed (simp add: advanceDeployment_def)

lemma keeps_settled: "keeps ok m \<Longrightarrow> keeps ok (settled m)"
  unfolding settled_def by (intro keeps_try_then) auto

lemma keeps_heartbeatDeployment: "rows_ok ok db \<Longrightarrow> keeps ok (heartbeatDeployment db now i w s)"
  by (auto simp: heartbeatDeployment_def row_steps keeps_update_deployment split: sum.splits)

lemma keeps_deferRecovery:
  assumes "rows_ok ok db" and "dp_id d = i"
  shows "keeps ok (deferRecovery db d message)"
proof -
  let ?P = "\<lambda>r. dp_id r = dp_id d \<and> dp_status r = dp_status d \<and> dp_leaseOwner r = dp_leaseOwner d"
  obtain t rs where u: "update_where ?P lapsed_row (dd_deployments db) = (t, rs)" by fastforce
  have "rows_ok ok (db\<lparr>dd_deployments := t\<rparr>)"
    using rows_ok_update_where [OF assms(1), of ?P lapsed_row] assms(2) u by (simp add: row_steps)
  then show ?thesis unfolding deferRecovery_def u by (simp split: list.splits)
qed

lemma keeps_reconcileApplyingStack:
  assumes "rows_ok ok db" and "dp_id d = i"
  shows "keeps ok (reconcileApplyingStack tools dk db d w)"
  unfolding reconcileApplyingStack_def assms(2) using assms(1)
  by (auto simp: keeps_deferRecovery assms(2) meanwhile keeps_applyRenderedStack split: option.splits
      intro!: keeps_try_then keeps_settled)

lemma keeps_reconcileWaitingForRollout:
  assumes "rows_ok ok db" and "dp_id d = i"
  shows "keeps ok (reconcileWaitingForRollout tools dk db d w)"
  unfolding reconcileWaitingForRollout_def assms(2) using assms(1)
  by (auto simp: keeps_deferRecovery assms(2) meanwhile keeps_applyRenderedStack keeps_waitForDeployment split: option.splits
      intro!: keeps_try_then keeps_settled)

lemma keeps_observe_rollback:
  assumes "rows_ok ok db" and "dp_id d = i"
  shows "keeps ok (observe_rollback dk db d v services)"
  unfolding observe_rollback_def Let_def recovery_rollback_failed_def completeRollback_def assms(2) using assms(1)
  by (auto simp: meanwhile row_steps keeps_close_deployment intro!: keeps_try_then keeps_settled)

lemma keeps_recoverRollback:
  assumes "rows_ok ok db" and "dp_id d = i"
  shows "keeps ok (recoverRollback tools dk db now d)"
proof -
  have bad: "keeps ok (recovery_rollback_failed db now d msg)" if "rows_ok ok db" for db now msg
    unfolding recovery_rollback_failed_def assms(2) using that
    by (auto simp: row_steps keeps_close_deployment intro!: keeps_settled)
  show ?thesis
    unfolding recoverRollback_def Let_def assms(2) using assms(1)
    by (auto simp: bad assms(2) keeps_deferRecovery keeps_observe_rollback keeps_artifact keeps_apply meanwhile
        split: option.splits intro!: keeps_try_then)
qed

lemma keeps_reconcileClaimedDeployment: "rows_ok ok db \<Longrightarrow> keeps ok (reconcileClaimedDeployment tools dk db now i w)"
proof (cases "findClaimedDeployment db i w")
  case (Inr d)
  assume ok: "rows_ok ok db"
  then have d: "dp_id d = i" using Inr by (auto simp: findClaimedDeployment_Inr dest: find_deployment_ok)
  show ?thesis
    unfolding reconcileClaimedDeployment_def Inr using ok d
    by (cases "dp_phase d") (simp_all add: keeps_recoverRollback keeps_provisionArtifacts keeps_settled
        keeps_reconcileApplyingStack keeps_reconcileWaitingForRollout)
qed (simp add: reconcileClaimedDeployment_def)

lemma keeps_claimDeploymentById: "rows_ok ok db \<Longrightarrow> keeps ok (claimDeploymentById dk db now i w s)"
proof (cases "find_deployment db i")
  case (Some cur)
  assume ok: "rows_ok ok db"
  let ?P = "\<lambda>r. dp_id r = i \<and> lease_available now w r" and ?db = "dk_during dk AwaitClaim db"
  obtain t rs where u: "update_where ?P (claimed_deployment_row now w s cur) (dd_deployments ?db) = (t, rs)" by fastforce
  have "ok cur" using ok Some by (auto dest: find_deployment_ok)
  then have "\<not> is_terminal (dp_status cur) \<Longrightarrow> rows_ok ok (?db\<lparr>dd_deployments := t\<rparr>)"
    using rows_ok_update_where [OF meanwhile [OF ok, of AwaitClaim], of ?P "claimed_deployment_row now w s cur"]
    by (simp add: u claimed)
  then show ?thesis
    unfolding claimDeploymentById_def Some using ok by (auto simp: Let_def u meanwhile split: list.splits)
qed (simp add: claimDeploymentById_def)

lemma keeps_run_phases: "rows_ok ok db \<Longrightarrow> keeps ok (run_phases tools dk op w s i phases db d)"
proof (induction phases arbitrary: db d)
  case (Cons phase phases)
  show ?case
    by (auto simp: meanwhile Cons keeps_heartbeatDeployment keeps_advanceDeployment intro!: keeps_try_then Cons.IH)
qed simp

lemma keeps_execute:
  assumes ok: "rows_ok ok db" and i: "op_resourceId op = Some i"
  shows "rows_ok ok (fst (execute tools dk db now op))"
proof -
  define w where "w = the (op_leaseOwner op)"
  let ?s = "executor_leaseSeconds op now"
  obtain db1 r1 where c: "claimDeploymentById dk db now i w (Some ?s) = (db1, r1)" by fastforce
  obtain db2 r2 where k: "reconcileClaimedDeployment tools dk db1 now i w = (db2, r2)" by fastforce
  have 1: "rows_ok ok db1" using keeps_claimDeploymentById [OF ok, of now w "Some ?s"] by (simp add: c)
  then have 2: "rows_ok ok db2" using keeps_reconcileClaimedDeployment [OF 1, of tools now w] by (simp add: k)
  have 3: "rows_ok ok db3" if "run_phases tools dk op w ?s i phases db2 d = (db3, r3)" for phases d db3 r3
    using keeps_run_phases [OF 2, of tools op w ?s phases d] by (simp add: that)
  show ?thesis
    using ok 1 2 3 by (auto simp: execute_def i Let_def c k w_def [symmetric] split: sum.splits option.splits prod.splits)
qed

end

end
