(* ===== verification/DeploymentOutcome.thy ===== *)
theory DeploymentOutcome
  imports DeploymentSafety
begin

text \<open>
  The properties of the deployment worker: what an execution may change, what its reported outcome
  means for the stored row, the group and its GPUs, when it is admitted, when it may succeed.
\<close>

section \<open>The returned row is the stored one\<close>

definition stored :: "uuid \<Rightarrow> deployment dep_result \<Rightarrow> bool" where
  "stored i m \<longleftrightarrow> (\<forall>db d. m = (db, Inr d) \<longrightarrow> is_terminal (dp_status d) \<longrightarrow> find_deployment db i = Some d)"

lemma stored_Inl [simp]: "stored i (db, Inl e)"
  by (simp add: stored_def)

lemma stored_try_then: "(\<And>db x. m = (db, Inr x) \<Longrightarrow> stored i (f db x)) \<Longrightarrow> stored i (try_then m f)"
  by (auto simp: try_then_def split: prod.splits sum.splits)

lemma find_frame [simp]:
  "find_deployment (createDeploymentEvent db j phase level message) i = find_deployment db i"
  "find_deployment (createEvent db j phase level message) i = find_deployment db i"
  "find_deployment (delete_apps db ids) i = find_deployment db i"
  "find_deployment (db\<lparr>dd_groups := gs\<rparr>) i = find_deployment db i"
  by (simp_all add: find_deployment_def createDeploymentEvent_def createEvent_def delete_apps_def)

lemma head_filter_update:
  "(\<And>r. P r \<Longrightarrow> P (f r)) \<Longrightarrow> head_opt (filter P (map (\<lambda>r. if P r then f r else r) t)) = map_option f (head_opt (filter P t))"
  by (induction t) auto

lemma update_deployment_Inr:
  assumes "update_deployment db i f = (db', Inr r)" and "\<And>r. dp_id r = i \<Longrightarrow> dp_id (f r) = i"
  shows "find_deployment db' i = Some r \<and> (\<exists>r0. find_deployment db i = Some r0 \<and> r = f r0) \<and> dp_id r = i \<and>
    dd_groups db' = dd_groups db \<and> dd_apps db' = dd_apps db \<and> dd_gpus db' = dd_gpus db"
proof -
  let ?P = "\<lambda>r :: deployment. dp_id r = i" and ?t = "dd_deployments db"
  obtain rs where u: "update_where ?P f ?t = (map (\<lambda>r. if ?P r then f r else r) ?t, r # rs)"
    "db' = db\<lparr>dd_deployments := map (\<lambda>r. if ?P r then f r else r) ?t\<rparr>"
    using assms(1) by (auto simp: update_deployment_def update_where_def split: list.splits)
  then obtain r0 where r0: "head_opt (filter ?P ?t) = Some r0" "r = f r0"
    by (cases "filter ?P ?t") (auto simp: update_where_def)
  then have "dp_id r = i" using assms(2) head_opt_filter_Some [OF r0(1)] by simp
  then show ?thesis
    using r0 u(2) head_filter_update [of ?P f ?t] assms(2) by (auto simp: find_deployment_def find_row_def)
qed

lemma update_with_event_stored:
  assumes "update_with_event db i f phase level message = (db', Inr r)" and "\<And>r. dp_id r = i \<Longrightarrow> dp_id (f r) = i"
  shows "find_deployment db' i = Some r \<and> (\<exists>r0. find_deployment db i = Some r0 \<and> r = f r0) \<and> dp_id r = i \<and>
    dd_groups db' = dd_groups db \<and> dd_apps db' = dd_apps db \<and> dd_gpus db' = dd_gpus db"
proof -
  obtain db'' where u: "update_deployment db i f = (db'', Inr r)" "db' = createDeploymentEvent db'' i phase level message"
    using assms(1) by (auto simp: update_with_event_def split: prod.splits sum.splits)
  then show ?thesis using update_deployment_Inr [OF u(1) assms(2)] by (simp add: createDeploymentEvent_def find_deployment_def)
qed

lemma stored_update_with_event:
  "(\<And>r. dp_id r = i \<Longrightarrow> dp_id (f r) = i) \<Longrightarrow> stored i (update_with_event db i f phase level message)"
  unfolding stored_def using update_with_event_stored [of db i f phase level message] by blast

lemma row_ids [simp]:
  "dp_id (failed_row now code text r) = dp_id r"
  "dp_id (touch_row now r) = dp_id r"
  "dp_id (heartbeat_deployment_row now s r) = dp_id r"
  "dp_id (finished_row now status r) = dp_id r"
  "dp_id (rolling_back_row now v message r) = dp_id r"
  "dp_id (rollback_failed_row now message r) = dp_id r"
  "dp_id (advance_row d now r) = dp_id r"
  "dp_id (advanced_row now d phase artifact r) = dp_id r"
  "dp_id (claimed_deployment_row now w s cur r) = dp_id r"
  "dp_id (lapsed_row r) = dp_id r"
  by (simp_all add: failed_row_def release_lease_def touch_row_def heartbeat_deployment_row_def finished_row_def
      rolling_back_row_def rollback_failed_row_def advance_row_def advanced_row_def claimed_deployment_row_def
      lapsed_row_def Let_def split: option.splits prod.splits)

lemma row_statuses [simp]:
  "dp_status (failed_row now code text r) = Failed"
  "dp_status (touch_row now r) = dp_status r"
  "dp_status (finished_row now status r) = status"
  "dp_status (rollback_failed_row now message r) = RollbackFailed"
  "dp_leaseOwner (finished_row now status r) = None"
  "dp_leaseOwner (rollback_failed_row now message r) = None"
  "dp_leaseOwner (failed_row now code text r) = None"
  by (simp_all add: failed_row_def release_lease_def touch_row_def finished_row_def rollback_failed_row_def)

lemma update_group_Inr:
  assumes "update_group db g f = (db', Inr r)" and "\<And>r. ag_id r = g \<Longrightarrow> ag_id (f r) = g"
  shows "\<exists>r0. find_row ag_id g (dd_groups db) = Some r0 \<and> find_row ag_id g (dd_groups db') = Some (f r0) \<and>
    db' = db\<lparr>dd_groups := dd_groups db'\<rparr>"
proof -
  let ?P = "\<lambda>r :: app_group. ag_id r = g" and ?t = "dd_groups db"
  obtain rs where u: "update_where ?P f ?t = (map (\<lambda>r. if ?P r then f r else r) ?t, r # rs)"
    "db' = db\<lparr>dd_groups := map (\<lambda>r. if ?P r then f r else r) ?t\<rparr>"
    using assms(1) by (auto simp: update_group_def update_where_def split: list.splits)
  then obtain r0 where "head_opt (filter ?P ?t) = Some r0"
    by (cases "filter ?P ?t") (auto simp: update_where_def)
  then show ?thesis
    using u(2) head_filter_update [of ?P f ?t] assms(2) by (auto simp: find_row_def)
qed

lemma try_then_Inr:
  "try_then m f = (db', Inr x) \<longleftrightarrow> (\<exists>db y. m = (db, Inr y) \<and> f db y = (db', Inr x))"
  by (auto simp: try_then_def split: prod.splits sum.splits)

lemma in_transaction_Inr: "in_transaction db m = (db', Inr x) \<longleftrightarrow> m = (db', Inr x)"
  by (auto simp: in_transaction_def split: prod.splits sum.splits)

lemma close_deployment_Inr:
  assumes "close_deployment db i f g level message = (db', Inr r)"
    and "\<And>r. dp_id r = i \<Longrightarrow> dp_id (f r) = i" and "\<And>r. ag_id (g r) = ag_id r"
  shows "find_deployment db' i = Some r \<and> (\<exists>r0. find_deployment db i = Some r0 \<and> r = f r0) \<and>
    (\<exists>g0. find_row ag_id (dp_appGroupId r) (dd_groups db) = Some g0 \<and>
          find_row ag_id (dp_appGroupId r) (dd_groups db') = Some (g g0))"
proof -
  obtain db1 db2 g1 where s: "update_deployment db i f = (db1, Inr r)"
    "update_group db1 (dp_appGroupId r) g = (db2, Inr g1)" "db' = createDeploymentEvent db2 i Completed level message"
    using assms(1) by (auto simp: close_deployment_def in_transaction_Inr try_then_Inr)
  note 1 = update_deployment_Inr [OF s(1) assms(2)] and 2 = update_group_Inr [OF s(2)]
  obtain g0 where g0: "find_row ag_id (dp_appGroupId r) (dd_groups db1) = Some g0"
      "find_row ag_id (dp_appGroupId r) (dd_groups db2) = Some (g g0)" "db2 = db1\<lparr>dd_groups := dd_groups db2\<rparr>"
    using 2 assms(3) by auto
  have "find_deployment db2 i = Some r" using 1 g0(3) by (metis find_frame(4))
  then show ?thesis using 1 g0(1,2) s(3) by (auto simp: createDeploymentEvent_def find_deployment_def)
qed

lemma stored_close_deployment:
  "(\<And>r. dp_id r = i \<Longrightarrow> dp_id (f r) = i) \<Longrightarrow> (\<And>r. ag_id (g r) = ag_id r) \<Longrightarrow>
     stored i (close_deployment db i f g level message)"
  unfolding stored_def using close_deployment_Inr [of db i f g level message] by blast

section \<open>Handlers\<close>

lemma worker_deployment_id: "findWorkerDeploymentOrThrow db i w = Inr d \<Longrightarrow> dp_id d = i"
  by (auto simp: findWorkerDeploymentOrThrow_Inr find_deployment_def dest: find_row_SomeD)

lemma claimed_deployment_id: "findClaimedDeployment db i w = Inr d \<Longrightarrow> dp_id d = i"
  by (auto simp: findClaimedDeployment_Inr find_deployment_def dest: find_row_SomeD)

lemma group_ids [simp]:
  "ag_id (completed_group d g) = ag_id g" "ag_id (broken_group g) = ag_id g" "ag_id (rolled_back_group v g) = ag_id g"
  by (simp_all add: completed_group_def broken_group_def rolled_back_group_def split: option.splits)

lemma completeRollout_Inr:
  assumes "completeRollout db now d result = (db', Inr next)"
  shows "find_deployment db' (dp_id d) = Some next \<and>
    (\<exists>r0. find_deployment db (dp_id d) = Some r0 \<and>
       next = finished_row now (if dx_rollbackTarget d \<noteq> None then RolledBack else Succeeded) r0) \<and>
    (\<exists>g. find_row ag_id (dp_appGroupId d) (dd_groups db) = Some g \<and>
       find_row ag_id (dp_appGroupId d) (dd_groups db') = Some (completed_group d g)) \<and>
    dd_apps db' = dd_apps (delete_apps db (map sr_id (deleted_apps db (dp_appGroupId d)))) \<and>
    dd_gpus db' = dd_gpus (delete_apps db (map sr_id (deleted_apps db (dp_appGroupId d))))"
proof -
  let ?del = "delete_apps db (map sr_id (deleted_apps db (dp_appGroupId d)))"
  obtain db1 db2 g1 where s:
    "update_deployment ?del (dp_id d) (finished_row now (if dx_rollbackTarget d \<noteq> None then RolledBack else Succeeded)) = (db1, Inr next)"
    "update_group db1 (dp_appGroupId d) (completed_group d) = (db2, Inr g1)"
    "find_deployment db' (dp_id d) = find_deployment db2 (dp_id d)" "dd_groups db' = dd_groups db2"
    "dd_apps db' = dd_apps db2" "dd_gpus db' = dd_gpus db2"
    using assms
    by (auto simp: completeRollout_def Let_def in_transaction_Inr try_then_Inr createDeploymentEvent_def find_deployment_def
        split: if_splits)
  note 1 = update_deployment_Inr [OF s(1)] and 2 = update_group_Inr [OF s(2)]
  have g: "dd_groups ?del = dd_groups db" by (simp add: delete_apps_def)
  obtain g0 where g0: "find_row ag_id (dp_appGroupId d) (dd_groups db1) = Some g0"
      "find_row ag_id (dp_appGroupId d) (dd_groups db2) = Some (completed_group d g0)" "db2 = db1\<lparr>dd_groups := dd_groups db2\<rparr>"
    using 2 by auto
  have "find_deployment db2 (dp_id d) = Some next" "dd_apps db2 = dd_apps db1" "dd_gpus db2 = dd_gpus db1"
    using 1 g0(3) by (metis find_frame(4) row_ids(4), (metis dep_db.select_convs dep_db.surjective dep_db.update_convs(2))+)
  then show ?thesis using 1 g0(1,2) g s(3-6) by auto
qed

lemma stored_completeRollout: "dp_id d = i \<Longrightarrow> stored i (completeRollout db now d result)"
  unfolding stored_def using completeRollout_Inr [of db now d result] by blast

lemma stored_handlers:
  "stored i (failDeploymentWithPhase db now i phase code message)"
  "stored i (failProvisioning db now i code message details)"
  "stored i (recordProvisioningSuccess db now i message)"
  "stored i (markRollbackFailed db now i v message)"
  by (simp_all add: failDeploymentWithPhase_def failProvisioning_def recordProvisioningSuccess_def markRollbackFailed_def
      stored_update_with_event stored_close_deployment)

lemma stored_applyRenderedStack: "stored i (applyRenderedStack tools dk db now i w)"
  unfolding applyRenderedStack_def
  by (auto simp: stored_update_with_event split: sum.splits intro!: stored_try_then)

lemma stored_provisionArtifacts: "stored i (provisionArtifacts dk db i w)"
  unfolding provisionArtifacts_def by (auto simp: stored_handlers Let_def split: sum.splits intro!: stored_try_then)

lemma stored_rollback: "dp_id d = i \<Longrightarrow> stored i (rollbackAfterRuntimeFailure tools dk db now d message details)"
  unfolding rollbackAfterRuntimeFailure_def Let_def
  by (auto simp: stored_handlers stored_close_deployment split: option.splits intro!: stored_try_then)

lemma stored_waitForDeployment: "stored i (waitForDeployment tools dk db i w)"
  unfolding waitForDeployment_def Let_def
  by (auto simp: stored_rollback stored_completeRollout split: sum.splits dest: worker_deployment_id intro!: stored_try_then)

lemma stored_advanceDeployment: "stored i (advanceDeployment tools dk db now i w phase message)"
proof (cases "findWorkerDeploymentOrThrow db i w")
  case (Inr d)
  then have d: "dp_id d = i" by (rule worker_deployment_id)
  have upd: "dp_id x = i"
    if "update_with_event db i (advanced_row now d phase artifact) ph l m = (db', Inr x)" for db db' x artifact ph l m
    using update_with_event_stored [OF that] by simp
  have fin: "stored i (db', Inr x)"
    if "update_with_event db i (advanced_row now d phase artifact) ph l m = (db', Inr x)" for db db' x artifact ph l m
    using update_with_event_stored [OF that] by (simp add: stored_def)
  show ?thesis
    unfolding advanceDeployment_def Inr advanceToPreparing_def
    by (auto simp: d upd fin stored_handlers stored_provisionArtifacts stored_applyRenderedStack stored_waitForDeployment
        split: option.splits admission.splits intro!: stored_try_then)
qed (simp add: advanceDeployment_def)

text \<open>For the recovery, whose result may be deferred.\<close>

definition stored_opt :: "uuid \<Rightarrow> deployment option dep_result \<Rightarrow> bool" where
  "stored_opt i m \<longleftrightarrow> (\<forall>db d. m = (db, Inr (Some d)) \<longrightarrow> is_terminal (dp_status d) \<longrightarrow> find_deployment db i = Some d)"

lemma stored_opt_simps [simp]:
  "stored_opt i (db, Inl e)" "stored_opt i (db, Inr None)"
  "stored_opt i (db, Inr (Some d)) = stored i (db, Inr d)"
  by (simp_all add: stored_opt_def stored_def)

lemma stored_opt_try_then: "(\<And>db x. m = (db, Inr x) \<Longrightarrow> stored_opt i (f db x)) \<Longrightarrow> stored_opt i (try_then m f)"
  by (auto simp: try_then_def split: prod.splits sum.splits)

lemma stored_opt_settled: "stored i m \<Longrightarrow> stored_opt i (settled m)"
  by (auto simp: settled_def stored_opt_def stored_def try_then_Inr)

lemma stored_opt_deferRecovery: "stored_opt i (deferRecovery db d message)"
  by (auto simp: deferRecovery_def split: prod.splits list.splits)

lemma stored_live: "\<not> is_terminal (dp_status d) \<Longrightarrow> stored i (db, Inr d)"
  by (simp add: stored_def)

lemma stored_opt_applying:
  "dp_id d = i \<Longrightarrow> \<not> is_terminal (dp_status d) \<Longrightarrow> stored_opt i (reconcileApplyingStack tools dk db d w)"
  unfolding reconcileApplyingStack_def
  by (auto simp: stored_live stored_opt_deferRecovery stored_applyRenderedStack split: option.splits
      intro!: stored_opt_try_then stored_opt_settled)

lemma stored_opt_waiting: "dp_id d = i \<Longrightarrow> stored_opt i (reconcileWaitingForRollout tools dk db d w)"
proof -
  assume d: "dp_id d = i"
  have "stored i (db', Inr x)" if "applyRenderedStack tools dk db now i w = (db', Inr x)" for db db' now x
    using stored_applyRenderedStack [of i tools dk db now w] by (simp add: that)
  then show ?thesis
    unfolding reconcileWaitingForRollout_def
    by (auto simp: d stored_opt_deferRecovery stored_waitForDeployment split: option.splits
        intro!: stored_opt_try_then stored_opt_settled)
qed

lemma stored_opt_recoverRollback: "dp_id d = i \<Longrightarrow> stored_opt i (recoverRollback tools dk db now d)"
  unfolding recoverRollback_def observe_rollback_def recovery_rollback_failed_def completeRollback_def Let_def
  by (auto simp: stored_opt_deferRecovery stored_close_deployment split: option.splits
      intro!: stored_opt_try_then stored_opt_settled)

lemma stored_opt_reconcile: "stored_opt i (reconcileClaimedDeployment tools dk db now i w)"
proof (cases "findClaimedDeployment db i w")
  case (Inr d)
  then have d: "dp_id d = i" "\<not> is_terminal (dp_status d)"
    by (rule claimed_deployment_id) (use Inr in \<open>auto simp: findClaimedDeployment_Inr is_terminal_def\<close>)
  then show ?thesis
    unfolding reconcileClaimedDeployment_def Inr
    by (cases "dp_phase d") (simp_all add: stored_opt_recoverRollback stored_opt_settled stored_provisionArtifacts
        stored_live stored_opt_applying stored_opt_waiting)
qed (simp add: reconcileClaimedDeployment_def)

lemma stored_run_phases: "stored i (db, Inr d) \<Longrightarrow> stored i (run_phases tools dk op w s i phases db d)"
proof (induction phases arbitrary: db d)
  case (Cons phase phases)
  have "stored i (db', Inr x)"
    if "advanceDeployment tools dk db now i w phase message = (db', Inr x)" for db db' now x message
    using stored_advanceDeployment [of i tools dk db now w phase message] by (simp add: that)
  then show ?case
    using Cons.prems by (auto intro!: stored_try_then Cons.IH)
qed simp

end
