(* ===== verification/DeploymentProperties.thy ===== *)
theory DeploymentProperties
  imports DeploymentOutcome
begin

text \<open>
  The properties of the deployment worker: what an execution may change, what its reported outcome
  means for the stored row, the app group and its GPUs, when a deployment is admitted and when it may
  succeed.
\<close>

section \<open>What an execution changes\<close>

text \<open>The other requests, kept to those that respect a row property.\<close>

definition respecting :: "(deployment \<Rightarrow> bool) \<Rightarrow> docker \<Rightarrow> docker" where
  "respecting ok dk =
     dk\<lparr>dk_during := \<lambda>w db. if rows_ok ok db \<longrightarrow> rows_ok ok (dk_during dk w db) then dk_during dk w db else db\<rparr>"

lemma respecting_id:
  assumes "\<And>w db. rows_ok ok db \<Longrightarrow> rows_ok ok (dk_during dk w db)"
  shows "respecting ok dk = dk"
  by (simp add: respecting_def assms)

definition closed_row :: "deployment \<Rightarrow> bool" where
  "closed_row r \<longleftrightarrow> is_terminal (dp_status r) \<longrightarrow> dp_leaseOwner r = None \<and> dx_completedAt r \<noteq> None"

lemmas row_defs = failed_row_def release_lease_def touch_row_def heartbeat_deployment_row_def finished_row_def
  rolling_back_row_def rollback_failed_row_def advance_row_def advanced_row_def claimed_deployment_row_def lapsed_row_def

interpretation closed: deployment_rows closed_row i "respecting closed_row dk" for i dk
  by unfold_locales
    (auto simp: row_defs closed_row_def is_terminal_def Let_def respecting_def split: option.splits prod.splits if_splits)

text \<open>The part of a row that never changes, and a row without its rendered artifact.\<close>

definition identity :: "deployment \<Rightarrow> uuid \<times> uuid \<times> int \<times> stack_config \<times> int" where
  "identity r = (dp_id r, dp_appGroupId r, dp_version r, dp_stackConfig r, dx_sourceDraftRevision r)"

definition without_artifact :: "deployment \<Rightarrow> deployment" where
  "without_artifact r = r\<lparr>dx_renderedStack := None, dx_renderedSha := None, dx_renderedAt := None\<rparr>"

definition descends :: "deployment list \<Rightarrow> uuid \<Rightarrow> deployment \<Rightarrow> bool" where
  "descends rows i r \<longleftrightarrow>
     (\<exists>r0 \<in> set rows. identity r = identity r0 \<and> (dp_id r = i \<or> without_artifact r = without_artifact r0))"

lemma descends_step:
  assumes "descends rows i r" and "identity r' = identity r" and "dp_id r = i \<or> without_artifact r' = without_artifact r"
  shows "descends rows i r'"
proof -
  have "dp_id r' = dp_id r" using assms(2) by (simp add: identity_def)
  then show ?thesis using assms by (auto simp: descends_def)
qed

lemma row_identities [simp]:
  "identity (failed_row now code details r) = identity r" "identity (touch_row now r) = identity r"
  "identity (heartbeat_deployment_row now s r) = identity r" "identity (finished_row now status r) = identity r"
  "identity (rolling_back_row now v message r) = identity r" "identity (rollback_failed_row now message r) = identity r"
  "identity (advance_row d now r) = identity r" "identity (advanced_row now d phase artifact r) = identity r"
  "identity (claimed_deployment_row now w s cur r) = identity r" "identity (lapsed_row r) = identity r"
  "identity (r\<lparr>dx_renderedStack := st, dx_renderedSha := sh, dx_renderedAt := ra\<rparr>) = identity r"
  by (simp_all add: row_defs identity_def Let_def split: option.splits prod.splits)

interpretation frame: deployment_rows "descends rows i" i "respecting (descends rows i) dk" for rows i dk
  by (unfold_locales;
      ((rule descends_step, assumption, simp, simp add: without_artifact_def) | simp add: respecting_def))

lemma execute_resource: "op_resourceId op = None \<Longrightarrow> execute tools dk db now op = (db, Inl (executionError ''OperationResourceRequired'' ''Deployment Operation has no deployment id'' False))"
  by (simp add: execute_def has_text_def)

text \<open>
  A finished deployment holds no lease: that every row in a final status has no lease owner and has
  its completion time survives every execution, whatever Docker answers, as long as the requests
  that run meanwhile keep it.
\<close>

lemma finished_deployments_hold_no_lease:
  assumes "list_all closed_row (dd_deployments db)"
    and "\<And>w db. list_all closed_row (dd_deployments db) \<Longrightarrow> list_all closed_row (dd_deployments (dk_during dk w db))"
  shows "list_all closed_row (dd_deployments (fst (execute tools dk db now op)))"
proof (cases "op_resourceId op")
  case (Some i)
  have "respecting closed_row dk = dk" using assms(2) by (intro respecting_id) (simp add: rows_ok_def)
  then show ?thesis using closed.keeps_execute [of db op i tools dk now] assms(1) Some by (simp add: rows_ok_def)
qed (simp add: execute_resource assms(1))

text \<open>
  An execution changes only its own deployment: afterwards every deployment row has the identity,
  version, snapshot and draft revision of a row that was there before, and every row but its own is
  unchanged except for its cached rendered artifact (that of a rollback target).
\<close>

lemma execution_changes_only_its_deployment:
  assumes "op_resourceId op = Some i"
    and "\<And>w db. dd_deployments (dk_during dk w db) = dd_deployments db"
    and "(db', res) = execute tools dk db now op" and "r \<in> set (dd_deployments db')"
  shows "\<exists>r0 \<in> set (dd_deployments db). identity r = identity r0 \<and>
    (dp_id r = i \<or> without_artifact r = without_artifact r0)"
proof -
  let ?ok = "descends (dd_deployments db) i"
  have "rows_ok ?ok db" by (auto simp: rows_ok_def list_all_iff descends_def)
  moreover have "respecting ?ok dk = dk" using assms(2) by (intro respecting_id) (simp add: rows_ok_def)
  ultimately have "rows_ok ?ok (fst (execute tools dk db now op))"
    using frame.keeps_execute [of "dd_deployments db" i db op tools dk now] assms(1) by simp
  then show ?thesis
    using assms(3,4) by (cases "execute tools dk db now op") (auto simp: rows_ok_def list_all_iff descends_def)
qed

section \<open>Outcomes\<close>

lemma terminalResult_Inr:
  "terminalResult op d = Inr x \<Longrightarrow> dp_status d \<in> {Succeeded, RolledBack} \<and> ex_resourceId x = Some (dp_id d) \<and>
     ex_terminalStatus x = Some (if op_type op = APP_GROUP_ROLLBACK \<or> dp_status d = RolledBack
       then operation_status.RolledBack else operation_status.Succeeded)"
  by (auto simp: terminalResult_def is_terminal_def split: if_splits)

lemma find_deployment_id: "find_deployment db i = Some d \<Longrightarrow> dp_id d = i"
  by (auto simp: find_deployment_def dest: find_row_SomeD)

lemma execute_stored:
  assumes "execute tools dk db now op = (db', Inr x)"
  shows "\<exists>i d. op_resourceId op = Some i \<and> find_deployment db' i = Some d \<and> terminalResult op d = Inr x"
proof -
  obtain i w where i: "op_resourceId op = Some i" and w: "op_leaseOwner op = Some w"
    using assms by (cases "op_resourceId op"; cases "op_leaseOwner op") (auto simp: execute_def has_text_def split: if_splits)
  let ?s = "executor_leaseSeconds op now"
  obtain db1 r1 where c: "claimDeploymentById dk db now i w (Some ?s) = (db1, r1)" by fastforce
  obtain db2 r2 where k: "reconcileClaimedDeployment tools dk db1 now i w = (db2, r2)" by fastforce
  show ?thesis
  proof (cases "\<exists>cur. r1 = Inr cur \<and> is_terminal (dp_status cur)")
    case True
    then obtain cur where cur: "r1 = Inr cur" "is_terminal (dp_status cur)" by blast
    then have "find_deployment db1 i = Some cur"
      using c by (auto simp: claimDeploymentById_def Let_def update_where_def claimed_deployment_row_def is_terminal_def
          split: option.splits if_splits list.splits)
    then show ?thesis using assms i w c cur by (auto simp: execute_def Let_def split: if_splits)
  next
    case False
    then obtain d where d: "r2 = Inr (Some d)"
      using assms i w c k by (auto simp: execute_def Let_def split: if_splits sum.splits option.splits)
    obtain db3 r3 where r: "run_phases tools dk op w ?s i (remainingPhases (dp_phase d)) db2 d = (db3, r3)" by fastforce
    obtain fin where f: "r3 = Inr fin" "db' = db3" "terminalResult op fin = Inr x"
      using assms i w c k d r False by (auto simp: execute_def Let_def split: if_splits sum.splits)
    have "stored i (db2, Inr d)" using stored_opt_reconcile [of i tools dk db1 now w] by (simp add: k d)
    then have "stored i (db3, r3)"
      using stored_run_phases [of i db2 d tools dk op w ?s "remainingPhases (dp_phase d)"] by (simp add: r)
    moreover have "is_terminal (dp_status fin)" using terminalResult_Inr [OF f(3)] by (auto simp: is_terminal_def)
    ultimately show ?thesis using f i by (auto simp: stored_def)
  qed
qed

text \<open>
  The outcome the worker reports is the outcome that is stored: when an execution succeeds, the row of
  its deployment is Succeeded or RolledBack, the result names the deployment, and an operation that
  is reported Succeeded has a Succeeded deployment.
\<close>

lemma reported_outcome_is_stored:
  assumes "execute tools dk db now op = (db', Inr x)"
  shows "\<exists>i d. op_resourceId op = Some i \<and> find_deployment db' i = Some d \<and> dp_status d \<in> {Succeeded, RolledBack} \<and>
    ex_resourceId x = Some i \<and>
    ex_terminalStatus x = Some (if op_type op = APP_GROUP_ROLLBACK \<or> dp_status d = RolledBack
      then operation_status.RolledBack else operation_status.Succeeded)"
  using execute_stored [OF assms] terminalResult_Inr find_deployment_id by blast

text \<open>
  A failed deployment is not retried and an unfinished one is: the error of a failed deployment or
  rollback is never retryable, whatever its code, and carries the stored code and message; a lease
  held elsewhere, a deferred recovery and an execution that stopped early are retryable.
\<close>

lemma deployment_failure_is_final:
  "(terminalResult op d = Inl e \<longrightarrow> isRetryableOperationError e = (\<not> is_terminal (dp_status d))) \<and>
   (dp_status d \<in> {Failed, RollbackFailed} \<and> dx_errorCode d = Some code \<and> dx_errorMessage d = Some message \<longrightarrow>
      (\<exists>e. terminalResult op d = Inl e \<and> \<not> isRetryableOperationError e \<and> operationErrorCode e = code \<and>
         operationErrorMessage e = message)) \<and>
   isRetryableOperationError (thrown_of DepLeaseActive) \<and>
   isRetryableOperationError (executionError ''DeploymentRecoveryDeferred'' message True)"
proof -
  have shape: "errorShape (th_value (executionError c m b)) = \<lparr>es_code = Some c, es_message = Some m, es_retryable = Some b\<rparr>" for c m b
    by (simp add: executionError_def errorShape_def pickErrorShape_def string_property_def bool_property_def Let_def)
  then have [simp]: "isRetryableOperationError (executionError c m b) = b" "operationErrorCode (executionError c m b) = c"
      "operationErrorMessage (executionError c m b) = m" for c m b
    by (simp_all add: isRetryableOperationError_def operationErrorCode_def operationErrorMessage_def)
       (simp_all add: executionError_def string_property_def)
  have "isRetryableOperationError (thrown_of DepLeaseActive)"
    by (simp add: isRetryableOperationError_def errorShape_def pickErrorShape_def string_property_def bool_property_def Let_def)
  then show ?thesis by (auto simp: terminalResult_def is_terminal_def split: if_splits)
qed

section \<open>The end of a rollout\<close>

text \<open>
  Completing a rollout settles everything at once: the row is Succeeded (RolledBack for a requested
  rollback) and unleased, the group runs that version and has pending changes exactly when its draft
  moved on, exactly the group's apps marked for deletion are gone, and exactly the GPUs they held are
  free again.
\<close>

lemma rollout_completion:
  assumes "completeRollout db now d result = (db', Inr next)" and "distinct (map sr_id (dd_apps db))"
  shows "find_deployment db' (dp_id d) = Some next \<and> dp_leaseOwner next = None \<and> dp_phase next = Completed \<and>
    dp_status next = (if dx_rollbackTarget d = None then Succeeded else RolledBack) \<and>
    (\<exists>g g'. find_row ag_id (dp_appGroupId d) (dd_groups db) = Some g \<and>
       find_row ag_id (dp_appGroupId d) (dd_groups db') = Some g' \<and>
       gr_currentVersion g' = Some (option_or (dx_rollbackTarget d) (dp_version d)) \<and>
       gr_pendingChanges g' = (dx_rollbackTarget d \<noteq> None \<or> gr_draftRevision g \<noteq> dx_sourceDraftRevision d)) \<and>
    dd_apps db' = filter (\<lambda>a. \<not> (sr_appGroupId a = dp_appGroupId d \<and> sr_pendingDeletion a)) (dd_apps db) \<and>
    dd_gpus db' = map (\<lambda>r. if \<exists>a \<in> set (dd_apps db). sr_appGroupId a = dp_appGroupId d \<and> sr_pendingDeletion a \<and>
        gp_app r = Some (sr_id a) then r\<lparr>gp_app := None, gp_state := ''Free'', gp_allocatedAt := None\<rparr> else r) (dd_gpus db)"
proof -
  note c = completeRollout_Inr [OF assms(1)]
  have "sr_id a \<in> sr_id ` set (deleted_apps db (dp_appGroupId d)) \<longleftrightarrow> sr_appGroupId a = dp_appGroupId d \<and> sr_pendingDeletion a"
    if "a \<in> set (dd_apps db)" for a
    using distinct_key_eq [OF assms(2) that] that by (auto simp: deleted_apps_def)
  then have apps: "dd_apps db' = filter (\<lambda>a. \<not> (sr_appGroupId a = dp_appGroupId d \<and> sr_pendingDeletion a)) (dd_apps db)"
    using c by (auto simp: delete_apps_def intro!: filter_cong)
  have gpus: "dd_gpus db' = map (\<lambda>r. if \<exists>a \<in> set (dd_apps db). sr_appGroupId a = dp_appGroupId d \<and> sr_pendingDeletion a \<and>
        gp_app r = Some (sr_id a) then r\<lparr>gp_app := None, gp_state := ''Free'', gp_allocatedAt := None\<rparr> else r) (dd_gpus db)"
    using c by (auto simp: delete_apps_def free_gpu_def deleted_apps_def)
  show ?thesis using c apps gpus by (auto simp: completed_group_def finished_row_def release_lease_def split: option.splits)
qed

section \<open>A failed rollout\<close>

lemma failed_outcome:
  assumes "failDeploymentWithPhase db now i phase code message = (db', Inr r)"
  shows "dp_status r = Failed \<and> dx_errorCode r = Some code \<and> dp_leaseOwner r = None"
  using update_with_event_stored [of db i "failed_row now code (Some message)" phase "''Error''" message db' r] assms
  by (auto simp: failDeploymentWithPhase_def) (simp add: failed_row_def release_lease_def)

lemma mark_failed_outcome:
  assumes "markRollbackFailed db now i v message = (db', Inr r)"
  shows "dp_status r = RollbackFailed \<and>
    (\<exists>g. find_row ag_id (dp_appGroupId r) (dd_groups db') = Some g \<and> gr_status g = ''Error'')"
  using close_deployment_Inr [OF assms [unfolded markRollbackFailed_def]] by (auto simp: broken_group_def)

text \<open>What the automatic rollback of \<open>d\<close> may end in.\<close>

definition rollback_outcome :: "dep_db \<Rightarrow> deployment \<Rightarrow> dep_db \<Rightarrow> deployment \<Rightarrow> bool" where
  "rollback_outcome db d db' r \<longleftrightarrow>
     (case dp_status r of
        Failed \<Rightarrow> dx_errorCode r = Some ''RolloutFailed'' \<and>
          (\<forall>t. rollback_target db d = Some t \<longrightarrow> dp_stackConfig t = NoConfig)
      | RolledBack \<Rightarrow>
          (\<exists>t g. rollback_target db d = Some t \<and> find_row ag_id (dp_appGroupId r) (dd_groups db') = Some g \<and>
             gr_currentVersion g = Some (dp_version t) \<and> gr_pendingChanges g)
      | RollbackFailed \<Rightarrow>
          rollback_target db d \<noteq> None \<and>
          (\<exists>g. find_row ag_id (dp_appGroupId r) (dd_groups db') = Some g \<and> gr_status g = ''Error'')
      | _ \<Rightarrow> False)"

lemma rollback_outcome_core:
  assumes "rollbackAfterRuntimeFailure tools dk db now d message details = (db', Inr r)"
  shows "rollback_outcome db d db' r"
proof (cases "\<exists>t. rollback_target db d = Some t \<and> dp_stackConfig t \<noteq> NoConfig")
  case False
  then have "failDeploymentWithPhase db now (dp_id d) WaitingForRollout ''RolloutFailed''
      (truncate_text (lines2 message details) 2000) = (db', Inr r)"
    using assms by (auto simp: rollbackAfterRuntimeFailure_def Let_def split: option.splits)
  from failed_outcome [OF this] show ?thesis using False by (auto simp: rollback_outcome_def)
next
  case True
  then obtain t where t: "rollback_target db d = Some t" "dp_stackConfig t \<noteq> NoConfig" by blast
  have "(\<exists>db1 now1 m. markRollbackFailed db1 now1 (dp_id d) (dp_version t) m = (db', Inr r)) \<or>
    (\<exists>db1. close_deployment db1 (dp_id d) (finished_row (dk_now dk AwaitRollbackRollout) RolledBack)
       (rolled_back_group (dp_version t)) ''Info'' (''Rolled back to deployment v'' @ show_int (dp_version t)) = (db', Inr r))"
    using assms t by (auto simp: rollbackAfterRuntimeFailure_def Let_def try_then_Inr split: if_splits)
  then show ?thesis
  proof (elim disjE exE)
    fix db1 now1 m assume "markRollbackFailed db1 now1 (dp_id d) (dp_version t) m = (db', Inr r)"
    from mark_failed_outcome [OF this] show ?thesis using t by (auto simp: rollback_outcome_def)
  next
    fix db1 assume "close_deployment db1 (dp_id d) (finished_row (dk_now dk AwaitRollbackRollout) RolledBack)
       (rolled_back_group (dp_version t)) ''Info'' (''Rolled back to deployment v'' @ show_int (dp_version t)) = (db', Inr r)"
    from close_deployment_Inr [OF this] show ?thesis using t by (auto simp: rollback_outcome_def rolled_back_group_def)
  qed
qed

lemma rollback_target_spec:
  assumes "rollback_target db d = Some t"
  shows "t \<in> set (dd_deployments db) \<and> dp_appGroupId t = dp_appGroupId d \<and> dp_status t = Succeeded \<and>
    dp_version t < dp_version d \<and>
    (\<forall>r \<in> set (dd_deployments db). dp_appGroupId r = dp_appGroupId d \<and> dp_status r = Succeeded \<and>
       dp_version r < dp_version d \<longrightarrow> dp_version r \<le> dp_version t)"
  using head_sort_desc_greatest [OF assms [unfolded rollback_target_def]] by auto

text \<open>
  C25. A failed rollout never leaves its app group on the failed version unnoticed. It ends Failed only when
  the group has no usable older successful deployment; otherwise it ends RolledBack, with the group
  on the newest older successful version, or RollbackFailed, with the group in Error.
\<close>

theorem runtime_failure_outcome:
  assumes "rollbackAfterRuntimeFailure tools dk db now d message details = (db', Inr r)"
  shows "(dp_status r = Failed \<and> dx_errorCode r = Some ''RolloutFailed'' \<and>
      (\<forall>t. rollback_target db d = Some t \<longrightarrow> dp_stackConfig t = NoConfig)) \<or>
    (dp_status r = RolledBack \<and>
      (\<exists>t \<in> set (dd_deployments db). \<exists>g. dp_appGroupId t = dp_appGroupId d \<and> dp_status t = Succeeded \<and> dp_version t < dp_version d \<and>
         (\<forall>o' \<in> set (dd_deployments db). dp_appGroupId o' = dp_appGroupId d \<and> dp_status o' = Succeeded \<and>
            dp_version o' < dp_version d \<longrightarrow> dp_version o' \<le> dp_version t) \<and>
         find_row ag_id (dp_appGroupId r) (dd_groups db') = Some g \<and> gr_currentVersion g = Some (dp_version t) \<and>
         gr_pendingChanges g)) \<or>
    (dp_status r = RollbackFailed \<and> rollback_target db d \<noteq> None \<and>
      (\<exists>g. find_row ag_id (dp_appGroupId r) (dd_groups db') = Some g \<and> gr_status g = ''Error''))"
  using rollback_outcome_core [OF assms] rollback_target_spec [of db d]
  by (auto simp: rollback_outcome_def split: deployment_status.splits)

section \<open>Artifacts\<close>

lemma head_filter_map:
  "(\<And>r. Q (g r) = Q r) \<Longrightarrow> head_opt (filter Q (map g t)) = map_option g (head_opt (filter Q t))"
  by (induction t) auto

lemma find_update_matching:
  assumes "\<And>r. dp_id (f r) = dp_id r"
  shows "find_deployment (update_matching db P f) i = map_option (\<lambda>r. if P r then f r else r) (find_deployment db i)"
  using assms head_filter_map [of "\<lambda>r. dp_id r = i" "\<lambda>r. if P r then f r else r" "dd_deployments db"]
  by (simp add: find_deployment_def find_row_def update_matching_def update_where_def)

lemma stored_artifact_Inr:
  "stored_artifact tools db i = (db', Inr (stack, digest)) \<Longrightarrow>
     db' = db \<and> at_sha tools stack = digest \<and>
     (\<exists>d. find_deployment db i = Some d \<and> dx_renderedStack d = Some stack \<and> dx_renderedSha d = Some digest)"
  by (auto simp: stored_artifact_def deploymentArtifactMatches_def split: option.splits if_splits)

text \<open>
  What is applied is the deployment's own artifact. The digest handed to Docker is the digest of the
  stack; without sensitive values the stack is the one stored with the deployment, stored now if it
  had none and never replaced; with sensitive values it is rendered anew and no text of it is kept.
\<close>

lemma artifact_integrity:
  assumes "ensureDeploymentArtifact tools db now i = (db', Inr (stack, digest))"
  shows "digest = at_sha tools stack \<and>
    (\<exists>d d'. find_deployment db i = Some d \<and> find_deployment db' i = Some d' \<and>
       (if dp_stackConfig d \<noteq> NoConfig \<and> at_sensitive tools (dp_stackConfig d)
        then at_render tools (dp_stackConfig d) = Inr stack \<and> \<not> has_text (dx_renderedStack d')
        else dx_renderedStack d' = Some stack \<and> dx_renderedSha d' = Some digest \<and>
          (has_text (dx_renderedStack d) \<and> dx_renderedStack d = Some stack \<or>
           \<not> has_text (dx_renderedStack d) \<and> at_render tools (dp_stackConfig d) = Inr stack)))"
proof -
  obtain d where d: "find_deployment db i = Some d"
    using assms by (cases "find_deployment db i") (auto simp: ensureDeploymentArtifact_def)
  show ?thesis
  proof (cases "dp_stackConfig d \<noteq> NoConfig \<and> at_sensitive tools (dp_stackConfig d)")
    case True
    then show ?thesis
      using assms d find_deployment_id [OF d]
      by (auto simp: ensureDeploymentArtifact_def Let_def find_update_matching has_text_def split: sum.splits if_splits)
  next
    case False
    show ?thesis
    proof (cases "has_text (dx_renderedStack d)")
      case True
      then obtain c cs where r: "dx_renderedStack d = Some (c # cs)"
        by (auto simp: has_text_def neq_Nil_conv)
      obtain db1 where s: "stored_artifact tools db1 i = (db', Inr (stack, digest))"
        "\<exists>d1. find_deployment db1 i = Some d1 \<and> dx_renderedStack d1 = Some (c # cs)"
        using assms d r False by (auto simp: ensureDeploymentArtifact_def Let_def find_update_matching split: if_splits)
      then show ?thesis using d False r True stored_artifact_Inr [OF s(1)] by auto
    next
      case no: False
      have ne: "(case dx_renderedStack d of Some (c # cs) \<Rightarrow> f c cs | _ \<Rightarrow> x) = x" for f :: "char \<Rightarrow> char list \<Rightarrow> 'z" and x
        using no by (auto simp: has_text_def split: option.splits list.splits)
      obtain st db1 where s: "at_render tools (dp_stackConfig d) = Inr st" "stored_artifact tools db1 i = (db', Inr (stack, digest))"
        "find_deployment db1 i = Some (if dx_renderedStack d = None then d\<lparr>dx_renderedStack := Some st,
           dx_renderedSha := Some (at_sha tools st), dx_renderedAt := Some now\<rparr> else d)"
        using assms d False find_deployment_id [OF d]
        by (auto simp: ensureDeploymentArtifact_def Let_def find_update_matching ne split: if_splits sum.splits)
      note t = stored_artifact_Inr [OF s(2)]
      show ?thesis
      proof (cases "dx_renderedStack d")
        case None
        then show ?thesis using s t d False no by auto
      next
        case (Some x)
        then have "x = ''''" using no by (auto simp: has_text_def)
        then have "stack = ''''" using s t Some by auto
        moreover have "stack \<noteq> ''''" using s(2) by (auto simp: stored_artifact_def split: option.splits if_splits)
        ultimately show ?thesis by simp
      qed
    qed
  qed
qed

section \<open>Leases\<close>

lemma update_where_other:
  assumes "distinct (map dp_id t)" and "find_row dp_id i t = Some d" and "\<not> P d"
  shows "update_where (\<lambda>r. dp_id r = i \<and> P r) f t = (t, [])"
  using assms find_row_unique [OF assms(1)] by (intro update_where_none) auto

text \<open>
  C9. While a worker holds an unexpired lease no other worker touches the deployment: its claim fails
  without a change, also when the lease was granted between its read and its update, and so do its
  heartbeats, its phases and its recovery.
\<close>

theorem deployment_lease_excludes_others:
  assumes "find_deployment db i = Some d" and "distinct (map dp_id (dd_deployments db))" and "\<not> is_terminal (dp_status d)"
    and "dp_leaseOwner d = Some w" and "dp_leaseExpiresAt d = Some t" and "now < t" and "w' \<noteq> w"
  shows "claimDeploymentById dk db now i w' s = (db, Inl DepLeaseActive) \<and>
    (find_deployment db0 i = Some d0 \<and> \<not> is_terminal (dp_status d0) \<and> dk_during dk AwaitClaim db0 = db \<longrightarrow>
       claimDeploymentById dk db0 now i w' s \<in> {(db0, Inl DepLeaseActive), (db, Inl DepLeaseActive)}) \<and>
    (\<exists>e. heartbeatDeployment db now i w' s = (db, Inl e)) \<and>
    (\<exists>e. advanceDeployment tools dk db now i w' phase message = (db, Inl e)) \<and>
    (\<exists>e. reconcileClaimedDeployment tools dk db now i w' = (db, Inl e))"
proof (intro conjI impI)
  show "claimDeploymentById dk db now i w' s = (db, Inl DepLeaseActive)"
    using assms by (simp add: claimDeploymentById_def leased_by_another_def)
  have "\<not> lease_available now w' d" using assms(4-7) by (simp add: lease_available_def)
  with update_where_other [OF assms(2) assms(1) [unfolded find_deployment_def]]
  have none: "update_where (\<lambda>r. dp_id r = i \<and> lease_available now w' r) f (dd_deployments db) = (dd_deployments db, [])" for f
    by blast
  show "claimDeploymentById dk db0 now i w' s \<in> {(db0, Inl DepLeaseActive), (db, Inl DepLeaseActive)}"
    if "find_deployment db0 i = Some d0 \<and> \<not> is_terminal (dp_status d0) \<and> dk_during dk AwaitClaim db0 = db"
    using that none by (simp add: claimDeploymentById_def Let_def)
  have f: "\<exists>e. findWorkerDeploymentOrThrow db i w' = Inl e"
    using assms by (cases "findWorkerDeploymentOrThrow db i w'") (auto simp: findWorkerDeploymentOrThrow_Inr)
  then show "\<exists>e. heartbeatDeployment db now i w' s = (db, Inl e)" by (auto simp: heartbeatDeployment_def)
  from f show "\<exists>e. advanceDeployment tools dk db now i w' phase message = (db, Inl e)" by (auto simp: advanceDeployment_def)
  have "\<exists>e. findClaimedDeployment db i w' = Inl e"
    using assms by (cases "findClaimedDeployment db i w'") (auto simp: findClaimedDeployment_Inr)
  then show "\<exists>e. reconcileClaimedDeployment tools dk db now i w' = (db, Inl e)" by (auto simp: reconcileClaimedDeployment_def)
qed

section \<open>Admission\<close>

text \<open>
  C3. A deployment leaves its validation only when it fits: unless the worker ended it as Failed, the
  snapshot of a deployment advanced to PreparingArtifacts was admitted, so beside what all other app
  groups occupy its CPU fits the platform's supply, as does its memory unless the Hybrid evaluation
  allowed it.
\<close>

theorem only_fitting_deployments_start:
  assumes "advanceDeployment tools dk db now i w PreparingArtifacts message = (db', Inr row)"
    and "dp_status row \<noteq> Failed"
  shows "\<exists>d s demand occupied. find_deployment db i = Some d \<and> dp_phase d = Validating \<and>
    at_validate tools db d = Inr None \<and> parseSnapshot (dp_stackConfig d) = Some s \<and> snapshot_demand s = Inr demand \<and>
    occupiedCapacity (cap_view db) (sn_appGroupId s) = Inr occupied \<and> platform_ready (cap_view db) \<and>
    validateStorageBackends (cap_view db) s = None \<and>
    cpuNano occupied + cpuNano demand \<le> cpuNano (total_available (cap_view db)) \<and>
    (memoryBytes occupied + memoryBytes demand \<le> memoryBytes (total_available (cap_view db)) \<or>
     hybrid_allows (cap_view db) now s (at_preflight tools))"
proof -
  obtain d where d: "findWorkerDeploymentOrThrow db i w = Inr d"
    using assms(1) by (cases "findWorkerDeploymentOrThrow db i w") (auto simp: advanceDeployment_def)
  then have fd: "find_deployment db i = Some d" by (simp add: findWorkerDeploymentOrThrow_Inr)
  have phase: "assertPhaseTransition (dp_phase d) PreparingArtifacts = None"
    and adv: "advanceToPreparing tools dk db now d w message = (db', Inr row)"
    using assms(1) d by (auto simp: advanceDeployment_def split: option.splits)
  have "dp_phase d = Validating"
    using phase by (cases "dp_phase d") (auto simp: assertPhaseTransition_def)
  moreover have v: "at_validate tools db d = Inr None"
  proof (cases "at_validate tools db d")
    case (Inr invalid)
    have "\<nexists>code details. invalid = Some (code, details)"
      using adv Inr assms(2) failed_outcome [of db now "dp_id d" Validating _ _ db' row]
      by (auto simp: advanceToPreparing_def try_then_Inr)
    then show ?thesis using Inr by (cases invalid) auto
  qed (use adv in \<open>simp add: advanceToPreparing_def try_then_def\<close>)
  moreover obtain s where s: "parseSnapshot (dp_stackConfig d) = Some s"
    and "try_then (admit_and_advance tools db now d s message) (\<lambda>db admission.
                  case admission of
                    Refused code text \<Rightarrow> failDeploymentWithPhase db now (dp_id d) Validating (capacity_code_text code) text
                  | Admitted demand occupied supply \<Rightarrow> provisionArtifacts dk db (dp_id d) w) = (db', Inr row)"
    using adv v by (auto simp: advanceToPreparing_def try_then_def split: option.splits)
  then obtain dba adm where adm: "admit_and_advance tools db now d s message = (dba, Inr adm)"
    "(case adm of Refused code details \<Rightarrow> failDeploymentWithPhase dba now (dp_id d) Validating (capacity_code_text code) details
      | Admitted demand occupied supply' \<Rightarrow> provisionArtifacts dk dba (dp_id d) w) = (db', Inr row)"
    unfolding try_then_Inr by blast
  then obtain demand occupied sup where "adm = Admitted demand occupied sup"
    using assms(2) by (cases adm) (auto dest: failed_outcome)
  with adm(1) have "snd (admit_and_advance tools db now d s message) = Inr (Admitted demand occupied sup)" by simp
  then obtain pf where "admitDeployment (cap_view db) now s (at_preflight tools) = (pf, Inr (Admitted demand occupied sup))"
    by (auto simp: admit_and_advance_def split: prod.splits sum.splits admission.splits)
  from admission_fits [OF this] have "snapshot_demand s = Inr demand \<and> occupiedCapacity (cap_view db) (sn_appGroupId s) = Inr occupied \<and>
    platform_ready (cap_view db) \<and> validateStorageBackends (cap_view db) s = None \<and>
    cpuNano occupied + cpuNano demand \<le> cpuNano (total_available (cap_view db)) \<and>
    (memoryBytes occupied + memoryBytes demand \<le> memoryBytes (total_available (cap_view db)) \<or>
     hybrid_allows (cap_view db) now s (at_preflight tools))" by auto
  ultimately show ?thesis using fd s by blast
qed

section \<open>Success\<close>

text \<open>What the check of removed services establishes: every line of \<open>docker node ls\<close> is a node that is ready and
  active, no service of the list is left, and on every one of the nodes each task of such a service has a
  state that says it stopped.\<close>

definition tasks_gone :: "docker \<Rightarrow> string \<Rightarrow> string \<Rightarrow> bool" where
  "tasks_gone dk stack service \<longleftrightarrow>
     stack @ ''_'' @ service \<notin> set (non_empty_lines (dr_stdout (dk_services dk stack))) \<and>
     (\<forall>line \<in> set (non_empty_lines (dr_stdout (dk_nodes dk))). \<exists>node. parse_node_line line = Some node \<and>
        dr_exitCode (dk_tasks dk node) = 0 \<and>
        (\<forall>task \<in> set (non_empty_lines (dr_stdout (dk_tasks dk node))). \<forall>name fields1.
           split_on CHR ''|'' task = name # fields1 \<and> starts_with name (stack @ ''_'' @ service @ ''.'') \<longrightarrow>
           (\<exists>state rest. fields1 = state # rest \<and> stopped_state state)))"

lemma starts_with_nil: "\<not> starts_with '''' (xs @ [c])"
  by (simp add: starts_with_def)

lemma gpu_tasks_gone:
  assumes v: "dk_gpu_tasks dk stack removed" and service: "service \<in> set removed"
  shows "tasks_gone dk stack service"
proof -
  have some: "removed \<noteq> []" using service by auto
  let ?services = "map (\<lambda>name. stack @ ''_'' @ name) removed"
  let ?lines = "non_empty_lines (dr_stdout (dk_nodes dk))"
  have nodes: "None \<notin> set (map parse_node_line ?lines)"
    and current: "\<not> list_ex (\<lambda>name. name \<in> set ?services) (non_empty_lines (dr_stdout (dk_services dk stack)))"
    and tasks: "list_all (\<lambda>i. dr_exitCode (dk_tasks dk i) = 0 \<and> list_all (task_stopped ?services) (non_empty_lines (dr_stdout (dk_tasks dk i))))
      (map the (map parse_node_line ?lines))"
    using v some by (auto simp: dk_gpu_tasks_def verifyRemovedGpuServiceTasks_def Let_def split: if_splits)
  have "stack @ ''_'' @ service \<notin> set (non_empty_lines (dr_stdout (dk_services dk stack)))"
    using current service by (auto simp: list_ex_iff)
  moreover have "\<exists>node. parse_node_line line = Some node \<and> dr_exitCode (dk_tasks dk node) = 0 \<and>
      (\<forall>task \<in> set (non_empty_lines (dr_stdout (dk_tasks dk node))). task_stopped ?services task)" if "line \<in> set ?lines" for line
  proof -
    have "parse_node_line line \<noteq> None" using nodes that by (metis imageI list.set_map)
    then obtain node where "parse_node_line line = Some node" by blast
    moreover from this have "node \<in> set (map the (map parse_node_line ?lines))" using that by force
    ultimately show ?thesis using tasks by (auto simp: list_all_iff)
  qed
  moreover have "\<exists>state rest. fields1 = state # rest \<and> stopped_state state"
    if "task_stopped ?services task" "split_on CHR ''|'' task = name # fields1" "starts_with name (stack @ ''_'' @ service @ ''.'')"
    for task name fields1
  proof -
    have "name \<noteq> ''''" using that(3) starts_with_nil [of "stack @ ''_'' @ service" "CHR ''.''"] by auto
    moreover have "list_ex (\<lambda>s. starts_with name (s @ ''.'')) ?services" using service that(3) by (auto simp: list_ex_iff)
    ultimately show ?thesis using that(1,2) by (auto simp: task_stopped_def split: list.splits)
  qed
  ultimately show ?thesis unfolding tasks_gone_def by blast
qed

text \<open>
  C4. The wait for a rollout reports success only for a deployment that runs. When \<open>waitForDeployment\<close> leaves a
  deployment \<open>Succeeded\<close>, there was a last poll of Docker: the first one that completed a row of as many ready
  polls as asked for (three when an app has a health check, else one), where a poll is ready when it lists
  every service of the snapshot with exactly its replicas desired and running, none for stopped apps, and no
  other service; every command up to it succeeded and later answers could not change the outcome. And for
  every service that was removed while its app held a GPU, no such service is left and none of its tasks runs
  on any node, all of which were ready and active. (A deployment that a worker finds in the phase \<open>Cleanup\<close>, after
  the wait, is completed without another poll.)
\<close>

theorem success_requires_convergence:
  assumes "waitForDeployment tools dk db i w = (db', Inr row)" and "dp_status row = Succeeded"
  shows "\<exists>d s expected k. find_deployment db i = Some d \<and> parseStackConfig (dp_stackConfig d) = Inr s \<and>
    expectedServices (stackName (dp_appGroupId d)) s = Inr expected \<and>
    decisive_poll (\<lambda>j. poll_converged (dk_parse_row dk) expected (dk_polls dk AwaitRollout j)) (nat (readinessStabilityChecks s)) k \<and>
    (\<forall>j \<le> k. dr_exitCode (po_result (dk_polls dk AwaitRollout j)) = 0) \<and>
    (\<forall>polls. (\<forall>j \<le> k. polls AwaitRollout j = dk_polls dk AwaitRollout j) \<longrightarrow>
       dk_rollout (dk\<lparr>dk_polls := polls\<rparr>) AwaitRollout expected (Some (readinessStabilityChecks s)) =
       dk_rollout dk AwaitRollout expected (Some (readinessStabilityChecks s))) \<and>
    (\<forall>service \<in> set (removed_gpu_services (dk_during dk AwaitRollout db) (dp_appGroupId d)).
       tasks_gone dk (stackName (dp_appGroupId d)) service)"
proof -
  obtain d where d: "findWorkerDeploymentOrThrow db i w = Inr d"
    using assms(1) by (cases "findWorkerDeploymentOrThrow db i w") (auto simp: waitForDeployment_def)
  have no_rollback: "rollbackAfterRuntimeFailure tools dk db1 now1 d m det \<noteq> (db', Inr row)" for db1 now1 m det
    using rollback_outcome_core [of tools dk db1 now1 d m det db' row] assms(2) by (auto simp: rollback_outcome_def)
  let ?removed = "removed_gpu_services (dk_during dk AwaitRollout db) (dp_appGroupId d)"
  obtain s expected r where s: "parseStackConfig (dp_stackConfig d) = Inr s"
    "expectedServices (stackName (dp_appGroupId d)) s = Inr expected"
    "dk_rollout dk AwaitRollout expected (Some (readinessStabilityChecks s)) = Inr r" "ro_success r"
    "?removed = [] \<or> dk_gpu_tasks dk (stackName (dp_appGroupId d)) ?removed"
    using assms(1) d no_rollback by (auto simp: waitForDeployment_def Let_def try_then_Inr split: if_splits)
  have checks: "stability_checks (Some (readinessStabilityChecks s)) = readinessStabilityChecks s"
    by (simp add: stability_checks_def readinessStabilityChecks_def)
  have wait: "waitForRollout (dk_config dk) (dk_parse_row dk) (dk_polls dk AwaitRollout) (dk_start dk AwaitRollout) expected
      (Some (readinessStabilityChecks s)) = Some (Inr r)"
    using s(3) by (simp add: dk_rollout_def split: option.splits sum.splits)
  from rollout_converged [OF wait s(4)] obtain k where k:
    "decisive_poll (\<lambda>j. poll_converged (dk_parse_row dk) expected (dk_polls dk AwaitRollout j)) (nat (readinessStabilityChecks s)) k"
    "\<forall>j \<le> k. dr_exitCode (po_result (dk_polls dk AwaitRollout j)) = 0"
    "\<forall>polls. (\<forall>j \<le> k. polls j = dk_polls dk AwaitRollout j) \<longrightarrow> waitForRollout (dk_config dk) (dk_parse_row dk) polls
       (dk_start dk AwaitRollout) expected (Some (readinessStabilityChecks s)) = Some (Inr r)" unfolding checks by blast
  have "dk_rollout (dk\<lparr>dk_polls := polls\<rparr>) AwaitRollout expected (Some (readinessStabilityChecks s)) =
      dk_rollout dk AwaitRollout expected (Some (readinessStabilityChecks s))"
    if "\<forall>j \<le> k. polls AwaitRollout j = dk_polls dk AwaitRollout j" for polls
    unfolding s(3) using k(3) that by (simp add: dk_rollout_def)
  moreover have "\<forall>service \<in> set ?removed. tasks_gone dk (stackName (dp_appGroupId d)) service"
    using s(5) gpu_tasks_gone by auto
  ultimately show ?thesis
    using d s(1,2) k(1,2) by (intro exI [of _ d] exI [of _ s] exI [of _ expected] exI [of _ k]) (simp add: findWorkerDeploymentOrThrow_Inr)
qed

section \<open>A concrete deployment\<close>

definition sample_row :: "deployment_phase \<Rightarrow> deployment" where
  "sample_row phase = \<lparr>dp_id = ''d1'', dp_appGroupId = ''1'', dp_version = 2, dp_status = Deploying, dp_phase = phase,
     dp_stackConfig = ParsedConfig (sample_config ''1''), dp_leaseOwner = Some ''w'', dp_leaseExpiresAt = Some 1000,
     dp_heartbeatAt = Some 0, dx_startedAt = Some 0, dx_completedAt = None, dx_errorCode = None, dx_errorMessage = None,
     dx_rollbackTarget = None, dx_sourceDraftRevision = 3, dx_renderedStack = None, dx_renderedSha = None,
     dx_renderedAt = None\<rparr>"

definition sample_dep :: "deployment_phase \<Rightarrow> dep_db" where
  "sample_dep phase = \<lparr>dd_platform = sample_db,
     dd_groups = [\<lparr>ag_id = ''1'', ag_runtimeState = ''Running'', gr_status = ''Ready'', gr_drift = ''InSync'',
       gr_draftRevision = 3, gr_currentVersion = None, gr_pendingChanges = True\<rparr>],
     dd_apps = [\<lparr>sr_id = ''a2'', sr_appGroupId = ''1'', sr_runtimeState = ''Running'', sr_pendingDeletion = True,
       sr_memoryBytes = 0, sr_desiredReplicas = 1, sr_actualReplicas = 1, ap_name = ''old''\<rparr>],
     dd_deployments = [sample_row phase],
     dd_gpus = [\<lparr>gp_uuid = ''g'', gp_app = Some ''a2'', gp_state = ''Allocated'', gp_allocatedAt = Some 0,
       gp_observedState = ''Available'', gp_lastObservedAt = None, gp_location = None\<rparr>],
     dd_registries = [], dd_events = []\<rparr>"

definition sample_step :: step_result where
  "sample_step = \<lparr>st_success = True, st_message = ''ok'', st_details = ''''\<rparr>"

definition sample_rollout_result :: rollout_result where
  "sample_rollout_result = \<lparr>ro_success = True, ro_message = ''Rollout completed'', ro_details = ''''\<rparr>"

definition silent_poll :: rollout_poll where
  "silent_poll = \<lparr>po_result = \<lparr>dr_exitCode = 0, dr_stdout = '''', dr_stderr = ''''\<rparr>, po_elapsed = 1\<rparr>"

definition quiet :: docker where
  "quiet = \<lparr>dk_during = (\<lambda>_ db. db), dk_now = (\<lambda>_. 100), dk_credential = id, dk_login = (\<lambda>_. sample_step),
     dk_secrets = (\<lambda>_. sample_step), dk_configs = (\<lambda>_. sample_step), dk_volumes = (\<lambda>_. sample_step),
     dk_apply = (\<lambda>_ _ _ _. Inr (sample_step, None)), dk_config = (\<lambda>_. None), dk_parse_row = (\<lambda>_. None),
     dk_start = (\<lambda>_. 0), dk_polls = (\<lambda>_ _. silent_poll), dk_nodes = po_result silent_poll,
     dk_services = (\<lambda>_. po_result silent_poll), dk_tasks = (\<lambda>_. po_result silent_poll), dk_inspect = (\<lambda>_. None)\<rparr>"

definition sample_tools :: worker_tools where
  "sample_tools = \<lparr>at_sha = (\<lambda>_. replicate 64 CHR ''0''), at_sensitive = (\<lambda>_. False), at_render = (\<lambda>_. Inr ''stack''),
     at_validate = (\<lambda>_ _. Inr None), at_preflight = strict_preflight\<rparr>"

definition sample_operation :: operation where
  "sample_operation = \<lparr>op_id = ''o'', op_type = APP_GROUP_DEPLOY, op_tenantId = None, op_resourceType = ''AppGroup'',
     op_resourceId = Some ''d1'', op_status = operation_status.Running, op_phase = None, op_createdBy = ''u'',
     op_createdByEmail = '''', op_createdByDisplayName = '''', op_input = JNull, op_result = None,
     op_idempotencyKey = None, op_attempt = 1, op_maxAttempts = 3, op_nextAttemptAt = 0, op_leaseOwner = Some ''w'',
     op_leaseExpiresAt = None, op_heartbeatAt = None, op_errorCode = None, op_errorMessage = None, op_createdAt = 0,
     op_startedAt = None, op_completedAt = None\<rparr>"

lemma sample_find [simp]: "find_deployment (sample_dep phase) ''d1'' = Some (sample_row phase)"
  by (simp add: find_deployment_def find_row_def sample_dep_def sample_row_def)

lemma sample_worker [simp]: "findWorkerDeploymentOrThrow (sample_dep phase) ''d1'' ''w'' = Inr (sample_row phase)"
  by (simp add: findWorkerDeploymentOrThrow_Inr) (simp add: sample_row_def)

lemmas sample_simps = sample_dep_def sample_row_def quiet_def sample_tools_def sample_operation_def sample_step_def
  sample_rollout_result_def

lemmas statement_simps = update_deployment_def update_group_def update_with_event_def update_where_def try_then_def
  in_transaction_def createDeploymentEvent_def createEvent_def find_deployment_def find_row_def
  findWorkerDeploymentOrThrow_def findClaimedDeployment_def assertDeploymentIsActive_def assertPhaseTransition_def

lemma sample_execution:
  "\<exists>db' x d. execute sample_tools quiet (sample_dep Cleanup) 5 sample_operation = (db', Inr x) \<and>
     dd_deployments db' = [d] \<and> dp_status d = Succeeded"
  by (simp add: execute_def has_text_def Let_def claimDeploymentById_def sample_simps statement_simps is_terminal_def
      leased_by_another_def lease_available_def claimed_deployment_row_def reconcileClaimedDeployment_def
      heartbeatDeployment_def heartbeat_deployment_row_def advanceDeployment_def persisted_artifact_def advanced_row_def
      release_lease_def terminalResult_def)

lemma sample_completion:
  "\<exists>db' next. completeRollout (sample_dep WaitingForRollout) 100 (sample_row WaitingForRollout) sample_rollout_result = (db', Inr next)"
  by (simp add: completeRollout_def Let_def statement_simps sample_simps deleted_apps_def delete_apps_def finished_row_def
      release_lease_def)

theorem runtime_failure_outcome_witness:
  "\<exists>db' r. rollbackAfterRuntimeFailure sample_tools quiet (sample_dep WaitingForRollout) 7 (sample_row WaitingForRollout)
     ''m'' '''' = (db', Inr r) \<and> dp_status r = Failed"
proof -
  have none: "rollback_target (sample_dep WaitingForRollout) (sample_row WaitingForRollout) = None"
    by (simp add: rollback_target_def sample_simps sort_desc_def)
  obtain db' r where r: "rollbackAfterRuntimeFailure sample_tools quiet (sample_dep WaitingForRollout) 7
      (sample_row WaitingForRollout) ''m'' '''' = (db', Inr r)"
    by (simp add: rollbackAfterRuntimeFailure_def Let_def none failDeploymentWithPhase_def)
      (simp add: statement_simps sample_simps)
  from runtime_failure_outcome [OF r] none r rollback_target_spec show ?thesis
    by (auto simp: sample_dep_def sample_row_def)
qed

theorem deployment_lease_excludes_others_witness:
  "claimDeploymentById quiet (sample_dep ApplyingStack) 5 ''d1'' ''w2'' None = (sample_dep ApplyingStack, Inl DepLeaseActive)"
proof -
  have "distinct (map dp_id (dd_deployments (sample_dep ApplyingStack)))" "\<not> is_terminal (dp_status (sample_row ApplyingStack))"
    "dp_leaseOwner (sample_row ApplyingStack) = Some ''w''" "dp_leaseExpiresAt (sample_row ApplyingStack) = Some 1000"
    "(5::int) < 1000" "''w2'' \<noteq> ''w''"
    by (simp_all add: sample_simps is_terminal_def)
  from deployment_lease_excludes_others [OF sample_find this] show ?thesis by blast
qed

lemma sample_cap_view:
  "cb_deployments (cap_view (sample_dep Validating)) = [deployment_row.truncate (sample_row Validating)]"
  "availablePlatformSupply (cap_view (sample_dep Validating)) = availablePlatformSupply sample_db"
proof -
  show "cb_deployments (cap_view (sample_dep Validating)) = [deployment_row.truncate (sample_row Validating)]"
    by (simp add: cap_view_def sample_dep_def)
  have 1: "cb_clusters (cap_view (sample_dep Validating)) = cb_clusters sample_db"
    "cb_locations (cap_view (sample_dep Validating)) = cb_locations sample_db"
    by (simp_all add: cap_view_def sample_dep_def)
  show "availablePlatformSupply (cap_view (sample_dep Validating)) = availablePlatformSupply sample_db"
    unfolding availablePlatformSupply_def platformCapacity_def 1 by (rule refl)
qed

lemma sample_deployment_admitted:
  "admitDeployment (cap_view (sample_dep Validating)) now (sample_snapshot ''1'') strict_preflight =
     (strict_preflight, Inr (Admitted (CapacityDemand 1000000000 2048) 0 (CapacityDemand 4000000000 10000)))"
proof -
  have "occupiedCapacity (cap_view (sample_dep Validating)) ''1'' = Inr 0"
    by (simp add: occupiedCapacity_def reserving_rows_def by_app_group_def sample_cap_view)
      (simp add: sample_row_def deployment_row.truncate_def zero_capacity_demand_def)
  moreover have "sn_appGroupId (sample_snapshot ''1'') = ''1''" by (simp add: sample_snapshot_def)
  ultimately show ?thesis
    by (simp add: admitDeployment_def preconditions_def refusing_def sample_supply sample_storage sample_cap_view sample_demand
        fitAdmission_def strict_preflight_def projectedCapacityFits_def declared_fit_def settle_def)
qed

lemma sample_start:
  "\<exists>db' row. advanceDeployment sample_tools quiet (sample_dep Validating) 5 ''d1'' ''w'' PreparingArtifacts None = (db', Inr row) \<and>
     dp_status row = Deploying"
proof -
  have "parseSnapshot (dp_stackConfig (sample_row Validating)) = Some (sample_snapshot ''1'')"
    by (simp add: sample_row_def sample_parse_snapshot)
  then show ?thesis
    by (simp add: advanceDeployment_def advanceToPreparing_def sample_tools_def admit_and_advance_def
        sample_deployment_admitted try_then_def assertPhaseTransition_def)
      (simp add: sample_simps statement_simps advance_row_def provisionArtifacts_def parseStackConfig_def sample_config_def
        provisionRegistryAuth_def resolveRegistryLogins_def registry_ids_def snapshot_apps_def and_then_def sample_app_def
        map_filter_simps recordProvisioningSuccess_def touch_row_def Let_def)
qed

theorem only_fitting_deployments_start_witness:
  "\<exists>demand occupied. snapshot_demand (sample_snapshot ''1'') = Inr demand \<and>
     occupiedCapacity (cap_view (sample_dep Validating)) ''1'' = Inr occupied \<and>
     cpuNano occupied + cpuNano demand \<le> cpuNano (total_available (cap_view (sample_dep Validating)))"
proof -
  obtain db' row where r: "advanceDeployment sample_tools quiet (sample_dep Validating) 5 ''d1'' ''w'' PreparingArtifacts None = (db', Inr row)"
    "dp_status row \<noteq> Failed" using sample_start by fastforce
  have "parseSnapshot (dp_stackConfig (sample_row Validating)) = Some (sample_snapshot ''1'')"
    "sn_appGroupId (sample_snapshot ''1'') = ''1''"
    by (simp_all add: sample_row_def sample_parse_snapshot sample_snapshot_def)
  with only_fitting_deployments_start [OF r] show ?thesis by auto
qed

definition healthy_parse :: "string \<Rightarrow> service_row option" where
  "healthy_parse line = Some \<lparr>sv_name = Some ''rp_1_web'', sv_replicas = Some ''2/2''\<rparr>"

definition healthy_poll :: "nat \<Rightarrow> rollout_poll" where
  "healthy_poll k = \<lparr>po_result = \<lparr>dr_exitCode = 0, dr_stdout = ''a'', dr_stderr = ''''\<rparr>, po_elapsed = 1\<rparr>"

definition healthy_docker :: docker where
  "healthy_docker = quiet\<lparr>dk_parse_row := healthy_parse, dk_polls := \<lambda>_. healthy_poll,
     dk_nodes := \<lparr>dr_exitCode = 0, dr_stdout = ''node0node0node0node0|Ready|Active'', dr_stderr = ''''\<rparr>,
     dk_tasks := \<lambda>_. \<lparr>dr_exitCode = 0, dr_stdout = ''rp_1_old.1|Shutdown 2 minutes ago'', dr_stderr = ''''\<rparr>\<rparr>"

lemma healthy_gpu: "dk_gpu_tasks healthy_docker ''rp_1'' [''old'']"
  by code_simp

lemma sample_removed: "removed_gpu_services (sample_dep phase) ''1'' = [''old'']" "stackName ''1'' = ''rp_1''"
  by (cases phase) code_simp+

lemma healthy_rollout:
  "waitForRollout (\<lambda>_. None) healthy_parse healthy_poll 0 [\<lparr>ex_name = ''rp_1_web'', ex_desiredReplicas = 2\<rparr>] (Some 1) =
     Some (Inr \<lparr>ro_success = True, ro_message = ''Rollout completed'', ro_details = ''rp_1_web: '' @ show_nat 2 @ ''/'' @ show_nat 2 @ '' replicas''\<rparr>)"
proof -
  have p: "parseServiceRows healthy_parse ''a'' = Inr [\<lparr>sv_name = Some ''rp_1_web'', sv_replicas = Some ''2/2''\<rparr>]"
    by (simp add: parseServiceRows_def healthy_parse_def js_trim_def js_space_def)
  have e: "evaluateServices [\<lparr>sv_name = Some ''rp_1_web'', sv_replicas = Some ''2/2''\<rparr>] [\<lparr>ex_name = ''rp_1_web'', ex_desiredReplicas = 2\<rparr>] =
      (True, ''rp_1_web: '' @ show_nat 2 @ ''/'' @ show_nat 2 @ '' replicas'')"
    by (simp add: rollout_eval) (simp add: numeral_2_eq_2)
  show ?thesis
    unfolding waitForRollout_def positiveIntegerConfig_def stability_checks_def
    by (simp add: rollout_loop.simps [of _ 0] healthy_poll_def p e)
qed

lemma sample_expected:
  "parseStackConfig (dp_stackConfig (sample_row phase)) = Inr (sample_config ''1'')"
  "expectedServices (stackName ''1'') (sample_config ''1'') = Inr [\<lparr>ex_name = ''rp_1_web'', ex_desiredReplicas = 2\<rparr>]"
  "readinessStabilityChecks (sample_config ''1'') = 1"
  by (simp_all add: parseStackConfig_def sample_row_def expectedServices_def sample_config_def snapshot_apps_def
      expected_service_of_def effectiveReplicas_def and_then_def sample_app_def stackName_def serviceName_def replace_char_def
      readinessStabilityChecks_def has_health_check_def)

lemma sample_success:
  "\<exists>db' row. waitForDeployment sample_tools healthy_docker (sample_dep WaitingForRollout) ''d1'' ''w'' = (db', Inr row) \<and>
     dp_status row = Succeeded"
proof -
  have g: "dp_appGroupId (sample_row WaitingForRollout) = ''1''" by (simp add: sample_row_def)
  have "dk_config healthy_docker = (\<lambda>_. None)" "dk_parse_row healthy_docker = healthy_parse" "dk_polls healthy_docker = (\<lambda>_. healthy_poll)"
    "dk_start healthy_docker = (\<lambda>_. 0)"
    by (simp_all add: healthy_docker_def quiet_def)
  then have r: "dk_rollout healthy_docker AwaitRollout [\<lparr>ex_name = ''rp_1_web'', ex_desiredReplicas = 2\<rparr>] (Some 1) =
      Inr \<lparr>ro_success = True, ro_message = ''Rollout completed'', ro_details = ''rp_1_web: '' @ show_nat 2 @ ''/'' @ show_nat 2 @ '' replicas''\<rparr>"
    by (simp only: dk_rollout_def healthy_rollout option.case sum.case)
  have d: "dk_during healthy_docker = (\<lambda>_ db. db)" "dk_now healthy_docker = (\<lambda>_. 100)"
    by (simp_all add: healthy_docker_def quiet_def)
  have w: "waitForDeployment sample_tools healthy_docker (sample_dep WaitingForRollout) ''d1'' ''w'' =
      completeRollout (sample_dep WaitingForRollout) 100 (sample_row WaitingForRollout)
        \<lparr>ro_success = True, ro_message = ''Rollout completed'', ro_details = ''rp_1_web: '' @ show_nat 2 @ ''/'' @ show_nat 2 @ '' replicas''\<rparr>"
    using healthy_gpu sample_expected(2) r
    by (simp add: waitForDeployment_def Let_def try_then_def sample_expected(1,3) g d sample_removed)
  show ?thesis
    unfolding w
    by (simp add: completeRollout_def Let_def statement_simps sample_simps deleted_apps_def delete_apps_def finished_row_def
      release_lease_def)
qed

theorem success_requires_convergence_witness:
  "(\<exists>k. poll_converged healthy_parse [\<lparr>ex_name = ''rp_1_web'', ex_desiredReplicas = 2\<rparr>] (healthy_poll k)) \<and>
   tasks_gone healthy_docker ''rp_1'' ''old''"
proof -
  obtain db' row where r: "waitForDeployment sample_tools healthy_docker (sample_dep WaitingForRollout) ''d1'' ''w'' = (db', Inr row)"
    "dp_status row = Succeeded" using sample_success by blast
  obtain d s expected k where k: "find_deployment (sample_dep WaitingForRollout) ''d1'' = Some d"
      "parseStackConfig (dp_stackConfig d) = Inr s" "expectedServices (stackName (dp_appGroupId d)) s = Inr expected"
      "decisive_poll (\<lambda>j. poll_converged (dk_parse_row healthy_docker) expected (dk_polls healthy_docker AwaitRollout j)) (nat (readinessStabilityChecks s)) k"
      "\<forall>service \<in> set (removed_gpu_services (dk_during healthy_docker AwaitRollout (sample_dep WaitingForRollout)) (dp_appGroupId d)).
         tasks_gone healthy_docker (stackName (dp_appGroupId d)) service"
    using success_requires_convergence [OF r] by blast
  have d: "d = sample_row WaitingForRollout" using k(1) by simp
  have g: "dp_appGroupId (sample_row WaitingForRollout) = ''1''" by (simp add: sample_row_def)
  have s: "s = sample_config ''1''" "expected = [\<lparr>ex_name = ''rp_1_web'', ex_desiredReplicas = 2\<rparr>]"
    using k(2,3) sample_expected unfolding d g by auto
  have dk: "dk_parse_row healthy_docker = healthy_parse" "dk_polls healthy_docker = (\<lambda>_. healthy_poll)" "dk_during healthy_docker = (\<lambda>_ db. db)"
    by (simp_all add: healthy_docker_def quiet_def)
  have "poll_converged healthy_parse [\<lparr>ex_name = ''rp_1_web'', ex_desiredReplicas = 2\<rparr>] (healthy_poll k)"
    using k(4) unfolding decisive_poll_def s dk sample_expected(3) by auto
  moreover have "tasks_gone healthy_docker ''rp_1'' ''old''"
    using k(5) unfolding d g dk sample_removed by simp
  ultimately show ?thesis by blast
qed

end
