(* ===== verification/RemoteLan.thy ===== *)
theory RemoteLan
  imports AddressAllocation JsStrings
begin

text \<open>
  The pure decisions of the remote LAN attachments: \<open>remote-lan-addressing.ts\<close> (which address settings
  a tenant may ask for, which gate observation of a managed LAN is trusted), the bridge name of
  \<open>remote-lan-managed-uplink.ts\<close> and \<open>remote-lan-activation-proof.ts\<close> (which pair of observations
  activates an attachment). The hash \<open>sha\<close> (hexadecimal SHA-256) and \<open>Date.parse\<close>, whose results
  outside the ISO format are left to the implementation, are parameters. Numbers that arrive in
  unchecked JSON are rational.
\<close>

section \<open>Patterns\<close>

text \<open>A regular expression that fixes the class of every character.\<close>

definition char_pattern :: "(char \<Rightarrow> bool) list \<Rightarrow> string \<Rightarrow> bool" where
  "char_pattern = list_all2 (\<lambda>P c. P c)"

definition one_of :: "string \<Rightarrow> char \<Rightarrow> bool" where
  "one_of cs c \<longleftrightarrow> c \<in> set cs"

definition is_lower_hex :: "char \<Rightarrow> bool" where
  "is_lower_hex c \<longleftrightarrow> is_digit c \<or> one_of ''abcdef'' c"

definition uuid_text :: "string \<Rightarrow> bool" where
  "uuid_text =
     char_pattern
       (replicate 8 is_hex @ [one_of ''-''] @ replicate 4 is_hex @ [one_of ''-'', one_of ''12345678''] @ replicate 3 is_hex @
        [one_of ''-'', one_of ''89abAB''] @ replicate 3 is_hex @ [one_of ''-''] @ replicate 12 is_hex)"

definition mac_text :: "string \<Rightarrow> bool" where
  "mac_text = char_pattern (concat (replicate 5 [is_hex, is_hex, one_of '':'']) @ [is_hex, is_hex])"

text \<open>\<open>parseInt(mac.slice(0, 2), 16) & 3\<close>: the two lowest bits of the first octet.\<close>

definition hex_val :: "char \<Rightarrow> nat" where
  "hex_val c = (if is_digit c then digit_val c else (of_char (lower c) :: nat) - 87)"

definition mac_kind :: "string \<Rightarrow> nat" where
  "mac_kind mac = (16 * hex_val (mac ! 0) + hex_val (mac ! 1)) mod 4"

definition deviceName :: "string \<Rightarrow> bool" where
  "deviceName s \<longleftrightarrow>
     (case s of
        [] \<Rightarrow> False
      | c # cs \<Rightarrow>
          (is_lower c \<or> is_upper c) \<and> length cs \<le> 14 \<and> list_all (\<lambda>d. is_word_char d \<or> one_of ''.-'' d) cs)"

definition is_safe_integer :: "rat \<Rightarrow> bool" where
  "is_safe_integer x \<longleftrightarrow> is_integer x \<and> \<bar>x\<bar> \<le> 2 ^ 53 - 1"

definition REMOTE_LAN_PROOF_MAX_AGE_MS :: int where
  "REMOTE_LAN_PROOF_MAX_AGE_MS = 45000"

text \<open>\<open>String(error)\<close> of an \<open>Error\<close>.\<close>

definition error_string :: "string \<Rightarrow> string" where
  "error_string message = ''Error: '' @ message"

section \<open>Address settings\<close>

record lan_address_request =
  lr_addressMode :: "string option"
  lr_lanCidr :: string
  lr_staticAddress :: "string option"
  lr_staticGateway :: "string option"

record lan_ip_settings =
  li_addressMode :: string
  li_lanCidr :: string
  li_staticAddress :: "string option"
  li_staticGateway :: "string option"

definition ip :: "string \<Rightarrow> 32 word option" where
  "ip value = map_option nc_network (parseIpv4Cidr (value @ ''/32''))"

text \<open>An octet written with a leading zero.\<close>

definition padded_octet :: "string \<Rightarrow> bool" where
  "padded_octet x \<longleftrightarrow> 1 < length x \<and> starts_with x ''0''"

definition unusable_host :: "ipv4_cidr \<Rightarrow> 32 word \<Rightarrow> bool" where
  "unusable_host network w \<longleftrightarrow> w = nc_network network \<or> w = nc_broadcast network"

definition normalizeStatic :: "ipv4_cidr \<Rightarrow> string list \<Rightarrow> string \<Rightarrow> string \<Rightarrow> string + lan_ip_settings" where
  "normalizeStatic network reserved staticAddress staticGateway =
     (let host_text = hd (split_on CHR ''/'' staticAddress) in
      case (parseIpv4Cidr staticAddress, ip host_text, ip staticGateway) of
        (Some address, Some host, Some gateway) \<Rightarrow>
          if nc_prefix address \<noteq> nc_prefix network \<or> nc_normalized address \<noteq> nc_normalized network \<or>
             \<not> containsIpv4 network staticGateway \<or> unusable_host network host \<or> unusable_host network gateway \<or> host = gateway
          then Inl ''Static IPv4 address/gateway must be distinct usable LAN hosts''
          else if \<not> ends_with staticAddress (''/'' @ show_nat (nc_prefix network)) \<or>
                  list_ex padded_octet (split_on CHR ''.'' host_text) \<or> list_ex padded_octet (split_on CHR ''.'' staticGateway)
          then Inl ''Static IP settings must use canonical IPv4 notation''
          else if host_text \<in> set reserved \<or> staticGateway \<in> set reserved
          then Inl ''Static IPv4 address conflicts with reserved LAN resources''
          else Inr \<lparr>li_addressMode = ''Static'', li_lanCidr = nc_normalized network,
                    li_staticAddress = Some staticAddress, li_staticGateway = Some staticGateway\<rparr>
      | _ \<Rightarrow> Inl ''Static IPv4 address/gateway must be distinct usable LAN hosts'')"

definition normalizeLanAddress :: "lan_address_request \<Rightarrow> string list \<Rightarrow> string + lan_ip_settings" where
  "normalizeLanAddress input reserved =
     (case parseIpv4Cidr (lr_lanCidr input) of
        None \<Rightarrow> Inl ''Invalid canonical customer LAN subnet''
      | Some network \<Rightarrow>
          if nc_prefix network < 16 \<or> 30 < nc_prefix network \<or> nc_normalized network \<noteq> lr_lanCidr input
          then Inl ''Invalid canonical customer LAN subnet''
          else
            (let mode = option_or (lr_addressMode input) ''DHCP'' in
             if mode \<noteq> ''Static'' \<and> mode \<noteq> ''DHCP'' then Inl ''Unsupported LAN addressing mode''
             else if mode = ''DHCP''
             then
               (if lr_staticAddress input \<noteq> None \<or> lr_staticGateway input \<noteq> None
                then Inl ''DHCP attachments cannot carry static address or gateway''
                else Inr \<lparr>li_addressMode = ''DHCP'', li_lanCidr = nc_normalized network,
                          li_staticAddress = None, li_staticGateway = None\<rparr>)
             else if option_or (lr_staticAddress input) '''' = '''' \<or> option_or (lr_staticGateway input) '''' = ''''
             then Inl ''Static LAN requires both IPv4 address and gateway''
             else normalizeStatic network reserved (option_or (lr_staticAddress input) '''')
                    (option_or (lr_staticGateway input) '''')))"

section \<open>Gate observations of a managed LAN\<close>

text \<open>\<open>Partial<GateLanObservation>\<close>: a field that is absent or not a string is \<open>None\<close>.\<close>

record lan_observation =
  lo_protocol :: "int option"
  lo_state :: "string option"
  lo_gateId :: "string option"
  lo_physicalInterface :: "string option"
  lo_bridge :: "string option"
  lo_networkCidr :: "string option"
  lo_gateway :: "string option"
  lo_observedAt :: "string option"
  lo_agentVersion :: "string option"
  lo_segmentId :: "string option"

definition managedBridgeName :: "(string \<Rightarrow> string) \<Rightarrow> string \<Rightarrow> string \<Rightarrow> string + string" where
  "managedBridgeName sha gateId device =
     (if \<not> uuid_text gateId \<or> \<not> deviceName device then Inl ''Invalid Gate uplink identity''
      else Inr (''rp-gb-'' @ take 8 (sha (gateId @ '':'' @ device))))"

definition bridge_text :: "string \<Rightarrow> bool" where
  "bridge_text s \<longleftrightarrow> starts_with s ''rp-gb-'' \<and> char_pattern (replicate 8 is_lower_hex) (drop 6 s)"

definition observation_fresh :: "(string \<Rightarrow> millis option) \<Rightarrow> string \<Rightarrow> millis option \<Rightarrow> millis \<Rightarrow> bool" where
  "observation_fresh date_parse observedAt reportedAt now \<longleftrightarrow>
     (case reportedAt of None \<Rightarrow> False | Some r \<Rightarrow> \<bar>now - r\<bar> \<le> 60000) \<and>
     (case date_parse observedAt of None \<Rightarrow> False | Some t \<Rightarrow> \<bar>now - t\<bar> \<le> 60000)"

definition verifiedManagedLan ::
    "(string \<Rightarrow> string) \<Rightarrow> (string \<Rightarrow> millis option) \<Rightarrow> string \<Rightarrow> string \<Rightarrow> lan_observation option \<Rightarrow> millis option \<Rightarrow> millis \<Rightarrow>
     string + lan_observation" where
  "verifiedManagedLan sha date_parse gateId interfaceName observed reportedAt now =
     (case observed of
        None \<Rightarrow> Inl ''Missing or stale authenticated Gate LAN observation''
      | Some o1 \<Rightarrow>
          (case (lo_observedAt o1, lo_networkCidr o1, lo_gateway o1, lo_bridge o1, lo_segmentId o1, lo_agentVersion o1) of
             (Some observedAt, Some networkCidr, Some gateway, Some bridge, Some segmentId, Some agentVersion) \<Rightarrow>
               if lo_protocol o1 \<noteq> Some 1 \<or> lo_state o1 \<noteq> Some ''Ready'' \<or> lo_gateId o1 \<noteq> Some gateId \<or>
                  lo_physicalInterface o1 \<noteq> Some interfaceName \<or> agentVersion \<notin> {''gate-l2-v2'', ''gate-l2-v3''} \<or>
                  \<not> char_pattern (replicate 24 is_lower_hex) segmentId \<or> \<not> bridge_text bridge \<or>
                  \<not> observation_fresh date_parse observedAt reportedAt now
               then Inl ''Missing or stale authenticated Gate LAN observation''
               else
                 (case parseIpv4Cidr networkCidr of
                    None \<Rightarrow> Inl ''Invalid observed Gate network''
                  | Some cidr \<Rightarrow>
                      if nc_normalized cidr \<noteq> networkCidr \<or> \<not> containsIpv4 cidr gateway
                      then Inl ''Invalid observed Gate network''
                      else
                        (case managedBridgeName sha gateId interfaceName of
                           Inl e \<Rightarrow> Inl e
                         | Inr name \<Rightarrow>
                             if bridge \<noteq> name \<or> segmentId \<noteq> take 24 (sha (gateId @ '':'' @ interfaceName @ '':'' @ networkCidr))
                             then Inl ''Managed observation bridge/segment identity mismatch''
                             else Inr o1))
           | _ \<Rightarrow> Inl ''Missing or stale authenticated Gate LAN observation''))"

section \<open>Activation proofs\<close>

text \<open>\<open>LanProofIdentity\<close> of the two observers; \<open>gate_proof\<close> is also what a gate's heartbeat reports.\<close>

record lan_proof =
  lp_source :: string
  lp_attachmentId :: string
  lp_tenantId :: string
  lp_singleAppId :: string
  lp_gateId :: string
  lp_configurationRevision :: rat
  lp_macAddress :: string
  lp_observedAtMs :: rat

record node_proof = lan_proof +
  np_taskContainerId :: string
  np_nodeTaskId :: string
  np_mode :: string
  np_address :: string
  np_prefix :: rat
  np_appLinkOwned :: bool
  np_appLinkUp :: bool
  np_overlayPeerMatched :: bool
  np_dockerDefaultPreserved :: bool
  np_dhcpServer :: "string option"
  np_leaseExpiresAtMs :: "rat option"
  np_staticGateway :: "string option"
  np_sourcePolicyVerified :: "bool option"

record gate_proof = lan_proof +
  gp_gatewayTunnelOwned :: bool
  gp_bridgeOwned :: bool
  gp_macLearnedOnTunnel :: bool
  gp_handshakeAtMs :: rat

record lan_target =
  lt_attachmentId :: string
  lt_tenantId :: string
  lt_singleAppId :: string
  lt_gateId :: string
  lt_configurationRevision :: int
  lt_macAddress :: string
  lt_lanCidr :: string
  lt_addressMode :: string
  lt_staticAddress :: "string option"
  lt_staticGateway :: "string option"

record lan_activation =
  la_address :: string
  la_leaseExpiresAt :: "millis option"

definition clockSkew :: int where
  "clockSkew = 5000"

definition target_valid :: "lan_target \<Rightarrow> millis \<Rightarrow> bool" where
  "target_valid target now \<longleftrightarrow>
     is_safe_integer (of_int now) \<and> 0 \<le> now \<and>
     list_all uuid_text [lt_attachmentId target, lt_tenantId target, lt_singleAppId target, lt_gateId target] \<and>
     is_safe_integer (of_int (lt_configurationRevision target)) \<and> 1 \<le> lt_configurationRevision target \<and>
     mac_text (lt_macAddress target) \<and> mac_kind (lt_macAddress target) = 2"

definition proof_matches :: "lan_target \<Rightarrow> millis \<Rightarrow> 'a lan_proof_scheme \<Rightarrow> bool" where
  "proof_matches target now proof1 \<longleftrightarrow>
     lp_attachmentId proof1 = lt_attachmentId target \<and> lp_tenantId proof1 = lt_tenantId target \<and>
     lp_singleAppId proof1 = lt_singleAppId target \<and> lp_gateId proof1 = lt_gateId target \<and>
     lp_configurationRevision proof1 = of_int (lt_configurationRevision target) \<and>
     toLowerCase (lp_macAddress proof1) = toLowerCase (lt_macAddress target) \<and>
     is_safe_integer (lp_observedAtMs proof1) \<and> of_int (now - REMOTE_LAN_PROOF_MAX_AGE_MS) \<le> lp_observedAtMs proof1 \<and>
     lp_observedAtMs proof1 \<le> of_int (now + clockSkew)"

definition is_task_char :: "char \<Rightarrow> bool" where
  "is_task_char c \<longleftrightarrow> is_digit c \<or> is_lower c"

definition task_id_text :: "string \<Rightarrow> bool" where
  "task_id_text s \<longleftrightarrow> 12 \<le> length s \<and> length s \<le> 64 \<and> list_all is_task_char s"

definition dataplane_ready :: "node_proof \<Rightarrow> gate_proof \<Rightarrow> millis \<Rightarrow> bool" where
  "dataplane_ready node gate now \<longleftrightarrow>
     lp_source node = ''node-agent'' \<and> lp_source gate = ''gate-agent'' \<and>
     char_pattern (replicate 64 is_hex) (np_taskContainerId node) \<and> task_id_text (np_nodeTaskId node) \<and>
     np_appLinkOwned node \<and> np_appLinkUp node \<and> np_overlayPeerMatched node \<and> np_dockerDefaultPreserved node \<and>
     gp_gatewayTunnelOwned gate \<and> gp_bridgeOwned gate \<and> gp_macLearnedOnTunnel gate \<and>
     is_safe_integer (gp_handshakeAtMs gate) \<and> of_int (now - 150000) < gp_handshakeAtMs gate \<and>
     gp_handshakeAtMs gate \<le> of_int (now + clockSkew)"

definition granted_host :: "lan_target \<Rightarrow> node_proof \<Rightarrow> bool" where
  "granted_host target node \<longleftrightarrow>
     (case parseIpv4Cidr (lt_lanCidr target) of
        None \<Rightarrow> False
      | Some network \<Rightarrow>
          containsIpv4 network (np_address node) \<and> ip (np_address node) \<noteq> Some (nc_network network) \<and>
          ip (np_address node) \<noteq> Some (nc_broadcast network) \<and> np_prefix node = of_nat (nc_prefix network) \<and>
          np_mode node = lt_addressMode target)"

text \<open>\<open>node.prefix\<close> equals the prefix of the subnet here, so its decimal text is that of a natural number.\<close>

definition static_proven :: "lan_ip_settings \<Rightarrow> node_proof \<Rightarrow> bool" where
  "static_proven normalized node \<longleftrightarrow>
     Some (np_address node @ ''/'' @ show_nat (nat \<lfloor>np_prefix node\<rfloor>)) = li_staticAddress normalized \<and>
     np_staticGateway node = li_staticGateway normalized \<and> np_sourcePolicyVerified node = Some True \<and>
     np_dhcpServer node = None \<and> np_leaseExpiresAtMs node = None"

definition dhcp_lease :: "node_proof \<Rightarrow> millis \<Rightarrow> rat option" where
  "dhcp_lease node now =
     (case (np_dhcpServer node, np_leaseExpiresAtMs node) of
        (Some server, Some lease) \<Rightarrow>
          if parseIpv4Cidr (server @ ''/32'') \<noteq> None \<and> is_safe_integer lease \<and> of_int (now + 30000) \<le> lease \<and>
             lease \<le> of_int (now + 90 * 24 * 3600 * 1000) \<and> np_staticGateway node = None \<and> np_sourcePolicyVerified node = None
          then Some lease else None
      | _ \<Rightarrow> None)"

definition validateLanActivationProof :: "lan_target \<Rightarrow> node_proof \<Rightarrow> gate_proof \<Rightarrow> millis \<Rightarrow> string + lan_activation" where
  "validateLanActivationProof target node gate now =
     (if \<not> target_valid target now then Inl ''Attachment has no valid activation identity''
      else if \<not> proof_matches target now node \<or> \<not> proof_matches target now gate
      then Inl ''Stale, foreign or wrong-revision L2 observation''
      else if \<not> dataplane_ready node gate now then Inl ''L2 dataplane or independent observer is not ready''
      else if \<not> granted_host target node then Inl ''Node address is not a usable host in the granted LAN''
      else
        (case normalizeLanAddress \<lparr>lr_addressMode = Some (lt_addressMode target), lr_lanCidr = lt_lanCidr target,
                lr_staticAddress = lt_staticAddress target, lr_staticGateway = lt_staticGateway target\<rparr> [] of
           Inl e \<Rightarrow> Inl e
         | Inr normalized \<Rightarrow>
             if li_addressMode normalized = ''Static''
             then
               (if static_proven normalized node then Inr \<lparr>la_address = np_address node, la_leaseExpiresAt = None\<rparr>
                else Inl ''Static address or source-specific gateway policy not proven'')
             else
               (case dhcp_lease node now of
                  None \<Rightarrow> Inl ''No fresh independently observed DHCP lease''
                | Some lease \<Rightarrow> Inr \<lparr>la_address = np_address node, la_leaseExpiresAt = Some \<lfloor>lease\<rfloor>\<rparr>)))"

end
