(* ===== verification/Gates.thy ===== *)
theory Gates
  imports RemoteLan Table Dates
begin

text \<open>
  The site gates of \<open>networking/networking.service.ts\<close>: creation with a port and a tunnel of their own,
  enrollment tokens, the exchange of a token for an agent token and revocation. The rows of the LAN
  attachments, applications and networks the gates serve are part of the state. An operation that reads the database before its transaction is a pair of a read and
  a commit; \<open>meanwhile\<close> is what other requests commit in between. A thrown exception is the left
  summand; a transaction that throws leaves the database as it was.
\<close>

section \<open>State\<close>

record l2_diagnostic =
  ld_reasonCode :: string
  ld_rawCount :: nat
  ld_acceptedCount :: nat
  ld_errorCode :: string

record gate_row =
  ga_id :: uuid
  ga_tenantId :: uuid
  ga_name :: string
  ga_status :: string
  ga_publicKey :: "string option"
  ga_serverPublicKey :: "string option"
  ga_serverPrivateKeyCiphertext :: "string option"
  ga_serverListenPort :: "int option"
  ga_serverTunnelAddress :: "string option"
  ga_clientTunnelAddress :: "string option"
  ga_agentTokenHash :: "string option"
  ga_agentVersion :: "string option"
  ga_configRevision :: int
  ga_lastSeenAt :: "millis option"
  ga_lastError :: "string option"
  ga_revokedAt :: "millis option"
  ga_observedLan :: "lan_observation option"
  ga_observedLanAt :: "millis option"
  ga_observedL2 :: "gate_proof list option"
  ga_observedL2At :: "millis option"
  ga_observedL2AppliedAt :: "millis option"
  ga_observedL2Diagnostic :: "l2_diagnostic option"

record enrollment_row =
  en_id :: uuid
  en_gateId :: uuid
  en_tokenHash :: string
  en_expiresAt :: millis
  en_usedAt :: "millis option"

record lan_row =
  at_id :: uuid
  at_tenantId :: uuid
  at_singleAppId :: uuid
  at_networkId :: uuid
  at_gateId :: uuid
  at_lanInterface :: string
  at_lanCidr :: string
  at_uplinkMode :: string
  at_addressMode :: string
  at_configurationRevision :: int
  at_staticAddress :: "string option"
  at_staticGateway :: "string option"
  at_macAddress :: string
  at_status :: string
  at_dhcpAddress :: "string option"
  at_leaseExpiresAt :: "millis option"
  at_lastVerifiedAt :: "millis option"
  at_lastError :: "string option"
  at_updatedAt :: millis

text \<open>An application with its tenant and the networks it is attached to, and a tenant network.\<close>

record lan_app =
  lapp_id :: uuid
  lapp_tenantId :: uuid
  lapp_pendingDeletion :: bool
  lapp_desiredReplicas :: int
  lapp_networkIds :: "uuid list"

record lan_network =
  lnet_id :: uuid
  lnet_tenantId :: uuid
  lnet_status :: string

record gate_db =
  gd_tenants :: "uuid list"
  gd_gates :: "gate_row list"
  gd_enrollments :: "enrollment_row list"
  gd_attachments :: "lan_row list"
  gd_apps :: "lan_app list"
  gd_networks :: "lan_network list"
  gd_audit :: "(string \<times> uuid) list"

datatype net_error =
    NetNotFound string
  | NetConflict string
  | NetBadRequest string
  | NetUnauthorized string
  | NetMissingRecord
  | NetThrown string

type_synonym 'a gate_result = "gate_db \<times> (net_error + 'a)"

definition ENROLLMENT_TTL_MS :: int where
  "ENROLLMENT_TTL_MS = 30 * 60 * 1000"

definition GATE_PORT_MIN :: int where
  "GATE_PORT_MIN = 52000"

definition GATE_PORT_MAX :: int where
  "GATE_PORT_MAX = 52999"

definition find_gate :: "gate_db \<Rightarrow> uuid \<Rightarrow> gate_row option" where
  "find_gate db i = find_row ga_id i (gd_gates db)"

definition gateOrThrow :: "gate_db \<Rightarrow> uuid \<Rightarrow> uuid \<Rightarrow> net_error + gate_row" where
  "gateOrThrow db tenantId gateId =
     (case head_opt (filter (\<lambda>g. ga_id g = gateId \<and> ga_tenantId g = tenantId) (gd_gates db)) of
        None \<Rightarrow> Inl (NetNotFound ''ResourcePortalGate not found'')
      | Some g \<Rightarrow> Inr g)"

definition ensureTenantExists :: "gate_db \<Rightarrow> uuid \<Rightarrow> net_error + unit" where
  "ensureTenantExists db tenantId =
     (if tenantId \<in> set (gd_tenants db) then Inr () else Inl (NetNotFound ''Tenant not found''))"

definition gate_audit :: "string \<Rightarrow> uuid \<Rightarrow> gate_db \<Rightarrow> gate_db" where
  "gate_audit action resource db = db\<lparr>gd_audit := gd_audit db @ [(action, resource)]\<rparr>"

text \<open>\<open>update({ where: { id } })\<close> throws when the row is gone.\<close>

definition update_gate :: "gate_db \<Rightarrow> uuid \<Rightarrow> (gate_row \<Rightarrow> gate_row) \<Rightarrow> gate_row gate_result" where
  "update_gate db i f =
     (case update_where (\<lambda>g. ga_id g = i) f (gd_gates db) of
        (t, []) \<Rightarrow> (db, Inl NetMissingRecord)
      | (t, g # _) \<Rightarrow> (db\<lparr>gd_gates := t\<rparr>, Inr g))"

definition update_enrollments :: "gate_db \<Rightarrow> (enrollment_row \<Rightarrow> bool) \<Rightarrow> millis \<Rightarrow> gate_db" where
  "update_enrollments db P now =
     db\<lparr>gd_enrollments := fst (update_where P (\<lambda>e. e\<lparr>en_usedAt := Some now\<rparr>) (gd_enrollments db))\<rparr>"

section \<open>Creation\<close>

text \<open>The first port of the range that is not occupied.\<close>

definition nextGatePort :: "int list \<Rightarrow> int option" where
  "nextGatePort used =
     head_opt (filter (\<lambda>port. port \<notin> set used) (map (\<lambda>k. GATE_PORT_MIN + int k) [0..<nat (GATE_PORT_MAX - GATE_PORT_MIN) + 1]))"

definition used_tunnels :: "gate_row list \<Rightarrow> string list" where
  "used_tunnels gates =
     filter (\<lambda>a. a \<noteq> '''')
       (concat (map (\<lambda>g. map (\<lambda>a. option_or a '''') [ga_serverTunnelAddress g, ga_clientTunnelAddress g]) gates))"

text \<open>The read of \<open>createGate\<close>: the endpoint the gate gets.\<close>

definition createGate_read :: "string \<Rightarrow> gate_db \<Rightarrow> uuid \<Rightarrow> net_error + int \<times> gate_tunnel" where
  "createGate_read pool db tenantId =
     (case ensureTenantExists db tenantId of
        Inl e \<Rightarrow> Inl e
      | Inr _ \<Rightarrow>
          (case nextAvailableGateTunnel (used_tunnels (gd_gates db)) pool of
             Inl e \<Rightarrow> Inl (NetThrown e)
           | Inr tunnel \<Rightarrow>
               (case (nextGatePort (List.map_filter ga_serverListenPort (gd_gates db)), tunnel) of
                  (Some port, Some t) \<Rightarrow> Inr (port, t)
                | _ \<Rightarrow> Inl (NetConflict ''No free ResourcePortalGate endpoint is available''))))"

definition new_gate :: "uuid \<Rightarrow> uuid \<Rightarrow> string \<Rightarrow> string \<times> string \<Rightarrow> int \<times> gate_tunnel \<Rightarrow> gate_row" where
  "new_gate i tenantId name keyPair endpoint =
     \<lparr>ga_id = i, ga_tenantId = tenantId, ga_name = name, ga_status = ''PendingEnrollment'', ga_publicKey = None,
      ga_serverPublicKey = Some (fst keyPair), ga_serverPrivateKeyCiphertext = Some (snd keyPair), ga_serverListenPort = Some (fst endpoint),
      ga_serverTunnelAddress = Some (gt_server (snd endpoint)), ga_clientTunnelAddress = Some (gt_client (snd endpoint)),
      ga_agentTokenHash = None, ga_agentVersion = None, ga_configRevision = 1, ga_lastSeenAt = None, ga_lastError = None,
      ga_revokedAt = None, ga_observedLan = None, ga_observedLanAt = None, ga_observedL2 = None, ga_observedL2At = None,
      ga_observedL2AppliedAt = None, ga_observedL2Diagnostic = None\<rparr>"

text \<open>The unique columns of the two tables; a nullable column is only compared when present.\<close>

definition same_value :: "'a option \<Rightarrow> 'a option \<Rightarrow> bool" where
  "same_value a b \<longleftrightarrow> a \<noteq> None \<and> a = b"

definition gate_collides :: "gate_row \<Rightarrow> gate_row \<Rightarrow> bool" where
  "gate_collides a b \<longleftrightarrow>
     ga_id a = ga_id b \<or> (ga_tenantId a = ga_tenantId b \<and> ga_name a = ga_name b) \<or>
     same_value (ga_publicKey a) (ga_publicKey b) \<or> same_value (ga_serverPublicKey a) (ga_serverPublicKey b) \<or>
     same_value (ga_serverListenPort a) (ga_serverListenPort b) \<or>
     same_value (ga_clientTunnelAddress a) (ga_clientTunnelAddress b) \<or>
     same_value (ga_serverTunnelAddress a) (ga_serverTunnelAddress b) \<or>
     same_value (ga_agentTokenHash a) (ga_agentTokenHash b)"

definition new_enrollment :: "uuid \<Rightarrow> uuid \<Rightarrow> string \<Rightarrow> millis \<Rightarrow> enrollment_row" where
  "new_enrollment i gateId tokenHash now =
     \<lparr>en_id = i, en_gateId = gateId, en_tokenHash = tokenHash, en_expiresAt = now + ENROLLMENT_TTL_MS, en_usedAt = None\<rparr>"

definition enrollment_collides :: "enrollment_row \<Rightarrow> enrollment_row \<Rightarrow> bool" where
  "enrollment_collides a b \<longleftrightarrow> en_id a = en_id b \<or> en_tokenHash a = en_tokenHash b"

definition createGate_commit :: "gate_db \<Rightarrow> gate_row \<Rightarrow> enrollment_row \<Rightarrow> gate_row gate_result" where
  "createGate_commit db gate enrollment =
     (if list_ex (gate_collides gate) (gd_gates db) \<or> list_ex (enrollment_collides enrollment) (gd_enrollments db)
      then (db, Inl (NetConflict ''ResourcePortalGate name or endpoint is already in use''))
      else
        (gate_audit ''gate.create'' (ga_id gate)
           (db\<lparr>gd_gates := gd_gates db @ [gate], gd_enrollments := gd_enrollments db @ [enrollment]\<rparr>), Inr gate))"

definition createGate ::
    "string \<Rightarrow> (gate_db \<Rightarrow> gate_db) \<Rightarrow> gate_db \<Rightarrow> millis \<Rightarrow> uuid \<Rightarrow> string \<Rightarrow> string \<times> string \<Rightarrow> uuid \<Rightarrow>
     uuid \<Rightarrow> string \<Rightarrow> gate_row gate_result" where
  "createGate pool meanwhile db now tenantId name keyPair i enrollmentId tokenHash =
     (case createGate_read pool db tenantId of
        Inl e \<Rightarrow> (db, Inl e)
      | Inr endpoint \<Rightarrow>
          createGate_commit (meanwhile db) (new_gate i tenantId name keyPair endpoint)
            (new_enrollment enrollmentId i tokenHash now))"

section \<open>Enrollment tokens and revocation\<close>

definition createGateEnrollment_read :: "gate_db \<Rightarrow> uuid \<Rightarrow> uuid \<Rightarrow> net_error + gate_row" where
  "createGateEnrollment_read db tenantId gateId =
     (case gateOrThrow db tenantId gateId of
        Inl e \<Rightarrow> Inl e
      | Inr g \<Rightarrow> (if ga_revokedAt g \<noteq> None then Inl (NetConflict ''ResourcePortalGate is revoked'') else Inr g))"

definition unenrolled :: "gate_row \<Rightarrow> gate_row" where
  "unenrolled g =
     g\<lparr>ga_status := ''PendingEnrollment'', ga_publicKey := None, ga_agentTokenHash := None, ga_agentVersion := None,
       ga_lastSeenAt := None, ga_lastError := None, ga_configRevision := ga_configRevision g + 1\<rparr>"

definition createGateEnrollment_commit :: "gate_db \<Rightarrow> millis \<Rightarrow> uuid \<Rightarrow> enrollment_row \<Rightarrow> gate_row gate_result" where
  "createGateEnrollment_commit db now gateId enrollment =
     (let used = update_enrollments db (\<lambda>e. en_gateId e = gateId \<and> en_usedAt e = None) now in
      if list_ex (enrollment_collides enrollment) (gd_enrollments used)
      then (db, Inl (NetThrown ''Unique constraint failed''))
      else
        (case update_gate (used\<lparr>gd_enrollments := gd_enrollments used @ [enrollment]\<rparr>) gateId unenrolled of
           (_, Inl e) \<Rightarrow> (db, Inl e)
         | (db', Inr g) \<Rightarrow> (gate_audit ''gate.enrollment.rotate'' gateId db', Inr g)))"

definition createGateEnrollment ::
    "(gate_db \<Rightarrow> gate_db) \<Rightarrow> gate_db \<Rightarrow> millis \<Rightarrow> uuid \<Rightarrow> uuid \<Rightarrow> uuid \<Rightarrow> string \<Rightarrow> gate_row gate_result" where
  "createGateEnrollment meanwhile db now tenantId gateId enrollmentId tokenHash =
     (case createGateEnrollment_read db tenantId gateId of
        Inl e \<Rightarrow> (db, Inl e)
      | Inr g \<Rightarrow> createGateEnrollment_commit (meanwhile db) now gateId (new_enrollment enrollmentId gateId tokenHash now))"

definition revoked_gate :: "millis \<Rightarrow> gate_row \<Rightarrow> gate_row" where
  "revoked_gate now g =
     g\<lparr>ga_status := ''Deleting'', ga_revokedAt := Some now, ga_agentTokenHash := None,
       ga_configRevision := ga_configRevision g + 1\<rparr>"

definition revokeGate_commit :: "gate_db \<Rightarrow> millis \<Rightarrow> uuid \<Rightarrow> gate_row gate_result" where
  "revokeGate_commit db now gateId =
     (case update_gate db gateId (revoked_gate now) of
        (_, Inl e) \<Rightarrow> (db, Inl e)
      | (db', Inr g) \<Rightarrow>
          (gate_audit ''gate.delete.requested'' gateId
             (update_enrollments db' (\<lambda>e. en_gateId e = gateId \<and> en_usedAt e = None) now), Inr g))"

definition revokeGate :: "(gate_db \<Rightarrow> gate_db) \<Rightarrow> gate_db \<Rightarrow> millis \<Rightarrow> uuid \<Rightarrow> uuid \<Rightarrow> gate_row gate_result" where
  "revokeGate meanwhile db now tenantId gateId =
     (case gateOrThrow db tenantId gateId of
        Inl e \<Rightarrow> (db, Inl e)
      | Inr g \<Rightarrow> (if ga_revokedAt g \<noteq> None then (db, Inr g) else revokeGate_commit (meanwhile db) now gateId))"

section \<open>Enrollment of an agent\<close>

text \<open>\<open>isPublicKey\<close>: 43 characters of base64 and one padding character decode to 32 bytes.\<close>

definition is_base64 :: "char \<Rightarrow> bool" where
  "is_base64 c \<longleftrightarrow> is_upper c \<or> is_lower c \<or> is_digit c \<or> one_of ''+/'' c"

definition isPublicKey :: "string \<Rightarrow> bool" where
  "isPublicKey value = char_pattern (replicate 43 is_base64 @ [one_of ''='']) value"

definition certified_versions :: "string list" where
  "certified_versions = [''gate-l2-v1'', ''gate-l2-v2'', ''gate-l2-v3'']"

record gate_enroll_dto =
  ge_token :: string
  ge_publicKey :: string
  ge_agentVersion :: string

text \<open>An enrollment always has its gate: the foreign key cascades.\<close>

definition enrollGate_read :: "(string \<Rightarrow> string) \<Rightarrow> gate_db \<Rightarrow> millis \<Rightarrow> gate_enroll_dto \<Rightarrow> net_error + enrollment_row" where
  "enrollGate_read sha db now dto =
     (case find_row en_tokenHash (sha (ge_token dto)) (gd_enrollments db) of
        None \<Rightarrow> Inl (NetUnauthorized ''Invalid or expired ResourcePortalGate enrollment token'')
      | Some e \<Rightarrow>
          if en_usedAt e \<noteq> None \<or> en_expiresAt e \<le> now \<or>
             (case find_gate db (en_gateId e) of None \<Rightarrow> True | Some g \<Rightarrow> ga_revokedAt g \<noteq> None)
          then Inl (NetUnauthorized ''Invalid or expired ResourcePortalGate enrollment token'')
          else if \<not> isPublicKey (ge_publicKey dto) then Inl (NetBadRequest ''Invalid WireGuard public key'')
          else if ge_agentVersion dto \<notin> set certified_versions
          then Inl (NetBadRequest ''Only certified RP Gate LAN Attachment agents can enroll'')
          else Inr e)"

definition enrolled_gate :: "gate_enroll_dto \<Rightarrow> string \<Rightarrow> millis \<Rightarrow> gate_row \<Rightarrow> gate_row" where
  "enrolled_gate dto tokenHash now g =
     g\<lparr>ga_publicKey := Some (ge_publicKey dto), ga_agentTokenHash := Some tokenHash, ga_agentVersion := Some (ge_agentVersion dto),
       ga_lastSeenAt := Some now, ga_status := ''Ready'', ga_lastError := None, ga_configRevision := ga_configRevision g + 1\<rparr>"

definition enrollGate_commit ::
    "gate_db \<Rightarrow> millis \<Rightarrow> enrollment_row \<Rightarrow> gate_enroll_dto \<Rightarrow> string \<Rightarrow> gate_row gate_result" where
  "enrollGate_commit db now enrollment dto tokenHash =
     (let P = (\<lambda>e. en_id e = en_id enrollment \<and> en_usedAt e = None \<and> now < en_expiresAt e);
          g0 = find_gate db (en_gateId enrollment) in
      if length (filter P (gd_enrollments db)) \<noteq> 1
      then (db, Inl (NetUnauthorized ''ResourcePortalGate enrollment token was already used or expired''))
      else
        (case g0 of
           None \<Rightarrow> (db, Inl NetMissingRecord)
         | Some g \<Rightarrow>
             if list_ex (\<lambda>h. ga_id h \<noteq> ga_id g \<and> gate_collides (enrolled_gate dto tokenHash now g) h) (gd_gates db)
             then (db, Inl (NetThrown ''Unique constraint failed''))
             else
               (case update_gate (update_enrollments db P now) (en_gateId enrollment) (enrolled_gate dto tokenHash now) of
                  (_, Inl e) \<Rightarrow> (db, Inl e)
                | (db', Inr g') \<Rightarrow> (db', Inr g'))))"

definition enrollGate ::
    "(string \<Rightarrow> string) \<Rightarrow> (gate_db \<Rightarrow> gate_db) \<Rightarrow> gate_db \<Rightarrow> millis \<Rightarrow> millis \<Rightarrow> gate_enroll_dto \<Rightarrow> string \<Rightarrow> gate_row gate_result" where
  "enrollGate sha meanwhile db now now' dto agentToken =
     (case enrollGate_read sha db now dto of
        Inl e \<Rightarrow> (db, Inl e)
      | Inr enrollment \<Rightarrow> enrollGate_commit (meanwhile db) now' enrollment dto (sha agentToken))"

end
