(* ===== verification/GateAgents.thy ===== *)
theory GateAgents
  imports Gates
begin

text \<open>
  The requests of an enrolled gate agent (\<open>gateHeartbeat\<close>, \<open>gateAgentConfig\<close> of
  \<open>networking/networking.service.ts\<close>) and the pass over the gates of
  \<open>networking/gate-runtime-reconciler.service.ts\<close>. \<open>sha\<close> hashes a token, \<open>collate\<close> orders ids as
  \<open>localeCompare\<close> does, \<open>docker\<close> is the outcome of a command of the container runtime.
\<close>

section \<open>Authentication\<close>

definition line_terminator :: "char \<Rightarrow> bool" where
  "line_terminator c \<longleftrightarrow> (of_char c :: nat) \<in> {10, 13}"

text \<open>\<open>/^Bearer\s+(.+)$/i\<close>, trimmed; an empty token is absent.\<close>

definition bearerToken :: "string option \<Rightarrow> string option" where
  "bearerToken authorization =
     (case authorization of
        None \<Rightarrow> None
      | Some header \<Rightarrow>
          (let spaced = drop 6 header; token = dropWhile js_space spaced in
           if toLowerCase (take 6 header) = ''bearer'' \<and> takeWhile js_space spaced \<noteq> [] \<and> token \<noteq> [] \<and>
              \<not> list_ex line_terminator token
           then Some (js_trim token) else None))"

definition authenticateGateAgent :: "(string \<Rightarrow> string) \<Rightarrow> gate_db \<Rightarrow> string option \<Rightarrow> net_error + gate_row" where
  "authenticateGateAgent sha db authorization =
     (case bearerToken authorization of
        None \<Rightarrow> Inl (NetUnauthorized ''ResourcePortalGate bearer token is required'')
      | Some token \<Rightarrow>
          (case find_row ga_agentTokenHash (Some (sha token)) (gd_gates db) of
             None \<Rightarrow> Inl (NetUnauthorized ''Invalid or revoked ResourcePortalGate token'')
           | Some g \<Rightarrow>
               (if ga_revokedAt g \<noteq> None then Inl (NetUnauthorized ''Invalid or revoked ResourcePortalGate token'')
                else Inr g)))"

section \<open>Configuration of an agent\<close>

record lan_grant =
  lg_id :: uuid
  lg_singleAppId :: uuid
  lg_networkId :: uuid
  lg_lanInterface :: string
  lg_lanCidr :: string
  lg_macAddress :: string
  lg_uplinkMode :: string
  lg_addressMode :: string
  lg_configurationRevision :: int
  lg_staticAddress :: "string option"
  lg_staticGateway :: "string option"
  lg_status :: string
  lg_verifiedAddress :: "string option"
  lg_leaseExpiresAt :: "string option"

record agent_config =
  ac_gateId :: uuid
  ac_tenantId :: uuid
  ac_lanAttachments :: "lan_grant list"
  ac_endpoint :: string
  ac_serverPublicKey :: string
  ac_tunnelAddress :: string
  ac_serverTunnelAddress :: string
  ac_allowedIps :: "string list"
  ac_configRevision :: int
  ac_revoked :: bool

text \<open>The endpoint host of the configuration without its scheme and one closing slash.\<close>

definition without_scheme :: "string \<Rightarrow> string" where
  "without_scheme v =
     (if starts_with v ''http://'' then drop 7 v else if starts_with v ''https://'' then drop 8 v else v)"

definition without_slash :: "string \<Rightarrow> string" where
  "without_slash v = (if ends_with v ''/'' then butlast v else v)"

definition endpointHost :: "string option \<Rightarrow> string option \<Rightarrow> net_error + string" where
  "endpointHost gateHost publicHost =
     (let value = option_or (coalesce gateHost publicHost) '''' in
      if value = '''' then Inl (NetConflict ''ResourcePortalGate endpoint host is not configured'')
      else Inr (without_slash (without_scheme value)))"

definition is_granted :: "gate_row \<Rightarrow> lan_row \<Rightarrow> bool" where
  "is_granted gate a \<longleftrightarrow>
     at_tenantId a = ga_tenantId gate \<and> at_gateId a = ga_id gate \<and> at_status a \<in> {''Provisioning'', ''Active''}"

definition grant_of :: "lan_row \<Rightarrow> lan_grant" where
  "grant_of a =
     \<lparr>lg_id = at_id a, lg_singleAppId = at_singleAppId a, lg_networkId = at_networkId a, lg_lanInterface = at_lanInterface a,
      lg_lanCidr = at_lanCidr a, lg_macAddress = at_macAddress a, lg_uplinkMode = at_uplinkMode a,
      lg_addressMode = at_addressMode a, lg_configurationRevision = at_configurationRevision a,
      lg_staticAddress = at_staticAddress a, lg_staticGateway = at_staticGateway a, lg_status = at_status a,
      lg_verifiedAddress = (if at_status a = ''Active'' then at_dhcpAddress a else None),
      lg_leaseExpiresAt = (if at_status a = ''Active'' then map_option iso_string (at_leaseExpiresAt a) else None)\<rparr>"

text \<open>\<open>remoteLanAttachments\<close> of the gate's row: the attachments that refer to it.\<close>

definition attachments_of :: "gate_db \<Rightarrow> uuid \<Rightarrow> lan_row list" where
  "attachments_of db gateId = filter (\<lambda>a. at_gateId a = gateId) (gd_attachments db)"

definition agentConfig ::
    "(string \<Rightarrow> 'k :: linorder) \<Rightarrow> net_error + string \<Rightarrow> gate_row \<Rightarrow> lan_row list \<Rightarrow> net_error + agent_config" where
  "agentConfig collate host gate attachments =
     (case (ga_serverPublicKey gate, ga_serverListenPort gate, ga_clientTunnelAddress gate, ga_serverTunnelAddress gate) of
        (Some key, Some port, Some client, Some server) \<Rightarrow>
          if key = '''' \<or> port = 0 \<or> client = '''' \<or> server = ''''
          then Inl (NetConflict ''RP Gate L2 underlay is not enrolled'')
          else
            (let grants = sort_key (\<lambda>g. collate (lg_id g))
                   (map grant_of (filter (is_granted gate) (if ga_agentVersion gate = Some ''gate-l2-v3'' then attachments else []))) in
             case host of
               Inl e \<Rightarrow> Inl e
             | Inr h \<Rightarrow>
                 Inr \<lparr>ac_gateId = ga_id gate, ac_tenantId = ga_tenantId gate, ac_lanAttachments = grants,
                   ac_endpoint = h @ '':'' @ show_int port, ac_serverPublicKey = key, ac_tunnelAddress = client,
                   ac_serverTunnelAddress = server,
                   ac_allowedIps = (if grants = [] then [] else [hd (split_on CHR ''/'' server) @ ''/32'']),
                   ac_configRevision = ga_configRevision gate, ac_revoked = (ga_revokedAt gate \<noteq> None)\<rparr>)
      | _ \<Rightarrow> Inl (NetConflict ''RP Gate L2 underlay is not enrolled''))"

definition gateAgentConfig ::
    "(string \<Rightarrow> string) \<Rightarrow> (string \<Rightarrow> 'k :: linorder) \<Rightarrow> net_error + string \<Rightarrow> (gate_db \<Rightarrow> gate_db) \<Rightarrow> gate_db \<Rightarrow>
     string option \<Rightarrow> net_error + agent_config" where
  "gateAgentConfig sha collate host meanwhile db authorization =
     (case authenticateGateAgent sha db authorization of
        Inl e \<Rightarrow> Inl e
      | Inr gate \<Rightarrow>
          if option_or (ga_agentVersion gate) '''' \<notin> set certified_versions
          then Inl (NetUnauthorized ''Legacy RP Gate agent must be upgraded'')
          else
            (case find_gate (meanwhile db) (ga_id gate) of
               None \<Rightarrow> Inl NetMissingRecord
             | Some full \<Rightarrow> agentConfig collate host full (attachments_of (meanwhile db) (ga_id full))))"

section \<open>Heartbeats\<close>

record gate_heartbeat_dto =
  hb_agentVersion :: string
  hb_lanObservation :: "lan_observation option"
  hb_lanAttachmentProofs :: "gate_proof list option"
  hb_lanProofDiagnostic :: "(string \<times> string option) option"
  hb_lanAppliedAtMs :: "int option"

definition l2_versions :: "string list" where
  "l2_versions = [''gate-l2-v2'', ''gate-l2-v3'']"

text \<open>The LAN observation of the heartbeat; the interface is the one it names itself.\<close>

definition observed_lan ::
    "(string \<Rightarrow> string) \<Rightarrow> (string \<Rightarrow> millis option) \<Rightarrow> gate_row \<Rightarrow> gate_heartbeat_dto \<Rightarrow> millis \<Rightarrow>
     net_error + lan_observation option" where
  "observed_lan sha date_parse gate dto now =
     (case hb_lanObservation dto of
        None \<Rightarrow> Inr None
      | Some o1 \<Rightarrow>
          (case verifiedManagedLan sha date_parse (ga_id gate) (option_or (lo_physicalInterface o1) '''') (Some o1)
                  (date_parse (option_or (lo_observedAt o1) '''')) now of
             Inl e \<Rightarrow> Inl (NetBadRequest (''Invalid authenticated Gate LAN observation: '' @ error_string e))
           | Inr segment \<Rightarrow> Inr (Some segment)))"

definition proof_trusted :: "gate_row \<Rightarrow> millis \<Rightarrow> gate_proof \<Rightarrow> bool" where
  "proof_trusted gate now p \<longleftrightarrow>
     lp_gateId p = ga_id gate \<and> lp_tenantId p = ga_tenantId gate \<and>
     of_int (now - REMOTE_LAN_PROOF_MAX_AGE_MS) \<le> lp_observedAtMs p \<and> lp_observedAtMs p \<le> of_int (now + 5000) \<and>
     gp_handshakeAtMs p \<le> of_int (now + 5000) \<and> of_int (now - 150000) < gp_handshakeAtMs p"

text \<open>The loop over the supplied proofs with its set of ids already seen.\<close>

fun proofs_trusted :: "gate_row \<Rightarrow> millis \<Rightarrow> string list \<Rightarrow> gate_proof list \<Rightarrow> bool" where
  "proofs_trusted gate now seen [] \<longleftrightarrow> True"
| "proofs_trusted gate now seen (p # ps) \<longleftrightarrow>
     proof_trusted gate now p \<and> lp_attachmentId p \<notin> set seen \<and> proofs_trusted gate now (lp_attachmentId p # seen) ps"

definition heartbeat_check ::
    "(string \<Rightarrow> string) \<Rightarrow> (string \<Rightarrow> millis option) \<Rightarrow> gate_row \<Rightarrow> gate_heartbeat_dto \<Rightarrow> millis \<Rightarrow>
     net_error + lan_observation option" where
  "heartbeat_check sha date_parse gate dto now =
     (let supplied = option_or (hb_lanAttachmentProofs dto) [] in
      if hb_agentVersion dto \<notin> set certified_versions
      then Inl (NetBadRequest ''RP Gate must use a certified LAN Attachment protocol'')
      else if hb_agentVersion dto = ''gate-l2-v1'' \<and> hb_lanObservation dto \<noteq> None
      then Inl (NetBadRequest ''Legacy Gate may not advertise managed LAN'')
      else
        (case observed_lan sha date_parse gate dto now of
           Inl e \<Rightarrow> Inl e
         | Inr lan \<Rightarrow>
             if hb_agentVersion dto = ''gate-l2-v1'' \<and> supplied \<noteq> []
             then Inl (NetBadRequest ''Legacy Gate cannot report L2 evidence'')
             else if (case hb_lanAppliedAtMs dto of None \<Rightarrow> False | Some t \<Rightarrow> now + 5000 < t \<or> t < now - 24 * 3600000)
             then Inl (NetBadRequest ''Invalid Gate L2 apply acknowledgement'')
             else if \<not> proofs_trusted gate now [] supplied
             then Inl (NetBadRequest ''Untrusted or stale Gate attachment proof'')
             else Inr lan))"

text \<open>The proofs that agree with the attachments the gate currently serves.\<close>

definition reportable :: "gate_db \<Rightarrow> gate_row \<Rightarrow> lan_row list" where
  "reportable db gate =
     filter (\<lambda>a. at_gateId a = ga_id gate \<and> at_tenantId a = ga_tenantId gate \<and>
       at_status a \<in> {''Provisioning'', ''Active'', ''Revoking''}) (gd_attachments db)"

definition proof_bound :: "lan_row list \<Rightarrow> gate_proof \<Rightarrow> bool" where
  "proof_bound rows p \<longleftrightarrow>
     (case js_map_get (map (\<lambda>a. (at_id a, a)) rows) (lp_attachmentId p) of
        None \<Rightarrow> False
      | Some a \<Rightarrow>
          at_singleAppId a = lp_singleAppId p \<and> of_int (at_configurationRevision a) = lp_configurationRevision p \<and>
          toLowerCase (at_macAddress a) = toLowerCase (lp_macAddress p))"

definition bound_proofs :: "gate_db \<Rightarrow> gate_row \<Rightarrow> gate_proof list \<Rightarrow> gate_proof list" where
  "bound_proofs db gate supplied =
     (if supplied = [] then [] else filter (proof_bound (reportable db gate)) supplied)"

definition gate_seen_row :: "gate_heartbeat_dto \<Rightarrow> lan_observation option \<Rightarrow> gate_proof list \<Rightarrow> millis \<Rightarrow> gate_row \<Rightarrow> gate_row" where
  "gate_seen_row dto lan bound now g =
     (let l2 = hb_agentVersion dto \<in> set l2_versions; supplied = option_or (hb_lanAttachmentProofs dto) [] in
      g\<lparr>ga_agentVersion := Some (hb_agentVersion dto), ga_observedLan := lan,
        ga_observedLanAt := (if hb_lanObservation dto = None then None else Some now),
        ga_observedL2 := (if l2 then Some bound else None), ga_observedL2At := (if l2 then Some now else None),
        ga_observedL2Diagnostic :=
          (if l2
           then Some \<lparr>ld_reasonCode =
               (if length bound < length supplied then ''proof_filtered_by_api''
                else option_or (map_option fst (hb_lanProofDiagnostic dto)) ''unknown_legacy_agent''),
             ld_rawCount = length supplied, ld_acceptedCount = length bound,
             ld_errorCode = option_or (Option.bind (hb_lanProofDiagnostic dto) snd) ''none''\<rparr>
           else None),
        ga_observedL2AppliedAt := (if l2 \<and> hb_lanAppliedAtMs dto \<noteq> Some 0 then hb_lanAppliedAtMs dto else None),
        ga_lastSeenAt := Some now\<rparr>)"

text \<open>The awaited statements of the handler, in order: authentication and \<open>lastSeenAt\<close>, the read of the
  attachments, the update of the gate. \<open>meanwhile k\<close> is what others commit before the statement \<open>k\<close>.\<close>

definition gateHeartbeat ::
    "(string \<Rightarrow> string) \<Rightarrow> (string \<Rightarrow> millis option) \<Rightarrow> (string \<Rightarrow> 'k :: linorder) \<Rightarrow> net_error + string \<Rightarrow>
     (nat \<Rightarrow> gate_db \<Rightarrow> gate_db) \<Rightarrow> gate_db \<Rightarrow> millis \<Rightarrow> string option \<Rightarrow> gate_heartbeat_dto \<Rightarrow> agent_config gate_result" where
  "gateHeartbeat sha date_parse collate host meanwhile db now authorization dto =
     (case authenticateGateAgent sha db authorization of
        Inl e \<Rightarrow> (db, Inl e)
      | Inr gate \<Rightarrow>
          (case update_gate (meanwhile 0 db) (ga_id gate) (\<lambda>g. g\<lparr>ga_lastSeenAt := Some now\<rparr>) of
             (db1, Inl e) \<Rightarrow> (db1, Inl e)
           | (db1, Inr _) \<Rightarrow>
               (case heartbeat_check sha date_parse gate dto now of
                  Inl e \<Rightarrow> (db1, Inl e)
                | Inr lan \<Rightarrow>
                    (let db2 = meanwhile 1 db1;
                         bound = bound_proofs db2 gate (option_or (hb_lanAttachmentProofs dto) []) in
                     case update_gate (meanwhile 2 db2) (ga_id gate) (gate_seen_row dto lan bound now) of
                       (db3, Inl e) \<Rightarrow> (db3, Inl e)
                     | (db3, Inr updated) \<Rightarrow> (db3, agentConfig collate host updated (attachments_of db3 (ga_id gate)))))))"

section \<open>Reconciliation of the gates\<close>

datatype gate_command =
    RemoveRuntime uuid
  | RemoveStack uuid
  | ProvisionNetwork uuid
  | ProvisionSecret uuid
  | DeployGate uuid
  | EnsureCapabilities uuid
  | SyncLeases uuid

text \<open>The foreign keys of enrollments and attachments cascade.\<close>

definition delete_gate :: "gate_db \<Rightarrow> uuid \<Rightarrow> gate_db" where
  "delete_gate db i =
     db\<lparr>gd_gates := filter (\<lambda>g. ga_id g \<noteq> i) (gd_gates db),
        gd_enrollments := filter (\<lambda>e. en_gateId e \<noteq> i) (gd_enrollments db),
        gd_attachments := filter (\<lambda>a. at_gateId a \<noteq> i) (gd_attachments db)\<rparr>"

definition served_attachments :: "gate_db \<Rightarrow> gate_row \<Rightarrow> lan_row list" where
  "served_attachments db gate =
     filter (\<lambda>a. at_gateId a = ga_id gate \<and> at_status a \<in> {''Provisioning'', ''Active''}) (gd_attachments db)"

definition trusted_attachment :: "gate_db \<Rightarrow> gate_row \<Rightarrow> lan_row \<Rightarrow> bool" where
  "trusted_attachment db gate a \<longleftrightarrow>
     at_gateId a = ga_id gate \<and> at_tenantId a = ga_tenantId gate \<and>
     (case (find_row lnet_id (at_networkId a) (gd_networks db), find_row lapp_id (at_singleAppId a) (gd_apps db)) of
        (Some network, Some app) \<Rightarrow>
          lnet_tenantId network = ga_tenantId gate \<and> lapp_tenantId app = ga_tenantId gate \<and>
          \<not> lapp_pendingDeletion app \<and> lapp_desiredReplicas app = 1
      | _ \<Rightarrow> False)"

fun provision_networks :: "(gate_command \<Rightarrow> string + unit) \<Rightarrow> uuid list \<Rightarrow> gate_db \<Rightarrow> gate_db \<times> (string + unit)" where
  "provision_networks docker [] db = (db, Inr ())"
| "provision_networks docker (n # ns) db =
     (case docker (ProvisionNetwork n) of
        Inl e \<Rightarrow> (db, Inl (''Unable to prepare Remote LAN tenant overlay: '' @ e))
      | Inr _ \<Rightarrow>
          (case update_where (\<lambda>r. lnet_id r = n) (\<lambda>r. r\<lparr>lnet_status := ''Ready''\<rparr>) (gd_networks db) of
             (_, []) \<Rightarrow> (db, Inl ''Record to update not found'')
           | (t, _ # _) \<Rightarrow> provision_networks docker ns (db\<lparr>gd_networks := t\<rparr>)))"

definition run_commands :: "(gate_command \<Rightarrow> string + unit) \<Rightarrow> gate_command list \<Rightarrow> string + unit" where
  "run_commands docker cs = map_sum id (\<lambda>_. ()) (traverse docker cs)"

text \<open>\<open>legacy\<close>: not enrolled, without an endpoint, or with an agent that may not receive grants.\<close>

definition legacy_gate :: "gate_row \<Rightarrow> bool" where
  "legacy_gate g \<longleftrightarrow>
     option_or (ga_publicKey g) '''' = '''' \<or> option_or (ga_serverPrivateKeyCiphertext g) '''' = '''' \<or>
     option_or (ga_serverListenPort g) 0 = 0 \<or> option_or (ga_serverTunnelAddress g) '''' = '''' \<or>
     option_or (ga_clientTunnelAddress g) '''' = '''' \<or> ga_agentVersion g \<noteq> Some ''gate-l2-v3''"

definition set_gate_status :: "string \<Rightarrow> string option \<Rightarrow> gate_row \<Rightarrow> gate_row" where
  "set_gate_status status err g = g\<lparr>ga_status := status, ga_lastError := err\<rparr>"

datatype gate_outcome = GateRemoved | GatePending | GateReady | GateFailed

text \<open>What the pass does to the runtime and the networks before it writes the gate's row, and the write
  it then makes: \<open>None\<close> deletes the row.\<close>

definition reconcile_runtime ::
    "(gate_command \<Rightarrow> string + unit) \<Rightarrow> gate_db \<Rightarrow> gate_db \<Rightarrow> gate_row \<Rightarrow> gate_db \<times> (string + gate_outcome)" where
  "reconcile_runtime docker snapshot db gate =
     (let attachments = served_attachments snapshot gate in
      if ga_revokedAt gate \<noteq> None \<or> ga_status gate \<in> {''Revoked'', ''Deleting''}
      then (db, map_sum id (\<lambda>_. GateRemoved) (docker (RemoveRuntime (ga_id gate))))
      else if legacy_gate gate then (db, map_sum id (\<lambda>_. GatePending) (docker (RemoveStack (ga_id gate))))
      else if attachments = [] then (db, map_sum id (\<lambda>_. GateReady) (docker (RemoveStack (ga_id gate))))
      else if \<not> list_all (trusted_attachment snapshot gate) attachments
      then (db, Inl ''Untrusted or revoked Remote LAN tenant application'')
      else
        (case provision_networks docker (unique (map at_networkId attachments)) db of
           (db', Inl e) \<Rightarrow> (db', Inl e)
         | (db', Inr _) \<Rightarrow>
             (db', map_sum id (\<lambda>_. GateReady)
                (run_commands docker [ProvisionSecret (ga_id gate), DeployGate (ga_id gate), EnsureCapabilities (ga_id gate),
                   SyncLeases (ga_id gate)]))))"

definition gate_outcome_write :: "gate_db \<Rightarrow> uuid \<Rightarrow> gate_outcome \<Rightarrow> gate_db \<times> (net_error + unit)" where
  "gate_outcome_write db i outcome =
     (case outcome of
        GateRemoved \<Rightarrow> (if find_gate db i = None then (db, Inl NetMissingRecord) else (delete_gate db i, Inr ()))
      | GatePending \<Rightarrow> map_prod id (map_sum id (\<lambda>_. ())) (update_gate db i (set_gate_status ''PendingEnrollment'' None))
      | _ \<Rightarrow> map_prod id (map_sum id (\<lambda>_. ())) (update_gate db i (set_gate_status ''Ready'' None)))"

text \<open>A failure inside the \<open>try\<close> block is written to the row; that write itself may fail.\<close>

definition gate_failure :: "gate_db \<Rightarrow> uuid \<Rightarrow> string \<Rightarrow> gate_outcome gate_result" where
  "gate_failure db i message =
     (case update_gate db i (set_gate_status ''Error'' (Some (take 4000 message))) of
        (db', Inl e) \<Rightarrow> (db', Inl e)
      | (db', Inr _) \<Rightarrow> (db', Inr GateFailed))"

definition reconcileGate ::
    "(gate_command \<Rightarrow> string + unit) \<Rightarrow> (gate_db \<Rightarrow> gate_db) \<Rightarrow> gate_db \<Rightarrow> gate_db \<Rightarrow> gate_row \<Rightarrow> gate_outcome gate_result" where
  "reconcileGate docker meanwhile snapshot db gate =
     (case reconcile_runtime docker snapshot db gate of
        (db1, Inl e) \<Rightarrow> gate_failure (meanwhile db1) (ga_id gate) e
      | (db1, Inr outcome) \<Rightarrow>
          (case gate_outcome_write (meanwhile db1) (ga_id gate) outcome of
             (db2, Inl _) \<Rightarrow> gate_failure db2 (ga_id gate) ''Record to update not found''
           | (db2, Inr _) \<Rightarrow> (db2, Inr outcome)))"

end
