(* ===== verification/LanAttachments.thy ===== *)
theory LanAttachments
  imports GateAgents
begin

text \<open>
  The remote LAN attachments: the tenant's requests of
  \<open>networking/remote-lan-attachment.service.ts\<close> and the two passes of
  \<open>networking/remote-lan-lifecycle.service.ts\<close> that move an attachment from \<open>Pending\<close> over \<open>Provisioning\<close>
  to \<open>Active\<close> and acknowledge a revocation. Every operation is a read followed by a guarded
  commit. \<open>node_snapshots\<close> is the fold over the markers of the node agents' logs of
  \<open>remote-lan-proof-logs.ts\<close>; splitting the log text into markers is not modelled.
\<close>

section \<open>Requests of a tenant\<close>

record create_lan_dto =
  cl_singleAppId :: uuid
  cl_networkId :: uuid
  cl_gateId :: uuid
  cl_lanInterface :: string
  cl_lanCidr :: string
  cl_uplinkMode :: "string option"
  cl_addressMode :: "string option"
  cl_staticAddress :: "string option"
  cl_staticGateway :: "string option"

definition virtual_interface :: "string \<Rightarrow> bool" where
  "virtual_interface name \<longleftrightarrow>
     name \<in> {''wg0'', ''rp-gate'', ''lo'', ''docker0''} \<or>
     list_ex (starts_with (toLowerCase name)) [''veth'', ''br-'', ''tun'', ''tap'', ''vxlan'', ''gretap'']"

definition hex_char :: "nat \<Rightarrow> char" where
  "hex_char n = ''0123456789abcdef'' ! (n mod 16)"

fun hex_pairs :: "string \<Rightarrow> string list" where
  "hex_pairs (a # b # cs) = [a, b] # hex_pairs cs"
| "hex_pairs _ = []"

text \<open>The first six bytes of the digest as an address; the first byte becomes \<open>(b & 0xfc) | 2\<close>.\<close>

definition local_unicast :: "string \<Rightarrow> string" where
  "local_unicast h =
     (case h of a # b # cs \<Rightarrow> a # hex_char (hex_val b div 4 * 4 + 2) # cs | _ \<Rightarrow> h)"

definition lan_mac :: "(string \<Rightarrow> string) \<Rightarrow> uuid \<Rightarrow> string" where
  "lan_mac sha i = join_with '':'' (hex_pairs (take 12 (local_unicast (sha (''rp-lan-v1:'' @ i)))))"

text \<open>The four concurrent reads of \<open>create\<close>; \<open>observation_settings\<close> is the check of a managed uplink.\<close>

definition usable_gate :: "gate_db \<Rightarrow> uuid \<Rightarrow> uuid \<Rightarrow> gate_row option" where
  "usable_gate db tenantId i =
     head_opt (filter (\<lambda>g. ga_id g = i \<and> ga_tenantId g = tenantId \<and> ga_revokedAt g = None) (gd_gates db))"

definition usable_app :: "gate_db \<Rightarrow> uuid \<Rightarrow> uuid \<Rightarrow> lan_app option" where
  "usable_app db tenantId i =
     head_opt (filter (\<lambda>a. lapp_id a = i \<and> \<not> lapp_pendingDeletion a \<and> lapp_tenantId a = tenantId) (gd_apps db))"

definition attached_to_ready :: "gate_db \<Rightarrow> uuid \<Rightarrow> uuid \<Rightarrow> uuid \<Rightarrow> bool" where
  "attached_to_ready db tenantId appId networkId \<longleftrightarrow>
     list_ex (\<lambda>a. lapp_id a = appId \<and> networkId \<in> set (lapp_networkIds a)) (gd_apps db) \<and>
     list_ex (\<lambda>n. lnet_id n = networkId \<and> lnet_tenantId n = tenantId \<and> lnet_status n = ''Ready'') (gd_networks db)"

definition managed_lan_cidr ::
    "(string \<Rightarrow> string) \<Rightarrow> (string \<Rightarrow> millis option) \<Rightarrow> gate_row \<Rightarrow> string \<Rightarrow> millis \<Rightarrow> string + string option" where
  "managed_lan_cidr sha date_parse gate interface now =
     map_sum id lo_networkCidr
       (verifiedManagedLan sha date_parse (ga_id gate) interface (ga_observedLan gate) (ga_observedLanAt gate) now)"

definition createLan_read ::
    "(string \<Rightarrow> string) \<Rightarrow> (string \<Rightarrow> millis option) \<Rightarrow> gate_db \<Rightarrow> millis \<Rightarrow> uuid \<Rightarrow> create_lan_dto \<Rightarrow>
     net_error + lan_ip_settings" where
  "createLan_read sha date_parse db now tenantId dto =
     (case normalizeLanAddress \<lparr>lr_addressMode = cl_addressMode dto, lr_lanCidr = cl_lanCidr dto,
             lr_staticAddress = cl_staticAddress dto, lr_staticGateway = cl_staticGateway dto\<rparr> [] of
        Inl e \<Rightarrow> Inl (NetBadRequest (error_string e))
      | Inr addressing \<Rightarrow>
          if virtual_interface (cl_lanInterface dto)
          then Inl (NetBadRequest ''Remote LAN interface must be a physical Ethernet port or VLAN'')
          else
            (case (usable_gate db tenantId (cl_gateId dto), usable_app db tenantId (cl_singleAppId dto)) of
               (Some gate, Some app) \<Rightarrow>
                 if \<not> attached_to_ready db tenantId (cl_singleAppId dto) (cl_networkId dto)
                 then Inl (NetNotFound ''Gate, application or its tenant Network not found'')
                 else if list_ex (\<lambda>a. at_singleAppId a = cl_singleAppId dto) (gd_attachments db)
                 then Inl (NetConflict ''Application already has a remote LAN attachment'')
                 else if lapp_desiredReplicas app \<noteq> 1
                 then Inl (NetBadRequest ''Remote LAN requires exactly one application replica'')
                 else if option_or (cl_uplinkMode dto) ''DedicatedUnnumbered'' = ''ManagedSharedUplink''
                 then
                   (if ga_agentVersion gate \<noteq> Some ''gate-l2-v3''
                    then Inl (NetBadRequest ''Managed uplink requires RP Gate agent gate-l2-v3 (lease-bound anti-spoof policy)'')
                    else
                      (case managed_lan_cidr sha date_parse gate (cl_lanInterface dto) now of
                         Inl e \<Rightarrow> Inl (NetBadRequest (error_string e))
                       | Inr cidr \<Rightarrow>
                           if cidr \<noteq> Some (li_lanCidr addressing)
                           then Inl (NetBadRequest ''Customer LAN must match the observed Gate subnet'')
                           else Inr addressing))
                 else if li_addressMode addressing = ''Static''
                 then Inl (NetBadRequest ''Static LAN addressing requires a verified managed shared uplink'')
                 else Inr addressing
             | _ \<Rightarrow> Inl (NetNotFound ''Gate, application or its tenant Network not found'')))"

definition new_lan_row ::
    "(string \<Rightarrow> string) \<Rightarrow> uuid \<Rightarrow> uuid \<Rightarrow> create_lan_dto \<Rightarrow> lan_ip_settings \<Rightarrow> millis \<Rightarrow> lan_row" where
  "new_lan_row sha i tenantId dto addressing now =
     \<lparr>at_id = i, at_tenantId = tenantId, at_singleAppId = cl_singleAppId dto, at_networkId = cl_networkId dto,
      at_gateId = cl_gateId dto, at_lanInterface = cl_lanInterface dto, at_lanCidr = li_lanCidr addressing,
      at_uplinkMode = option_or (cl_uplinkMode dto) ''DedicatedUnnumbered'', at_addressMode = li_addressMode addressing,
      at_configurationRevision = 1, at_staticAddress = li_staticAddress addressing,
      at_staticGateway = li_staticGateway addressing, at_macAddress = lan_mac sha i, at_status = ''Pending'',
      at_dhcpAddress = None, at_leaseExpiresAt = None, at_lastVerifiedAt = None, at_lastError = None, at_updatedAt = now\<rparr>"

text \<open>The unique keys: the id, the application, the address, and the static address of a gate.\<close>

definition lan_collides :: "lan_row \<Rightarrow> lan_row \<Rightarrow> bool" where
  "lan_collides a b \<longleftrightarrow>
     at_id a = at_id b \<or> at_singleAppId a = at_singleAppId b \<or> at_macAddress a = at_macAddress b \<or>
     (at_gateId a = at_gateId b \<and> same_value (at_staticAddress a) (at_staticAddress b))"

definition references_hold :: "gate_db \<Rightarrow> lan_row \<Rightarrow> bool" where
  "references_hold db a \<longleftrightarrow>
     find_gate db (at_gateId a) \<noteq> None \<and> find_row lapp_id (at_singleAppId a) (gd_apps db) \<noteq> None \<and>
     find_row lnet_id (at_networkId a) (gd_networks db) \<noteq> None \<and> at_tenantId a \<in> set (gd_tenants db)"

definition createLan_commit :: "gate_db \<Rightarrow> lan_row \<Rightarrow> lan_row gate_result" where
  "createLan_commit db row =
     (if list_ex (lan_collides row) (gd_attachments db) then (db, Inl (NetThrown ''Unique constraint failed''))
      else if \<not> references_hold db row then (db, Inl (NetThrown ''Foreign key constraint failed''))
      else
        (gate_audit ''remote-lan-attachment.create'' (at_id row)
           (db\<lparr>gd_attachments := gd_attachments db @ [row]\<rparr>), Inr row))"

definition createLan ::
    "(string \<Rightarrow> string) \<Rightarrow> (string \<Rightarrow> millis option) \<Rightarrow> (gate_db \<Rightarrow> gate_db) \<Rightarrow> gate_db \<Rightarrow> millis \<Rightarrow> uuid \<Rightarrow> create_lan_dto \<Rightarrow>
     uuid \<Rightarrow> lan_row gate_result" where
  "createLan sha date_parse meanwhile db now tenantId dto i =
     (case createLan_read sha date_parse db now tenantId dto of
        Inl e \<Rightarrow> (db, Inl e)
      | Inr addressing \<Rightarrow> createLan_commit (meanwhile db) (new_lan_row sha i tenantId dto addressing now))"

text \<open>\<open>update({ where: { id } })\<close> on the attachments.\<close>

definition update_lan :: "gate_db \<Rightarrow> uuid \<Rightarrow> (lan_row \<Rightarrow> lan_row) \<Rightarrow> lan_row gate_result" where
  "update_lan db i f =
     (case update_where (\<lambda>a. at_id a = i) f (gd_attachments db) of
        (_, []) \<Rightarrow> (db, Inl NetMissingRecord)
      | (t, a # _) \<Rightarrow> (db\<lparr>gd_attachments := t\<rparr>, Inr a))"

definition tenant_lan_row :: "gate_db \<Rightarrow> uuid \<Rightarrow> uuid \<Rightarrow> lan_row option" where
  "tenant_lan_row db tenantId i =
     head_opt (filter (\<lambda>a. at_id a = i \<and> at_tenantId a = tenantId) (gd_attachments db))"

record update_lan_dto =
  ul_addressMode :: string
  ul_staticAddress :: "string option"
  ul_staticGateway :: "string option"

definition static_permitted ::
    "(string \<Rightarrow> string) \<Rightarrow> (string \<Rightarrow> millis option) \<Rightarrow> lan_row \<Rightarrow> gate_row \<Rightarrow> millis \<Rightarrow> string + unit" where
  "static_permitted sha date_parse row gate now =
     (if at_uplinkMode row \<noteq> ''ManagedSharedUplink'' \<or> ga_agentVersion gate \<noteq> Some ''gate-l2-v3''
      then Inl ''Static LAN requires a managed v2 Gate''
      else
        (case managed_lan_cidr sha date_parse gate (at_lanInterface row) now of
           Inl e \<Rightarrow> Inl e
         | Inr cidr \<Rightarrow>
             if cidr \<noteq> Some (at_lanCidr row) then Inl ''Static subnet differs from current Gate observation'' else Inr ()))"

definition updateAddressing_read ::
    "(string \<Rightarrow> string) \<Rightarrow> (string \<Rightarrow> millis option) \<Rightarrow> gate_db \<Rightarrow> millis \<Rightarrow> uuid \<Rightarrow> uuid \<Rightarrow> update_lan_dto \<Rightarrow>
     net_error + lan_row \<times> lan_ip_settings" where
  "updateAddressing_read sha date_parse db now tenantId i dto =
     (case tenant_lan_row db tenantId i of
        None \<Rightarrow> Inl (NetNotFound ''LAN Attachment not found'')
      | Some row \<Rightarrow>
          if at_status row \<in> {''Revoking'', ''Revoked''} then Inl (NetConflict ''Cannot edit a revoked LAN Attachment'')
          else
            (case normalizeLanAddress \<lparr>lr_addressMode = Some (ul_addressMode dto), lr_lanCidr = at_lanCidr row,
                    lr_staticAddress = ul_staticAddress dto, lr_staticGateway = ul_staticGateway dto\<rparr> [] of
               Inl e \<Rightarrow> Inl (NetBadRequest (error_string e))
             | Inr address \<Rightarrow>
                 if li_addressMode address = ''Static''
                 then
                   (case find_gate db (at_gateId row) of
                      None \<Rightarrow> Inl NetMissingRecord
                    | Some gate \<Rightarrow>
                        (case static_permitted sha date_parse row gate now of
                           Inl e \<Rightarrow> Inl (NetBadRequest (error_string e))
                         | Inr _ \<Rightarrow> Inr (row, address)))
                 else Inr (row, address)))"

definition same_addressing :: "lan_row \<Rightarrow> lan_ip_settings \<Rightarrow> bool" where
  "same_addressing row address \<longleftrightarrow>
     at_addressMode row = li_addressMode address \<and> at_staticAddress row = li_staticAddress address \<and>
     at_staticGateway row = li_staticGateway address"

definition readdressed :: "lan_ip_settings \<Rightarrow> millis \<Rightarrow> lan_row \<Rightarrow> lan_row" where
  "readdressed address now a =
     a\<lparr>at_addressMode := li_addressMode address, at_staticAddress := li_staticAddress address,
       at_staticGateway := li_staticGateway address, at_configurationRevision := at_configurationRevision a + 1,
       at_status := ''Pending'', at_dhcpAddress := None, at_leaseExpiresAt := None, at_lastVerifiedAt := None,
       at_lastError := None, at_updatedAt := now\<rparr>"

definition updateAddressing_commit :: "gate_db \<Rightarrow> millis \<Rightarrow> uuid \<Rightarrow> lan_ip_settings \<Rightarrow> lan_row gate_result" where
  "updateAddressing_commit db now i address =
     (case find_row at_id i (gd_attachments db) of
        None \<Rightarrow> (db, Inl NetMissingRecord)
      | Some a \<Rightarrow>
          if list_ex (\<lambda>b. at_id b \<noteq> i \<and> lan_collides (readdressed address now a) b) (gd_attachments db)
          then (db, Inl (NetThrown ''Unique constraint failed''))
          else
            (case update_lan db i (readdressed address now) of
               (_, Inl e) \<Rightarrow> (db, Inl e)
             | (db', Inr r) \<Rightarrow> (gate_audit ''remote-lan-attachment.addressing.update'' i db', Inr r)))"

definition updateAddressing ::
    "(string \<Rightarrow> string) \<Rightarrow> (string \<Rightarrow> millis option) \<Rightarrow> (gate_db \<Rightarrow> gate_db) \<Rightarrow> gate_db \<Rightarrow> millis \<Rightarrow> millis \<Rightarrow> uuid \<Rightarrow> uuid \<Rightarrow>
     update_lan_dto \<Rightarrow> lan_row gate_result" where
  "updateAddressing sha date_parse meanwhile db now now' tenantId i dto =
     (case updateAddressing_read sha date_parse db now tenantId i dto of
        Inl e \<Rightarrow> (db, Inl e)
      | Inr (row, address) \<Rightarrow>
          if same_addressing row address then (db, Inr row) else updateAddressing_commit (meanwhile db) now' i address)"

definition revoking_row :: "millis \<Rightarrow> lan_row \<Rightarrow> lan_row" where
  "revoking_row now a =
     a\<lparr>at_status := ''Revoking'', at_dhcpAddress := None, at_leaseExpiresAt := None, at_updatedAt := now\<rparr>"

definition revokeLan_commit :: "gate_db \<Rightarrow> millis \<Rightarrow> uuid \<Rightarrow> lan_row gate_result" where
  "revokeLan_commit db now i =
     (case update_lan db i (revoking_row now) of
        (_, Inl e) \<Rightarrow> (db, Inl e)
      | (db', Inr r) \<Rightarrow> (gate_audit ''remote-lan-attachment.revoke'' i db', Inr r))"

definition revokeLan :: "(gate_db \<Rightarrow> gate_db) \<Rightarrow> gate_db \<Rightarrow> millis \<Rightarrow> uuid \<Rightarrow> uuid \<Rightarrow> lan_row gate_result" where
  "revokeLan meanwhile db now tenantId i =
     (case tenant_lan_row db tenantId i of
        None \<Rightarrow> (db, Inl (NetNotFound ''Remote LAN attachment not found''))
      | Some row \<Rightarrow> revokeLan_commit (meanwhile db) now (at_id row))"

end
