(* ===== verification/LanLifecycle.thy ===== *)
theory LanLifecycle
  imports LanAttachments
begin

text \<open>
  The passes of \<open>networking/remote-lan-lifecycle.service.ts\<close> over the attachments and the snapshots of the
  node agents they rely on. A pass reads all rows first and then commits row by row, each commit
  guarded by the status and revision it was decided on.
\<close>

section \<open>From pending to provisioning\<close>

text \<open>An attachment whose gate, network or application row is gone is no longer read.\<close>

definition lan_ready ::
    "(string \<Rightarrow> string) \<Rightarrow> (string \<Rightarrow> millis option) \<Rightarrow> gate_db \<Rightarrow> millis \<Rightarrow> lan_row \<Rightarrow> bool" where
  "lan_ready sha date_parse db now row \<longleftrightarrow>
     (case (find_gate db (at_gateId row), find_row lnet_id (at_networkId row) (gd_networks db),
            find_row lapp_id (at_singleAppId row) (gd_apps db)) of
        (Some gate, Some network, Some app) \<Rightarrow>
          (at_uplinkMode row = ''ManagedSharedUplink'' \<longrightarrow>
             (case managed_lan_cidr sha date_parse gate (at_lanInterface row) now of
                Inl e \<Rightarrow> False | Inr cidr \<Rightarrow> cidr = Some (at_lanCidr row))) \<and>
          ga_tenantId gate = at_tenantId row \<and> lnet_tenantId network = at_tenantId row \<and>
          lapp_tenantId app = at_tenantId row \<and> ga_revokedAt gate = None \<and> ga_status gate = ''Ready'' \<and>
          ga_agentVersion gate = Some ''gate-l2-v3'' \<and> lnet_status network = ''Ready'' \<and> \<not> lapp_pendingDeletion app \<and>
          lapp_desiredReplicas app = 1 \<and> at_networkId row \<in> set (lapp_networkIds app) \<and>
          option_or (ga_serverTunnelAddress gate) '''' \<noteq> '''' \<and> option_or (ga_clientTunnelAddress gate) '''' \<noteq> ''''
      | _ \<Rightarrow> False)"

definition provisioning_row :: "millis \<Rightarrow> lan_row \<Rightarrow> lan_row" where
  "provisioning_row now a =
     a\<lparr>at_status := ''Provisioning'', at_lastError := None, at_dhcpAddress := None, at_leaseExpiresAt := None, at_updatedAt := now\<rparr>"

definition pending_guard :: "lan_row \<Rightarrow> lan_row \<Rightarrow> bool" where
  "pending_guard row a \<longleftrightarrow> at_id a = at_id row \<and> at_tenantId a = at_tenantId row \<and> at_status a = ''Pending''"

text \<open>\<open>updateMany\<close> on the attachments: the new database and the number of rows written.\<close>

definition update_lans :: "gate_db \<Rightarrow> (lan_row \<Rightarrow> bool) \<Rightarrow> (lan_row \<Rightarrow> lan_row) \<Rightarrow> gate_db \<times> nat" where
  "update_lans db P f =
     (case update_where P f (gd_attachments db) of (t, written) \<Rightarrow> (db\<lparr>gd_attachments := t\<rparr>, length written))"

definition provision_commit :: "gate_db \<Rightarrow> millis \<Rightarrow> lan_row \<Rightarrow> gate_db \<times> nat" where
  "provision_commit db now row = update_lans db (pending_guard row) (provisioning_row now)"

record provision_report =
  pr_provisioned :: nat
  pr_waiting :: nat

fun provision_rows ::
    "(string \<Rightarrow> string) \<Rightarrow> (string \<Rightarrow> millis option) \<Rightarrow> gate_db \<Rightarrow> (uuid \<Rightarrow> gate_db \<Rightarrow> gate_db) \<Rightarrow> millis \<Rightarrow> lan_row list \<Rightarrow>
     gate_db \<Rightarrow> provision_report \<Rightarrow> gate_db \<times> provision_report" where
  "provision_rows sha date_parse snapshot meanwhile now [] db report = (db, report)"
| "provision_rows sha date_parse snapshot meanwhile now (row # rows) db report =
     (if \<not> lan_ready sha date_parse snapshot now row
      then provision_rows sha date_parse snapshot meanwhile now rows db (report\<lparr>pr_waiting := pr_waiting report + 1\<rparr>)
      else
        (case provision_commit (meanwhile (at_id row) db) now row of
           (db', n) \<Rightarrow>
             provision_rows sha date_parse snapshot meanwhile now rows db'
               (report\<lparr>pr_provisioned := pr_provisioned report + (if n = 1 then 1 else 0)\<rparr>)))"

definition reconcileProvisioning ::
    "bool \<Rightarrow> (string \<Rightarrow> string) \<Rightarrow> (string \<Rightarrow> millis option) \<Rightarrow> (uuid \<Rightarrow> gate_db \<Rightarrow> gate_db) \<Rightarrow> gate_db \<Rightarrow> millis \<Rightarrow>
     gate_db \<times> provision_report" where
  "reconcileProvisioning enabled sha date_parse meanwhile db now =
     (if \<not> enabled then (db, \<lparr>pr_provisioned = 0, pr_waiting = 0\<rparr>)
      else
        provision_rows sha date_parse db meanwhile now (filter (\<lambda>a. at_status a = ''Pending'') (gd_attachments db)) db
          \<lparr>pr_provisioned = 0, pr_waiting = 0\<rparr>)"

section \<open>Snapshots of the node agents\<close>

record node_snapshot =
  ns_taskId :: string
  ns_observedAtMs :: rat
  ns_attachmentIds :: "string list"
  ns_proofs :: "node_proof list"

text \<open>A marker found in the log: the task of the line's prefix (complete or its first 12 characters)
  and the payload, which names its task and time itself.\<close>

datatype marker_payload = ProofMarker node_proof | ReconcileMarker string rat "string list"

record log_marker =
  lm_displayed :: string
  lm_payload :: marker_payload

definition payload_task :: "marker_payload \<Rightarrow> string" where
  "payload_task m = (case m of ProofMarker p \<Rightarrow> np_nodeTaskId p | ReconcileMarker task _ _ \<Rightarrow> task)"

definition payload_time :: "marker_payload \<Rightarrow> rat" where
  "payload_time m = (case m of ProofMarker p \<Rightarrow> lp_observedAtMs p | ReconcileMarker _ t _ \<Rightarrow> t)"

definition expected_tasks_valid :: "string list \<Rightarrow> bool" where
  "expected_tasks_valid expected \<longleftrightarrow>
     expected \<noteq> [] \<and> length expected \<le> 128 \<and> list_all task_id_text expected \<and> length (unique expected) = length expected"

definition displayed_task :: "string list \<Rightarrow> string \<Rightarrow> string option" where
  "displayed_task expected displayed =
     (if length displayed = 12
      then (case filter (\<lambda>t. take 12 t = displayed) expected of [t] \<Rightarrow> Some t | _ \<Rightarrow> None)
      else if displayed \<in> set expected then Some displayed else None)"

definition marker_fresh :: "millis \<Rightarrow> rat \<Rightarrow> bool" where
  "marker_fresh now t \<longleftrightarrow>
     is_safe_integer t \<and> of_int (now - REMOTE_LAN_PROOF_MAX_AGE_MS) \<le> t \<and> t \<le> of_int (now + 5000)"

type_synonym agent_states = "(string \<rightharpoonup> node_snapshot) \<times> (string \<rightharpoonup> node_proof list)"

definition cycle_proofs :: "node_proof list \<Rightarrow> rat \<Rightarrow> node_proof list" where
  "cycle_proofs ps t =
     filter (\<lambda>p. is_safe_integer (lp_observedAtMs p) \<and> t - 10000 \<le> lp_observedAtMs p \<and> lp_observedAtMs p \<le> t + 1000) ps"

definition take_marker :: "string list \<Rightarrow> millis \<Rightarrow> log_marker \<Rightarrow> agent_states \<Rightarrow> agent_states" where
  "take_marker expected now m st =
     (case (displayed_task expected (lm_displayed m), st) of
        (None, _) \<Rightarrow> st
      | (Some task, (states, pending)) \<Rightarrow>
          if payload_task (lm_payload m) \<noteq> task \<or> \<not> marker_fresh now (payload_time (lm_payload m)) then st
          else
            (let queued = option_or (pending task) [] in
             case lm_payload m of
               ReconcileMarker _ t ids \<Rightarrow>
                 if 512 < length ids \<or> \<not> list_all uuid_text ids \<or> length (unique ids) \<noteq> length ids then st
                 else
                   (if (case states task of None \<Rightarrow> True | Some s \<Rightarrow> ns_observedAtMs s \<le> t)
                    then states(task \<mapsto> \<lparr>ns_taskId = task, ns_observedAtMs = t, ns_attachmentIds = ids,
                           ns_proofs = cycle_proofs queued t\<rparr>)
                    else states,
                    pending(task \<mapsto> []))
             | ProofMarker p \<Rightarrow>
                 (states, pending(task \<mapsto> (if length queued < 512 then queued @ [p] else queued)))))"

definition node_snapshots :: "string list \<Rightarrow> log_marker list \<Rightarrow> millis \<Rightarrow> string + node_snapshot list" where
  "node_snapshots expected markers now =
     (if \<not> expected_tasks_valid expected then Inl ''No unambiguous running global node agents''
      else
        (let states = fst (fold (take_marker expected now) markers (Map.empty, Map.empty)) in
         if list_ex (\<lambda>t. states t = None) expected
         then Inl ''Missing fresh reconciliation from one or more Swarm nodes''
         else Inr (List.map_filter states expected)))"

section \<open>Activation, demotion and the end of a revocation\<close>

definition lan_target_of :: "lan_row \<Rightarrow> lan_target" where
  "lan_target_of row =
     \<lparr>lt_attachmentId = at_id row, lt_tenantId = at_tenantId row, lt_singleAppId = at_singleAppId row,
      lt_gateId = at_gateId row, lt_configurationRevision = at_configurationRevision row,
      lt_macAddress = at_macAddress row, lt_lanCidr = at_lanCidr row, lt_addressMode = at_addressMode row,
      lt_staticAddress = at_staticAddress row, lt_staticGateway = at_staticGateway row\<rparr>"

definition gate_fresh :: "gate_row \<Rightarrow> lan_row \<Rightarrow> millis \<Rightarrow> bool" where
  "gate_fresh gate row now \<longleftrightarrow>
     ga_tenantId gate = at_tenantId row \<and> ga_agentVersion gate = Some ''gate-l2-v3'' \<and> ga_status gate = ''Ready'' \<and>
     ga_revokedAt gate = None \<and>
     (case ga_observedL2At gate of
        None \<Rightarrow> False | Some t \<Rightarrow> now - t \<le> REMOTE_LAN_PROOF_MAX_AGE_MS \<and> t \<le> now + 5000) \<and>
     ga_observedL2 gate \<noteq> None"

definition gate_proofs :: "gate_row \<Rightarrow> lan_row \<Rightarrow> millis \<Rightarrow> gate_proof list" where
  "gate_proofs gate row now = (if gate_fresh gate row now then option_or (ga_observedL2 gate) [] else [])"

text \<open>The nodes' snapshots of the pass; \<open>None\<close> when they could not be read.\<close>

definition nodes_of :: "node_snapshot list option \<Rightarrow> node_snapshot list" where
  "nodes_of nodes = option_or nodes []"

definition gate_removed :: "gate_row \<Rightarrow> lan_row \<Rightarrow> millis \<Rightarrow> bool" where
  "gate_removed gate row now \<longleftrightarrow>
     gate_fresh gate row now \<and>
     (case (ga_observedL2AppliedAt gate, ga_observedL2At gate) of
        (Some applied, Some t) \<Rightarrow> at_updatedAt row \<le> applied \<and> applied \<le> t
      | _ \<Rightarrow> False) \<and>
     \<not> list_ex (\<lambda>p. lp_attachmentId p = at_id row) (gate_proofs gate row now)"

definition nodes_removed :: "node_snapshot list option \<Rightarrow> lan_row \<Rightarrow> bool" where
  "nodes_removed nodes row \<longleftrightarrow>
     nodes \<noteq> None \<and>
     list_all (\<lambda>n. of_int (at_updatedAt row) \<le> ns_observedAtMs n \<and> at_id row \<notin> set (ns_attachmentIds n)) (nodes_of nodes)"

definition authorization_ready :: "gate_db \<Rightarrow> node_snapshot list option \<Rightarrow> gate_row \<Rightarrow> lan_row \<Rightarrow> millis \<Rightarrow> bool" where
  "authorization_ready db nodes gate row now \<longleftrightarrow>
     nodes \<noteq> None \<and> gate_fresh gate row now \<and>
     (case (find_row lnet_id (at_networkId row) (gd_networks db), find_row lapp_id (at_singleAppId row) (gd_apps db)) of
        (Some network, Some app) \<Rightarrow>
          lnet_status network = ''Ready'' \<and> lnet_tenantId network = at_tenantId row \<and>
          lapp_tenantId app = at_tenantId row \<and> \<not> lapp_pendingDeletion app \<and> lapp_desiredReplicas app = 1 \<and>
          at_networkId row \<in> set (lapp_networkIds app)
      | _ \<Rightarrow> False)"

text \<open>The \<open>try\<close> block: the validated pair of proofs, or the reason why there is none.\<close>

definition lan_evidence ::
    "gate_db \<Rightarrow> node_snapshot list option \<Rightarrow> gate_row \<Rightarrow> lan_row \<Rightarrow> millis \<Rightarrow> string + lan_activation" where
  "lan_evidence db nodes gate row now =
     (if \<not> authorization_ready db nodes gate row now
      then Inl ''Gate, tenant app or network authorization is not ready''
      else
        (case (filter (\<lambda>p. lp_attachmentId p = at_id row) (gate_proofs gate row now),
               filter (\<lambda>p. lp_attachmentId p = at_id row) (concat (map ns_proofs (nodes_of nodes)))) of
           ([gp], [np]) \<Rightarrow>
             if \<not> list_ex (\<lambda>n. at_id row \<in> set (ns_attachmentIds n) \<and> np \<in> set (ns_proofs n)) (nodes_of nodes)
             then Inl ''Node attachment proof is not in the current cycle''
             else validateLanActivationProof (lan_target_of row) np gp now
         | (gps, _) \<Rightarrow>
             if length gps \<noteq> 1 then Inl ''Gate L2 proof missing or ambiguous'' else Inl ''Node L2 proof missing or ambiguous''))"

definition persisted_reason :: "node_snapshot list option \<Rightarrow> gate_row \<Rightarrow> lan_row \<Rightarrow> millis \<Rightarrow> string \<Rightarrow> string" where
  "persisted_reason nodes gate row now e =
     (if e \<in> {''Gate L2 proof missing or ambiguous'', ''Node L2 proof missing or ambiguous'',
              ''Node attachment proof is not in the current cycle''} then e
      else if nodes = None then ''Node reconciliation evidence unavailable''
      else if \<not> gate_fresh gate row now then ''Gate L2 observation missing or stale''
      else ''Authenticated LAN evidence not verified'')"

datatype lan_write = AcknowledgeRevocation | ActivateLan lan_activation | KeepWaiting string | DemoteLan

definition lan_decision ::
    "gate_db \<Rightarrow> node_snapshot list option \<Rightarrow> gate_row \<Rightarrow> lan_row \<Rightarrow> millis \<Rightarrow> lan_write option" where
  "lan_decision db nodes gate row now =
     (if at_status row = ''Revoking''
      then (if gate_removed gate row now \<and> nodes_removed nodes row then Some AcknowledgeRevocation else None)
      else
        (case lan_evidence db nodes gate row now of
           Inr result \<Rightarrow> Some (ActivateLan result)
         | Inl e \<Rightarrow>
             if at_status row = ''Provisioning''
             then
               (if at_lastError row \<noteq> Some (persisted_reason nodes gate row now e)
                then Some (KeepWaiting (persisted_reason nodes gate row now e)) else None)
             else if at_status row = ''Active'' then Some DemoteLan
             else None))"

definition revision_guard :: "string list \<Rightarrow> lan_row \<Rightarrow> lan_row \<Rightarrow> bool" where
  "revision_guard statuses row a \<longleftrightarrow>
     at_id a = at_id row \<and> at_tenantId a = at_tenantId row \<and> at_status a \<in> set statuses \<and>
     at_configurationRevision a = at_configurationRevision row"

definition write_statuses :: "lan_write \<Rightarrow> string list" where
  "write_statuses w =
     (case w of
        AcknowledgeRevocation \<Rightarrow> [''Revoking''] | ActivateLan _ \<Rightarrow> [''Provisioning'', ''Active'']
      | KeepWaiting _ \<Rightarrow> [''Provisioning''] | DemoteLan \<Rightarrow> [''Active''])"

definition written_row :: "lan_write \<Rightarrow> millis \<Rightarrow> lan_row \<Rightarrow> lan_row" where
  "written_row w now a =
     (case w of
        AcknowledgeRevocation \<Rightarrow>
          a\<lparr>at_status := ''Revoked'', at_dhcpAddress := None, at_leaseExpiresAt := None, at_lastVerifiedAt := Some now,
            at_lastError := None, at_updatedAt := now\<rparr>
      | ActivateLan result \<Rightarrow>
          a\<lparr>at_status := ''Active'', at_dhcpAddress := Some (la_address result), at_leaseExpiresAt := la_leaseExpiresAt result,
            at_lastVerifiedAt := Some now, at_lastError := None, at_updatedAt := now\<rparr>
      | KeepWaiting reason \<Rightarrow> a\<lparr>at_lastError := Some reason, at_updatedAt := now\<rparr>
      | DemoteLan \<Rightarrow>
          a\<lparr>at_status := ''Provisioning'', at_dhcpAddress := None, at_leaseExpiresAt := None, at_lastVerifiedAt := None,
            at_lastError := Some ''Authenticated LAN dataplane evidence expired'', at_updatedAt := now\<rparr>)"

definition lan_commit :: "gate_db \<Rightarrow> millis \<Rightarrow> lan_row \<Rightarrow> lan_write \<Rightarrow> gate_db \<times> nat" where
  "lan_commit db now row w = update_lans db (revision_guard (write_statuses w) row) (written_row w now)"

record activation_report =
  ar_activated :: nat
  ar_revoked :: nat
  ar_degraded :: nat

definition report_write :: "lan_row \<Rightarrow> lan_write \<Rightarrow> nat \<Rightarrow> activation_report \<Rightarrow> activation_report" where
  "report_write row w n report =
     (case w of
        AcknowledgeRevocation \<Rightarrow> report\<lparr>ar_revoked := ar_revoked report + n\<rparr>
      | ActivateLan _ \<Rightarrow> (if at_status row \<noteq> ''Active'' then report\<lparr>ar_activated := ar_activated report + n\<rparr> else report)
      | KeepWaiting _ \<Rightarrow> report
      | DemoteLan \<Rightarrow> report\<lparr>ar_degraded := ar_degraded report + n\<rparr>)"

fun activation_rows ::
    "gate_db \<Rightarrow> node_snapshot list option \<Rightarrow> (uuid \<Rightarrow> gate_db \<Rightarrow> gate_db) \<Rightarrow> millis \<Rightarrow> lan_row list \<Rightarrow> gate_db \<Rightarrow>
     activation_report \<Rightarrow> gate_db \<times> activation_report" where
  "activation_rows snapshot nodes meanwhile now [] db report = (db, report)"
| "activation_rows snapshot nodes meanwhile now (row # rows) db report =
     (case Option.bind (find_gate snapshot (at_gateId row)) (\<lambda>gate. lan_decision snapshot nodes gate row now) of
        None \<Rightarrow> activation_rows snapshot nodes meanwhile now rows db report
      | Some w \<Rightarrow>
          (case lan_commit (meanwhile (at_id row) db) now row w of
             (db', n) \<Rightarrow> activation_rows snapshot nodes meanwhile now rows db' (report_write row w n report)))"

text \<open>\<open>logs\<close> is what the container runtime reports: the running tasks of the node agents and the markers
  of their logs; reading it may fail.\<close>

definition reconcileActivation ::
    "bool \<Rightarrow> bool \<Rightarrow> string + string list \<times> log_marker list \<Rightarrow> (uuid \<Rightarrow> gate_db \<Rightarrow> gate_db) \<Rightarrow> gate_db \<Rightarrow> millis \<Rightarrow>
     gate_db \<times> activation_report" where
  "reconcileActivation enabled nodePolicyHealthy logs meanwhile db now =
     (let empty = \<lparr>ar_activated = 0, ar_revoked = 0, ar_degraded = 0\<rparr>;
          rows = filter (\<lambda>a. at_status a \<in> {''Provisioning'', ''Active'', ''Revoking''}) (gd_attachments db);
          nodes = (if \<not> nodePolicyHealthy then None
                   else (case logs of
                           Inl _ \<Rightarrow> None
                         | Inr (tasks, markers) \<Rightarrow>
                             (case node_snapshots tasks markers now of Inl _ \<Rightarrow> None | Inr ns \<Rightarrow> Some ns))) in
      if \<not> enabled \<or> rows = [] then (db, empty)
      else activation_rows db nodes meanwhile now rows db empty)"

end
