(* ===== verification/LanEvidence.thy ===== *)
theory LanEvidence
  imports LanLifecycle
begin

text \<open>
  Facts about remote LAN attachments: which address settings are accepted, and what an activation
  rests on.
\<close>

section \<open>Address settings\<close>

lemma digit_char_zero: "d < 10 \<Longrightarrow> digit_char d = CHR ''0'' \<longleftrightarrow> d = 0"
  by (metis digit_char_numerals(1) digit_val_digit_char zero_less_numeral)

lemma show_nat_hd: "n \<noteq> 0 \<Longrightarrow> hd (show_nat n) \<noteq> CHR ''0''"
proof (induction n rule: show_nat.induct)
  case (1 n)
  then show ?case by (cases "n < 10") (simp_all add: show_nat_small show_nat_step digit_char_zero)
qed

lemma show_nat_not_padded: "\<not> padded_octet (show_nat n)"
proof (cases "n < 10")
  case False
  then have "hd (show_nat n) \<noteq> CHR ''0''" by (intro show_nat_hd) simp
  then show ?thesis by (cases "show_nat n") (auto simp: padded_octet_def starts_with_def)
qed (simp add: padded_octet_def show_nat_small)

lemma intToIpv4_not_padded: "\<not> list_ex padded_octet (split_on CHR ''.'' (intToIpv4 w))"
  by (simp add: intToIpv4_parts show_nat_not_padded)

lemma make_cidr_32: "nc_network (make_cidr w 32) = w"
  by (simp add: make_cidr_network)

lemma ip_text: "ip (intToIpv4 w) = Some w"
proof -
  have "show_nat 32 = ''32''" by (simp add: show_nat.simps digit_char_numerals)
  then show ?thesis using parse_cidr_text [of 32 w] by (simp add: ip_def make_cidr_32)
qed

lemma same_block:
  assumes "cidr_ok c"
  shows "nc_normalized (make_cidr w (nc_prefix c)) = nc_normalized c \<longleftrightarrow> nc_network c \<le> w \<and> w \<le> nc_broadcast c"
proof -
  let ?p = "nc_prefix c"
  have p: "?p \<le> 32" using assms by (simp add: cidr_ok_def)
  have pre: "nc_prefix (make_cidr w ?p) = ?p" by (rule make_cidr_network(3) [OF p])
  have "nc_normalized (make_cidr w ?p) = nc_normalized c \<longleftrightarrow> nc_network (make_cidr w ?p) = nc_network c"
    using cidr_ok_normalized [OF make_cidr_ok [OF p, of w]] cidr_ok_normalized [OF assms]
    by (simp add: pre intToIpv4_inject)
  also have "\<dots> \<longleftrightarrow> uint w div block_size c * block_size c = uint (nc_network c)"
    by (simp add: word_uint_eq_iff make_cidr_range [OF p] block_size_def)
  also have "\<dots> \<longleftrightarrow> uint w div block_size c = uint (nc_network c) div block_size c"
  proof -
    have "uint (nc_network c) = uint (nc_network c) div block_size c * block_size c"
      using assms div_mult_mod_eq [of "uint (nc_network c)" "block_size c"] by (simp add: cidr_ok_def block_size_def)
    moreover have "block_size c \<noteq> 0" by (simp add: block_size_def)
    ultimately show ?thesis by (metis mult_right_cancel)
  qed
  finally show ?thesis using block_member [OF assms] by simp
qed

definition static_request :: "ipv4_cidr \<Rightarrow> 32 word \<Rightarrow> nat \<Rightarrow> 32 word \<Rightarrow> lan_address_request" where
  "static_request c w p g =
     \<lparr>lr_addressMode = Some ''Static'', lr_lanCidr = nc_normalized c,
      lr_staticAddress = Some (intToIpv4 w @ ''/'' @ show_nat p), lr_staticGateway = Some (intToIpv4 g)\<rparr>"

definition usable_host :: "ipv4_cidr \<Rightarrow> 32 word \<Rightarrow> bool" where
  "usable_host c w \<longleftrightarrow> nc_network c < w \<and> w < nc_broadcast c"

lemma usable_host_iff:
  "usable_host c w \<longleftrightarrow> (nc_network c \<le> w \<and> w \<le> nc_broadcast c) \<and> \<not> unusable_host c w"
  by (auto simp: usable_host_def unusable_host_def)

lemma static_settings:
  assumes c: "cidr_ok c" and p: "p \<le> 32"
  shows "normalizeStatic c [] (intToIpv4 w @ ''/'' @ show_nat p) (intToIpv4 g) =
    (if p = nc_prefix c \<and> usable_host c w \<and> usable_host c g \<and> w \<noteq> g
     then Inr \<lparr>li_addressMode = ''Static'', li_lanCidr = nc_normalized c,
       li_staticAddress = Some (intToIpv4 w @ ''/'' @ show_nat p), li_staticGateway = Some (intToIpv4 g)\<rparr>
     else Inl ''Static IPv4 address/gateway must be distinct usable LAN hosts'')"
proof -
  have s: "split_on CHR ''/'' (intToIpv4 w @ CHR ''/'' # show_nat p) = intToIpv4 w # split_on CHR ''/'' (show_nat p)"
    by (rule split_on_append) (rule intToIpv4_no_slash)
  have pre: "nc_prefix (make_cidr w p) = p" by (rule make_cidr_network(3) [OF p])
  have e: "ends_with (intToIpv4 w @ CHR ''/'' # show_nat p) (CHR ''/'' # show_nat p)"
    by (auto simp: ends_with_iff)
  have parse: "parseIpv4Cidr (intToIpv4 w @ CHR ''/'' # show_nat p) = Some (make_cidr w p)"
    using parse_cidr_text [OF p, of w] by simp
  show ?thesis
  proof (cases "p = nc_prefix c")
    case True
    then show ?thesis
      using same_block [OF c, of w] e [unfolded True]
      by (simp add: normalizeStatic_def Let_def s [unfolded True] parse [unfolded True] ip_text contains_address
          intToIpv4_not_padded usable_host_iff pre [unfolded True])
  next
    case False
    then show ?thesis by (simp add: normalizeStatic_def Let_def s parse ip_text pre)
  qed
qed

lemma lan_settings_exact:
  assumes "cidr_ok c" and "p \<le> 32"
  shows "(\<exists>s. normalizeLanAddress (static_request c w p g) [] = Inr s) \<longleftrightarrow>
    16 \<le> nc_prefix c \<and> nc_prefix c \<le> 30 \<and> p = nc_prefix c \<and> usable_host c w \<and> usable_host c g \<and> w \<noteq> g"
  by (auto simp: normalizeLanAddress_def static_request_def parse_normalized [OF assms(1)] option_or_def
      static_settings [OF assms, simplified] intToIpv4_not_Nil split: if_splits)

definition settings_ok :: "string \<Rightarrow> string option \<Rightarrow> string option \<Rightarrow> bool" where
  "settings_ok mode staticAddress staticGateway \<longleftrightarrow>
     (mode = ''DHCP'' \<and> staticAddress = None \<and> staticGateway = None) \<or>
     (mode = ''Static'' \<and> staticAddress \<noteq> None \<and> staticGateway \<noteq> None)"

lemma normalizeStatic_settings:
  "normalizeStatic c r a g = Inr s \<Longrightarrow>
     s = \<lparr>li_addressMode = ''Static'', li_lanCidr = nc_normalized c, li_staticAddress = Some a, li_staticGateway = Some g\<rparr>"
  by (auto simp: normalizeStatic_def Let_def split: option.splits if_splits)

lemma normalized_settings:
  assumes "normalizeLanAddress input r = Inr s"
  shows "li_lanCidr s = lr_lanCidr input \<and> settings_ok (li_addressMode s) (li_staticAddress s) (li_staticGateway s)"
  using assms
  by (auto simp: normalizeLanAddress_def Let_def settings_ok_def split: option.splits if_splits dest: normalizeStatic_settings)

section \<open>What an activation rests on\<close>

text \<open>The address a row may hold: a host of its network, with a lease exactly when it is dynamic.\<close>

definition granted_address :: "lan_row \<Rightarrow> string \<Rightarrow> millis option \<Rightarrow> bool" where
  "granted_address a address lease \<longleftrightarrow>
     (\<exists>network. parseIpv4Cidr (at_lanCidr a) = Some network \<and> containsIpv4 network address \<and>
        ip address \<noteq> Some (nc_network network) \<and> ip address \<noteq> Some (nc_broadcast network) \<and>
        (if at_addressMode a = ''Static''
         then at_staticAddress a = Some (address @ ''/'' @ show_nat (nc_prefix network)) \<and> lease = None
         else lease \<noteq> None))"

lemma normalized_mode:
  "normalizeLanAddress \<lparr>lr_addressMode = Some m, lr_lanCidr = c, lr_staticAddress = sa, lr_staticGateway = sg\<rparr> r = Inr s \<Longrightarrow>
     li_addressMode s = m \<and> li_staticAddress s = sa \<and> li_staticGateway s = sg"
  by (auto simp: normalizeLanAddress_def Let_def option_or_def split: option.splits if_splits dest: normalizeStatic_settings)

lemma validated_parts:
  assumes "validateLanActivationProof target node gate now = Inr res"
  shows "target_valid target now" "proof_matches target now node" "proof_matches target now gate"
    "dataplane_ready node gate now" "granted_host target node" "la_address res = np_address node"
  using assms by (auto simp: validateLanActivationProof_def split: sum.splits if_splits option.splits)

lemma validated_address:
  assumes "validateLanActivationProof (lan_target_of row) node gate now = Inr res"
  shows "granted_address row (la_address res) (la_leaseExpiresAt res)"
proof -
  obtain network where n: "parseIpv4Cidr (at_lanCidr row) = Some network" "containsIpv4 network (np_address node)"
    "ip (np_address node) \<noteq> Some (nc_network network)" "ip (np_address node) \<noteq> Some (nc_broadcast network)"
    "np_prefix node = of_nat (nc_prefix network)"
    using validated_parts(5) [OF assms] by (auto simp: granted_host_def lan_target_of_def split: option.splits)
  have prefix1: "nat \<lfloor>np_prefix node\<rfloor> = nc_prefix network" by (simp add: n(5))
  from assms obtain s where s: "normalizeLanAddress \<lparr>lr_addressMode = Some (at_addressMode row), lr_lanCidr = at_lanCidr row,
      lr_staticAddress = at_staticAddress row, lr_staticGateway = at_staticGateway row\<rparr> [] = Inr s"
    and r: "if li_addressMode s = ''Static'' then static_proven s node \<and> la_leaseExpiresAt res = None
            else la_leaseExpiresAt res \<noteq> None"
    by (auto simp: validateLanActivationProof_def lan_target_of_def split: sum.splits if_splits option.splits)
  have m: "li_addressMode s = at_addressMode row" "li_staticAddress s = at_staticAddress row"
    using normalized_mode [OF s] by auto
  show ?thesis
    using n r m by (auto simp: granted_address_def validated_parts(6) [OF assms] static_proven_def prefix1)
qed

text \<open>The two observations an activation is based on, and that both describe this attachment as it is configured.\<close>

definition lan_evidence_of ::
    "gate_db \<Rightarrow> node_snapshot list option \<Rightarrow> gate_row \<Rightarrow> lan_row \<Rightarrow> millis \<Rightarrow> gate_proof \<Rightarrow> node_proof \<Rightarrow> bool" where
  "lan_evidence_of db nodes gate row now gp np \<longleftrightarrow>
     gate_fresh gate row now \<and> authorization_ready db nodes gate row now \<and>
     gp \<in> set (option_or (ga_observedL2 gate) []) \<and>
     (\<exists>n \<in> set (nodes_of nodes). np \<in> set (ns_proofs n) \<and> at_id row \<in> set (ns_attachmentIds n)) \<and>
     proof_matches (lan_target_of row) now np \<and> proof_matches (lan_target_of row) now gp \<and> dataplane_ready np gp now"

lemma evidence_sound:
  assumes "lan_evidence db nodes gate row now = Inr res"
  shows "\<exists>gp np. lan_evidence_of db nodes gate row now gp np \<and> la_address res = np_address np"
    and "granted_address row (la_address res) (la_leaseExpiresAt res)"
proof -
  let ?gs = "filter (\<lambda>p. lp_attachmentId p = at_id row) (gate_proofs gate row now)"
    and ?ns = "filter (\<lambda>p. lp_attachmentId p = at_id row) (concat (map ns_proofs (nodes_of nodes)))"
  have auth: "authorization_ready db nodes gate row now"
    using assms by (auto simp: lan_evidence_def split: if_splits)
  obtain gp np where one: "?gs = [gp]" "?ns = [np]"
    and node: "list_ex (\<lambda>n. at_id row \<in> set (ns_attachmentIds n) \<and> np \<in> set (ns_proofs n)) (nodes_of nodes)"
    and valid: "validateLanActivationProof (lan_target_of row) np gp now = Inr res"
    using assms auth by (auto simp: lan_evidence_def split: if_splits list.splits)
  have fresh: "gate_fresh gate row now" using auth by (simp add: authorization_ready_def)
  have "gp \<in> set ?gs" using one(1) by simp
  then have gp: "gp \<in> set (option_or (ga_observedL2 gate) [])" using fresh by (simp add: gate_proofs_def)
  have "lan_evidence_of db nodes gate row now gp np"
    using auth fresh gp node validated_parts [OF valid] by (auto simp: lan_evidence_of_def list_ex_iff)
  then show "\<exists>gp np. lan_evidence_of db nodes gate row now gp np \<and> la_address res = np_address np"
    using validated_parts(6) [OF valid] by blast
  show "granted_address row (la_address res) (la_leaseExpiresAt res)" by (rule validated_address [OF valid])
qed

end
