(* ===== verification/LanSafety.thy ===== *)
theory LanSafety
  imports LanEvidence
begin

text \<open>
  The attachments as a state machine: every interleaving of the tenants' requests, the two passes, and
  whatever else happens to gates, networks and applications, including the removal of attachments with
  their gate. A request or a planned write sits in \<open>ls_requests\<close> between its read and its commit. The
  invariant is kept by every write through one contract, \<open>lan_update\<close>.
\<close>

section \<open>Rows\<close>

definition lan_row_ok :: "lan_row \<Rightarrow> bool" where
  "lan_row_ok a \<longleftrightarrow>
     settings_ok (at_addressMode a) (at_staticAddress a) (at_staticGateway a) \<and>
     (if at_status a = ''Active''
      then (\<exists>address. at_dhcpAddress a = Some address \<and> granted_address a address (at_leaseExpiresAt a))
      else at_dhcpAddress a = None \<and> at_leaseExpiresAt a = None)"

text \<open>What a revision fixes of a row, and what never changes.\<close>

definition lan_identity :: "lan_row \<Rightarrow> uuid \<times> uuid \<times> uuid \<times> uuid \<times> uuid \<times> string \<times> string" where
  "lan_identity a =
     (at_id a, at_tenantId a, at_singleAppId a, at_networkId a, at_gateId a, at_lanCidr a, at_macAddress a)"

definition lan_settings :: "lan_row \<Rightarrow> string \<times> string option \<times> string option" where
  "lan_settings a = (at_addressMode a, at_staticAddress a, at_staticGateway a)"

definition lan_evolves :: "lan_row \<Rightarrow> lan_row \<Rightarrow> bool" where
  "lan_evolves a b \<longleftrightarrow>
     lan_identity a = lan_identity b \<and> at_configurationRevision a \<le> at_configurationRevision b \<and>
     (at_configurationRevision a = at_configurationRevision b \<longrightarrow> lan_settings a = lan_settings b)"

lemma lan_evolves_refl [simp]: "lan_evolves a a"
  by (simp add: lan_evolves_def)

lemma lan_evolves_trans: "lan_evolves a b \<Longrightarrow> lan_evolves b c \<Longrightarrow> lan_evolves a c"
  by (auto simp: lan_evolves_def)

lemma granted_address_cong:
  "at_lanCidr a = at_lanCidr b \<Longrightarrow> lan_settings a = lan_settings b \<Longrightarrow>
     granted_address a address lease = granted_address b address lease"
  by (simp add: granted_address_def lan_settings_def)

section \<open>The contract of a write\<close>

definition pairwise_free :: "lan_row list \<Rightarrow> bool" where
  "pairwise_free t \<longleftrightarrow> distinct (map at_id t) \<and> (\<forall>a \<in> set t. \<forall>b \<in> set t. at_id a \<noteq> at_id b \<longrightarrow> \<not> lan_collides a b)"

definition lan_rows_ok :: "lan_row list \<Rightarrow> bool" where
  "lan_rows_ok t \<longleftrightarrow> list_all lan_row_ok t \<and> pairwise_free t"

text \<open>Rows of \<open>t'\<close> come from rows of \<open>t\<close>.\<close>

definition rows_from :: "lan_row list \<Rightarrow> lan_row list \<Rightarrow> bool" where
  "rows_from t t' \<longleftrightarrow> (\<forall>b \<in> set t'. \<exists>a \<in> set t. lan_evolves a b)"

locale lan_update =
  fixes guard :: "lan_row \<Rightarrow> bool"
    and assign :: "lan_row \<Rightarrow> lan_row"
  assumes evolves: "guard a \<Longrightarrow> lan_evolves a (assign a)"
    and keeps_ok: "guard a \<Longrightarrow> lan_row_ok a \<Longrightarrow> lan_row_ok (assign a)"
begin

lemma update_from: "rows_from t (fst (update_where guard assign t))"
  using evolves lan_evolves_refl unfolding rows_from_def set_update_where by blast

lemma update_ok: "list_all lan_row_ok t \<Longrightarrow> list_all lan_row_ok (fst (update_where guard assign t))"
  using keeps_ok by (auto simp: list_all_iff set_update_where)

lemma update_ids: "map at_id (fst (update_where guard assign t)) = map at_id t"
  using evolves by (auto simp: update_where_table lan_evolves_def lan_identity_def)

end

text \<open>A write that leaves the settings alone cannot make two rows collide.\<close>

locale lan_status_update = lan_update +
  assumes keeps_settings: "guard a \<Longrightarrow> lan_settings (assign a) = lan_settings a"
begin

lemma collides_assign:
  assumes "a' = a \<or> (guard a \<and> a' = assign a)" "b' = b \<or> (guard b \<and> b' = assign b)"
  shows "at_id a' = at_id a" "lan_collides a' b' \<longleftrightarrow> lan_collides a b"
  using assms evolves [of a] evolves [of b] keeps_settings [of a] keeps_settings [of b]
  by (auto simp: lan_evolves_def lan_identity_def lan_settings_def lan_collides_def)

lemma update_free: "pairwise_free t \<Longrightarrow> pairwise_free (fst (update_where guard assign t))"
proof -
  assume free: "pairwise_free t"
  have "at_id a' \<noteq> at_id b' \<longrightarrow> \<not> lan_collides a' b'"
    if a': "a' \<in> set (fst (update_where guard assign t))" and b': "b' \<in> set (fst (update_where guard assign t))" for a' b'
  proof -
    obtain a where a: "a \<in> set t" "a' = a \<or> (guard a \<and> a' = assign a)" using a' unfolding set_update_where by blast
    obtain b where b: "b \<in> set t" "b' = b \<or> (guard b \<and> b' = assign b)" using b' unfolding set_update_where by blast
    show ?thesis
      using free a(1) b(1) collides_assign [OF a(2) b(2)] collides_assign(1) [OF b(2) b(2)]
      unfolding pairwise_free_def by auto
  qed
  then show ?thesis using free by (auto simp: pairwise_free_def update_ids)
qed

lemma update_rows_ok: "lan_rows_ok t \<Longrightarrow> lan_rows_ok (fst (update_where guard assign t))"
  by (simp add: lan_rows_ok_def update_ok update_free)

end

interpretation provisioning: lan_status_update "pending_guard row" "provisioning_row now" for row now
  by unfold_locales
    (auto simp: pending_guard_def provisioning_row_def lan_evolves_def lan_identity_def lan_settings_def lan_row_ok_def)

interpretation revoking: lan_status_update "\<lambda>a. at_id a = i" "revoking_row now" for i now
  by unfold_locales
    (auto simp: revoking_row_def lan_evolves_def lan_identity_def lan_settings_def lan_row_ok_def)

interpretation readdressing: lan_update "\<lambda>a. at_id a = i"
    "if settings_ok (li_addressMode s) (li_staticAddress s) (li_staticGateway s) then readdressed s now else id" for i s now
  by unfold_locales
    (auto simp: readdressed_def lan_evolves_def lan_identity_def lan_settings_def lan_row_ok_def split: if_splits)

text \<open>A planned write is made on the row it was planned for; \<open>planned\<close> is what it may rely on.\<close>

definition write_ok :: "lan_row \<Rightarrow> lan_write \<Rightarrow> bool" where
  "write_ok row w \<longleftrightarrow>
     (case w of ActivateLan res \<Rightarrow> granted_address row (la_address res) (la_leaseExpiresAt res) | _ \<Rightarrow> True)"

definition planned_row :: "lan_row \<Rightarrow> lan_write \<Rightarrow> millis \<Rightarrow> lan_row \<Rightarrow> lan_row" where
  "planned_row row w now a = (if lan_evolves row a \<and> write_ok row w then written_row w now a else a)"

lemma written_identity:
  "lan_identity (written_row w now a) = lan_identity a" "lan_settings (written_row w now a) = lan_settings a"
  "at_configurationRevision (written_row w now a) = at_configurationRevision a"
  by (simp_all add: written_row_def lan_identity_def lan_settings_def split: lan_write.split)

lemma written_ok:
  assumes "revision_guard (write_statuses w) row a" "lan_evolves row a" "write_ok row w" "lan_row_ok a"
  shows "lan_row_ok (written_row w now a)"
proof (cases w)
  case (ActivateLan res)
  have "lan_settings row = lan_settings a" "at_lanCidr row = at_lanCidr a"
    using assms(1,2) by (simp_all add: revision_guard_def lan_evolves_def lan_identity_def)
  then have "granted_address a (la_address res) (la_leaseExpiresAt res)"
    using assms(3) granted_address_cong [of row a] by (simp add: write_ok_def ActivateLan)
  then show ?thesis
    using assms(4) granted_address_cong [of a "written_row w now a"] written_identity [of w now a]
    by (simp add: lan_row_ok_def ActivateLan written_row_def granted_address_def)
qed (use assms(1,4) in \<open>auto simp: lan_row_ok_def written_row_def revision_guard_def write_statuses_def\<close>)

interpretation planned: lan_status_update "revision_guard (write_statuses w) row" "planned_row row w now" for w row now
  by unfold_locales
    (auto simp: planned_row_def written_ok lan_evolves_def [of _ "written_row w now _"] written_identity)

lemma update_where_cong: "(\<And>r. r \<in> set t \<Longrightarrow> P r \<Longrightarrow> f r = g r) \<Longrightarrow> update_where P f t = update_where P g t"
  by (auto simp: update_where_def)

lemma lan_commit_planned:
  assumes "\<forall>a \<in> set (gd_attachments db). at_id a = at_id row \<longrightarrow> lan_evolves row a" and "write_ok row w"
  shows "gd_attachments (fst (lan_commit db now row w)) =
    fst (update_where (revision_guard (write_statuses w) row) (planned_row row w now) (gd_attachments db))"
proof -
  have "update_where (revision_guard (write_statuses w) row) (written_row w now) (gd_attachments db) =
    update_where (revision_guard (write_statuses w) row) (planned_row row w now) (gd_attachments db)"
    using assms by (intro update_where_cong) (auto simp: planned_row_def revision_guard_def)
  then show ?thesis by (simp add: lan_commit_def update_lans_def split: prod.split)
qed

section \<open>The machine\<close>

datatype lan_request =
    CreateRequest uuid create_lan_dto lan_ip_settings millis
  | AddressRequest uuid lan_ip_settings
  | RevokeRequest uuid
  | ProvisionRequest lan_row millis
  | WriteRequest lan_row lan_write millis

record lan_state =
  ls_db :: gate_db
  ls_requests :: "lan_request list"
  ls_issued :: "uuid list"

definition add_request :: "lan_request \<Rightarrow> lan_state \<Rightarrow> lan_state" where
  "add_request r s = s\<lparr>ls_requests := r # ls_requests s\<rparr>"

definition drop_request :: "lan_request \<Rightarrow> lan_state \<Rightarrow> lan_state" where
  "drop_request r s = s\<lparr>ls_requests := remove1 r (ls_requests s)\<rparr>"

text \<open>The commit of a request that needs no fresh id.\<close>

definition commit_request :: "millis \<Rightarrow> lan_request \<Rightarrow> gate_db \<Rightarrow> gate_db" where
  "commit_request now r db =
     (case r of
        AddressRequest i address \<Rightarrow> fst (updateAddressing_commit db now i address)
      | RevokeRequest i \<Rightarrow> fst (revokeLan_commit db now i)
      | ProvisionRequest row t \<Rightarrow> fst (provision_commit db t row)
      | WriteRequest row w t \<Rightarrow> fst (lan_commit db t row w)
      | CreateRequest _ _ _ _ \<Rightarrow> db)"

inductive lan_step :: "(string \<Rightarrow> string) \<Rightarrow> (string \<Rightarrow> millis option) \<Rightarrow> lan_state \<Rightarrow> lan_state \<Rightarrow> bool"
  for sha date_parse where
  ask_create:
    "createLan_read sha date_parse (ls_db s) now tenantId dto = Inr addressing \<Longrightarrow>
       lan_step sha date_parse s (add_request (CreateRequest tenantId dto addressing now) s)"
| ask_addressing:
    "updateAddressing_read sha date_parse (ls_db s) now tenantId i dto = Inr (row, address) \<Longrightarrow>
       \<not> same_addressing row address \<Longrightarrow> lan_step sha date_parse s (add_request (AddressRequest i address) s)"
| ask_revoke:
    "tenant_lan_row (ls_db s) tenantId i = Some row \<Longrightarrow>
       lan_step sha date_parse s (add_request (RevokeRequest (at_id row)) s)"
| plan_provision:
    "row \<in> set (gd_attachments (ls_db s)) \<Longrightarrow> at_status row = ''Pending'' \<Longrightarrow> lan_ready sha date_parse (ls_db s) now row \<Longrightarrow>
       lan_step sha date_parse s (add_request (ProvisionRequest row now) s)"
| plan_write:
    "row \<in> set (gd_attachments (ls_db s)) \<Longrightarrow> at_status row \<in> {''Provisioning'', ''Active'', ''Revoking''} \<Longrightarrow>
       find_gate (ls_db s) (at_gateId row) = Some gate \<Longrightarrow> lan_decision (ls_db s) nodes gate row now = Some w \<Longrightarrow>
       lan_step sha date_parse s (add_request (WriteRequest row w now) s)"
| commit_create:
    "CreateRequest tenantId dto addressing now \<in> set (ls_requests s) \<Longrightarrow> i \<notin> set (ls_issued s) \<Longrightarrow>
       lan_step sha date_parse s
         (drop_request (CreateRequest tenantId dto addressing now)
            (s\<lparr>ls_db := fst (createLan_commit (ls_db s) (new_lan_row sha i tenantId dto addressing now)),
               ls_issued := i # ls_issued s\<rparr>))"
| commit:
    "r \<in> set (ls_requests s) \<Longrightarrow>
       lan_step sha date_parse s (drop_request r (s\<lparr>ls_db := commit_request now r (ls_db s)\<rparr>))"
| abandon:
    "lan_step sha date_parse s (drop_request r s)"
| environment:
    "gd_attachments db = filter P (gd_attachments (ls_db s)) \<Longrightarrow> lan_step sha date_parse s (s\<lparr>ls_db := db\<rparr>)"

text \<open>The invariant.\<close>

definition request_ok :: "lan_row list \<Rightarrow> uuid list \<Rightarrow> lan_request \<Rightarrow> bool" where
  "request_ok t issued r \<longleftrightarrow>
     (case r of
        CreateRequest _ _ s _ \<Rightarrow> settings_ok (li_addressMode s) (li_staticAddress s) (li_staticGateway s)
      | AddressRequest _ s \<Rightarrow> settings_ok (li_addressMode s) (li_staticAddress s) (li_staticGateway s)
      | WriteRequest row w _ \<Rightarrow>
          at_id row \<in> set issued \<and> write_ok row w \<and> (\<forall>a \<in> set t. at_id a = at_id row \<longrightarrow> lan_evolves row a)
      | _ \<Rightarrow> True)"

definition lan_inv :: "lan_state \<Rightarrow> bool" where
  "lan_inv s \<longleftrightarrow>
     lan_rows_ok (gd_attachments (ls_db s)) \<and> at_id ` set (gd_attachments (ls_db s)) \<subseteq> set (ls_issued s) \<and>
     (\<forall>r \<in> set (ls_requests s). request_ok (gd_attachments (ls_db s)) (ls_issued s) r)"

lemma request_ok_from:
  assumes "request_ok t issued r" "rows_from t t'" "set issued \<subseteq> set issued'"
  shows "request_ok t' issued' r"
proof (cases r)
  case (WriteRequest row w now)
  have "lan_evolves row b" if b: "b \<in> set t'" "at_id b = at_id row" for b
  proof -
    obtain a where a: "a \<in> set t" "lan_evolves a b" using assms(2) b(1) unfolding rows_from_def by blast
    then have "at_id a = at_id row" using b(2) by (simp add: lan_evolves_def lan_identity_def)
    then show ?thesis using assms(1) a by (auto simp: request_ok_def WriteRequest intro: lan_evolves_trans)
  qed
  then show ?thesis using assms(1,3) by (auto simp: request_ok_def WriteRequest)
qed (use assms(1) in \<open>auto simp: request_ok_def\<close>)

lemma rows_from_filter: "rows_from t (filter P t)"
  unfolding rows_from_def using lan_evolves_refl by (metis filter_is_subset subsetD)

lemma rows_from_refl [simp]: "rows_from t t"
  unfolding rows_from_def using lan_evolves_refl by blast

lemma rows_ok_filter: "lan_rows_ok t \<Longrightarrow> lan_rows_ok (filter P t)"
  by (auto simp: lan_rows_ok_def pairwise_free_def list_all_iff distinct_map_filter)

lemma rows_from_ids: "rows_from t t' \<Longrightarrow> at_id ` set t' \<subseteq> at_id ` set t"
  unfolding rows_from_def by (auto simp: lan_evolves_def lan_identity_def image_iff) metis

lemma lan_collides_sym: "lan_collides a b \<longleftrightarrow> lan_collides b a"
  unfolding lan_collides_def same_value_def by metis

text \<open>The three shapes of a commit.\<close>

lemma update_lan_rows:
  "gd_attachments (fst (update_lan db i f)) = gd_attachments db \<or>
   gd_attachments (fst (update_lan db i f)) = fst (update_where (\<lambda>a. at_id a = i) f (gd_attachments db))"
  by (auto simp: update_lan_def split: prod.split list.split)

lemma readdressed_rows:
  "gd_attachments (fst (updateAddressing_commit db now i s)) = gd_attachments db \<or>
   (\<exists>a. find_row at_id i (gd_attachments db) = Some a \<and>
      (\<forall>b \<in> set (gd_attachments db). at_id b \<noteq> i \<longrightarrow> \<not> lan_collides (readdressed s now a) b) \<and>
      gd_attachments (fst (updateAddressing_commit db now i s)) =
        fst (update_where (\<lambda>a. at_id a = i) (readdressed s now) (gd_attachments db)))"
  using update_lan_rows [of db i "readdressed s now"]
  by (auto simp: updateAddressing_commit_def gate_audit_def list_ex_iff split: option.split prod.split sum.split)

lemma readdressed_free:
  assumes free: "pairwise_free t" and a: "find_row at_id i t = Some a"
    and new: "\<forall>b \<in> set t. at_id b \<noteq> i \<longrightarrow> \<not> lan_collides (readdressed s now a) b"
  shows "pairwise_free (fst (update_where (\<lambda>a. at_id a = i) (readdressed s now) t))" (is "pairwise_free ?t")
proof -
  have only: "b = a" if "b \<in> set t" "at_id b = i" for b
    using that find_row_SomeD [OF a] distinct_key_eq [of at_id t b a] free by (auto simp: pairwise_free_def)
  have cases: "c \<in> set t \<and> at_id c \<noteq> i \<or> c = readdressed s now a" if "c \<in> set ?t" for c
    using that only unfolding set_update_where by blast
  have id1: "at_id (readdressed s now a) = i" using find_row_SomeD [OF a] by (simp add: readdressed_def)
  have "\<not> lan_collides c d" if "c \<in> set ?t" "d \<in> set ?t" "at_id c \<noteq> at_id d" for c d
    using cases [OF that(1)] cases [OF that(2)] that(3) new free id1 lan_collides_sym [of c d]
    unfolding pairwise_free_def by auto
  moreover have "map at_id ?t = map at_id t" by (simp add: update_where_table readdressed_def)
  ultimately show ?thesis using free by (simp add: pairwise_free_def)
qed

lemma commit_rows:
  assumes "lan_rows_ok (gd_attachments db)" and "request_ok (gd_attachments db) issued r"
  shows "lan_rows_ok (gd_attachments (commit_request now r db))"
    and "rows_from (gd_attachments db) (gd_attachments (commit_request now r db))"
proof -
  let ?t = "gd_attachments db" and ?t' = "gd_attachments (commit_request now r db)"
  have "lan_rows_ok ?t' \<and> rows_from ?t ?t'"
  proof (cases r)
    case (AddressRequest i s)
    then have s: "settings_ok (li_addressMode s) (li_staticAddress s) (li_staticGateway s)"
      using assms(2) by (simp add: request_ok_def)
    from readdressed_rows [of db now i s] show ?thesis
    proof
      assume "gd_attachments (fst (updateAddressing_commit db now i s)) = ?t"
      then show ?thesis using assms(1) by (simp add: commit_request_def AddressRequest)
    next
      assume "\<exists>a. find_row at_id i ?t = Some a \<and> (\<forall>b \<in> set ?t. at_id b \<noteq> i \<longrightarrow> \<not> lan_collides (readdressed s now a) b) \<and>
        gd_attachments (fst (updateAddressing_commit db now i s)) = fst (update_where (\<lambda>a. at_id a = i) (readdressed s now) ?t)"
      then obtain a where a: "find_row at_id i ?t = Some a" "\<forall>b \<in> set ?t. at_id b \<noteq> i \<longrightarrow> \<not> lan_collides (readdressed s now a) b"
        and t': "?t' = fst (update_where (\<lambda>a. at_id a = i) (readdressed s now) ?t)"
        by (auto simp: commit_request_def AddressRequest)
      show ?thesis
        using readdressed_free [OF _ a] readdressing.update_ok [where i = i and s = s and now = now, of ?t]
          readdressing.update_from [where i = i and s = s and now = now, of ?t] assms(1) s
        by (simp add: t' lan_rows_ok_def)
    qed
  next
    case (RevokeRequest i)
    have "?t' = ?t \<or> ?t' = fst (update_where (\<lambda>a. at_id a = i) (revoking_row now) ?t)"
      using update_lan_rows [of db i "revoking_row now"]
      by (auto simp: commit_request_def RevokeRequest revokeLan_commit_def gate_audit_def split: prod.splits sum.splits)
    then show ?thesis
      using assms(1) revoking.update_rows_ok revoking.update_from by (auto simp del: rows_from_refl intro: rows_from_refl)
  next
    case (ProvisionRequest row t)
    have "?t' = fst (update_where (pending_guard row) (provisioning_row t) ?t)"
      by (simp add: commit_request_def ProvisionRequest provision_commit_def update_lans_def split: prod.split)
    then show ?thesis using assms(1) provisioning.update_rows_ok provisioning.update_from by simp
  next
    case (WriteRequest row w t)
    have "?t' = fst (update_where (revision_guard (write_statuses w) row) (planned_row row w t) ?t)"
      using lan_commit_planned [of db row w t] assms(2) by (simp add: commit_request_def WriteRequest request_ok_def)
    then show ?thesis using assms(1) planned.update_rows_ok planned.update_from by simp
  qed (use assms(1) in \<open>simp add: commit_request_def\<close>)
  then show "lan_rows_ok ?t'" "rows_from ?t ?t'" by auto
qed

lemma created_rows:
  "gd_attachments (fst (createLan_commit db row)) = gd_attachments db \<or>
   (gd_attachments (fst (createLan_commit db row)) = gd_attachments db @ [row] \<and>
      (\<forall>b \<in> set (gd_attachments db). \<not> lan_collides row b))"
  by (auto simp: createLan_commit_def gate_audit_def list_ex_iff)

lemma appended_rows_ok:
  assumes "lan_rows_ok t" "\<forall>b \<in> set t. \<not> lan_collides row b" "lan_row_ok row"
  shows "lan_rows_ok (t @ [row])"
  using assms lan_collides_sym [of row]
  by (auto simp: lan_rows_ok_def pairwise_free_def lan_collides_def)

section \<open>The invariant holds in every run\<close>

lemma lan_inv_requests:
  assumes "lan_inv s" "set R \<subseteq> set (ls_requests s)"
  shows "lan_inv (s\<lparr>ls_requests := R\<rparr>)"
  using assms by (auto simp: lan_inv_def)

lemma lan_inv_drop: "lan_inv s \<Longrightarrow> lan_inv (drop_request r s)"
  unfolding drop_request_def by (rule lan_inv_requests) (auto simp: set_remove1_subset notin_set_remove1)

lemma lan_inv_add:
  "lan_inv s \<Longrightarrow> request_ok (gd_attachments (ls_db s)) (ls_issued s) r \<Longrightarrow> lan_inv (add_request r s)"
  by (simp add: lan_inv_def add_request_def)

lemma lan_inv_db:
  assumes inv: "lan_inv s" and ok: "lan_rows_ok (gd_attachments db)" and "rows_from (gd_attachments (ls_db s)) (gd_attachments db)"
  shows "lan_inv (s\<lparr>ls_db := db\<rparr>)"
proof -
  have "at_id ` set (gd_attachments db) \<subseteq> set (ls_issued s)"
    using rows_from_ids [OF assms(3)] inv unfolding lan_inv_def by blast
  moreover have "request_ok (gd_attachments db) (ls_issued s) r" if "r \<in> set (ls_requests s)" for r
    using that inv request_ok_from [OF _ assms(3) subset_refl] by (simp add: lan_inv_def)
  ultimately show ?thesis using ok by (simp add: lan_inv_def)
qed

lemma decision_ok:
  assumes "lan_decision db nodes gate row now = Some w"
  shows "write_ok row w"
  using assms evidence_sound(2) [of db nodes gate row now]
  by (auto simp: lan_decision_def write_ok_def split: if_splits sum.splits lan_write.split)

lemma new_row_ok:
  "settings_ok (li_addressMode s) (li_staticAddress s) (li_staticGateway s) \<Longrightarrow> lan_row_ok (new_lan_row sha i t dto s now)"
  by (simp add: new_lan_row_def lan_row_ok_def)

lemma createLan_read_settings:
  assumes "createLan_read sha date_parse db now t dto = Inr s"
  shows "settings_ok (li_addressMode s) (li_staticAddress s) (li_staticGateway s)"
proof -
  have "\<exists>input. normalizeLanAddress input [] = Inr s"
    using assms by (auto simp: createLan_read_def split: sum.splits if_splits option.splits)
  then show ?thesis using normalized_settings by blast
qed

lemma updateAddressing_read_settings:
  assumes "updateAddressing_read sha date_parse db now t i dto = Inr (row, s)"
  shows "settings_ok (li_addressMode s) (li_staticAddress s) (li_staticGateway s)"
proof -
  have "\<exists>input. normalizeLanAddress input [] = Inr s"
    using assms by (auto simp: updateAddressing_read_def split: sum.splits if_splits option.splits)
  then show ?thesis using normalized_settings by blast
qed

lemma lan_inv_create:
  assumes inv: "lan_inv s" and fresh: "i \<notin> set (ls_issued s)" and row: "lan_row_ok row" "at_id row = i"
  shows "lan_inv (s\<lparr>ls_db := fst (createLan_commit (ls_db s) row), ls_issued := i # ls_issued s\<rparr>)"
proof -
  let ?t = "gd_attachments (ls_db s)" and ?t' = "gd_attachments (fst (createLan_commit (ls_db s) row))"
  have t': "?t' = ?t \<or> ?t' = ?t @ [row] \<and> (\<forall>b \<in> set ?t. \<not> lan_collides row b)" by (rule created_rows)
  have "at_id ` set ?t \<subseteq> set (ls_issued s)" using inv by (simp add: lan_inv_def)
  then have ids: "at_id ` set ?t' \<subseteq> set (i # ls_issued s)" using t' row(2) by (elim disjE) auto
  have rows: "lan_rows_ok ?t'" using t' inv appended_rows_ok [of ?t row] row(1) by (auto simp: lan_inv_def)
  have "request_ok ?t' (i # ls_issued s) r" if r: "r \<in> set (ls_requests s)" for r
  proof -
    have old: "request_ok ?t (ls_issued s) r" using inv r by (simp add: lan_inv_def)
    show ?thesis
    proof (cases r)
      case (WriteRequest row' w now)
      then have "at_id row' \<noteq> i" using old fresh by (auto simp: request_ok_def)
      then show ?thesis using old t' row(2) by (auto simp: request_ok_def WriteRequest)
    qed (use old in \<open>auto simp: request_ok_def\<close>)
  qed
  then show ?thesis using ids rows by (simp add: lan_inv_def)
qed

lemma lan_step_inv: "lan_step sha date_parse s s' \<Longrightarrow> lan_inv s \<Longrightarrow> lan_inv s'"
proof (induction rule: lan_step.induct)
  case (ask_create s now tenantId dto addressing)
  then show ?case using createLan_read_settings by (intro lan_inv_add) (auto simp: request_ok_def)
next
  case (ask_addressing s now tenantId i dto row address)
  then show ?case using updateAddressing_read_settings by (intro lan_inv_add) (auto simp: request_ok_def)
next
  case (plan_write row s gate nodes now w)
  have "lan_evolves row a" if "a \<in> set (gd_attachments (ls_db s))" "at_id a = at_id row" for a
    using that plan_write(1,5) distinct_key_eq [of at_id "gd_attachments (ls_db s)" a row]
    by (auto simp: lan_inv_def lan_rows_ok_def pairwise_free_def)
  moreover have "at_id row \<in> set (ls_issued s)" using plan_write(1,5) by (auto simp: lan_inv_def)
  ultimately show ?case using plan_write(4,5) decision_ok by (intro lan_inv_add) (auto simp: request_ok_def)
next
  case (commit_create tenantId dto addressing now s i)
  then have "settings_ok (li_addressMode addressing) (li_staticAddress addressing) (li_staticGateway addressing)"
    by (auto simp: lan_inv_def request_ok_def)
  then show ?case
    using commit_create by (intro lan_inv_drop lan_inv_create new_row_ok) (simp_all add: new_lan_row_def)
next
  case (commit r s now)
  then have "lan_rows_ok (gd_attachments (ls_db s))" "request_ok (gd_attachments (ls_db s)) (ls_issued s) r"
    by (auto simp: lan_inv_def)
  then show ?case using commit commit_rows [of "ls_db s" "ls_issued s" r now] by (intro lan_inv_drop lan_inv_db) auto
next
  case (environment db P s)
  then have "lan_rows_ok (gd_attachments db)" "rows_from (gd_attachments (ls_db s)) (gd_attachments db)"
    using rows_ok_filter rows_from_filter by (auto simp: lan_inv_def)
  then show ?case using environment by (intro lan_inv_db)
qed (auto intro: lan_inv_drop lan_inv_add simp: request_ok_def)

abbreviation lan_run :: "(string \<Rightarrow> string) \<Rightarrow> (string \<Rightarrow> millis option) \<Rightarrow> lan_state \<Rightarrow> lan_state \<Rightarrow> bool" where
  "lan_run sha date_parse \<equiv> (lan_step sha date_parse)\<^sup>*\<^sup>*"

definition lan_start :: "lan_state \<Rightarrow> bool" where
  "lan_start s \<longleftrightarrow> gd_attachments (ls_db s) = [] \<and> ls_requests s = []"

lemma lan_run_inv: "lan_run sha date_parse s s' \<Longrightarrow> lan_inv s \<Longrightarrow> lan_inv s'"
  by (induction rule: rtranclp_induct) (auto intro: lan_step_inv)

lemma lan_start_inv: "lan_start s \<Longrightarrow> lan_inv s"
  by (simp add: lan_start_def lan_inv_def lan_rows_ok_def pairwise_free_def)

lemmas lan_reachable_inv = lan_run_inv [OF _ lan_start_inv]

end
