(* ===== verification/LanSamples.thy ===== *)
theory LanSamples
  imports LanSafety
begin

text \<open>
  A concrete run of the attachment machine: an application asks for a dynamic LAN address, is
  provisioned, and is activated by the reports of its gate and its node.
\<close>

definition some_sha :: "string \<Rightarrow> string" where
  "some_sha s = replicate 64 CHR ''a''"

definition no_dates :: "string \<Rightarrow> millis option" where
  "no_dates s = None"

definition gate_id1 :: uuid where "gate_id1 = ''aaaaaaaa-aaaa-4aaa-8aaa-aaaaaaaaaaaa''"
definition tenant_id1 :: uuid where "tenant_id1 = ''bbbbbbbb-bbbb-4bbb-8bbb-bbbbbbbbbbbb''"
definition app_id1 :: uuid where "app_id1 = ''cccccccc-cccc-4ccc-8ccc-cccccccccccc''"
definition net_id1 :: uuid where "net_id1 = ''dddddddd-dddd-4ddd-8ddd-dddddddddddd''"
definition lan_id1 :: uuid where "lan_id1 = ''eeeeeeee-eeee-4eee-8eee-eeeeeeeeeeee''"

definition lan_gate :: gate_row where
  "lan_gate =
     (new_gate gate_id1 tenant_id1 ''site'' (''serverkey'', ''cipher'') (52000, \<lparr>gt_cidr = ''100.96.0.0/30'', gt_server = ''100.96.0.1/30'', gt_client = ''100.96.0.2/30''\<rparr>))
       \<lparr>ga_status := ''Ready'', ga_publicKey := Some ''clientkey'', ga_agentTokenHash := Some ''hash'',
        ga_agentVersion := Some ''gate-l2-v3''\<rparr>"

definition lan_db0 :: gate_db where
  "lan_db0 =
     \<lparr>gd_tenants = [tenant_id1], gd_gates = [lan_gate], gd_enrollments = [], gd_attachments = [],
      gd_apps = [\<lparr>lapp_id = app_id1, lapp_tenantId = tenant_id1, lapp_pendingDeletion = False, lapp_desiredReplicas = 1,
        lapp_networkIds = [net_id1]\<rparr>],
      gd_networks = [\<lparr>lnet_id = net_id1, lnet_tenantId = tenant_id1, lnet_status = ''Ready''\<rparr>], gd_audit = []\<rparr>"

definition lan_dto :: create_lan_dto where
  "lan_dto =
     \<lparr>cl_singleAppId = app_id1, cl_networkId = net_id1, cl_gateId = gate_id1, cl_lanInterface = ''eth1'',
      cl_lanCidr = ''192.168.50.0/24'', cl_uplinkMode = None, cl_addressMode = None, cl_staticAddress = None,
      cl_staticGateway = None\<rparr>"

definition lan_dhcp :: lan_ip_settings where
  "lan_dhcp = \<lparr>li_addressMode = ''DHCP'', li_lanCidr = ''192.168.50.0/24'', li_staticAddress = None, li_staticGateway = None\<rparr>"

definition lan_proof_part :: "string \<Rightarrow> rat \<Rightarrow> lan_proof" where
  "lan_proof_part source t =
     \<lparr>lp_source = source, lp_attachmentId = lan_id1, lp_tenantId = tenant_id1, lp_singleAppId = app_id1, lp_gateId = gate_id1,
      lp_configurationRevision = 1, lp_macAddress = ''aa:aa:aa:aa:aa:aa'', lp_observedAtMs = t\<rparr>"

definition lan_gate_proof :: gate_proof where
  "lan_gate_proof =
     lan_proof.extend (lan_proof_part ''gate-agent'' 100000)
       (gate_proof.fields True True True 99000)"

definition lan_node_proof :: node_proof where
  "lan_node_proof =
     lan_proof.extend (lan_proof_part ''node-agent'' 100000)
       (node_proof.fields (replicate 64 CHR ''0'') ''abcdefghijkl'' ''DHCP'' ''192.168.50.7'' 24 True True True True
          (Some ''192.168.50.1'') (Some 3700000) None None)"

definition lan_gate_seen :: gate_row where
  "lan_gate_seen =
     lan_gate\<lparr>ga_observedL2 := Some [lan_gate_proof], ga_observedL2At := Some 100000, ga_observedL2AppliedAt := Some 100000\<rparr>"

definition lan_logs :: "log_marker list" where
  "lan_logs =
     [\<lparr>lm_displayed = ''abcdefghijkl'', lm_payload = ProofMarker lan_node_proof\<rparr>,
      \<lparr>lm_displayed = ''abcdefghijkl'', lm_payload = ReconcileMarker ''abcdefghijkl'' 100500 [lan_id1]\<rparr>]"

definition lan_nodes :: "node_snapshot list" where
  "lan_nodes =
     [\<lparr>ns_taskId = ''abcdefghijkl'', ns_observedAtMs = 100500, ns_attachmentIds = [lan_id1], ns_proofs = [lan_node_proof]\<rparr>]"

lemma lan_nodes_read: "node_snapshots [''abcdefghijkl''] lan_logs 101000 = Inr lan_nodes"
  by code_simp

definition lan_row1 :: lan_row where
  "lan_row1 = new_lan_row some_sha lan_id1 tenant_id1 lan_dto lan_dhcp 1000"

definition lan_row2 :: lan_row where
  "lan_row2 = provisioning_row 2000 lan_row1"

definition lan_result :: lan_activation where
  "lan_result = \<lparr>la_address = ''192.168.50.7'', la_leaseExpiresAt = Some 3700000\<rparr>"

definition lan_active :: lan_row where
  "lan_active = written_row (ActivateLan lan_result) 101000 lan_row2"

definition lan_revoking :: lan_row where
  "lan_revoking = revoking_row 200000 lan_active"

text \<open>The database after the creation, the provisioning, the reports, the activation and the revocation.\<close>

definition lan_db1 :: gate_db where
  "lan_db1 = lan_db0\<lparr>gd_attachments := [lan_row1], gd_audit := [(''remote-lan-attachment.create'', lan_id1)]\<rparr>"

definition lan_db2 :: gate_db where
  "lan_db2 = lan_db1\<lparr>gd_attachments := [lan_row2]\<rparr>"

definition lan_db3 :: gate_db where
  "lan_db3 = lan_db2\<lparr>gd_gates := [lan_gate_seen]\<rparr>"

definition lan_db4 :: gate_db where
  "lan_db4 = lan_db3\<lparr>gd_attachments := [lan_active]\<rparr>"

definition lan_db5 :: gate_db where
  "lan_db5 = lan_db4\<lparr>gd_attachments := [lan_revoking],
     gd_audit := [(''remote-lan-attachment.create'', lan_id1), (''remote-lan-attachment.revoke'', lan_id1)]\<rparr>"

lemma lan_row1_ready: "lan_ready some_sha no_dates lan_db1 2000 lan_row1"
  by code_simp

lemma lan_row2_evidence: "lan_decision lan_db3 (Some lan_nodes) lan_gate_seen lan_row2 101000 = Some (ActivateLan lan_result)"
  by code_simp

lemma lan_commits:
  "fst (createLan_commit lan_db0 lan_row1) = lan_db1"
  "commit_request 0 (ProvisionRequest lan_row1 2000) lan_db1 = lan_db2"
  "commit_request 0 (WriteRequest lan_row2 (ActivateLan lan_result) 101000) lan_db3 = lan_db4"
  "commit_request 200000 (RevokeRequest lan_id1) lan_db4 = lan_db5"
  by code_simp+

lemma lan_reads:
  "createLan_read some_sha no_dates lan_db0 1000 tenant_id1 lan_dto = Inr lan_dhcp"
  "tenant_lan_row lan_db4 tenant_id1 lan_id1 = Some lan_active"
  "find_gate lan_db3 (at_gateId lan_row2) = Some lan_gate_seen"
  by code_simp+

lemma lan_statuses:
  "at_status lan_row1 = ''Pending''" "at_status lan_row2 = ''Provisioning''" "at_status lan_active = ''Active''"
  "at_status lan_revoking = ''Revoking''" "at_id lan_row1 = lan_id1" "at_id lan_active = lan_id1" "at_id lan_revoking = lan_id1"
  "at_dhcpAddress lan_active = Some ''192.168.50.7''" "at_gateId lan_active = gate_id1" "at_gateId lan_revoking = gate_id1"
  by code_simp+

definition lan_quiet :: "gate_db \<Rightarrow> uuid list \<Rightarrow> lan_state" where
  "lan_quiet db issued = \<lparr>ls_db = db, ls_requests = [], ls_issued = issued\<rparr>"

lemma lan_quiet_simps [simp]:
  "ls_db (lan_quiet db issued) = db" "ls_requests (lan_quiet db issued) = []" "ls_issued (lan_quiet db issued) = issued"
  by (simp_all add: lan_quiet_def)

abbreviation lan_s0 :: lan_state where "lan_s0 \<equiv> lan_quiet lan_db0 []"
abbreviation lan_s1 :: lan_state where "lan_s1 \<equiv> lan_quiet lan_db1 [lan_id1]"
abbreviation lan_s3 :: lan_state where "lan_s3 \<equiv> lan_quiet lan_db3 [lan_id1]"
abbreviation lan_s4 :: lan_state where "lan_s4 \<equiv> lan_quiet lan_db4 [lan_id1]"
abbreviation lan_s5 :: lan_state where "lan_s5 \<equiv> lan_quiet lan_db5 [lan_id1]"

text \<open>A request that is made and committed at once.\<close>

lemma lan_request_run:
  assumes "lan_step sha date_parse (lan_quiet db issued) (add_request r (lan_quiet db issued))"
    and "commit_request now r db = db'"
  shows "lan_run sha date_parse (lan_quiet db issued) (lan_quiet db' issued)"
proof -
  have "lan_step sha date_parse (add_request r (lan_quiet db issued))
    (drop_request r ((add_request r (lan_quiet db issued))\<lparr>ls_db := commit_request now r (ls_db (add_request r (lan_quiet db issued)))\<rparr>))"
    by (rule lan_step.commit) (simp add: add_request_def)
  then have "lan_step sha date_parse (add_request r (lan_quiet db issued)) (lan_quiet db' issued)"
    using assms(2) by (simp add: add_request_def drop_request_def lan_quiet_def)
  with assms(1) show ?thesis by (meson rtranclp.rtrancl_refl rtranclp.rtrancl_into_rtrancl)
qed

lemma lan_environment_run:
  "gd_attachments db' = gd_attachments db \<Longrightarrow> lan_run sha date_parse (lan_quiet db issued) (lan_quiet db' issued)"
  using lan_step.environment [of db' "\<lambda>_. True" "lan_quiet db issued" sha date_parse]
  by (simp add: lan_quiet_def)

lemma lan_sample_start: "lan_start lan_s0"
  by (simp add: lan_start_def lan_db0_def)

lemma lan_sample_run1: "lan_run some_sha no_dates lan_s0 lan_s1"
proof -
  let ?r = "CreateRequest tenant_id1 lan_dto lan_dhcp 1000"
  have 1: "lan_step some_sha no_dates lan_s0 (add_request ?r lan_s0)"
    by (rule lan_step.ask_create) (simp add: lan_reads)
  have "lan_step some_sha no_dates (add_request ?r lan_s0) (drop_request ?r ((add_request ?r lan_s0)
      \<lparr>ls_db := fst (createLan_commit (ls_db (add_request ?r lan_s0)) (new_lan_row some_sha lan_id1 tenant_id1 lan_dto lan_dhcp 1000)),
       ls_issued := lan_id1 # ls_issued (add_request ?r lan_s0)\<rparr>))"
    by (rule lan_step.commit_create) (simp_all add: add_request_def)
  then have "lan_step some_sha no_dates (add_request ?r lan_s0) lan_s1"
    using lan_commits(1) by (simp add: add_request_def drop_request_def lan_row1_def lan_quiet_def)
  with 1 show ?thesis by (meson rtranclp.rtrancl_refl rtranclp.rtrancl_into_rtrancl)
qed

lemma lan_sample_run3: "lan_run some_sha no_dates lan_s0 lan_s3"
proof -
  have "lan_run some_sha no_dates lan_s1 (lan_quiet lan_db2 [lan_id1])"
    by (rule lan_request_run [OF lan_step.plan_provision lan_commits(2)])
      (simp_all add: lan_row1_ready lan_statuses, simp add: lan_db1_def)
  moreover have "lan_run some_sha no_dates (lan_quiet lan_db2 [lan_id1]) lan_s3"
    by (rule lan_environment_run) (simp add: lan_db3_def)
  ultimately show ?thesis using lan_sample_run1 by (meson rtranclp_trans)
qed

lemma lan_sample_run4: "lan_run some_sha no_dates lan_s0 lan_s4"
proof -
  have "lan_run some_sha no_dates lan_s3 lan_s4"
    by (rule lan_request_run [OF lan_step.plan_write lan_commits(3)])
      (use lan_reads(3) lan_row2_evidence in \<open>simp_all add: lan_statuses, simp_all add: lan_db3_def lan_db2_def\<close>)
  with lan_sample_run3 show ?thesis by (rule rtranclp_trans)
qed

lemma lan_sample_run5: "lan_run some_sha no_dates lan_s0 lan_s5"
proof -
  have "lan_step some_sha no_dates lan_s4 (add_request (RevokeRequest (at_id lan_active)) lan_s4)"
    by (rule lan_step.ask_revoke [where tenantId = tenant_id1 and i = lan_id1]) (simp add: lan_reads)
  then have "lan_run some_sha no_dates lan_s4 lan_s5"
    by (rule lan_request_run [where now = 200000]) (simp add: lan_commits lan_statuses)
  with lan_sample_run4 show ?thesis by (rule rtranclp_trans)
qed

end
