(* ===== verification/LanProperties.thy ===== *)
theory LanProperties
  imports LanSamples
begin

text \<open>
  The properties of the remote LAN attachments: what holds in every run of the machine of \<open>LanSafety\<close>,
  what one pass of the lifecycle service leaves behind, and the settings that are accepted.
\<close>

section \<open>Revocation\<close>

definition revoked_status :: "lan_row \<Rightarrow> bool" where
  "revoked_status a \<longleftrightarrow> at_status a \<in> {''Revoking'', ''Revoked''}"

definition row_revoked :: "uuid \<Rightarrow> lan_row list \<Rightarrow> bool" where
  "row_revoked i t \<longleftrightarrow> (\<forall>a \<in> set t. at_id a = i \<longrightarrow> revoked_status a)"

definition no_edit_pending :: "uuid \<Rightarrow> lan_state \<Rightarrow> bool" where
  "no_edit_pending i s \<longleftrightarrow> (\<forall>address. AddressRequest i address \<notin> set (ls_requests s))"

lemma row_revoked_update:
  assumes "row_revoked i t" and "\<And>a. at_id a = i \<Longrightarrow> revoked_status a \<Longrightarrow> P a \<Longrightarrow> revoked_status (f a)"
    and "\<And>a. P a \<Longrightarrow> at_id (f a) = at_id a"
  shows "row_revoked i (fst (update_where P f t))"
  using assms by (auto simp: row_revoked_def set_update_where)

lemma update_lans_rows: "gd_attachments (fst (update_lans db P f)) = fst (update_where P f (gd_attachments db))"
  by (simp add: update_lans_def case_prod_beta)

lemma commit_keeps_revoked:
  assumes "row_revoked i (gd_attachments db)" and "\<forall>s. r \<noteq> AddressRequest i s"
  shows "row_revoked i (gd_attachments (commit_request now r db))"
proof (cases r)
  case (AddressRequest j s)
  then have "j \<noteq> i" using assms(2) by blast
  then have "row_revoked i (fst (update_where (\<lambda>a. at_id a = j) (readdressed s now) (gd_attachments db)))"
    using assms(1) by (intro row_revoked_update) (auto simp: readdressed_def)
  then show ?thesis using readdressed_rows [of db now j s] assms(1) by (auto simp: commit_request_def AddressRequest)
next
  case (RevokeRequest j)
  have "row_revoked i (fst (update_where (\<lambda>a. at_id a = j) (revoking_row now) (gd_attachments db)))"
    using assms(1) by (intro row_revoked_update) (auto simp: revoking_row_def revoked_status_def)
  then show ?thesis
    using update_lan_rows [of db j "revoking_row now"] assms(1)
    by (auto simp: commit_request_def RevokeRequest revokeLan_commit_def gate_audit_def split: prod.splits sum.splits)
next
  case (ProvisionRequest row t)
  have "row_revoked i (fst (update_where (pending_guard row) (provisioning_row t) (gd_attachments db)))"
    using assms(1)
    by (intro row_revoked_update) (auto simp: provisioning_row_def revoked_status_def pending_guard_def)
  then show ?thesis by (simp add: commit_request_def ProvisionRequest provision_commit_def update_lans_rows)
next
  case (WriteRequest row w t)
  have "row_revoked i (fst (update_where (revision_guard (write_statuses w) row) (written_row w t) (gd_attachments db)))"
    using assms(1)
    by (intro row_revoked_update)
      (auto simp: revoked_status_def revision_guard_def write_statuses_def written_row_def split: lan_write.splits)
  then show ?thesis by (simp add: commit_request_def WriteRequest lan_commit_def update_lans_rows)
qed (use assms in \<open>simp add: commit_request_def\<close>)

lemma no_edit_drop: "no_edit_pending i s \<Longrightarrow> no_edit_pending i (drop_request r s)"
  unfolding no_edit_pending_def drop_request_def by (auto dest: notin_set_remove1)

lemma edit_refused:
  assumes "updateAddressing_read sha date_parse db now t i dto = Inr (row, s)"
  shows "row \<in> set (gd_attachments db)" "at_id row = i" "\<not> revoked_status row"
  using assms
  by (auto simp: updateAddressing_read_def tenant_lan_row_def revoked_status_def
      split: option.splits if_splits sum.splits dest!: head_opt_filter_Some)

lemma revoked_step:
  assumes "lan_step sha date_parse s s'"
    and "row_revoked i (gd_attachments (ls_db s))" "no_edit_pending i s" "i \<in> set (ls_issued s)"
  shows "row_revoked i (gd_attachments (ls_db s')) \<and> no_edit_pending i s' \<and> i \<in> set (ls_issued s')"
  using assms
proof (induction rule: lan_step.induct)
  case (ask_addressing s now tenantId j dto row address)
  then have "j \<noteq> i" using edit_refused [OF ask_addressing(1)] by (auto simp: row_revoked_def)
  then show ?case using ask_addressing by (simp add: add_request_def no_edit_pending_def)
next
  case (commit_create tenantId dto addressing now s j)
  then have "j \<noteq> i" by blast
  then have "row_revoked i (gd_attachments (fst (createLan_commit (ls_db s) (new_lan_row sha j tenantId dto addressing now))))"
    using created_rows [of "ls_db s" "new_lan_row sha j tenantId dto addressing now"] commit_create(3)
    by (auto simp: row_revoked_def new_lan_row_def)
  moreover have "no_edit_pending i (drop_request (CreateRequest tenantId dto addressing now) s)"
    using commit_create(4) by (rule no_edit_drop)
  ultimately show ?case using commit_create(5) by (simp add: drop_request_def no_edit_pending_def)
next
  case (commit r s now)
  then have "\<forall>x. r \<noteq> AddressRequest i x" by (auto simp: no_edit_pending_def)
  then have "row_revoked i (gd_attachments (commit_request now r (ls_db s)))"
    using commit(2) by (intro commit_keeps_revoked)
  moreover have "no_edit_pending i (drop_request r s)" using commit(3) by (rule no_edit_drop)
  ultimately show ?case using commit(4) by (simp add: drop_request_def no_edit_pending_def)
next
  case (abandon s r)
  then show ?case using no_edit_drop [of i s r] by (simp add: drop_request_def)
next
  case (environment db P s)
  then show ?case by (auto simp: row_revoked_def no_edit_pending_def)
qed (auto simp: add_request_def no_edit_pending_def)

lemma revoked_run:
  "lan_run sha date_parse s s' \<Longrightarrow> row_revoked i (gd_attachments (ls_db s)) \<Longrightarrow> no_edit_pending i s \<Longrightarrow>
     i \<in> set (ls_issued s) \<Longrightarrow> row_revoked i (gd_attachments (ls_db s')) \<and> no_edit_pending i s' \<and> i \<in> set (ls_issued s')"
proof (induction rule: rtranclp_induct)
  case (step t u)
  then show ?case using revoked_step by blast
qed simp

section \<open>One pass\<close>

text \<open>What a pass makes of the row it has read.\<close>

definition pass_row :: "gate_db \<Rightarrow> node_snapshot list option \<Rightarrow> millis \<Rightarrow> lan_row \<Rightarrow> lan_row" where
  "pass_row db nodes now row =
     (case Option.bind (find_gate db (at_gateId row)) (\<lambda>gate. lan_decision db nodes gate row now) of
        None \<Rightarrow> row | Some w \<Rightarrow> written_row w now row)"

lemma decision_status:
  assumes "lan_decision db nodes gate row now = Some w" "at_status row \<in> {''Provisioning'', ''Active'', ''Revoking''}"
  shows "at_status row \<in> set (write_statuses w)"
  using assms by (auto simp: lan_decision_def write_statuses_def split: if_splits sum.splits)

lemma commit_only_row:
  assumes "distinct (map at_id (gd_attachments db))" "row \<in> set (gd_attachments db)" "at_status row \<in> set (write_statuses w)"
  shows "gd_attachments (fst (lan_commit db now row w)) =
    map (\<lambda>a. if at_id a = at_id row then written_row w now a else a) (gd_attachments db)"
proof -
  have "revision_guard (write_statuses w) row a \<longleftrightarrow> at_id a = at_id row" if "a \<in> set (gd_attachments db)" for a
    using that assms distinct_key_eq [of at_id "gd_attachments db" a row] by (auto simp: revision_guard_def)
  then show ?thesis
    by (auto simp: lan_commit_def update_lans_def update_where_def split: prod.split)
qed

lemma written_id [simp]: "at_id (written_row w now a) = at_id a"
  using written_identity(1) [of w now a] by (simp add: lan_identity_def)

lemma pass_id [simp]: "at_id (pass_row db nodes now row) = at_id row"
  by (auto simp: pass_row_def split: option.split)

lemma pass_rows:
  assumes "distinct (map at_id (gd_attachments db))" "set rows \<subseteq> set (gd_attachments db)" "distinct (map at_id rows)"
    and "\<forall>row \<in> set rows. at_status row \<in> {''Provisioning'', ''Active'', ''Revoking''}"
  shows "gd_attachments (fst (activation_rows snapshot nodes (\<lambda>_ d. d) now rows db report)) =
    map (\<lambda>a. if at_id a \<in> at_id ` set rows then pass_row snapshot nodes now a else a) (gd_attachments db)"
  using assms
proof (induction rows arbitrary: db report)
  case (Cons row rows)
  let ?w = "Option.bind (find_gate snapshot (at_gateId row)) (\<lambda>gate. lan_decision snapshot nodes gate row now)"
  have row: "row \<in> set (gd_attachments db)" "at_status row \<in> {''Provisioning'', ''Active'', ''Revoking''}"
    and other: "at_id row \<notin> at_id ` set rows"
    using Cons.prems by auto
  have self: "a = row" if "a \<in> set (gd_attachments db)" "at_id a = at_id row" for a
    using that row(1) distinct_key_eq [OF Cons.prems(1)] by blast
  show ?case
  proof (cases ?w)
    case None
    then have "pass_row snapshot nodes now row = row" by (simp add: pass_row_def)
    moreover have "gd_attachments (fst (activation_rows snapshot nodes (\<lambda>_ d. d) now rows db report)) =
        map (\<lambda>a. if at_id a \<in> at_id ` set rows then pass_row snapshot nodes now a else a) (gd_attachments db)"
      using Cons.prems by (intro Cons.IH) auto
    ultimately show ?thesis using None other by (auto dest: self)
  next
    case (Some w)
    let ?db = "fst (lan_commit db now row w)"
    obtain gate where "lan_decision snapshot nodes gate row now = Some w" using Some by (auto simp: bind_eq_Some_conv)
    then have status: "at_status row \<in> set (write_statuses w)" using row(2) by (rule decision_status)
    have t: "gd_attachments ?db = map (\<lambda>a. if at_id a = at_id row then written_row w now a else a) (gd_attachments db)"
      by (rule commit_only_row [OF Cons.prems(1) row(1) status])
    have ids: "map at_id (gd_attachments ?db) = map at_id (gd_attachments db)" by (simp add: t)
    have sub: "set rows \<subseteq> set (gd_attachments ?db)"
    proof
      fix r assume r: "r \<in> set rows"
      then have "at_id r \<noteq> at_id row" using other by (metis imageI)
      then have "r = (if at_id r = at_id row then written_row w now r else r)" by simp
      moreover have "r \<in> set (gd_attachments db)" using r Cons.prems(2) by auto
      ultimately show "r \<in> set (gd_attachments ?db)" unfolding t set_map by (rule image_eqI)
    qed
    have p: "pass_row snapshot nodes now row = written_row w now row" by (simp add: pass_row_def Some)
    have "gd_attachments (fst (activation_rows snapshot nodes (\<lambda>_ d. d) now rows ?db report')) =
        map (\<lambda>a. if at_id a \<in> at_id ` set rows then pass_row snapshot nodes now a else a) (gd_attachments ?db)" for report'
      using Cons.prems sub by (intro Cons.IH) (auto simp: ids)
    then have "gd_attachments (fst (activation_rows snapshot nodes (\<lambda>_ d. d) now (row # rows) db report)) =
        map (\<lambda>a. if at_id a \<in> at_id ` set rows then pass_row snapshot nodes now a else a) (gd_attachments ?db)"
      by (simp add: Some split: prod.split) (metis fst_conv)
    then show ?thesis using other by (auto simp: t p dest: self)
  qed
qed simp

section \<open>The properties\<close>

lemma pass_of:
  assumes "reconcileActivation True healthy logs (\<lambda>_ d. d) db now = (db', report)"
    and "distinct (map at_id (gd_attachments db))" and "a \<in> set (gd_attachments db')"
  obtains row nodes where "row \<in> set (gd_attachments db)" "at_id a = at_id row"
    "a = (if at_status row \<in> {''Provisioning'', ''Active'', ''Revoking''} then pass_row db nodes now row else row)"
    "nodes = (if \<not> healthy then None
       else (case logs of Inl _ \<Rightarrow> None
             | Inr (tasks, markers) \<Rightarrow> (case node_snapshots tasks markers now of Inl _ \<Rightarrow> None | Inr ns \<Rightarrow> Some ns)))"
proof -
  let ?rows = "filter (\<lambda>a. at_status a \<in> {''Provisioning'', ''Active'', ''Revoking''}) (gd_attachments db)"
  let ?nodes = "if \<not> healthy then None
       else (case logs of Inl _ \<Rightarrow> None
             | Inr (tasks, markers) \<Rightarrow> (case node_snapshots tasks markers now of Inl _ \<Rightarrow> None | Inr ns \<Rightarrow> Some ns))"
  have "gd_attachments db' = map (\<lambda>a. if at_id a \<in> at_id ` set ?rows then pass_row db ?nodes now a else a) (gd_attachments db)"
  proof (cases "?rows = []")
    case True
    then show ?thesis using assms(1) unfolding reconcileActivation_def Let_def by auto
  next
    case False
    have "activation_rows db ?nodes (\<lambda>_ d. d) now ?rows db \<lparr>ar_activated = 0, ar_revoked = 0, ar_degraded = 0\<rparr> = (db', report)"
      using assms(1) False unfolding reconcileActivation_def Let_def by simp
    moreover have "gd_attachments (fst (activation_rows db ?nodes (\<lambda>_ d. d) now ?rows db
        \<lparr>ar_activated = 0, ar_revoked = 0, ar_degraded = 0\<rparr>)) =
      map (\<lambda>a. if at_id a \<in> at_id ` set ?rows then pass_row db ?nodes now a else a) (gd_attachments db)"
      using assms(2) by (intro pass_rows) (auto simp: distinct_map_filter)
    ultimately show ?thesis by simp
  qed
  then obtain row where row: "row \<in> set (gd_attachments db)"
    "a = (if at_id row \<in> at_id ` set ?rows then pass_row db ?nodes now row else row)"
    using assms(3) by auto
  have "at_id row \<in> at_id ` set ?rows \<longleftrightarrow> at_status row \<in> {''Provisioning'', ''Active'', ''Revoking''}"
    using row(1) distinct_key_eq [OF assms(2)] by (auto simp: image_iff)
  then show thesis using row by (intro that [of row ?nodes]) auto
qed

lemma reached_distinct: "lan_start s0 \<Longrightarrow> lan_run sha date_parse s0 s \<Longrightarrow> distinct (map at_id (gd_attachments (ls_db s)))"
  using lan_reachable_inv by (auto simp: lan_inv_def lan_rows_ok_def pairwise_free_def)

text \<open>
  C27. In every run of the LAN attachments, however requests, edits, revocations and passes interleave, an
  attachment holds an address exactly while it is \<open>Active\<close>; the address is a host of its LAN other than
  the first and last, with a lease exactly when it is dynamic, and the configured one when it is
  static; and no two attachments of a gate share a static address.
\<close>

theorem lan_addresses_are_granted:
  assumes "lan_start s0" and "lan_run sha date_parse s0 s" and "a \<in> set (gd_attachments (ls_db s))"
  shows "(if at_status a = ''Active''
      then (\<exists>network address. parseIpv4Cidr (at_lanCidr a) = Some network \<and> at_dhcpAddress a = Some address \<and>
             containsIpv4 network address \<and> ip address \<notin> {Some (nc_network network), Some (nc_broadcast network)} \<and>
             (if at_addressMode a = ''Static''
              then at_staticAddress a = Some (address @ ''/'' @ show_nat (nc_prefix network)) \<and> at_leaseExpiresAt a = None
              else at_leaseExpiresAt a \<noteq> None))
      else at_dhcpAddress a = None \<and> at_leaseExpiresAt a = None) \<and>
     \<not> list_ex (\<lambda>b. at_id b \<noteq> at_id a \<and> at_gateId b = at_gateId a \<and> same_value (at_staticAddress b) (at_staticAddress a))
         (gd_attachments (ls_db s))"
proof -
  have inv: "lan_inv s" by (rule lan_reachable_inv [OF assms(2,1)])
  then have "lan_row_ok a" using assms(3) by (auto simp: lan_inv_def lan_rows_ok_def list_all_iff)
  moreover have "\<not> list_ex (\<lambda>b. at_id b \<noteq> at_id a \<and> at_gateId b = at_gateId a \<and> same_value (at_staticAddress b) (at_staticAddress a))
      (gd_attachments (ls_db s))"
    using inv assms(3) by (auto simp: lan_inv_def lan_rows_ok_def pairwise_free_def lan_collides_def list_ex_iff)
  ultimately show ?thesis by (auto simp: lan_row_ok_def granted_address_def split: if_splits)
qed

theorem lan_addresses_are_granted_witness:
  "at_status lan_active = ''Active'' \<and> (\<exists>network. parseIpv4Cidr (at_lanCidr lan_active) = Some network \<and>
     containsIpv4 network ''192.168.50.7'')"
  using lan_addresses_are_granted [OF lan_sample_start lan_sample_run4, of lan_active] by (auto simp: lan_db4_def lan_statuses)

text \<open>
  C11. Once an attachment is revoked and no edit of its address settings was read before and is still to
  be committed, it stays \<open>Revoking\<close> or \<open>Revoked\<close> in every later state: no pass, no new edit and no
  other request brings it back.
\<close>

theorem revocation_is_final:
  assumes "lan_start s0" and "lan_run sha date_parse s0 s" and "lan_run sha date_parse s s'"
    and "r \<in> set (gd_attachments (ls_db s))" and "at_status r \<in> {''Revoking'', ''Revoked''}"
    and "\<And>address. AddressRequest (at_id r) address \<notin> set (ls_requests s)"
    and "r' \<in> set (gd_attachments (ls_db s'))" and "at_id r' = at_id r"
  shows "at_status r' \<in> {''Revoking'', ''Revoked''}"
proof -
  have inv: "lan_inv s" by (rule lan_reachable_inv [OF assms(2,1)])
  have "row_revoked (at_id r) (gd_attachments (ls_db s))"
    using assms(4,5) distinct_key_eq [OF reached_distinct [OF assms(1,2)]]
    by (auto simp: row_revoked_def revoked_status_def)
  moreover have "at_id r \<in> set (ls_issued s)" using inv assms(4) by (auto simp: lan_inv_def)
  ultimately have "row_revoked (at_id r) (gd_attachments (ls_db s'))"
    using revoked_run [OF assms(3)] assms(6) by (auto simp: no_edit_pending_def)
  then show ?thesis using assms(7,8) by (auto simp: row_revoked_def revoked_status_def)
qed

theorem revocation_is_final_witness:
  "at_status lan_revoking \<in> {''Revoking'', ''Revoked''}"
proof -
  have s: "at_status lan_revoking \<in> {''Revoking'', ''Revoked''}" by (simp add: lan_statuses)
  show ?thesis
    by (rule revocation_is_final [OF lan_sample_start lan_sample_run5 rtranclp.rtrancl_refl _ s]) (simp_all add: lan_db5_def)
qed

lemma pass_active:
  assumes "at_status row \<in> {''Provisioning'', ''Active'', ''Revoking''}" and "find_gate db (at_gateId row) \<noteq> None"
    and "at_status (pass_row db nodes now row) = ''Active''"
  shows "\<exists>gate gp np. find_gate db (at_gateId row) = Some gate \<and> lan_evidence_of db nodes gate row now gp np \<and>
     at_status row \<noteq> ''Revoking'' \<and> at_dhcpAddress (pass_row db nodes now row) = Some (np_address np)"
proof -
  obtain gate where gate: "find_gate db (at_gateId row) = Some gate" using assms(2) by auto
  show ?thesis
  proof (cases "lan_decision db nodes gate row now")
    case None
    then have "pass_row db nodes now row = row" by (simp add: pass_row_def gate)
    then show ?thesis using None assms(3) by (auto simp: lan_decision_def split: if_splits sum.splits)
  next
    case (Some w)
    then have p: "pass_row db nodes now row = written_row w now row" by (simp add: pass_row_def gate)
    obtain res where w: "w = ActivateLan res"
      using Some assms(1,3) p by (auto simp: lan_decision_def written_row_def split: if_splits sum.splits)
    then have "lan_evidence db nodes gate row now = Inr res" "at_status row \<noteq> ''Revoking''"
      using Some by (auto simp: lan_decision_def split: if_splits sum.splits)
    then show ?thesis using evidence_sound(1) [of db nodes gate row now res] gate by (auto simp: p w written_row_def)
  qed
qed

lemma pass_revoked:
  assumes "at_status row = ''Revoking''" and "at_status (pass_row db nodes now row) = ''Revoked''"
  shows "\<exists>gate. find_gate db (at_gateId row) = Some gate \<and> gate_removed gate row now \<and> nodes_removed nodes row"
  using assms
  by (auto simp: pass_row_def lan_decision_def bind_eq_Some_conv split: option.splits if_splits)

text \<open>
  C10. After a pass of the lifecycle service every \<open>Active\<close> attachment has been proven by this very pass:
  the reports of all node agents could be read, and one node proof of the current cycle and one proof
  the gate reported in the last 45 seconds both name the attachment, its tenant, application, gate,
  address of the link and configuration revision, with the data plane in order; the address is the one
  the node observed. Without the reports no attachment stays \<open>Active\<close>.
\<close>

theorem pass_leaves_only_proven_active:
  assumes "lan_start s0" and "lan_run sha date_parse s0 s"
    and "reconcileActivation True healthy logs (\<lambda>_ d. d) (ls_db s) now = (db', report)"
    and "a \<in> set (gd_attachments db')" and "at_status a = ''Active''" and "find_gate (ls_db s) (at_gateId a) \<noteq> None"
  shows "\<exists>tasks markers nodes row gate gp np. healthy \<and> logs = Inr (tasks, markers) \<and> node_snapshots tasks markers now = Inr nodes \<and>
    row \<in> set (gd_attachments (ls_db s)) \<and> lan_evolves row a \<and>
    at_configurationRevision a = at_configurationRevision row \<and> find_gate (ls_db s) (at_gateId a) = Some gate \<and>
    lan_evidence_of (ls_db s) (Some nodes) gate row now gp np \<and> at_dhcpAddress a = Some (np_address np)"
proof -
  obtain row nodes where row: "row \<in> set (gd_attachments (ls_db s))" "at_id a = at_id row"
    and a: "a = (if at_status row \<in> {''Provisioning'', ''Active'', ''Revoking''} then pass_row (ls_db s) nodes now row else row)"
    and nodes: "nodes = (if \<not> healthy then None
       else (case logs of Inl _ \<Rightarrow> None
             | Inr (tasks, markers) \<Rightarrow> (case node_snapshots tasks markers now of Inl _ \<Rightarrow> None | Inr ns \<Rightarrow> Some ns)))"
    by (rule pass_of [OF assms(3) reached_distinct [OF assms(1,2)] assms(4)])
  have status: "at_status row \<in> {''Provisioning'', ''Active'', ''Revoking''}" using a assms(5) by (auto split: if_splits)
  then have a': "a = pass_row (ls_db s) nodes now row" using a by simp
  have same: "lan_evolves row a" "at_configurationRevision a = at_configurationRevision row"
    by (auto simp: a' pass_row_def lan_evolves_def written_identity split: option.split)
  then have "at_gateId a = at_gateId row" by (simp add: lan_evolves_def lan_identity_def)
  then obtain gate gp np where g: "find_gate (ls_db s) (at_gateId a) = Some gate"
    "lan_evidence_of (ls_db s) nodes gate row now gp np" "at_dhcpAddress a = Some (np_address np)"
    using pass_active [OF status, of "ls_db s" nodes now] assms(5,6) by (auto simp: a')
  then have "nodes \<noteq> None" by (auto simp: lan_evidence_of_def authorization_ready_def)
  then obtain tasks markers ns where "healthy" "logs = Inr (tasks, markers)" "node_snapshots tasks markers now = Inr ns"
    "nodes = Some ns"
    using nodes by (auto split: if_splits sum.splits prod.splits)
  then show ?thesis using g row(1) same by blast
qed

theorem pass_leaves_only_proven_active_witness:
  "\<exists>gp np. lan_evidence_of lan_db3 (Some lan_nodes) lan_gate_seen lan_row2 101000 gp np \<and> np_address np = ''192.168.50.7''"
proof -
  let ?logs = "Inr ([''abcdefghijkl''], lan_logs) :: string + string list \<times> log_marker list"
  have evidence: "Option.bind (find_gate lan_db3 (at_gateId lan_row2)) (\<lambda>gate. lan_decision lan_db3 (Some lan_nodes) gate lan_row2 101000) =
      Some (ActivateLan lan_result)"
    by (simp add: lan_reads lan_row2_evidence)
  have commit: "lan_commit lan_db3 101000 lan_row2 (ActivateLan lan_result) = (lan_db4, 1)" by code_simp
  have rows: "filter (\<lambda>a. at_status a \<in> {''Provisioning'', ''Active'', ''Revoking''}) (gd_attachments lan_db3) = [lan_row2]"
    by (simp add: lan_db3_def lan_db2_def lan_statuses)
  have r: "reconcileActivation True True ?logs (\<lambda>_ d. d) (ls_db lan_s3) 101000 =
      (lan_db4, \<lparr>ar_activated = 1, ar_revoked = 0, ar_degraded = 0\<rparr>)"
    unfolding reconcileActivation_def Let_def lan_quiet_simps rows
    by (simp add: lan_nodes_read evidence commit report_write_def lan_statuses)
  have a: "lan_active \<in> set (gd_attachments lan_db4)" by (simp add: lan_db4_def)
  have g: "find_gate (ls_db lan_s3) (at_gateId lan_active) = Some lan_gate_seen" by code_simp
  obtain tasks markers nodes row gate gp np where "?logs = Inr (tasks, markers)" "node_snapshots tasks markers 101000 = Inr nodes"
    "row \<in> set (gd_attachments (ls_db lan_s3))" "find_gate (ls_db lan_s3) (at_gateId lan_active) = Some gate"
    "lan_evidence_of (ls_db lan_s3) (Some nodes) gate row 101000 gp np" "at_dhcpAddress lan_active = Some (np_address np)"
    using pass_leaves_only_proven_active [OF lan_sample_start lan_sample_run3 r a lan_statuses(3)] g by auto
  then show ?thesis using lan_nodes_read g by (auto simp: lan_db3_def lan_db2_def lan_statuses)
qed

text \<open>
  C28. A pass acknowledges a revocation only when the dataplane is gone: the gate, authenticated and
  reporting, applied a policy after the revocation and reports no proof of the attachment, and every node
  agent has completed a cycle after it without the attachment.
\<close>

theorem revocation_acknowledged_after_removal:
  assumes "lan_start s0" and "lan_run sha date_parse s0 s"
    and "reconcileActivation True healthy logs (\<lambda>_ d. d) (ls_db s) now = (db', report)"
    and "r \<in> set (gd_attachments (ls_db s))" and "at_status r = ''Revoking''"
    and "a \<in> set (gd_attachments db')" and "at_id a = at_id r" and "at_status a = ''Revoked''"
  shows "\<exists>tasks markers nodes gate applied. logs = Inr (tasks, markers) \<and> node_snapshots tasks markers now = Inr nodes \<and>
    find_gate (ls_db s) (at_gateId r) = Some gate \<and> gate_fresh gate r now \<and>
    ga_observedL2AppliedAt gate = Some applied \<and> at_updatedAt r \<le> applied \<and>
    \<not> list_ex (\<lambda>p. lp_attachmentId p = at_id r) (option_or (ga_observedL2 gate) []) \<and>
    list_all (\<lambda>n. of_int (at_updatedAt r) \<le> ns_observedAtMs n \<and> at_id r \<notin> set (ns_attachmentIds n)) nodes"
proof -
  obtain row nodes where row: "row \<in> set (gd_attachments (ls_db s))" "at_id a = at_id row"
    and a: "a = (if at_status row \<in> {''Provisioning'', ''Active'', ''Revoking''} then pass_row (ls_db s) nodes now row else row)"
    and nodes: "nodes = (if \<not> healthy then None
       else (case logs of Inl _ \<Rightarrow> None
             | Inr (tasks, markers) \<Rightarrow> (case node_snapshots tasks markers now of Inl _ \<Rightarrow> None | Inr ns \<Rightarrow> Some ns)))"
    by (rule pass_of [OF assms(3) reached_distinct [OF assms(1,2)] assms(6)])
  have "row = r" using row assms(4,7) distinct_key_eq [OF reached_distinct [OF assms(1,2)]] by metis
  then have "at_status (pass_row (ls_db s) nodes now r) = ''Revoked''" using a assms(5,8) by simp
  then obtain gate where g: "find_gate (ls_db s) (at_gateId r) = Some gate" "gate_removed gate r now" "nodes_removed nodes r"
    using pass_revoked [OF assms(5)] by blast
  then obtain tasks markers ns where "logs = Inr (tasks, markers)" "node_snapshots tasks markers now = Inr ns" "nodes = Some ns"
    using nodes by (auto simp: nodes_removed_def split: if_splits sum.splits prod.splits)
  then show ?thesis
    using g by (auto simp: gate_removed_def nodes_removed_def nodes_of_def option_or_def gate_proofs_def split: option.splits)
qed

definition lan_gate_removed :: gate_row where
  "lan_gate_removed = lan_gate\<lparr>ga_observedL2 := Some [], ga_observedL2At := Some 300000, ga_observedL2AppliedAt := Some 250000\<rparr>"

definition lan_db6 :: gate_db where
  "lan_db6 = lan_db5\<lparr>gd_gates := [lan_gate_removed]\<rparr>"

definition empty_cycle :: "log_marker list" where
  "empty_cycle = [\<lparr>lm_displayed = ''abcdefghijkl'', lm_payload = ReconcileMarker ''abcdefghijkl'' 300500 []\<rparr>]"

definition empty_nodes :: "node_snapshot list" where
  "empty_nodes = [\<lparr>ns_taskId = ''abcdefghijkl'', ns_observedAtMs = 300500, ns_attachmentIds = [], ns_proofs = []\<rparr>]"

theorem revocation_acknowledged_after_removal_witness:
  "\<exists>applied. ga_observedL2AppliedAt lan_gate_removed = Some applied \<and> at_updatedAt lan_revoking \<le> applied"
proof -
  let ?logs = "Inr ([''abcdefghijkl''], empty_cycle) :: string + string list \<times> log_marker list"
    and ?s = "lan_quiet lan_db6 [lan_id1]" and ?a = "written_row AcknowledgeRevocation 301000 lan_revoking"
  have run: "lan_run some_sha no_dates lan_s0 ?s"
    by (rule rtranclp_trans [OF lan_sample_run5 lan_environment_run]) (simp add: lan_db6_def)
  have nodes: "node_snapshots [''abcdefghijkl''] empty_cycle 301000 = Inr empty_nodes" by code_simp
  have decision: "Option.bind (find_gate lan_db6 (at_gateId lan_revoking)) (\<lambda>gate. lan_decision lan_db6 (Some empty_nodes) gate lan_revoking 301000) =
      Some AcknowledgeRevocation" by code_simp
  have rows: "filter (\<lambda>a. at_status a \<in> {''Provisioning'', ''Active'', ''Revoking''}) (gd_attachments lan_db6) = [lan_revoking]"
    by (simp add: lan_db6_def lan_db5_def lan_statuses)
  have commit: "lan_commit lan_db6 301000 lan_revoking AcknowledgeRevocation = (lan_db6\<lparr>gd_attachments := [?a]\<rparr>, 1)" by code_simp
  have r: "reconcileActivation True True ?logs (\<lambda>_ d. d) (ls_db ?s) 301000 =
      (lan_db6\<lparr>gd_attachments := [?a]\<rparr>, \<lparr>ar_activated = 0, ar_revoked = 1, ar_degraded = 0\<rparr>)"
    unfolding reconcileActivation_def Let_def lan_quiet_simps rows by (simp add: nodes decision commit report_write_def)
  have i: "lan_revoking \<in> set (gd_attachments (ls_db ?s))" "?a \<in> set (gd_attachments (lan_db6\<lparr>gd_attachments := [?a]\<rparr>))"
    "at_id ?a = at_id lan_revoking" "at_status ?a = ''Revoked''"
    by (simp_all add: lan_db6_def lan_db5_def written_row_def)
  have "find_gate (ls_db ?s) (at_gateId lan_revoking) = Some lan_gate_removed" by code_simp
  then show ?thesis
    using revocation_acknowledged_after_removal [OF lan_sample_start run r i(1) lan_statuses(4) i(2-4)] by auto
qed

section \<open>A revocation that an edit undoes\<close>

text \<open>\<open>updateAddressing\<close> tests the status before its transaction and writes by id: an edit read before the
  revocation and committed after it puts the attachment back to \<open>Pending\<close>.\<close>

lemma edit_after_revocation:
  assumes "gd_attachments db = [a]" and "at_status a = ''Revoking''"
  shows "(case gd_attachments (fst (updateAddressing_commit db now (at_id a) s)) of [b] \<Rightarrow> at_id b = at_id a \<and> at_status b = ''Pending''
     | _ \<Rightarrow> False)"
  using assms
  by (simp add: updateAddressing_commit_def find_row_def update_lan_def update_where_def gate_audit_def readdressed_def)

section \<open>Accepted settings and node reports\<close>

text \<open>
  C29. A static address and gateway in canonical form are accepted exactly when the LAN has a prefix between
  16 and 30, the address carries the prefix of the LAN, and address and gateway are two different hosts
  strictly inside it.
\<close>

theorem static_settings_accepted_exactly:
  assumes "parseIpv4Cidr text1 = Some c" and "p \<le> 32"
  shows "(\<exists>s. normalizeLanAddress \<lparr>lr_addressMode = Some ''Static'', lr_lanCidr = nc_normalized c,
       lr_staticAddress = Some (intToIpv4 w @ ''/'' @ show_nat p), lr_staticGateway = Some (intToIpv4 g)\<rparr> [] = Inr s) \<longleftrightarrow>
     16 \<le> nc_prefix c \<and> nc_prefix c \<le> 30 \<and> p = nc_prefix c \<and> nc_network c < w \<and> w < nc_broadcast c \<and>
     nc_network c < g \<and> g < nc_broadcast c \<and> w \<noteq> g"
  using lan_settings_exact [OF parse_ok [OF assms(1)] assms(2), of w g]
  by (simp add: static_request_def usable_host_def)

theorem static_settings_accepted_exactly_witness:
  "\<exists>s. normalizeLanAddress \<lparr>lr_addressMode = Some ''Static'', lr_lanCidr = nc_normalized (make_cidr 183501575 24),
       lr_staticAddress = Some (intToIpv4 183501575 @ ''/'' @ show_nat 24), lr_staticGateway = Some (intToIpv4 183501569)\<rparr> [] = Inr s"
proof -
  have r: "uint (nc_network (make_cidr 183501575 24)) = 183501568" "uint (nc_broadcast (make_cidr 183501575 24)) = 183501823"
    "nc_prefix (make_cidr 183501575 24) = 24"
    using make_cidr_range [of 24 183501575] by (simp_all add: make_cidr_network)
  show ?thesis
    using static_settings_accepted_exactly [OF sample_address(1), of 24 183501575 183501569] r by (simp add: word_less_def)
qed

section \<open>The operations refine the machine\<close>

definition planned_writes :: "gate_db \<Rightarrow> node_snapshot list option \<Rightarrow> millis \<Rightarrow> lan_row list \<Rightarrow> lan_request list" where
  "planned_writes db nodes now =
     List.map_filter (\<lambda>row. map_option (\<lambda>w. WriteRequest row w now)
       (Option.bind (find_gate db (at_gateId row)) (\<lambda>gate. lan_decision db nodes gate row now)))"

lemma lan_run_step: "lan_run sha date_parse s t \<Longrightarrow> lan_step sha date_parse t u \<Longrightarrow> lan_run sha date_parse s u"
  by (rule rtranclp.rtrancl_into_rtrancl)

lemma plan_all:
  assumes "set rows \<subseteq> set (gd_attachments (ls_db s))"
    and "\<forall>row \<in> set rows. at_status row \<in> {''Provisioning'', ''Active'', ''Revoking''}"
  shows "lan_run sha date_parse s (s\<lparr>ls_requests := planned_writes (ls_db s) nodes now rows @ ls_requests s\<rparr>)"
  using assms
proof (induction rows)
  case (Cons row rows)
  let ?s = "s\<lparr>ls_requests := planned_writes (ls_db s) nodes now rows @ ls_requests s\<rparr>"
  have run: "lan_run sha date_parse s ?s" using Cons by simp
  show ?case
  proof (cases "Option.bind (find_gate (ls_db s) (at_gateId row)) (\<lambda>gate. lan_decision (ls_db s) nodes gate row now)")
    case None
    then show ?thesis using run by (simp add: planned_writes_def map_filter_simps)
  next
    case (Some w)
    then obtain gate where "find_gate (ls_db ?s) (at_gateId row) = Some gate" "lan_decision (ls_db ?s) nodes gate row now = Some w"
      by (auto simp: bind_eq_Some_conv)
    then have "lan_step sha date_parse ?s (add_request (WriteRequest row w now) ?s)"
      using Cons.prems by (intro lan_step.plan_write) auto
    with run have "lan_run sha date_parse s (add_request (WriteRequest row w now) ?s)" by (rule lan_run_step)
    then show ?thesis by (simp add: planned_writes_def map_filter_simps add_request_def Some)
  qed
qed (simp add: planned_writes_def map_filter_simps)

lemma commit_all:
  "lan_run sha date_parse (s\<lparr>ls_db := db, ls_requests := planned_writes snapshot nodes now rows @ R\<rparr>)
     (s\<lparr>ls_db := fst (activation_rows snapshot nodes (\<lambda>_ d. d) now rows db report), ls_requests := R\<rparr>)"
proof (induction rows arbitrary: db report)
  case (Cons row rows)
  show ?case
  proof (cases "Option.bind (find_gate snapshot (at_gateId row)) (\<lambda>gate. lan_decision snapshot nodes gate row now)")
    case None
    then show ?thesis using Cons by (simp add: planned_writes_def map_filter_simps)
  next
    case (Some w)
    let ?W = "planned_writes snapshot nodes now rows"
    let ?s = "s\<lparr>ls_db := db, ls_requests := WriteRequest row w now # ?W @ R\<rparr>"
    have "lan_step sha date_parse ?s
      (drop_request (WriteRequest row w now) (?s\<lparr>ls_db := commit_request 0 (WriteRequest row w now) (ls_db ?s)\<rparr>))"
      by (rule lan_step.commit) simp
    then have "lan_step sha date_parse ?s (s\<lparr>ls_db := fst (lan_commit db now row w), ls_requests := ?W @ R\<rparr>)"
      by (simp add: drop_request_def commit_request_def)
    then have "lan_run sha date_parse ?s
      (s\<lparr>ls_db := fst (activation_rows snapshot nodes (\<lambda>_ d. d) now rows (fst (lan_commit db now row w)) report'), ls_requests := R\<rparr>)"
      for report' using Cons.IH by (rule converse_rtranclp_into_rtranclp)
    then show ?thesis by (simp add: planned_writes_def map_filter_simps Some case_prod_beta)
  qed
qed (simp add: planned_writes_def map_filter_simps)

lemma activation_refines:
  "lan_run sha date_parse s (s\<lparr>ls_db := fst (reconcileActivation enabled healthy logs (\<lambda>_ d. d) (ls_db s) now)\<rparr>)"
proof -
  let ?rows = "filter (\<lambda>a. at_status a \<in> {''Provisioning'', ''Active'', ''Revoking''}) (gd_attachments (ls_db s))"
    and ?r = "\<lparr>ar_activated = 0, ar_revoked = 0, ar_degraded = 0\<rparr>"
  have "lan_run sha date_parse s (s\<lparr>ls_db := fst (activation_rows (ls_db s) nodes (\<lambda>_ d. d) now ?rows (ls_db s) ?r)\<rparr>)" for nodes
  proof -
    have "lan_run sha date_parse s (s\<lparr>ls_requests := planned_writes (ls_db s) nodes now ?rows @ ls_requests s\<rparr>)"
      by (rule plan_all) auto
    moreover have "lan_run sha date_parse (s\<lparr>ls_requests := planned_writes (ls_db s) nodes now ?rows @ ls_requests s\<rparr>)
      (s\<lparr>ls_db := fst (activation_rows (ls_db s) nodes (\<lambda>_ d. d) now ?rows (ls_db s) ?r)\<rparr>)"
      using commit_all [where s = s and db = "ls_db s" and snapshot = "ls_db s" and rows = ?rows and R = "ls_requests s" and report = ?r] by simp
    ultimately show ?thesis by (rule rtranclp_trans)
  qed
  then show ?thesis by (simp add: reconcileActivation_def Let_def)
qed

definition planned_provisions ::
    "(string \<Rightarrow> string) \<Rightarrow> (string \<Rightarrow> millis option) \<Rightarrow> gate_db \<Rightarrow> millis \<Rightarrow> lan_row list \<Rightarrow> lan_request list" where
  "planned_provisions sha date_parse db now rows =
     map (\<lambda>row. ProvisionRequest row now) (filter (lan_ready sha date_parse db now) rows)"

lemma plan_provisions:
  assumes "set rows \<subseteq> set (gd_attachments (ls_db s))" and "\<forall>row \<in> set rows. at_status row = ''Pending''"
  shows "lan_run sha date_parse s (s\<lparr>ls_requests := planned_provisions sha date_parse (ls_db s) now rows @ ls_requests s\<rparr>)"
  using assms
proof (induction rows)
  case (Cons row rows)
  let ?s = "s\<lparr>ls_requests := planned_provisions sha date_parse (ls_db s) now rows @ ls_requests s\<rparr>"
  have run: "lan_run sha date_parse s ?s" using Cons by simp
  show ?case
  proof (cases "lan_ready sha date_parse (ls_db s) now row")
    case True
    then have "lan_step sha date_parse ?s (add_request (ProvisionRequest row now) ?s)"
      using Cons.prems by (intro lan_step.plan_provision) auto
    with run have "lan_run sha date_parse s (add_request (ProvisionRequest row now) ?s)" by (rule lan_run_step)
    then show ?thesis using True by (simp add: planned_provisions_def add_request_def)
  qed (use run in \<open>simp add: planned_provisions_def\<close>)
qed (simp add: planned_provisions_def)

lemma commit_provisions:
  "lan_run sha date_parse (s\<lparr>ls_db := db, ls_requests := planned_provisions sha date_parse snapshot now rows @ R\<rparr>)
     (s\<lparr>ls_db := fst (provision_rows sha date_parse snapshot (\<lambda>_ d. d) now rows db report), ls_requests := R\<rparr>)"
proof (induction rows arbitrary: db report)
  case (Cons row rows)
  show ?case
  proof (cases "lan_ready sha date_parse snapshot now row")
    case True
    let ?W = "planned_provisions sha date_parse snapshot now rows"
    let ?s = "s\<lparr>ls_db := db, ls_requests := ProvisionRequest row now # ?W @ R\<rparr>"
    have "lan_step sha date_parse ?s
      (drop_request (ProvisionRequest row now) (?s\<lparr>ls_db := commit_request 0 (ProvisionRequest row now) (ls_db ?s)\<rparr>))"
      by (rule lan_step.commit) simp
    then have "lan_step sha date_parse ?s (s\<lparr>ls_db := fst (provision_commit db now row), ls_requests := ?W @ R\<rparr>)"
      by (simp add: drop_request_def commit_request_def)
    then have "lan_run sha date_parse ?s
      (s\<lparr>ls_db := fst (provision_rows sha date_parse snapshot (\<lambda>_ d. d) now rows (fst (provision_commit db now row)) report'),
         ls_requests := R\<rparr>)" for report'
      using Cons.IH by (rule converse_rtranclp_into_rtranclp)
    then show ?thesis using True by (simp add: planned_provisions_def case_prod_beta)
  qed (use Cons in \<open>simp add: planned_provisions_def\<close>)
qed (simp add: planned_provisions_def)

lemma provisioning_refines:
  "lan_run sha date_parse s (s\<lparr>ls_db := fst (reconcileProvisioning enabled sha date_parse (\<lambda>_ d. d) (ls_db s) now)\<rparr>)"
proof -
  let ?rows = "filter (\<lambda>a. at_status a = ''Pending'') (gd_attachments (ls_db s))"
    and ?r = "\<lparr>pr_provisioned = 0, pr_waiting = 0\<rparr>"
  have "lan_run sha date_parse s (s\<lparr>ls_requests := planned_provisions sha date_parse (ls_db s) now ?rows @ ls_requests s\<rparr>)"
    by (rule plan_provisions) auto
  moreover have "lan_run sha date_parse (s\<lparr>ls_requests := planned_provisions sha date_parse (ls_db s) now ?rows @ ls_requests s\<rparr>)
    (s\<lparr>ls_db := fst (provision_rows sha date_parse (ls_db s) (\<lambda>_ d. d) now ?rows (ls_db s) ?r)\<rparr>)"
    using commit_provisions [where s = s and db = "ls_db s" and snapshot = "ls_db s" and rows = ?rows and R = "ls_requests s" and report = ?r] by simp
  ultimately have "lan_run sha date_parse s
      (s\<lparr>ls_db := fst (provision_rows sha date_parse (ls_db s) (\<lambda>_ d. d) now ?rows (ls_db s) ?r)\<rparr>)" by (rule rtranclp_trans)
  then show ?thesis by (simp add: reconcileProvisioning_def)
qed

lemma readdress_refines:
  "lan_run sha date_parse s
     (s\<lparr>ls_db := fst (updateAddressing sha date_parse (\<lambda>d. d) (ls_db s) now now' tenantId i dto)\<rparr>)"
proof (cases "updateAddressing_read sha date_parse (ls_db s) now tenantId i dto")
  case (Inr p)
  obtain row address where p: "p = (row, address)" by (cases p)
  show ?thesis
  proof (cases "same_addressing row address")
    case False
    let ?r = "AddressRequest i address"
    have "lan_step sha date_parse s (add_request ?r s)"
      using Inr False unfolding p by (rule lan_step.ask_addressing)
    moreover have "lan_step sha date_parse (add_request ?r s)
        (drop_request ?r ((add_request ?r s)\<lparr>ls_db := commit_request now' ?r (ls_db (add_request ?r s))\<rparr>))"
      by (rule lan_step.commit) (simp add: add_request_def)
    ultimately show ?thesis
      using Inr p False
      by (simp add: updateAddressing_def add_request_def drop_request_def commit_request_def)
  qed (simp add: updateAddressing_def Inr p)
qed (simp add: updateAddressing_def)

lemma revoke_refines:
  "lan_run sha date_parse s (s\<lparr>ls_db := fst (revokeLan (\<lambda>d. d) (ls_db s) now tenantId i)\<rparr>)"
proof (cases "tenant_lan_row (ls_db s) tenantId i")
  case (Some row)
  let ?r = "RevokeRequest (at_id row)"
  have "lan_step sha date_parse s (add_request ?r s)" using Some by (rule lan_step.ask_revoke)
  moreover have "lan_step sha date_parse (add_request ?r s)
      (drop_request ?r ((add_request ?r s)\<lparr>ls_db := commit_request now ?r (ls_db (add_request ?r s))\<rparr>))"
    by (rule lan_step.commit) (simp add: add_request_def)
  ultimately show ?thesis
    using Some
    by (simp add: revokeLan_def add_request_def drop_request_def commit_request_def)
qed (simp add: revokeLan_def)

text \<open>
  C30. The two passes, an edit of the address settings and a revocation, each executed without interruption,
  are runs of the machine: every property of its runs holds for the service.
\<close>

theorem lan_operations_refine_machine:
  "lan_run sha date_parse s (s\<lparr>ls_db := fst (reconcileActivation enabled healthy logs (\<lambda>_ d. d) (ls_db s) now)\<rparr>) \<and>
   lan_run sha date_parse s (s\<lparr>ls_db := fst (reconcileProvisioning enabled sha date_parse (\<lambda>_ d. d) (ls_db s) now)\<rparr>) \<and>
   lan_run sha date_parse s (s\<lparr>ls_db := fst (updateAddressing sha date_parse (\<lambda>d. d) (ls_db s) now now' tenantId i dto)\<rparr>) \<and>
   lan_run sha date_parse s (s\<lparr>ls_db := fst (revokeLan (\<lambda>d. d) (ls_db s) now tenantId i)\<rparr>)"
  using activation_refines provisioning_refines readdress_refines revoke_refines by simp

end
