(* ===== verification/GateSafety.thy ===== *)
theory GateSafety
  imports GateAgents
begin

text \<open>
  The gates and their enrollments as a state machine: creation, rotation of the enrollment token,
  enrollment and revocation as pairs of a read and a commit that interleave freely, and between them
  whatever heartbeats and the reconciler write or delete. Generated ids have not been used before.
\<close>

section \<open>Rows\<close>

definition endpoint_ok :: "gate_row \<Rightarrow> bool" where
  "endpoint_ok g \<longleftrightarrow>
     (\<exists>port. ga_serverListenPort g = Some port \<and> GATE_PORT_MIN \<le> port \<and> port \<le> GATE_PORT_MAX) \<and>
     ga_serverTunnelAddress g \<noteq> None \<and> ga_clientTunnelAddress g \<noteq> None"

definition gate_ok :: "gate_row \<Rightarrow> bool" where
  "gate_ok g \<longleftrightarrow> endpoint_ok g \<and> (ga_revokedAt g \<noteq> None \<longrightarrow> ga_agentTokenHash g = None)"

definition shrinks :: "'a option \<Rightarrow> 'a option \<Rightarrow> bool" where
  "shrinks a b \<longleftrightarrow> b = None \<or> b = a"

text \<open>\<open>b\<close> is a later version of the gate \<open>a\<close> that has gained no unique value.\<close>

definition gate_narrows :: "gate_row \<Rightarrow> gate_row \<Rightarrow> bool" where
  "gate_narrows a b \<longleftrightarrow>
     ga_id b = ga_id a \<and> ga_tenantId b = ga_tenantId a \<and> ga_name b = ga_name a \<and>
     ga_serverPublicKey b = ga_serverPublicKey a \<and> ga_serverListenPort b = ga_serverListenPort a \<and>
     ga_serverTunnelAddress b = ga_serverTunnelAddress a \<and> ga_clientTunnelAddress b = ga_clientTunnelAddress a \<and>
     shrinks (ga_publicKey a) (ga_publicKey b) \<and> shrinks (ga_agentTokenHash a) (ga_agentTokenHash b) \<and>
     (ga_revokedAt a \<noteq> None \<longrightarrow> ga_revokedAt b \<noteq> None)"

lemma gate_narrows_refl [simp]: "gate_narrows a a"
  by (simp add: gate_narrows_def shrinks_def)

lemma same_value_shrinks: "same_value a' b' \<Longrightarrow> shrinks a a' \<Longrightarrow> shrinks b b' \<Longrightarrow> same_value a b"
  by (auto simp: same_value_def shrinks_def)

lemma gate_collides_narrow: "gate_narrows a a' \<Longrightarrow> gate_narrows b b' \<Longrightarrow> gate_collides a' b' \<Longrightarrow> gate_collides a b"
  unfolding gate_collides_def gate_narrows_def using same_value_shrinks by metis

lemma gate_collides_sym: "gate_collides a b \<longleftrightarrow> gate_collides b a"
  unfolding gate_collides_def same_value_def by metis

definition gates_free :: "gate_row list \<Rightarrow> bool" where
  "gates_free t \<longleftrightarrow> distinct (map ga_id t) \<and> (\<forall>a \<in> set t. \<forall>b \<in> set t. ga_id a \<noteq> ga_id b \<longrightarrow> \<not> gate_collides a b)"

definition gates_ok :: "gate_row list \<Rightarrow> bool" where
  "gates_ok t \<longleftrightarrow> list_all gate_ok t \<and> gates_free t"

section \<open>The contract of a write to a gate\<close>

locale gate_update =
  fixes assign :: "gate_row \<Rightarrow> gate_row"
  assumes narrows: "gate_narrows a (assign a)"
    and keeps_ok: "gate_ok a \<Longrightarrow> gate_ok (assign a)"
begin

lemma updated: "b \<in> set (fst (update_where P assign t)) \<Longrightarrow> \<exists>a \<in> set t. gate_narrows a b \<and> (gate_ok a \<longrightarrow> gate_ok b)"
  using narrows keeps_ok gate_narrows_refl unfolding set_update_where by blast

lemma update_ids: "map ga_id (fst (update_where P assign t)) = map ga_id t"
  using narrows by (auto simp: update_where_table gate_narrows_def)

lemma update_gates_ok: "gates_ok t \<Longrightarrow> gates_ok (fst (update_where P assign t))"
proof -
  assume ok: "gates_ok t"
  have "\<not> gate_collides a' b'"
    if a': "a' \<in> set (fst (update_where P assign t))" and b': "b' \<in> set (fst (update_where P assign t))" and ne: "ga_id a' \<noteq> ga_id b'" for a' b'
  proof -
    obtain a b where "a \<in> set t" "gate_narrows a a'" "b \<in> set t" "gate_narrows b b'"
      using updated [OF a'] updated [OF b'] by blast
    then show ?thesis
      using ok ne gate_collides_narrow [of a a' b b'] unfolding gates_ok_def gates_free_def gate_narrows_def by metis
  qed
  moreover have "list_all gate_ok (fst (update_where P assign t))"
    using ok updated by (auto simp: gates_ok_def list_all_iff)
  ultimately show ?thesis using ok by (simp add: gates_ok_def gates_free_def update_ids)
qed

end

text \<open>What heartbeats and the reconciler write leaves the credentials alone.\<close>

definition credentials ::
    "gate_row \<Rightarrow> uuid \<times> uuid \<times> string \<times> string option \<times> string option \<times> int option \<times> string option \<times> string option \<times>
     string option \<times> millis option" where
  "credentials g =
     (ga_id g, ga_tenantId g, ga_name g, ga_publicKey g, ga_serverPublicKey g, ga_serverListenPort g, ga_serverTunnelAddress g,
      ga_clientTunnelAddress g, ga_agentTokenHash g, ga_revokedAt g)"

definition observing :: "(gate_row \<Rightarrow> gate_row) \<Rightarrow> gate_row \<Rightarrow> gate_row" where
  "observing f g = (if credentials (f g) = credentials g then f g else g)"

interpretation unenrolling: gate_update unenrolled
  by unfold_locales (auto simp: unenrolled_def gate_narrows_def shrinks_def gate_ok_def endpoint_ok_def)

interpretation revoking_gate: gate_update "revoked_gate now" for now
  by unfold_locales (auto simp: revoked_gate_def gate_narrows_def shrinks_def gate_ok_def endpoint_ok_def)

interpretation observing_gate: gate_update "observing f" for f
  by unfold_locales (auto simp: observing_def credentials_def gate_narrows_def shrinks_def gate_ok_def endpoint_ok_def)

lemma heartbeat_keeps_credentials: "credentials (gate_seen_row dto lan bound now g) = credentials g"
  by (simp add: gate_seen_row_def Let_def credentials_def)

lemma status_keeps_credentials: "credentials (set_gate_status status err g) = credentials g"
  by (simp add: set_gate_status_def credentials_def)

lemma touch_keeps_credentials: "credentials (g\<lparr>ga_lastSeenAt := Some now\<rparr>) = credentials g"
  by (simp add: credentials_def)

section \<open>The machine\<close>

datatype gate_request =
    CreateGateRequest uuid string "string \<times> string" "int \<times> gate_tunnel"
  | RotateRequest uuid
  | RevokeGateRequest uuid
  | EnrollRequest enrollment_row gate_enroll_dto

record gate_state =
  gs_db :: gate_db
  gs_requests :: "gate_request list"
  gs_issued :: "uuid list"

definition ask :: "gate_request \<Rightarrow> gate_state \<Rightarrow> gate_state" where
  "ask r s = s\<lparr>gs_requests := r # gs_requests s\<rparr>"

text \<open>The commit of a request with a fresh gate id, a fresh enrollment id and fresh secrets.\<close>

definition commit_gate ::
    "millis \<Rightarrow> uuid \<Rightarrow> uuid \<Rightarrow> string \<Rightarrow> gate_request \<Rightarrow> gate_db \<Rightarrow> gate_db" where
  "commit_gate now i e tokenHash r db =
     (case r of
        CreateGateRequest tenantId name keyPair endpoint \<Rightarrow>
          fst (createGate_commit db (new_gate i tenantId name keyPair endpoint) (new_enrollment e i tokenHash now))
      | RotateRequest gateId \<Rightarrow> fst (createGateEnrollment_commit db now gateId (new_enrollment e gateId tokenHash now))
      | RevokeGateRequest gateId \<Rightarrow> fst (revokeGate_commit db now gateId)
      | EnrollRequest enrollment dto \<Rightarrow> fst (enrollGate_commit db now enrollment dto tokenHash))"

inductive gate_step :: "(string \<Rightarrow> string) \<Rightarrow> string \<Rightarrow> gate_state \<Rightarrow> gate_state \<Rightarrow> bool" for sha pool where
  ask_create:
    "createGate_read pool (gs_db s) tenantId = Inr endpoint \<Longrightarrow>
       gate_step sha pool s (ask (CreateGateRequest tenantId name keyPair endpoint) s)"
| ask_rotate:
    "createGateEnrollment_read (gs_db s) tenantId gateId = Inr g \<Longrightarrow> gate_step sha pool s (ask (RotateRequest gateId) s)"
| ask_revoke:
    "gateOrThrow (gs_db s) tenantId gateId = Inr g \<Longrightarrow> ga_revokedAt g = None \<Longrightarrow>
       gate_step sha pool s (ask (RevokeGateRequest gateId) s)"
| ask_enroll:
    "enrollGate_read sha (gs_db s) now dto = Inr enrollment \<Longrightarrow>
       gate_step sha pool s (ask (EnrollRequest enrollment dto) s)"
| commit:
    "r \<in> set (gs_requests s) \<Longrightarrow> i \<notin> set (gs_issued s) \<Longrightarrow> e \<notin> set (gs_issued s) \<Longrightarrow>
       gate_step sha pool s
         (s\<lparr>gs_db := commit_gate now i e tokenHash r (gs_db s), gs_requests := remove1 r (gs_requests s),
            gs_issued := i # e # gs_issued s\<rparr>)"
| abandon:
    "gate_step sha pool s (s\<lparr>gs_requests := remove1 r (gs_requests s)\<rparr>)"
| observe:
    "gate_step sha pool s (s\<lparr>gs_db := fst (update_gate (gs_db s) i (observing f))\<rparr>)"
| remove:
    "gate_step sha pool s (s\<lparr>gs_db := delete_gate (gs_db s) i\<rparr>)"
| environment:
    "gd_gates db = gd_gates (gs_db s) \<Longrightarrow> gd_enrollments db = gd_enrollments (gs_db s) \<Longrightarrow>
       gate_step sha pool s (s\<lparr>gs_db := db\<rparr>)"

abbreviation gate_run :: "(string \<Rightarrow> string) \<Rightarrow> string \<Rightarrow> gate_state \<Rightarrow> gate_state \<Rightarrow> bool" where
  "gate_run sha pool \<equiv> (gate_step sha pool)\<^sup>*\<^sup>*"

definition gate_start :: "gate_state \<Rightarrow> bool" where
  "gate_start s \<longleftrightarrow> gd_gates (gs_db s) = [] \<and> gd_enrollments (gs_db s) = [] \<and> gs_requests s = []"

section \<open>The invariant\<close>

definition enrollable :: "gate_db \<Rightarrow> enrollment_row \<Rightarrow> bool" where
  "enrollable db e \<longleftrightarrow>
     (\<forall>e' \<in> set (gd_enrollments db). en_id e' = en_id e \<longrightarrow> en_gateId e' = en_gateId e \<and>
        (en_usedAt e' = None \<longrightarrow> (\<forall>g \<in> set (gd_gates db). ga_id g = en_gateId e \<longrightarrow> ga_revokedAt g = None)))"

definition gate_request_ok :: "gate_db \<Rightarrow> uuid list \<Rightarrow> gate_request \<Rightarrow> bool" where
  "gate_request_ok db issued r \<longleftrightarrow>
     (case r of
        CreateGateRequest _ _ _ endpoint \<Rightarrow> GATE_PORT_MIN \<le> fst endpoint \<and> fst endpoint \<le> GATE_PORT_MAX
      | EnrollRequest e _ \<Rightarrow> en_id e \<in> set issued \<and> enrollable db e
      | _ \<Rightarrow> True)"

definition gate_db_ok :: "gate_db \<Rightarrow> uuid list \<Rightarrow> bool" where
  "gate_db_ok db issued \<longleftrightarrow>
     gates_ok (gd_gates db) \<and> ga_id ` set (gd_gates db) \<subseteq> set issued \<and>
     distinct (map en_id (gd_enrollments db)) \<and> en_id ` set (gd_enrollments db) \<subseteq> set issued"

definition gate_inv :: "gate_state \<Rightarrow> bool" where
  "gate_inv s \<longleftrightarrow>
     gate_db_ok (gs_db s) (gs_issued s) \<and> (\<forall>r \<in> set (gs_requests s). gate_request_ok (gs_db s) (gs_issued s) r)"

text \<open>\<open>db'\<close> has no old enrollment that was used, and no old unused enrollment of a gate revoked since.\<close>

definition enrollments_from :: "uuid list \<Rightarrow> gate_db \<Rightarrow> gate_db \<Rightarrow> bool" where
  "enrollments_from issued db db' \<longleftrightarrow>
     (\<forall>e' \<in> set (gd_enrollments db'). en_id e' \<in> set issued \<longrightarrow>
        (\<exists>e \<in> set (gd_enrollments db). en_id e = en_id e' \<and> en_gateId e = en_gateId e' \<and>
           (en_usedAt e' = None \<longrightarrow> en_usedAt e = None \<and>
              (\<forall>g' \<in> set (gd_gates db'). ga_id g' = en_gateId e' \<longrightarrow> ga_revokedAt g' \<noteq> None \<longrightarrow>
                 (\<exists>g \<in> set (gd_gates db). ga_id g = ga_id g' \<and> ga_revokedAt g \<noteq> None)))))"

lemma enrollable_from:
  assumes "enrollable db e" "enrollments_from issued db db'" "en_id e \<in> set issued"
  shows "enrollable db' e"
  using assms unfolding enrollable_def enrollments_from_def by metis

lemma request_ok_evolves:
  assumes "gate_request_ok db issued r" "enrollments_from issued db db'" "set issued \<subseteq> set issued'"
  shows "gate_request_ok db' issued' r"
  using assms enrollable_from by (auto simp: gate_request_ok_def split: gate_request.splits)

subsection \<open>Shapes of the writes\<close>

lemma update_gate_rows:
  "gd_enrollments (fst (update_gate db i f)) = gd_enrollments db"
  "gd_gates (fst (update_gate db i f)) = gd_gates db \<or>
   gd_gates (fst (update_gate db i f)) = fst (update_where (\<lambda>g. ga_id g = i) f (gd_gates db))"
  by (auto simp: update_gate_def split: prod.split list.split)

lemma update_enrollments_rows:
  "gd_gates (update_enrollments db P now) = gd_gates db"
  "gd_enrollments (update_enrollments db P now) =
     map (\<lambda>e. if P e then e\<lparr>en_usedAt := Some now\<rparr> else e) (gd_enrollments db)"
  by (simp_all add: update_enrollments_def update_where_table)

lemma used_ids: "map en_id (map (\<lambda>e. if P e then e\<lparr>en_usedAt := Some now\<rparr> else e) t) = map en_id t"
  by (induction t) auto

lemma gate_audit_rows [simp]:
  "gd_gates (gate_audit a i db) = gd_gates db" "gd_enrollments (gate_audit a i db) = gd_enrollments db"
  by (simp_all add: gate_audit_def)

text \<open>The old enrollments after an update that only marks some as used and revokes nobody.\<close>

lemma enrollments_from_marked:
  assumes "\<forall>e' \<in> set (gd_enrollments db'). en_id e' \<in> set issued \<longrightarrow>
      (\<exists>e \<in> set (gd_enrollments db). e' = e \<or> (\<exists>t. e' = e\<lparr>en_usedAt := Some t\<rparr>))"
    and "\<forall>g' \<in> set (gd_gates db'). ga_revokedAt g' \<noteq> None \<longrightarrow>
      (\<exists>g \<in> set (gd_gates db). ga_id g = ga_id g' \<and> ga_revokedAt g \<noteq> None)"
  shows "enrollments_from issued db db'"
  unfolding enrollments_from_def
proof (intro ballI impI)
  fix e' assume "e' \<in> set (gd_enrollments db')" "en_id e' \<in> set issued"
  then obtain e where e: "e \<in> set (gd_enrollments db)" "e' = e \<or> (\<exists>t. e' = e\<lparr>en_usedAt := Some t\<rparr>)"
    using assms(1) by blast
  then have "en_id e = en_id e'" "en_gateId e = en_gateId e'" "en_usedAt e' = None \<longrightarrow> en_usedAt e = None" by auto
  then show "\<exists>e \<in> set (gd_enrollments db). en_id e = en_id e' \<and> en_gateId e = en_gateId e' \<and>
      (en_usedAt e' = None \<longrightarrow> en_usedAt e = None \<and>
        (\<forall>g' \<in> set (gd_gates db'). ga_id g' = en_gateId e' \<longrightarrow> ga_revokedAt g' \<noteq> None \<longrightarrow>
          (\<exists>g \<in> set (gd_gates db). ga_id g = ga_id g' \<and> ga_revokedAt g \<noteq> None)))"
    using e(1) assms(2) by (intro bexI [of _ e] conjI impI ballI) blast+
qed

lemma gate_db_ok_marked:
  assumes "gate_db_ok db issued" "gates_ok (gd_gates db')" "map ga_id (gd_gates db') = map ga_id (gd_gates db)"
    and "map en_id (gd_enrollments db') = map en_id (gd_enrollments db)"
  shows "gate_db_ok db' issued"
  using assms unfolding gate_db_ok_def by (metis list.set_map)

lemma revoked_from_update:
  assumes "\<And>a. ga_id (f a) = ga_id a" "\<And>a. ga_revokedAt (f a) = ga_revokedAt a"
    and "t' = t \<or> t' = fst (update_where P f t)" "g' \<in> set t'" "ga_revokedAt g' \<noteq> None"
  shows "\<exists>g \<in> set t. ga_id g = ga_id g' \<and> ga_revokedAt g \<noteq> None"
proof -
  have "\<exists>g \<in> set t. g' = g \<or> g' = f g" using assms(3,4) set_update_where [of P f t] by auto
  then obtain g where "g \<in> set t" "g' = g \<or> g' = f g" by blast
  then show ?thesis using assms(1,2,5) by (intro bexI [of _ g]) auto
qed

lemma gate_db_ok_appended:
  assumes "gate_db_ok db issued" "gates_ok (gd_gates db')" "map ga_id (gd_gates db') = map ga_id (gd_gates db)"
    and "map en_id (gd_enrollments db') = map en_id (gd_enrollments db) @ [e]" "e \<notin> set issued"
  shows "gate_db_ok db' (i # e # issued)"
proof -
  have "ga_id ` set (gd_gates db') = ga_id ` set (gd_gates db)" using assms(3) by (metis list.set_map)
  moreover have "en_id ` set (gd_enrollments db') = insert e (en_id ` set (gd_enrollments db))"
    using arg_cong [OF assms(4), of set] by simp
  moreover have "e \<notin> en_id ` set (gd_enrollments db)" using assms(1,5) by (auto simp: gate_db_ok_def)
  then have "distinct (map en_id (gd_enrollments db'))" using assms(1) unfolding assms(4) by (simp add: gate_db_ok_def)
  ultimately show ?thesis using assms(1,2) by (auto simp: gate_db_ok_def)
qed

subsection \<open>Every commit keeps it\<close>

definition commit_ok :: "uuid list \<Rightarrow> gate_db \<Rightarrow> uuid list \<Rightarrow> gate_db \<Rightarrow> bool" where
  "commit_ok issued db issued' db' \<longleftrightarrow> gate_db_ok db' issued' \<and> enrollments_from issued db db'"

lemma commit_ok_refl: "gate_db_ok db issued \<Longrightarrow> set issued \<subseteq> set issued' \<Longrightarrow> commit_ok issued db issued' db"
  unfolding commit_ok_def gate_db_ok_def by (auto intro!: enrollments_from_marked)

lemma new_gate_ok:
  "GATE_PORT_MIN \<le> fst endpoint \<Longrightarrow> fst endpoint \<le> GATE_PORT_MAX \<Longrightarrow> gate_ok (new_gate i t n k endpoint)"
  by (simp add: new_gate_def gate_ok_def endpoint_ok_def)

lemma appended_gate_ok:
  assumes "gates_ok t" "gate_ok g" "\<forall>h \<in> set t. \<not> gate_collides g h"
  shows "gates_ok (t @ [g])"
  using assms gate_collides_sym [of g] by (auto simp: gates_ok_def gates_free_def gate_collides_def)

lemma create_ok:
  assumes ok: "gate_db_ok db issued" and fresh: "i \<notin> set issued" "e \<notin> set issued"
    and port: "GATE_PORT_MIN \<le> fst endpoint" "fst endpoint \<le> GATE_PORT_MAX"
  shows "commit_ok issued db (i # e # issued)
    (fst (createGate_commit db (new_gate i t n k endpoint) (new_enrollment e i h now)))" (is "commit_ok _ _ _ ?db")
proof (cases "list_ex (gate_collides (new_gate i t n k endpoint)) (gd_gates db) \<or>
    list_ex (enrollment_collides (new_enrollment e i h now)) (gd_enrollments db)")
  case True
  then have "?db = db" by (simp add: createGate_commit_def)
  then show ?thesis using ok by (auto intro: commit_ok_refl)
next
  case False
  let ?g = "new_gate i t n k endpoint" and ?e = "new_enrollment e i h now"
  have rows: "gd_gates ?db = gd_gates db @ [?g]" "gd_enrollments ?db = gd_enrollments db @ [?e]"
    using False by (simp_all add: createGate_commit_def)
  have ids: "ga_id ?g = i" "en_id ?e = e" "ga_revokedAt ?g = None" by (simp_all add: new_gate_def new_enrollment_def)
  have "gates_ok (gd_gates ?db)"
    unfolding rows using ok False new_gate_ok [OF port] by (intro appended_gate_ok) (auto simp: gate_db_ok_def list_ex_iff)
  then have "gate_db_ok ?db (i # e # issued)"
    using ok fresh unfolding gate_db_ok_def rows by (auto simp: ids)
  moreover have "enrollments_from issued db ?db"
    by (rule enrollments_from_marked) (use fresh in \<open>auto simp: rows ids\<close>)
  ultimately show ?thesis by (simp add: commit_ok_def)
qed

lemma rotate_ok:
  assumes ok: "gate_db_ok db issued" and fresh: "e \<notin> set issued"
  shows "commit_ok issued db (i # e # issued) (fst (createGateEnrollment_commit db now j (new_enrollment e j h now)))"
    (is "commit_ok _ _ _ ?db")
proof -
  let ?e = "new_enrollment e j h now" and ?P = "\<lambda>e. en_gateId e = j \<and> en_usedAt e = None"
  let ?used = "update_enrollments db ?P now"
  let ?mid = "?used\<lparr>gd_enrollments := gd_enrollments ?used @ [?e]\<rparr>"
  have "?db = db \<or> gd_enrollments ?db = gd_enrollments ?mid \<and> gd_gates ?db = gd_gates (fst (update_gate ?mid j unenrolled))"
    using update_gate_rows(1) [of ?mid j unenrolled]
    by (auto simp: createGateEnrollment_commit_def Let_def split: prod.split sum.split)
  then show ?thesis
  proof
    assume "?db = db"
    then show ?thesis using ok by (auto intro: commit_ok_refl)
  next
    assume rows: "gd_enrollments ?db = gd_enrollments ?mid \<and> gd_gates ?db = gd_gates (fst (update_gate ?mid j unenrolled))"
    then have gates: "gd_gates ?db = gd_gates db \<or> gd_gates ?db = fst (update_where (\<lambda>g. ga_id g = j) unenrolled (gd_gates db))"
      using update_gate_rows(2) [of ?mid j unenrolled] by (simp add: update_enrollments_rows)
    then have "gates_ok (gd_gates ?db)" "map ga_id (gd_gates ?db) = map ga_id (gd_gates db)"
      using ok unenrolling.update_gates_ok [of "gd_gates db"] unenrolling.update_ids [of _ "gd_gates db"]
      by (auto simp: gate_db_ok_def)
    moreover have ens: "gd_enrollments ?db = map (\<lambda>e. if ?P e then e\<lparr>en_usedAt := Some now\<rparr> else e) (gd_enrollments db) @ [?e]"
      using rows by (simp add: update_enrollments_rows)
    moreover have "en_id ?e = e" by (simp add: new_enrollment_def)
    ultimately have "gate_db_ok ?db (i # e # issued)"
      using ok fresh by (intro gate_db_ok_appended [OF ok]) (auto simp: used_ids)
    moreover have "enrollments_from issued db ?db"
    proof (rule enrollments_from_marked)
      show "\<forall>e' \<in> set (gd_enrollments ?db). en_id e' \<in> set issued \<longrightarrow>
          (\<exists>e \<in> set (gd_enrollments db). e' = e \<or> (\<exists>t. e' = e\<lparr>en_usedAt := Some t\<rparr>))"
        unfolding ens using fresh by (auto simp: new_enrollment_def)
      show "\<forall>g' \<in> set (gd_gates ?db). ga_revokedAt g' \<noteq> None \<longrightarrow>
          (\<exists>g \<in> set (gd_gates db). ga_id g = ga_id g' \<and> ga_revokedAt g \<noteq> None)"
        by (intro ballI impI revoked_from_update [OF _ _ gates]) (simp_all add: unenrolled_def)
    qed
    ultimately show ?thesis by (simp add: commit_ok_def)
  qed
qed

lemma revoke_ok:
  assumes ok: "gate_db_ok db issued"
  shows "commit_ok issued db (i # e # issued) (fst (revokeGate_commit db now j))" (is "commit_ok _ _ _ ?db")
proof -
  let ?mid = "fst (update_gate db j (revoked_gate now))" and ?P = "\<lambda>e. en_gateId e = j \<and> en_usedAt e = None"
  have "?db = db \<or> gd_enrollments ?db = gd_enrollments (update_enrollments ?mid ?P now) \<and> gd_gates ?db = gd_gates ?mid"
    by (auto simp: revokeGate_commit_def update_enrollments_rows split: prod.split sum.split)
  then show ?thesis
  proof
    assume "?db = db"
    then show ?thesis using ok by (auto intro: commit_ok_refl)
  next
    assume rows: "gd_enrollments ?db = gd_enrollments (update_enrollments ?mid ?P now) \<and> gd_gates ?db = gd_gates ?mid"
    then have gates: "gd_gates ?db = gd_gates db \<or> gd_gates ?db = fst (update_where (\<lambda>g. ga_id g = j) (revoked_gate now) (gd_gates db))"
      using update_gate_rows(2) by simp
    have ens: "gd_enrollments ?db = map (\<lambda>e. if ?P e then e\<lparr>en_usedAt := Some now\<rparr> else e) (gd_enrollments db)"
      using rows by (simp add: update_enrollments_rows update_gate_rows(1))
    have "gate_db_ok ?db issued"
      using ok gates revoking_gate.update_gates_ok [of "gd_gates db"] revoking_gate.update_ids [of _ _ "gd_gates db"]
      by (intro gate_db_ok_marked [OF ok]) (auto simp: gate_db_ok_def ens used_ids)
    then have "gate_db_ok ?db (i # e # issued)" by (auto simp: gate_db_ok_def)
    moreover have "enrollments_from issued db ?db"
      unfolding enrollments_from_def
    proof (intro ballI impI)
      fix e' assume "e' \<in> set (gd_enrollments ?db)"
      then obtain e0 where e0: "e0 \<in> set (gd_enrollments db)" "e' = (if ?P e0 then e0\<lparr>en_usedAt := Some now\<rparr> else e0)"
        unfolding ens by auto
      have same: "en_id e0 = en_id e'" "en_gateId e0 = en_gateId e'" by (simp_all add: e0(2))
      have unused: "en_usedAt e0 = None \<and> en_gateId e' \<noteq> j" if "en_usedAt e' = None"
        using that by (cases "?P e0") (simp_all add: e0(2))
      have kept: "\<exists>g \<in> set (gd_gates db). ga_id g = ga_id g' \<and> ga_revokedAt g \<noteq> None"
        if "en_usedAt e' = None" "g' \<in> set (gd_gates ?db)" "ga_id g' = en_gateId e'" "ga_revokedAt g' \<noteq> None" for g'
      proof -
        have "ga_id g' \<noteq> j" using unused that by simp
        then have "g' \<in> set (gd_gates db)" using gates that(2) by (auto simp: update_where_table revoked_gate_def split: if_splits)
        then show ?thesis using that(4) by (intro bexI [of _ g']) simp_all
      qed
      show "\<exists>e \<in> set (gd_enrollments db). en_id e = en_id e' \<and> en_gateId e = en_gateId e' \<and>
          (en_usedAt e' = None \<longrightarrow> en_usedAt e = None \<and>
            (\<forall>g' \<in> set (gd_gates ?db). ga_id g' = en_gateId e' \<longrightarrow> ga_revokedAt g' \<noteq> None \<longrightarrow>
              (\<exists>g \<in> set (gd_gates db). ga_id g = ga_id g' \<and> ga_revokedAt g \<noteq> None)))"
        using e0(1) same
      proof (intro bexI [of _ e0] conjI impI ballI)
        show "en_usedAt e0 = None" if "en_usedAt e' = None" using unused [OF that] ..
      qed (rule kept | assumption)+
    qed
    ultimately show ?thesis by (simp add: commit_ok_def)
  qed
qed

lemma enrolled_ok: "gate_ok g \<Longrightarrow> ga_revokedAt g = None \<Longrightarrow> gate_ok (enrolled_gate dto h now g)"
  by (simp add: enrolled_gate_def gate_ok_def endpoint_ok_def)

lemma replaced_gates_ok:
  assumes ok: "gates_ok t" and g: "g \<in> set t" and f: "gate_ok (f g)" "\<And>a. ga_id (f a) = ga_id a"
    and free: "\<forall>h \<in> set t. ga_id h \<noteq> ga_id g \<longrightarrow> \<not> gate_collides (f g) h"
  shows "gates_ok (fst (update_where (\<lambda>a. ga_id a = ga_id g) f t))" (is "gates_ok ?t")
proof -
  have cases: "h \<in> set t \<and> ga_id h \<noteq> ga_id g \<or> h = f g" if "h \<in> set ?t" for h
    using that g ok distinct_key_eq [of ga_id t _ g] unfolding set_update_where by (auto simp: gates_ok_def gates_free_def)
  have "\<not> gate_collides a b" if "a \<in> set ?t" "b \<in> set ?t" "ga_id a \<noteq> ga_id b" for a b
    using cases [OF that(1)] cases [OF that(2)] that(3) ok free f(2) gate_collides_sym [of a b]
    unfolding gates_ok_def gates_free_def by metis
  moreover have "list_all gate_ok ?t" using cases ok f(1) by (auto simp: list_all_iff gates_ok_def)
  moreover have "map ga_id ?t = map ga_id t" using f(2) by (simp add: update_where_table)
  ultimately show ?thesis using ok by (simp add: gates_ok_def gates_free_def)
qed

lemma filter_one: "length (filter P t) = 1 \<Longrightarrow> \<exists>x \<in> set t. P x"
  by (cases "filter P t") (auto simp: filter_eq_Cons_iff)

lemma enroll_ok:
  assumes ok: "gate_db_ok db issued" and e: "enrollable db e"
  shows "commit_ok issued db (i # e1 # issued) (fst (enrollGate_commit db now e dto h))" (is "commit_ok _ _ _ ?db")
proof -
  let ?P = "\<lambda>x. en_id x = en_id e \<and> en_usedAt x = None \<and> now < en_expiresAt x" and ?f = "enrolled_gate dto h now"
  let ?used = "update_enrollments db ?P now"
  have shape: "?db = db \<or>
     (\<exists>g. find_gate db (en_gateId e) = Some g \<and> length (filter ?P (gd_enrollments db)) = 1 \<and>
        (\<forall>k \<in> set (gd_gates db). ga_id k \<noteq> ga_id g \<longrightarrow> \<not> gate_collides (?f g) k) \<and>
        gd_enrollments ?db = gd_enrollments ?used \<and>
        (gd_gates ?db = gd_gates db \<or> gd_gates ?db = fst (update_where (\<lambda>x. ga_id x = en_gateId e) ?f (gd_gates db))))"
    using update_gate_rows [of ?used "en_gateId e" ?f]
    by (auto simp: enrollGate_commit_def Let_def list_ex_iff update_enrollments_rows split: option.split prod.split sum.split)
  then show ?thesis
  proof
    assume "?db = db"
    then show ?thesis using ok by (auto intro: commit_ok_refl)
  next
    assume "\<exists>g. find_gate db (en_gateId e) = Some g \<and> length (filter ?P (gd_enrollments db)) = 1 \<and>
        (\<forall>k \<in> set (gd_gates db). ga_id k \<noteq> ga_id g \<longrightarrow> \<not> gate_collides (?f g) k) \<and>
        gd_enrollments ?db = gd_enrollments ?used \<and>
        (gd_gates ?db = gd_gates db \<or> gd_gates ?db = fst (update_where (\<lambda>x. ga_id x = en_gateId e) ?f (gd_gates db)))"
    then obtain g where g: "find_gate db (en_gateId e) = Some g" "length (filter ?P (gd_enrollments db)) = 1"
      "\<forall>k \<in> set (gd_gates db). ga_id k \<noteq> ga_id g \<longrightarrow> \<not> gate_collides (?f g) k"
      and ens': "gd_enrollments ?db = gd_enrollments ?used"
      and gates: "gd_gates ?db = gd_gates db \<or> gd_gates ?db = fst (update_where (\<lambda>x. ga_id x = en_gateId e) ?f (gd_gates db))"
      by blast
    have mem: "g \<in> set (gd_gates db)" "ga_id g = en_gateId e" using find_row_SomeD [of ga_id] g(1) by (auto simp: find_gate_def)
    obtain x where "x \<in> set (gd_enrollments db)" "?P x" using filter_one [OF g(2)] by blast
    then have "ga_revokedAt g = None" using e mem by (auto simp: enrollable_def)
    moreover have "gate_ok g" using ok mem(1) by (auto simp: gate_db_ok_def gates_ok_def list_all_iff)
    ultimately have "gates_ok (fst (update_where (\<lambda>x. ga_id x = ga_id g) ?f (gd_gates db)))"
      using ok mem(1) g(3)
      by (intro replaced_gates_ok) (auto simp: gate_db_ok_def enrolled_gate_def gate_ok_def endpoint_ok_def)
    then have "gates_ok (gd_gates ?db)" using gates ok by (auto simp: gate_db_ok_def mem(2))
    moreover have "map ga_id (gd_gates ?db) = map ga_id (gd_gates db)"
      using gates by (auto simp: update_where_table enrolled_gate_def)
    moreover have ens: "gd_enrollments ?db = map (\<lambda>e. if ?P e then e\<lparr>en_usedAt := Some now\<rparr> else e) (gd_enrollments db)"
      using ens' by (simp add: update_enrollments_rows)
    ultimately have "gate_db_ok ?db issued" by (intro gate_db_ok_marked [OF ok]) (simp_all add: used_ids)
    then have "gate_db_ok ?db (i # e1 # issued)" by (auto simp: gate_db_ok_def)
    moreover have "enrollments_from issued db ?db"
    proof (rule enrollments_from_marked)
      show "\<forall>g' \<in> set (gd_gates ?db). ga_revokedAt g' \<noteq> None \<longrightarrow>
          (\<exists>g \<in> set (gd_gates db). ga_id g = ga_id g' \<and> ga_revokedAt g \<noteq> None)"
        by (intro ballI impI revoked_from_update [OF _ _ gates]) (simp_all add: enrolled_gate_def)
    qed (auto simp: ens)
    ultimately show ?thesis by (simp add: commit_ok_def)
  qed
qed

section \<open>The invariant holds in every run\<close>

lemma createGate_port:
  assumes "createGate_read pool db tenantId = Inr endpoint"
  shows "GATE_PORT_MIN \<le> fst endpoint \<and> fst endpoint \<le> GATE_PORT_MAX"
proof -
  obtain port where "nextGatePort (List.map_filter ga_serverListenPort (gd_gates db)) = Some port" "fst endpoint = port"
    using assms by (auto simp: createGate_read_def split: sum.splits option.splits)
  then show ?thesis
    by (auto simp: nextGatePort_def GATE_PORT_MIN_def GATE_PORT_MAX_def dest!: head_opt_filter_Some)
qed

lemma enroll_read_enrollable:
  assumes "enrollGate_read sha db now dto = Inr e" "distinct (map en_id (gd_enrollments db))" "distinct (map ga_id (gd_gates db))"
  shows "e \<in> set (gd_enrollments db)" "enrollable db e"
proof -
  obtain g where e: "e \<in> set (gd_enrollments db)" and g: "find_gate db (en_gateId e) = Some g" "ga_revokedAt g = None"
    using assms(1) find_row_SomeD [of en_tokenHash]
    by (auto simp: enrollGate_read_def split: option.splits if_splits)
  have "ga_revokedAt h = None" if "h \<in> set (gd_gates db)" "ga_id h = en_gateId e" for h
    using that g find_row_SomeD [of ga_id _ _ g] distinct_key_eq [OF assms(3), of h g] by (auto simp: find_gate_def)
  moreover have "e' = e" if "e' \<in> set (gd_enrollments db)" "en_id e' = en_id e" for e'
    using distinct_key_eq [OF assms(2) that(1) e that(2)] .
  ultimately show "enrollable db e" unfolding enrollable_def by blast
  show "e \<in> set (gd_enrollments db)" by (rule e)
qed

lemma commit_gate_ok:
  assumes "gate_db_ok db issued" "gate_request_ok db issued r" "i \<notin> set issued" "e \<notin> set issued"
  shows "commit_ok issued db (i # e # issued) (commit_gate now i e h r db)"
  using assms create_ok rotate_ok revoke_ok enroll_ok
  by (cases r) (simp_all add: commit_gate_def gate_request_ok_def)

lemma gate_inv_ask:
  "gate_inv s \<Longrightarrow> gate_request_ok (gs_db s) (gs_issued s) r \<Longrightarrow> gate_inv (ask r s)"
  by (simp add: gate_inv_def ask_def)

lemma gate_inv_db:
  assumes "gate_inv s" "commit_ok (gs_issued s) (gs_db s) issued' db" "set R \<subseteq> set (gs_requests s)"
    and "set (gs_issued s) \<subseteq> set issued'"
  shows "gate_inv (s\<lparr>gs_db := db, gs_requests := R, gs_issued := issued'\<rparr>)"
  using assms request_ok_evolves by (fastforce simp: gate_inv_def commit_ok_def)

lemma observe_ok:
  assumes "gate_db_ok db issued"
  shows "commit_ok issued db issued (fst (update_gate db i (observing f)))" (is "commit_ok _ _ _ ?db")
proof -
  have gates: "gd_gates ?db = gd_gates db \<or> gd_gates ?db = fst (update_where (\<lambda>g. ga_id g = i) (observing f) (gd_gates db))"
    and ens: "gd_enrollments ?db = gd_enrollments db" by (rule update_gate_rows)+
  have "gate_db_ok ?db issued"
    using assms gates observing_gate.update_gates_ok [of "gd_gates db"] observing_gate.update_ids [of _ f "gd_gates db"]
    by (intro gate_db_ok_marked [OF assms]) (auto simp: gate_db_ok_def ens)
  moreover have "enrollments_from issued db ?db"
  proof (rule enrollments_from_marked)
    show "\<forall>g' \<in> set (gd_gates ?db). ga_revokedAt g' \<noteq> None \<longrightarrow>
        (\<exists>g \<in> set (gd_gates db). ga_id g = ga_id g' \<and> ga_revokedAt g \<noteq> None)"
      by (intro ballI impI revoked_from_update [OF _ _ gates]) (simp_all add: observing_def credentials_def)
  qed (auto simp: ens)
  ultimately show ?thesis by (simp add: commit_ok_def)
qed

lemma remove_ok:
  assumes "gate_db_ok db issued"
  shows "commit_ok issued db issued (delete_gate db i)"
proof -
  have "gates_ok (filter P t)" if "gates_ok t" for t and P :: "gate_row \<Rightarrow> bool"
    using that by (auto simp: gates_ok_def gates_free_def list_all_iff distinct_map_filter)
  then have "gate_db_ok (delete_gate db i) issued"
    using assms by (auto simp: gate_db_ok_def delete_gate_def distinct_map_filter)
  moreover have "enrollments_from issued db (delete_gate db i)"
    by (rule enrollments_from_marked) (auto simp: delete_gate_def)
  ultimately show ?thesis by (simp add: commit_ok_def)
qed

lemma gate_step_inv: "gate_step sha pool s s' \<Longrightarrow> gate_inv s \<Longrightarrow> gate_inv s'"
proof (induction rule: gate_step.induct)
  case (ask_create s tenantId endpoint name keyPair)
  then show ?case using createGate_port by (intro gate_inv_ask) (auto simp: gate_request_ok_def)
next
  case (ask_enroll s now dto enrollment)
  have ok: "gate_db_ok (gs_db s) (gs_issued s)" using ask_enroll(2) by (simp add: gate_inv_def)
  then have "enrollment \<in> set (gd_enrollments (gs_db s))" "enrollable (gs_db s) enrollment"
    using enroll_read_enrollable [OF ask_enroll(1)] by (auto simp: gate_db_ok_def gates_ok_def gates_free_def)
  then show ?case using ok ask_enroll(2) by (intro gate_inv_ask) (auto simp: gate_request_ok_def gate_db_ok_def)
next
  case (commit r s i e now tokenHash)
  then have "gate_db_ok (gs_db s) (gs_issued s)" "gate_request_ok (gs_db s) (gs_issued s) r" by (auto simp: gate_inv_def)
  then have "commit_ok (gs_issued s) (gs_db s) (i # e # gs_issued s) (commit_gate now i e tokenHash r (gs_db s))"
    using commit(2,3) by (rule commit_gate_ok)
  then show ?case using commit(4) set_remove1_subset [of r "gs_requests s"] by (intro gate_inv_db) auto
next
  case (abandon s r)
  then show ?case using notin_set_remove1 by (fastforce simp: gate_inv_def)
next
  case (observe s i f)
  then have "commit_ok (gs_issued s) (gs_db s) (gs_issued s) (fst (update_gate (gs_db s) i (observing f)))"
    by (intro observe_ok) (simp add: gate_inv_def)
  then show ?case using gate_inv_db [OF observe, of "gs_issued s" _ "gs_requests s"] by simp
next
  case (remove s i)
  then have "commit_ok (gs_issued s) (gs_db s) (gs_issued s) (delete_gate (gs_db s) i)"
    by (intro remove_ok) (simp add: gate_inv_def)
  then show ?case using gate_inv_db [OF remove, of "gs_issued s" _ "gs_requests s"] by simp
next
  case (environment db s)
  then have "commit_ok (gs_issued s) (gs_db s) (gs_issued s) db"
    by (auto simp: commit_ok_def gate_inv_def gate_db_ok_def intro!: enrollments_from_marked)
  then show ?case using gate_inv_db [OF environment(3), of "gs_issued s" db "gs_requests s"] by simp
qed (auto intro: gate_inv_ask simp: gate_request_ok_def)

lemma gate_run_inv: "gate_run sha pool s s' \<Longrightarrow> gate_inv s \<Longrightarrow> gate_inv s'"
  by (induction rule: rtranclp_induct) (auto intro: gate_step_inv)

lemma gate_start_inv: "gate_start s \<Longrightarrow> gate_inv s"
  by (simp add: gate_start_def gate_inv_def gate_db_ok_def gates_ok_def gates_free_def)

lemmas gate_reachable_inv = gate_run_inv [OF _ gate_start_inv]

end
