(* ===== verification/GateProperties.thy ===== *)
theory GateProperties
  imports GateSafety LanSamples
begin

text \<open>
  The properties of the gates: what revocation and the single use of an enrollment token guarantee in
  every run of the machine of \<open>GateSafety\<close>, the endpoints gates hold, and what a heartbeat records.
\<close>

section \<open>Revocation and enrollment over time\<close>

definition gate_locked :: "uuid \<Rightarrow> gate_db \<Rightarrow> bool" where
  "gate_locked i db \<longleftrightarrow> (\<forall>g \<in> set (gd_gates db). ga_id g = i \<longrightarrow> ga_revokedAt g \<noteq> None)"

definition used_up :: "uuid \<Rightarrow> gate_db \<Rightarrow> bool" where
  "used_up i db \<longleftrightarrow> (\<forall>e \<in> set (gd_enrollments db). en_id e = i \<longrightarrow> en_usedAt e \<noteq> None)"

lemma used_up_commit:
  "commit_ok issued db issued' db' \<Longrightarrow> i \<in> set issued \<Longrightarrow> used_up i db \<Longrightarrow> used_up i db'"
  unfolding used_up_def commit_ok_def enrollments_from_def by metis

lemma locked_update:
  assumes "gate_locked i db" "gd_gates db' = gd_gates db \<or> gd_gates db' = fst (update_where P f (gd_gates db))"
    and "\<And>a. ga_id (f a) = ga_id a" "\<And>a. ga_revokedAt a \<noteq> None \<Longrightarrow> ga_revokedAt (f a) \<noteq> None"
  shows "gate_locked i db'"
  using assms by (auto simp: gate_locked_def update_where_table)

lemma locked_commit:
  assumes "gate_locked j db" "j \<noteq> i"
  shows "gate_locked j (commit_gate now i e h r db)"
proof (cases r)
  case (CreateGateRequest t n k endpoint)
  then show ?thesis
    using assms by (auto simp: commit_gate_def createGate_commit_def gate_locked_def new_gate_def)
next
  case (RotateRequest gateId)
  let ?used = "update_enrollments db (\<lambda>e. en_gateId e = gateId \<and> en_usedAt e = None) now"
  let ?mid = "?used\<lparr>gd_enrollments := gd_enrollments ?used @ [new_enrollment e gateId h now]\<rparr>"
  have shape: "gd_gates (commit_gate now i e h r db) = gd_gates db \<or>
      gd_gates (commit_gate now i e h r db) = fst (update_where (\<lambda>g. ga_id g = gateId) unenrolled (gd_gates db))"
    using update_gate_rows(2) [of ?mid gateId unenrolled]
    by (auto simp: RotateRequest commit_gate_def createGateEnrollment_commit_def Let_def update_enrollments_rows
        split: prod.split sum.split)
  show ?thesis by (rule locked_update [OF assms(1) shape]) (simp_all add: unenrolled_def)
next
  case (RevokeGateRequest gateId)
  have shape: "gd_gates (commit_gate now i e h r db) = gd_gates db \<or>
      gd_gates (commit_gate now i e h r db) = fst (update_where (\<lambda>g. ga_id g = gateId) (revoked_gate now) (gd_gates db))"
    using update_gate_rows(2) [of db gateId "revoked_gate now"]
    by (auto simp: RevokeGateRequest commit_gate_def revokeGate_commit_def update_enrollments_rows split: prod.split sum.split)
  show ?thesis by (rule locked_update [OF assms(1) shape]) (simp_all add: revoked_gate_def)
next
  case (EnrollRequest en dto)
  let ?P = "\<lambda>x. en_id x = en_id en \<and> en_usedAt x = None \<and> now < en_expiresAt x"
  have shape: "gd_gates (commit_gate now i e h r db) = gd_gates db \<or>
      gd_gates (commit_gate now i e h r db) =
        fst (update_where (\<lambda>g. ga_id g = en_gateId en) (enrolled_gate dto h now) (gd_gates db))"
    using update_gate_rows(2) [of "update_enrollments db ?P now" "en_gateId en" "enrolled_gate dto h now"]
    by (auto simp: EnrollRequest commit_gate_def enrollGate_commit_def Let_def update_enrollments_rows
        split: option.split prod.split sum.split)
  show ?thesis by (rule locked_update [OF assms(1) shape]) (simp_all add: enrolled_gate_def)
qed

text \<open>A property of the database that every way of changing it keeps is kept by every step.\<close>

lemma gate_step_keeps:
  assumes "gate_step sha pool s s'" "gate_inv s" "Q (gs_db s)" "j \<in> set (gs_issued s)"
    and commit: "\<And>db i e h now r issued. Q db \<Longrightarrow> gate_db_ok db issued \<Longrightarrow> gate_request_ok db issued r \<Longrightarrow> j \<in> set issued \<Longrightarrow>
      i \<notin> set issued \<Longrightarrow> e \<notin> set issued \<Longrightarrow> Q (commit_gate now i e h r db)"
    and observe: "\<And>db i f. Q db \<Longrightarrow> Q (fst (update_gate db i (observing f)))"
    and remove: "\<And>db i. Q db \<Longrightarrow> Q (delete_gate db i)"
    and same: "\<And>db db'. Q db \<Longrightarrow> gd_gates db' = gd_gates db \<Longrightarrow> gd_enrollments db' = gd_enrollments db \<Longrightarrow> Q db'"
  shows "Q (gs_db s') \<and> j \<in> set (gs_issued s')"
  using assms(1-4)
proof (cases rule: gate_step.cases)
  case (commit r i e now h)
  then show ?thesis using assms(2-4) assms(5) [of "gs_db s" "gs_issued s" r i e now h] by (auto simp: gate_inv_def)
next
  case (environment db)
  then show ?thesis using same [of "gs_db s" db] assms(3,4) by simp
qed (use assms(3,4) observe remove in \<open>auto simp: ask_def\<close>)

lemma gate_run_keeps:
  assumes "gate_run sha pool s s'" "gate_inv s" "Q (gs_db s)" "j \<in> set (gs_issued s)"
    and "\<And>db i e h now r issued. Q db \<Longrightarrow> gate_db_ok db issued \<Longrightarrow> gate_request_ok db issued r \<Longrightarrow> j \<in> set issued \<Longrightarrow>
      i \<notin> set issued \<Longrightarrow> e \<notin> set issued \<Longrightarrow> Q (commit_gate now i e h r db)"
    and "\<And>db i f. Q db \<Longrightarrow> Q (fst (update_gate db i (observing f)))"
    and "\<And>db i. Q db \<Longrightarrow> Q (delete_gate db i)"
    and "\<And>db db'. Q db \<Longrightarrow> gd_gates db' = gd_gates db \<Longrightarrow> gd_enrollments db' = gd_enrollments db \<Longrightarrow> Q db'"
  shows "Q (gs_db s') \<and> j \<in> set (gs_issued s') \<and> gate_inv s'"
  using assms(1)
proof (induction rule: rtranclp_induct)
  case base
  then show ?case using assms(2-4) by simp
next
  case (step t u)
  have "Q (gs_db u) \<and> j \<in> set (gs_issued u)"
    by (rule gate_step_keeps [OF step(2) _ _ _ assms(5-8)]) (use step(3) in auto)
  then show ?case using step gate_step_inv by blast
qed

lemma locked_run:
  assumes "gate_run sha pool s s'" "gate_inv s" "gate_locked i (gs_db s)" "i \<in> set (gs_issued s)"
  shows "gate_locked i (gs_db s') \<and> gate_inv s'"
proof -
  have "gate_locked i (gs_db s') \<and> i \<in> set (gs_issued s') \<and> gate_inv s'"
  proof (rule gate_run_keeps [where Q = "gate_locked i" and j = i, OF assms])
    show "gate_locked i (commit_gate now k e h r db)" if "gate_locked i db" "i \<in> set issued" "k \<notin> set issued"
      for now k e h r db and issued :: "uuid list"
      using that by (intro locked_commit) auto
    show "gate_locked i (fst (update_gate db j (observing f)))" if "gate_locked i db" for db j f
      by (rule locked_update [OF that update_gate_rows(2)]) (auto simp: observing_def credentials_def)
  qed (simp_all add: gate_locked_def delete_gate_def)
  then show ?thesis by blast
qed

lemma used_up_run:
  assumes "gate_run sha pool s s'" "gate_inv s" "used_up i (gs_db s)" "i \<in> set (gs_issued s)"
  shows "used_up i (gs_db s')"
proof -
  have "used_up i (gs_db s') \<and> i \<in> set (gs_issued s') \<and> gate_inv s'"
  proof (rule gate_run_keeps [where Q = "used_up i" and j = i, OF assms])
    show "used_up i (commit_gate now k e h r db)"
      if "used_up i db" "gate_db_ok db issued" "gate_request_ok db issued r" "i \<in> set issued" "k \<notin> set issued" "e \<notin> set issued"
      for now k e h r db issued
      using used_up_commit [OF commit_gate_ok [OF that(2,3,5,6)] that(4,1)] .
  qed (simp_all add: used_up_def delete_gate_def update_gate_rows(1))
  then show ?thesis by blast
qed

section \<open>A run\<close>

text \<open>A gate is created, its token is exchanged, and it is revoked.\<close>

definition plain_sha :: "string \<Rightarrow> string" where
  "plain_sha s = ''h-'' @ s"

definition gate_pool :: string where "gate_pool = ''100.96.0.0/30''"
definition site_gate :: uuid where "site_gate = ''g1''"
definition site_tenant :: uuid where "site_tenant = ''t1''"

definition site_endpoint :: "int \<times> gate_tunnel" where
  "site_endpoint = (52000, \<lparr>gt_cidr = ''100.96.0.0/30'', gt_server = ''100.96.0.1/30'', gt_client = ''100.96.0.2/30''\<rparr>)"

definition site_request :: gate_request where
  "site_request = CreateGateRequest site_tenant ''site'' (''skey'', ''cipher'') site_endpoint"

definition site_dto :: gate_enroll_dto where
  "site_dto = \<lparr>ge_token = ''token'', ge_publicKey = replicate 43 CHR ''A'' @ ''='', ge_agentVersion = ''gate-l2-v3''\<rparr>"

definition site_enrollment :: enrollment_row where
  "site_enrollment = new_enrollment ''e1'' site_gate (plain_sha ''token'') 1000"

definition after_commit :: "millis \<Rightarrow> uuid \<Rightarrow> uuid \<Rightarrow> string \<Rightarrow> gate_request \<Rightarrow> gate_state \<Rightarrow> gate_state" where
  "after_commit now i e h r s =
     s\<lparr>gs_db := commit_gate now i e h r (gs_db s), gs_requests := remove1 r (gs_requests s), gs_issued := i # e # gs_issued s\<rparr>"

definition gate_s0 :: gate_state where
  "gate_s0 = \<lparr>gs_db = \<lparr>gd_tenants = [site_tenant], gd_gates = [], gd_enrollments = [], gd_attachments = [], gd_apps = [],
     gd_networks = [], gd_audit = []\<rparr>, gs_requests = [], gs_issued = []\<rparr>"

definition gate_s1 :: gate_state where
  "gate_s1 = after_commit 1000 site_gate ''e1'' (plain_sha ''token'') site_request (ask site_request gate_s0)"

definition gate_s2 :: gate_state where
  "gate_s2 = after_commit 3000 ''g2'' ''e2'' (plain_sha ''agent'') (EnrollRequest site_enrollment site_dto)
     (ask (EnrollRequest site_enrollment site_dto) gate_s1)"

definition gate_s3 :: gate_state where
  "gate_s3 = after_commit 5000 ''g3'' ''e3'' [] (RevokeGateRequest site_gate) (ask (RevokeGateRequest site_gate) gate_s2)"

lemma gate_two_steps:
  assumes "gate_step sha pool s (ask r s)" "i \<notin> set (gs_issued s)" "e \<notin> set (gs_issued s)"
  shows "gate_run sha pool s (after_commit now i e h r (ask r s))"
proof -
  have "gate_step sha pool (ask r s) (after_commit now i e h r (ask r s))"
    unfolding after_commit_def by (rule gate_step.commit) (use assms in \<open>simp_all add: ask_def\<close>)
  with assms(1) show ?thesis by (meson rtranclp.rtrancl_refl rtranclp.rtrancl_into_rtrancl)
qed

definition site_row :: gate_row where
  "site_row = new_gate site_gate site_tenant ''site'' (''skey'', ''cipher'') site_endpoint"

lemma gate_s1_rows: "gd_gates (gs_db gate_s1) = [site_row]" "gd_enrollments (gs_db gate_s1) = [site_enrollment]"
  "gs_issued gate_s1 = [site_gate, ''e1'']"
  by code_simp+

lemma gate_s2_rows:
  "gd_gates (gs_db gate_s2) = [enrolled_gate site_dto (plain_sha ''agent'') 3000 site_row]"
  "gd_enrollments (gs_db gate_s2) = [site_enrollment\<lparr>en_usedAt := Some 3000\<rparr>]"
  "gs_issued gate_s2 = [''g2'', ''e2'', site_gate, ''e1'']"
  by code_simp+

lemma gate_s3_rows:
  "gd_gates (gs_db gate_s3) = [revoked_gate 5000 (enrolled_gate site_dto (plain_sha ''agent'') 3000 site_row)]"
  "gs_issued gate_s3 = [''g3'', ''e3'', ''g2'', ''e2'', site_gate, ''e1'']"
  by code_simp+

lemma first_gate_port: "nextGatePort [] = Some 52000"
proof -
  have "[0..<Suc 999] = 0 # [Suc 0..<Suc 999]" by (rule upt_conv_Cons) simp
  then show ?thesis by (simp add: nextGatePort_def GATE_PORT_MIN_def GATE_PORT_MAX_def del: upt_Suc)
qed

lemma site_endpoint_read: "createGate_read gate_pool (gs_db gate_s0) site_tenant = Inr site_endpoint"
proof -
  have "nextAvailableGateTunnel [] gate_pool = Inr (Some (snd site_endpoint))" by code_simp
  then show ?thesis
    by (simp add: createGate_read_def ensureTenantExists_def gate_s0_def used_tunnels_def first_gate_port map_filter_simps
        site_endpoint_def)
qed

lemma gate_sample_run1: "gate_run plain_sha gate_pool gate_s0 gate_s1"
  unfolding gate_s1_def
proof (rule gate_two_steps)
  show "gate_step plain_sha gate_pool gate_s0 (ask site_request gate_s0)"
    unfolding site_request_def by (rule gate_step.ask_create) (rule site_endpoint_read)
qed (simp_all add: gate_s0_def)

lemma gate_sample_run2: "gate_run plain_sha gate_pool gate_s0 gate_s2"
proof -
  have "enrollGate_read plain_sha (gs_db gate_s1) 2000 site_dto = Inr site_enrollment" by code_simp
  then have "gate_step plain_sha gate_pool gate_s1 (ask (EnrollRequest site_enrollment site_dto) gate_s1)"
    by (rule gate_step.ask_enroll)
  then have "gate_run plain_sha gate_pool gate_s1 gate_s2"
    unfolding gate_s2_def by (rule gate_two_steps) (simp_all add: gate_s1_rows site_gate_def)
  with gate_sample_run1 show ?thesis by (rule rtranclp_trans)
qed

lemma gate_sample_run3: "gate_run plain_sha gate_pool gate_s0 gate_s3"
proof -
  let ?g = "enrolled_gate site_dto (plain_sha ''agent'') 3000 site_row"
  have "gateOrThrow (gs_db gate_s2) site_tenant site_gate = Inr ?g" "ga_revokedAt ?g = None" by code_simp+
  then have "gate_step plain_sha gate_pool gate_s2 (ask (RevokeGateRequest site_gate) gate_s2)"
    by (rule gate_step.ask_revoke)
  then have "gate_run plain_sha gate_pool gate_s2 gate_s3"
    unfolding gate_s3_def by (rule gate_two_steps) (simp_all add: gate_s2_rows site_gate_def)
  with gate_sample_run2 show ?thesis by (rule rtranclp_trans)
qed

lemma gate_sample_start: "gate_start gate_s0"
  by (simp add: gate_start_def gate_s0_def)

section \<open>The properties\<close>

text \<open>
  C12. Once a gate is revoked it stays locked out: in every later state its row, if it still exists, is
  revoked and holds no agent token, and no bearer token authenticates as this gate, whatever
  enrollments and rotations were under way at the revocation.
\<close>

theorem revoked_gate_is_locked_out:
  assumes "gate_start s0" and "gate_run sha pool s0 s" and "gate_run sha pool s s'"
    and "g \<in> set (gd_gates (gs_db s))" and "ga_revokedAt g \<noteq> None"
  shows "list_all (\<lambda>h. ga_id h \<noteq> ga_id g \<or> (ga_revokedAt h \<noteq> None \<and> ga_agentTokenHash h = None)) (gd_gates (gs_db s')) \<and>
    (case authenticateGateAgent sha (gs_db s') authorization of Inr h \<Rightarrow> ga_id h \<noteq> ga_id g | Inl _ \<Rightarrow> True)"
proof -
  have inv: "gate_inv s" by (rule gate_reachable_inv [OF assms(2,1)])
  have d: "distinct (map ga_id (gd_gates (gs_db s)))" and i: "ga_id g \<in> set (gs_issued s)"
    using inv assms(4) by (auto simp: gate_inv_def gate_db_ok_def gates_ok_def gates_free_def)
  have "gate_locked (ga_id g) (gs_db s)" using assms(4,5) distinct_key_eq [OF d] by (auto simp: gate_locked_def)
  then have l: "gate_locked (ga_id g) (gs_db s')" and inv': "gate_inv s'" using locked_run [OF assms(3) inv _ i] by auto
  have "ga_revokedAt h \<noteq> None \<longrightarrow> ga_agentTokenHash h = None" if "h \<in> set (gd_gates (gs_db s'))" for h
    using that inv' by (auto simp: gate_inv_def gate_db_ok_def gates_ok_def list_all_iff gate_ok_def)
  moreover have "ga_id h \<noteq> ga_id g" if "authenticateGateAgent sha (gs_db s') authorization = Inr h" for h
  proof -
    have "h \<in> set (gd_gates (gs_db s'))" "ga_revokedAt h = None"
      using that find_row_SomeD [of ga_agentTokenHash] by (auto simp: authenticateGateAgent_def split: option.splits if_splits)
    then show ?thesis using l by (auto simp: gate_locked_def)
  qed
  ultimately show ?thesis using l by (auto simp: list_all_iff gate_locked_def split: sum.split)
qed

theorem revoked_gate_is_locked_out_witness:
  "(case authenticateGateAgent plain_sha (gs_db gate_s3) (Some ''Bearer agent'') of Inr h \<Rightarrow> ga_id h \<noteq> site_gate | Inl _ \<Rightarrow> True)"
proof -
  let ?g = "revoked_gate 5000 (enrolled_gate site_dto (plain_sha ''agent'') 3000 site_row)"
  have g: "?g \<in> set (gd_gates (gs_db gate_s3))" "ga_revokedAt ?g \<noteq> None" "ga_id ?g = site_gate"
    unfolding gate_s3_rows by code_simp+
  show ?thesis
    using revoked_gate_is_locked_out [OF gate_sample_start gate_sample_run3 rtranclp.rtrancl_refl g(1,2)] unfolding g(3)
    by blast
qed

text \<open>
  C23. An enrollment token is exchanged at most once: after the enrollment is marked as used, by an exchange,
  a rotation or a revocation, every exchange of it in any later state is refused and changes nothing.
\<close>

theorem enrollment_is_single_use:
  assumes "gate_start s0" and "gate_run sha pool s0 s" and "gate_run sha pool s s'"
    and "e \<in> set (gd_enrollments (gs_db s))" and "en_usedAt e \<noteq> None" and "en_id e' = en_id e"
  shows "enrollGate_commit (gs_db s') now e' dto tokenHash =
    (gs_db s', Inl (NetUnauthorized ''ResourcePortalGate enrollment token was already used or expired''))"
proof -
  have inv: "gate_inv s" by (rule gate_reachable_inv [OF assms(2,1)])
  have d: "distinct (map en_id (gd_enrollments (gs_db s)))" and i: "en_id e \<in> set (gs_issued s)"
    using inv assms(4) by (auto simp: gate_inv_def gate_db_ok_def)
  have "used_up (en_id e) (gs_db s)" using assms(4,5) distinct_key_eq [OF d] by (auto simp: used_up_def)
  then have u: "used_up (en_id e) (gs_db s')" using used_up_run [OF assms(3) inv _ i] by blast
  have "filter (\<lambda>x. en_id x = en_id e' \<and> en_usedAt x = None \<and> now < en_expiresAt x) (gd_enrollments (gs_db s')) = []"
    using u by (auto simp: used_up_def filter_empty_conv assms(6))
  then show ?thesis by (simp add: enrollGate_commit_def Let_def)
qed

theorem enrollment_is_single_use_witness:
  "snd (enrollGate_commit (gs_db gate_s3) 6000 site_enrollment site_dto ''again'') =
     Inl (NetUnauthorized ''ResourcePortalGate enrollment token was already used or expired'')"
proof -
  let ?e = "site_enrollment\<lparr>en_usedAt := Some 3000\<rparr>"
  have e: "?e \<in> set (gd_enrollments (gs_db gate_s2))" "en_usedAt ?e \<noteq> None" "en_id site_enrollment = en_id ?e"
    by (simp_all add: gate_s2_rows)
  have "gate_run plain_sha gate_pool gate_s2 gate_s3"
  proof -
    let ?g = "enrolled_gate site_dto (plain_sha ''agent'') 3000 site_row"
    have "gateOrThrow (gs_db gate_s2) site_tenant site_gate = Inr ?g" "ga_revokedAt ?g = None" by code_simp+
    then have "gate_step plain_sha gate_pool gate_s2 (ask (RevokeGateRequest site_gate) gate_s2)"
      by (rule gate_step.ask_revoke)
    then show ?thesis unfolding gate_s3_def by (rule gate_two_steps) (simp_all add: gate_s2_rows site_gate_def)
  qed
  then show ?thesis by (simp only: enrollment_is_single_use [OF gate_sample_start gate_sample_run2 _ e] snd_conv)
qed

text \<open>
  In every run all gates have a listening port between 52000 and 52999 and both tunnel addresses, and no
  two gates share the port, a tunnel address, a key or the hash of an agent token.
\<close>

lemma gate_endpoints_are_exclusive:
  assumes "gate_start s0" and "gate_run sha pool s0 s" and "g \<in> set (gd_gates (gs_db s))"
  shows "(\<exists>port. ga_serverListenPort g = Some port \<and> 52000 \<le> port \<and> port \<le> 52999) \<and>
    ga_serverTunnelAddress g \<noteq> None \<and> ga_clientTunnelAddress g \<noteq> None \<and>
    \<not> list_ex (\<lambda>h. ga_id h \<noteq> ga_id g \<and>
        (ga_serverListenPort h = ga_serverListenPort g \<or> ga_serverTunnelAddress h = ga_serverTunnelAddress g \<or>
         ga_clientTunnelAddress h = ga_clientTunnelAddress g \<or> same_value (ga_publicKey h) (ga_publicKey g) \<or>
         same_value (ga_serverPublicKey h) (ga_serverPublicKey g) \<or> same_value (ga_agentTokenHash h) (ga_agentTokenHash g)))
      (gd_gates (gs_db s))"
proof -
  have inv: "gate_inv s" by (rule gate_reachable_inv [OF assms(2,1)])
  then have g: "endpoint_ok g"
    using assms(3) by (auto simp: gate_inv_def gate_db_ok_def gates_ok_def list_all_iff gate_ok_def)
  have "\<not> gate_collides h g" if "h \<in> set (gd_gates (gs_db s))" "ga_id h \<noteq> ga_id g" for h
    using that inv assms(3) by (auto simp: gate_inv_def gate_db_ok_def gates_ok_def gates_free_def)
  moreover have "ga_id h \<noteq> ga_id g \<and> (ga_serverListenPort h = ga_serverListenPort g \<or> ga_serverTunnelAddress h = ga_serverTunnelAddress g \<or>
      ga_clientTunnelAddress h = ga_clientTunnelAddress g \<or> same_value (ga_publicKey h) (ga_publicKey g) \<or>
      same_value (ga_serverPublicKey h) (ga_serverPublicKey g) \<or> same_value (ga_agentTokenHash h) (ga_agentTokenHash g)) \<longrightarrow>
      gate_collides h g" for h
    using g unfolding gate_collides_def same_value_def endpoint_ok_def by force
  ultimately have "\<not> list_ex (\<lambda>h. ga_id h \<noteq> ga_id g \<and> (ga_serverListenPort h = ga_serverListenPort g \<or>
      ga_serverTunnelAddress h = ga_serverTunnelAddress g \<or>
      ga_clientTunnelAddress h = ga_clientTunnelAddress g \<or> same_value (ga_publicKey h) (ga_publicKey g) \<or>
      same_value (ga_serverPublicKey h) (ga_serverPublicKey g) \<or> same_value (ga_agentTokenHash h) (ga_agentTokenHash g)))
      (gd_gates (gs_db s))"
    unfolding list_ex_iff by blast
  moreover have "\<exists>port. ga_serverListenPort g = Some port \<and> 52000 \<le> port \<and> port \<le> 52999"
    "ga_serverTunnelAddress g \<noteq> None" "ga_clientTunnelAddress g \<noteq> None"
    using g unfolding endpoint_ok_def GATE_PORT_MIN_def GATE_PORT_MAX_def by blast+
  ultimately show ?thesis by blast
qed

section \<open>What a heartbeat records\<close>

lemma proofs_trusted_all:
  "proofs_trusted gate now seen ps \<Longrightarrow>
     (\<forall>p \<in> set ps. proof_trusted gate now p) \<and> distinct (map lp_attachmentId ps) \<and> set (map lp_attachmentId ps) \<inter> set seen = {}"
proof (induction ps arbitrary: seen)
  case (Cons p ps)
  then show ?case using Cons.IH [of "lp_attachmentId p # seen"] by auto
qed simp

lemma update_gate_result:
  assumes "update_gate db i f = (db', Inr g)"
  shows "g \<in> set (gd_gates db') \<and> (\<exists>h \<in> set (gd_gates db). ga_id h = i \<and> g = f h)"
proof -
  obtain rest where "g # rest = map f (filter (\<lambda>g. ga_id g = i) (gd_gates db))"
    and db': "gd_gates db' = fst (update_where (\<lambda>g. ga_id g = i) f (gd_gates db))"
    using assms by (auto simp: update_gate_def update_where_def split: prod.splits list.splits)
  then have "g \<in> set (map f (filter (\<lambda>g. ga_id g = i) (gd_gates db)))" by (metis list.set_intros(1))
  then obtain h where h: "h \<in> set (gd_gates db)" "ga_id h = i" "g = f h" by auto
  then have "g \<in> set (gd_gates db')" unfolding db' set_update_where by blast
  with h show ?thesis by blast
qed

lemma bound_proof_matches:
  assumes "p \<in> set (bound_proofs db gate ps)"
  shows "p \<in> set ps \<and> (\<exists>a \<in> set (gd_attachments db). at_id a = lp_attachmentId p \<and> at_gateId a = ga_id gate \<and>
    at_tenantId a = ga_tenantId gate \<and> at_status a \<in> {''Provisioning'', ''Active'', ''Revoking''} \<and>
    at_singleAppId a = lp_singleAppId p \<and> of_int (at_configurationRevision a) = lp_configurationRevision p \<and>
    toLowerCase (at_macAddress a) = toLowerCase (lp_macAddress p))"
proof -
  have p: "p \<in> set ps" "proof_bound (reportable db gate) p" using assms by (auto simp: bound_proofs_def split: if_splits)
  then obtain a where "js_map_get (map (\<lambda>a. (at_id a, a)) (reportable db gate)) (lp_attachmentId p) = Some a"
    and m: "at_singleAppId a = lp_singleAppId p" "of_int (at_configurationRevision a) = lp_configurationRevision p"
      "toLowerCase (at_macAddress a) = toLowerCase (lp_macAddress p)"
    by (auto simp: proof_bound_def split: option.splits)
  then have "a \<in> set (reportable db gate)" "at_id a = lp_attachmentId p" using js_map_get_SomeD by fastforce+
  then show ?thesis using p(1) m by (auto simp: reportable_def)
qed

text \<open>
  C24. A heartbeat that is answered was sent by an agent of an unrevoked gate, and whatever others commit
  meanwhile, the L2 proofs it records are fresh (45 seconds, handshake within 150), name this gate and its
  tenant, concern pairwise different attachments, and each agrees with an attachment this gate served
  when they were checked: same application, configuration revision and link address. A v1 agent records
  none.
\<close>

theorem heartbeat_records_only_bound_proofs:
  assumes "gateHeartbeat sha date_parse collate host meanwhile db now authorization dto = (db', Inr cfg)"
  shows "\<exists>gate updated db2. authenticateGateAgent sha db authorization = Inr gate \<and> ga_revokedAt gate = None \<and>
    db2 = meanwhile 1 (fst (update_gate (meanwhile 0 db) (ga_id gate) (\<lambda>g. g\<lparr>ga_lastSeenAt := Some now\<rparr>))) \<and>
    updated \<in> set (gd_gates db') \<and> ga_id updated = ga_id gate \<and>
    (hb_agentVersion dto = ''gate-l2-v1'' \<longrightarrow> ga_observedL2 updated = None) \<and>
    distinct (map lp_attachmentId (option_or (ga_observedL2 updated) [])) \<and>
    list_all (\<lambda>p. proof_trusted gate now p \<and>
        list_ex (\<lambda>a. at_id a = lp_attachmentId p \<and> at_gateId a = ga_id gate \<and> at_tenantId a = ga_tenantId gate \<and>
            at_status a \<in> {''Provisioning'', ''Active'', ''Revoking''} \<and> at_singleAppId a = lp_singleAppId p \<and>
            of_int (at_configurationRevision a) = lp_configurationRevision p \<and>
            toLowerCase (at_macAddress a) = toLowerCase (lp_macAddress p))
          (gd_attachments db2))
      (option_or (ga_observedL2 updated) [])"
proof -
  obtain gate where auth: "authenticateGateAgent sha db authorization = Inr gate"
    using assms by (auto simp: gateHeartbeat_def split: sum.splits)
  then have open1: "ga_revokedAt gate = None" by (auto simp: authenticateGateAgent_def split: option.splits if_splits)
  let ?touch = "update_gate (meanwhile 0 db) (ga_id gate) (\<lambda>g. g\<lparr>ga_lastSeenAt := Some now\<rparr>)"
    and ?ps = "option_or (hb_lanAttachmentProofs dto) []"
  let ?db2 = "meanwhile 1 (fst ?touch)"
  obtain g1 where touch: "snd ?touch = Inr g1"
    using assms auth by (cases ?touch) (auto simp: gateHeartbeat_def split: sum.splits)
  obtain lan where check: "heartbeat_check sha date_parse gate dto now = Inr lan"
    using assms auth touch by (cases ?touch) (auto simp: gateHeartbeat_def split: sum.splits)
  let ?bound = "bound_proofs ?db2 gate ?ps"
  let ?up = "update_gate (meanwhile 2 ?db2) (ga_id gate) (gate_seen_row dto lan ?bound now)"
  obtain db3 updated where up: "?up = (db3, Inr updated)" "db' = db3"
    using assms auth touch check
    by (cases ?touch; cases ?up) (auto simp: gateHeartbeat_def Let_def split: sum.splits prod.splits)
  obtain h where h: "h \<in> set (gd_gates (meanwhile 2 ?db2))" "ga_id h = ga_id gate" "updated = gate_seen_row dto lan ?bound now h"
    and in_db: "updated \<in> set (gd_gates db')"
    using update_gate_result [OF up(1)] up(2) by blast
  have trusted: "proofs_trusted gate now [] ?ps"
    using check by (auto simp: heartbeat_check_def Let_def split: if_splits sum.splits)
  have l2: "ga_observedL2 updated = (if hb_agentVersion dto \<in> set l2_versions then Some ?bound else None)"
    by (simp add: h(3) gate_seen_row_def Let_def)
  have sub: "set (option_or (ga_observedL2 updated) []) \<subseteq> set ?bound" by (simp add: l2)
  have "distinct (map lp_attachmentId ?bound)"
    using proofs_trusted_all [OF trusted] by (auto simp: bound_proofs_def intro: distinct_map_filter)
  then have "distinct (map lp_attachmentId (option_or (ga_observedL2 updated) []))" by (simp add: l2)
  moreover have "list_all (\<lambda>p. proof_trusted gate now p \<and>
        list_ex (\<lambda>a. at_id a = lp_attachmentId p \<and> at_gateId a = ga_id gate \<and> at_tenantId a = ga_tenantId gate \<and>
            at_status a \<in> {''Provisioning'', ''Active'', ''Revoking''} \<and> at_singleAppId a = lp_singleAppId p \<and>
            of_int (at_configurationRevision a) = lp_configurationRevision p \<and>
            toLowerCase (at_macAddress a) = toLowerCase (lp_macAddress p))
          (gd_attachments ?db2)) (option_or (ga_observedL2 updated) [])"
    unfolding list_all_iff list_ex_iff
    using sub bound_proof_matches proofs_trusted_all [OF trusted] by blast
  moreover have "hb_agentVersion dto = ''gate-l2-v1'' \<longrightarrow> ga_observedL2 updated = None" by (simp add: l2 l2_versions_def)
  moreover have "ga_id updated = ga_id gate"
    using heartbeat_keeps_credentials [of dto lan ?bound now h] h by (simp add: credentials_def)
  ultimately show ?thesis using auth open1 in_db by blast
qed

definition hb_db :: gate_db where
  "hb_db = lan_db0\<lparr>gd_attachments := [lan_row2]\<rparr>"

definition hb_dto :: gate_heartbeat_dto where
  "hb_dto = \<lparr>hb_agentVersion = ''gate-l2-v3'', hb_lanObservation = None, hb_lanAttachmentProofs = Some [lan_gate_proof],
     hb_lanProofDiagnostic = None, hb_lanAppliedAtMs = Some 100000\<rparr>"

definition hb_gate :: gate_row where
  "hb_gate = lan_gate\<lparr>ga_lastSeenAt := Some 101000\<rparr>"

definition hb_touched :: gate_db where
  "hb_touched = hb_db\<lparr>gd_gates := [hb_gate]\<rparr>"

definition hb_seen :: gate_row where
  "hb_seen = gate_seen_row hb_dto None [lan_gate_proof] 101000 hb_gate"

definition hb_after :: gate_db where
  "hb_after = hb_touched\<lparr>gd_gates := [hb_seen]\<rparr>"

text \<open>The stages of the handler.\<close>

lemma hb_auth: "authenticateGateAgent (\<lambda>_. ''hash'') hb_db (Some ''Bearer agent'') = Inr lan_gate"
  by code_simp

lemma hb_touch: "update_gate hb_db (ga_id lan_gate) (\<lambda>g. g\<lparr>ga_lastSeenAt := Some 101000\<rparr>) = (hb_touched, Inr hb_gate)"
  by code_simp

lemma hb_check: "heartbeat_check (\<lambda>_. ''hash'') no_dates lan_gate hb_dto 101000 = Inr None"
  by code_simp

lemma hb_proofs: "option_or (hb_lanAttachmentProofs hb_dto) [] = [lan_gate_proof]"
  by code_simp

lemma hb_bound: "bound_proofs hb_touched lan_gate [lan_gate_proof] = [lan_gate_proof]"
  by code_simp

lemma hb_update: "update_gate hb_touched (ga_id lan_gate) (gate_seen_row hb_dto None [lan_gate_proof] 101000) = (hb_after, Inr hb_seen)"
  by code_simp

lemma hb_underlay:
  "ga_serverPublicKey hb_seen = Some ''serverkey''" "ga_serverListenPort hb_seen = Some 52000"
  "ga_clientTunnelAddress hb_seen = Some ''100.96.0.2/30''" "ga_serverTunnelAddress hb_seen = Some ''100.96.0.1/30''"
  by code_simp+

lemma hb_config: "\<exists>cfg. agentConfig length (Inr ''gate.example'') hb_seen (attachments_of hb_after (ga_id lan_gate)) = Inr cfg"
  by (simp add: agentConfig_def hb_underlay Let_def)

lemma hb_result:
  "\<exists>cfg. gateHeartbeat (\<lambda>_. ''hash'') no_dates length (Inr ''gate.example'') (\<lambda>_ d. d) hb_db 101000 (Some ''Bearer agent'') hb_dto =
     (hb_after, Inr cfg)"
  using hb_config by (simp add: gateHeartbeat_def hb_auth hb_touch hb_check hb_proofs hb_bound hb_update)

theorem heartbeat_records_only_bound_proofs_witness:
  "\<exists>gate updated. authenticateGateAgent (\<lambda>_. ''hash'') hb_db (Some ''Bearer agent'') = Inr gate \<and>
     updated \<in> set (gd_gates hb_after) \<and> ga_id updated = ga_id gate \<and>
     distinct (map lp_attachmentId (option_or (ga_observedL2 updated) []))"
  using hb_result by (blast dest: heartbeat_records_only_bound_proofs)

text \<open>The one proof of the heartbeat is recorded.\<close>

lemma hb_records: "map ga_observedL2 (gd_gates hb_after) = [Some [lan_gate_proof]]"
  by code_simp

end
