(* ===== verification/BillingMath.thy ===== *)
theory BillingMath
  imports JsonValues Dates
begin

text \<open>
  The pure decisions of \<open>billing/\<close>: \<open>billing-math.ts\<close> (the cost of a minute, price lists, closed minutes),
  \<open>billing-policy.ts\<close> (ledger amounts, account states, vouchers), \<open>billing-worker.logic.ts\<close> (replicas that are
  charged, the minutes to catch up), \<open>billing-preflight.ts\<close> and \<open>deployed-compute-allocation.ts\<close>.

  Credits are rational numbers. What the decimal library and PostgreSQL do with digits they cannot keep
  is the parameter \<open>decimal_lib\<close>: \<open>dl_round\<close> rounds the result of an operation of the library to its
  precision, \<open>dl_places\<close> is \<open>toDecimalPlaces(8)\<close>, \<open>dl_column\<close> stores a value in a \<open>numeric(24, 8)\<close> column
  (\<open>None\<close>: it does not fit) and \<open>dl_parse\<close> reads a numeral (\<open>None\<close>: an exception or not a finite number).
\<close>

record decimal_lib =
  dl_round :: "rat \<Rightarrow> rat"
  dl_places :: "rat \<Rightarrow> rat"
  dl_column :: "rat \<Rightarrow> rat option"
  dl_parse :: "string \<Rightarrow> rat option"

section \<open>Prices and minutes\<close>

record price_list =
  pl_id :: uuid
  pl_version :: int
  pl_effectiveFrom :: millis
  pl_cpu :: rat
  pl_memory :: rat
  pl_storage :: rat
  pl_gpu :: rat

text \<open>\<open>None\<close> is an invalid date.\<close>

definition assertFullMinute :: "millis option \<Rightarrow> bool" where
  "assertFullMinute value1 = (case value1 of None \<Rightarrow> False | Some t \<Rightarrow> t mod 60000 = 0)"

definition selectEffectivePriceList :: "price_list list \<Rightarrow> millis \<Rightarrow> price_list option" where
  "selectEffectivePriceList versions now =
     head_opt (sort_desc pl_effectiveFrom (sort_desc pl_version (filter (\<lambda>v. pl_effectiveFrom v \<le> now) versions)))"

definition creditsToPln :: "decimal_lib \<Rightarrow> rat \<Rightarrow> rat" where
  "creditsToPln lib credits = dl_round lib (credits * (1 / 100))"

definition computeMinuteCost :: "decimal_lib \<Rightarrow> int \<Rightarrow> rat \<Rightarrow> int \<Rightarrow> int \<Rightarrow> price_list \<Rightarrow> rat" where
  "computeMinuteCost lib billedReplicas cpu memoryBytes gpu price =
     (if billedReplicas \<le> 0 then 0
      else
        (let rnd = dl_round lib;
             memoryGb = rnd (of_int memoryBytes / 1000000000);
             perReplicaHourly = rnd (rnd (rnd (cpu * pl_cpu price) + rnd (memoryGb * pl_memory price)) + rnd (of_int gpu * pl_gpu price))
         in rnd (rnd (perReplicaHourly * of_int billedReplicas) / 60)))"

definition storageMinuteCost :: "decimal_lib \<Rightarrow> int \<Rightarrow> price_list \<Rightarrow> rat" where
  "storageMinuteCost lib sizeBytes price =
     (let rnd = dl_round lib in rnd (rnd (rnd (of_int sizeBytes / 1000000000) * pl_storage price) / 60))"

definition clampComputeCharge :: "rat \<Rightarrow> rat \<Rightarrow> rat" where
  "clampComputeCharge cost balance = (if cost \<le> 0 \<or> balance \<le> 0 then 0 else min cost balance)"

definition closedMinutePeriod :: "millis \<Rightarrow> millis \<times> millis" where
  "closedMinutePeriod now = (floor_minute now - 60000, floor_minute now)"

section \<open>Replicas and periods\<close>

definition effectiveReplicaCount :: "int \<Rightarrow> bool \<Rightarrow> bool \<Rightarrow> bool \<Rightarrow> bool \<Rightarrow> int" where
  "effectiveReplicaCount desiredReplicas appGroupRunning singleAppRunning billingActive pendingDeletion =
     (if \<not> appGroupRunning \<or> \<not> singleAppRunning \<or> \<not> billingActive \<or> pendingDeletion then 0 else max 0 desiredReplicas)"

definition billedReplicaCount :: "int \<Rightarrow> int \<Rightarrow> int" where
  "billedReplicaCount actualReplicas effectiveReplicas = max 0 (min actualReplicas effectiveReplicas)"

text \<open>The loop, with the number of periods that may still be pushed.\<close>

fun periods_from :: "nat \<Rightarrow> millis \<Rightarrow> millis \<Rightarrow> (millis \<times> millis) list" where
  "periods_from 0 periodStart closedEnd = []"
| "periods_from (Suc n) periodStart closedEnd =
     (if periodStart < closedEnd \<and> periodStart + 60000 \<le> closedEnd
      then (periodStart, periodStart + 60000) # periods_from n (periodStart + 60000) closedEnd
      else [])"

definition reconciliationPeriods :: "millis \<Rightarrow> millis option \<Rightarrow> int \<Rightarrow> (millis \<times> millis) list" where
  "reconciliationPeriods now lastCompletedPeriodEnd maxPeriods =
     (case lastCompletedPeriodEnd of
        None \<Rightarrow> [closedMinutePeriod now]
      | Some t \<Rightarrow> periods_from (nat (max 1 maxPeriods)) t (snd (closedMinutePeriod now)))"

section \<open>Accounts, ledger and vouchers\<close>

datatype ledger_type = TopUp | VoucherRedeem | Payment | UsageCharge | Refund | Correction

definition billingState :: "rat \<Rightarrow> rat \<Rightarrow> string \<times> bool" where
  "billingState balance informationThreshold =
     (if balance \<le> 0 then (''BillingSuspended'', False) else (''Active'', balance \<le> informationThreshold))"

definition normalizeLedgerAmount :: "ledger_type \<Rightarrow> rat \<Rightarrow> rat" where
  "normalizeLedgerAmount type1 amount =
     (case type1 of UsageCharge \<Rightarrow> - \<bar>amount\<bar> | Correction \<Rightarrow> amount | _ \<Rightarrow> \<bar>amount\<bar>)"

definition requiresBillingReason :: "ledger_type \<Rightarrow> bool" where
  "requiresBillingReason type1 \<longleftrightarrow> type1 = Refund \<or> type1 = Correction"

definition hashVoucherCode :: "(string \<Rightarrow> string) \<Rightarrow> string \<Rightarrow> string" where
  "hashVoucherCode sha code1 = sha (js_trim code1)"

definition isVoucherRedeemable :: "string \<Rightarrow> millis option \<Rightarrow> millis \<Rightarrow> bool" where
  "isVoucherRedeemable status expiresAt now \<longleftrightarrow>
     status = ''Active'' \<and> (case expiresAt of None \<Rightarrow> True | Some t \<Rightarrow> now < t)"

section \<open>Changes that raise the cost\<close>

record cost_shape =
  cs_cpu :: rat
  cs_memoryBytes :: int
  cs_gpu :: rat
  cs_desiredReplicas :: rat

record cost_update =
  cu_cpu :: "rat option"
  cu_memoryBytes :: "int option"
  cu_gpu :: "rat option"
  cu_desiredReplicas :: "rat option"

definition exceeds :: "'a :: linorder option \<Rightarrow> 'a \<Rightarrow> bool" where
  "exceeds new old = (case new of None \<Rightarrow> False | Some x \<Rightarrow> old < x)"

definition isCostIncreasingSingleAppUpdate :: "cost_shape \<Rightarrow> cost_update \<Rightarrow> bool" where
  "isCostIncreasingSingleAppUpdate current update \<longleftrightarrow>
     exceeds (cu_cpu update) (cs_cpu current) \<or> exceeds (cu_memoryBytes update) (cs_memoryBytes current) \<or>
     exceeds (cu_gpu update) (cs_gpu current) \<or> exceeds (cu_desiredReplicas update) (cs_desiredReplicas current)"

definition isCostIncreasingVolumeResize :: "int \<Rightarrow> int \<Rightarrow> bool" where
  "isCostIncreasingVolumeResize currentSizeBytes requestedSizeBytes \<longleftrightarrow> currentSizeBytes < requestedSizeBytes"

section \<open>The allocation that was deployed\<close>

record compute_allocation =
  al_desiredReplicas :: int
  al_cpu :: rat
  al_memoryBytes :: int
  al_gpu :: int
  al_runtimeState :: string

definition natural_number :: "value_json \<Rightarrow> int option" where
  "natural_number v = do { x \<leftarrow> as_number v; guard (is_integer x \<and> 0 \<le> x); Some \<lfloor>x\<rfloor> }"

text \<open>The checks on the matching entry; \<open>None\<close> is \<open>BillingDeployedResourceInvalid\<close>.\<close>

definition allocation_of :: "decimal_lib \<Rightarrow> value_json \<Rightarrow> compute_allocation option" where
  "allocation_of lib value1 =
     (let resources = vget value1 ''resources'' in
      do {
        cpuText \<leftarrow> as_string (vget resources ''cpu'');
        memoryText \<leftarrow> as_string (vget resources ''memoryBytes'');
        gpu \<leftarrow> natural_number (vget resources ''gpu'');
        desiredReplicas \<leftarrow> natural_number (vget value1 ''desiredReplicas'');
        runtimeState \<leftarrow> as_string (vget value1 ''runtimeState'');
        guard (runtimeState \<in> {''Running'', ''Stopped''} \<and> all_digits memoryText);
        cpu \<leftarrow> dl_parse lib cpuText;
        guard (0 < cpu \<and> 0 < digits_value memoryText);
        Some \<lparr>al_desiredReplicas = desiredReplicas, al_cpu = cpu, al_memoryBytes = digits_value memoryText, al_gpu = gpu,
          al_runtimeState = runtimeState\<rparr>
      })"

definition deployedComputeAllocation ::
    "decimal_lib \<Rightarrow> (string \<Rightarrow> value_json option) \<Rightarrow> string \<Rightarrow> uuid \<Rightarrow> string + compute_allocation option" where
  "deployedComputeAllocation lib json_parse stackConfig singleAppId =
     (case Option.bind (json_parse stackConfig) (\<lambda>parsed. as_array (vget parsed ''singleApps'')) of
        None \<Rightarrow> Inl ''BillingDeployedSnapshotInvalid''
      | Some rawApps \<Rightarrow>
          (case filter (\<lambda>item. vget item ''id'' = VStr singleAppId) rawApps of
             [] \<Rightarrow> Inr None
           | [value1] \<Rightarrow>
               (case allocation_of lib value1 of
                  None \<Rightarrow> Inl ''BillingDeployedResourceInvalid''
                | Some a \<Rightarrow> Inr (Some a))
           | _ \<Rightarrow> Inl ''BillingDuplicateDeployedApp''))"

section \<open>Rounding\<close>

text \<open>A number of whole units of the ledger, 10^-8 credits.\<close>

definition is_credits :: "rat \<Rightarrow> bool" where
  "is_credits x \<longleftrightarrow> is_integer (x * 100000000)"

definition ledger_unit :: rat where
  "ledger_unit = 1 / 100000000"

text \<open>What is relied on: operations round monotonically, alike for both signs, and are exact for ledger
  amounts below 10^12 credits and close to exact below 10^11 (20 significant digits); a column keeps the
  nearest ledger amount, with ties away from zero.\<close>

definition decimal_lib_ok :: "decimal_lib \<Rightarrow> bool" where
  "decimal_lib_ok lib \<longleftrightarrow>
     (\<forall>x y. x \<le> y \<longrightarrow> dl_round lib x \<le> dl_round lib y) \<and> (\<forall>x. dl_round lib (- x) = - dl_round lib x) \<and>
     (\<forall>x. is_credits x \<and> \<bar>x\<bar> < 10 ^ 12 \<longrightarrow> dl_round lib x = x) \<and>
     (\<forall>x. \<bar>x\<bar> < 10 ^ 11 \<longrightarrow> \<bar>dl_round lib x - x\<bar> \<le> ledger_unit / 20) \<and>
     (\<forall>x y. dl_column lib x = Some y \<longrightarrow> is_credits y \<and> \<bar>y - x\<bar> \<le> ledger_unit / 2) \<and>
     (\<forall>x. is_credits x \<and> \<bar>x\<bar> < 10 ^ 16 \<longrightarrow> dl_column lib x = Some x) \<and>
     (\<forall>x. dl_column lib (- x) = map_option uminus (dl_column lib x)) \<and>
     (\<forall>x. is_credits (dl_places lib x) \<and> \<bar>dl_places lib x - x\<bar> \<le> ledger_unit / 2)"

lemma is_credits_0 [simp]: "is_credits 0"
  by (simp add: is_credits_def is_integer_def)

lemma is_integer_minus [simp]: "is_integer (- x) \<longleftrightarrow> is_integer x"
  unfolding is_integer_def by (metis minus_minus of_int_floor_cancel of_int_minus)

lemma is_integer_add: "is_integer x \<Longrightarrow> is_integer y \<Longrightarrow> is_integer (x + y)"
  unfolding is_integer_def by (metis of_int_add of_int_floor_cancel)

lemma is_credits_minus [simp]: "is_credits (- x) \<longleftrightarrow> is_credits x"
  by (simp add: is_credits_def flip: minus_mult_left)

lemma is_credits_add: "is_credits x \<Longrightarrow> is_credits y \<Longrightarrow> is_credits (x + y)"
  by (simp add: is_credits_def distrib_right is_integer_add)

lemma is_credits_diff: "is_credits x \<Longrightarrow> is_credits y \<Longrightarrow> is_credits (x - y)"
  using is_credits_add [of x "- y"] by simp

lemma is_credits_abs [simp]: "is_credits \<bar>x\<bar> \<longleftrightarrow> is_credits x"
  by (simp add: abs_rat_def)

text \<open>Ledger amounts that differ by less than two units differ by at most one.\<close>

lemma is_integer_less_two: "is_integer x \<Longrightarrow> \<bar>x\<bar> < 2 \<Longrightarrow> \<bar>x\<bar> \<le> 1"
proof -
  assume "is_integer x" "\<bar>x\<bar> < 2"
  then obtain k where k: "x = of_int k" unfolding is_integer_def by metis
  then have "\<bar>of_int k :: rat\<bar> < of_int 2" using \<open>\<bar>x\<bar> < 2\<close> by simp
  then have "\<bar>k\<bar> < 2" by (simp only: of_int_less_iff flip: of_int_abs)
  then have "of_int \<bar>k\<bar> \<le> (of_int 1 :: rat)" by (simp only: of_int_le_iff)
  then show ?thesis by (simp add: k)
qed

lemma is_credits_close: "is_credits x \<Longrightarrow> \<bar>x\<bar> < 2 * ledger_unit \<Longrightarrow> \<bar>x\<bar> \<le> ledger_unit"
  using is_integer_less_two [of "x * 100000000"] by (simp add: is_credits_def ledger_unit_def abs_mult field_simps)

section \<open>A decimal library with fixed places\<close>

definition half_up :: "nat \<Rightarrow> rat \<Rightarrow> rat" where
  "half_up n x = (let y = of_int \<lfloor>\<bar>x\<bar> * 10 ^ n + 1 / 2\<rfloor> / 10 ^ n in if x < 0 then - y else y)"

text \<open>An instance: operations keep 20 places, columns and \<open>toDecimalPlaces\<close> 8, both rounding half up.\<close>

definition fixed_decimals :: decimal_lib where
  "fixed_decimals =
     \<lparr>dl_round = half_up 20, dl_places = half_up 8,
      dl_column = (\<lambda>x. if \<bar>half_up 8 x\<bar> < 10000000000000000 then Some (half_up 8 x) else None),
      dl_parse = js_number\<rparr>"

end
