(* ===== verification/Billing.thy ===== *)
theory Billing
  imports BillingMath Table
begin

text \<open>
  The billing tables and the transactions on them: \<open>billing/billing.service.ts\<close> (payments, refunds,
  corrections, vouchers, price lists), \<open>billing/billing-usage.service.ts\<close> (the charge of one resource for one
  minute) and \<open>resource-bot/resource-bot-billing.service.ts\<close> (reservations and their settlement). Each
  transaction locks the account it writes, so one function is one atomic step. Identifiers of new rows
  are arguments; an audit entry keeps its action and resource.
\<close>

section \<open>Tables\<close>

record billing_account =
  ba_id :: uuid
  ba_tenantId :: uuid
  ba_balance :: rat
  ba_informationThreshold :: rat

record billing_transaction =
  bt_id :: uuid
  bt_accountId :: uuid
  bt_type :: ledger_type
  bt_amount :: rat
  bt_balanceBefore :: rat
  bt_balanceAfter :: rat
  bt_reference :: "string option"
  bt_sourceTransactionId :: "uuid option"

record usage_record =
  ur_id :: uuid
  ur_accountId :: uuid
  ur_resourceType :: string
  ur_resourceId :: uuid
  ur_periodStart :: millis
  ur_periodEnd :: millis
  ur_cost :: rat
  ur_chargedCredits :: rat
  ur_priceListVersionId :: uuid

record voucher_row =
  vo_id :: uuid
  vo_codeHash :: string
  vo_valueCredits :: rat
  vo_status :: string
  vo_expiresAt :: "millis option"
  vo_redeemedAt :: "millis option"
  vo_redeemedBillingAccountId :: "uuid option"
  vo_disabledAt :: "millis option"

record bot_price =
  bp_id :: uuid
  bp_provider :: string
  bp_model :: string
  bp_effectiveFrom :: millis
  bp_createdAt :: millis
  bp_input :: rat
  bp_cachedInput :: rat
  bp_output :: rat
  bp_embedding :: rat

record bot_reservation =
  br_id :: uuid
  br_accountId :: uuid
  br_tenantId :: uuid
  br_requestId :: string
  br_reservedCredits :: rat
  br_priceVersionId :: uuid
  br_expiresAt :: millis

record bot_usage =
  bu_id :: uuid
  bu_accountId :: uuid
  bu_tenantId :: uuid
  bu_requestId :: string
  bu_theoreticalCost :: rat
  bu_chargedCredits :: rat

record billing_db =
  bd_tenants :: "uuid list"
  bd_accounts :: "billing_account list"
  bd_transactions :: "billing_transaction list"
  bd_usage :: "usage_record list"
  bd_vouchers :: "voucher_row list"
  bd_prices :: "price_list list"
  bd_botPrices :: "bot_price list"
  bd_reservations :: "bot_reservation list"
  bd_botUsage :: "bot_usage list"
  bd_worker :: "millis option"
  bd_audit :: "(string \<times> uuid) list"

datatype billing_error =
    BillNotFound string
  | BillConflict string
  | BillBadRequest string
  | BillThrown string

type_synonym 'a billing_result = "billing_db \<times> (billing_error + 'a)"

text \<open>A transaction: an exception inside undoes what was written.\<close>

definition billing_transaction_of :: "billing_db \<Rightarrow> (billing_error + billing_db \<times> 'a) \<Rightarrow> 'a billing_result" where
  "billing_transaction_of db r = (case r of Inl e \<Rightarrow> (db, Inl e) | Inr (db', x) \<Rightarrow> (db', Inr x))"

definition bill_audit :: "string \<Rightarrow> uuid \<Rightarrow> billing_db \<Rightarrow> billing_db" where
  "bill_audit action resource db = db\<lparr>bd_audit := bd_audit db @ [(action, resource)]\<rparr>"

definition column :: "decimal_lib \<Rightarrow> rat \<Rightarrow> billing_error + rat" where
  "column lib x = (case dl_column lib x of None \<Rightarrow> Inl (BillThrown ''numeric field overflow'') | Some y \<Rightarrow> Inr y)"

definition lockAccount :: "billing_db \<Rightarrow> uuid \<Rightarrow> billing_error + billing_account" where
  "lockAccount db tenantId =
     (case find_row ba_tenantId tenantId (bd_accounts db) of
        None \<Rightarrow> Inl (BillNotFound ''Billing account not found'')
      | Some a \<Rightarrow> Inr a)"

definition findTenantOrThrow :: "billing_db \<Rightarrow> uuid \<Rightarrow> billing_error + unit" where
  "findTenantOrThrow db tenantId =
     (if tenantId \<in> set (bd_tenants db) then Inr () else Inl (BillNotFound ''Tenant not found''))"

text \<open>\<open>billingAccount.update\<close> followed by \<open>billingTransaction.create\<close>.\<close>

definition post_ledger ::
    "decimal_lib \<Rightarrow> billing_db \<Rightarrow> billing_account \<Rightarrow> uuid \<Rightarrow> ledger_type \<Rightarrow> rat \<Rightarrow> rat \<Rightarrow> string option \<Rightarrow> uuid option \<Rightarrow>
     billing_error + billing_db \<times> billing_transaction" where
  "post_ledger lib db account txId type1 amount balanceAfter reference source =
     and_then (column lib balanceAfter) (\<lambda>after.
     and_then (column lib amount) (\<lambda>stored.
       let t = \<lparr>bt_id = txId, bt_accountId = ba_id account, bt_type = type1, bt_amount = stored,
                bt_balanceBefore = ba_balance account, bt_balanceAfter = after, bt_reference = reference,
                bt_sourceTransactionId = source\<rparr> in
       Inr (db\<lparr>bd_accounts := fst (update_where (\<lambda>a. ba_id a = ba_id account) (\<lambda>a. a\<lparr>ba_balance := after\<rparr>) (bd_accounts db)),
               bd_transactions := bd_transactions db @ [t]\<rparr>, t)))"

definition applyBalanceMutation ::
    "decimal_lib \<Rightarrow> billing_db \<Rightarrow> billing_account \<Rightarrow> uuid \<Rightarrow> ledger_type \<Rightarrow> rat \<Rightarrow> string option \<Rightarrow> uuid option \<Rightarrow> string \<Rightarrow> uuid \<Rightarrow>
     billing_error + billing_db \<times> billing_transaction" where
  "applyBalanceMutation lib db account txId type1 amount reference source auditAction auditResource =
     (let ledgerAmount = normalizeLedgerAmount type1 amount;
          balanceAfter = dl_round lib (ba_balance account + ledgerAmount);
          stateOf = (\<lambda>b. fst (billingState b (ba_informationThreshold account))) in
      and_then (post_ledger lib db account txId type1 ledgerAmount balanceAfter reference source) (\<lambda>(db1, t).
        let db2 = bill_audit auditAction auditResource db1 in
        Inr (if stateOf (ba_balance account) \<noteq> stateOf balanceAfter
             then bill_audit (if stateOf balanceAfter = ''BillingSuspended'' then ''billing.suspend'' else ''billing.reactivate'')
                    (ba_id account) db2
             else db2, t)))"

section \<open>Payments, refunds and corrections\<close>

definition mutateBalance ::
    "decimal_lib \<Rightarrow> billing_db \<Rightarrow> uuid \<Rightarrow> ledger_type \<Rightarrow> rat \<Rightarrow> string option \<Rightarrow> uuid option \<Rightarrow> string \<Rightarrow> uuid \<Rightarrow>
     billing_transaction billing_result" where
  "mutateBalance lib db tenantId type1 amount0 reference source auditAction txId =
     (if amount0 = 0 then (db, Inl (BillBadRequest ''Billing amount cannot be zero''))
      else
        (let amount = (if type1 \<noteq> Correction \<and> amount0 < 0 then \<bar>amount0\<bar> else amount0) in
         billing_transaction_of db
           (and_then (findTenantOrThrow db tenantId) (\<lambda>_.
            and_then (lockAccount db tenantId) (\<lambda>account.
              if (case source of
                    None \<Rightarrow> False
                  | Some s \<Rightarrow> s \<noteq> '''' \<and> \<not> list_ex (\<lambda>t. bt_id t = s \<and> bt_accountId t = ba_id account) (bd_transactions db))
              then Inl (BillNotFound ''Source billing transaction not found'')
              else applyBalanceMutation lib db account txId type1 amount reference source auditAction (ba_id account))))))"

definition payment :: "decimal_lib \<Rightarrow> billing_db \<Rightarrow> uuid \<Rightarrow> rat \<Rightarrow> string option \<Rightarrow> uuid option \<Rightarrow> uuid \<Rightarrow> billing_transaction billing_result" where
  "payment lib db tenantId amountCredits reference source txId =
     mutateBalance lib db tenantId Payment amountCredits reference source ''billing.payment'' txId"

definition refund :: "decimal_lib \<Rightarrow> billing_db \<Rightarrow> uuid \<Rightarrow> rat \<Rightarrow> string option \<Rightarrow> uuid option \<Rightarrow> uuid \<Rightarrow> billing_transaction billing_result" where
  "refund lib db tenantId amountCredits reference source txId =
     mutateBalance lib db tenantId Refund amountCredits reference source ''billing.refund'' txId"

definition correction :: "decimal_lib \<Rightarrow> billing_db \<Rightarrow> uuid \<Rightarrow> rat \<Rightarrow> string option \<Rightarrow> uuid option \<Rightarrow> uuid \<Rightarrow> billing_transaction billing_result" where
  "correction lib db tenantId amountCredits reference source txId =
     mutateBalance lib db tenantId Correction amountCredits reference source ''billing.correction'' txId"

section \<open>Vouchers\<close>

definition createVoucher ::
    "decimal_lib \<Rightarrow> billing_db \<Rightarrow> millis \<Rightarrow> rat \<Rightarrow> millis option \<Rightarrow> uuid \<Rightarrow> string \<Rightarrow> voucher_row billing_result" where
  "createVoucher lib db now valueCredits expiresAt i codeHash =
     (if valueCredits \<le> 0 then (db, Inl (BillBadRequest ''valueCredits must be greater than zero''))
      else if (case expiresAt of None \<Rightarrow> False | Some t \<Rightarrow> t \<le> now)
      then (db, Inl (BillBadRequest ''Voucher expiry must be in the future''))
      else
        billing_transaction_of db
          (and_then (column lib valueCredits) (\<lambda>v.
             if list_ex (\<lambda>w. vo_id w = i \<or> vo_codeHash w = codeHash) (bd_vouchers db)
             then Inl (BillThrown ''Unique constraint failed'')
             else
               (let row = \<lparr>vo_id = i, vo_codeHash = codeHash, vo_valueCredits = v, vo_status = ''Active'',
                      vo_expiresAt = expiresAt, vo_redeemedAt = None, vo_redeemedBillingAccountId = None, vo_disabledAt = None\<rparr> in
                Inr (bill_audit ''billing.voucher.create'' i (db\<lparr>bd_vouchers := bd_vouchers db @ [row]\<rparr>), row)))))"

definition update_voucher :: "billing_db \<Rightarrow> uuid \<Rightarrow> (voucher_row \<Rightarrow> voucher_row) \<Rightarrow> billing_db" where
  "update_voucher db i f = db\<lparr>bd_vouchers := fst (update_where (\<lambda>v. vo_id v = i) f (bd_vouchers db))\<rparr>"

definition disabled_voucher :: "millis \<Rightarrow> voucher_row \<Rightarrow> voucher_row" where
  "disabled_voucher now v = v\<lparr>vo_status := ''Disabled'', vo_disabledAt := Some now\<rparr>"

definition disableVoucher :: "billing_db \<Rightarrow> millis \<Rightarrow> uuid \<Rightarrow> voucher_row billing_result" where
  "disableVoucher db now voucherId =
     (case find_row vo_id voucherId (bd_vouchers db) of
        None \<Rightarrow> (db, Inl (BillNotFound ''Voucher not found''))
      | Some v \<Rightarrow>
          if vo_status v = ''Redeemed'' then (db, Inl (BillConflict ''VoucherAlreadyRedeemed''))
          else if vo_status v = ''Disabled'' then (db, Inr v)
          else (bill_audit ''billing.voucher.disable'' voucherId (update_voucher db voucherId (disabled_voucher now)),
                Inr (disabled_voucher now v)))"

definition redeemed_voucher :: "millis \<Rightarrow> uuid \<Rightarrow> voucher_row \<Rightarrow> voucher_row" where
  "redeemed_voucher now accountId v =
     v\<lparr>vo_status := ''Redeemed'', vo_redeemedAt := Some now, vo_redeemedBillingAccountId := Some accountId\<rparr>"

definition redeemVoucher ::
    "decimal_lib \<Rightarrow> (string \<Rightarrow> string) \<Rightarrow> billing_db \<Rightarrow> millis \<Rightarrow> uuid \<Rightarrow> string \<Rightarrow> uuid \<Rightarrow> billing_transaction billing_result" where
  "redeemVoucher lib sha db now tenantId code1 txId =
     billing_transaction_of db
       (and_then (findTenantOrThrow db tenantId) (\<lambda>_.
          case find_row vo_codeHash (hashVoucherCode sha code1) (bd_vouchers db) of
            None \<Rightarrow> Inl (BillNotFound ''VoucherNotFound'')
          | Some v \<Rightarrow>
              if \<not> isVoucherRedeemable (vo_status v) (vo_expiresAt v) now
              then Inl (BillConflict
                     (if vo_status v = ''Redeemed'' then ''VoucherAlreadyRedeemed''
                      else if vo_status v = ''Disabled'' then ''VoucherDisabled'' else ''VoucherExpired''))
              else
                and_then (lockAccount db tenantId) (\<lambda>account.
                and_then (applyBalanceMutation lib db account txId VoucherRedeem (vo_valueCredits v)
                            (Some (''voucher:'' @ vo_id v)) None ''billing.voucher.redeem'' (vo_id v)) (\<lambda>(db', t).
                  Inr (update_voucher db' (vo_id v) (redeemed_voucher now (ba_id account)), t)))))"

section \<open>Price lists\<close>

definition getActivePriceList :: "billing_db \<Rightarrow> millis \<Rightarrow> price_list option" where
  "getActivePriceList db now =
     head_opt (sort_desc pl_effectiveFrom (sort_desc pl_version (filter (\<lambda>p. pl_effectiveFrom p \<le> now) (bd_prices db))))"

definition assertActivePriceList :: "billing_db \<Rightarrow> millis \<Rightarrow> billing_error + price_list" where
  "assertActivePriceList db now =
     (case getActivePriceList db now of None \<Rightarrow> Inl (BillConflict ''BillingPriceListUnavailable'') | Some p \<Rightarrow> Inr p)"

text \<open>The rates as the row stores them, each of which may overflow its column.\<close>

definition stored_rates :: "decimal_lib \<Rightarrow> price_list \<Rightarrow> billing_error + price_list" where
  "stored_rates lib p =
     and_then (column lib (pl_cpu p)) (\<lambda>c. and_then (column lib (pl_memory p)) (\<lambda>m.
     and_then (column lib (pl_storage p)) (\<lambda>s. and_then (column lib (pl_gpu p)) (\<lambda>g.
       Inr (p\<lparr>pl_cpu := c, pl_memory := m, pl_storage := s, pl_gpu := g\<rparr>)))))"

definition nonNegativeDecimal :: "rat \<Rightarrow> string \<Rightarrow> billing_error + rat" where
  "nonNegativeDecimal amount field = (if amount < 0 then Inl (BillBadRequest (field @ '' cannot be negative'')) else Inr amount)"

text \<open>\<open>COALESCE(MAX("version"), 0)\<close>.\<close>

definition latest_version :: "price_list list \<Rightarrow> int" where
  "latest_version prices = (case map pl_version prices of [] \<Rightarrow> 0 | v # vs \<Rightarrow> fold max vs v)"

definition createPriceList ::
    "decimal_lib \<Rightarrow> billing_db \<Rightarrow> millis option \<Rightarrow> rat \<Rightarrow> rat \<Rightarrow> rat \<Rightarrow> rat \<Rightarrow> uuid \<Rightarrow> price_list billing_result" where
  "createPriceList lib db effectiveFrom cpu memory storage gpu i =
     (if \<not> assertFullMinute effectiveFrom then (db, Inl (BillBadRequest ''PriceListEffectiveFromMustBeFullMinute''))
      else
        billing_transaction_of db
          (and_then (nonNegativeDecimal cpu ''cpuCreditsPerVcpuHour'') (\<lambda>_.
           and_then (nonNegativeDecimal memory ''memoryCreditsPerGbHour'') (\<lambda>_.
           and_then (nonNegativeDecimal storage ''storageCreditsPerGbHour'') (\<lambda>_.
           and_then (nonNegativeDecimal gpu ''gpuCreditsPerGpuHour'') (\<lambda>_.
             let version = latest_version (bd_prices db) + 1 in
             and_then (stored_rates lib \<lparr>pl_id = i, pl_version = version, pl_effectiveFrom = option_or effectiveFrom 0,
                         pl_cpu = cpu, pl_memory = memory, pl_storage = storage, pl_gpu = gpu\<rparr>) (\<lambda>row.
               if list_ex (\<lambda>p. pl_id p = i \<or> pl_version p = version \<or> Some (pl_effectiveFrom p) = effectiveFrom) (bd_prices db)
               then Inl (BillThrown ''Unique constraint failed'')
               else Inr (bill_audit ''billing.price_list.create'' i (db\<lparr>bd_prices := bd_prices db @ [row]\<rparr>), row))))))))"

section \<open>The charge of a resource for a minute\<close>

record usage_charge =
  uc_tenantId :: uuid
  uc_resourceType :: string
  uc_resourceId :: uuid
  uc_periodStart :: millis
  uc_periodEnd :: millis
  uc_theoreticalCost :: rat
  uc_priceListVersionId :: uuid
  uc_allowDebt :: bool

datatype charge_result = DuplicateCharge | Charged uuid rat

definition same_usage :: "usage_charge \<Rightarrow> usage_record \<Rightarrow> bool" where
  "same_usage c r \<longleftrightarrow>
     ur_resourceType r = uc_resourceType c \<and> ur_resourceId r = uc_resourceId c \<and> ur_periodStart r = uc_periodStart c \<and>
     ur_periodEnd r = uc_periodEnd c"

definition new_usage :: "uuid \<Rightarrow> uuid \<Rightarrow> usage_charge \<Rightarrow> rat \<Rightarrow> rat \<Rightarrow> usage_record" where
  "new_usage i accountId c cost charged =
     \<lparr>ur_id = i, ur_accountId = accountId, ur_resourceType = uc_resourceType c, ur_resourceId = uc_resourceId c,
      ur_periodStart = uc_periodStart c, ur_periodEnd = uc_periodEnd c, ur_cost = cost, ur_chargedCredits = charged,
      ur_priceListVersionId = uc_priceListVersionId c\<rparr>"

text \<open>A charge that allows debt is the whole cost, any other what the balance covers.\<close>

definition charge_of :: "usage_charge \<Rightarrow> billing_account \<Rightarrow> rat" where
  "charge_of c account =
     (if uc_allowDebt c then uc_theoreticalCost c else clampComputeCharge (uc_theoreticalCost c) (ba_balance account))"

text \<open>\<open>BillingUsageService.recordUsageCharge\<close>. The insert selects the account of the tenant and does nothing on
  a conflict, so no row is returned when the account is missing, either.\<close>

definition recordUsageCharge ::
    "decimal_lib \<Rightarrow> billing_db \<Rightarrow> usage_charge \<Rightarrow> uuid \<Rightarrow> uuid \<Rightarrow> charge_result billing_result" where
  "recordUsageCharge lib db c usageId txId =
     billing_transaction_of db
       (and_then (findTenantOrThrow db (uc_tenantId c)) (\<lambda>_.
          case find_row ba_tenantId (uc_tenantId c) (bd_accounts db) of
            None \<Rightarrow> Inr (db, DuplicateCharge)
          | Some account \<Rightarrow>
              and_then (column lib (uc_theoreticalCost c)) (\<lambda>cost.
              if list_ex (same_usage c) (bd_usage db) then Inr (db, DuplicateCharge)
              else
                (let charged = charge_of c account;
                     balanceAfter = dl_round lib (ba_balance account - charged) in
                 and_then (column lib charged) (\<lambda>stored.
                   let db1 = db\<lparr>bd_usage := bd_usage db @ [new_usage usageId (ba_id account) c cost stored]\<rparr> in
                   and_then (if 0 < charged
                             then map_sum id fst (post_ledger lib db1 account txId UsageCharge (- charged) balanceAfter
                                                    (Some (''usage:'' @ usageId)) None)
                             else Inr db1) (\<lambda>db2.
                     let db3 = bill_audit ''billing.usage_charge'' (uc_resourceId c) db2 in
                     Inr (if 0 < ba_balance account \<and> balanceAfter \<le> 0
                          then bill_audit ''billing.suspend'' (ba_id account) db3 else db3,
                          Charged usageId charged)))))))"

text \<open>\<open>BillingService.recordUsageCharge\<close>, its earlier variant.\<close>

definition service_recordUsageCharge ::
    "decimal_lib \<Rightarrow> billing_db \<Rightarrow> usage_charge \<Rightarrow> uuid \<Rightarrow> uuid \<Rightarrow> charge_result billing_result" where
  "service_recordUsageCharge lib db c usageId txId =
     billing_transaction_of db
       (and_then (findTenantOrThrow db (uc_tenantId c)) (\<lambda>_.
        and_then (lockAccount db (uc_tenantId c)) (\<lambda>account.
          if list_ex (same_usage c) (bd_usage db) then Inr (db, DuplicateCharge)
          else
            (let charged = charge_of c account in
             and_then (column lib (uc_theoreticalCost c)) (\<lambda>cost.
             and_then (column lib charged) (\<lambda>stored.
               let db1 = db\<lparr>bd_usage := bd_usage db @ [new_usage usageId (ba_id account) c cost stored]\<rparr> in
               and_then (if 0 < charged
                         then map_sum id fst (applyBalanceMutation lib db1 account txId UsageCharge charged
                                                (Some (''usage:'' @ usageId)) None ''billing.usage_charge'' (uc_resourceId c))
                         else Inr (bill_audit ''billing.usage_charge'' (uc_resourceId c) db1)) (\<lambda>db2.
                 Inr (db2, Charged usageId charged))))))))"

end
