(* ===== verification/BotBilling.thy ===== *)
theory BotBilling
  imports Billing
begin

text \<open>
  \<open>resource-bot/resource-bot-billing.service.ts\<close>: prices of a model, the reservation of credits for a request,
  its settlement by the execution that holds the reservation, renewal and release. The time is read once
  per transaction.
\<close>

definition RESERVATION_TTL_MS :: int where "RESERVATION_TTL_MS = 5 * 60000"
definition RESERVATION_MAX_INPUT_TOKENS :: rat where "RESERVATION_MAX_INPUT_TOKENS = 50000"
definition RESERVATION_MAX_OUTPUT_TOKENS :: rat where "RESERVATION_MAX_OUTPUT_TOKENS = 700"
definition RESERVATION_MAX_EMBEDDING_INPUT_TOKENS :: rat where "RESERVATION_MAX_EMBEDDING_INPUT_TOKENS = 5000"

section \<open>Prices\<close>

definition getActivePrice :: "billing_db \<Rightarrow> string \<Rightarrow> string \<Rightarrow> millis \<Rightarrow> billing_error + bot_price" where
  "getActivePrice db provider model now =
     (case head_opt (sort_desc bp_effectiveFrom (sort_desc bp_createdAt
             (filter (\<lambda>p. bp_provider p = provider \<and> bp_model p = model \<and> bp_effectiveFrom p \<le> now) (bd_botPrices db)))) of
        None \<Rightarrow> Inl (BillConflict ''ResourceBotPriceUnavailable'')
      | Some p \<Rightarrow> Inr p)"

definition bot_rates :: "decimal_lib \<Rightarrow> bot_price \<Rightarrow> billing_error + bot_price" where
  "bot_rates lib p =
     and_then (column lib (bp_input p)) (\<lambda>a. and_then (column lib (bp_cachedInput p)) (\<lambda>b.
     and_then (column lib (bp_output p)) (\<lambda>c. and_then (column lib (bp_embedding p)) (\<lambda>d.
       Inr (p\<lparr>bp_input := a, bp_cachedInput := b, bp_output := c, bp_embedding := d\<rparr>)))))"

definition createPrice :: "decimal_lib \<Rightarrow> billing_db \<Rightarrow> millis option \<Rightarrow> bot_price \<Rightarrow> bot_price billing_result" where
  "createPrice lib db effectiveFrom p =
     (if \<not> assertFullMinute effectiveFrom
      then (db, Inl (BillBadRequest ''ResourceBot price effectiveFrom must be aligned to a full minute''))
      else
        billing_transaction_of db
          (and_then (nonNegativeDecimal (bp_input p) ''inputCreditsPer1M'') (\<lambda>_.
           and_then (nonNegativeDecimal (bp_cachedInput p) ''cachedInputCreditsPer1M'') (\<lambda>_.
           and_then (nonNegativeDecimal (bp_output p) ''outputCreditsPer1M'') (\<lambda>_.
           and_then (nonNegativeDecimal (bp_embedding p) ''embeddingCreditsPer1M'') (\<lambda>_.
           and_then (bot_rates lib (p\<lparr>bp_effectiveFrom := option_or effectiveFrom 0\<rparr>)) (\<lambda>row.
             if list_ex (\<lambda>q. bp_id q = bp_id row \<or>
                  (bp_provider q = bp_provider row \<and> bp_model q = bp_model row \<and> bp_effectiveFrom q = bp_effectiveFrom row))
                (bd_botPrices db)
             then Inl (BillConflict ''A ResourceBot price already exists for this provider, model and effective time'')
             else
               Inr (bill_audit ''platform.resourcebot.price.create'' (bp_id row)
                      (db\<lparr>bd_botPrices := bd_botPrices db @ [row]\<rparr>), row))))))))"

record bot_tokens =
  tk_input :: rat
  tk_cachedInput :: rat
  tk_output :: rat
  tk_embeddingInput :: rat

definition token_count :: "rat \<Rightarrow> rat" where
  "token_count x = of_int (max 0 \<lfloor>x\<rfloor>)"

definition costForUsage :: "decimal_lib \<Rightarrow> bot_price \<Rightarrow> bot_tokens \<Rightarrow> rat" where
  "costForUsage lib price usage =
     (let rnd = dl_round lib;
          inputTokens = token_count (tk_input usage);
          cachedInputTokens = min inputTokens (token_count (tk_cachedInput usage));
          uncachedInputTokens = rnd (inputTokens - cachedInputTokens);
          outputTokens = token_count (tk_output usage);
          embeddingInputTokens = token_count (tk_embeddingInput usage)
      in dl_places lib
           (rnd (rnd (rnd (rnd (rnd (uncachedInputTokens * bp_input price) + rnd (cachedInputTokens * bp_cachedInput price)) +
                           rnd (outputTokens * bp_output price)) +
                      rnd (embeddingInputTokens * bp_embedding price)) / 1000000)))"

section \<open>Reservations\<close>

definition max_tokens :: bot_tokens where
  "max_tokens =
     \<lparr>tk_input = RESERVATION_MAX_INPUT_TOKENS, tk_cachedInput = 0, tk_output = RESERVATION_MAX_OUTPUT_TOKENS,
      tk_embeddingInput = RESERVATION_MAX_EMBEDDING_INPUT_TOKENS\<rparr>"

datatype reserve_result = AlreadyCharged uuid | Reserved uuid rat

definition live_reservations :: "billing_db \<Rightarrow> uuid \<Rightarrow> millis \<Rightarrow> bot_reservation list" where
  "live_reservations db accountId now =
     filter (\<lambda>r. br_accountId r = accountId \<and> now < br_expiresAt r) (bd_reservations db)"

definition drop_expired :: "uuid \<Rightarrow> millis \<Rightarrow> billing_db \<Rightarrow> billing_db" where
  "drop_expired accountId now db =
     db\<lparr>bd_reservations := filter (\<lambda>r. \<not> (br_accountId r = accountId \<and> br_expiresAt r \<le> now)) (bd_reservations db)\<rparr>"

text \<open>The part of the transaction after the idempotency check: the limits, then the new row.\<close>

definition reserve_credits ::
    "decimal_lib \<Rightarrow> billing_db \<Rightarrow> millis \<Rightarrow> billing_account \<Rightarrow> bot_price \<Rightarrow> rat \<Rightarrow> uuid \<Rightarrow> string \<Rightarrow> uuid \<Rightarrow>
     billing_error + billing_db \<times> reserve_result" where
  "reserve_credits lib db now account price reservedCredits tenantId requestId i =
     (case find_row br_requestId requestId (bd_reservations db) of
        Some r \<Rightarrow>
          Inl (BillConflict (if br_tenantId r \<noteq> tenantId then ''ResourceBot reservation belongs to another tenant''
                             else ''ResourceBotRequestInProgress''))
      | None \<Rightarrow>
          (let live = live_reservations db (ba_id account) now;
               available = dl_round lib (ba_balance account - sum_list (map br_reservedCredits live)) in
           if 4 \<le> length live then Inl (BillConflict ''ResourceBotRateLimited'')
           else if ba_balance account \<le> 0 then Inl (BillConflict ''ResourceBotBillingSuspended'')
           else if available < reservedCredits then Inl (BillConflict ''ResourceBotUsageLimitExceeded'')
           else
             and_then (column lib reservedCredits) (\<lambda>stored.
               Inr (db\<lparr>bd_reservations := bd_reservations db @
                         [\<lparr>br_id = i, br_accountId = ba_id account, br_tenantId = tenantId, br_requestId = requestId,
                           br_reservedCredits = stored, br_priceVersionId = bp_id price,
                           br_expiresAt = now + RESERVATION_TTL_MS\<rparr>]\<rparr>,
                    Reserved i reservedCredits))))"

definition reserve ::
    "decimal_lib \<Rightarrow> billing_db \<Rightarrow> millis \<Rightarrow> uuid \<Rightarrow> string \<Rightarrow> string \<Rightarrow> string \<Rightarrow> uuid \<Rightarrow> reserve_result billing_result" where
  "reserve lib db now tenantId requestId provider model i =
     billing_transaction_of db
       (and_then (getActivePrice db provider model now) (\<lambda>price.
        and_then (lockAccount db tenantId) (\<lambda>account.
          case find_row bu_requestId requestId (bd_botUsage db) of
            Some u \<Rightarrow>
              if bu_tenantId u \<noteq> tenantId then Inl (BillConflict ''ResourceBot requestId belongs to another tenant'')
              else Inr (db, AlreadyCharged (bu_id u))
          | None \<Rightarrow>
              reserve_credits lib (drop_expired (ba_id account) now db) now account price (costForUsage lib price max_tokens)
                tenantId requestId i)))"

section \<open>Settlement\<close>

record settle_input =
  se_tenantId :: uuid
  se_requestId :: string
  se_reservationId :: uuid
  se_provider :: string
  se_model :: string
  se_tokens :: bot_tokens

definition valid_reservation :: "billing_db \<Rightarrow> millis \<Rightarrow> billing_account \<Rightarrow> settle_input \<Rightarrow> (bot_reservation \<times> bot_price) option" where
  "valid_reservation db now account input =
     (case find_row br_requestId (se_requestId input) (bd_reservations db) of
        None \<Rightarrow> None
      | Some r \<Rightarrow>
          (case find_row bp_id (br_priceVersionId r) (bd_botPrices db) of
             None \<Rightarrow> None
           | Some p \<Rightarrow>
               if br_id r = se_reservationId input \<and> br_tenantId r = se_tenantId input \<and> br_accountId r = ba_id account \<and>
                  now < br_expiresAt r \<and> bp_provider p = se_provider input \<and> bp_model p = se_model input
               then Some (r, p) else None))"

definition settled_charge :: "rat \<Rightarrow> rat \<Rightarrow> rat \<Rightarrow> rat" where
  "settled_charge theoreticalCost reservedCredits balance = min theoreticalCost (min reservedCredits (max balance 0))"

definition settle_bot :: "decimal_lib \<Rightarrow> billing_db \<Rightarrow> millis \<Rightarrow> settle_input \<Rightarrow> uuid \<Rightarrow> uuid \<Rightarrow> bot_usage billing_result" where
  "settle_bot lib db now input usageId txId =
     billing_transaction_of db
       (and_then (lockAccount db (se_tenantId input)) (\<lambda>account.
          case find_row bu_requestId (se_requestId input) (bd_botUsage db) of
            Some u \<Rightarrow>
              Inl (BillConflict (if bu_tenantId u \<noteq> se_tenantId input then ''ResourceBot requestId belongs to another tenant''
                                 else ''ResourceBotRequestAlreadyProcessed''))
          | None \<Rightarrow>
              (case valid_reservation db now account input of
                 None \<Rightarrow> Inl (BillConflict ''ResourceBotReservationInvalid'')
               | Some (r, price) \<Rightarrow>
                   (let cost = costForUsage lib price (se_tokens input);
                        charged = settled_charge cost (br_reservedCredits r) (ba_balance account) in
                    and_then (findTenantOrThrow db (se_tenantId input)) (\<lambda>_.
                    and_then (column lib cost) (\<lambda>storedCost.
                    and_then (column lib charged) (\<lambda>stored.
                      let u = \<lparr>bu_id = usageId, bu_accountId = ba_id account, bu_tenantId = se_tenantId input,
                               bu_requestId = se_requestId input, bu_theoreticalCost = storedCost, bu_chargedCredits = stored\<rparr> in
                      and_then (post_ledger lib (db\<lparr>bd_botUsage := bd_botUsage db @ [u]\<rparr>) account txId UsageCharge (- charged)
                                  (dl_round lib (ba_balance account - charged)) (Some (''resourcebot:'' @ usageId)) None) (\<lambda>(db', _).
                        Inr (bill_audit ''resourcebot.usage.charge'' usageId
                               (db'\<lparr>bd_reservations :=
                                  filter (\<lambda>s. \<not> (br_requestId s = se_requestId input \<and> br_tenantId s = se_tenantId input))
                                    (bd_reservations db')\<rparr>), u)))))))))"

definition renew :: "billing_db \<Rightarrow> millis \<Rightarrow> string \<Rightarrow> uuid \<Rightarrow> uuid \<Rightarrow> unit billing_result" where
  "renew db now requestId tenantId reservationId =
     (let P = (\<lambda>r. br_id r = reservationId \<and> br_requestId r = requestId \<and> br_tenantId r = tenantId \<and> now < br_expiresAt r) in
      case update_where P (\<lambda>r. r\<lparr>br_expiresAt := now + RESERVATION_TTL_MS\<rparr>) (bd_reservations db) of
        (t, written) \<Rightarrow>
          (db\<lparr>bd_reservations := t\<rparr>,
           if length written \<noteq> 1 then Inl (BillConflict ''ResourceBotReservationInvalid'') else Inr ()))"

definition release :: "billing_db \<Rightarrow> string \<Rightarrow> uuid \<Rightarrow> uuid \<Rightarrow> billing_db" where
  "release db requestId tenantId reservationId =
     db\<lparr>bd_reservations :=
       filter (\<lambda>r. \<not> (br_id r = reservationId \<and> br_requestId r = requestId \<and> br_tenantId r = tenantId)) (bd_reservations db)\<rparr>"

end
