(* ===== verification/BillingWorker.thy ===== *)
theory BillingWorker
  imports Billing JsStrings
begin

text \<open>
  \<open>billing/billing-worker.service.ts\<close>: the charges of a closed minute and the catching up with minutes that
  were missed, and \<open>billing/billing-preflight.guard.ts\<close>. Applications and volumes are read from other
  tables and are arguments; \<open>meanwhile i\<close> is what others commit before the charge of the resource \<open>i\<close>, \<open>fresh i\<close>
  the identifiers of its new rows.
\<close>

section \<open>The charges of a period\<close>

record billing_app =
  ap_id :: uuid
  ap_groupId :: uuid
  ap_tenantId :: uuid
  ap_tenantStatus :: string
  ap_groupRuntimeState :: string
  ap_currentDeploymentVersion :: "int option"
  ap_deployments :: "(int \<times> string option) list"
  ap_cpu :: rat
  ap_memoryBytes :: int
  ap_gpu :: int
  ap_actualReplicas :: int
  ap_runtimeState :: string

record billing_volume =
  bv_id :: uuid
  bv_tenantId :: uuid
  bv_sizeBytes :: int

text \<open>The stack of the version in force; an empty text counts as missing.\<close>

definition current_stack :: "billing_app \<Rightarrow> string option" where
  "current_stack app =
     (case ap_currentDeploymentVersion app of
        None \<Rightarrow> None
      | Some version \<Rightarrow>
          (case find_row fst version (ap_deployments app) of
             Some (_, Some stack) \<Rightarrow> (if stack = '''' then None else Some stack)
           | _ \<Rightarrow> None))"

definition deployed_allocation ::
    "decimal_lib \<Rightarrow> (string \<Rightarrow> value_json option) \<Rightarrow> billing_app \<Rightarrow> string + compute_allocation option" where
  "deployed_allocation lib json_parse app =
     (case current_stack app of
        None \<Rightarrow>
          (if ap_currentDeploymentVersion app \<noteq> None
           then Inl (''BillingCurrentDeploymentSnapshotMissing:'' @ ap_groupId app) else Inr None)
      | Some stack \<Rightarrow> deployedComputeAllocation lib json_parse stack (ap_id app))"

definition metered_replicas :: "billing_app \<Rightarrow> compute_allocation option \<Rightarrow> bool \<Rightarrow> int" where
  "metered_replicas app deployed billingActive =
     billedReplicaCount (ap_actualReplicas app)
       (effectiveReplicaCount (case deployed of None \<Rightarrow> 0 | Some d \<Rightarrow> al_desiredReplicas d)
          (ap_groupRuntimeState app = ''Running'' \<and> ap_tenantStatus app = ''Active'')
          (ap_runtimeState app = ''Running'' \<and> (case deployed of None \<Rightarrow> ''Stopped'' | Some d \<Rightarrow> al_runtimeState d) = ''Running'')
          billingActive False)"

definition app_charge ::
    "decimal_lib \<Rightarrow> (string \<Rightarrow> value_json option) \<Rightarrow> billing_account list \<Rightarrow> price_list \<Rightarrow> millis \<Rightarrow> millis \<Rightarrow> billing_app \<Rightarrow>
     string + usage_charge option" where
  "app_charge lib json_parse accounts price periodStart periodEnd app =
     (case find_row ba_tenantId (ap_tenantId app) accounts of
        None \<Rightarrow> Inr None
      | Some account \<Rightarrow>
          and_then (deployed_allocation lib json_parse app) (\<lambda>deployed.
            Inr (Some
              \<lparr>uc_tenantId = ap_tenantId app, uc_resourceType = ''SingleApp'', uc_resourceId = ap_id app,
               uc_periodStart = periodStart, uc_periodEnd = periodEnd,
               uc_theoreticalCost =
                 computeMinuteCost lib (metered_replicas app deployed (0 < ba_balance account))
                   (case deployed of None \<Rightarrow> ap_cpu app | Some d \<Rightarrow> al_cpu d)
                   (case deployed of None \<Rightarrow> ap_memoryBytes app | Some d \<Rightarrow> al_memoryBytes d)
                   (case deployed of None \<Rightarrow> ap_gpu app | Some d \<Rightarrow> al_gpu d) price,
               uc_priceListVersionId = pl_id price, uc_allowDebt = False\<rparr>)))"

definition volume_charge ::
    "decimal_lib \<Rightarrow> billing_account list \<Rightarrow> price_list \<Rightarrow> millis \<Rightarrow> millis \<Rightarrow> billing_volume \<Rightarrow> string + usage_charge option" where
  "volume_charge lib accounts price periodStart periodEnd volume =
     (case find_row ba_tenantId (bv_tenantId volume) accounts of
        None \<Rightarrow> Inr None
      | Some _ \<Rightarrow>
          Inr (Some
            \<lparr>uc_tenantId = bv_tenantId volume, uc_resourceType = ''Volume'', uc_resourceId = bv_id volume,
             uc_periodStart = periodStart, uc_periodEnd = periodEnd,
             uc_theoreticalCost = storageMinuteCost lib (bv_sizeBytes volume) price,
             uc_priceListVersionId = pl_id price, uc_allowDebt = True\<rparr>))"

text \<open>The charges are awaited one after the other; an exception ends the pass.\<close>

fun run_charges ::
    "decimal_lib \<Rightarrow> (uuid \<Rightarrow> billing_db \<Rightarrow> billing_db) \<Rightarrow> (uuid \<Rightarrow> uuid \<times> uuid) \<Rightarrow> (string + usage_charge option) list \<Rightarrow>
     billing_db \<Rightarrow> unit billing_result" where
  "run_charges lib meanwhile fresh [] db = (db, Inr ())"
| "run_charges lib meanwhile fresh (charge # charges) db =
     (case charge of
        Inl e \<Rightarrow> (db, Inl (BillThrown e))
      | Inr None \<Rightarrow> run_charges lib meanwhile fresh charges db
      | Inr (Some c) \<Rightarrow>
          (case recordUsageCharge lib (meanwhile (uc_resourceId c) db) c (fst (fresh (uc_resourceId c))) (snd (fresh (uc_resourceId c))) of
             (db', Inl e) \<Rightarrow> (db', Inl e)
           | (db', Inr _) \<Rightarrow> run_charges lib meanwhile fresh charges db'))"

definition period_charges ::
    "decimal_lib \<Rightarrow> (string \<Rightarrow> value_json option) \<Rightarrow> billing_account list \<Rightarrow> price_list \<Rightarrow> millis \<Rightarrow> millis \<Rightarrow> billing_app list \<Rightarrow>
     billing_volume list \<Rightarrow> (string + usage_charge option) list" where
  "period_charges lib json_parse accounts price periodStart periodEnd apps volumes =
     map (app_charge lib json_parse accounts price periodStart periodEnd) apps @
     map (volume_charge lib accounts price periodStart periodEnd) volumes"

definition reconcilePeriod ::
    "decimal_lib \<Rightarrow> (string \<Rightarrow> value_json option) \<Rightarrow> (uuid \<Rightarrow> billing_db \<Rightarrow> billing_db) \<Rightarrow> (uuid \<Rightarrow> uuid \<times> uuid) \<Rightarrow> billing_app list \<Rightarrow>
     billing_volume list \<Rightarrow> billing_db \<Rightarrow> millis \<Rightarrow> millis \<Rightarrow> unit billing_result" where
  "reconcilePeriod lib json_parse meanwhile fresh apps volumes db periodStart periodEnd =
     (case assertActivePriceList db periodStart of
        Inl e \<Rightarrow> (db, Inl e)
      | Inr price \<Rightarrow>
          run_charges lib meanwhile fresh
            (period_charges lib json_parse (bd_accounts db) price periodStart periodEnd apps volumes) db)"

section \<open>Catching up\<close>

definition MAX_BACKFILL_PERIODS :: int where
  "MAX_BACKFILL_PERIODS = 10"

text \<open>\<open>world\<close> is what is read in the pass over a period: the applications and volumes.\<close>

fun run_periods ::
    "decimal_lib \<Rightarrow> (string \<Rightarrow> value_json option) \<Rightarrow> (uuid \<Rightarrow> billing_db \<Rightarrow> billing_db) \<Rightarrow> (millis \<Rightarrow> uuid \<Rightarrow> uuid \<times> uuid) \<Rightarrow>
     (millis \<Rightarrow> billing_app list \<times> billing_volume list) \<Rightarrow> (millis \<times> millis) list \<Rightarrow> billing_db \<Rightarrow> unit billing_result" where
  "run_periods lib json_parse meanwhile fresh world [] db = (db, Inr ())"
| "run_periods lib json_parse meanwhile fresh world (period # periods) db =
     (case reconcilePeriod lib json_parse meanwhile (fresh (fst period)) (fst (world (fst period))) (snd (world (fst period))) db
             (fst period) (snd period) of
        (db', Inl e) \<Rightarrow> (db', Inl e)
      | (db', Inr _) \<Rightarrow>
          run_periods lib json_parse meanwhile fresh world periods (db'\<lparr>bd_worker := Some (snd period)\<rparr>))"

text \<open>\<open>running\<close> is the flag of this process; the result is the number of periods, or \<open>None\<close> when skipped.\<close>

definition reconcileClosedPeriods ::
    "decimal_lib \<Rightarrow> (string \<Rightarrow> value_json option) \<Rightarrow> (uuid \<Rightarrow> billing_db \<Rightarrow> billing_db) \<Rightarrow> (millis \<Rightarrow> uuid \<Rightarrow> uuid \<times> uuid) \<Rightarrow>
     (millis \<Rightarrow> billing_app list \<times> billing_volume list) \<Rightarrow> bool \<Rightarrow> billing_db \<Rightarrow> millis \<Rightarrow> nat option billing_result" where
  "reconcileClosedPeriods lib json_parse meanwhile fresh world running db now =
     (if running then (db, Inr None)
      else
        (let periods = reconciliationPeriods now (bd_worker db) MAX_BACKFILL_PERIODS in
         case run_periods lib json_parse meanwhile fresh world periods db of
           (db', Inl e) \<Rightarrow> (db', Inl e)
         | (db', Inr _) \<Rightarrow> (db', Inr (Some (length periods)))))"

section \<open>The preflight guard\<close>

definition toUpperCase :: "string \<Rightarrow> string" where
  "toUpperCase s = map (\<lambda>c. if is_lower c then char_of ((of_char c :: nat) - 32) else c) s"

record preflight_request =
  pq_http :: bool
  pq_route :: string
  pq_method :: string
  pq_tenantId :: "uuid option"
  pq_singleAppId :: "uuid option"
  pq_volumeId :: "uuid option"
  pq_update :: cost_update
  pq_sizeBytes :: "int option"

definition present :: "string option \<Rightarrow> bool" where
  "present s \<longleftrightarrow> option_or s '''' \<noteq> ''''"

definition creates_cost :: "string \<Rightarrow> bool" where
  "creates_cost route \<longleftrightarrow>
     list_ex (ends_with route)
       [''/:appGroupId/single-apps'', ''/:appGroupId/runtime/start'', ''/:appGroupId/single-apps/:singleAppId/runtime/start'',
        ''/:appGroupId/single-apps/:singleAppId/gpu-allocation'', ''/tenants/:tenantId/volumes'']"

text \<open>\<open>find_app\<close> and \<open>find_volume\<close> read the resource of the tenant.\<close>

definition canActivate ::
    "(uuid \<Rightarrow> uuid \<Rightarrow> cost_shape option) \<Rightarrow> (uuid \<Rightarrow> uuid \<Rightarrow> int option) \<Rightarrow> billing_db \<Rightarrow> millis \<Rightarrow> preflight_request \<Rightarrow>
     billing_error + bool" where
  "canActivate find_app find_volume db now request =
     (let route = pq_route request; verb = toUpperCase (pq_method request);
          tenantId = option_or (pq_tenantId request) '''';
          priced = map_sum id (\<lambda>_. True) (assertActivePriceList db now) in
      if \<not> pq_http request \<or> \<not> present (pq_tenantId request) then Inr True
      else if verb = ''POST'' \<and> creates_cost route then priced
      else if verb = ''PATCH'' \<and> ends_with route ''/:appGroupId/single-apps/:singleAppId'' \<and> present (pq_singleAppId request)
      then
        (case find_app tenantId (option_or (pq_singleAppId request) '''') of
           None \<Rightarrow> Inr True
         | Some existing \<Rightarrow> (if isCostIncreasingSingleAppUpdate existing (pq_update request) then priced else Inr True))
      else if verb = ''PATCH'' \<and> ends_with route ''/tenants/:tenantId/volumes/:volumeId/resize'' \<and> present (pq_volumeId request)
      then
        (case (find_volume tenantId (option_or (pq_volumeId request) ''''), pq_sizeBytes request) of
           (Some existing, Some requested) \<Rightarrow> (if isCostIncreasingVolumeResize existing requested then priced else Inr True)
         | _ \<Rightarrow> Inr True)
      else Inr True)"

end
