(* ===== verification/BillingRounding.thy ===== *)
theory BillingRounding
  imports BillingMath
begin

text \<open>
  Facts on the decisions of \<open>BillingMath\<close>: half-up rounding (the library \<open>fixed_decimals\<close> satisfies what
  is relied on), charges that a balance covers, and the minutes a reconciliation catches up with.
\<close>

section \<open>Rounding half up\<close>

lemma half_up_minus [simp]: "half_up n (- x) = - half_up n x"
proof -
  have "\<lfloor>1 / 2 :: rat\<rfloor> = 0" by linarith
  then show ?thesis by (cases "x = 0") (auto simp: half_up_def Let_def)
qed

lemma half_up_nonneg: "0 \<le> x \<Longrightarrow> half_up n x = of_int \<lfloor>x * 10 ^ n + 1 / 2\<rfloor> / 10 ^ n"
  by (simp add: half_up_def)

lemma half_up_sign: "0 \<le> x \<Longrightarrow> 0 \<le> half_up n x"
  by (simp add: half_up_nonneg)

lemma half_up_mono: "x \<le> y \<Longrightarrow> half_up n x \<le> half_up n y"
proof -
  have pos: "half_up n a \<le> half_up n b" if "0 \<le> a" "a \<le> b" for a b
    using that by (simp add: half_up_nonneg divide_right_mono floor_mono mult_right_mono)
  assume le: "x \<le> y"
  consider "0 \<le> x" | "x < 0" "0 \<le> y" | "y < 0" by linarith
  then show ?thesis
  proof cases
    case 1
    then show ?thesis using pos le by blast
  next
    case 2
    then have "0 \<le> half_up n (- x)" "0 \<le> half_up n y" by (intro half_up_sign; simp)+
    then show ?thesis by simp
  next
    case 3
    then have "half_up n (- y) \<le> half_up n (- x)" using le by (intro pos) auto
    then show ?thesis by simp
  qed
qed

lemma floor_half_close: "\<bar>of_int \<lfloor>z + 1 / 2\<rfloor> - z\<bar> \<le> (1 / 2 :: rat)"
  by linarith

lemma half_up_close: "\<bar>half_up n x - x\<bar> \<le> 1 / (2 * 10 ^ n)"
proof -
  have pos: "\<bar>half_up n a - a\<bar> \<le> 1 / (2 * 10 ^ n)" if "0 \<le> a" for a
  proof -
    have "half_up n a - a = (of_int \<lfloor>a * 10 ^ n + 1 / 2\<rfloor> - a * 10 ^ n) / 10 ^ n"
      using that by (simp add: half_up_nonneg field_simps)
    then have "\<bar>half_up n a - a\<bar> = \<bar>of_int \<lfloor>a * 10 ^ n + 1 / 2\<rfloor> - a * 10 ^ n\<bar> / 10 ^ n" by (simp add: abs_divide)
    also have "\<dots> \<le> (1 / 2) / 10 ^ n" by (intro divide_right_mono floor_half_close) simp
    finally show ?thesis by simp
  qed
  show ?thesis
  proof (cases "0 \<le> x")
    case False
    then have "\<bar>half_up n (- x) - - x\<bar> \<le> 1 / (2 * 10 ^ n)" by (intro pos) simp
    then show ?thesis by (simp add: abs_minus_commute)
  qed (rule pos)
qed

lemma half_up_whole: "is_integer (half_up n x * 10 ^ n)"
  by (cases "x < 0") (simp_all add: half_up_def Let_def)

lemma half_up_exact:
  assumes "is_integer (x * 10 ^ n)"
  shows "half_up n x = x"
proof -
  obtain k where k: "x * 10 ^ n = of_int k" using assms unfolding is_integer_def by metis
  have "half_up n a = a" if "a * 10 ^ n = of_int j" "0 \<le> a" for a j
  proof -
    have "\<lfloor>a * 10 ^ n + 1 / 2\<rfloor> = j" unfolding that(1) by linarith
    then show ?thesis using that by (simp add: half_up_nonneg field_simps)
  qed
  from this [of x k] this [of "- x" "- k"] k show ?thesis by (cases "0 \<le> x") auto
qed

lemma is_credits_scaled: "is_credits x \<Longrightarrow> is_integer (x * 10 ^ (8 + n))"
proof -
  assume "is_credits x"
  then obtain k where k: "x * 100000000 = of_int k" unfolding is_credits_def is_integer_def by metis
  have "x * 10 ^ (8 + n) = (x * 100000000) * 10 ^ n" by (simp only: power_add) simp
  also have "\<dots> = of_int (k * 10 ^ n)" by (simp add: k)
  finally show ?thesis by (simp only: is_integer_of_int)
qed

lemma fixed_decimals_ok: "decimal_lib_ok fixed_decimals"
proof -
  have exact: "half_up 20 x = x" "half_up 8 x = x" if "is_credits x" for x
    using is_credits_scaled [OF that, of 12] is_credits_scaled [OF that, of 0] by (simp_all add: half_up_exact)
  have close: "\<bar>half_up 20 x - x\<bar> \<le> ledger_unit / 20" "\<bar>half_up 8 x - x\<bar> \<le> ledger_unit / 2" for x
    using half_up_close [of 20 x] half_up_close [of 8 x] by (simp_all add: ledger_unit_def)
  have "is_credits (half_up 8 x)" for x using half_up_whole [of 8 x] by (simp add: is_credits_def)
  then show ?thesis
    unfolding decimal_lib_ok_def fixed_decimals_def using exact close half_up_mono by simp
qed

text \<open>A library that computes exactly and rounds only what it stores satisfies it, too.\<close>

definition exact_decimals :: decimal_lib where
  "exact_decimals = fixed_decimals\<lparr>dl_round := (\<lambda>x. x)\<rparr>"

lemma exact_decimals_ok: "decimal_lib_ok exact_decimals"
  using fixed_decimals_ok unfolding decimal_lib_ok_def exact_decimals_def by (simp add: ledger_unit_def)

text \<open>What is relied on, fact by fact.\<close>

lemma decimal_libD:
  assumes "decimal_lib_ok lib"
  shows lib_mono: "x \<le> y \<Longrightarrow> dl_round lib x \<le> dl_round lib y"
    and lib_minus: "dl_round lib (- x) = - dl_round lib x"
    and lib_exact: "is_credits x \<Longrightarrow> \<bar>x\<bar> < 10 ^ 12 \<Longrightarrow> dl_round lib x = x"
    and lib_close: "\<bar>x\<bar> < 10 ^ 11 \<Longrightarrow> \<bar>dl_round lib x - x\<bar> \<le> ledger_unit / 20"
    and lib_column: "dl_column lib x = Some y \<Longrightarrow> is_credits y \<and> \<bar>y - x\<bar> \<le> ledger_unit / 2"
    and lib_column_exact: "is_credits x \<Longrightarrow> \<bar>x\<bar> < 10 ^ 16 \<Longrightarrow> dl_column lib x = Some x"
    and lib_column_minus: "dl_column lib (- x) = map_option uminus (dl_column lib x)"
    and lib_places: "is_credits (dl_places lib x)" "\<bar>dl_places lib x - x\<bar> \<le> ledger_unit / 2"
  using assms unfolding decimal_lib_ok_def by blast+

section \<open>Charges\<close>

text \<open>A charge is never negative, never more than the cost and never more than the balance.\<close>

lemma clamp_bounds:
  "0 \<le> clampComputeCharge cost balance" "clampComputeCharge cost balance \<le> max 0 cost"
  "0 < clampComputeCharge cost balance \<Longrightarrow> clampComputeCharge cost balance \<le> balance"
  by (auto simp: clampComputeCharge_def split: if_splits)

lemma normalize_sign:
  "type1 \<noteq> UsageCharge \<Longrightarrow> type1 \<noteq> Correction \<Longrightarrow> 0 \<le> normalizeLedgerAmount type1 amount"
  "normalizeLedgerAmount UsageCharge amount \<le> 0"
  "\<bar>normalizeLedgerAmount type1 amount\<bar> = \<bar>amount\<bar>"
  by (auto simp: normalizeLedgerAmount_def split: ledger_type.splits)

lemma is_credits_normalize [simp]: "is_credits (normalizeLedgerAmount type1 amount) \<longleftrightarrow> is_credits amount"
  by (cases type1) (simp_all add: normalizeLedgerAmount_def)

text \<open>The price list the selection yields is the newest one in force.\<close>

lemma selected_price_list:
  assumes "selectEffectivePriceList versions now = Some p"
  shows "p \<in> set versions \<and> pl_effectiveFrom p \<le> now \<and>
    (\<forall>v \<in> set versions. pl_effectiveFrom v \<le> now \<longrightarrow> pl_effectiveFrom v \<le> pl_effectiveFrom p)"
  using head_sort_desc_greatest [OF assms [unfolded selectEffectivePriceList_def]] by auto

lemma no_price_list: "selectEffectivePriceList versions now = None \<longleftrightarrow> (\<forall>v \<in> set versions. now < pl_effectiveFrom v)"
  by (auto simp: selectEffectivePriceList_def filter_empty_conv not_le)

section \<open>Minutes to catch up\<close>

text \<open>The periods are consecutive minutes: period \<open>k\<close> starts \<open>k\<close> minutes after the first.\<close>

lemma periods_from_nth: "k < length (periods_from n t e) \<Longrightarrow> periods_from n t e ! k = (t + 60000 * int k, t + 60000 * (int k + 1))"
proof (induction n t e arbitrary: k rule: periods_from.induct)
  case (2 n t e)
  then show ?case by (cases k) (auto split: if_splits simp: algebra_simps)
qed simp

lemma periods_from_length: "length (periods_from n t e) = (if t \<le> e then min n (nat ((e - t) div 60000)) else 0)"
proof (induction n t e rule: periods_from.induct)
  case (2 n t e)
  have "(e - t) div 60000 = (e - (t + 60000)) div 60000 + 1" by (simp add: div_add_self2 algebra_simps flip: div_add_self2)
  moreover have "0 \<le> (e - (t + 60000)) div 60000" if "t + 60000 \<le> e" using that by (simp add: pos_imp_zdiv_nonneg_iff)
  ultimately show ?case using 2 by (auto simp: nat_add_distrib)
qed auto

end
