(* ===== verification/BillingSafety.thy ===== *)
theory BillingSafety
  imports BotBilling BillingWorker BillingRounding
begin

text \<open>
  The ledger invariant. Every operation that moves credits posts at most one entry to one account
  (\<open>ledger_effect\<close>); the locale \<open>ledger_writer\<close> is that contract, and each operation interprets it. An entry
  continues the balance of its account, is a whole number of ledger units, and its amount is the
  difference of the balances (to one unit for a metered charge, whose cost is rounded twice).
\<close>

section \<open>Entries\<close>

definition entry_exact :: "billing_transaction \<Rightarrow> bool" where
  "entry_exact t \<longleftrightarrow>
     (\<bar>bt_balanceBefore t\<bar> < 10000000000 \<and> \<bar>bt_amount t\<bar> < 10000000000 \<longrightarrow>
       \<bar>bt_balanceAfter t - (bt_balanceBefore t + bt_amount t)\<bar> \<le> ledger_unit \<and>
       (bt_type t \<noteq> UsageCharge \<longrightarrow> bt_balanceAfter t = bt_balanceBefore t + bt_amount t))"

definition entry_sign :: "billing_transaction \<Rightarrow> bool" where
  "entry_sign t \<longleftrightarrow>
     (case bt_type t of UsageCharge \<Rightarrow> bt_amount t \<le> 0 | Correction \<Rightarrow> True | _ \<Rightarrow> 0 \<le> bt_amount t)"

definition entry_ok :: "billing_transaction \<Rightarrow> bool" where
  "entry_ok t \<longleftrightarrow>
     is_credits (bt_amount t) \<and> is_credits (bt_balanceBefore t) \<and> is_credits (bt_balanceAfter t) \<and> entry_exact t \<and> entry_sign t"

fun ledger_chain :: "rat \<Rightarrow> billing_transaction list \<Rightarrow> rat \<Rightarrow> bool" where
  "ledger_chain b [] b' \<longleftrightarrow> b = b'"
| "ledger_chain b (t # ts) b' \<longleftrightarrow> bt_balanceBefore t = b \<and> ledger_chain (bt_balanceAfter t) ts b'"

lemma ledger_chain_append: "ledger_chain b (ts @ us) c \<longleftrightarrow> (\<exists>m. ledger_chain b ts m \<and> ledger_chain m us c)"
  by (induction ts arbitrary: b) auto

definition account_entries :: "billing_db \<Rightarrow> uuid \<Rightarrow> billing_transaction list" where
  "account_entries db i = filter (\<lambda>t. bt_accountId t = i) (bd_transactions db)"

text \<open>What was debited for usage, and what the usage records of the account say was charged.\<close>

definition debited :: "billing_db \<Rightarrow> uuid \<Rightarrow> rat" where
  "debited db i = sum_list (map bt_amount (filter (\<lambda>t. bt_type t = UsageCharge) (account_entries db i)))"

definition metered :: "billing_db \<Rightarrow> uuid \<Rightarrow> rat" where
  "metered db i =
     sum_list (map ur_chargedCredits (filter (\<lambda>r. ur_accountId r = i) (bd_usage db))) +
     sum_list (map bu_chargedCredits (filter (\<lambda>r. bu_accountId r = i) (bd_botUsage db)))"

definition ledger_ok :: "billing_db \<Rightarrow> bool" where
  "ledger_ok db \<longleftrightarrow>
     distinct (map ba_id (bd_accounts db)) \<and> distinct (map ba_tenantId (bd_accounts db)) \<and>
     (\<forall>a \<in> set (bd_accounts db). is_credits (ba_balance a) \<and> ledger_chain 0 (account_entries db (ba_id a)) (ba_balance a)) \<and>
     (\<forall>t \<in> set (bd_transactions db). entry_ok t \<and> bt_accountId t \<in> ba_id ` set (bd_accounts db)) \<and>
     (\<forall>i. debited db i = - metered db i)"

section \<open>The contract of an operation\<close>

definition set_balance :: "uuid \<Rightarrow> rat \<Rightarrow> billing_account list \<Rightarrow> billing_account list" where
  "set_balance i b accounts = fst (update_where (\<lambda>a. ba_id a = i) (\<lambda>a. a\<lparr>ba_balance := b\<rparr>) accounts)"

definition posted :: "billing_db \<Rightarrow> billing_db \<Rightarrow> billing_account \<Rightarrow> billing_transaction \<Rightarrow> bool" where
  "posted db db' a t \<longleftrightarrow>
     a \<in> set (bd_accounts db) \<and> bt_accountId t = ba_id a \<and> bt_balanceBefore t = ba_balance a \<and> entry_ok t \<and>
     bd_transactions db' = bd_transactions db @ [t] \<and> bd_accounts db' = set_balance (ba_id a) (bt_balanceAfter t) (bd_accounts db) \<and>
     (\<forall>i. metered db' i = metered db i - (if i = ba_id a \<and> bt_type t = UsageCharge then bt_amount t else 0))"

definition ledger_effect :: "billing_db \<Rightarrow> billing_db \<Rightarrow> bool" where
  "ledger_effect db db' \<longleftrightarrow>
     (bd_accounts db' = bd_accounts db \<and> bd_transactions db' = bd_transactions db \<and> (\<forall>i. metered db' i = metered db i)) \<or>
     (\<exists>a t. posted db db' a t)"

lemma ledger_effect_refl [intro]: "ledger_effect db db"
  by (simp add: ledger_effect_def)

lemma set_balance_keys [simp]:
  "map ba_id (set_balance i b accounts) = map ba_id accounts" "map ba_tenantId (set_balance i b accounts) = map ba_tenantId accounts"
  by (auto simp: set_balance_def update_where_table)

lemma set_balance_ids [simp]: "ba_id ` set (set_balance i b accounts) = ba_id ` set accounts"
  by (metis list.set_map set_balance_keys(1))

lemma in_set_balance:
  assumes "a \<in> set (set_balance i b accounts)"
  obtains "ba_id a = i" "ba_balance a = b" | "ba_id a \<noteq> i" "a \<in> set accounts"
  using assms by (auto simp: set_balance_def update_where_table split: if_splits)

lemma posted_keeps:
  assumes ok: "ledger_ok db" and post: "posted db db' a t"
  shows "ledger_ok db'"
proof -
  have a: "a \<in> set (bd_accounts db)" "bt_accountId t = ba_id a" "bt_balanceBefore t = ba_balance a" "entry_ok t"
    and db': "bd_transactions db' = bd_transactions db @ [t]" "bd_accounts db' = set_balance (ba_id a) (bt_balanceAfter t) (bd_accounts db)"
    using post by (simp_all add: posted_def)
  have entries: "account_entries db' i = account_entries db i @ (if i = ba_id a then [t] else [])" for i
    using a(2) by (simp add: account_entries_def db')
  have "is_credits (ba_balance b) \<and> ledger_chain 0 (account_entries db' (ba_id b)) (ba_balance b)" if "b \<in> set (bd_accounts db')" for b
    using that unfolding db'(2)
  proof (rule in_set_balance)
    assume "ba_id b = ba_id a" "ba_balance b = bt_balanceAfter t"
    moreover have "ledger_chain 0 (account_entries db (ba_id a)) (ba_balance a)" using ok a(1) by (simp add: ledger_ok_def)
    ultimately show ?thesis using a(3,4) by (auto simp: entries ledger_chain_append entry_ok_def)
  next
    assume "ba_id b \<noteq> ba_id a" "b \<in> set (bd_accounts db)"
    then show ?thesis using ok by (simp add: ledger_ok_def entries)
  qed
  moreover have "debited db' i = - metered db' i" for i
    using ok post by (auto simp: ledger_ok_def posted_def debited_def entries)
  ultimately show ?thesis using ok a by (auto simp: ledger_ok_def db')
qed

lemma metered_cong: "bd_usage db' = bd_usage db \<Longrightarrow> bd_botUsage db' = bd_botUsage db \<Longrightarrow> metered db' i = metered db i"
  by (simp add: metered_def)

locale ledger_writer =
  fixes valid :: "'i \<Rightarrow> bool"
    and tables :: "billing_db \<Rightarrow> bool"
    and run :: "'i \<Rightarrow> billing_db \<Rightarrow> billing_db"
  assumes effect: "valid i \<Longrightarrow> tables db \<Longrightarrow> ledger_ok db \<Longrightarrow> ledger_effect db (run i db)"
begin

lemma keeps_ledger:
  assumes "valid i" "tables db" "ledger_ok db"
  shows "ledger_ok (run i db)"
proof -
  consider "bd_accounts (run i db) = bd_accounts db" "bd_transactions (run i db) = bd_transactions db" "\<forall>j. metered (run i db) j = metered db j"
    | a t where "posted db (run i db) a t"
    using effect [OF assms] unfolding ledger_effect_def by blast
  then show ?thesis
  proof cases
    case 1
    then show ?thesis using assms(3) by (simp add: ledger_ok_def account_entries_def debited_def)
  qed (rule posted_keeps [OF assms(3)])
qed

end

section \<open>Columns and postings\<close>

lemma columnD:
  assumes "decimal_lib_ok lib" "column lib x = Inr y"
  shows "is_credits y" "\<bar>y - x\<bar> \<le> ledger_unit / 2"
  using lib_column [OF assms(1)] assms(2) by (auto simp: column_def split: option.splits)

lemma credits_half_unit: "is_credits x \<Longrightarrow> \<bar>x\<bar> \<le> ledger_unit / 2 \<Longrightarrow> x = 0"
proof -
  assume x: "is_credits x" "\<bar>x\<bar> \<le> ledger_unit / 2"
  then obtain k where k: "x * 100000000 = of_int k" unfolding is_credits_def is_integer_def by metis
  have "\<bar>x * 100000000\<bar> \<le> 1 / 2" using x(2) by (simp add: ledger_unit_def abs_mult)
  then have "\<bar>of_int k :: rat\<bar> \<le> 1 / 2" by (simp add: k)
  then have "k = 0" by linarith
  then show ?thesis using k by simp
qed

lemma column_exact: "decimal_lib_ok lib \<Longrightarrow> is_credits x \<Longrightarrow> column lib x = Inr y \<Longrightarrow> y = x"
  using columnD [of lib x y] credits_half_unit [of "y - x"] is_credits_diff [of y x] by simp

text \<open>The result of a posting.\<close>

lemma post_ledgerD:
  assumes "post_ledger lib db account txId type1 amount balanceAfter reference source = Inr (db', t)"
  shows "\<exists>after stored. column lib balanceAfter = Inr after \<and> column lib amount = Inr stored \<and>
    t = \<lparr>bt_id = txId, bt_accountId = ba_id account, bt_type = type1, bt_amount = stored, bt_balanceBefore = ba_balance account,
         bt_balanceAfter = after, bt_reference = reference, bt_sourceTransactionId = source\<rparr> \<and>
    db' = db\<lparr>bd_accounts := set_balance (ba_id account) after (bd_accounts db), bd_transactions := bd_transactions db @ [t]\<rparr>"
  using assms by (auto simp: post_ledger_def and_then_Inr_iff Let_def set_balance_def)


text \<open>The decimal library keeps signs.\<close>

lemma round_nonneg: "decimal_lib_ok lib \<Longrightarrow> 0 \<le> x \<Longrightarrow> 0 \<le> dl_round lib x"
proof -
  assume ok: "decimal_lib_ok lib" and x: "0 \<le> x"
  then have "dl_round lib 0 \<le> dl_round lib x" using lib_mono by blast
  then show ?thesis using lib_exact [OF ok, of 0] by simp
qed

lemma credits_nonneg: "is_credits y \<Longrightarrow> - (ledger_unit / 2) \<le> y \<Longrightarrow> 0 \<le> y"
  using credits_half_unit [of y] by (cases "0 \<le> y") auto

lemma places_nonneg: "decimal_lib_ok lib \<Longrightarrow> 0 \<le> x \<Longrightarrow> 0 \<le> dl_places lib x"
proof (rule credits_nonneg)
  assume ok: "decimal_lib_ok lib" and x: "0 \<le> x"
  show "is_credits (dl_places lib x)" by (rule lib_places [OF ok])
  show "- (ledger_unit / 2) \<le> dl_places lib x" using lib_places(2) [OF ok, of x] x by linarith
qed

lemma column_nonneg: "decimal_lib_ok lib \<Longrightarrow> 0 \<le> x \<Longrightarrow> column lib x = Inr y \<Longrightarrow> 0 \<le> y"
proof (rule credits_nonneg)
  assume "decimal_lib_ok lib" "0 \<le> x" "column lib x = Inr y"
  note y = columnD [OF this(1,3)]
  show "is_credits y" by (rule y)
  show "- (ledger_unit / 2) \<le> y" using y(2) \<open>0 \<le> x\<close> by linarith
qed

lemma column_minus: "decimal_lib_ok lib \<Longrightarrow> column lib (- x) = map_sum id uminus (column lib x)"
  by (auto simp: lib_column_minus column_def split: option.splits)

section \<open>The two kinds of posting\<close>

text \<open>An amount in whole units is booked exactly.\<close>

lemma exact_entry:
  assumes "decimal_lib_ok lib" "is_credits amount" "is_credits before"
    and "column lib (dl_round lib (before + amount)) = Inr after" "column lib amount = Inr stored"
    and "bt_balanceBefore t = before" "bt_balanceAfter t = after" "bt_amount t = stored" "entry_sign t"
  shows "entry_ok t"
proof -
  have stored: "stored = amount" using column_exact [OF assms(1,2,5)] .
  have "after = before + amount" if "\<bar>before\<bar> < 10000000000" "\<bar>amount\<bar> < 10000000000"
  proof -
    have small: "\<bar>before + amount\<bar> < 10 ^ 12" using that abs_triangle_ineq [of before amount] by simp
    then have "dl_round lib (before + amount) = before + amount"
      using lib_exact [OF assms(1) is_credits_add [OF assms(3,2)]] by blast
    then show ?thesis using column_exact [OF assms(1) is_credits_add [OF assms(3,2)]] assms(4) by simp
  qed
  then have "entry_exact t" by (auto simp: entry_exact_def assms(6-8) stored ledger_unit_def)
  then show ?thesis using assms columnD(1) [OF assms(1,4)] by (simp add: entry_ok_def stored)
qed

text \<open>A metered charge is booked to within one unit.\<close>

lemma metered_entry:
  assumes lib: "decimal_lib_ok lib" and c: "0 \<le> charged" and before: "is_credits before"
    and after: "column lib (dl_round lib (before - charged)) = Inr after" and stored: "column lib (- charged) = Inr stored"
    and t: "bt_type t = UsageCharge" "bt_balanceBefore t = before" "bt_balanceAfter t = after" "bt_amount t = stored"
  shows "entry_ok t"
proof -
  note s = columnD [OF lib stored] and f = columnD [OF lib after]
  have "\<bar>after - (before + stored)\<bar> \<le> ledger_unit" if small: "\<bar>before\<bar> < 10000000000" "\<bar>stored\<bar> < 10000000000"
  proof -
    have unit: "ledger_unit = 1 / 100000000" by (simp add: ledger_unit_def)
    have "\<bar>stored - - charged\<bar> \<le> 1 / 2" using s(2) unfolding unit by linarith
    then have "\<bar>before - charged\<bar> < 100000000000" using small by linarith
    then have "\<bar>before - charged\<bar> < 10 ^ 11" by simp
    then have r: "\<bar>dl_round lib (before - charged) - (before - charged)\<bar> \<le> ledger_unit / 20" by (rule lib_close [OF lib])
    have "\<bar>after - (before + stored)\<bar> < 2 * ledger_unit" using r s(2) f(2) unfolding unit by linarith
    then show ?thesis using is_credits_close is_credits_diff [OF f(1) is_credits_add [OF before s(1)]] by blast
  qed
  moreover have "stored \<le> 0" using column_nonneg [OF lib c] stored column_minus [OF lib, of charged] by (cases "column lib charged") auto
  ultimately show ?thesis using s(1) f(1) before by (simp add: entry_ok_def entry_exact_def entry_sign_def t)
qed

end
