(* ===== verification/BillingLedger.thy ===== *)
theory BillingLedger
  imports BillingSafety
begin

text \<open>
  The billing database as a state machine: the requests of the billing and bot services
  (\<open>billing_request\<close>, \<open>perform\<close>), what each needs of the tables it reads (\<open>billing_tables_ok\<close>), the effect of
  each on the ledger, and the interpretation of \<open>ledger_writer\<close> for all of them.
\<close>

section \<open>Requests\<close>

datatype billing_request =
    PaymentRequest uuid rat "string option" "uuid option"
  | RefundRequest uuid rat "string option" "uuid option"
  | CorrectionRequest uuid rat "string option" "uuid option"
  | CreateVoucher rat "millis option" string
  | DisableVoucher uuid
  | RedeemVoucher uuid string
  | CreatePriceList "millis option" rat rat rat rat
  | RecordCharge usage_charge
  | RecordServiceCharge usage_charge
  | CreateBotPrice "millis option" bot_price
  | ReserveCredits uuid string string string
  | SettleRequest settle_input
  | RenewReservation string uuid uuid
  | ReleaseReservation string uuid uuid

text \<open>The identifiers \<open>i\<close> and \<open>j\<close> are those of the new row and of the new ledger entry.\<close>

fun perform ::
    "decimal_lib \<Rightarrow> (string \<Rightarrow> string) \<Rightarrow> millis \<Rightarrow> uuid \<Rightarrow> uuid \<Rightarrow> billing_request \<Rightarrow> billing_db \<Rightarrow> billing_db" where
  "perform lib sha now i j (PaymentRequest tenantId amount reference source) db =
     fst (payment lib db tenantId amount reference source j)"
| "perform lib sha now i j (RefundRequest tenantId amount reference source) db = fst (refund lib db tenantId amount reference source j)"
| "perform lib sha now i j (CorrectionRequest tenantId amount reference source) db =
     fst (correction lib db tenantId amount reference source j)"
| "perform lib sha now i j (CreateVoucher valueCredits expiresAt code1) db =
     fst (createVoucher lib db now valueCredits expiresAt i (hashVoucherCode sha code1))"
| "perform lib sha now i j (DisableVoucher voucherId) db = fst (disableVoucher db now voucherId)"
| "perform lib sha now i j (RedeemVoucher tenantId code1) db = fst (redeemVoucher lib sha db now tenantId code1 j)"
| "perform lib sha now i j (CreatePriceList effectiveFrom cpu memory storage gpu) db =
     fst (createPriceList lib db effectiveFrom cpu memory storage gpu i)"
| "perform lib sha now i j (RecordCharge c) db = fst (recordUsageCharge lib db c i j)"
| "perform lib sha now i j (RecordServiceCharge c) db = fst (service_recordUsageCharge lib db c i j)"
| "perform lib sha now i j (CreateBotPrice effectiveFrom p) db = fst (createPrice lib db effectiveFrom p)"
| "perform lib sha now i j (ReserveCredits tenantId requestId provider model) db =
     fst (reserve lib db now tenantId requestId provider model i)"
| "perform lib sha now i j (SettleRequest input) db = fst (settle_bot lib db now input i j)"
| "perform lib sha now i j (RenewReservation requestId tenantId reservationId) db =
     fst (renew db now requestId tenantId reservationId)"
| "perform lib sha now i j (ReleaseReservation requestId tenantId reservationId) db =
     release db requestId tenantId reservationId"

text \<open>What the controllers let through: amounts of at most eight decimal places, and costs that are not negative.\<close>

fun billing_request_ok :: "billing_request \<Rightarrow> bool" where
  "billing_request_ok (PaymentRequest tenantId amount reference source) \<longleftrightarrow> is_credits amount"
| "billing_request_ok (RefundRequest tenantId amount reference source) \<longleftrightarrow> is_credits amount"
| "billing_request_ok (CorrectionRequest tenantId amount reference source) \<longleftrightarrow> is_credits amount"
| "billing_request_ok (RecordCharge c) \<longleftrightarrow> 0 \<le> uc_theoreticalCost c"
| "billing_request_ok (RecordServiceCharge c) \<longleftrightarrow> 0 \<le> uc_theoreticalCost c"
| "billing_request_ok _ \<longleftrightarrow> True"

definition bot_price_ok :: "bot_price \<Rightarrow> bool" where
  "bot_price_ok p \<longleftrightarrow> 0 \<le> bp_input p \<and> 0 \<le> bp_cachedInput p \<and> 0 \<le> bp_output p \<and> 0 \<le> bp_embedding p"

definition price_list_ok :: "price_list \<Rightarrow> bool" where
  "price_list_ok p \<longleftrightarrow> 0 \<le> pl_cpu p \<and> 0 \<le> pl_memory p \<and> 0 \<le> pl_storage p \<and> 0 \<le> pl_gpu p"

definition billing_tables_ok :: "billing_db \<Rightarrow> bool" where
  "billing_tables_ok db \<longleftrightarrow>
     (\<forall>v \<in> set (bd_vouchers db). is_credits (vo_valueCredits v) \<and> 0 \<le> vo_valueCredits v) \<and>
     (\<forall>p \<in> set (bd_botPrices db). bot_price_ok p) \<and> (\<forall>p \<in> set (bd_prices db). price_list_ok p) \<and>
     (\<forall>r \<in> set (bd_reservations db). is_credits (br_reservedCredits r) \<and> 0 \<le> br_reservedCredits r)"

section \<open>Transactions\<close>

lemma and_then_InrE: "and_then r f = Inr y \<Longrightarrow> (\<And>x. r = Inr x \<Longrightarrow> f x = Inr y \<Longrightarrow> P) \<Longrightarrow> P"
  by (auto simp: and_then_Inr_iff)

lemma transaction_cases:
  "(\<And>db' x. r = Inr (db', x) \<Longrightarrow> P db') \<Longrightarrow> P db \<Longrightarrow> P (fst (billing_transaction_of db r))"
  by (cases r) (auto simp: billing_transaction_of_def)

lemma bill_audit_fields [simp]:
  "bd_accounts (bill_audit a i db) = bd_accounts db" "bd_transactions (bill_audit a i db) = bd_transactions db"
  "bd_usage (bill_audit a i db) = bd_usage db" "bd_botUsage (bill_audit a i db) = bd_botUsage db"
  "bd_vouchers (bill_audit a i db) = bd_vouchers db" "bd_botPrices (bill_audit a i db) = bd_botPrices db"
  "bd_reservations (bill_audit a i db) = bd_reservations db" "bd_prices (bill_audit a i db) = bd_prices db"
  "bd_tenants (bill_audit a i db) = bd_tenants db" "bd_worker (bill_audit a i db) = bd_worker db"
  by (simp_all add: bill_audit_def)

text \<open>The tables of the ledger, and the others.\<close>

definition same_ledger :: "billing_db \<Rightarrow> billing_db \<Rightarrow> bool" where
  "same_ledger db db' \<longleftrightarrow>
     bd_accounts db' = bd_accounts db \<and> bd_transactions db' = bd_transactions db \<and> bd_usage db' = bd_usage db \<and> bd_botUsage db' = bd_botUsage db"

definition same_tables :: "billing_db \<Rightarrow> billing_db \<Rightarrow> bool" where
  "same_tables db db' \<longleftrightarrow>
     bd_vouchers db' = bd_vouchers db \<and> bd_botPrices db' = bd_botPrices db \<and> bd_reservations db' = bd_reservations db \<and>
     bd_prices db' = bd_prices db \<and> bd_tenants db' = bd_tenants db \<and> bd_worker db' = bd_worker db"

lemma same_ledger_effect: "same_ledger db db' \<Longrightarrow> ledger_effect db db'"
  by (simp add: same_ledger_def ledger_effect_def metered_def)

lemma same_ledger_simps [simp]:
  "same_ledger db db" "same_ledger db (bill_audit a i d) \<longleftrightarrow> same_ledger db d"
  "same_ledger db (d\<lparr>bd_vouchers := vs\<rparr>) \<longleftrightarrow> same_ledger db d" "same_ledger db (d\<lparr>bd_prices := ps\<rparr>) \<longleftrightarrow> same_ledger db d"
  "same_ledger db (d\<lparr>bd_botPrices := qs\<rparr>) \<longleftrightarrow> same_ledger db d" "same_ledger db (d\<lparr>bd_reservations := rs\<rparr>) \<longleftrightarrow> same_ledger db d"
  "same_ledger db (d\<lparr>bd_worker := w\<rparr>) \<longleftrightarrow> same_ledger db d" "same_ledger db (update_voucher d v f) \<longleftrightarrow> same_ledger db d"
  by (auto simp: same_ledger_def update_voucher_def)

text \<open>A balance mutation is a posting, up to the audit.\<close>

lemma applyBalanceMutationD:
  assumes "applyBalanceMutation lib db account txId type1 amount reference source action res = Inr (db', t)"
  shows "\<exists>db1. post_ledger lib db account txId type1 (normalizeLedgerAmount type1 amount)
      (dl_round lib (ba_balance account + normalizeLedgerAmount type1 amount)) reference source = Inr (db1, t) \<and>
    same_ledger db1 db' \<and> same_tables db1 db'"
  using assms by (auto simp: applyBalanceMutation_def and_then_Inr_iff Let_def same_ledger_def same_tables_def split: if_splits)

text \<open>What a posting into \<open>db1\<close> does, compared with \<open>db\<close> before the usage records were written.\<close>

lemma posting:
  assumes "post_ledger lib db1 account txId type1 amount after reference source = Inr (db2, t)" "same_ledger db2 db'"
    and "account \<in> set (bd_accounts db)" "bd_accounts db1 = bd_accounts db" "bd_transactions db1 = bd_transactions db"
    and "entry_ok t"
    and "\<forall>i. metered db' i = metered db i - (if i = ba_id account \<and> type1 = UsageCharge then bt_amount t else 0)"
  shows "posted db db' account t"
  using post_ledgerD [OF assms(1)] assms(2-) by (auto simp: posted_def same_ledger_def)

lemma account_in: "find_row ba_tenantId tenantId (bd_accounts db) = Some account \<Longrightarrow> account \<in> set (bd_accounts db) \<and> ba_tenantId account = tenantId"
  by (rule find_row_SomeD)

lemma lockAccountD: "lockAccount db tenantId = Inr account \<Longrightarrow> account \<in> set (bd_accounts db) \<and> ba_tenantId account = tenantId"
  by (auto simp: lockAccount_def dest: account_in split: option.splits)

lemma account_credits: "ledger_ok db \<Longrightarrow> account \<in> set (bd_accounts db) \<Longrightarrow> is_credits (ba_balance account)"
  by (simp add: ledger_ok_def)

text \<open>A mutation of a type other than a usage charge, by an amount of the ledger.\<close>

lemma mutation_posted:
  assumes lib: "decimal_lib_ok lib" and ok: "ledger_ok db" and account: "account \<in> set (bd_accounts db)"
    and amount: "is_credits amount" "type1 \<noteq> UsageCharge"
    and m: "applyBalanceMutation lib db account txId type1 amount reference source action res = Inr (db', t)"
  shows "posted db db' account t"
proof -
  obtain db1 where p: "post_ledger lib db account txId type1 (normalizeLedgerAmount type1 amount)
      (dl_round lib (ba_balance account + normalizeLedgerAmount type1 amount)) reference source = Inr (db1, t)" "same_ledger db1 db'"
    using applyBalanceMutationD [OF m] by blast
  have n: "is_credits (normalizeLedgerAmount type1 amount)" using amount by simp
  obtain after stored where s: "column lib (dl_round lib (ba_balance account + normalizeLedgerAmount type1 amount)) = Inr after"
      "column lib (normalizeLedgerAmount type1 amount) = Inr stored"
    and t: "bt_type t = type1" "bt_balanceBefore t = ba_balance account" "bt_balanceAfter t = after" "bt_amount t = stored"
    and db1: "bd_usage db1 = bd_usage db" "bd_botUsage db1 = bd_botUsage db"
    using post_ledgerD [OF p(1)] by auto
  have "entry_sign t"
    using normalize_sign(1) [OF amount(2)] column_exact [OF lib n s(2)] amount(2) by (auto simp: entry_sign_def t split: ledger_type.split)
  then have "entry_ok t" using exact_entry [OF lib n account_credits [OF ok account] s t(2-4)] by blast
  moreover have "metered db' i = metered db i" for i using p(2) db1 by (simp add: metered_def same_ledger_def)
  ultimately show ?thesis using posting [OF p account] amount(2) by simp
qed

section \<open>The effect of each operation\<close>

lemma posted_effect: "posted db db' a t \<Longrightarrow> ledger_effect db db'"
  by (auto simp: ledger_effect_def)

lemma mutateBalance_effect:
  assumes lib: "decimal_lib_ok lib" and ok: "ledger_ok db" and amount: "is_credits amount" "type1 \<noteq> UsageCharge"
  shows "ledger_effect db (fst (mutateBalance lib db tenantId type1 amount reference source action j))"
proof -
  have step: "ledger_effect db db'"
    if "applyBalanceMutation lib db account j type1 amt reference source action (ba_id account) = Inr (db', t)"
      "lockAccount db tenantId = Inr account" "amt = amount \<or> amt = - amount" for account amt db' t
  proof -
    have "is_credits amt" using that(3) amount(1) by auto
    then show ?thesis using mutation_posted [OF lib ok _ _ amount(2) that(1)] lockAccountD [OF that(2)] posted_effect by blast
  qed
  then show ?thesis
    unfolding mutateBalance_def Let_def
    by (auto simp: and_then_Inr_iff split: if_splits intro!: transaction_cases [where P = "ledger_effect db"])
qed

lemma createVoucher_same: "same_ledger db (fst (createVoucher lib db now v expiresAt i h))"
  unfolding createVoucher_def
  by (auto simp: and_then_Inr_iff Let_def split: if_splits intro!: transaction_cases [where P = "same_ledger db"])

lemma disableVoucher_same: "same_ledger db (fst (disableVoucher db now i))"
  unfolding disableVoucher_def by (auto split: option.splits)

lemma createPriceList_same: "same_ledger db (fst (createPriceList lib db effectiveFrom cpu memory storage gpu i))"
  unfolding createPriceList_def
  by (auto simp: and_then_Inr_iff Let_def split: if_splits intro!: transaction_cases [where P = "same_ledger db"])

lemma createPrice_same: "same_ledger db (fst (createPrice lib db effectiveFrom p))"
  unfolding createPrice_def
  by (auto simp: and_then_Inr_iff split: if_splits intro!: transaction_cases [where P = "same_ledger db"])

lemma reserve_credits_same:
  "reserve_credits lib (drop_expired a now db) now account price credits tenantId requestId i = Inr (db', x) \<Longrightarrow> same_ledger db db'"
  by (auto simp: reserve_credits_def drop_expired_def and_then_Inr_iff Let_def split: if_splits option.splits)

lemma reserve_same: "same_ledger db (fst (reserve lib db now tenantId requestId provider model i))"
  unfolding reserve_def
  by (cases "find_row bu_requestId requestId (bd_botUsage db)")
    (auto simp: and_then_Inr_iff dest: reserve_credits_same split: if_splits intro!: transaction_cases [where P = "same_ledger db"])

lemma renew_same: "same_ledger db (fst (renew db now requestId tenantId reservationId))"
  by (auto simp: renew_def Let_def split: prod.splits)

lemma release_same: "same_ledger db (release db requestId tenantId reservationId)"
  by (simp add: release_def)

lemma redeemVoucher_effect:
  assumes lib: "decimal_lib_ok lib" and tabs: "billing_tables_ok db" and ok: "ledger_ok db"
  shows "ledger_effect db (fst (redeemVoucher lib sha db now tenantId code1 j))"
proof -
  have "ledger_effect db (update_voucher db' i f)"
    if "find_row vo_codeHash h (bd_vouchers db) = Some v" "lockAccount db tenantId = Inr account"
      "applyBalanceMutation lib db account j VoucherRedeem (vo_valueCredits v) reference source action res = Inr (db', t)"
    for h v account reference source action res db' t i f
  proof -
    have "is_credits (vo_valueCredits v)" using find_row_SomeD [OF that(1)] tabs by (simp add: billing_tables_ok_def)
    then have "posted db db' account t" using mutation_posted [OF lib ok _ _ _ that(3)] lockAccountD [OF that(2)] by simp
    then have "posted db (update_voucher db' i f) account t" by (simp add: posted_def update_voucher_def metered_def)
    then show ?thesis by (rule posted_effect)
  qed
  then show ?thesis
    unfolding redeemVoucher_def
    by (auto simp: and_then_Inr_iff split: if_splits option.splits prod.splits intro!: transaction_cases [where P = "ledger_effect db"])
qed

text \<open>The database in which the usage record of a charge is already written.\<close>

lemma metered_new_usage: "metered (db\<lparr>bd_usage := bd_usage db @ [new_usage u a c cost stored]\<rparr>) i = metered db i + (if i = a then stored else 0)"
  by (simp add: metered_def new_usage_def)

lemma metered_new_bot: "metered (db\<lparr>bd_botUsage := bd_botUsage db @ [u]\<rparr>) i = metered db i + (if i = bu_accountId u then bu_chargedCredits u else 0)"
  by (simp add: metered_def)

lemma charge_posted:
  assumes lib: "decimal_lib_ok lib" and ok: "ledger_ok db" and account: "account \<in> set (bd_accounts db)"
    and charged: "0 \<le> charged" "column lib charged = Inr stored"
    and p: "post_ledger lib db1 account j UsageCharge (- charged) (dl_round lib (ba_balance account - charged)) reference source = Inr (db2, t)"
    and db1: "bd_accounts db1 = bd_accounts db" "bd_transactions db1 = bd_transactions db"
      "\<And>i. metered db1 i = metered db i + (if i = ba_id account then stored else 0)"
    and db': "same_ledger db2 db'"
  shows "posted db db' account t"
proof -
  have minus: "column lib (- charged) = Inr (- stored)" using column_minus [OF lib] charged(2) by simp
  obtain after where s: "column lib (dl_round lib (ba_balance account - charged)) = Inr after"
    and t: "bt_type t = UsageCharge" "bt_balanceBefore t = ba_balance account" "bt_balanceAfter t = after" "bt_amount t = - stored"
    and db2: "bd_usage db2 = bd_usage db1" "bd_botUsage db2 = bd_botUsage db1"
    using post_ledgerD [OF p] minus by auto
  have "entry_ok t" using metered_entry [OF lib charged(1) account_credits [OF ok account] s minus t] .
  moreover have "metered db' i = metered db1 i" for i using db' db2 by (simp add: metered_def same_ledger_def)
  ultimately show ?thesis using posting [OF p db' account db1(1,2)] by (simp add: db1(3) t)
qed

lemma map_sum_fst_Inr: "map_sum id fst r = Inr x \<longleftrightarrow> (\<exists>y. r = Inr (x, y))"
  by (cases r) auto

lemma charge_nonneg: "0 \<le> uc_theoreticalCost c \<Longrightarrow> 0 \<le> charge_of c account"
  by (simp add: charge_of_def clamp_bounds(1))

text \<open>What either variant of a charge leaves behind when it does not leave the database alone.\<close>

definition usage_booked ::
    "decimal_lib \<Rightarrow> billing_db \<Rightarrow> usage_charge \<Rightarrow> uuid \<Rightarrow> uuid \<Rightarrow> billing_account \<Rightarrow> rat \<Rightarrow> rat \<Rightarrow> billing_db \<Rightarrow> bool" where
  "usage_booked lib db c i j account cost stored db' \<longleftrightarrow>
     find_row ba_tenantId (uc_tenantId c) (bd_accounts db) = Some account \<and> \<not> list_ex (same_usage c) (bd_usage db) \<and>
     column lib (charge_of c account) = Inr stored \<and>
     (let db1 = db\<lparr>bd_usage := bd_usage db @ [new_usage i (ba_id account) c cost stored]\<rparr> in
      if 0 < charge_of c account
      then \<exists>reference db2 t. post_ledger lib db1 account j UsageCharge (- charge_of c account)
             (dl_round lib (ba_balance account - charge_of c account)) reference None = Inr (db2, t) \<and> same_ledger db2 db' \<and> same_tables db2 db'
      else same_ledger db1 db' \<and> same_tables db1 db')"

lemma same_tables_simps [simp]: "same_tables db db" "same_tables db (bill_audit a i d) \<longleftrightarrow> same_tables db d"
  by (simp_all add: same_tables_def)

lemma recordUsageCharge_booked:
  "fst (recordUsageCharge lib db c i j) = db \<or> (\<exists>account cost stored. usage_booked lib db c i j account cost stored (fst (recordUsageCharge lib db c i j)))"
proof (cases "find_row ba_tenantId (uc_tenantId c) (bd_accounts db)")
  case None
  then show ?thesis by (auto simp: recordUsageCharge_def and_then_def billing_transaction_of_def split: sum.splits)
next
  case (Some account)
  let ?P = "\<lambda>db'. db' = db \<or> (\<exists>account cost stored. usage_booked lib db c i j account cost stored db')"
  show ?thesis unfolding recordUsageCharge_def Let_def Some option.case
  proof (rule transaction_cases [where P = ?P], goal_cases)
    case (1 db' x)
    then show ?case
    proof (elim and_then_InrE, goal_cases)
      case (1 u cost)
      show ?case
      proof (cases "list_ex (same_usage c) (bd_usage db)")
        case False
        from 1(3) show ?thesis unfolding if_not_P [OF False]
        proof (elim and_then_InrE, goal_cases)
          case (1 stored db2)
          then have "usage_booked lib db c i j account cost stored db'"
            using Some False
            by (auto simp: usage_booked_def Let_def map_sum_fst_Inr split: if_splits intro!: exI)
          then show ?case by blast
        qed
      qed (use 1(3) in simp)
    qed
  qed simp
qed

lemma service_recordUsageCharge_booked:
  assumes cost: "0 \<le> uc_theoreticalCost c"
  shows "fst (service_recordUsageCharge lib db c i j) = db \<or>
    (\<exists>account cost stored. usage_booked lib db c i j account cost stored (fst (service_recordUsageCharge lib db c i j)))"
  unfolding service_recordUsageCharge_def Let_def
proof (rule transaction_cases [where P = "\<lambda>d. d = db \<or> (\<exists>account cost stored. usage_booked lib db c i j account cost stored d)"], goal_cases)
  case (1 db' x)
  then show ?case
  proof (elim and_then_InrE, goal_cases)
    case (1 u account)
    show ?case
    proof (cases "list_ex (same_usage c) (bd_usage db)")
      case False
      from 1(3) show ?thesis unfolding if_not_P [OF False]
      proof (elim and_then_InrE, goal_cases)
        case (1 cost stored db2)
        have minus: "normalizeLedgerAmount UsageCharge (charge_of c account) = - charge_of c account"
          using charge_nonneg [OF cost, of account] by (simp add: normalizeLedgerAmount_def)
        have find: "find_row ba_tenantId (uc_tenantId c) (bd_accounts db) = Some account"
          using \<open>lockAccount db (uc_tenantId c) = Inr account\<close> by (auto simp: lockAccount_def split: option.splits)
        have "usage_booked lib db c i j account cost stored db'"
        proof (cases "0 < charge_of c account")
          case True
          with 1 obtain t where "applyBalanceMutation lib (db\<lparr>bd_usage := bd_usage db @ [new_usage i (ba_id account) c cost stored]\<rparr>)
              account j UsageCharge (charge_of c account) (Some (''usage:'' @ i)) None ''billing.usage_charge'' (uc_resourceId c) = Inr (db', t)"
            by (auto simp: map_sum_fst_Inr)
          from applyBalanceMutationD [OF this] show ?thesis
            using find False 1 True by (auto simp: usage_booked_def Let_def minus)
        qed (use find False 1 in \<open>auto simp: usage_booked_def Let_def\<close>)
        then show ?case by blast
      qed
    qed (use 1(3) in simp)
  qed
qed simp

lemma usage_booked_effect:
  assumes lib: "decimal_lib_ok lib" and ok: "ledger_ok db" and cost: "0 \<le> uc_theoreticalCost c"
    and b: "usage_booked lib db c i j account cost stored db'"
  shows "ledger_effect db db'"
proof -
  note B = b [unfolded usage_booked_def Let_def]
  let ?new = "db\<lparr>bd_usage := bd_usage db @ [new_usage i (ba_id account) c cost stored]\<rparr>"
  have account: "account \<in> set (bd_accounts db)" and stored: "column lib (charge_of c account) = Inr stored" using B account_in by blast+
  show ?thesis
  proof (cases "0 < charge_of c account")
    case True
    then obtain reference db2 t where p: "post_ledger lib ?new account j UsageCharge (- charge_of c account)
        (dl_round lib (ba_balance account - charge_of c account)) reference None = Inr (db2, t)" "same_ledger db2 db'"
      using B by auto
    show ?thesis
      by (rule posted_effect, rule charge_posted [OF lib ok account charge_nonneg [OF cost] stored p(1) _ _ _ p(2)])
        (simp_all add: metered_new_usage)
  next
    case False
    then have "charge_of c account = 0" using charge_nonneg [OF cost, of account] by linarith
    then have "stored = 0" using column_exact [OF lib is_credits_0] stored by metis
    moreover have "same_ledger ?new db'" using B False by simp
    ultimately have "metered db' k = metered db k" for k
      using metered_new_usage [of db i "ba_id account" c cost stored k] by (simp add: same_ledger_def metered_def)
    then show ?thesis using \<open>same_ledger ?new db'\<close> by (simp add: same_ledger_def ledger_effect_def)
  qed
qed

text \<open>The cost of a request is never negative, and neither is what is settled.\<close>

lemma token_count_nonneg [simp]: "0 \<le> token_count x"
  by (simp add: token_count_def)

lemma costForUsage_nonneg: "decimal_lib_ok lib \<Longrightarrow> bot_price_ok p \<Longrightarrow> 0 \<le> costForUsage lib p usage"
  unfolding costForUsage_def Let_def bot_price_ok_def
  by (intro places_nonneg round_nonneg divide_nonneg_nonneg add_nonneg_nonneg mult_nonneg_nonneg) auto

lemma settled_charge_bounds:
  "0 \<le> cost \<Longrightarrow> 0 \<le> reserved \<Longrightarrow> 0 \<le> settled_charge cost reserved balance" "settled_charge cost reserved balance \<le> reserved"
  "settled_charge cost reserved balance \<le> cost" "settled_charge cost reserved balance \<le> max balance 0"
  by (auto simp: settled_charge_def)

definition bot_booked ::
    "decimal_lib \<Rightarrow> billing_db \<Rightarrow> millis \<Rightarrow> settle_input \<Rightarrow> uuid \<Rightarrow> uuid \<Rightarrow> billing_account \<Rightarrow> bot_reservation \<Rightarrow> bot_price \<Rightarrow> bot_usage \<Rightarrow> billing_db \<Rightarrow> bool" where
  "bot_booked lib db now input i j account r p u db' \<longleftrightarrow>
     find_row ba_tenantId (se_tenantId input) (bd_accounts db) = Some account \<and>
     find_row bu_requestId (se_requestId input) (bd_botUsage db) = None \<and> valid_reservation db now account input = Some (r, p) \<and>
     bu_id u = i \<and> bu_accountId u = ba_id account \<and> bu_tenantId u = se_tenantId input \<and> bu_requestId u = se_requestId input \<and>
     (let charged = settled_charge (costForUsage lib p (se_tokens input)) (br_reservedCredits r) (ba_balance account) in
      column lib charged = Inr (bu_chargedCredits u) \<and>
      (\<exists>reference db2 t. post_ledger lib (db\<lparr>bd_botUsage := bd_botUsage db @ [u]\<rparr>) account j UsageCharge (- charged)
         (dl_round lib (ba_balance account - charged)) reference None = Inr (db2, t) \<and> same_ledger db2 db' \<and>
       db' = bill_audit ''resourcebot.usage.charge'' i
         (db2\<lparr>bd_reservations := filter (\<lambda>s. \<not> (br_requestId s = se_requestId input \<and> br_tenantId s = se_tenantId input))
                (bd_reservations db2)\<rparr>)))"

lemma billing_transaction_iff:
  "billing_transaction_of db r = (db', Inr x) \<longleftrightarrow> r = Inr (db', x)"
  "billing_transaction_of db r = (db', Inl e) \<longleftrightarrow> db' = db \<and> r = Inl e"
  by (auto simp: billing_transaction_of_def split: sum.splits)

lemma settle_Inr:
  assumes "settle_bot lib db now input i j = (db', Inr u)"
  shows "\<exists>account r p. bot_booked lib db now input i j account r p u db'"
  using assms unfolding settle_bot_def billing_transaction_iff
proof (elim and_then_InrE, goal_cases)
  case (1 account)
  have none: "find_row bu_requestId (se_requestId input) (bd_botUsage db) = None" using 1(2) by (auto split: option.splits)
  obtain r p where v: "valid_reservation db now account input = Some (r, p)" using 1(2) none by (auto split: option.splits)
  have find: "find_row ba_tenantId (se_tenantId input) (bd_accounts db) = Some account"
    using 1(1) by (auto simp: lockAccount_def split: option.splits)
  from 1(2) show ?thesis unfolding none v option.case prod.case Let_def
  proof (elim and_then_InrE, goal_cases)
    case (1 tenant cost stored booked)
    then show ?case using none v find
      by (auto simp: bot_booked_def Let_def same_ledger_def split: prod.splits intro!: exI)
  qed
qed

lemma settle_booked:
  "fst (settle_bot lib db now input i j) = db \<or> (\<exists>account r p u. bot_booked lib db now input i j account r p u (fst (settle_bot lib db now input i j)))"
proof (cases "snd (settle_bot lib db now input i j)")
  case (Inl e)
  then have "settle_bot lib db now input i j = (fst (settle_bot lib db now input i j), Inl e)" by (metis prod.collapse)
  then show ?thesis unfolding settle_bot_def billing_transaction_iff by blast
next
  case (Inr u)
  then show ?thesis using settle_Inr [of lib db now input i j "fst (settle_bot lib db now input i j)" u] by (metis prod.collapse)
qed

lemma valid_reservationD:
  "valid_reservation db now account input = Some (r, p) \<Longrightarrow>
     r \<in> set (bd_reservations db) \<and> br_requestId r = se_requestId input \<and> br_id r = se_reservationId input \<and>
     br_tenantId r = se_tenantId input \<and> br_accountId r = ba_id account \<and> now < br_expiresAt r \<and> p \<in> set (bd_botPrices db)"
  by (auto simp: valid_reservation_def split: option.splits if_splits dest!: find_row_SomeD)

lemma bot_booked_effect:
  assumes lib: "decimal_lib_ok lib" and tabs: "billing_tables_ok db" and ok: "ledger_ok db"
    and b: "bot_booked lib db now input i j account r p u db'"
  shows "ledger_effect db db'"
proof -
  note B = b [unfolded bot_booked_def Let_def]
  let ?charged = "settled_charge (costForUsage lib p (se_tokens input)) (br_reservedCredits r) (ba_balance account)"
  have account: "account \<in> set (bd_accounts db)" using B account_in by blast
  have "r \<in> set (bd_reservations db)" "p \<in> set (bd_botPrices db)" using B valid_reservationD by blast+
  then have "0 \<le> ?charged" using tabs costForUsage_nonneg [OF lib] by (intro settled_charge_bounds(1)) (auto simp: billing_tables_ok_def)
  moreover obtain reference db2 t where post: "post_ledger lib (db\<lparr>bd_botUsage := bd_botUsage db @ [u]\<rparr>) account j UsageCharge (- ?charged)
      (dl_round lib (ba_balance account - ?charged)) reference None = Inr (db2, t)" "same_ledger db2 db'"
    using B by blast
  moreover have "column lib ?charged = Inr (bu_chargedCredits u)" "bu_accountId u = ba_id account" using B by auto
  ultimately show ?thesis
    by (intro posted_effect [OF charge_posted [OF lib ok account _ _ post(1) _ _ _ post(2)]]) (simp_all add: metered_new_bot)
qed

section \<open>Every request is a ledger writer\<close>

lemmas request_effects =
  same_ledger_effect [OF createVoucher_same] same_ledger_effect [OF disableVoucher_same] same_ledger_effect [OF createPriceList_same]
  same_ledger_effect [OF createPrice_same] same_ledger_effect [OF reserve_same] same_ledger_effect [OF renew_same]
  same_ledger_effect [OF release_same]

lemma perform_effect:
  assumes lib: "decimal_lib_ok lib" and r: "billing_request_ok r" and tabs: "billing_tables_ok db" and ok: "ledger_ok db"
  shows "ledger_effect db (perform lib sha now i j r db)"
proof (cases r)
  case (RecordCharge c)
  then show ?thesis using recordUsageCharge_booked [of lib db c i j] usage_booked_effect [OF lib ok] r by auto
next
  case (RecordServiceCharge c)
  then show ?thesis using service_recordUsageCharge_booked [of c lib db i j] usage_booked_effect [OF lib ok] r by auto
next
  case (SettleRequest input)
  then show ?thesis using settle_booked [of lib db now input i j] bot_booked_effect [OF lib tabs ok] by auto
qed (use r in \<open>auto simp: payment_def refund_def correction_def lib tabs ok
    intro!: request_effects redeemVoucher_effect mutateBalance_effect\<close>)

interpretation billing: ledger_writer "\<lambda>(lib, sha, now, i, j, r). decimal_lib_ok lib \<and> billing_request_ok r" billing_tables_ok
    "\<lambda>(lib, sha, now, i, j, r). perform lib sha now i j r"
  by unfold_locales (auto intro: perform_effect)

lemma perform_keeps_ledger:
  "decimal_lib_ok lib \<Longrightarrow> billing_request_ok r \<Longrightarrow> billing_tables_ok db \<Longrightarrow> ledger_ok db \<Longrightarrow> ledger_ok (perform lib sha now i j r db)"
  using billing.keeps_ledger [of "(lib, sha, now, i, j, r)" db] by simp

end
