(* ===== verification/BillingInvariants.thy ===== *)
theory BillingInvariants
  imports BillingLedger
begin

text \<open>
  The invariants beside the ledger: a minute of a resource and a request of the bot are charged once, a
  voucher is redeemed once, prices and reservations are not negative. The database evolves by requests,
  by the opening of accounts for new tenants, and by changes of others to tenants and to the worker's
  checkpoint (\<open>billing_run\<close>); every reachable database satisfies \<open>billing_ok\<close>.
\<close>

section \<open>The tables beside the ledger\<close>

definition usage_key :: "usage_record \<Rightarrow> string \<times> uuid \<times> millis \<times> millis" where
  "usage_key r = (ur_resourceType r, ur_resourceId r, ur_periodStart r, ur_periodEnd r)"

definition usage_once :: "billing_db \<Rightarrow> bool" where
  "usage_once db \<longleftrightarrow> distinct (map usage_key (bd_usage db)) \<and> distinct (map bu_requestId (bd_botUsage db))"

text \<open>The redemptions of a voucher the ledger shows: who was credited, and how much.\<close>

definition redemptions :: "billing_db \<Rightarrow> uuid \<Rightarrow> (uuid \<times> rat) list" where
  "redemptions db i =
     map (\<lambda>t. (bt_accountId t, bt_amount t))
       (filter (\<lambda>t. bt_type t = VoucherRedeem \<and> bt_reference t = Some (''voucher:'' @ i)) (bd_transactions db))"

definition voucher_ok :: "billing_db \<Rightarrow> voucher_row \<Rightarrow> bool" where
  "voucher_ok db v \<longleftrightarrow>
     (vo_status v = ''Redeemed'' \<longleftrightarrow> vo_redeemedBillingAccountId v \<noteq> None) \<and>
     redemptions db (vo_id v) = (case vo_redeemedBillingAccountId v of None \<Rightarrow> [] | Some a \<Rightarrow> [(a, vo_valueCredits v)])"

definition vouchers_once :: "billing_db \<Rightarrow> bool" where
  "vouchers_once db \<longleftrightarrow>
     distinct (map vo_id (bd_vouchers db)) \<and> distinct (map vo_codeHash (bd_vouchers db)) \<and>
     (\<forall>v \<in> set (bd_vouchers db). voucher_ok db v) \<and>
     (\<forall>t \<in> set (bd_transactions db). bt_type t = VoucherRedeem \<longrightarrow> bt_reference t \<in> (\<lambda>i. Some (''voucher:'' @ i)) ` vo_id ` set (bd_vouchers db))"

definition billing_ok :: "billing_db \<Rightarrow> bool" where
  "billing_ok db \<longleftrightarrow> ledger_ok db \<and> billing_tables_ok db \<and> usage_once db \<and> vouchers_once db"

section \<open>Frames\<close>

text \<open>Nothing is redeemed: entries for vouchers and the vouchers stay.\<close>

definition no_redemption :: "billing_db \<Rightarrow> billing_db \<Rightarrow> bool" where
  "no_redemption db db' \<longleftrightarrow>
     bd_vouchers db' = bd_vouchers db \<and>
     filter (\<lambda>t. bt_type t = VoucherRedeem) (bd_transactions db') = filter (\<lambda>t. bt_type t = VoucherRedeem) (bd_transactions db)"

lemma redemptions_filter:
  "redemptions db i =
     map (\<lambda>t. (bt_accountId t, bt_amount t))
       (filter (\<lambda>t. bt_reference t = Some (''voucher:'' @ i)) (filter (\<lambda>t. bt_type t = VoucherRedeem) (bd_transactions db)))"
  unfolding redemptions_def filter_filter ..

lemma no_redemption_keeps:
  assumes "no_redemption db db'" "vouchers_once db"
  shows "vouchers_once db'"
proof -
  have v: "bd_vouchers db' = bd_vouchers db"
    and f: "filter (\<lambda>t. bt_type t = VoucherRedeem) (bd_transactions db') = filter (\<lambda>t. bt_type t = VoucherRedeem) (bd_transactions db)"
    using assms(1) by (simp_all add: no_redemption_def)
  have "redemptions db' i = redemptions db i" for i unfolding redemptions_filter f ..
  moreover have "t \<in> set (bd_transactions db') \<and> bt_type t = VoucherRedeem \<longleftrightarrow> t \<in> set (bd_transactions db) \<and> bt_type t = VoucherRedeem" for t
    using arg_cong [OF f, of set] by auto
  then have "bt_reference t \<in> (\<lambda>i. Some (''voucher:'' @ i)) ` vo_id ` set (bd_vouchers db)"
    if "t \<in> set (bd_transactions db')" "bt_type t = VoucherRedeem" for t
    using that assms(2) unfolding vouchers_once_def by blast
  ultimately show ?thesis using assms(2) by (simp add: vouchers_once_def voucher_ok_def v)
qed

lemma no_redemption_refl [simp]: "no_redemption db db"
  by (simp add: no_redemption_def)

text \<open>A posting of another type.\<close>

definition only_posted :: "ledger_type \<Rightarrow> billing_db \<Rightarrow> billing_db \<Rightarrow> bool" where
  "only_posted type1 db db' \<longleftrightarrow>
     same_tables db db' \<and> bd_usage db' = bd_usage db \<and> bd_botUsage db' = bd_botUsage db \<and>
     (bd_transactions db' = bd_transactions db \<or> (\<exists>t. bt_type t = type1 \<and> bd_transactions db' = bd_transactions db @ [t]))"

lemma only_posted_no_redemption: "only_posted type1 db db' \<Longrightarrow> type1 \<noteq> VoucherRedeem \<Longrightarrow> no_redemption db db'"
  by (auto simp: only_posted_def no_redemption_def same_tables_def)

lemma post_ledger_only: "post_ledger lib db account j type1 amount after reference source = Inr (db', t) \<Longrightarrow> only_posted type1 db db'"
  by (auto dest!: post_ledgerD simp: only_posted_def same_tables_def)

lemma only_posted_cong: "only_posted type1 db db1 \<Longrightarrow> same_ledger db1 db' \<Longrightarrow> same_tables db1 db' \<Longrightarrow> only_posted type1 db db'"
  by (auto simp: only_posted_def same_tables_def same_ledger_def)

lemma mutation_only:
  "applyBalanceMutation lib db account j type1 amount reference source action res = Inr (db', t) \<Longrightarrow> only_posted type1 db db'"
  by (blast dest!: applyBalanceMutationD intro: post_ledger_only only_posted_cong)

lemma only_posted_refl [simp]: "only_posted type1 db db"
  by (simp add: only_posted_def)

lemma mutateBalance_only: "only_posted type1 db (fst (mutateBalance lib db tenantId type1 amount reference source action j))"
  unfolding mutateBalance_def Let_def
  by (auto simp: and_then_Inr_iff split: if_splits intro!: transaction_cases [where P = "only_posted ty db" for ty] dest: mutation_only)

lemma only_posted_usage_once: "only_posted type1 db db' \<Longrightarrow> usage_once db \<Longrightarrow> usage_once db'"
  by (simp add: only_posted_def usage_once_def)

lemma only_posted_tables: "only_posted type1 db db' \<Longrightarrow> billing_tables_ok db \<Longrightarrow> billing_tables_ok db'"
  by (simp add: only_posted_def same_tables_def billing_tables_ok_def)

section \<open>Requests keep the tables\<close>

lemma nonNegativeDecimal_iff [simp]: "nonNegativeDecimal x field = Inr y \<longleftrightarrow> 0 \<le> x \<and> y = x"
  by (auto simp: nonNegativeDecimal_def)

lemma stored_rates_ok: "decimal_lib_ok lib \<Longrightarrow> price_list_ok p \<Longrightarrow> stored_rates lib p = Inr q \<Longrightarrow> price_list_ok q"
  unfolding stored_rates_def
  by (elim and_then_InrE) (auto simp: price_list_ok_def intro: column_nonneg [rotated 2])

lemma bot_rates_ok: "decimal_lib_ok lib \<Longrightarrow> bot_price_ok p \<Longrightarrow> bot_rates lib p = Inr q \<Longrightarrow> bot_price_ok q"
  unfolding bot_rates_def
  by (elim and_then_InrE) (auto simp: bot_price_ok_def intro: column_nonneg [rotated 2])

lemma bot_price_ok_effective [simp]: "bot_price_ok (p\<lparr>bp_effectiveFrom := t\<rparr>) \<longleftrightarrow> bot_price_ok p"
  by (simp add: bot_price_ok_def)

lemma tables_audit [simp]: "billing_tables_ok (bill_audit a i db) \<longleftrightarrow> billing_tables_ok db"
  by (simp add: billing_tables_ok_def)

lemma tables_prices: "billing_tables_ok db \<Longrightarrow> price_list_ok p \<Longrightarrow> billing_tables_ok (db\<lparr>bd_prices := bd_prices db @ [p]\<rparr>)"
  by (auto simp: billing_tables_ok_def)

lemma tables_botPrices: "billing_tables_ok db \<Longrightarrow> bot_price_ok p \<Longrightarrow> billing_tables_ok (db\<lparr>bd_botPrices := bd_botPrices db @ [p]\<rparr>)"
  by (auto simp: billing_tables_ok_def)

lemma tables_voucher:
  "billing_tables_ok db \<Longrightarrow> is_credits (vo_valueCredits v) \<Longrightarrow> 0 \<le> vo_valueCredits v \<Longrightarrow>
     billing_tables_ok (db\<lparr>bd_vouchers := bd_vouchers db @ [v]\<rparr>)"
  by (auto simp: billing_tables_ok_def)

lemma tables_update_voucher:
  "billing_tables_ok db \<Longrightarrow> (\<And>v. vo_valueCredits (f v) = vo_valueCredits v) \<Longrightarrow> billing_tables_ok (update_voucher db i f)"
  by (auto simp: billing_tables_ok_def update_voucher_def update_where_table split: if_splits)

lemma createVoucher_tables:
  assumes "decimal_lib_ok lib" "billing_tables_ok db"
  shows "billing_tables_ok (fst (createVoucher lib db now v expiresAt i h))"
proof -
  have "is_credits y" "\<not> v \<le> 0 \<Longrightarrow> 0 \<le> y" if "column lib v = Inr y" for y
    using columnD(1) [OF assms(1) that] column_nonneg [OF assms(1) _ that] by auto
  then show ?thesis
    unfolding createVoucher_def using assms(2)
    by (auto simp: and_then_Inr_iff Let_def intro!: transaction_cases [where P = billing_tables_ok] tables_voucher split: if_splits)
qed

lemma disableVoucher_tables: "billing_tables_ok db \<Longrightarrow> billing_tables_ok (fst (disableVoucher db now i))"
  unfolding disableVoucher_def by (auto simp: disabled_voucher_def intro!: tables_update_voucher split: option.splits)

lemma createPriceList_tables:
  assumes "decimal_lib_ok lib" "billing_tables_ok db"
  shows "billing_tables_ok (fst (createPriceList lib db effectiveFrom cpu memory storage gpu i))"
proof (cases "assertFullMinute effectiveFrom")
  case True
  then show ?thesis unfolding createPriceList_def if_not_P [OF not_not [THEN iffD2, OF True]] Let_def
  proof (intro transaction_cases [where P = billing_tables_ok], elim and_then_InrE, goal_cases)
    case (1 db' x c m s g row)
    have "price_list_ok row" by (rule stored_rates_ok [OF assms(1) _ 1(7)]) (use 1(3-6) in \<open>simp add: price_list_ok_def\<close>)
    then show ?case using 1 assms(2) by (auto intro: tables_prices split: if_splits)
  qed (rule assms(2))
qed (simp add: createPriceList_def assms(2))

lemma createPrice_tables:
  "decimal_lib_ok lib \<Longrightarrow> billing_tables_ok db \<Longrightarrow> billing_tables_ok (fst (createPrice lib db effectiveFrom p))"
  unfolding createPrice_def
  by (auto simp: and_then_Inr_iff split: if_splits
      intro!: transaction_cases [where P = billing_tables_ok] tables_botPrices elim!: bot_rates_ok [rotated 2] simp: bot_price_ok_def [of p])

text \<open>A redemption, when it does not leave the database alone.\<close>

definition voucher_booked ::
    "decimal_lib \<Rightarrow> billing_db \<Rightarrow> millis \<Rightarrow> uuid \<Rightarrow> voucher_row \<Rightarrow> billing_account \<Rightarrow> billing_transaction \<Rightarrow> billing_db \<Rightarrow> bool" where
  "voucher_booked lib db now tenantId v account t db' \<longleftrightarrow>
     v \<in> set (bd_vouchers db) \<and> isVoucherRedeemable (vo_status v) (vo_expiresAt v) now \<and>
     find_row ba_tenantId tenantId (bd_accounts db) = Some account \<and>
     (\<exists>db1 j action res. applyBalanceMutation lib db account j VoucherRedeem (vo_valueCredits v) (Some (''voucher:'' @ vo_id v)) None action res = Inr (db1, t) \<and>
       db' = update_voucher db1 (vo_id v) (redeemed_voucher now (ba_id account)))"

lemma redeemVoucher_booked:
  "fst (redeemVoucher lib sha db now tenantId code1 j) = db \<or>
   (\<exists>v account t. voucher_booked lib db now tenantId v account t (fst (redeemVoucher lib sha db now tenantId code1 j)))"
proof (unfold redeemVoucher_def, rule transaction_cases [where P = "\<lambda>d. d = db \<or> (\<exists>v account t. voucher_booked lib db now tenantId v account t d)"],
    goal_cases)
  case (1 db' x)
  then show ?case
  proof (elim and_then_InrE, goal_cases)
    case (1 u)
    then obtain v where v: "find_row vo_codeHash (hashVoucherCode sha code1) (bd_vouchers db) = Some v" by (auto split: option.splits)
    have r: "isVoucherRedeemable (vo_status v) (vo_expiresAt v) now" using 1(2) v by (auto split: if_splits)
    from 1(2) show ?thesis unfolding v option.case if_not_P [OF not_not [THEN iffD2, OF r]]
    proof (elim and_then_InrE, goal_cases)
      case (1 account p)
      then have "find_row ba_tenantId tenantId (bd_accounts db) = Some account" by (auto simp: lockAccount_def split: option.splits)
      then have "voucher_booked lib db now tenantId v account (snd p) db'"
        using 1 r find_row_SomeD [OF v] by (cases p) (auto simp: voucher_booked_def)
      then show ?case by blast
    qed
  qed
qed simp

lemma redeemVoucher_tables: "billing_tables_ok db \<Longrightarrow> billing_tables_ok (fst (redeemVoucher lib sha db now tenantId code1 j))"
  using redeemVoucher_booked [of lib sha db now tenantId code1 j]
  by (auto simp: voucher_booked_def redeemed_voucher_def simp del: append.simps
      intro!: tables_update_voucher dest!: mutation_only intro: only_posted_tables)

lemma reserve_tables:
  assumes lib: "decimal_lib_ok lib" and ok: "billing_tables_ok db"
  shows "billing_tables_ok (fst (reserve lib db now tenantId requestId provider model i))"
proof (unfold reserve_def, rule transaction_cases [where P = billing_tables_ok], goal_cases)
  case (1 db' x)
  then show ?case
  proof (elim and_then_InrE, goal_cases)
    case (1 price account)
    have "price \<in> set (bd_botPrices db)"
      using 1(1) head_sort_desc_greatest by (fastforce simp: getActivePrice_def split: option.splits)
    then have cost: "0 \<le> costForUsage lib price max_tokens" using ok costForUsage_nonneg [OF lib] by (simp add: billing_tables_ok_def)
    have live: "billing_tables_ok (drop_expired (ba_id account) now db)" using ok by (simp add: drop_expired_def billing_tables_ok_def)
    show ?case
    proof (cases "find_row bu_requestId requestId (bd_botUsage db)")
      case None
      then have "reserve_credits lib (drop_expired (ba_id account) now db) now account price (costForUsage lib price max_tokens) tenantId requestId i = Inr (db', x)"
        using 1(3) by simp
      then show ?thesis using live column_nonneg [OF lib cost] columnD(1) [OF lib]
        by (auto simp: reserve_credits_def and_then_Inr_iff Let_def billing_tables_ok_def split: if_splits option.splits)
    qed (use 1(3) ok in \<open>auto split: if_splits\<close>)
  qed
qed (rule ok)

lemma renew_tables: "billing_tables_ok db \<Longrightarrow> billing_tables_ok (fst (renew db now requestId tenantId reservationId))"
  by (auto simp: renew_def Let_def update_where_def billing_tables_ok_def)

lemma release_tables: "billing_tables_ok db \<Longrightarrow> billing_tables_ok (release db requestId tenantId reservationId)"
  by (auto simp: release_def billing_tables_ok_def)

text \<open>Charges leave those tables alone, but for the reservation that is settled.\<close>

lemma usage_booked_frame:
  assumes "usage_booked lib db c i j account cost stored db'"
  shows "same_tables db db'" "bd_usage db' = bd_usage db @ [new_usage i (ba_id account) c cost stored]" "bd_botUsage db' = bd_botUsage db"
    "no_redemption db db'"
proof -
  let ?db1 = "db\<lparr>bd_usage := bd_usage db @ [new_usage i (ba_id account) c cost stored]\<rparr>"
  have "only_posted UsageCharge ?db1 db'"
    using assms by (auto simp: usage_booked_def Let_def only_posted_def same_tables_def same_ledger_def split: if_splits dest!: post_ledgerD)
  then show "same_tables db db'" "bd_usage db' = bd_usage db @ [new_usage i (ba_id account) c cost stored]" "bd_botUsage db' = bd_botUsage db"
    "no_redemption db db'"
    using only_posted_no_redemption [of UsageCharge ?db1 db'] by (auto simp: only_posted_def same_tables_def no_redemption_def)
qed

lemma bot_booked_frame:
  assumes "bot_booked lib db now input i j account r p u db'"
  shows "no_redemption db db'" "bd_usage db' = bd_usage db" "bd_botUsage db' = bd_botUsage db @ [u]"
    "billing_tables_ok db \<Longrightarrow> billing_tables_ok db'"
  using assms by (auto simp: bot_booked_def Let_def no_redemption_def billing_tables_ok_def dest!: post_ledgerD)

section \<open>A redemption\<close>

lemma voucher_bookedD:
  assumes lib: "decimal_lib_ok lib" and tabs: "billing_tables_ok db" and b: "voucher_booked lib db now tenantId v account t db'"
  shows "v \<in> set (bd_vouchers db)" "isVoucherRedeemable (vo_status v) (vo_expiresAt v) now" "bt_type t = VoucherRedeem"
    "bt_reference t = Some (''voucher:'' @ vo_id v)" "bt_accountId t = ba_id account" "bt_amount t = vo_valueCredits v"
    "bd_transactions db' = bd_transactions db @ [t]" "bd_usage db' = bd_usage db" "bd_botUsage db' = bd_botUsage db"
    "bd_vouchers db' = fst (update_where (\<lambda>w. vo_id w = vo_id v) (redeemed_voucher now (ba_id account)) (bd_vouchers db))"
proof -
  show v: "v \<in> set (bd_vouchers db)" and "isVoucherRedeemable (vo_status v) (vo_expiresAt v) now"
    using b by (simp_all add: voucher_booked_def)
  have cr: "is_credits (vo_valueCredits v)" "normalizeLedgerAmount VoucherRedeem (vo_valueCredits v) = vo_valueCredits v"
    using v tabs by (auto simp: billing_tables_ok_def normalizeLedgerAmount_def)
  obtain db1 j action res where m: "applyBalanceMutation lib db account j VoucherRedeem (vo_valueCredits v) (Some (''voucher:'' @ vo_id v)) None action res
      = Inr (db1, t)" and db': "db' = update_voucher db1 (vo_id v) (redeemed_voucher now (ba_id account))"
    using b unfolding voucher_booked_def by blast
  obtain db2 where p: "post_ledger lib db account j VoucherRedeem (vo_valueCredits v) (dl_round lib (ba_balance account + vo_valueCredits v))
        (Some (''voucher:'' @ vo_id v)) None = Inr (db2, t)" "same_ledger db2 db1" "same_tables db2 db1"
    using applyBalanceMutationD [OF m] unfolding cr(2) by blast
  obtain after stored where s: "column lib (vo_valueCredits v) = Inr stored" "bt_type t = VoucherRedeem" "bt_amount t = stored"
      "bt_reference t = Some (''voucher:'' @ vo_id v)" "bt_accountId t = ba_id account" "bd_transactions db2 = bd_transactions db @ [t]"
      "bd_usage db2 = bd_usage db" "bd_botUsage db2 = bd_botUsage db" "bd_vouchers db2 = bd_vouchers db"
    using post_ledgerD [OF p(1)] by auto
  show "bt_amount t = vo_valueCredits v" using column_exact [OF lib cr(1) s(1)] s(3) by simp
  show "bt_type t = VoucherRedeem" "bt_reference t = Some (''voucher:'' @ vo_id v)" "bt_accountId t = ba_id account"
    "bd_transactions db' = bd_transactions db @ [t]" "bd_usage db' = bd_usage db" "bd_botUsage db' = bd_botUsage db"
    "bd_vouchers db' = fst (update_where (\<lambda>w. vo_id w = vo_id v) (redeemed_voucher now (ba_id account)) (bd_vouchers db))"
    using s p(2,3) by (simp_all add: db' update_voucher_def same_ledger_def same_tables_def)
qed

lemma redeemed_voucher_keys [simp]: "vo_id (redeemed_voucher now a v) = vo_id v" "vo_codeHash (redeemed_voucher now a v) = vo_codeHash v"
  by (simp_all add: redeemed_voucher_def)

lemma redemptions_snoc:
  "bd_transactions db' = bd_transactions db @ [t] \<Longrightarrow>
     redemptions db' i = redemptions db i @
       (if bt_type t = VoucherRedeem \<and> bt_reference t = Some (''voucher:'' @ i) then [(bt_accountId t, bt_amount t)] else [])"
  by (simp add: redemptions_def del: append.simps)

lemma voucher_booked_keeps:
  assumes lib: "decimal_lib_ok lib" and tabs: "billing_tables_ok db" and once: "vouchers_once db"
    and b: "voucher_booked lib db now tenantId v account t db'"
  shows "vouchers_once db'"
proof -
  note D = voucher_bookedD [OF lib tabs b]
  let ?f = "redeemed_voucher now (ba_id account)"
  have keys: "map vo_id (bd_vouchers db') = map vo_id (bd_vouchers db)" "map vo_codeHash (bd_vouchers db') = map vo_codeHash (bd_vouchers db)"
    by (auto simp: D(10) update_where_table)
  have dist: "distinct (map vo_id (bd_vouchers db))" using once by (simp add: vouchers_once_def)
  have red: "redemptions db' i = redemptions db i @ (if i = vo_id v then [(ba_id account, vo_valueCredits v)] else [])" for i
    using redemptions_snoc [OF D(7), of i] by (simp add: D(3-6))
  have "vo_status v = ''Active''" using D(2) by (simp add: isVoucherRedeemable_def)
  then have fresh: "redemptions db (vo_id v) = []" using once D(1) by (auto simp: vouchers_once_def voucher_ok_def split: option.splits)
  have "voucher_ok db' w" if "w \<in> set (bd_vouchers db')" for w
  proof -
    from that consider "w \<in> set (bd_vouchers db)" "vo_id w \<noteq> vo_id v" | w0 where "w = ?f w0" "w0 \<in> set (bd_vouchers db)" "vo_id w0 = vo_id v"
      by (auto simp: D(10) update_where_table split: if_splits)
    then show ?thesis
    proof cases
      case 1
      then show ?thesis using once by (simp add: vouchers_once_def voucher_ok_def red)
    next
      case 2
      then have "w = ?f v" using distinct_key_eq [OF dist _ D(1)] by metis
      then show ?thesis using fresh by (simp add: voucher_ok_def red redeemed_voucher_def)
    qed
  qed
  moreover have "bt_reference s \<in> (\<lambda>i. Some (''voucher:'' @ i)) ` vo_id ` set (bd_vouchers db')"
    if "s \<in> set (bd_transactions db')" "bt_type s = VoucherRedeem" for s
  proof -
    have ids: "vo_id ` set (bd_vouchers db') = vo_id ` set (bd_vouchers db)" using keys(1) by (metis list.set_map)
    have "s \<in> set (bd_transactions db) \<or> s = t" using that(1) by (auto simp: D(7))
    then show ?thesis unfolding ids using once that(2) D(1,4) unfolding vouchers_once_def by (metis imageI)
  qed
  ultimately show ?thesis using once unfolding vouchers_once_def keys by blast
qed

section \<open>Vouchers that are created and disabled\<close>

lemma redemptions_cong: "bd_transactions db' = bd_transactions db \<Longrightarrow> redemptions db' i = redemptions db i"
  by (simp add: redemptions_def)

lemma new_voucher_keeps:
  assumes once: "vouchers_once db" and same: "bd_transactions db' = bd_transactions db" and new: "bd_vouchers db' = bd_vouchers db @ [v]"
    and v: "vo_id v \<notin> vo_id ` set (bd_vouchers db)" "vo_codeHash v \<notin> vo_codeHash ` set (bd_vouchers db)"
      "vo_status v \<noteq> ''Redeemed''" "vo_redeemedBillingAccountId v = None"
  shows "vouchers_once db'"
proof -
  have refs: "\<forall>t \<in> set (bd_transactions db). bt_type t = VoucherRedeem \<longrightarrow>
      bt_reference t \<in> (\<lambda>i. Some (''voucher:'' @ i)) ` vo_id ` set (bd_vouchers db)"
    using once unfolding vouchers_once_def by blast
  have "False" if t: "t \<in> set (bd_transactions db)" "bt_type t = VoucherRedeem" "bt_reference t = Some (''voucher:'' @ vo_id v)" for t
  proof -
    obtain i where "i \<in> vo_id ` set (bd_vouchers db)" "bt_reference t = Some (''voucher:'' @ i)" using refs t(1,2) by blast
    then show False using t(3) v(1) by simp
  qed
  then have "redemptions db (vo_id v) = []" unfolding redemptions_def map_is_Nil_conv filter_empty_conv by blast
  then have "voucher_ok db' w" if "w \<in> set (bd_vouchers db')" for w
    using that once v(3,4) by (auto simp: new vouchers_once_def voucher_ok_def redemptions_cong [OF same])
  moreover have "\<forall>t \<in> set (bd_transactions db'). bt_type t = VoucherRedeem \<longrightarrow>
      bt_reference t \<in> (\<lambda>i. Some (''voucher:'' @ i)) ` vo_id ` set (bd_vouchers db')"
    using refs unfolding same new set_append image_Un by blast
  moreover have "distinct (map vo_id (bd_vouchers db'))" "distinct (map vo_codeHash (bd_vouchers db'))"
    using once v(1,2) by (auto simp: new vouchers_once_def)
  ultimately show ?thesis unfolding vouchers_once_def by blast
qed

lemma createVoucher_vouchers:
  assumes "vouchers_once db"
  shows "vouchers_once (fst (createVoucher lib db now v expiresAt i h))"
proof -
  have "vouchers_once (bill_audit a i (db\<lparr>bd_vouchers := bd_vouchers db @ [w]\<rparr>))"
    if "\<not> list_ex (\<lambda>w. vo_id w = i \<or> vo_codeHash w = h) (bd_vouchers db)" "vo_id w = i" "vo_codeHash w = h"
      "vo_status w = ''Active''" "vo_redeemedBillingAccountId w = None" for w a
    by (rule new_voucher_keeps [OF assms, of _ w]) (use that in \<open>auto simp: list_ex_iff\<close>)
  then show ?thesis
    unfolding createVoucher_def using assms
    by (auto simp: and_then_Inr_iff Let_def split: if_splits intro!: transaction_cases [where P = vouchers_once])
qed

lemma disableVoucher_vouchers:
  assumes "vouchers_once db"
  shows "vouchers_once (fst (disableVoucher db now i))"
proof (cases "\<exists>v. find_row vo_id i (bd_vouchers db) = Some v \<and> vo_status v \<noteq> ''Redeemed'' \<and> vo_status v \<noteq> ''Disabled''")
  case True
  then obtain v where v: "find_row vo_id i (bd_vouchers db) = Some v" "vo_status v \<noteq> ''Redeemed''"
    and db': "fst (disableVoucher db now i) = bill_audit ''billing.voucher.disable'' i (update_voucher db i (disabled_voucher now))"
    by (auto simp: disableVoucher_def)
  have dist: "distinct (map vo_id (bd_vouchers db))" using assms by (simp add: vouchers_once_def)
  have "voucher_ok db (disabled_voucher now w)" if "w \<in> set (bd_vouchers db)" "vo_id w = i" for w
  proof -
    have "w = v" using that distinct_key_eq [OF dist] find_row_SomeD [OF v(1)] by metis
    then show ?thesis using assms that v(2) by (auto simp: vouchers_once_def voucher_ok_def disabled_voucher_def)
  qed
  then have "voucher_ok db w" if "w \<in> set (bd_vouchers (update_voucher db i (disabled_voucher now)))" for w
    using that assms by (auto simp: update_voucher_def update_where_table vouchers_once_def split: if_splits)
  moreover have "voucher_ok (bill_audit a r (update_voucher db j f)) = voucher_ok db" for a r j f
    by (auto simp: voucher_ok_def redemptions_def update_voucher_def fun_eq_iff)
  moreover have "map vo_id (bd_vouchers (update_voucher db i (disabled_voucher now))) = map vo_id (bd_vouchers db)"
    "map vo_codeHash (bd_vouchers (update_voucher db i (disabled_voucher now))) = map vo_codeHash (bd_vouchers db)"
    by (auto simp: update_voucher_def update_where_table disabled_voucher_def)
  moreover from this have "vo_id ` set (bd_vouchers (update_voucher db i (disabled_voucher now))) = vo_id ` set (bd_vouchers db)"
    by (metis list.set_map)
  moreover have "bd_transactions (update_voucher db i (disabled_voucher now)) = bd_transactions db" by (simp add: update_voucher_def)
  ultimately show ?thesis using assms unfolding db' vouchers_once_def bill_audit_fields by simp
qed (use assms in \<open>auto simp: disableVoucher_def split: option.splits\<close>)

section \<open>Charges happen once\<close>

lemma same_ledger_usage_once: "same_ledger db db' \<Longrightarrow> usage_once db \<Longrightarrow> usage_once db'"
  by (simp add: same_ledger_def usage_once_def)

lemma usage_booked_once: "usage_booked lib db c i j account cost stored db' \<Longrightarrow> usage_once db \<Longrightarrow> usage_once db'"
  using usage_booked_frame(2,3) [of lib db c i j account cost stored db']
  by (auto simp: usage_once_def usage_booked_def usage_key_def new_usage_def same_usage_def list_ex_iff)

lemma bot_booked_once: "bot_booked lib db now input i j account r p u db' \<Longrightarrow> usage_once db \<Longrightarrow> usage_once db'"
  using bot_booked_frame(2,3) [of lib db now input i j account r p u db']
  by (auto simp: usage_once_def bot_booked_def find_row_None_iff)

section \<open>Every request keeps every invariant\<close>

lemma same_ledger_no_redemption: "same_ledger db db' \<Longrightarrow> bd_vouchers db' = bd_vouchers db \<Longrightarrow> no_redemption db db'"
  by (simp add: same_ledger_def no_redemption_def)

lemma untouched_vouchers:
  "bd_vouchers (fst (createPriceList lib db effectiveFrom cpu memory storage gpu i)) = bd_vouchers db"
  "bd_vouchers (fst (createPrice lib db effectiveFrom p)) = bd_vouchers db"
  "bd_vouchers (fst (renew db now requestId tenantId reservationId)) = bd_vouchers db"
  "bd_vouchers (release db requestId tenantId reservationId) = bd_vouchers db"
  unfolding createPriceList_def createPrice_def
  by (auto simp: renew_def release_def and_then_Inr_iff Let_def split: if_splits prod.splits
      intro!: transaction_cases [where P = "\<lambda>d. bd_vouchers d = bd_vouchers db"])

lemma reserve_vouchers: "bd_vouchers (fst (reserve lib db now tenantId requestId provider model i)) = bd_vouchers db"
proof -
  have "bd_vouchers db' = bd_vouchers db"
    if "reserve_credits lib (drop_expired a now db) now account price credits tenantId requestId i = Inr (db', x)" for a account price credits db' x
    using that by (auto simp: reserve_credits_def drop_expired_def and_then_Inr_iff Let_def split: if_splits option.splits)
  then show ?thesis
    unfolding reserve_def
    by (cases "find_row bu_requestId requestId (bd_botUsage db)")
      (auto simp: and_then_Inr_iff split: if_splits intro!: transaction_cases [where P = "\<lambda>d. bd_vouchers d = bd_vouchers db"])
qed

lemmas unredeemed =
  same_ledger_no_redemption [OF createPriceList_same untouched_vouchers(1)] same_ledger_no_redemption [OF createPrice_same untouched_vouchers(2)]
  same_ledger_no_redemption [OF renew_same untouched_vouchers(3)] same_ledger_no_redemption [OF release_same untouched_vouchers(4)]
  same_ledger_no_redemption [OF reserve_same reserve_vouchers]

lemmas request_same =
  createVoucher_same disableVoucher_same createPriceList_same createPrice_same reserve_same renew_same release_same

lemma perform_usage_once:
  assumes lib: "decimal_lib_ok lib" and r: "billing_request_ok r" and tabs: "billing_tables_ok db" and ok: "usage_once db"
  shows "usage_once (perform lib sha now i j r db)"
proof (cases r)
  case (RedeemVoucher tenantId code1)
  then show ?thesis
    using redeemVoucher_booked [of lib sha db now tenantId code1 j] voucher_bookedD(8,9) [OF lib tabs] ok by (auto simp: usage_once_def)
next
  case (RecordCharge c)
  then show ?thesis using recordUsageCharge_booked [of lib db c i j] usage_booked_once ok by auto
next
  case (RecordServiceCharge c)
  then show ?thesis using service_recordUsageCharge_booked [of c lib db i j] usage_booked_once ok r by auto
next
  case (SettleRequest input)
  then show ?thesis using settle_booked [of lib db now input i j] bot_booked_once ok by auto
qed (auto simp: payment_def refund_def correction_def ok
    intro: only_posted_usage_once [OF mutateBalance_only] same_ledger_usage_once request_same)

lemma perform_tables:
  assumes lib: "decimal_lib_ok lib" and r: "billing_request_ok r" and ok: "billing_tables_ok db"
  shows "billing_tables_ok (perform lib sha now i j r db)"
proof -
  have booked: "billing_tables_ok db'" if "usage_booked lib db c i j account cost stored db'" for c account cost stored db'
    using usage_booked_frame(1) [OF that] ok by (simp add: same_tables_def billing_tables_ok_def)
  show ?thesis
  proof (cases r)
    case (RecordCharge c)
    then show ?thesis using recordUsageCharge_booked [of lib db c i j] booked ok by auto
  next
    case (RecordServiceCharge c)
    then show ?thesis using service_recordUsageCharge_booked [of c lib db i j] booked ok r by auto
  next
    case (SettleRequest input)
    then show ?thesis using settle_booked [of lib db now input i j] bot_booked_frame(4) ok by auto
  qed (simp_all add: payment_def refund_def correction_def lib ok only_posted_tables [OF mutateBalance_only] createVoucher_tables
      disableVoucher_tables redeemVoucher_tables createPriceList_tables createPrice_tables reserve_tables renew_tables release_tables)
qed

lemma perform_vouchers_once:
  assumes lib: "decimal_lib_ok lib" and r: "billing_request_ok r" and tabs: "billing_tables_ok db" and ok: "vouchers_once db"
  shows "vouchers_once (perform lib sha now i j r db)"
proof (cases r)
  case (RedeemVoucher tenantId code1)
  then show ?thesis using redeemVoucher_booked [of lib sha db now tenantId code1 j] voucher_booked_keeps [OF lib tabs ok] ok by auto
next
  case (RecordCharge c)
  then show ?thesis
    using recordUsageCharge_booked [of lib db c i j] usage_booked_frame(4) no_redemption_keeps [OF _ ok] ok by auto
next
  case (RecordServiceCharge c)
  then show ?thesis
    using service_recordUsageCharge_booked [of c lib db i j] usage_booked_frame(4) no_redemption_keeps [OF _ ok] ok r by auto
next
  case (SettleRequest input)
  then show ?thesis
    using settle_booked [of lib db now input i j] bot_booked_frame(1) no_redemption_keeps [OF _ ok] ok by auto
qed (auto simp: payment_def refund_def correction_def ok createVoucher_vouchers disableVoucher_vouchers
    intro!: no_redemption_keeps [OF _ ok] unredeemed only_posted_no_redemption [OF mutateBalance_only])

lemma perform_keeps:
  "decimal_lib_ok lib \<Longrightarrow> billing_request_ok r \<Longrightarrow> billing_ok db \<Longrightarrow> billing_ok (perform lib sha now i j r db)"
  by (simp add: billing_ok_def perform_keeps_ledger perform_tables perform_usage_once perform_vouchers_once)

section \<open>Runs\<close>

text \<open>\<open>createTenant\<close> opens an account without credits.\<close>

definition open_account :: "uuid \<Rightarrow> uuid \<Rightarrow> billing_db \<Rightarrow> billing_db" where
  "open_account accountId tenantId db =
     db\<lparr>bd_tenants := bd_tenants db @ [tenantId],
        bd_accounts := bd_accounts db @
          [\<lparr>ba_id = accountId, ba_tenantId = tenantId, ba_balance = 0, ba_informationThreshold = 0\<rparr>]\<rparr>"

definition empty_billing :: billing_db where
  "empty_billing =
     \<lparr>bd_tenants = [], bd_accounts = [], bd_transactions = [], bd_usage = [], bd_vouchers = [], bd_prices = [], bd_botPrices = [],
      bd_reservations = [], bd_botUsage = [], bd_worker = None, bd_audit = []\<rparr>"

inductive billing_run :: "decimal_lib \<Rightarrow> (string \<Rightarrow> string) \<Rightarrow> billing_db \<Rightarrow> bool" for lib sha where
  start: "billing_run lib sha empty_billing"
| request: "billing_run lib sha db \<Longrightarrow> billing_request_ok r \<Longrightarrow> billing_run lib sha (perform lib sha now i j r db)"
| tenant: "billing_run lib sha db \<Longrightarrow> accountId \<notin> ba_id ` set (bd_accounts db) \<Longrightarrow> tenantId \<notin> ba_tenantId ` set (bd_accounts db) \<Longrightarrow>
    billing_run lib sha (open_account accountId tenantId db)"
| others: "billing_run lib sha db \<Longrightarrow> billing_run lib sha (db\<lparr>bd_tenants := tenants, bd_worker := checkpoint\<rparr>)"

lemma open_account_keeps:
  assumes "billing_ok db" "accountId \<notin> ba_id ` set (bd_accounts db)" "tenantId \<notin> ba_tenantId ` set (bd_accounts db)"
  shows "billing_ok (open_account accountId tenantId db)"
proof -
  have "account_entries db accountId = []"
    using assms by (auto simp: billing_ok_def ledger_ok_def account_entries_def filter_empty_conv)
  moreover have "account_entries (open_account accountId tenantId db) i = account_entries db i" for i
    by (simp add: account_entries_def open_account_def)
  ultimately have "ledger_ok (open_account accountId tenantId db)"
    using assms unfolding billing_ok_def ledger_ok_def debited_def metered_def by (auto simp: open_account_def)
  then show ?thesis
    using assms(1) by (simp add: billing_ok_def billing_tables_ok_def usage_once_def vouchers_once_def voucher_ok_def redemptions_def open_account_def)
qed

lemma billing_run_ok:
  assumes lib: "decimal_lib_ok lib" and run: "billing_run lib sha db"
  shows "billing_ok db"
  using run
proof induction
  case start
  show ?case
    by (simp add: billing_ok_def ledger_ok_def billing_tables_ok_def usage_once_def vouchers_once_def empty_billing_def debited_def metered_def account_entries_def)
next
  case (others db tenants checkpoint)
  then show ?case
    by (simp add: billing_ok_def ledger_ok_def billing_tables_ok_def usage_once_def vouchers_once_def voucher_ok_def redemptions_def debited_def metered_def account_entries_def)
qed (auto intro: perform_keeps [OF lib] open_account_keeps)

end
