(* ===== verification/BillingCatchUp.thy ===== *)
theory BillingCatchUp
  imports BillingInvariants
begin

text \<open>
  What a pass of the billing worker records. A usage record of a minute is specified by the resource it
  is for (\<open>app_record\<close>, \<open>volume_record\<close>): its minute, its account, its cost at the price list in force at the
  start of the minute, and what was charged of it. \<open>extends P\<close> relates a database to one with more usage
  records, all new ones satisfying \<open>P\<close>; it composes along the charges of a minute and the minutes of a
  pass. \<open>others_record\<close> is what others may do meanwhile.
\<close>

section \<open>The record of a resource for a minute\<close>

definition record_for :: "string \<Rightarrow> uuid \<Rightarrow> millis \<Rightarrow> usage_record \<Rightarrow> bool" where
  "record_for kind i start r \<longleftrightarrow>
     ur_resourceType r = kind \<and> ur_resourceId r = i \<and> ur_periodStart r = start \<and> ur_periodEnd r = start + 60000"

text \<open>The replicas that count: those that run, up to the deployed number, and none unless group, tenant,
  application, deployed state and account are all active.\<close>

definition counted_replicas :: "billing_app \<Rightarrow> compute_allocation option \<Rightarrow> bool \<Rightarrow> int" where
  "counted_replicas app deployed funded =
     (case deployed of
        None \<Rightarrow> 0
      | Some d \<Rightarrow>
          (if ap_groupRuntimeState app = ''Running'' \<and> ap_tenantStatus app = ''Active'' \<and> ap_runtimeState app = ''Running'' \<and>
              al_runtimeState d = ''Running'' \<and> funded
           then max 0 (min (ap_actualReplicas app) (max 0 (al_desiredReplicas d))) else 0))"

definition app_record ::
    "decimal_lib \<Rightarrow> (string \<Rightarrow> value_json option) \<Rightarrow> price_list \<Rightarrow> millis \<Rightarrow> billing_app \<Rightarrow> usage_record \<Rightarrow> bool" where
  "app_record lib json_parse price start app r \<longleftrightarrow>
     record_for ''SingleApp'' (ap_id app) start r \<and> ur_priceListVersionId r = pl_id price \<and>
     (\<exists>deployed funded (account :: billing_account). deployed_allocation lib json_parse app = Inr deployed \<and>
        ba_tenantId account = ap_tenantId app \<and> ba_id account = ur_accountId r \<and>
        (let cost = computeMinuteCost lib (counted_replicas app deployed funded)
               (case deployed of None \<Rightarrow> ap_cpu app | Some d \<Rightarrow> al_cpu d)
               (case deployed of None \<Rightarrow> ap_memoryBytes app | Some d \<Rightarrow> al_memoryBytes d)
               (case deployed of None \<Rightarrow> ap_gpu app | Some d \<Rightarrow> al_gpu d) price
         in column lib cost = Inr (ur_cost r) \<and>
            column lib (clampComputeCharge cost (ba_balance account)) = Inr (ur_chargedCredits r)))"

definition volume_record :: "decimal_lib \<Rightarrow> price_list \<Rightarrow> millis \<Rightarrow> billing_volume \<Rightarrow> usage_record \<Rightarrow> bool" where
  "volume_record lib price start volume r \<longleftrightarrow>
     record_for ''Volume'' (bv_id volume) start r \<and> ur_priceListVersionId r = pl_id price \<and>
     (\<exists>account :: billing_account. ba_tenantId account = bv_tenantId volume \<and> ba_id account = ur_accountId r) \<and>
     column lib (dl_round lib (dl_round lib (dl_round lib (of_int (bv_sizeBytes volume) / 1000000000) * pl_storage price) / 60)) =
       Inr (ur_cost r) \<and>
     ur_chargedCredits r = ur_cost r"

definition record_of_minute ::
    "decimal_lib \<Rightarrow> (string \<Rightarrow> value_json option) \<Rightarrow> billing_app list \<times> billing_volume list \<Rightarrow> price_list \<Rightarrow> millis \<Rightarrow> usage_record \<Rightarrow> bool" where
  "record_of_minute lib json_parse resources price start r \<longleftrightarrow>
     (\<exists>app \<in> set (fst resources). app_record lib json_parse price start app r) \<or>
     (\<exists>volume \<in> set (snd resources). volume_record lib price start volume r)"

text \<open>Every resource of a tenant that has an account has its record of the minute.\<close>

definition minute_complete :: "uuid set \<Rightarrow> billing_app list \<times> billing_volume list \<Rightarrow> millis \<Rightarrow> billing_db \<Rightarrow> bool" where
  "minute_complete tenants resources start db \<longleftrightarrow>
     (\<forall>app \<in> set (fst resources). ap_tenantId app \<in> tenants \<longrightarrow>
        (\<exists>r \<in> set (bd_usage db). record_for ''SingleApp'' (ap_id app) start r)) \<and>
     (\<forall>volume \<in> set (snd resources). bv_tenantId volume \<in> tenants \<longrightarrow>
        (\<exists>r \<in> set (bd_usage db). record_for ''Volume'' (bv_id volume) start r))"

definition billed_tenants :: "billing_db \<Rightarrow> uuid set" where
  "billed_tenants db = ba_tenantId ` set (bd_accounts db)"

section \<open>More usage records\<close>

definition extends :: "(usage_record \<Rightarrow> bool) \<Rightarrow> billing_db \<Rightarrow> billing_db \<Rightarrow> bool" where
  "extends P db db' \<longleftrightarrow>
     bd_prices db' = bd_prices db \<and> billed_tenants db \<subseteq> billed_tenants db' \<and> set (bd_usage db) \<subseteq> set (bd_usage db') \<and>
     (\<forall>r \<in> set (bd_usage db') - set (bd_usage db). P r)"

lemma extends_refl [simp]: "extends P db db"
  by (simp add: extends_def)

lemma extends_trans: "extends P a b \<Longrightarrow> extends P b c \<Longrightarrow> extends P a c"
  by (auto simp: extends_def)

lemma extends_mono: "extends P a b \<Longrightarrow> (\<And>r. P r \<Longrightarrow> Q r) \<Longrightarrow> extends Q a b"
  by (auto simp: extends_def)

lemma extends_worker [simp]: "extends P db (db'\<lparr>bd_worker := w\<rparr>) \<longleftrightarrow> extends P db db'"
  by (simp add: extends_def billed_tenants_def)

lemma minute_complete_extends:
  "minute_complete tenants resources start db \<Longrightarrow> extends P db db' \<Longrightarrow> minute_complete tenants resources start db'"
  unfolding minute_complete_def extends_def by blast

text \<open>Others may record usage, open accounts and move balances, but neither change the price lists nor the checkpoint.\<close>

definition recorded_by_others :: "(uuid \<Rightarrow> billing_db \<Rightarrow> billing_db) \<Rightarrow> usage_record \<Rightarrow> bool" where
  "recorded_by_others meanwhile r \<longleftrightarrow> (\<exists>i d. r \<in> set (bd_usage (meanwhile i d)) - set (bd_usage d))"

definition others_record :: "(uuid \<Rightarrow> billing_db \<Rightarrow> billing_db) \<Rightarrow> bool" where
  "others_record meanwhile \<longleftrightarrow>
     (\<forall>i d. bd_worker (meanwhile i d) = bd_worker d \<and> bd_prices (meanwhile i d) = bd_prices d \<and>
        billed_tenants d \<subseteq> billed_tenants (meanwhile i d) \<and> set (bd_usage d) \<subseteq> set (bd_usage (meanwhile i d)))"

lemma others_extend: "others_record meanwhile \<Longrightarrow> extends (recorded_by_others meanwhile) d (meanwhile i d)"
  unfolding others_record_def extends_def recorded_by_others_def by blast

section \<open>One charge\<close>

definition booked_for :: "decimal_lib \<Rightarrow> usage_charge \<Rightarrow> usage_record \<Rightarrow> bool" where
  "booked_for lib c r \<longleftrightarrow>
     (\<exists>i (account :: billing_account) cost stored. r = new_usage i (ba_id account) c cost stored \<and> ba_tenantId account = uc_tenantId c \<and>
        column lib (uc_theoreticalCost c) = Inr cost \<and> column lib (charge_of c account) = Inr stored)"

lemma set_balance_tenants [simp]: "ba_tenantId ` set (set_balance i b accounts) = ba_tenantId ` set accounts"
  by (metis list.set_map set_balance_keys(2))

lemma booked_extends:
  assumes "column lib (uc_theoreticalCost c) = Inr cost" and b: "usage_booked lib db c i j account cost stored db'"
  shows "extends (booked_for lib c) db db' \<and> new_usage i (ba_id account) c cost stored \<in> set (bd_usage db')"
proof -
  have "ba_tenantId account = uc_tenantId c" "column lib (charge_of c account) = Inr stored"
    using b by (auto simp: usage_booked_def dest: find_row_SomeD)
  moreover have "\<exists>after. bd_accounts db' = bd_accounts db \<or> bd_accounts db' = set_balance (ba_id account) after (bd_accounts db)"
    using b by (auto simp: usage_booked_def Let_def same_ledger_def split: if_splits dest!: post_ledgerD)
  then have "billed_tenants db' = billed_tenants db" by (elim exE disjE) (simp_all add: billed_tenants_def)
  ultimately show ?thesis
    using usage_booked_frame(1,2) [OF b] assms(1) by (auto simp: extends_def same_tables_def booked_for_def)
qed

lemma charge_Inr:
  assumes "recordUsageCharge lib db c i j = (db', Inr x)"
  shows "db' = db \<and> (uc_tenantId c \<in> billed_tenants db \<longrightarrow> list_ex (same_usage c) (bd_usage db)) \<or>
    (\<exists>account cost stored. column lib (uc_theoreticalCost c) = Inr cost \<and> usage_booked lib db c i j account cost stored db')"
proof (cases "find_row ba_tenantId (uc_tenantId c) (bd_accounts db)")
  case None
  then have "uc_tenantId c \<notin> billed_tenants db" by (auto simp: find_row_None_iff billed_tenants_def)
  moreover have "db' = db"
    using assms None by (auto simp: recordUsageCharge_def and_then_def billing_transaction_of_def split: sum.splits)
  ultimately show ?thesis by simp
next
  case (Some account)
  show ?thesis
  proof (cases "list_ex (same_usage c) (bd_usage db)")
    case True
    then have "db' = db"
      using assms Some by (auto simp: recordUsageCharge_def and_then_def billing_transaction_of_def split: sum.splits)
    then show ?thesis using True by simp
  next
    case False
    have "\<exists>cost stored. column lib (uc_theoreticalCost c) = Inr cost \<and> usage_booked lib db c i j account cost stored db'"
      using assms unfolding recordUsageCharge_def billing_transaction_iff Some option.case Let_def if_not_P [OF False]
    proof (elim and_then_InrE, goal_cases)
      case (1 u cost stored db2)
      then have "usage_booked lib db c i j account cost stored db'"
        using Some False by (auto simp: usage_booked_def Let_def map_sum_fst_Inr split: if_splits intro!: exI)
      then show ?case using 1 by blast
    qed
    then show ?thesis by blast
  qed
qed

lemma charge_extends:
  assumes "recordUsageCharge lib db c i j = (db', Inr x)"
  shows "extends (booked_for lib c) db db' \<and> (uc_tenantId c \<in> billed_tenants db \<longrightarrow> (\<exists>r \<in> set (bd_usage db'). same_usage c r))"
proof -
  consider "db' = db" "uc_tenantId c \<in> billed_tenants db \<longrightarrow> list_ex (same_usage c) (bd_usage db)"
    | account cost stored where "column lib (uc_theoreticalCost c) = Inr cost" "usage_booked lib db c i j account cost stored db'"
    using charge_Inr [OF assms] by blast
  then show ?thesis
  proof cases
    case 2
    have "same_usage c (new_usage i (ba_id account) c cost stored)" by (simp add: same_usage_def new_usage_def)
    with booked_extends [OF 2] show ?thesis by blast
  qed (simp add: list_ex_iff)
qed

section \<open>The charges of a minute\<close>

lemma run_charges_extends:
  assumes o: "others_record meanwhile"
  shows "run_charges lib meanwhile fresh charges db = (db', Inr ()) \<Longrightarrow>
    extends (\<lambda>r. recorded_by_others meanwhile r \<or> (\<exists>c. Inr (Some c) \<in> set charges \<and> booked_for lib c r)) db db' \<and>
    (\<forall>e. Inl e \<notin> set charges) \<and>
    (\<forall>c. Inr (Some c) \<in> set charges \<longrightarrow> uc_tenantId c \<in> billed_tenants db \<longrightarrow> (\<exists>r \<in> set (bd_usage db'). same_usage c r))"
proof (induction charges arbitrary: db)
  case (Cons charge charges)
  consider (skip) "charge = Inr None" "run_charges lib meanwhile fresh charges db = (db', Inr ())"
    | (charged) c d x where "charge = Inr (Some c)" "run_charges lib meanwhile fresh charges d = (db', Inr ())"
        "recordUsageCharge lib (meanwhile (uc_resourceId c) db) c (fst (fresh (uc_resourceId c))) (snd (fresh (uc_resourceId c))) = (d, Inr x)"
    using Cons.prems by (auto split: sum.splits option.splits prod.splits)
  then show ?case
  proof cases
    case skip
    from Cons.IH [OF skip(2)] skip(1) show ?thesis by (auto elim!: extends_mono)
  next
    case charged
    let ?P = "\<lambda>r. recorded_by_others meanwhile r \<or> (\<exists>c. Inr (Some c) \<in> set (charge # charges) \<and> booked_for lib c r)"
    have 1: "extends ?P db (meanwhile (uc_resourceId c) db)" by (rule extends_mono [OF others_extend [OF o]]) simp
    have 2: "extends ?P (meanwhile (uc_resourceId c) db) d"
      by (rule extends_mono [OF conjunct1 [OF charge_extends [OF charged(3)]]]) (use charged(1) in auto)
    have 3: "extends ?P d db'" by (rule extends_mono [OF conjunct1 [OF Cons.IH [OF charged(2)]]]) auto
    have tenants: "billed_tenants db \<subseteq> billed_tenants (meanwhile (uc_resourceId c) db)" "billed_tenants db \<subseteq> billed_tenants d"
      using 1 2 by (auto simp: extends_def)
    have "\<exists>r \<in> set (bd_usage db'). same_usage c r" if "uc_tenantId c \<in> billed_tenants db"
      using charge_extends [OF charged(3)] tenants(1) that 3 by (auto simp: extends_def)
    moreover have "\<exists>r \<in> set (bd_usage db'). same_usage c' r" if "Inr (Some c') \<in> set charges" "uc_tenantId c' \<in> billed_tenants db" for c'
      using Cons.IH [OF charged(2)] tenants(2) that by blast
    ultimately show ?thesis
      using extends_trans [OF 1 extends_trans [OF 2 3]] Cons.IH [OF charged(2)] charged(1) by auto
  qed
qed simp

lemma metered_replicas_counted: "metered_replicas app deployed funded = counted_replicas app deployed funded"
  by (auto simp: metered_replicas_def counted_replicas_def billedReplicaCount_def effectiveReplicaCount_def split: option.split)

lemma app_charge_booked:
  assumes c: "app_charge lib json_parse accounts price start (start + 60000) app = Inr (Some c)" and r: "booked_for lib c r"
  shows "app_record lib json_parse price start app r"
proof -
  obtain account deployed where "deployed_allocation lib json_parse app = Inr deployed"
    and cost: "uc_theoreticalCost c = computeMinuteCost lib (counted_replicas app deployed (0 < ba_balance (account :: billing_account)))
           (case deployed of None \<Rightarrow> ap_cpu app | Some d \<Rightarrow> al_cpu d) (case deployed of None \<Rightarrow> ap_memoryBytes app | Some d \<Rightarrow> al_memoryBytes d)
           (case deployed of None \<Rightarrow> ap_gpu app | Some d \<Rightarrow> al_gpu d) price" (is "_ = ?cost (0 < ba_balance account)")
    and fields: "uc_tenantId c = ap_tenantId app" "uc_resourceType c = ''SingleApp''" "uc_resourceId c = ap_id app" "\<not> uc_allowDebt c"
      "uc_periodStart c = start" "uc_periodEnd c = start + 60000" "uc_priceListVersionId c = pl_id price"
    using c by (auto simp: app_charge_def and_then_Inr_iff metered_replicas_counted split: option.splits)
  moreover obtain owner where "ba_id (owner :: billing_account) = ur_accountId r" "ba_tenantId owner = uc_tenantId c"
    "column lib (uc_theoreticalCost c) = Inr (ur_cost r)" "column lib (charge_of c owner) = Inr (ur_chargedCredits r)"
    and "ur_resourceType r = uc_resourceType c" "ur_resourceId r = uc_resourceId c" "ur_periodStart r = uc_periodStart c"
      "ur_periodEnd r = uc_periodEnd c" "ur_priceListVersionId r = uc_priceListVersionId c"
    using r by (auto simp: booked_for_def new_usage_def)
  ultimately show ?thesis
    unfolding app_record_def record_for_def Let_def
    by (intro conjI exI [of _ deployed] exI [of _ "0 < ba_balance account"] exI [of _ owner]) (simp_all add: charge_of_def flip: cost)
qed

lemma volume_charge_booked:
  "volume_charge lib accounts price start (start + 60000) volume = Inr (Some c) \<Longrightarrow> booked_for lib c r \<Longrightarrow> volume_record lib price start volume r"
  by (auto simp: volume_charge_def booked_for_def new_usage_def record_for_def charge_of_def volume_record_def
      storageMinuteCost_def Let_def split: option.splits)

lemma reconcilePeriod_extends:
  assumes o: "others_record meanwhile"
    and r: "reconcilePeriod lib json_parse meanwhile fresh apps volumes db start (start + 60000) = (db', Inr ())"
  shows "\<exists>price. assertActivePriceList db start = Inr price \<and>
    extends (\<lambda>r. recorded_by_others meanwhile r \<or> record_of_minute lib json_parse (apps, volumes) price start r) db db' \<and>
    minute_complete (billed_tenants db) (apps, volumes) start db'"
proof -
  obtain price where price: "assertActivePriceList db start = Inr price"
    and run: "run_charges lib meanwhile fresh (period_charges lib json_parse (bd_accounts db) price start (start + 60000) apps volumes) db = (db', Inr ())"
    using r by (auto simp: reconcilePeriod_def split: sum.splits)
  let ?charges = "period_charges lib json_parse (bd_accounts db) price start (start + 60000) apps volumes"
  note R = run_charges_extends [OF o run]
  have "record_of_minute lib json_parse (apps, volumes) price start r"
    if "Inr (Some c) \<in> set ?charges" "booked_for lib c r" for c r
    using that by (auto simp: period_charges_def record_of_minute_def dest!: sym [of "Inr _"] intro: app_charge_booked volume_charge_booked)
  then have "extends (\<lambda>r. recorded_by_others meanwhile r \<or> record_of_minute lib json_parse (apps, volumes) price start r) db db'"
    by (intro extends_mono [OF conjunct1 [OF R]]) blast
  moreover have "\<exists>r \<in> set (bd_usage db'). record_for ''SingleApp'' (ap_id app) start r"
    if a: "app \<in> set apps" "ap_tenantId app \<in> billed_tenants db" for app
  proof -
    obtain account where "find_row ba_tenantId (ap_tenantId app) (bd_accounts db) = Some account"
      using a(2) by (cases "find_row ba_tenantId (ap_tenantId app) (bd_accounts db)") (auto simp: find_row_None_iff billed_tenants_def)
    moreover have in_charges: "app_charge lib json_parse (bd_accounts db) price start (start + 60000) app \<in> set ?charges"
      using a(1) by (simp add: period_charges_def)
    ultimately obtain c where c: "app_charge lib json_parse (bd_accounts db) price start (start + 60000) app = Inr (Some c)"
      "uc_tenantId c = ap_tenantId app" "uc_resourceType c = ''SingleApp''" "uc_resourceId c = ap_id app" "uc_periodStart c = start"
      "uc_periodEnd c = start + 60000"
      using R by (cases "deployed_allocation lib json_parse app") (auto simp: app_charge_def)
    then show ?thesis using R in_charges a(2) by (fastforce simp: same_usage_def record_for_def)
  qed
  moreover have "\<exists>r \<in> set (bd_usage db'). record_for ''Volume'' (bv_id volume) start r"
    if v: "volume \<in> set volumes" "bv_tenantId volume \<in> billed_tenants db" for volume
  proof -
    obtain account where "find_row ba_tenantId (bv_tenantId volume) (bd_accounts db) = Some account"
      using v(2) by (cases "find_row ba_tenantId (bv_tenantId volume) (bd_accounts db)") (auto simp: find_row_None_iff billed_tenants_def)
    then obtain c where c: "volume_charge lib (bd_accounts db) price start (start + 60000) volume = Inr (Some c)"
      "uc_tenantId c = bv_tenantId volume" "uc_resourceType c = ''Volume''" "uc_resourceId c = bv_id volume" "uc_periodStart c = start"
      "uc_periodEnd c = start + 60000"
      by (auto simp: volume_charge_def)
    moreover have "volume_charge lib (bd_accounts db) price start (start + 60000) volume \<in> set ?charges"
      using v(1) by (simp add: period_charges_def)
    ultimately show ?thesis using R v(2) by (fastforce simp: same_usage_def record_for_def)
  qed
  ultimately show ?thesis using price by (auto simp: minute_complete_def)
qed

section \<open>The minutes of a pass\<close>

lemma assertActive_cong: "bd_prices db' = bd_prices db \<Longrightarrow> assertActivePriceList db' t = assertActivePriceList db t"
  by (simp add: assertActivePriceList_def getActivePriceList_def)

text \<open>\<open>minutes_recorded\<close> is what the minutes \<open>starts\<close> leave: each has a price list in force and is complete, and
  every new record is one of them.\<close>

definition minutes_recorded ::
    "decimal_lib \<Rightarrow> (string \<Rightarrow> value_json option) \<Rightarrow> (uuid \<Rightarrow> billing_db \<Rightarrow> billing_db) \<Rightarrow>
     (millis \<Rightarrow> billing_app list \<times> billing_volume list) \<Rightarrow> millis set \<Rightarrow> billing_db \<Rightarrow> billing_db \<Rightarrow> bool" where
  "minutes_recorded lib json_parse meanwhile world starts db db' \<longleftrightarrow>
     (\<forall>start \<in> starts. (\<exists>price. assertActivePriceList db start = Inr price) \<and> minute_complete (billed_tenants db) (world start) start db') \<and>
     extends (\<lambda>r. recorded_by_others meanwhile r \<or>
       (\<exists>start \<in> starts. \<exists>price. assertActivePriceList db start = Inr price \<and> record_of_minute lib json_parse (world start) price start r)) db db'"

lemma minute_complete_mono: "minute_complete T w start db \<Longrightarrow> S \<subseteq> T \<Longrightarrow> minute_complete S w start db"
  unfolding minute_complete_def by blast

lemma run_periods_recorded:
  assumes o: "others_record meanwhile"
  shows "run_periods lib json_parse meanwhile fresh world (map (\<lambda>s. (s, s + 60000)) starts) db = (db', Inr ()) \<Longrightarrow>
    minutes_recorded lib json_parse meanwhile world (set starts) db db'"
proof (induction starts arbitrary: db)
  case (Cons start starts)
  obtain d where p: "reconcilePeriod lib json_parse meanwhile (fresh start) (fst (world start)) (snd (world start)) db start (start + 60000) = (d, Inr ())"
    and rest: "run_periods lib json_parse meanwhile fresh world (map (\<lambda>s. (s, s + 60000)) starts) (d\<lparr>bd_worker := Some (start + 60000)\<rparr>) = (db', Inr ())"
    using Cons.prems by (auto split: prod.splits sum.splits)
  obtain price where price: "assertActivePriceList db start = Inr price"
    and e1: "extends (\<lambda>r. recorded_by_others meanwhile r \<or> record_of_minute lib json_parse (world start) price start r) db d"
    and m1: "minute_complete (billed_tenants db) (world start) start d"
    using reconcilePeriod_extends [OF o p] by auto
  let ?d = "d\<lparr>bd_worker := Some (start + 60000)\<rparr>"
  have same: "assertActivePriceList ?d t = assertActivePriceList db t" "billed_tenants db \<subseteq> billed_tenants ?d" for t
    using e1 by (auto simp: extends_def billed_tenants_def intro!: assertActive_cong)
  note IH = Cons.IH [OF rest, unfolded minutes_recorded_def same(1)]
  let ?P = "\<lambda>r. recorded_by_others meanwhile r \<or> (\<exists>s \<in> set (start # starts). \<exists>price.
      assertActivePriceList db s = Inr price \<and> record_of_minute lib json_parse (world s) price s r)"
  have "extends ?P db ?d" unfolding extends_worker by (rule extends_mono [OF e1]) (use price in auto)
  moreover have e2: "extends ?P ?d db'" by (rule extends_mono [OF conjunct2 [OF IH]]) auto
  ultimately have "extends ?P db db'" by (rule extends_trans)
  moreover have "minute_complete (billed_tenants db) (world start) start ?d" using m1 by (simp add: minute_complete_def)
  then have "minute_complete (billed_tenants db) (world start) start db'" using e2 by (rule minute_complete_extends)
  moreover have "minute_complete (billed_tenants db) (world s) s db'" if "s \<in> set starts" for s
    using IH that same(2) by (blast intro: minute_complete_mono)
  ultimately show ?case using IH price by (simp add: minutes_recorded_def)
qed (simp add: minutes_recorded_def)

end
