(* ===== verification/BillingProperties.thy ===== *)
theory BillingProperties
  imports BillingCatchUp
begin

text \<open>
  What billing guarantees: the ledger explains every balance, usage is charged once, a voucher credits
  once, charges without debt stop at zero, a request of the bot costs at most its reservation, and the
  worker charges consecutive minutes.
\<close>

section \<open>Charges that stop at zero\<close>

text \<open>The requests that may take a balance below zero: corrections, and storage, which is charged as debt.\<close>

fun may_overdraw :: "billing_request \<Rightarrow> bool" where
  "may_overdraw (CorrectionRequest tenantId amount reference source) \<longleftrightarrow> True"
| "may_overdraw (RecordCharge c) \<longleftrightarrow> uc_allowDebt c"
| "may_overdraw (RecordServiceCharge c) \<longleftrightarrow> uc_allowDebt c"
| "may_overdraw _ \<longleftrightarrow> False"

definition covered :: "decimal_lib \<Rightarrow> billing_db \<Rightarrow> billing_db \<Rightarrow> bool" where
  "covered lib db db' \<longleftrightarrow>
     bd_accounts db' = bd_accounts db \<or>
     (\<exists>account x after. account \<in> set (bd_accounts db) \<and> column lib (dl_round lib x) = Inr after \<and>
       (0 \<le> ba_balance account \<longrightarrow> 0 \<le> x) \<and> bd_accounts db' = set_balance (ba_id account) after (bd_accounts db))"

lemma covered_refl [simp]: "covered lib db db"
  by (simp add: covered_def)

lemma same_ledger_covered: "same_ledger db db' \<Longrightarrow> covered lib db db'"
  by (simp add: same_ledger_def covered_def)

lemma post_covered:
  assumes "post_ledger lib db1 account j type1 amount (dl_round lib x) reference source = Inr (db2, t)" "same_ledger db2 db'"
    and "account \<in> set (bd_accounts db)" "bd_accounts db1 = bd_accounts db" "0 \<le> ba_balance account \<Longrightarrow> 0 \<le> x"
  shows "covered lib db db'"
  using post_ledgerD [OF assms(1)] assms(2-) by (fastforce simp: covered_def same_ledger_def)

lemma mutation_covered:
  assumes "applyBalanceMutation lib db account j type1 amount reference source action res = Inr (db', t)"
    and "account \<in> set (bd_accounts db)" "type1 \<noteq> UsageCharge" "type1 \<noteq> Correction"
  shows "covered lib db db'"
proof -
  obtain db1 where p: "post_ledger lib db account j type1 (normalizeLedgerAmount type1 amount)
      (dl_round lib (ba_balance account + normalizeLedgerAmount type1 amount)) reference source = Inr (db1, t)" "same_ledger db1 db'"
    using applyBalanceMutationD [OF assms(1)] by blast
  show ?thesis
    by (rule post_covered [OF p assms(2)]) (use normalize_sign(1) [OF assms(3,4), of amount] in auto)
qed

lemma mutateBalance_covered:
  assumes "type1 \<noteq> UsageCharge" "type1 \<noteq> Correction"
  shows "covered lib db (fst (mutateBalance lib db tenantId type1 amount reference source action j))"
proof -
  have "covered lib db db'"
    if "applyBalanceMutation lib db account j type1 amt reference source action res = Inr (db', t)" "lockAccount db tenantId = Inr account"
    for account amt res db' t
    using mutation_covered [OF that(1) _ assms] lockAccountD [OF that(2)] by blast
  then show ?thesis
    unfolding mutateBalance_def Let_def
    by (auto simp: and_then_Inr_iff split: if_splits intro!: transaction_cases [where P = "covered lib db"])
qed

lemma usage_booked_covered:
  assumes b: "usage_booked lib db c i j account cost stored db'" and c: "\<not> uc_allowDebt c"
  shows "covered lib db db'"
proof -
  note B = b [unfolded usage_booked_def Let_def]
  have account: "account \<in> set (bd_accounts db)" using B account_in by blast
  show ?thesis
  proof (cases "0 < charge_of c account")
    case True
    then obtain reference db2 t where p: "post_ledger lib (db\<lparr>bd_usage := bd_usage db @ [new_usage i (ba_id account) c cost stored]\<rparr>) account j
        UsageCharge (- charge_of c account) (dl_round lib (ba_balance account - charge_of c account)) reference None = Inr (db2, t)" "same_ledger db2 db'"
      using B by auto
    have "charge_of c account \<le> ba_balance account" using True c clamp_bounds(3) by (simp add: charge_of_def)
    then show ?thesis by (intro post_covered [OF p account]) auto
  qed (use B in \<open>auto simp: same_ledger_def covered_def\<close>)
qed

lemma bot_booked_covered:
  assumes b: "bot_booked lib db now input i j account r p u db'"
  shows "covered lib db db'"
proof -
  note B = b [unfolded bot_booked_def Let_def]
  let ?charged = "settled_charge (costForUsage lib p (se_tokens input)) (br_reservedCredits r) (ba_balance account)"
  obtain reference db2 t where p: "post_ledger lib (db\<lparr>bd_botUsage := bd_botUsage db @ [u]\<rparr>) account j UsageCharge (- ?charged)
      (dl_round lib (ba_balance account - ?charged)) reference None = Inr (db2, t)" "same_ledger db2 db'" using B by blast
  show ?thesis
  proof (rule post_covered [OF p])
    show "account \<in> set (bd_accounts db)" using B account_in by blast
    show "0 \<le> ba_balance account - ?charged" if "0 \<le> ba_balance account"
      using settled_charge_bounds(4) [of "costForUsage lib p (se_tokens input)" "br_reservedCredits r" "ba_balance account"] that by simp
  qed simp_all
qed

lemma perform_covered:
  assumes r: "billing_request_ok r" "\<not> may_overdraw r"
  shows "covered lib db (perform lib sha now i j r db)"
proof (cases r)
  case (RedeemVoucher tenantId code1)
  have "covered lib db db'" if b: "voucher_booked lib db now tenantId v account t db'" for v account t db'
  proof -
    obtain db1 j action res where m: "applyBalanceMutation lib db account j VoucherRedeem (vo_valueCredits v) (Some (''voucher:'' @ vo_id v)) None
        action res = Inr (db1, t)" and db': "db' = update_voucher db1 (vo_id v) (redeemed_voucher now (ba_id account))"
      and account: "account \<in> set (bd_accounts db)"
      using b account_in unfolding voucher_booked_def by blast
    have "covered lib db db1" by (rule mutation_covered [OF m account]) simp_all
    then show ?thesis by (simp add: covered_def db' update_voucher_def)
  qed
  then show ?thesis using redeemVoucher_booked [of lib sha db now tenantId code1 j] RedeemVoucher by auto
next
  case (RecordCharge c)
  then show ?thesis using recordUsageCharge_booked [of lib db c i j] usage_booked_covered r by auto
next
  case (RecordServiceCharge c)
  then show ?thesis using service_recordUsageCharge_booked [of c lib db i j] usage_booked_covered r by auto
next
  case (SettleRequest input)
  then show ?thesis using settle_booked [of lib db now input i j] bot_booked_covered by auto
qed (use r in \<open>auto simp: payment_def refund_def intro!: mutateBalance_covered same_ledger_covered [OF createVoucher_same]
    same_ledger_covered [OF disableVoucher_same] same_ledger_covered [OF createPriceList_same] same_ledger_covered [OF createPrice_same]
    same_ledger_covered [OF reserve_same] same_ledger_covered [OF renew_same] same_ledger_covered [OF release_same]\<close>)

lemma covered_nonneg:
  assumes lib: "decimal_lib_ok lib" and cov: "covered lib db db'" and dist: "distinct (map ba_id (bd_accounts db))"
    and a: "find_row ba_id k (bd_accounts db) = Some a" "0 \<le> ba_balance a" and a': "find_row ba_id k (bd_accounts db') = Some a'"
  shows "0 \<le> ba_balance a'"
proof (cases "bd_accounts db' = bd_accounts db")
  case False
  then obtain account x after where c: "account \<in> set (bd_accounts db)" "column lib (dl_round lib x) = Inr after"
      "0 \<le> ba_balance account \<Longrightarrow> 0 \<le> x" "bd_accounts db' = set_balance (ba_id account) after (bd_accounts db)"
    using cov by (auto simp: covered_def)
  have "a' \<in> set (set_balance (ba_id account) after (bd_accounts db))" "ba_id a' = k" using find_row_SomeD [OF a'] c(4) by auto
  then show ?thesis
  proof (elim in_set_balance)
    assume "ba_id a' = ba_id account" "ba_balance a' = after" "ba_id a' = k"
    then have "account = a" using find_row_SomeD [OF a(1)] distinct_key_eq [OF dist c(1)] by auto
    then show ?thesis using c(3) a(2) column_nonneg [OF lib round_nonneg [OF lib] c(2)] \<open>ba_balance a' = after\<close> by simp
  next
    assume "a' \<in> set (bd_accounts db)" "ba_id a' = k"
    then have "a' = a" using find_row_SomeD [OF a(1)] distinct_key_eq [OF dist] by auto
    then show ?thesis using a(2) by simp
  qed
qed (use a a' in simp)

section \<open>Settlement\<close>

lemma settle_success:
  assumes lib: "decimal_lib_ok lib" and ok: "billing_ok db" and s: "settle_bot lib db now input i j = (db', Inr u)"
  shows "\<exists>r \<in> set (bd_reservations db). br_id r = se_reservationId input \<and> br_requestId r = se_requestId input \<and> now < br_expiresAt r \<and>
    0 \<le> bu_chargedCredits u \<and> bu_chargedCredits u \<le> br_reservedCredits r \<and> r \<notin> set (bd_reservations db') \<and>
    se_requestId input \<notin> bu_requestId ` set (bd_botUsage db)"
proof -
  obtain account r p where b: "bot_booked lib db now input i j account r p u db'" using settle_Inr [OF s] by blast
  note B = b [unfolded bot_booked_def Let_def]
  let ?cost = "costForUsage lib p (se_tokens input)"
  let ?charged = "settled_charge ?cost (br_reservedCredits r) (ba_balance account)"
  have v: "r \<in> set (bd_reservations db)" "br_requestId r = se_requestId input" "br_id r = se_reservationId input"
    "br_tenantId r = se_tenantId input" "now < br_expiresAt r" "p \<in> set (bd_botPrices db)"
    using B valid_reservationD [of db now account input r p] by auto
  have r: "is_credits (br_reservedCredits r)" "0 \<le> br_reservedCredits r" and cost: "0 \<le> ?cost"
    using v(1,6) ok costForUsage_nonneg [OF lib] by (auto simp: billing_ok_def billing_tables_ok_def)
  have "is_credits (ba_balance account)" using B account_in ok account_credits unfolding billing_ok_def by blast
  moreover have "is_credits ?cost" using lib_places(1) [OF lib] by (simp add: costForUsage_def Let_def)
  ultimately have "is_credits ?charged" using r(1) by (simp add: settled_charge_def min_def max_def)
  then have "bu_chargedCredits u = ?charged" using column_exact [OF lib] B by blast
  moreover have "r \<notin> set (bd_reservations db')" using B v(2,4) by (auto simp: bill_audit_def)
  ultimately show ?thesis
    using v settled_charge_bounds(1) [OF cost r(2)] settled_charge_bounds(2) B by (auto simp: find_row_None_iff)
qed

section \<open>The worker\<close>

definition billing_app_ok :: "billing_app \<Rightarrow> bool" where
  "billing_app_ok app \<longleftrightarrow> 0 \<le> ap_cpu app \<and> 0 \<le> ap_memoryBytes app \<and> 0 \<le> ap_gpu app"

lemma allocation_ofD: "allocation_of lib v = Some a \<Longrightarrow> 0 \<le> al_cpu a \<and> 0 \<le> al_memoryBytes a \<and> 0 \<le> al_gpu a"
  by (auto simp: allocation_of_def natural_number_def guard_def Let_def split: bind_splits if_splits)

lemma deployedD: "deployedComputeAllocation lib json_parse stack i = Inr (Some a) \<Longrightarrow> 0 \<le> al_cpu a \<and> 0 \<le> al_memoryBytes a \<and> 0 \<le> al_gpu a"
  by (auto simp: deployedComputeAllocation_def split: option.splits list.splits dest: allocation_ofD)

lemma deployed_allocationD:
  "deployed_allocation lib json_parse app = Inr (Some a) \<Longrightarrow> 0 \<le> al_cpu a \<and> 0 \<le> al_memoryBytes a \<and> 0 \<le> al_gpu a"
  by (auto simp: deployed_allocation_def split: option.splits if_splits dest: deployedD)

lemma computeMinuteCost_nonneg:
  "decimal_lib_ok lib \<Longrightarrow> price_list_ok p \<Longrightarrow> 0 \<le> cpu \<Longrightarrow> 0 \<le> memory \<Longrightarrow> 0 \<le> gpu \<Longrightarrow> 0 \<le> computeMinuteCost lib n cpu memory gpu p"
  unfolding computeMinuteCost_def Let_def price_list_ok_def
  by (cases "n \<le> 0") (auto intro!: round_nonneg divide_nonneg_nonneg add_nonneg_nonneg mult_nonneg_nonneg)

lemma storageMinuteCost_nonneg: "decimal_lib_ok lib \<Longrightarrow> price_list_ok p \<Longrightarrow> 0 \<le> size1 \<Longrightarrow> 0 \<le> storageMinuteCost lib size1 p"
  unfolding storageMinuteCost_def Let_def price_list_ok_def
  by (auto intro!: round_nonneg divide_nonneg_nonneg mult_nonneg_nonneg)

lemma period_charges_nonneg:
  assumes "decimal_lib_ok lib" "price_list_ok price" "list_all billing_app_ok apps" "list_all (\<lambda>v. 0 \<le> bv_sizeBytes v) volumes"
    and "Inr (Some c) \<in> set (period_charges lib json_parse accounts price s e apps volumes)"
  shows "0 \<le> uc_theoreticalCost c"
proof -
  have app: "0 \<le> uc_theoreticalCost c" if "app_charge lib json_parse accounts price s e app = Inr (Some c)" "billing_app_ok app" for app
    using that by (auto simp: app_charge_def billing_app_ok_def and_then_Inr_iff split: option.splits
        intro!: computeMinuteCost_nonneg assms dest: deployed_allocationD)
  have vol: "0 \<le> uc_theoreticalCost c" if "volume_charge lib accounts price s e v = Inr (Some c)" "0 \<le> bv_sizeBytes v" for v
    using that by (auto simp: volume_charge_def split: option.splits intro!: storageMinuteCost_nonneg assms)
  show ?thesis using assms(3-) app vol by (auto simp: period_charges_def list_all_iff dest!: sym [of "Inr _"])
qed

lemma charge_run: "billing_run lib sha db \<Longrightarrow> 0 \<le> uc_theoreticalCost c \<Longrightarrow> billing_run lib sha (fst (recordUsageCharge lib db c i j))"
  using billing_run.request [of lib sha db "RecordCharge c" 0 i j] by simp

lemma run_charges_run:
  assumes "\<And>k d. billing_run lib sha d \<Longrightarrow> billing_run lib sha (meanwhile k d)"
    and "\<And>c. Inr (Some c) \<in> set charges \<Longrightarrow> 0 \<le> uc_theoreticalCost c"
  shows "billing_run lib sha db \<Longrightarrow> billing_run lib sha (fst (run_charges lib meanwhile fresh charges db))"
  using assms(2)
proof (induction charges arbitrary: db)
  case (Cons charge charges)
  have step: "billing_run lib sha (fst (recordUsageCharge lib (meanwhile k db) c i j))" if "charge = Inr (Some c)" for c k i j
    using that Cons.prems assms(1) by (intro charge_run) auto
  show ?case using Cons.prems Cons.IH step
    by (auto split: sum.split option.split prod.split) (metis fst_conv)+
qed simp

lemma reconcilePeriod_run:
  assumes lib: "decimal_lib_ok lib" and others: "\<And>k d. billing_run lib sha d \<Longrightarrow> billing_run lib sha (meanwhile k d)"
    and apps: "list_all billing_app_ok apps" "list_all (\<lambda>v. 0 \<le> bv_sizeBytes v) volumes" and run: "billing_run lib sha db"
  shows "billing_run lib sha (fst (reconcilePeriod lib json_parse meanwhile fresh apps volumes db s e))"
proof (cases "assertActivePriceList db s")
  case (Inr price)
  then have "price \<in> set (bd_prices db)"
    using head_sort_desc_greatest by (fastforce simp: assertActivePriceList_def getActivePriceList_def split: option.splits)
  then have "price_list_ok price" using billing_run_ok [OF lib run] by (simp add: billing_ok_def billing_tables_ok_def)
  then show ?thesis using Inr run_charges_run [OF others period_charges_nonneg [OF lib _ apps] run] by (simp add: reconcilePeriod_def)
qed (use run in \<open>simp add: reconcilePeriod_def\<close>)

lemma run_periods_run:
  assumes lib: "decimal_lib_ok lib" and others: "\<And>k d. billing_run lib sha d \<Longrightarrow> billing_run lib sha (meanwhile k d)"
    and world: "\<And>t. list_all billing_app_ok (fst (world t))" "\<And>t. list_all (\<lambda>v. 0 \<le> bv_sizeBytes v) (snd (world t))"
  shows "billing_run lib sha db \<Longrightarrow> billing_run lib sha (fst (run_periods lib json_parse meanwhile fresh world periods db))"
proof (induction periods arbitrary: db)
  case (Cons period periods)
  have checkpoint: "billing_run lib sha (d\<lparr>bd_worker := Some (snd period)\<rparr>)" if "billing_run lib sha d" for d
    using billing_run.others [OF that, of "Some (snd period)" "bd_tenants d"] by simp
  have "billing_run lib sha (fst (reconcilePeriod lib json_parse meanwhile (fresh (fst period)) (fst (world (fst period))) (snd (world (fst period))) db
      (fst period) (snd period)))"
    by (rule reconcilePeriod_run [OF lib others world Cons.prems])
  then show ?case using Cons.IH [OF checkpoint] by (auto split: prod.split sum.split)
qed simp




lemma reconcile_fst:
  "fst (reconcileClosedPeriods lib json_parse meanwhile fresh world False db now) =
     fst (run_periods lib json_parse meanwhile fresh world (reconciliationPeriods now (bd_worker db) MAX_BACKFILL_PERIODS) db)"
  "fst (reconcileClosedPeriods lib json_parse meanwhile fresh world True db now) = db"
  by (simp_all add: reconcileClosedPeriods_def Let_def split: prod.split sum.split)





section \<open>Properties\<close>

text \<open>
  C13. The ledger explains every balance: in every database the service can reach, the entries of an account
  run from zero to its balance, each starting where the one before it ended; amounts and balances are whole
  multiples of a hundred-millionth credit, and amounts have the sign of their type. As long as the balance
  before and the amount are below ten thousand million credits, an entry other than a usage charge is exactly
  the difference of its two balances; a usage charge, whose digits beyond the eighth are rounded in the amount
  and in the balance separately, is so within one hundred-millionth of a credit. And what was debited for
  usage is exactly what the usage records say was charged.
\<close>

theorem ledger_explains_balances: "decimal_lib_ok lib \<Longrightarrow> billing_run lib sha db \<Longrightarrow> ledger_ok db"
  using billing_run_ok by (simp add: billing_ok_def)

text \<open>The ledger of a tenant that paid 5 credits and got 2 back by a correction.\<close>

definition paid_billing :: billing_db where
  "paid_billing =
     perform exact_decimals (\<lambda>s. s) 0 ''x'' ''t2'' (CorrectionRequest ''acme'' (- 2) None None)
       (perform exact_decimals (\<lambda>s. s) 0 ''x'' ''t1'' (PaymentRequest ''acme'' 5 None None) (open_account ''a'' ''acme'' empty_billing))"

lemma paid_billing_run: "billing_run exact_decimals (\<lambda>s. s) paid_billing"
  unfolding paid_billing_def
  by (intro billing_run.request billing_run.tenant billing_run.start)
    (simp_all add: empty_billing_def is_credits_def is_integer_def)

lemma ledger_explains_balances_witness: "ledger_ok paid_billing"
  by (rule ledger_explains_balances [OF exact_decimals_ok paid_billing_run])

text \<open>
  C15. Usage is charged once: in every reachable database no minute of a resource has two usage records, no
  request of the bot has two, and the ledger debits exactly the credits those records charge.
\<close>

theorem usage_is_charged_once:
  "decimal_lib_ok lib \<Longrightarrow> billing_run lib sha db \<Longrightarrow>
     distinct (map usage_key (bd_usage db)) \<and> distinct (map bu_requestId (bd_botUsage db)) \<and> debited db accountId = - metered db accountId"
  using billing_run_ok [of lib sha db] unfolding billing_ok_def usage_once_def ledger_ok_def by blast

text \<open>A volume charged for a minute it does not have the credits for.\<close>

definition storage_charge :: usage_charge where
  "storage_charge =
     \<lparr>uc_tenantId = ''acme'', uc_resourceType = ''Volume'', uc_resourceId = ''v'', uc_periodStart = 0, uc_periodEnd = 60000,
      uc_theoreticalCost = 4, uc_priceListVersionId = ''p'', uc_allowDebt = True\<rparr>"

definition charged_billing :: billing_db where
  "charged_billing = perform exact_decimals (\<lambda>s. s) 0 ''u'' ''t3'' (RecordCharge storage_charge) paid_billing"

lemma charged_billing_run: "billing_run exact_decimals (\<lambda>s. s) charged_billing"
  unfolding charged_billing_def by (intro billing_run.request paid_billing_run) (simp add: storage_charge_def)

lemma usage_is_charged_once_witness: "debited charged_billing ''a'' = - metered charged_billing ''a''"
  using usage_is_charged_once [OF exact_decimals_ok charged_billing_run] by blast

text \<open>
  C14. A voucher credits one account once, with its value: the ledger holds exactly one entry for a voucher
  that is redeemed, for the account it names, and none for any other voucher.
\<close>

theorem voucher_credits_once:
  "decimal_lib_ok lib \<Longrightarrow> billing_run lib sha db \<Longrightarrow> v \<in> set (bd_vouchers db) \<Longrightarrow>
     redemptions db (vo_id v) = (case vo_redeemedBillingAccountId v of None \<Rightarrow> [] | Some a \<Rightarrow> [(a, vo_valueCredits v)]) \<and>
     (vo_status v = ''Redeemed'' \<longleftrightarrow> vo_redeemedBillingAccountId v \<noteq> None)"
  using billing_run_ok [of lib sha db] unfolding billing_ok_def vouchers_once_def voucher_ok_def by blast

definition redeemed_billing :: billing_db where
  "redeemed_billing =
     perform exact_decimals (\<lambda>s. s) 0 ''x'' ''t4'' (RedeemVoucher ''acme'' ''RPV'')
       (perform exact_decimals (\<lambda>s. s) 0 ''w'' ''y'' (CreateVoucher 7 None ''RPV'') paid_billing)"

lemma redeemed_billing_run: "billing_run exact_decimals (\<lambda>s. s) redeemed_billing"
  unfolding redeemed_billing_def by (intro billing_run.request paid_billing_run) simp_all

definition sample_voucher :: voucher_row where
  "sample_voucher =
     \<lparr>vo_id = ''w'', vo_codeHash = ''RPV'', vo_valueCredits = 7, vo_status = ''Redeemed'', vo_expiresAt = None, vo_redeemedAt = Some 0,
      vo_redeemedBillingAccountId = Some ''a'', vo_disabledAt = None\<rparr>"

lemma sample_voucher_redeemed: "bd_vouchers redeemed_billing = [sample_voucher]"
  by code_simp

lemma voucher_credits_once_witness: "redemptions redeemed_billing ''w'' = [(''a'', 7)]"
  using voucher_credits_once [OF exact_decimals_ok redeemed_billing_run, of sample_voucher]
  by (simp add: sample_voucher_redeemed) (simp add: sample_voucher_def)

text \<open>
  C16. Only corrections and storage go into debt: any other request that starts from a balance that
  is not negative leaves one that is not negative, whatever it costs.
\<close>

theorem charges_stop_at_zero:
  "decimal_lib_ok lib \<Longrightarrow> billing_run lib sha db \<Longrightarrow> billing_request_ok r \<Longrightarrow> \<not> may_overdraw r \<Longrightarrow>
     find_row ba_id accountId (bd_accounts db) = Some a \<Longrightarrow> 0 \<le> ba_balance a \<Longrightarrow>
     find_row ba_id accountId (bd_accounts (perform lib sha now i j r db)) = Some a' \<Longrightarrow> 0 \<le> ba_balance a'"
  using covered_nonneg [OF _ perform_covered] billing_run_ok [of lib sha db] unfolding billing_ok_def ledger_ok_def by blast

definition compute_charge :: usage_charge where
  "compute_charge = storage_charge\<lparr>uc_resourceType := ''SingleApp'', uc_theoreticalCost := 10, uc_allowDebt := False\<rparr>"

lemma compute_charge_balances:
  "find_row ba_id ''a'' (bd_accounts paid_billing) =
     Some \<lparr>ba_id = ''a'', ba_tenantId = ''acme'', ba_balance = 3, ba_informationThreshold = 0\<rparr>"
  "find_row ba_id ''a'' (bd_accounts (perform exact_decimals (\<lambda>s. s) 0 ''u'' ''t3'' (RecordCharge compute_charge) paid_billing)) =
     Some \<lparr>ba_id = ''a'', ba_tenantId = ''acme'', ba_balance = 0, ba_informationThreshold = 0\<rparr>"
  by code_simp+

lemma charges_stop_at_zero_witness: "(0 :: rat) \<le> ba_balance \<lparr>ba_id = ''a'', ba_tenantId = ''acme'', ba_balance = 0, ba_informationThreshold = 0\<rparr>"
  by (rule charges_stop_at_zero [OF exact_decimals_ok paid_billing_run _ _ compute_charge_balances(1) _ compute_charge_balances(2)])
    (simp_all add: compute_charge_def storage_charge_def)

text \<open>
  C17. A request of the bot costs at most what was reserved for it: a settlement succeeds only with a live
  reservation of the execution that settles, charges between nothing and the reserved credits, uses the
  reservation up, and is the first of its request.
\<close>

theorem bot_settles_within_reservation:
  "decimal_lib_ok lib \<Longrightarrow> billing_run lib sha db \<Longrightarrow> settle_bot lib db now input i j = (db', Inr u) \<Longrightarrow>
     \<exists>r \<in> set (bd_reservations db). br_id r = se_reservationId input \<and> br_requestId r = se_requestId input \<and> now < br_expiresAt r \<and>
       0 \<le> bu_chargedCredits u \<and> bu_chargedCredits u \<le> br_reservedCredits r \<and> r \<notin> set (bd_reservations db') \<and>
       se_requestId input \<notin> bu_requestId ` set (bd_botUsage db)"
  using settle_success billing_run_ok by blast

definition sample_bot_price :: bot_price where
  "sample_bot_price =
     \<lparr>bp_id = ''p'', bp_provider = ''openai'', bp_model = ''m'', bp_effectiveFrom = 0, bp_createdAt = 0, bp_input = 20, bp_cachedInput = 5,
      bp_output = 100, bp_embedding = 1\<rparr>"

definition reserved_billing :: billing_db where
  "reserved_billing =
     perform exact_decimals (\<lambda>s. s) 1000 ''r'' ''y'' (ReserveCredits ''acme'' ''q'' ''openai'' ''m'')
       (perform exact_decimals (\<lambda>s. s) 0 ''p'' ''y'' (CreateBotPrice (Some 0) sample_bot_price) paid_billing)"

lemma reserved_billing_run: "billing_run exact_decimals (\<lambda>s. s) reserved_billing"
  unfolding reserved_billing_def by (intro billing_run.request paid_billing_run) simp_all

definition sample_settlement :: settle_input where
  "sample_settlement =
     \<lparr>se_tenantId = ''acme'', se_requestId = ''q'', se_reservationId = ''r'', se_provider = ''openai'', se_model = ''m'',
      se_tokens = \<lparr>tk_input = 1000, tk_cachedInput = 0, tk_output = 100, tk_embeddingInput = 0\<rparr>\<rparr>"

definition sample_bot_usage :: bot_usage where
  "sample_bot_usage =
     \<lparr>bu_id = ''u'', bu_accountId = ''a'', bu_tenantId = ''acme'', bu_requestId = ''q'', bu_theoreticalCost = 3 / 100, bu_chargedCredits = 3 / 100\<rparr>"

lemma sample_settled: "snd (settle_bot exact_decimals reserved_billing 2000 sample_settlement ''u'' ''t5'') = Inr sample_bot_usage"
  by code_simp

lemma bot_settles_within_reservation_witness:
  "\<exists>r. r \<in> set (bd_reservations reserved_billing) \<and> (3 / 100 :: rat) \<le> br_reservedCredits r"
  using bot_settles_within_reservation [OF exact_decimals_ok reserved_billing_run, of 2000 sample_settlement "''u''" "''t5''"
      "fst (settle_bot exact_decimals reserved_billing 2000 sample_settlement ''u'' ''t5'')" sample_bot_usage]
  by (auto simp: sample_settled prod_eq_iff sample_bot_usage_def)


text \<open>Two closed minutes of a volume of one gigabyte, at sixty credits for an hour.\<close>

definition priced_billing :: billing_db where
  "priced_billing = perform exact_decimals (\<lambda>s. s) 0 ''p'' ''y'' (CreatePriceList (Some 0) 1 1 60 1) paid_billing"

definition sample_world :: "millis \<Rightarrow> billing_app list \<times> billing_volume list" where
  "sample_world t = ([], [\<lparr>bv_id = ''v'', bv_tenantId = ''acme'', bv_sizeBytes = 1000000000\<rparr>])"

definition sample_pass :: "nat option billing_result" where
  "sample_pass = reconcileClosedPeriods exact_decimals (\<lambda>_. None) (\<lambda>k d. d) (\<lambda>t k. (''u'', ''t'')) sample_world False
     (priced_billing\<lparr>bd_worker := Some 0\<rparr>) 150000"




text \<open>
  C18. Reconciliation writes only what charges write: whatever the applications, the volumes and the work
  others do meanwhile, the database after a pass, complete or not, is one the service can reach.
\<close>

theorem reconciliation_keeps_the_books:
  assumes "decimal_lib_ok lib" "billing_run lib sha db" "\<And>k d. billing_run lib sha d \<Longrightarrow> billing_run lib sha (meanwhile k d)"
    and "\<And>t. list_all billing_app_ok (fst (world t))" "\<And>t. list_all (\<lambda>v. 0 \<le> bv_sizeBytes v) (snd (world t))"
  shows "billing_run lib sha (fst (reconcileClosedPeriods lib json_parse meanwhile fresh world running db now))"
  using run_periods_run [OF assms(1,3,4,5,2)] assms(2) by (cases running) (simp_all add: reconcile_fst)

lemma priced_billing_run: "billing_run exact_decimals (\<lambda>s. s) (priced_billing\<lparr>bd_worker := Some 0\<rparr>)"
  using billing_run.others [OF billing_run.request [OF paid_billing_run, of "CreatePriceList (Some 0) 1 1 60 1" 0 "''p''" "''y''"], of "Some 0"
      "bd_tenants priced_billing"]
  by (simp add: priced_billing_def)

lemma reconciliation_keeps_the_books_witness: "billing_run exact_decimals (\<lambda>s. s) (fst sample_pass)"
  unfolding sample_pass_def
  by (rule reconciliation_keeps_the_books [OF exact_decimals_ok priced_billing_run]) (simp_all add: sample_world_def)

end
