(* ===== verification/Tenancy.thy ===== *)
theory Tenancy
  imports Table JsStrings
begin

text \<open>
  Members, groups and invitations of a tenant: \<open>tenants/tenants.service.ts\<close>. A request first checks the
  database (\<open>\<dots>_check\<close>), then writes in one transaction (\<open>\<dots>_commit\<close>); other requests may commit
  between the two. A transaction yields the new database or an error, which undoes it. Tenants, users and
  roles are never deleted by the service. The text of audit entries is left out.
\<close>

section \<open>Tables\<close>

record role_row =
  ro_id :: string
  ro_permissions :: "string list"

record tenancy_user =
  tu_id :: uuid
  tu_email :: string

record membership =
  mb_id :: uuid
  mb_userId :: uuid
  mb_tenantId :: uuid
  mb_status :: string
  mb_roles :: "string list"
  mb_createdBy :: uuid

record tenant_group =
  tg_id :: uuid
  tg_tenantId :: uuid
  tg_name :: string
  tg_description :: "string option"
  tg_members :: "uuid list"
  tg_roles :: "string list"

record invitation =
  iv_id :: uuid
  iv_tenantId :: uuid
  iv_email :: string
  iv_tokenHash :: string
  iv_roleIds :: "string list"
  iv_expiresAt :: millis
  iv_lastSentAt :: millis
  iv_createdBy :: uuid

record oidc_provider =
  tp_tenantId :: uuid
  tp_status :: string
  tp_enabled :: bool
  tp_grantsReconciledAt :: "millis option"

record tenancy_db =
  td_tenants :: "(uuid \<times> string) list"
  td_users :: "tenancy_user list"
  td_roles :: "role_row list"
  td_memberships :: "membership list"
  td_groups :: "tenant_group list"
  td_invitations :: "invitation list"
  td_providers :: "oidc_provider list"
  td_audit :: "(uuid \<times> uuid \<times> string \<times> uuid) list"

datatype tenancy_error =
    TenantMissing string
  | TenantConflict string
  | TenantForbidden string
  | TenantBadRequest string
  | TenantThrown string

record tenancy_actor =
  ta_id :: uuid
  ta_email :: string
  ta_status :: string

text \<open>SHA-256, the date a week later in the server's time zone, and the revocation of a grant at the identity
  provider, which may throw.\<close>

record tenancy_lib =
  tl_hash :: "string \<Rightarrow> string"
  tl_week_later :: "millis \<Rightarrow> millis"
  tl_revoke :: "uuid \<Rightarrow> uuid \<Rightarrow> string option"

definition TENANT_OWNER_ROLE_ID :: string where
  "TENANT_OWNER_ROLE_ID = ''tenant-owner''"

definition normalizeEmail :: "string \<Rightarrow> string" where
  "normalizeEmail email = toLowerCase (js_trim email)"

definition tenancy_audit :: "tenancy_db \<Rightarrow> uuid \<Rightarrow> tenancy_actor \<Rightarrow> string \<Rightarrow> uuid \<Rightarrow> tenancy_db" where
  "tenancy_audit db tenantId actor action resource = db\<lparr>td_audit := td_audit db @ [(tenantId, ta_id actor, action, resource)]\<rparr>"

section \<open>Checks\<close>

definition ten_require :: "bool \<Rightarrow> tenancy_error \<Rightarrow> tenancy_error + unit" where
  "ten_require b e = (if b then Inr () else Inl e)"

definition ten_found :: "'a option \<Rightarrow> tenancy_error \<Rightarrow> tenancy_error + 'a" where
  "ten_found x e = (case x of None \<Rightarrow> Inl e | Some y \<Rightarrow> Inr y)"

definition ensureTenant :: "tenancy_db \<Rightarrow> uuid \<Rightarrow> tenancy_error + unit" where
  "ensureTenant db tenantId = ten_require (tenantId \<in> fst ` set (td_tenants db)) (TenantMissing ''Tenant not found'')"

definition ensureUserExists :: "tenancy_db \<Rightarrow> uuid \<Rightarrow> tenancy_error + unit" where
  "ensureUserExists db userId = ten_require (userId \<in> tu_id ` set (td_users db)) (TenantMissing ''User not found'')"

definition ensureRolesExist :: "tenancy_db \<Rightarrow> string list \<Rightarrow> tenancy_error + unit" where
  "ensureRolesExist db roleIds =
     and_then (ten_require (distinct roleIds) (TenantBadRequest ''Role ids must be unique'')) (\<lambda>_.
       ten_require (list_all (\<lambda>r. r \<in> ro_id ` set (td_roles db)) roleIds) (TenantMissing ''Role not found''))"

definition membership_of :: "tenancy_db \<Rightarrow> uuid \<Rightarrow> uuid \<Rightarrow> membership option" where
  "membership_of db tenantId userId = head_opt (filter (\<lambda>m. mb_userId m = userId \<and> mb_tenantId m = tenantId) (td_memberships db))"

definition assertOwnerRoleChangeAllowed :: "tenancy_db \<Rightarrow> uuid \<Rightarrow> tenancy_actor \<Rightarrow> string list \<Rightarrow> tenancy_error + unit" where
  "assertOwnerRoleChangeAllowed db tenantId actor roleIds =
     (if TENANT_OWNER_ROLE_ID \<notin> set roleIds then Inr ()
      else
        ten_require
          (case membership_of db tenantId (ta_id actor) of
             None \<Rightarrow> False
           | Some m \<Rightarrow> mb_status m = ''Active'' \<and> TENANT_OWNER_ROLE_ID \<in> set (mb_roles m))
          (TenantForbidden ''Only an active tenant owner can manage Owner roles''))"

definition findMembershipOrThrow :: "tenancy_db \<Rightarrow> uuid \<Rightarrow> uuid \<Rightarrow> tenancy_error + membership" where
  "findMembershipOrThrow db tenantId membershipId =
     ten_found (head_opt (filter (\<lambda>m. mb_id m = membershipId \<and> mb_tenantId m = tenantId) (td_memberships db)))
       (TenantMissing ''TenantMembership not found'')"

definition findInvitationOrThrow :: "tenancy_db \<Rightarrow> uuid \<Rightarrow> uuid \<Rightarrow> tenancy_error + invitation" where
  "findInvitationOrThrow db tenantId invitationId =
     ten_found (head_opt (filter (\<lambda>i. iv_id i = invitationId \<and> iv_tenantId i = tenantId) (td_invitations db)))
       (TenantMissing ''TenantInvitation not found'')"

definition findGroupOrThrow :: "tenancy_db \<Rightarrow> uuid \<Rightarrow> uuid \<Rightarrow> tenancy_error + tenant_group" where
  "findGroupOrThrow db tenantId groupId =
     ten_found (head_opt (filter (\<lambda>g. tg_id g = groupId \<and> tg_tenantId g = tenantId) (td_groups db)))
       (TenantMissing ''TenantGroup not found'')"

section \<open>Invitations\<close>

definition createInvitation_check :: "tenancy_db \<Rightarrow> tenancy_actor \<Rightarrow> uuid \<Rightarrow> string \<Rightarrow> string list \<Rightarrow> tenancy_error + string" where
  "createInvitation_check db actor tenantId email0 roleIds =
     and_then (ensureTenant db tenantId) (\<lambda>_.
     and_then (ensureRolesExist db roleIds) (\<lambda>_.
     and_then (assertOwnerRoleChangeAllowed db tenantId actor roleIds) (\<lambda>_.
       let email = normalizeEmail email0;
           existing = head_opt (filter (\<lambda>m. mb_tenantId m = tenantId \<and>
             (\<exists>u \<in> set (td_users db). tu_id u = mb_userId m \<and> tu_email u = email)) (td_memberships db)) in
       case existing of
         Some m \<Rightarrow> Inl (TenantConflict (if mb_status m = ''Active'' then ''AlreadyMember'' else ''MembershipAlreadyExists''))
       | None \<Rightarrow> Inr email)))"

definition createInvitation_commit ::
    "tenancy_lib \<Rightarrow> tenancy_db \<Rightarrow> tenancy_actor \<Rightarrow> millis \<Rightarrow> uuid \<Rightarrow> string \<Rightarrow> uuid \<Rightarrow> string \<Rightarrow> string list \<Rightarrow> tenancy_error + tenancy_db" where
  "createInvitation_commit lib db actor now i token tenantId email roleIds =
     (if list_ex (\<lambda>v. iv_id v = i \<or> iv_tokenHash v = tl_hash lib token \<or> (iv_tenantId v = tenantId \<and> iv_email v = email)) (td_invitations db)
      then Inl (TenantConflict ''TenantInvitation already exists'')
      else
        Inr (tenancy_audit
          (db\<lparr>td_invitations := td_invitations db @
             [\<lparr>iv_id = i, iv_tenantId = tenantId, iv_email = email, iv_tokenHash = tl_hash lib token, iv_roleIds = roleIds,
               iv_expiresAt = tl_week_later lib now, iv_lastSentAt = now, iv_createdBy = ta_id actor\<rparr>]\<rparr>)
          tenantId actor ''tenant_invitation.create'' i))"

definition resendInvitation_check :: "tenancy_db \<Rightarrow> tenancy_actor \<Rightarrow> uuid \<Rightarrow> uuid \<Rightarrow> tenancy_error + invitation" where
  "resendInvitation_check db actor tenantId invitationId =
     and_then (ensureTenant db tenantId) (\<lambda>_.
     and_then (findInvitationOrThrow db tenantId invitationId) (\<lambda>existing.
     and_then (assertOwnerRoleChangeAllowed db tenantId actor (iv_roleIds existing)) (\<lambda>_. Inr existing)))"

definition resent :: "tenancy_lib \<Rightarrow> millis \<Rightarrow> string \<Rightarrow> invitation \<Rightarrow> invitation" where
  "resent lib now token v = v\<lparr>iv_tokenHash := tl_hash lib token, iv_expiresAt := tl_week_later lib now, iv_lastSentAt := now\<rparr>"

definition resendInvitation_commit ::
    "tenancy_lib \<Rightarrow> tenancy_db \<Rightarrow> tenancy_actor \<Rightarrow> millis \<Rightarrow> string \<Rightarrow> uuid \<Rightarrow> invitation \<Rightarrow> tenancy_error + tenancy_db" where
  "resendInvitation_commit lib db actor now token tenantId existing =
     (if iv_id existing \<notin> iv_id ` set (td_invitations db) then Inl (TenantThrown ''Record to update not found'')
      else if list_ex (\<lambda>v. iv_id v \<noteq> iv_id existing \<and> iv_tokenHash v = tl_hash lib token) (td_invitations db)
      then Inl (TenantThrown ''Unique constraint failed'')
      else
        Inr (tenancy_audit
          (db\<lparr>td_invitations := fst (update_where (\<lambda>v. iv_id v = iv_id existing) (resent lib now token) (td_invitations db))\<rparr>)
          tenantId actor ''tenant_invitation.resend'' (iv_id existing)))"

definition deleteInvitation_check :: "tenancy_db \<Rightarrow> uuid \<Rightarrow> uuid \<Rightarrow> tenancy_error + invitation" where
  "deleteInvitation_check db tenantId invitationId =
     and_then (ensureTenant db tenantId) (\<lambda>_. findInvitationOrThrow db tenantId invitationId)"

definition drop_invitation :: "uuid \<Rightarrow> tenancy_db \<Rightarrow> tenancy_error + tenancy_db" where
  "drop_invitation i db =
     (if i \<notin> iv_id ` set (td_invitations db) then Inl (TenantThrown ''Record to delete does not exist'')
      else Inr (db\<lparr>td_invitations := filter (\<lambda>v. iv_id v \<noteq> i) (td_invitations db)\<rparr>))"

definition deleteInvitation_commit :: "tenancy_db \<Rightarrow> tenancy_actor \<Rightarrow> uuid \<Rightarrow> invitation \<Rightarrow> tenancy_error + tenancy_db" where
  "deleteInvitation_commit db actor tenantId existing =
     map_sum id (\<lambda>db'. tenancy_audit db' tenantId actor ''tenant_invitation.cancel'' (iv_id existing)) (drop_invitation (iv_id existing) db)"

definition acceptInvitation_check :: "tenancy_lib \<Rightarrow> tenancy_db \<Rightarrow> tenancy_actor \<Rightarrow> millis \<Rightarrow> string \<Rightarrow> tenancy_error + invitation" where
  "acceptInvitation_check lib db actor now token =
     and_then (ten_require (ta_status actor = ''Active'') (TenantBadRequest ''Active user is required'')) (\<lambda>_.
     and_then (ten_found (find_row iv_tokenHash (tl_hash lib token) (td_invitations db)) (TenantMissing ''TenantInvitation not found'')) (\<lambda>v.
     and_then (ten_require (now < iv_expiresAt v) (TenantBadRequest ''TenantInvitationExpired'')) (\<lambda>_.
     and_then (ten_require (normalizeEmail (ta_email actor) = iv_email v) (TenantForbidden ''InvitationEmailMismatch'')) (\<lambda>_.
     and_then (ensureRolesExist db (iv_roleIds v)) (\<lambda>_. Inr v)))))"

definition invalidated_provider :: "oidc_provider \<Rightarrow> oidc_provider" where
  "invalidated_provider p = p\<lparr>tp_enabled := False, tp_status := ''NeedsReconciliation'', tp_grantsReconciledAt := None\<rparr>"

definition invalidate_provider :: "uuid \<Rightarrow> tenancy_db \<Rightarrow> tenancy_db" where
  "invalidate_provider tenantId db =
     db\<lparr>td_providers := fst (update_where
          (\<lambda>p. tp_tenantId p = tenantId \<and> tp_status p \<notin> {''Disabling'', ''Disabled'', ''Deleted''}) invalidated_provider (td_providers db))\<rparr>"

definition new_membership :: "uuid \<Rightarrow> uuid \<Rightarrow> uuid \<Rightarrow> string list \<Rightarrow> uuid \<Rightarrow> membership" where
  "new_membership i tenantId userId roleIds createdBy =
     \<lparr>mb_id = i, mb_userId = userId, mb_tenantId = tenantId, mb_status = ''Active'', mb_roles = roleIds, mb_createdBy = createdBy\<rparr>"

definition acceptInvitation_commit ::
    "tenancy_db \<Rightarrow> tenancy_actor \<Rightarrow> uuid \<Rightarrow> invitation \<Rightarrow> tenancy_error + tenancy_db" where
  "acceptInvitation_commit db actor i v =
     (if membership_of db (iv_tenantId v) (ta_id actor) \<noteq> None then Inl (TenantConflict ''MembershipAlreadyExists'')
      else if i \<in> mb_id ` set (td_memberships db) then Inl (TenantThrown ''Unique constraint failed'')
      else
        map_sum id (\<lambda>db'. tenancy_audit db' (iv_tenantId v) actor ''tenant_invitation.accept'' i)
          (drop_invitation (iv_id v) (invalidate_provider (iv_tenantId v)
            (db\<lparr>td_memberships := td_memberships db @ [new_membership i (iv_tenantId v) (ta_id actor) (iv_roleIds v) (iv_createdBy v)]\<rparr>))))"

section \<open>Groups\<close>

definition group_exists :: "tenancy_db \<Rightarrow> uuid \<Rightarrow> bool" where
  "group_exists db groupId \<longleftrightarrow> groupId \<in> tg_id ` set (td_groups db)"

definition update_group1 :: "tenancy_db \<Rightarrow> uuid \<Rightarrow> (tenant_group \<Rightarrow> tenant_group) \<Rightarrow> tenancy_db" where
  "update_group1 db groupId f = db\<lparr>td_groups := fst (update_where (\<lambda>g. tg_id g = groupId) f (td_groups db))\<rparr>"

definition createGroup_commit ::
    "tenancy_db \<Rightarrow> tenancy_actor \<Rightarrow> uuid \<Rightarrow> uuid \<Rightarrow> string \<Rightarrow> string option \<Rightarrow> tenancy_error + tenancy_db" where
  "createGroup_commit db actor i tenantId name description =
     (if list_ex (\<lambda>g. tg_id g = i \<or> (tg_tenantId g = tenantId \<and> tg_name g = name)) (td_groups db)
      then Inl (TenantConflict ''TenantGroup name already exists'')
      else
        Inr (tenancy_audit
          (db\<lparr>td_groups := td_groups db @
             [\<lparr>tg_id = i, tg_tenantId = tenantId, tg_name = name, tg_description = description, tg_members = [], tg_roles = []\<rparr>]\<rparr>)
          tenantId actor ''tenant_group.create'' i))"

definition updateGroup_check :: "tenancy_db \<Rightarrow> uuid \<Rightarrow> uuid \<Rightarrow> tenancy_error + unit" where
  "updateGroup_check db tenantId groupId =
     and_then (ensureTenant db tenantId) (\<lambda>_. map_sum id (\<lambda>_. ()) (findGroupOrThrow db tenantId groupId))"

definition renamed_group :: "string option \<Rightarrow> string option \<Rightarrow> tenant_group \<Rightarrow> tenant_group" where
  "renamed_group name description g =
     g\<lparr>tg_name := option_or name (tg_name g), tg_description := (case description of None \<Rightarrow> tg_description g | Some d \<Rightarrow> Some d)\<rparr>"

definition updateGroup_commit ::
    "tenancy_db \<Rightarrow> tenancy_actor \<Rightarrow> uuid \<Rightarrow> uuid \<Rightarrow> string option \<Rightarrow> string option \<Rightarrow> tenancy_error + tenancy_db" where
  "updateGroup_commit db actor tenantId groupId name description =
     (case find_row tg_id groupId (td_groups db) of
        None \<Rightarrow> Inl (TenantThrown ''Record to update not found'')
      | Some g \<Rightarrow>
          if list_ex (\<lambda>h. tg_id h \<noteq> groupId \<and> tg_tenantId h = tg_tenantId g \<and> tg_name h = option_or name (tg_name g)) (td_groups db)
          then Inl (TenantThrown ''Unique constraint failed'')
          else Inr (tenancy_audit (update_group1 db groupId (renamed_group name description)) tenantId actor ''tenant_group.update'' groupId))"

text \<open>Members and roles of a group are deleted with it.\<close>

definition deleteGroup_commit :: "tenancy_db \<Rightarrow> tenancy_actor \<Rightarrow> uuid \<Rightarrow> uuid \<Rightarrow> tenancy_error + tenancy_db" where
  "deleteGroup_commit db actor tenantId groupId =
     (if \<not> group_exists db groupId then Inl (TenantThrown ''Record to delete does not exist'')
      else
        Inr (tenancy_audit (db\<lparr>td_groups := filter (\<lambda>g. tg_id g \<noteq> groupId) (td_groups db)\<rparr>) tenantId actor ''tenant_group.delete'' groupId))"

definition groupMember_check :: "tenancy_db \<Rightarrow> uuid \<Rightarrow> uuid \<Rightarrow> uuid \<Rightarrow> tenancy_error + unit" where
  "groupMember_check db tenantId groupId membershipId =
     and_then (ensureTenant db tenantId) (\<lambda>_.
     and_then (findGroupOrThrow db tenantId groupId) (\<lambda>_.
       map_sum id (\<lambda>_. ()) (findMembershipOrThrow db tenantId membershipId)))"

definition addGroupMember_commit :: "tenancy_db \<Rightarrow> tenancy_actor \<Rightarrow> uuid \<Rightarrow> uuid \<Rightarrow> uuid \<Rightarrow> tenancy_error + tenancy_db" where
  "addGroupMember_commit db actor tenantId groupId membershipId =
     (case find_row tg_id groupId (td_groups db) of
        None \<Rightarrow> Inl (TenantThrown ''Foreign key constraint violated'')
      | Some g \<Rightarrow>
          if membershipId \<in> set (tg_members g) then Inl (TenantConflict ''TenantGroupMember already exists'')
          else if membershipId \<notin> mb_id ` set (td_memberships db) then Inl (TenantThrown ''Foreign key constraint violated'')
          else
            Inr (tenancy_audit (update_group1 db groupId (\<lambda>g. g\<lparr>tg_members := tg_members g @ [membershipId]\<rparr>))
                   tenantId actor ''tenant_group.member.add'' groupId))"

definition removeGroupMember_commit :: "tenancy_db \<Rightarrow> tenancy_actor \<Rightarrow> uuid \<Rightarrow> uuid \<Rightarrow> uuid \<Rightarrow> tenancy_error + tenancy_db" where
  "removeGroupMember_commit db actor tenantId groupId membershipId =
     (if \<not> list_ex (\<lambda>g. tg_id g = groupId \<and> membershipId \<in> set (tg_members g)) (td_groups db)
      then Inl (TenantThrown ''Record to delete does not exist'')
      else
        Inr (tenancy_audit (update_group1 db groupId (\<lambda>g. g\<lparr>tg_members := filter (\<lambda>m. m \<noteq> membershipId) (tg_members g)\<rparr>))
               tenantId actor ''tenant_group.member.remove'' groupId))"

definition assignGroupRole_check :: "tenancy_db \<Rightarrow> tenancy_actor \<Rightarrow> uuid \<Rightarrow> uuid \<Rightarrow> string \<Rightarrow> tenancy_error + unit" where
  "assignGroupRole_check db actor tenantId groupId roleId =
     and_then (ensureTenant db tenantId) (\<lambda>_.
     and_then (findGroupOrThrow db tenantId groupId) (\<lambda>_.
     and_then (ensureRolesExist db [roleId]) (\<lambda>_. assertOwnerRoleChangeAllowed db tenantId actor [roleId])))"

definition assignGroupRole_commit :: "tenancy_db \<Rightarrow> tenancy_actor \<Rightarrow> uuid \<Rightarrow> uuid \<Rightarrow> string \<Rightarrow> tenancy_error + tenancy_db" where
  "assignGroupRole_commit db actor tenantId groupId roleId =
     (case find_row tg_id groupId (td_groups db) of
        None \<Rightarrow> Inl (TenantThrown ''Foreign key constraint violated'')
      | Some g \<Rightarrow>
          if roleId \<in> set (tg_roles g) then Inl (TenantConflict ''TenantGroupRole already exists'')
          else
            Inr (tenancy_audit (update_group1 db groupId (\<lambda>g. g\<lparr>tg_roles := tg_roles g @ [roleId]\<rparr>))
                   tenantId actor ''tenant_group.role.assign'' groupId))"

definition removeGroupRole_check :: "tenancy_db \<Rightarrow> tenancy_actor \<Rightarrow> uuid \<Rightarrow> uuid \<Rightarrow> string \<Rightarrow> tenancy_error + unit" where
  "removeGroupRole_check db actor tenantId groupId roleId =
     and_then (ensureTenant db tenantId) (\<lambda>_.
     and_then (findGroupOrThrow db tenantId groupId) (\<lambda>_. assertOwnerRoleChangeAllowed db tenantId actor [roleId]))"

definition removeGroupRole_commit :: "tenancy_db \<Rightarrow> tenancy_actor \<Rightarrow> uuid \<Rightarrow> uuid \<Rightarrow> string \<Rightarrow> tenancy_error + tenancy_db" where
  "removeGroupRole_commit db actor tenantId groupId roleId =
     (if \<not> list_ex (\<lambda>g. tg_id g = groupId \<and> roleId \<in> set (tg_roles g)) (td_groups db)
      then Inl (TenantThrown ''Record to delete does not exist'')
      else
        Inr (tenancy_audit (update_group1 db groupId (\<lambda>g. g\<lparr>tg_roles := filter (\<lambda>r. r \<noteq> roleId) (tg_roles g)\<rparr>))
               tenantId actor ''tenant_group.role.remove'' groupId))"

section \<open>Memberships\<close>

definition createMembership_check :: "tenancy_db \<Rightarrow> tenancy_actor \<Rightarrow> uuid \<Rightarrow> uuid \<Rightarrow> string list \<Rightarrow> tenancy_error + unit" where
  "createMembership_check db actor tenantId userId roleIds =
     and_then (ensureTenant db tenantId) (\<lambda>_.
     and_then (ensureUserExists db userId) (\<lambda>_.
     and_then (ensureRolesExist db roleIds) (\<lambda>_. assertOwnerRoleChangeAllowed db tenantId actor roleIds)))"

definition createMembership_commit ::
    "tenancy_db \<Rightarrow> tenancy_actor \<Rightarrow> uuid \<Rightarrow> uuid \<Rightarrow> uuid \<Rightarrow> string list \<Rightarrow> tenancy_error + tenancy_db" where
  "createMembership_commit db actor i tenantId userId roleIds =
     (if membership_of db tenantId userId \<noteq> None \<or> i \<in> mb_id ` set (td_memberships db)
      then Inl (TenantConflict ''TenantMembership already exists'')
      else
        Inr (tenancy_audit
          (invalidate_provider tenantId
            (db\<lparr>td_memberships := td_memberships db @ [new_membership i tenantId userId roleIds (ta_id actor)]\<rparr>))
          tenantId actor ''membership.create'' i))"

definition updateMembership_check ::
    "tenancy_db \<Rightarrow> tenancy_actor \<Rightarrow> uuid \<Rightarrow> uuid \<Rightarrow> string list option \<Rightarrow> tenancy_error + unit" where
  "updateMembership_check db actor tenantId membershipId roleIds =
     and_then (ensureTenant db tenantId) (\<lambda>_.
     and_then (findMembershipOrThrow db tenantId membershipId) (\<lambda>existing.
     and_then (case roleIds of None \<Rightarrow> Inr () | Some rs \<Rightarrow> ensureRolesExist db rs) (\<lambda>_.
       assertOwnerRoleChangeAllowed db tenantId actor (mb_roles existing @ option_or roleIds []))))"

definition other_owners :: "tenancy_db \<Rightarrow> uuid \<Rightarrow> uuid \<Rightarrow> membership list" where
  "other_owners db tenantId membershipId =
     filter (\<lambda>m. mb_tenantId m = tenantId \<and> mb_id m \<noteq> membershipId \<and> mb_status m = ''Active'' \<and> TENANT_OWNER_ROLE_ID \<in> set (mb_roles m))
       (td_memberships db)"

definition assertLastOwnerIsPreserved ::
    "tenancy_db \<Rightarrow> uuid \<Rightarrow> membership \<Rightarrow> string list option \<Rightarrow> string option \<Rightarrow> tenancy_error + unit" where
  "assertLastOwnerIsPreserved db tenantId m roleIds status =
     (let currentlyOwner = TENANT_OWNER_ROLE_ID \<in> set (mb_roles m);
          nextOwner = (case roleIds of None \<Rightarrow> currentlyOwner | Some rs \<Rightarrow> TENANT_OWNER_ROLE_ID \<in> set rs);
          nextActive = option_or status (mb_status m) = ''Active'' in
      if \<not> currentlyOwner \<or> (nextOwner \<and> nextActive) then Inr ()
      else ten_require (other_owners db tenantId (mb_id m) \<noteq> []) (TenantConflict ''TenantLastOwner''))"

definition revoked_grant :: "tenancy_lib \<Rightarrow> uuid \<Rightarrow> uuid \<Rightarrow> tenancy_error + unit" where
  "revoked_grant lib tenantId userId = (case tl_revoke lib tenantId userId of None \<Rightarrow> Inr () | Some e \<Rightarrow> Inl (TenantThrown e))"

definition updated_membership :: "string list option \<Rightarrow> string option \<Rightarrow> membership \<Rightarrow> membership" where
  "updated_membership roleIds status m = m\<lparr>mb_roles := option_or roleIds (mb_roles m), mb_status := option_or status (mb_status m)\<rparr>"

definition updateMembership_commit ::
    "tenancy_lib \<Rightarrow> tenancy_db \<Rightarrow> tenancy_actor \<Rightarrow> uuid \<Rightarrow> uuid \<Rightarrow> string list option \<Rightarrow> string option \<Rightarrow> tenancy_error + tenancy_db" where
  "updateMembership_commit lib db actor tenantId membershipId roleIds status =
     and_then (findMembershipOrThrow db tenantId membershipId) (\<lambda>m.
     and_then (if status = Some ''Suspended'' then revoked_grant lib tenantId (mb_userId m) else Inr ()) (\<lambda>_.
     and_then (assertLastOwnerIsPreserved db tenantId m roleIds status) (\<lambda>_.
       Inr (tenancy_audit
         (invalidate_provider tenantId
           (db\<lparr>td_memberships := fst (update_where (\<lambda>m. mb_id m = membershipId) (updated_membership roleIds status) (td_memberships db))\<rparr>))
         tenantId actor ''membership.update'' membershipId))))"

definition deleteMembership_check :: "tenancy_db \<Rightarrow> tenancy_actor \<Rightarrow> uuid \<Rightarrow> uuid \<Rightarrow> tenancy_error + unit" where
  "deleteMembership_check db actor tenantId membershipId =
     and_then (ensureTenant db tenantId) (\<lambda>_.
     and_then (findMembershipOrThrow db tenantId membershipId) (\<lambda>existing.
       assertOwnerRoleChangeAllowed db tenantId actor (mb_roles existing)))"

text \<open>The places of the membership in groups are deleted with it.\<close>

definition drop_membership :: "uuid \<Rightarrow> tenancy_db \<Rightarrow> tenancy_db" where
  "drop_membership i db =
     db\<lparr>td_memberships := filter (\<lambda>m. mb_id m \<noteq> i) (td_memberships db),
        td_groups := map (\<lambda>g. g\<lparr>tg_members := filter (\<lambda>m. m \<noteq> i) (tg_members g)\<rparr>) (td_groups db)\<rparr>"

definition deleteMembership_commit :: "tenancy_lib \<Rightarrow> tenancy_db \<Rightarrow> tenancy_actor \<Rightarrow> uuid \<Rightarrow> uuid \<Rightarrow> tenancy_error + tenancy_db" where
  "deleteMembership_commit lib db actor tenantId membershipId =
     and_then (findMembershipOrThrow db tenantId membershipId) (\<lambda>m.
     and_then (revoked_grant lib tenantId (mb_userId m)) (\<lambda>_.
     and_then (assertLastOwnerIsPreserved db tenantId m (Some []) (Some ''Suspended'')) (\<lambda>_.
       Inr (tenancy_audit (invalidate_provider tenantId (drop_membership membershipId db)) tenantId actor ''membership.delete'' membershipId))))"

section \<open>A new tenant\<close>

definition createTenant :: "tenancy_db \<Rightarrow> tenancy_actor \<Rightarrow> uuid \<Rightarrow> string \<Rightarrow> uuid \<Rightarrow> tenancy_error + tenancy_db" where
  "createTenant db actor tenantId name membershipId =
     (if list_ex (\<lambda>t. fst t = tenantId \<or> snd t = name) (td_tenants db) \<or> membershipId \<in> mb_id ` set (td_memberships db)
      then Inl (TenantConflict ''Tenant name already exists'')
      else
        Inr (tenancy_audit
          (db\<lparr>td_tenants := td_tenants db @ [(tenantId, name)],
              td_memberships := td_memberships db @ [new_membership membershipId tenantId (ta_id actor) [TENANT_OWNER_ROLE_ID] (ta_id actor)]\<rparr>)
          tenantId actor ''tenant.create'' tenantId))"

end
