(* ===== verification/TenantAccess.thy ===== *)
theory TenantAccess
  imports Tenancy
begin

text \<open>
  Who may do what in a tenant: \<open>auth/tenant-context.guard.ts\<close>, \<open>auth/permissions.guard.ts\<close>,
  \<open>auth/tenant-provider-policy.ts\<close>, \<open>auth/platform-admin.guard.ts\<close> and \<open>isTenantMcpRequest\<close> of \<open>mcp/mcp-oauth.ts\<close>.
  The guards run in the order of \<open>api.module.ts\<close>; the principal of a request was verified before.
\<close>

section \<open>Principals and requests\<close>

record auth_policy =
  py_tenantId :: uuid
  py_requireTenantIdentityProvider :: bool
  py_allowPlatformLogin :: bool
  py_allowTenantIdentityProviders :: bool

record identity_provider =
  ip_platform :: bool
  ip_tenantId :: "uuid option"
  ip_enabled :: bool
  ip_zitadelId :: string

record service_identity =
  si_id :: uuid
  si_tenantId :: uuid
  si_status :: string

record access_tables =
  at_policies :: "auth_policy list"
  at_providers :: "identity_provider list"
  at_serviceRoles :: "(uuid \<times> string) list"
  at_nativeOnly :: bool

record access_request =
  aq_url :: string
  aq_tenantId :: "uuid option"
  aq_required :: "string list"
  aq_user :: "(uuid \<times> string option) option"
  aq_service :: "service_identity option"

record tenant_context =
  tc_tenantId :: uuid
  tc_membershipId :: "uuid option"
  tc_serviceIdentityId :: "uuid option"
  tc_permissions :: "string list"

section \<open>The identity provider a tenant requires\<close>

definition has_provider :: "identity_provider list \<Rightarrow> bool \<Rightarrow> uuid option \<Rightarrow> string \<Rightarrow> bool" where
  "has_provider ps platform tenantId idp \<longleftrightarrow>
     list_ex (\<lambda>p. ip_platform p = platform \<and> ip_tenantId p = tenantId \<and> ip_enabled p \<and> ip_zitadelId p = idp) ps"

definition assertTenantProviderPolicy :: "access_tables \<Rightarrow> uuid \<Rightarrow> string option \<Rightarrow> string + unit" where
  "assertTenantProviderPolicy acc tenantId idp =
     (case find_row py_tenantId tenantId (at_policies acc) of
        None \<Rightarrow> Inr ()
      | Some policy \<Rightarrow>
          (let tenantOnly = py_requireTenantIdentityProvider policy \<or> \<not> py_allowPlatformLogin policy in
           if (\<not> tenantOnly \<and> py_allowTenantIdentityProviders policy) \<or> at_nativeOnly acc then Inr ()
           else if tenantOnly \<and> \<not> py_allowTenantIdentityProviders policy then Inl ''Tenant identity provider login is disabled''
           else
             (case option_or idp '''' of
                '''' \<Rightarrow> (if tenantOnly then Inl ''This tenant requires a verified tenant identity provider'' else Inr ())
              | provider \<Rightarrow>
                  if \<not> py_allowTenantIdentityProviders policy
                  then (if has_provider (at_providers acc) True None provider then Inr ()
                        else Inl ''Tenant identity provider login is disabled'')
                  else (if has_provider (at_providers acc) False (Some tenantId) provider then Inr ()
                        else Inl ''Login did not use an enabled identity provider for this tenant''))))"

section \<open>The tenant context\<close>

definition role_permissions :: "tenancy_db \<Rightarrow> string \<Rightarrow> string list" where
  "role_permissions db roleId = (case find_row ro_id roleId (td_roles db) of None \<Rightarrow> [] | Some r \<Rightarrow> ro_permissions r)"

definition membership_permissions :: "tenancy_db \<Rightarrow> membership \<Rightarrow> string list" where
  "membership_permissions db m =
     unique (concat (map (role_permissions db) (mb_roles m)) @
       concat (map (\<lambda>g. concat (map (role_permissions db) (tg_roles g)))
         (filter (\<lambda>g. mb_id m \<in> set (tg_members g)) (td_groups db))))"

definition service_permissions :: "tenancy_db \<Rightarrow> access_tables \<Rightarrow> uuid \<Rightarrow> string list" where
  "service_permissions db acc serviceIdentityId =
     unique (concat (map (\<lambda>(i, r). role_permissions db r) (filter (\<lambda>(i, r). i = serviceIdentityId) (at_serviceRoles acc))))"

definition drop_prefix :: "string \<Rightarrow> string \<Rightarrow> string option" where
  "drop_prefix p s = (if starts_with s p then Some (drop (length p) s) else None)"

definition isTenantMcpRequest :: "string \<Rightarrow> bool" where
  "isTenantMcpRequest url =
     (case drop_prefix ''/api/tenants/'' url of
        None \<Rightarrow> False
      | Some rest \<Rightarrow>
          (let segment = (\<lambda>c. c \<noteq> CHR ''/'' \<and> c \<noteq> CHR ''?'') in
           takeWhile segment rest \<noteq> [] \<and>
           (case drop_prefix ''/mcp'' (dropWhile segment rest) of
              None \<Rightarrow> False
            | Some tail \<Rightarrow> (case tail of [] \<Rightarrow> True | c # _ \<Rightarrow> c = CHR ''/'' \<or> c = CHR ''?''))))"

definition activateServiceIdentityContext ::
    "tenancy_db \<Rightarrow> access_tables \<Rightarrow> access_request \<Rightarrow> uuid \<Rightarrow> service_identity \<Rightarrow> string + tenant_context option" where
  "activateServiceIdentityContext db acc request tenantId si =
     (if si_tenantId si \<noteq> tenantId \<or> si_status si \<noteq> ''Active''
      then Inl ''Service identity does not belong to the requested tenant''
      else
        (let permissions = service_permissions db acc (si_id si) in
         if aq_required request \<noteq> [] \<and> permissions = [] then Inl ''No service identity permissions assigned''
         else Inr (Some \<lparr>tc_tenantId = tenantId, tc_membershipId = None, tc_serviceIdentityId = Some (si_id si),
                tc_permissions = permissions\<rparr>)))"

text \<open>\<open>Inr None\<close>: the request goes on without a tenant context.\<close>

definition tenantContext_canActivate :: "tenancy_db \<Rightarrow> access_tables \<Rightarrow> access_request \<Rightarrow> string + tenant_context option" where
  "tenantContext_canActivate db acc request =
     (if isTenantMcpRequest (aq_url request) \<or> option_or (aq_tenantId request) '''' = '''' then Inr None
      else
        (let tenantId = option_or (aq_tenantId request) '''' in
         case aq_service request of
           Some si \<Rightarrow> activateServiceIdentityContext db acc request tenantId si
         | None \<Rightarrow>
             (case aq_user request of
                None \<Rightarrow> Inl ''Authenticated user is required''
              | Some (userId, idp) \<Rightarrow>
                  (case membership_of db tenantId userId of
                     None \<Rightarrow> Inl ''Active tenant membership is required''
                   | Some m \<Rightarrow>
                       if mb_status m \<noteq> ''Active'' then Inl ''Active tenant membership is required''
                       else
                         and_then (assertTenantProviderPolicy acc tenantId idp) (\<lambda>_.
                           let permissions = membership_permissions db m in
                           if permissions = [] then Inl ''No tenant permissions assigned''
                           else Inr (Some \<lparr>tc_tenantId = tenantId, tc_membershipId = Some (mb_id m), tc_serviceIdentityId = None,
                                  tc_permissions = permissions\<rparr>))))))"

section \<open>The permissions of a route\<close>

definition permissions_canActivate :: "access_request \<Rightarrow> tenant_context option \<Rightarrow> string + bool" where
  "permissions_canActivate request context1 =
     (let permissions = (case context1 of None \<Rightarrow> [] | Some c \<Rightarrow> tc_permissions c) in
      if aq_required request = [] \<or> ''*'' \<in> set permissions \<or> list_all (\<lambda>p. p \<in> set permissions) (aq_required request)
      then Inr True else Inl ''Missing required permissions'')"

text \<open>Both guards, in their order.\<close>

definition admitted :: "tenancy_db \<Rightarrow> access_tables \<Rightarrow> access_request \<Rightarrow> string + bool" where
  "admitted db acc request = and_then (tenantContext_canActivate db acc request) (permissions_canActivate request)"

section \<open>Platform administrators\<close>

record user_identity =
  ui_userId :: uuid
  ui_issuer :: string
  ui_externalSubject :: string

definition without_slash1 :: "string \<Rightarrow> string" where
  "without_slash1 s = (if s \<noteq> [] \<and> List.last s = CHR ''/'' then butlast s else s)"

definition isPlatformAdminUser :: "string option \<Rightarrow> string option \<Rightarrow> user_identity list \<Rightarrow> uuid option \<Rightarrow> bool" where
  "isPlatformAdminUser admin_ids issuer_url identities user =
     (case user of
        None \<Rightarrow> False
      | Some userId \<Rightarrow>
          (let platformAdminIds = filter (\<lambda>v. v \<noteq> '''') (map js_trim (split_on (CHR '','') (option_or admin_ids '''')));
               platformIssuer = without_slash1 (option_or issuer_url '''') in
           userId \<in> set platformAdminIds \<or>
           (platformIssuer \<noteq> '''' \<and> platformAdminIds \<noteq> [] \<and>
            list_ex (\<lambda>i. ui_userId i = userId \<and> ui_issuer i = platformIssuer \<and> ui_externalSubject i \<in> set platformAdminIds) identities)))"

definition platformAdmin_canActivate ::
    "string option \<Rightarrow> string option \<Rightarrow> user_identity list \<Rightarrow> access_request \<Rightarrow> string + bool" where
  "platformAdmin_canActivate admin_ids issuer_url identities request =
     (if aq_service request \<noteq> None \<or> \<not> isPlatformAdminUser admin_ids issuer_url identities (map_option fst (aq_user request))
      then Inl ''Platform administrator access is required'' else Inr True)"

end
