(* ===== verification/TenancySafety.thy ===== *)
theory TenancySafety
  imports TenantAccess
begin

text \<open>
  The requests of \<open>tenants.service.ts\<close> as one machine: a request is checked against the database, then
  waits, then commits; any number of requests are between the two (\<open>tenancy_step\<close>). What a commit does to
  the memberships is one of five effects (\<open>member_effect\<close>), the contract of the locale \<open>tenancy_writer\<close>.
\<close>

section \<open>Requests\<close>

datatype tenancy_request =
    CreateInvitation uuid string "string list"
  | ResendInvitation uuid uuid
  | DeleteInvitation uuid uuid
  | AcceptInvitation string
  | CreateGroup uuid string "string option"
  | UpdateGroup uuid uuid "string option" "string option"
  | DeleteGroup uuid uuid
  | AddGroupMember uuid uuid uuid
  | RemoveGroupMember uuid uuid uuid
  | AssignGroupRole uuid uuid string
  | RemoveGroupRole uuid uuid string
  | CreateMembership uuid uuid "string list"
  | UpdateMembership uuid uuid "string list option" "string option"
  | DeleteMembership uuid uuid
  | CreateTenant string

text \<open>What a check hands to its commit.\<close>

datatype tenancy_read = Checked | CheckedEmail string | CheckedInvitation invitation

fun tenancy_check :: "tenancy_lib \<Rightarrow> tenancy_db \<Rightarrow> tenancy_actor \<Rightarrow> millis \<Rightarrow> tenancy_request \<Rightarrow> tenancy_error + tenancy_read" where
  "tenancy_check lib db actor now (CreateInvitation t email rs) = map_sum id CheckedEmail (createInvitation_check db actor t email rs)"
| "tenancy_check lib db actor now (ResendInvitation t i) = map_sum id CheckedInvitation (resendInvitation_check db actor t i)"
| "tenancy_check lib db actor now (DeleteInvitation t i) = map_sum id CheckedInvitation (deleteInvitation_check db t i)"
| "tenancy_check lib db actor now (AcceptInvitation token) = map_sum id CheckedInvitation (acceptInvitation_check lib db actor now token)"
| "tenancy_check lib db actor now (CreateGroup t name d) = map_sum id (\<lambda>_. Checked) (ensureTenant db t)"
| "tenancy_check lib db actor now (UpdateGroup t g name d) = map_sum id (\<lambda>_. Checked) (updateGroup_check db t g)"
| "tenancy_check lib db actor now (DeleteGroup t g) = map_sum id (\<lambda>_. Checked) (updateGroup_check db t g)"
| "tenancy_check lib db actor now (AddGroupMember t g m) = map_sum id (\<lambda>_. Checked) (groupMember_check db t g m)"
| "tenancy_check lib db actor now (RemoveGroupMember t g m) = map_sum id (\<lambda>_. Checked) (groupMember_check db t g m)"
| "tenancy_check lib db actor now (AssignGroupRole t g r) = map_sum id (\<lambda>_. Checked) (assignGroupRole_check db actor t g r)"
| "tenancy_check lib db actor now (RemoveGroupRole t g r) = map_sum id (\<lambda>_. Checked) (removeGroupRole_check db actor t g r)"
| "tenancy_check lib db actor now (CreateMembership t u rs) = map_sum id (\<lambda>_. Checked) (createMembership_check db actor t u rs)"
| "tenancy_check lib db actor now (UpdateMembership t m rs st) = map_sum id (\<lambda>_. Checked) (updateMembership_check db actor t m rs)"
| "tenancy_check lib db actor now (DeleteMembership t m) = map_sum id (\<lambda>_. Checked) (deleteMembership_check db actor t m)"
| "tenancy_check lib db actor now (CreateTenant name) = Inr Checked"

text \<open>\<open>i\<close> and \<open>j\<close> are the identifiers of new rows, \<open>token\<close> the random token.\<close>

fun tenancy_commit ::
    "tenancy_lib \<Rightarrow> tenancy_db \<Rightarrow> tenancy_actor \<Rightarrow> millis \<Rightarrow> uuid \<Rightarrow> uuid \<Rightarrow> string \<Rightarrow> tenancy_request \<Rightarrow> tenancy_read \<Rightarrow> tenancy_error + tenancy_db" where
  "tenancy_commit lib db actor now i j token (CreateInvitation t email0 rs) (CheckedEmail email) =
     createInvitation_commit lib db actor now i token t email rs"
| "tenancy_commit lib db actor now i j token (ResendInvitation t k) (CheckedInvitation v) = resendInvitation_commit lib db actor now token t v"
| "tenancy_commit lib db actor now i j token (DeleteInvitation t k) (CheckedInvitation v) = deleteInvitation_commit db actor t v"
| "tenancy_commit lib db actor now i j token (AcceptInvitation tk) (CheckedInvitation v) = acceptInvitation_commit db actor i v"
| "tenancy_commit lib db actor now i j token (CreateGroup t name d) Checked = createGroup_commit db actor i t name d"
| "tenancy_commit lib db actor now i j token (UpdateGroup t g name d) Checked = updateGroup_commit db actor t g name d"
| "tenancy_commit lib db actor now i j token (DeleteGroup t g) Checked = deleteGroup_commit db actor t g"
| "tenancy_commit lib db actor now i j token (AddGroupMember t g m) Checked = addGroupMember_commit db actor t g m"
| "tenancy_commit lib db actor now i j token (RemoveGroupMember t g m) Checked = removeGroupMember_commit db actor t g m"
| "tenancy_commit lib db actor now i j token (AssignGroupRole t g r) Checked = assignGroupRole_commit db actor t g r"
| "tenancy_commit lib db actor now i j token (RemoveGroupRole t g r) Checked = removeGroupRole_commit db actor t g r"
| "tenancy_commit lib db actor now i j token (CreateMembership t u rs) Checked = createMembership_commit db actor i t u rs"
| "tenancy_commit lib db actor now i j token (UpdateMembership t m rs st) Checked = updateMembership_commit lib db actor t m rs st"
| "tenancy_commit lib db actor now i j token (DeleteMembership t m) Checked = deleteMembership_commit lib db actor t m"
| "tenancy_commit lib db actor now i j token (CreateTenant name) Checked = createTenant db actor j name i"
| "tenancy_commit lib db actor now i j token r rd = Inl (TenantThrown ''unreachable'')"

section \<open>What a commit does to the memberships\<close>

definition is_owner :: "membership \<Rightarrow> bool" where
  "is_owner m \<longleftrightarrow> mb_status m = ''Active'' \<and> TENANT_OWNER_ROLE_ID \<in> set (mb_roles m)"

definition owned :: "tenancy_db \<Rightarrow> uuid \<Rightarrow> bool" where
  "owned db tenantId \<longleftrightarrow> (\<exists>m \<in> set (td_memberships db). mb_tenantId m = tenantId \<and> is_owner m)"

inductive member_effect :: "uuid \<Rightarrow> uuid \<Rightarrow> tenancy_db \<Rightarrow> tenancy_db \<Rightarrow> bool" for i j where
  unchanged: "td_tenants db' = td_tenants db \<Longrightarrow> td_memberships db' = td_memberships db \<Longrightarrow> member_effect i j db db'"
| added: "td_tenants db' = td_tenants db \<Longrightarrow> td_memberships db' = td_memberships db @ [m] \<Longrightarrow> mb_id m = i \<Longrightarrow>
    i \<notin> mb_id ` set (td_memberships db) \<Longrightarrow> membership_of db (mb_tenantId m) (mb_userId m) = None \<Longrightarrow> member_effect i j db db'"
| updated: "td_tenants db' = td_tenants db \<Longrightarrow> m \<in> set (td_memberships db) \<Longrightarrow>
    td_memberships db' = map (\<lambda>x. if mb_id x = mb_id m then f x else x) (td_memberships db) \<Longrightarrow>
    (\<And>x. mb_id (f x) = mb_id x \<and> mb_userId (f x) = mb_userId x \<and> mb_tenantId (f x) = mb_tenantId x) \<Longrightarrow>
    is_owner m \<longrightarrow> is_owner (f m) \<or> other_owners db (mb_tenantId m) (mb_id m) \<noteq> [] \<Longrightarrow> member_effect i j db db'"
| removed: "td_tenants db' = td_tenants db \<Longrightarrow> m \<in> set (td_memberships db) \<Longrightarrow>
    td_memberships db' = filter (\<lambda>x. mb_id x \<noteq> mb_id m) (td_memberships db) \<Longrightarrow>
    is_owner m \<longrightarrow> other_owners db (mb_tenantId m) (mb_id m) \<noteq> [] \<Longrightarrow> member_effect i j db db'"
| founded: "td_tenants db' = td_tenants db @ [(j, name)] \<Longrightarrow> j \<notin> fst ` set (td_tenants db) \<Longrightarrow> td_memberships db' = td_memberships db @ [m] \<Longrightarrow>
    mb_id m = i \<Longrightarrow> i \<notin> mb_id ` set (td_memberships db) \<Longrightarrow> mb_tenantId m = j \<Longrightarrow> is_owner m \<Longrightarrow> member_effect i j db db'"

lemma tenancy_audit_fields [simp]:
  "td_tenants (tenancy_audit db t a x r) = td_tenants db" "td_memberships (tenancy_audit db t a x r) = td_memberships db"
  "td_groups (tenancy_audit db t a x r) = td_groups db" "td_invitations (tenancy_audit db t a x r) = td_invitations db"
  "td_roles (tenancy_audit db t a x r) = td_roles db" "td_users (tenancy_audit db t a x r) = td_users db"
  by (simp_all add: tenancy_audit_def)

lemma invalidate_provider_fields [simp]:
  "td_tenants (invalidate_provider t db) = td_tenants db" "td_memberships (invalidate_provider t db) = td_memberships db"
  "td_groups (invalidate_provider t db) = td_groups db" "td_invitations (invalidate_provider t db) = td_invitations db"
  "td_roles (invalidate_provider t db) = td_roles db" "td_users (invalidate_provider t db) = td_users db"
  by (simp_all add: invalidate_provider_def)

lemma update_group1_fields [simp]:
  "td_tenants (update_group1 db g f) = td_tenants db" "td_memberships (update_group1 db g f) = td_memberships db"
  "td_invitations (update_group1 db g f) = td_invitations db" "td_roles (update_group1 db g f) = td_roles db"
  "td_groups (update_group1 db g f) = map (\<lambda>x. if tg_id x = g then f x else x) (td_groups db)"
  by (simp_all add: update_group1_def update_where_table)

lemma drop_invitation_Inr: "drop_invitation i db = Inr db' \<longleftrightarrow> i \<in> iv_id ` set (td_invitations db) \<and>
    db' = db\<lparr>td_invitations := filter (\<lambda>v. iv_id v \<noteq> i) (td_invitations db)\<rparr>"
  by (auto simp: drop_invitation_def)

lemma map_sum_Inr [simp]: "map_sum id f r = Inr y \<longleftrightarrow> (\<exists>x. r = Inr x \<and> y = f x)"
  by (cases r) auto

lemma ten_require_Inr [simp]: "ten_require b e = Inr u \<longleftrightarrow> b"
  by (simp add: ten_require_def)

lemma ten_found_Inr [simp]: "ten_found x e = Inr y \<longleftrightarrow> x = Some y"
  by (auto simp: ten_found_def split: option.splits)

lemma findMembership_Inr: "findMembershipOrThrow db t i = Inr m \<Longrightarrow> m \<in> set (td_memberships db) \<and> mb_id m = i \<and> mb_tenantId m = t"
  by (auto simp: findMembershipOrThrow_def dest: head_opt_filter_Some)

lemma findGroup_Inr: "findGroupOrThrow db t i = Inr g \<Longrightarrow> g \<in> set (td_groups db) \<and> tg_id g = i \<and> tg_tenantId g = t"
  by (auto simp: findGroupOrThrow_def dest: head_opt_filter_Some)

lemma findInvitation_Inr: "findInvitationOrThrow db t i = Inr v \<Longrightarrow> v \<in> set (td_invitations db) \<and> iv_id v = i \<and> iv_tenantId v = t"
  by (auto simp: findInvitationOrThrow_def dest: head_opt_filter_Some)

lemma lastOwner_Inr:
  assumes "assertLastOwnerIsPreserved db t m roleIds status = Inr u" "is_owner m"
  shows "is_owner (updated_membership roleIds status m) \<or> other_owners db t (mb_id m) \<noteq> []"
  using assms by (cases roleIds; cases status)
    (auto simp: assertLastOwnerIsPreserved_def Let_def is_owner_def updated_membership_def ten_require_def split: if_splits)

lemma updateMembership_effect:
  assumes "updateMembership_commit lib db actor t k rs st = Inr db'"
  shows "member_effect i j db db'"
proof -
  obtain m where m: "findMembershipOrThrow db t k = Inr m" and p: "assertLastOwnerIsPreserved db t m rs st = Inr ()"
    and db': "td_tenants db' = td_tenants db" "td_memberships db' = map (\<lambda>x. if mb_id x = k then updated_membership rs st x else x) (td_memberships db)"
    using assms by (auto simp: updateMembership_commit_def and_then_Inr_iff update_where_table)
  note found = findMembership_Inr [OF m]
  show ?thesis
    by (rule member_effect.updated [OF db'(1), of m "updated_membership rs st"])
      (use found db'(2) lastOwner_Inr [OF p] in \<open>auto simp: updated_membership_def\<close>)
qed

lemma deleteMembership_effect:
  assumes "deleteMembership_commit lib db actor t k = Inr db'"
  shows "member_effect i j db db'"
proof -
  obtain m where m: "findMembershipOrThrow db t k = Inr m" and p: "assertLastOwnerIsPreserved db t m (Some []) (Some ''Suspended'') = Inr ()"
    and db': "td_tenants db' = td_tenants db" "td_memberships db' = filter (\<lambda>x. mb_id x \<noteq> k) (td_memberships db)"
    using assms by (auto simp: deleteMembership_commit_def and_then_Inr_iff drop_membership_def)
  show ?thesis
    by (rule member_effect.removed [OF db'(1), of m])
      (use findMembership_Inr [OF m] db'(2) lastOwner_Inr [OF p] in \<open>auto simp: updated_membership_def is_owner_def\<close>)
qed

lemma commit_effect: "tenancy_commit lib db actor now i j token r rd = Inr db' \<Longrightarrow> member_effect i j db db'"
proof (induction lib db actor now i j token r rd rule: tenancy_commit.induct)
  case (4 lib db actor now i j token tk v)
  then show ?case
    by (auto simp: acceptInvitation_commit_def drop_invitation_Inr new_membership_def split: if_splits intro!: member_effect.added)
next
  case (12 lib db actor now i j token t u rs)
  then show ?case
    by (auto simp: createMembership_commit_def new_membership_def split: if_splits intro!: member_effect.added)
next
  case (13 lib db actor now i j token t m rs st)
  then show ?case by (simp add: updateMembership_effect)
next
  case (14 lib db actor now i j token t m)
  then show ?case by (simp add: deleteMembership_effect)
next
  case (15 lib db actor now i j token name)
  then show ?case
    by (auto simp: createTenant_def new_membership_def is_owner_def list_ex_iff split: if_splits intro!: member_effect.founded)
qed (auto simp: createInvitation_commit_def resendInvitation_commit_def deleteInvitation_commit_def drop_invitation_Inr createGroup_commit_def
    updateGroup_commit_def deleteGroup_commit_def addGroupMember_commit_def removeGroupMember_commit_def assignGroupRole_commit_def
    removeGroupRole_commit_def split: if_splits option.splits intro!: member_effect.unchanged)

section \<open>The contract\<close>

definition members_ok :: "tenancy_db \<Rightarrow> bool" where
  "members_ok db \<longleftrightarrow>
     distinct (map mb_id (td_memberships db)) \<and> distinct (map (\<lambda>m. (mb_tenantId m, mb_userId m)) (td_memberships db)) \<and>
     (\<forall>m \<in> set (td_memberships db). mb_tenantId m \<in> fst ` set (td_tenants db)) \<and>
     (\<forall>t \<in> fst ` set (td_tenants db). owned db t)"

lemma membership_of_None: "membership_of db t u = None \<longleftrightarrow> (t, u) \<notin> (\<lambda>m. (mb_tenantId m, mb_userId m)) ` set (td_memberships db)"
  by (auto simp: membership_of_def filter_empty_conv)

lemma other_owner_owned: "other_owners db t k \<noteq> [] \<Longrightarrow> \<exists>m \<in> set (td_memberships db). mb_id m \<noteq> k \<and> mb_tenantId m = t \<and> is_owner m"
  by (auto simp: other_owners_def is_owner_def filter_empty_conv)

lemma map_key_cong: "(\<And>x. key (f x) = key x) \<Longrightarrow> map key (map (\<lambda>x. if P x then f x else x) xs) = map key xs"
  by simp

lemma member_effect_keeps:
  assumes "member_effect i j db db'" "members_ok db" and new: "\<And>m. m \<in> set (td_memberships db') \<Longrightarrow> mb_tenantId m \<in> fst ` set (td_tenants db')"
  shows "members_ok db'"
  using assms(1)
proof cases
  case unchanged
  then show ?thesis using assms(2) by (simp add: members_ok_def owned_def)
next
  case (added m)
  then show ?thesis using assms(2) new by (auto simp: members_ok_def owned_def membership_of_None)
next
  case (updated m f)
  have dist: "distinct (map mb_id (td_memberships db))" using assms(2) by (simp add: members_ok_def)
  have "owned db' t" if t: "t \<in> fst ` set (td_tenants db)" for t
  proof -
    obtain w where w: "w \<in> set (td_memberships db)" "mb_tenantId w = t" "is_owner w"
      using assms(2) t unfolding members_ok_def owned_def by blast
    have mem: "(if mb_id x = mb_id m then f x else x) \<in> set (td_memberships db')" if "x \<in> set (td_memberships db)" for x
      using that by (simp add: updated(3))
    show ?thesis
    proof (cases "mb_id w = mb_id m")
      case True
      then have "w = m" using distinct_key_eq [OF dist w(1) updated(2)] by simp
      then consider "is_owner (f w)" | x where "x \<in> set (td_memberships db)" "mb_id x \<noteq> mb_id m" "mb_tenantId x = t" "is_owner x"
        using updated(5) w other_owner_owned by blast
      then show ?thesis
        using mem [OF w(1)] mem True w(2) updated(4) unfolding owned_def by cases (simp, metis+)
    next
      case False
      then show ?thesis using mem [OF w(1)] w unfolding owned_def by (metis)
    qed
  qed
  moreover have "map mb_id (td_memberships db') = map mb_id (td_memberships db)"
    "map (\<lambda>m. (mb_tenantId m, mb_userId m)) (td_memberships db') = map (\<lambda>m. (mb_tenantId m, mb_userId m)) (td_memberships db)"
    unfolding updated(3) by (rule map_key_cong, use updated(4) in simp)+
  ultimately show ?thesis using assms(2) new updated(1) by (simp add: members_ok_def)
next
  case (removed m)
  have dist: "distinct (map mb_id (td_memberships db))" using assms(2) by (simp add: members_ok_def)
  have "owned db' t" if t: "t \<in> fst ` set (td_tenants db)" for t
  proof -
    obtain w where w: "w \<in> set (td_memberships db)" "mb_tenantId w = t" "is_owner w"
      using assms(2) t unfolding members_ok_def owned_def by blast
    show ?thesis
    proof (cases "mb_id w = mb_id m")
      case True
      then have "w = m" using distinct_key_eq [OF dist w(1) removed(2)] by simp
      then obtain x where "x \<in> set (td_memberships db)" "mb_id x \<noteq> mb_id m" "mb_tenantId x = t" "is_owner x"
        using removed(4) w other_owner_owned by blast
      then show ?thesis unfolding owned_def removed(3) by auto
    next
      case False
      then show ?thesis using w unfolding owned_def removed(3) by auto
    qed
  qed
  then show ?thesis using assms(2) new removed(1) by (simp add: members_ok_def removed(3) distinct_map_filter)
next
  case (founded name m)
  have "(mb_tenantId m, mb_userId m) \<notin> (\<lambda>m. (mb_tenantId m, mb_userId m)) ` set (td_memberships db)"
    using assms(2) founded(2,6) by (auto simp: members_ok_def)
  moreover have "owned db' t" if "t \<in> fst ` set (td_tenants db')" for t
    using that assms(2) founded by (auto simp: members_ok_def owned_def)
  ultimately show ?thesis using assms(2) new founded by (simp add: members_ok_def)
qed

text \<open>A service whose operations have one of the effects keeps an owner in every tenant.\<close>

locale tenancy_writer =
  fixes run :: "'i \<Rightarrow> tenancy_db \<Rightarrow> tenancy_error + tenancy_db"
    and new1 :: "'i \<Rightarrow> uuid"
    and new2 :: "'i \<Rightarrow> uuid"
  assumes effect: "run x db = Inr db' \<Longrightarrow> member_effect (new1 x) (new2 x) db db'"
begin

lemma keeps_members:
  "run x db = Inr db' \<Longrightarrow> members_ok db \<Longrightarrow> (\<And>m. m \<in> set (td_memberships db') \<Longrightarrow> mb_tenantId m \<in> fst ` set (td_tenants db')) \<Longrightarrow>
     members_ok db'"
  using member_effect_keeps [OF effect] by blast

lemma members_from:
  assumes "run x db = Inr db'" "m \<in> set (td_memberships db')"
  shows "mb_id m = new1 x \<or> (\<exists>m0 \<in> set (td_memberships db). mb_id m0 = mb_id m \<and> mb_tenantId m0 = mb_tenantId m \<and> mb_userId m0 = mb_userId m)"
  using effect [OF assms(1)]
proof cases
  case (updated k f)
  from assms(2) obtain y where y: "y \<in> set (td_memberships db)" "m = (if mb_id y = mb_id k then f y else y)"
    unfolding updated(3) by auto
  then show ?thesis using updated(4) [of y] by auto
qed (use assms(2) in auto)

lemma tenants_grow: "run x db = Inr db' \<Longrightarrow> set (td_tenants db) \<subseteq> set (td_tenants db')"
  by (drule effect) (auto elim: member_effect.cases)

lemma tenant_ids: "run x db = Inr db' \<Longrightarrow> fst ` set (td_tenants db') \<subseteq> insert (new2 x) (fst ` set (td_tenants db))"
  by (drule effect) (auto elim!: member_effect.cases)

end

interpretation tenants: tenancy_writer
  "\<lambda>(lib, actor, now, i, j, token, r, rd) db. tenancy_commit lib db actor now i j token r rd"
  "\<lambda>(lib, actor, now, i, j, token, r, rd). i" "\<lambda>(lib, actor, now, i, j, token, r, rd). j"
  by unfold_locales (auto intro: commit_effect)

lemmas commit_members_ok = tenants.keeps_members [of "(lib, actor, now, i, j, token, r, rd)" for lib actor now i j token r rd, simplified]
lemmas commit_members_from = tenants.members_from [of "(lib, actor, now, i, j, token, r, rd)" for lib actor now i j token r rd, simplified]
lemmas commit_tenants_grow = tenants.tenants_grow [of "(lib, actor, now, i, j, token, r, rd)" for lib actor now i j token r rd, simplified]
lemmas commit_tenant_ids = tenants.tenant_ids [of "(lib, actor, now, i, j, token, r, rd)" for lib actor now i j token r rd, simplified]

section \<open>What a commit does to groups and invitations\<close>

lemmas commit_defs =
  createInvitation_commit_def resendInvitation_commit_def deleteInvitation_commit_def acceptInvitation_commit_def createGroup_commit_def
  updateGroup_commit_def deleteGroup_commit_def addGroupMember_commit_def removeGroupMember_commit_def assignGroupRole_commit_def
  removeGroupRole_commit_def createMembership_commit_def updateMembership_commit_def deleteMembership_commit_def createTenant_def

text \<open>The tenant of every group that has a membership as a member.\<close>

definition links :: "tenancy_db \<Rightarrow> (uuid \<times> uuid) set" where
  "links db = {(tg_tenantId g, m) | g m. g \<in> set (td_groups db) \<and> m \<in> set (tg_members g)}"

fun link_bound :: "tenancy_db \<Rightarrow> tenancy_request \<Rightarrow> (uuid \<times> uuid) set" where
  "link_bound db (AddGroupMember t g m) = links db \<union> {(tg_tenantId x, m) | x. x \<in> set (td_groups db) \<and> tg_id x = g \<and> m \<in> mb_id ` set (td_memberships db)}"
| "link_bound db (DeleteMembership t m) = {(u, k). (u, k) \<in> links db \<and> k \<noteq> m}"
| "link_bound db r = links db"

lemma in_links: "g \<in> set (td_groups db) \<Longrightarrow> m \<in> set (tg_members g) \<Longrightarrow> tg_tenantId g = t \<Longrightarrow> (t, m) \<in> links db"
  by (auto simp: links_def)

lemma links_cong: "td_groups db' = td_groups db \<Longrightarrow> links db' = links db"
  by (simp add: links_def)

lemma commit_links: "tenancy_commit lib db actor now i j token r rd = Inr db' \<Longrightarrow> links db' \<subseteq> link_bound db r"
  by (induction lib db actor now i j token r rd rule: tenancy_commit.induct)
    (auto simp: commit_defs and_then_Inr_iff drop_invitation_Inr links_def renamed_group_def drop_membership_def
      split: if_splits option.splits dest!: find_row_SomeD, (blast+)?)

lemma commit_groups:
  "tenancy_commit lib db actor now i j token r rd = Inr db' \<Longrightarrow> g \<in> set (td_groups db') \<Longrightarrow>
     tg_id g = i \<or> (\<exists>h \<in> set (td_groups db). tg_id h = tg_id g \<and> tg_tenantId h = tg_tenantId g)"
  by (induction lib db actor now i j token r rd rule: tenancy_commit.induct)
    (auto simp: commit_defs and_then_Inr_iff drop_invitation_Inr renamed_group_def drop_membership_def split: if_splits option.splits,
      (blast+)?)

lemma commit_invitations:
  "tenancy_commit lib db actor now i j token r rd = Inr db' \<Longrightarrow> v \<in> set (td_invitations db') \<Longrightarrow>
     (\<exists>w \<in> set (td_invitations db). iv_id w = iv_id v \<and> iv_tenantId w = iv_tenantId v \<and> iv_roleIds w = iv_roleIds v \<and> iv_email w = iv_email v) \<or>
     (iv_id v = i \<and> (\<exists>t e rs. r = CreateInvitation t e rs \<and> iv_tenantId v = t \<and> iv_roleIds v = rs))"
  by (induction lib db actor now i j token r rd rule: tenancy_commit.induct)
    (auto simp: commit_defs and_then_Inr_iff drop_invitation_Inr drop_membership_def resent_def update_where_table
      split: if_splits option.splits, (blast+)?)

end
