(* ===== verification/TenancySystem.thy ===== *)
theory TenancySystem
  imports TenancySafety
begin

text \<open>
  The tenants service as one machine. A request is checked (\<open>ask\<close>), waits, and commits later (\<open>commit\<close>)
  against whatever the database has become. Users, roles and identity providers change freely (\<open>others\<close>).
  The identifiers of new rows are random and were never used before (\<open>ts_used\<close>).
\<close>

section \<open>Steps\<close>

record tenancy_state =
  ts_db :: tenancy_db
  ts_used :: "uuid set"
  ts_pending :: "(tenancy_actor \<times> tenancy_request \<times> tenancy_read) list"

inductive tenancy_step :: "tenancy_lib \<Rightarrow> tenancy_state \<Rightarrow> tenancy_state \<Rightarrow> bool" for lib where
  ask: "tenancy_check lib (ts_db s) actor now r = Inr rd \<Longrightarrow>
    tenancy_step lib s (s\<lparr>ts_pending := ts_pending s @ [(actor, r, rd)]\<rparr>)"
| commit: "(actor, r, rd) \<in> set (ts_pending s) \<Longrightarrow> i \<notin> ts_used s \<Longrightarrow> j \<notin> ts_used s \<Longrightarrow> i \<noteq> j \<Longrightarrow>
    tenancy_commit lib (ts_db s) actor now i j token r rd = Inr db \<Longrightarrow>
    tenancy_step lib s (s\<lparr>ts_db := db, ts_used := {i, j} \<union> ts_used s, ts_pending := remove1 (actor, r, rd) (ts_pending s)\<rparr>)"
| others: "tenancy_step lib s (s\<lparr>ts_db := (ts_db s)\<lparr>td_users := us, td_roles := rs, td_providers := ps\<rparr>\<rparr>)"

definition tenancy_run :: "tenancy_lib \<Rightarrow> tenancy_state \<Rightarrow> tenancy_state \<Rightarrow> bool" where
  "tenancy_run lib = (tenancy_step lib)\<^sup>*\<^sup>*"

definition tenancy_start :: "tenancy_state" where
  "tenancy_start = \<lparr>ts_db = \<lparr>td_tenants = [], td_users = [], td_roles = [], td_memberships = [], td_groups = [], td_invitations = [],
     td_providers = [], td_audit = []\<rparr>, ts_used = {}, ts_pending = []\<rparr>"

section \<open>What holds in every state\<close>

text \<open>The tenants in which a waiting request may write.\<close>

fun request_tenants :: "tenancy_request \<Rightarrow> tenancy_read \<Rightarrow> uuid set" where
  "request_tenants (CreateInvitation t e rs) rd = {t}"
| "request_tenants (AcceptInvitation tk) (CheckedInvitation v) = {iv_tenantId v}"
| "request_tenants (CreateMembership t u rs) rd = {t}"
| "request_tenants r rd = {}"

text \<open>The rows a waiting request names, which keep their tenant.\<close>

definition same_tenant :: "tenancy_db \<Rightarrow> uuid \<Rightarrow> uuid \<Rightarrow> uuid \<Rightarrow> bool" where
  "same_tenant db t g m \<longleftrightarrow>
     (\<forall>x \<in> set (td_groups db). tg_id x = g \<longrightarrow> tg_tenantId x = t) \<and> (\<forall>x \<in> set (td_memberships db). mb_id x = m \<longrightarrow> mb_tenantId x = t)"

fun tenancy_request_ok :: "tenancy_state \<Rightarrow> tenancy_actor \<times> tenancy_request \<times> tenancy_read \<Rightarrow> bool" where
  "tenancy_request_ok s (actor, r, rd) \<longleftrightarrow>
     request_tenants r rd \<subseteq> fst ` set (td_tenants (ts_db s)) \<and>
     (case r of AddGroupMember t g m \<Rightarrow> g \<in> ts_used s \<and> m \<in> ts_used s \<and> same_tenant (ts_db s) t g m | _ \<Rightarrow> True) \<and>
     (case rd of CheckedInvitation v \<Rightarrow> iv_id v \<in> ts_used s | _ \<Rightarrow> True)"

definition rows_used :: "tenancy_state \<Rightarrow> bool" where
  "rows_used s \<longleftrightarrow>
     fst ` set (td_tenants (ts_db s)) \<union> mb_id ` set (td_memberships (ts_db s)) \<union> tg_id ` set (td_groups (ts_db s)) \<union>
       iv_id ` set (td_invitations (ts_db s)) \<union> snd ` links (ts_db s) \<subseteq> ts_used s"

text \<open>A member of a group belongs to the tenant of the group.\<close>

definition links_confined :: "tenancy_db \<Rightarrow> bool" where
  "links_confined db \<longleftrightarrow> (\<forall>(t, k) \<in> links db. \<forall>m \<in> set (td_memberships db). mb_id m = k \<longrightarrow> mb_tenantId m = t)"

definition tenancy_ok :: "tenancy_state \<Rightarrow> bool" where
  "tenancy_ok s \<longleftrightarrow>
     members_ok (ts_db s) \<and> rows_used s \<and> links_confined (ts_db s) \<and> distinct (map tg_id (td_groups (ts_db s))) \<and>
     iv_tenantId ` set (td_invitations (ts_db s)) \<subseteq> fst ` set (td_tenants (ts_db s)) \<and> list_all (tenancy_request_ok s) (ts_pending s)"

lemma start_ok: "tenancy_ok tenancy_start"
  by (simp add: tenancy_ok_def tenancy_start_def members_ok_def rows_used_def links_confined_def links_def)

section \<open>A check\<close>

lemma ensureTenant_Inr: "ensureTenant db t = Inr u \<longleftrightarrow> t \<in> fst ` set (td_tenants db)"
  by (simp add: ensureTenant_def)

lemma check_request_tenants:
  assumes "tenancy_check lib db actor now r = Inr rd" "iv_tenantId ` set (td_invitations db) \<subseteq> fst ` set (td_tenants db)"
  shows "request_tenants r rd \<subseteq> fst ` set (td_tenants db)"
  using assms by (cases "(r, rd)" rule: request_tenants.cases)
    (auto simp: createInvitation_check_def createMembership_check_def acceptInvitation_check_def and_then_Inr_iff ensureTenant_Inr
      dest!: find_row_SomeD)

lemma check_group_member:
  assumes "tenancy_check lib db actor now (AddGroupMember t g m) = Inr rd" "distinct (map mb_id (td_memberships db))"
    "distinct (map tg_id (td_groups db))"
  shows "g \<in> tg_id ` set (td_groups db) \<and> m \<in> mb_id ` set (td_memberships db) \<and> same_tenant db t g m"
proof -
  obtain x y where x: "findGroupOrThrow db t g = Inr x" and y: "findMembershipOrThrow db t m = Inr y"
    using assms(1) by (auto simp: groupMember_check_def and_then_Inr_iff)
  note x' = findGroup_Inr [OF x] and y' = findMembership_Inr [OF y]
  have "tg_tenantId z = t" if "z \<in> set (td_groups db)" "tg_id z = g" for z
    using distinct_key_eq [OF assms(3) that(1), of x] that(2) x' by auto
  moreover have "mb_tenantId z = t" if "z \<in> set (td_memberships db)" "mb_id z = m" for z
    using distinct_key_eq [OF assms(2) that(1), of y] that(2) y' by auto
  ultimately show ?thesis using x' y' by (auto simp: same_tenant_def)
qed

lemma check_invitation:
  "tenancy_check lib db actor now r = Inr (CheckedInvitation v) \<Longrightarrow> v \<in> set (td_invitations db)"
  by (cases r) (auto simp: resendInvitation_check_def deleteInvitation_check_def acceptInvitation_check_def and_then_Inr_iff
      dest!: find_row_SomeD findInvitation_Inr)

lemma check_tenancy_request_ok:
  assumes "tenancy_ok s" "tenancy_check lib (ts_db s) actor now r = Inr rd"
  shows "tenancy_request_ok s (actor, r, rd)"
proof -
  have "request_tenants r rd \<subseteq> fst ` set (td_tenants (ts_db s))"
    using check_request_tenants [OF assms(2)] assms(1) by (simp add: tenancy_ok_def)
  moreover have "g \<in> ts_used s \<and> m \<in> ts_used s \<and> same_tenant (ts_db s) t g m" if "r = AddGroupMember t g m" for t g m
    using check_group_member [OF assms(2) [unfolded that]] assms(1) by (auto simp: tenancy_ok_def members_ok_def rows_used_def)
  moreover have "iv_id v \<in> ts_used s" if "rd = CheckedInvitation v" for v
    using check_invitation [OF assms(2) [unfolded that]] assms(1) by (auto simp: tenancy_ok_def rows_used_def)
  ultimately show ?thesis by (simp split: tenancy_request.split tenancy_read.split)
qed

section \<open>A commit\<close>

lemma commit_member_tenants:
  "tenancy_commit lib db actor now i j token r rd = Inr db' \<Longrightarrow> m \<in> set (td_memberships db') \<Longrightarrow>
     mb_tenantId m \<in> mb_tenantId ` set (td_memberships db) \<union> fst ` set (td_tenants db') \<union> request_tenants r rd"
  by (induction lib db actor now i j token r rd rule: tenancy_commit.induct)
    (auto simp: commit_defs and_then_Inr_iff drop_invitation_Inr drop_membership_def update_where_table updated_membership_def
      new_membership_def split: if_splits option.splits)

lemma group_keys:
  assumes "\<And>x. tg_id (f x) = tg_id x"
  shows "map (tg_id \<circ> (\<lambda>x. if P x then f x else x)) xs = map tg_id xs"
  by (simp add: assms)

lemma update_group1_ids:
  assumes "\<And>x. tg_id (f x) = tg_id x"
  shows "map tg_id (td_groups (update_group1 db g f)) = map tg_id (td_groups db)"
  using assms by (simp add: group_keys)

lemma commit_group_ids:
  assumes "tenancy_commit lib db actor now i j token r rd = Inr db'" "distinct (map tg_id (td_groups db))"
  shows "distinct (map tg_id (td_groups db'))"
proof -
  have "map tg_id (td_groups db') = map tg_id (td_groups db) \<or>
      (i \<notin> tg_id ` set (td_groups db) \<and> map tg_id (td_groups db') = map tg_id (td_groups db) @ [i]) \<or>
      (\<exists>k. td_groups db' = filter (\<lambda>g. tg_id g \<noteq> k) (td_groups db))"
    using assms(1)
  proof (induction lib db actor now i j token r rd rule: tenancy_commit.induct)
    case (5 lib db actor now i j token t name d)
    then show ?case by (auto simp: createGroup_commit_def list_ex_iff split: if_splits)
  next
    case (6 lib db actor now i j token t g name d)
    then obtain f where "db' = tenancy_audit (update_group1 db g f) t actor ''tenant_group.update'' g" "f = renamed_group name d"
      by (auto simp: updateGroup_commit_def split: if_splits option.splits)
    then show ?case by (simp add: update_group1_ids renamed_group_def del: update_group1_fields(5))
  next
    case (7 lib db actor now i j token t g)
    then show ?case by (auto simp: deleteGroup_commit_def split: if_splits)
  next
    case (8 lib db actor now i j token t g m)
    then show ?case
      by (simp add: addGroupMember_commit_def split: if_splits option.splits)
        (drule sym, simp add: update_group1_ids del: update_group1_fields(5))
  next
    case (9 lib db actor now i j token t g m)
    then show ?case
      by (simp add: removeGroupMember_commit_def split: if_splits)
        (drule sym, simp add: update_group1_ids del: update_group1_fields(5))
  next
    case (10 lib db actor now i j token t g x)
    then show ?case
      by (simp add: assignGroupRole_commit_def split: if_splits option.splits)
        (drule sym, simp add: update_group1_ids del: update_group1_fields(5))
  next
    case (11 lib db actor now i j token t g x)
    then show ?case
      by (simp add: removeGroupRole_commit_def split: if_splits)
        (drule sym, simp add: update_group1_ids del: update_group1_fields(5))
  next
    case (14 lib db actor now i j token t m)
    then show ?case by (auto simp: deleteMembership_commit_def and_then_Inr_iff drop_membership_def comp_def)
  qed (auto simp: commit_defs and_then_Inr_iff drop_invitation_Inr split: if_splits)
  then show ?thesis using assms(2) by (auto simp: distinct_map_filter)
qed

lemma same_tenant_later:
  assumes "tenancy_commit lib db actor now i j token r rd = Inr db'" "same_tenant db t g m" "g \<noteq> i" "m \<noteq> i"
  shows "same_tenant db' t g m"
  using assms commit_groups [OF assms(1)] commit_members_from [OF assms(1)] unfolding same_tenant_def by metis

lemma tenancy_request_ok_later:
  assumes "tenancy_commit lib (ts_db s) actor now i j token r rd = Inr db'" "i \<notin> ts_used s" "tenancy_request_ok s p"
  shows "tenancy_request_ok (s\<lparr>ts_db := db', ts_used := {i, j} \<union> ts_used s, ts_pending := ps\<rparr>) p"
proof -
  obtain a q rq where p: "p = (a, q, rq)" by (cases p)
  have "fst ` set (td_tenants (ts_db s)) \<subseteq> fst ` set (td_tenants db')"
    using commit_tenants_grow [OF assms(1)] by (rule image_mono)
  moreover have "same_tenant db' t g m" if "same_tenant (ts_db s) t g m" "g \<in> ts_used s" "m \<in> ts_used s" for t g m
    by (rule same_tenant_later [OF assms(1) that(1)]) (use that assms(2) in auto)
  ultimately show ?thesis using assms(3) by (auto simp: p split: tenancy_request.splits tenancy_read.splits)
qed

lemma commit_links_confined:
  assumes "tenancy_commit lib (ts_db s) actor now i j token r rd = Inr db'" "i \<notin> ts_used s" "tenancy_ok s" "tenancy_request_ok s (actor, r, rd)"
  shows "links_confined db'" "snd ` links db' \<subseteq> ts_used s"
proof -
  have old: "links_confined (ts_db s)" "snd ` links (ts_db s) \<subseteq> ts_used s" "mb_id ` set (td_memberships (ts_db s)) \<subseteq> ts_used s"
    using assms(3) by (auto simp: tenancy_ok_def rows_used_def)
  have bound: "k \<in> ts_used s \<and> (\<forall>m \<in> set (td_memberships (ts_db s)). mb_id m = k \<longrightarrow> mb_tenantId m = t)" if k: "(t, k) \<in> links db'" for t k
  proof -
    consider "(t, k) \<in> links (ts_db s)" | g where "r = AddGroupMember t g k" "k \<in> ts_used s" "same_tenant (ts_db s) t g k"
      using commit_links [OF assms(1)] k assms(4) by (cases r) (auto simp: same_tenant_def)
    then show ?thesis
    proof cases
      case 1
      then show ?thesis using old(1,2) unfolding links_confined_def by force
    next
      case 2
      then show ?thesis by (simp add: same_tenant_def)
    qed
  qed
  then show "snd ` links db' \<subseteq> ts_used s" by auto
  show "links_confined db'"
    unfolding links_confined_def
  proof clarify
    fix t k m assume k: "(t, mb_id m) \<in> links db'" and m: "m \<in> set (td_memberships db')"
    show "mb_tenantId m = t" using bound [OF k] commit_members_from [OF assms(1) m] assms(2) by auto
  qed
qed

lemma commit_rows_used:
  assumes "tenancy_commit lib (ts_db s) actor now i j token r rd = Inr db'" "i \<notin> ts_used s" "tenancy_ok s" "tenancy_request_ok s (actor, r, rd)"
  shows "rows_used (s\<lparr>ts_db := db', ts_used := {i, j} \<union> ts_used s, ts_pending := ps\<rparr>)"
proof -
  have old: "fst ` set (td_tenants (ts_db s)) \<union> mb_id ` set (td_memberships (ts_db s)) \<union> tg_id ` set (td_groups (ts_db s)) \<union>
       iv_id ` set (td_invitations (ts_db s)) \<subseteq> ts_used s"
    using assms(3) by (auto simp: tenancy_ok_def rows_used_def)
  have "mb_id ` set (td_memberships db') \<subseteq> insert i (ts_used s)" using commit_members_from [OF assms(1)] old by force
  moreover have "tg_id ` set (td_groups db') \<subseteq> insert i (ts_used s)" using commit_groups [OF assms(1)] old by force
  moreover have "iv_id ` set (td_invitations db') \<subseteq> insert i (ts_used s)" using commit_invitations [OF assms(1)] old by force
  moreover have "fst ` set (td_tenants db') \<subseteq> insert j (ts_used s)" using commit_tenant_ids [OF assms(1)] old by blast
  ultimately show ?thesis using commit_links_confined(2) [OF assms] by (auto simp: rows_used_def)
qed

lemma tenancy_commit_ok:
  assumes "(actor, r, rd) \<in> set (ts_pending s)" "i \<notin> ts_used s"
    "tenancy_commit lib (ts_db s) actor now i j token r rd = Inr db'" "tenancy_ok s"
  shows "tenancy_ok (s\<lparr>ts_db := db', ts_used := {i, j} \<union> ts_used s, ts_pending := remove1 (actor, r, rd) (ts_pending s)\<rparr>)"
proof -
  note c = assms(3)
  have rok: "tenancy_request_ok s (actor, r, rd)" using assms(1,4) unfolding tenancy_ok_def list_all_iff by blast
  have grow: "fst ` set (td_tenants (ts_db s)) \<subseteq> fst ` set (td_tenants db')"
    using commit_tenants_grow [OF c] by (rule image_mono)
  have members: "members_ok (ts_db s)" using assms(4) by (simp add: tenancy_ok_def)
  have old_tenants: "mb_tenantId ` set (td_memberships (ts_db s)) \<subseteq> fst ` set (td_tenants (ts_db s))"
    using members unfolding members_ok_def by blast
  have req: "request_tenants r rd \<subseteq> fst ` set (td_tenants db')" using rok grow by auto
  have "members_ok db'"
    by (rule commit_members_ok [OF c members]) (use commit_member_tenants [OF c] old_tenants grow req in blast)
  moreover have "distinct (map tg_id (td_groups db'))"
    using commit_group_ids [OF c] assms(4) by (simp add: tenancy_ok_def)
  moreover have "iv_tenantId v \<in> fst ` set (td_tenants db')" if iv: "v \<in> set (td_invitations db')" for v
  proof -
    consider w where "w \<in> set (td_invitations (ts_db s))" "iv_tenantId w = iv_tenantId v" | e rs where "r = CreateInvitation (iv_tenantId v) e rs"
      using commit_invitations [OF c iv] by blast
    then show ?thesis
    proof cases
      case 1
      have "iv_tenantId w \<in> iv_tenantId ` set (td_invitations (ts_db s))" using 1(1) by (rule imageI)
      moreover have "iv_tenantId ` set (td_invitations (ts_db s)) \<subseteq> fst ` set (td_tenants (ts_db s))"
        using assms(4) by (simp add: tenancy_ok_def)
      ultimately show ?thesis using grow 1(2) by auto
    qed (use req in auto)
  qed
  moreover have "list_all (tenancy_request_ok (s\<lparr>ts_db := db', ts_used := {i, j} \<union> ts_used s, ts_pending := ps\<rparr>)) (remove1 (actor, r, rd) (ts_pending s))" for ps
    using assms(4) tenancy_request_ok_later [OF c assms(2)] by (auto simp only: tenancy_ok_def list_all_iff dest: notin_set_remove1 set_mp [OF set_remove1_subset])
  ultimately show ?thesis
    using commit_rows_used [OF c assms(2,4) rok] commit_links_confined(1) [OF c assms(2,4) rok] unfolding tenancy_ok_def by auto
qed

lemma others_ok: "tenancy_ok s \<Longrightarrow> tenancy_ok (s\<lparr>ts_db := (ts_db s)\<lparr>td_users := us, td_roles := rs, td_providers := ps\<rparr>\<rparr>)"
proof -
  assume ok: "tenancy_ok s"
  have "tenancy_request_ok (s\<lparr>ts_db := (ts_db s)\<lparr>td_users := us, td_roles := rs, td_providers := ps\<rparr>\<rparr>) p = tenancy_request_ok s p" for p
  proof -
    obtain a q rq where p: "p = (a, q, rq)" by (cases p)
    show ?thesis by (cases q; cases rq) (simp_all add: p same_tenant_def)
  qed
  then show ?thesis
    using ok by (simp add: tenancy_ok_def members_ok_def owned_def rows_used_def links_def links_confined_def list_all_iff)
qed

lemma step_ok: "tenancy_step lib s s' \<Longrightarrow> tenancy_ok s \<Longrightarrow> tenancy_ok s'"
proof (induction rule: tenancy_step.induct)
  case (ask s actor now r rd)
  have same: "tenancy_request_ok (s\<lparr>ts_pending := ps\<rparr>) p = tenancy_request_ok s p" for ps p
  proof -
    obtain a q rq where p: "p = (a, q, rq)" by (cases p)
    show ?thesis by (cases q; cases rq) (simp_all add: p)
  qed
  show ?case
    using ask(2) check_tenancy_request_ok [OF ask(2,1)] same by (simp add: tenancy_ok_def rows_used_def list_all_iff)
next
  case (commit actor r rd s i j now token db)
  then show ?case by (blast intro: tenancy_commit_ok)
next
  case (others s us rs ps)
  then show ?case by (rule others_ok)
qed

lemma run_ok: "tenancy_run lib s s' \<Longrightarrow> tenancy_ok s \<Longrightarrow> tenancy_ok s'"
  unfolding tenancy_run_def by (induction rule: rtranclp_induct) (auto intro: step_ok)

section \<open>Rows between two states of a run\<close>

lemma run_used: "tenancy_run lib s s' \<Longrightarrow> ts_used s \<subseteq> ts_used s'"
  unfolding tenancy_run_def by (induction rule: rtranclp_induct) (auto elim!: tenancy_step.cases)

lemma run_groups:
  assumes "tenancy_run lib s s'" "h \<in> set (td_groups (ts_db s'))" "tg_id h \<in> ts_used s"
  shows "\<exists>g \<in> set (td_groups (ts_db s)). tg_id g = tg_id h \<and> tg_tenantId g = tg_tenantId h"
  using assms unfolding tenancy_run_def
proof (induction arbitrary: h rule: rtranclp_induct)
  case (step s1 s2)
  have used: "tg_id h \<in> ts_used s1" using run_used [unfolded tenancy_run_def, OF step(1)] step(5) by blast
  obtain h1 where "h1 \<in> set (td_groups (ts_db s1))" "tg_id h1 = tg_id h" "tg_tenantId h1 = tg_tenantId h"
    using step(2)
  proof cases
    case (commit actor r rd i j now token db)
    then show ?thesis using commit_groups [of lib "ts_db s1" actor now i j token r rd db h] step(4) used that by auto
  qed (use step(4) that in auto)
  then show ?case using step(3) [of h1] step(5) by auto
qed auto

lemma run_invitations:
  assumes "tenancy_run lib s s'" "v \<in> set (td_invitations (ts_db s'))" "iv_id v \<in> ts_used s"
  shows "iv_id v \<in> iv_id ` set (td_invitations (ts_db s))"
  using assms unfolding tenancy_run_def
proof (induction arbitrary: v rule: rtranclp_induct)
  case (step s1 s2)
  have used: "iv_id v \<in> ts_used s1" using run_used [unfolded tenancy_run_def, OF step(1)] step(5) by blast
  obtain w where "w \<in> set (td_invitations (ts_db s1))" "iv_id w = iv_id v"
    using step(2)
  proof cases
    case (commit actor r rd i j now token db)
    then show ?thesis using commit_invitations [of lib "ts_db s1" actor now i j token r rd db v] step(4) used that by auto
  qed (use step(4) that in auto)
  then show ?case using step(3) [of w] step(5) by auto
qed auto

section \<open>Runs played event by event\<close>

datatype tenancy_event =
    Ask tenancy_actor millis tenancy_request
  | Commit nat millis uuid uuid string
  | Others "tenancy_user list" "role_row list" "oidc_provider list"

fun play1 :: "tenancy_lib \<Rightarrow> tenancy_event \<Rightarrow> tenancy_state \<Rightarrow> tenancy_state option" where
  "play1 lib (Ask actor now r) s =
     (case tenancy_check lib (ts_db s) actor now r of
        Inl e \<Rightarrow> None
      | Inr rd \<Rightarrow> Some (s\<lparr>ts_pending := ts_pending s @ [(actor, r, rd)]\<rparr>))"
| "play1 lib (Commit n now i j token) s =
     (if n < length (ts_pending s) \<and> i \<notin> ts_used s \<and> j \<notin> ts_used s \<and> i \<noteq> j
      then
        (case ts_pending s ! n of (actor, r, rd) \<Rightarrow>
           (case tenancy_commit lib (ts_db s) actor now i j token r rd of
              Inl e \<Rightarrow> None
            | Inr db \<Rightarrow> Some (s\<lparr>ts_db := db, ts_used := {i, j} \<union> ts_used s, ts_pending := remove1 (actor, r, rd) (ts_pending s)\<rparr>)))
      else None)"
| "play1 lib (Others us rs ps) s = Some (s\<lparr>ts_db := (ts_db s)\<lparr>td_users := us, td_roles := rs, td_providers := ps\<rparr>\<rparr>)"

fun play :: "tenancy_lib \<Rightarrow> tenancy_event list \<Rightarrow> tenancy_state \<Rightarrow> tenancy_state option" where
  "play lib [] s = Some s"
| "play lib (e # es) s = (case play1 lib e s of None \<Rightarrow> None | Some s' \<Rightarrow> play lib es s')"

lemmas step_commit = tenancy_step.commit [simplified]

lemma play1_step: "play1 lib e s = Some s' \<Longrightarrow> tenancy_step lib s s'"
proof (cases e)
  case (Commit n now i j token)
  moreover assume "play1 lib e s = Some s'"
  ultimately show ?thesis
    by (auto split: if_splits prod.splits sum.splits intro!: step_commit) (metis nth_mem)
qed (auto split: sum.splits intro: tenancy_step.intros)

lemma play_run: "play lib es s = Some s' \<Longrightarrow> tenancy_run lib s s'"
  unfolding tenancy_run_def
  by (induction es arbitrary: s) (auto split: option.splits intro: converse_rtranclp_into_rtranclp play1_step)

definition played :: "tenancy_lib \<Rightarrow> tenancy_event list \<Rightarrow> tenancy_state \<Rightarrow> tenancy_state" where
  "played lib es s = (case play lib es s of None \<Rightarrow> s | Some s' \<Rightarrow> s')"

lemma played_run: "tenancy_run lib s (played lib es s)"
proof (cases "play lib es s")
  case None
  then show ?thesis by (simp add: played_def tenancy_run_def)
next
  case (Some s')
  then show ?thesis using play_run by (simp add: played_def)
qed

end
