(* ===== verification/TenancyGrants.thy ===== *)
theory TenancyGrants
  imports TenancySystem
begin

text \<open>
  Where the Owner role comes from, and what the role tables give to a request: the lemmas behind
  the properties of \<open>TenancyProperties\<close>.
\<close>

section \<open>Grants of the Owner role\<close>

datatype owner_grant = ToMember uuid uuid | ToGroup uuid uuid | ToInvitation uuid uuid

fun grant_tenant :: "owner_grant \<Rightarrow> uuid" where
  "grant_tenant (ToMember t u) = t"
| "grant_tenant (ToGroup t g) = t"
| "grant_tenant (ToInvitation t i) = t"

definition owner_grants :: "tenancy_db \<Rightarrow> owner_grant set" where
  "owner_grants db = set
     (map (\<lambda>m. ToMember (mb_tenantId m) (mb_userId m)) (filter (\<lambda>m. TENANT_OWNER_ROLE_ID \<in> set (mb_roles m)) (td_memberships db)) @
      map (\<lambda>g. ToGroup (tg_tenantId g) (tg_id g)) (filter (\<lambda>g. TENANT_OWNER_ROLE_ID \<in> set (tg_roles g)) (td_groups db)) @
      map (\<lambda>v. ToInvitation (iv_tenantId v) (iv_id v)) (filter (\<lambda>v. TENANT_OWNER_ROLE_ID \<in> set (iv_roleIds v)) (td_invitations db)))"

fun request_grants :: "tenancy_db \<Rightarrow> tenancy_actor \<Rightarrow> uuid \<Rightarrow> uuid \<Rightarrow> tenancy_request \<Rightarrow> tenancy_read \<Rightarrow> owner_grant set" where
  "request_grants db actor i j (CreateInvitation t e rs) rd = (if TENANT_OWNER_ROLE_ID \<in> set rs then {ToInvitation t i} else {})"
| "request_grants db actor i j (AcceptInvitation tk) (CheckedInvitation v) =
     (if TENANT_OWNER_ROLE_ID \<in> set (iv_roleIds v) then {ToMember (iv_tenantId v) (ta_id actor)} else {})"
| "request_grants db actor i j (AssignGroupRole t g r) rd =
     (if r = TENANT_OWNER_ROLE_ID then {ToGroup (tg_tenantId x) (tg_id x) | x. x \<in> set (td_groups db) \<and> tg_id x = g} else {})"
| "request_grants db actor i j (CreateMembership t u rs) rd = (if TENANT_OWNER_ROLE_ID \<in> set rs then {ToMember t u} else {})"
| "request_grants db actor i j (UpdateMembership t k (Some rs) st) rd =
     (if TENANT_OWNER_ROLE_ID \<in> set rs
      then {ToMember (mb_tenantId x) (mb_userId x) | x. x \<in> set (td_memberships db) \<and> mb_id x = k \<and> k \<in> mb_id ` {m \<in> set (td_memberships db). mb_tenantId m = t}}
      else {})"
| "request_grants db actor i j (CreateTenant name) rd = {ToMember j (ta_id actor)}"
| "request_grants db actor i j r rd = {}"

lemma commit_member_grants:
  "tenancy_commit lib db actor now i j token r rd = Inr db' \<Longrightarrow> m' \<in> set (td_memberships db') \<Longrightarrow> TENANT_OWNER_ROLE_ID \<in> set (mb_roles m') \<Longrightarrow>
     (\<exists>m \<in> set (td_memberships db). mb_tenantId m = mb_tenantId m' \<and> mb_userId m = mb_userId m' \<and> TENANT_OWNER_ROLE_ID \<in> set (mb_roles m)) \<or>
     ToMember (mb_tenantId m') (mb_userId m') \<in> request_grants db actor i j r rd"
proof (induction lib db actor now i j token r rd rule: tenancy_commit.induct)
  case (13 lib db actor now i j token t k rs st)
  then obtain m where m: "m \<in> set (td_memberships db)" "mb_id m = k" "mb_tenantId m = t"
    and db': "td_memberships db' = map (\<lambda>x. if mb_id x = k then updated_membership rs st x else x) (td_memberships db)"
    by (auto simp: updateMembership_commit_def and_then_Inr_iff update_where_table dest!: findMembership_Inr)
  have k: "k \<in> mb_id ` {m \<in> set (td_memberships db). mb_tenantId m = t}" using m by auto
  from 13(2) obtain x where x: "x \<in> set (td_memberships db)" "m' = (if mb_id x = k then updated_membership rs st x else x)"
    unfolding db' by auto
  show ?case using x k 13(3) by (cases rs) (auto simp: updated_membership_def split: if_splits)
qed (auto simp: commit_defs and_then_Inr_iff drop_invitation_Inr new_membership_def drop_membership_def split: if_splits option.splits)

lemma commit_group_grants:
  "tenancy_commit lib db actor now i j token r rd = Inr db' \<Longrightarrow> h \<in> set (td_groups db') \<Longrightarrow> TENANT_OWNER_ROLE_ID \<in> set (tg_roles h) \<Longrightarrow>
     (\<exists>g \<in> set (td_groups db). tg_tenantId g = tg_tenantId h \<and> tg_id g = tg_id h \<and> TENANT_OWNER_ROLE_ID \<in> set (tg_roles g)) \<or>
     ToGroup (tg_tenantId h) (tg_id h) \<in> request_grants db actor i j r rd"
  by (induction lib db actor now i j token r rd rule: tenancy_commit.induct)
    (auto simp: commit_defs and_then_Inr_iff drop_invitation_Inr renamed_group_def drop_membership_def split: if_splits option.splits, (blast+)?)

lemma owner_grantsI:
  "m \<in> set (td_memberships db) \<Longrightarrow> TENANT_OWNER_ROLE_ID \<in> set (mb_roles m) \<Longrightarrow> ToMember (mb_tenantId m) (mb_userId m) \<in> owner_grants db"
  "g \<in> set (td_groups db) \<Longrightarrow> TENANT_OWNER_ROLE_ID \<in> set (tg_roles g) \<Longrightarrow> ToGroup (tg_tenantId g) (tg_id g) \<in> owner_grants db"
  "v \<in> set (td_invitations db) \<Longrightarrow> TENANT_OWNER_ROLE_ID \<in> set (iv_roleIds v) \<Longrightarrow> ToInvitation (iv_tenantId v) (iv_id v) \<in> owner_grants db"
  by (auto simp: owner_grants_def)

lemma commit_invitation_grants:
  assumes "tenancy_commit lib db actor now i j token r rd = Inr db'" "v \<in> set (td_invitations db')" "TENANT_OWNER_ROLE_ID \<in> set (iv_roleIds v)"
  shows "(\<exists>w \<in> set (td_invitations db). iv_tenantId w = iv_tenantId v \<and> iv_id w = iv_id v \<and> TENANT_OWNER_ROLE_ID \<in> set (iv_roleIds w)) \<or>
     ToInvitation (iv_tenantId v) (iv_id v) \<in> request_grants db actor i j r rd"
  using commit_invitations [OF assms(1,2)] assms(3) by auto

lemma commit_grants:
  assumes "tenancy_commit lib db actor now i j token r rd = Inr db'"
  shows "owner_grants db' \<subseteq> owner_grants db \<union> request_grants db actor i j r rd"
proof
  fix x assume "x \<in> owner_grants db'"
  then consider m where "m \<in> set (td_memberships db')" "TENANT_OWNER_ROLE_ID \<in> set (mb_roles m)" "x = ToMember (mb_tenantId m) (mb_userId m)"
    | g where "g \<in> set (td_groups db')" "TENANT_OWNER_ROLE_ID \<in> set (tg_roles g)" "x = ToGroup (tg_tenantId g) (tg_id g)"
    | v where "v \<in> set (td_invitations db')" "TENANT_OWNER_ROLE_ID \<in> set (iv_roleIds v)" "x = ToInvitation (iv_tenantId v) (iv_id v)"
    by (auto simp: owner_grants_def)
  then show "x \<in> owner_grants db \<union> request_grants db actor i j r rd"
  proof cases
    case 1
    show ?thesis using commit_member_grants [OF assms 1(1,2)] owner_grantsI [of _ db] unfolding 1(3) by (metis UnI1 UnI2)
  next
    case 2
    show ?thesis using commit_group_grants [OF assms 2(1,2)] owner_grantsI [of _ db] unfolding 2(3) by (metis UnI1 UnI2)
  next
    case 3
    show ?thesis using commit_invitation_grants [OF assms 3(1,2)] owner_grantsI [of _ db] unfolding 3(3) by (metis UnI1 UnI2)
  qed
qed

definition active_owner :: "tenancy_db \<Rightarrow> uuid \<Rightarrow> tenancy_actor \<Rightarrow> bool" where
  "active_owner db tenantId actor \<longleftrightarrow>
     (\<exists>m \<in> set (td_memberships db). mb_tenantId m = tenantId \<and> mb_userId m = ta_id actor \<and> is_owner m)"

lemma ownerRoleChange_Inr:
  "assertOwnerRoleChangeAllowed db t actor rs = Inr u \<Longrightarrow> TENANT_OWNER_ROLE_ID \<in> set rs \<Longrightarrow> active_owner db t actor"
  by (auto simp: assertOwnerRoleChangeAllowed_def active_owner_def is_owner_def membership_of_def split: if_splits option.splits
      dest!: head_opt_filter_Some)

lemma check_defs_owner:
  "createInvitation_check db actor t e rs = Inr e' \<Longrightarrow> TENANT_OWNER_ROLE_ID \<in> set rs \<Longrightarrow> active_owner db t actor"
  "assignGroupRole_check db actor t g r = Inr u \<Longrightarrow> r = TENANT_OWNER_ROLE_ID \<Longrightarrow> active_owner db t actor"
  "createMembership_check db actor t w rs = Inr u \<Longrightarrow> TENANT_OWNER_ROLE_ID \<in> set rs \<Longrightarrow> active_owner db t actor"
  "updateMembership_check db actor t k (Some rs) = Inr u \<Longrightarrow> TENANT_OWNER_ROLE_ID \<in> set rs \<Longrightarrow> active_owner db t actor"
  by (auto simp: createInvitation_check_def assignGroupRole_check_def createMembership_check_def updateMembership_check_def and_then_Inr_iff
      dest: ownerRoleChange_Inr)

text \<open>The group of a role assignment keeps its tenant until the commit.\<close>

lemma group_keeps_tenant:
  assumes "tenancy_ok s" "tenancy_run lib s s'" "findGroupOrThrow (ts_db s) t g = Inr x" "h \<in> set (td_groups (ts_db s'))" "tg_id h = g"
  shows "tg_tenantId h = t"
proof -
  note x = findGroup_Inr [OF assms(3)]
  have "g \<in> ts_used s" using x assms(1) by (auto simp: tenancy_ok_def rows_used_def)
  then obtain y where "y \<in> set (td_groups (ts_db s))" "tg_id y = g" "tg_tenantId y = tg_tenantId h"
    using run_groups [OF assms(2,4)] assms(5) by auto
  then show ?thesis using distinct_key_eq [of tg_id "td_groups (ts_db s)" y x] x assms(1) by (auto simp: tenancy_ok_def)
qed

lemma request_grants_owner:
  assumes "tenancy_ok s" "tenancy_check lib (ts_db s) actor now r = Inr rd" "tenancy_run lib s s'"
    "x \<in> request_grants (ts_db s') actor i j r rd" "distinct (map mb_id (td_memberships (ts_db s')))"
  shows "active_owner (ts_db s) (grant_tenant x) actor \<or>
     (\<exists>tk v. r = AcceptInvitation tk \<and> v \<in> set (td_invitations (ts_db s)) \<and> TENANT_OWNER_ROLE_ID \<in> set (iv_roleIds v) \<and>
        x = ToMember (iv_tenantId v) (ta_id actor)) \<or>
     (\<exists>name. r = CreateTenant name \<and> x = ToMember j (ta_id actor))"
proof (cases r)
  case (AcceptInvitation tk)
  with assms(4) obtain v where v: "rd = CheckedInvitation v" "TENANT_OWNER_ROLE_ID \<in> set (iv_roleIds v)"
      "x = ToMember (iv_tenantId v) (ta_id actor)"
    by (cases rd) (auto split: if_splits)
  then show ?thesis using check_invitation [OF assms(2) [unfolded v(1)]] AcceptInvitation by blast
next
  case (AssignGroupRole t g role)
  then obtain y where y: "assignGroupRole_check (ts_db s) actor t g role = Inr y" using assms(2) by auto
  then obtain z where "findGroupOrThrow (ts_db s) t g = Inr z" by (auto simp: assignGroupRole_check_def and_then_Inr_iff)
  then show ?thesis using group_keeps_tenant [OF assms(1,3)] check_defs_owner(2) [OF y] assms(4) AssignGroupRole by (auto split: if_splits)
next
  case (UpdateMembership t k rs st)
  then show ?thesis
    using assms(2,4) check_defs_owner(4) distinct_key_eq [OF assms(5)] by (cases rs) (auto split: if_splits, metis)
qed (use assms(2,4) check_defs_owner in \<open>auto split: if_splits\<close>)

section \<open>Permissions\<close>

text \<open>What a role table gives: a permission of its own, or all of them.\<close>

definition role_grants :: "tenancy_db \<Rightarrow> string \<Rightarrow> string \<Rightarrow> bool" where
  "role_grants db roleId p \<longleftrightarrow> p \<in> set (role_permissions db roleId) \<or> ''*'' \<in> set (role_permissions db roleId)"

definition may :: "tenancy_db \<Rightarrow> uuid \<Rightarrow> uuid \<Rightarrow> string \<Rightarrow> bool" where
  "may db tenantId userId p \<longleftrightarrow>
     (\<exists>m \<in> set (td_memberships db). mb_tenantId m = tenantId \<and> mb_userId m = userId \<and> mb_status m = ''Active'' \<and>
       ((\<exists>r \<in> set (mb_roles m). role_grants db r p) \<or>
        (\<exists>g \<in> set (td_groups db). tg_tenantId g = tenantId \<and> mb_id m \<in> set (tg_members g) \<and> (\<exists>r \<in> set (tg_roles g). role_grants db r p))))"

lemma membership_permissions_may:
  assumes "p \<in> set (membership_permissions db m) \<or> ''*'' \<in> set (membership_permissions db m)" "links_confined db"
    "m \<in> set (td_memberships db)" "mb_status m = ''Active''"
  shows "may db (mb_tenantId m) (mb_userId m) p"
proof -
  consider r where "r \<in> set (mb_roles m)" "role_grants db r p"
    | g r where "g \<in> set (td_groups db)" "mb_id m \<in> set (tg_members g)" "r \<in> set (tg_roles g)" "role_grants db r p"
    using assms(1) by (auto simp: membership_permissions_def role_grants_def)
  then show ?thesis
  proof cases
    case 2
    then have "(tg_tenantId g, mb_id m) \<in> links db" by (auto simp: links_def)
    then have "tg_tenantId g = mb_tenantId m" using assms(2,3) unfolding links_confined_def by fast
    then show ?thesis using 2 assms(3,4) unfolding may_def by blast
  qed (use assms(3,4) in \<open>auto simp: may_def\<close>)
qed

lemma context_of_user:
  assumes "tenantContext_canActivate db acc request = Inr (Some c)" "aq_service request = None" "aq_user request = Some (userId, idp)"
    "aq_tenantId request = Some tenantId"
  obtains m where "m \<in> set (td_memberships db)" "mb_tenantId m = tenantId" "mb_userId m = userId" "mb_status m = ''Active''"
    "tc_permissions c = membership_permissions db m"
  using assms by (auto simp: tenantContext_canActivate_def and_then_Inr_iff Let_def membership_of_def split: if_splits option.splits
      dest!: head_opt_filter_Some)

lemma permissions_Inr:
  "permissions_canActivate request c = Inr b \<Longrightarrow> p \<in> set (aq_required request) \<Longrightarrow>
     \<exists>ctx. c = Some ctx \<and> (p \<in> set (tc_permissions ctx) \<or> ''*'' \<in> set (tc_permissions ctx))"
  by (auto simp: permissions_canActivate_def list_all_iff split: if_splits option.splits)

lemma admitted_may:
  assumes "admitted db acc request = Inr b" "aq_service request = None" "aq_user request = Some (userId, idp)"
    "aq_tenantId request = Some tenantId" "p \<in> set (aq_required request)" "links_confined db"
  shows "may db tenantId userId p"
proof -
  obtain c where c: "tenantContext_canActivate db acc request = Inr c" "permissions_canActivate request c = Inr b"
    using assms(1) by (auto simp: admitted_def and_then_Inr_iff)
  obtain ctx where ctx: "c = Some ctx" "p \<in> set (tc_permissions ctx) \<or> ''*'' \<in> set (tc_permissions ctx)"
    using permissions_Inr [OF c(2) assms(5)] by auto
  obtain m where "m \<in> set (td_memberships db)" "mb_tenantId m = tenantId" "mb_userId m = userId" "mb_status m = ''Active''"
      "tc_permissions ctx = membership_permissions db m"
    using context_of_user [OF c(1) [unfolded ctx(1)] assms(2-4)] by metis
  then show ?thesis using membership_permissions_may [of p db m] ctx(2) assms(6) by auto
qed

lemma context_of_service:
  assumes "tenantContext_canActivate db acc request = Inr (Some c)" "aq_service request = Some si"
  shows "aq_tenantId request = Some (si_tenantId si) \<and> si_status si = ''Active'' \<and> tc_permissions c = service_permissions db acc (si_id si)"
  using assms by (cases "aq_tenantId request") (auto simp: tenantContext_canActivate_def activateServiceIdentityContext_def Let_def split: if_splits)

lemma service_permissions_role:
  "p \<in> set (service_permissions db acc i) \<or> ''*'' \<in> set (service_permissions db acc i) \<Longrightarrow>
     \<exists>r. (i, r) \<in> set (at_serviceRoles acc) \<and> role_grants db r p"
  by (auto simp: service_permissions_def role_grants_def)

lemma admitted_context:
  assumes "admitted db acc request = Inr b" "p \<in> set (aq_required request)"
  obtains ctx where "tenantContext_canActivate db acc request = Inr (Some ctx)" "p \<in> set (tc_permissions ctx) \<or> ''*'' \<in> set (tc_permissions ctx)"
proof -
  obtain c where c: "tenantContext_canActivate db acc request = Inr c" "permissions_canActivate request c = Inr b"
    using assms(1) by (auto simp: admitted_def and_then_Inr_iff)
  then show thesis using permissions_Inr [OF c(2) assms(2)] that by auto
qed

lemma admitted_service:
  assumes "admitted db acc request = Inr b" "aq_service request = Some si" "p \<in> set (aq_required request)"
  shows "aq_tenantId request = Some (si_tenantId si) \<and> si_status si = ''Active'' \<and>
    (\<exists>r. (si_id si, r) \<in> set (at_serviceRoles acc) \<and> role_grants db r p)"
proof -
  obtain ctx where "tenantContext_canActivate db acc request = Inr (Some ctx)" "p \<in> set (tc_permissions ctx) \<or> ''*'' \<in> set (tc_permissions ctx)"
    using admitted_context [OF assms(1,3)] by blast
  then show ?thesis using context_of_service [OF _ assms(2)] service_permissions_role [of p db acc "si_id si"] by auto
qed

lemma admitted_user:
  assumes "admitted db acc request = Inr b" "aq_service request = None" "p \<in> set (aq_required request)"
  shows "\<exists>tenantId userId idp. aq_tenantId request = Some tenantId \<and> aq_user request = Some (userId, idp)"
proof -
  obtain ctx where "tenantContext_canActivate db acc request = Inr (Some ctx)" using admitted_context [OF assms(1,3)] by blast
  then show ?thesis using assms(2)
    by (cases "aq_tenantId request") (auto simp: tenantContext_canActivate_def Let_def split: if_splits option.splits)
qed

text \<open>When a policy leaves only the providers of the tenant.\<close>

lemma tenant_only_policy:
  assumes "find_row py_tenantId tenantId (at_policies acc) = Some policy"
    and "py_requireTenantIdentityProvider policy \<or> \<not> py_allowPlatformLogin policy"
  shows "assertTenantProviderPolicy acc tenantId idp = Inr () \<longleftrightarrow>
    at_nativeOnly acc \<or> py_allowTenantIdentityProviders policy \<and>
      (\<exists>i. idp = Some i \<and> i \<noteq> '''' \<and> has_provider (at_providers acc) False (Some tenantId) i)"
  using assms by (cases idp) (auto simp: assertTenantProviderPolicy_def Let_def split: if_splits list.splits)

end
