(* ===== verification/TenancyProperties.thy ===== *)
theory TenancyProperties
  imports TenancyGrants
begin

text \<open>
  Properties of members, groups, invitations and access of a tenant, over every interleaving of requests,
  with a run from the empty database as witness of each.
\<close>

section \<open>A sample\<close>

definition tn_lib :: tenancy_lib where
  "tn_lib = \<lparr>tl_hash = (\<lambda>s. ''h:'' @ s), tl_week_later = (\<lambda>t. t + 604800000), tl_revoke = (\<lambda>t u. None)\<rparr>"

definition tn_ann :: tenancy_actor where
  "tn_ann = \<lparr>ta_id = ''ann'', ta_email = ''ann@x.io'', ta_status = ''Active''\<rparr>"

definition tn_bob :: tenancy_actor where
  "tn_bob = \<lparr>ta_id = ''bob'', ta_email = ''Bob@x.io'', ta_status = ''Active''\<rparr>"

definition tn_roles :: "role_row list" where
  "tn_roles =
     [\<lparr>ro_id = ''tenant-owner'', ro_permissions = [''*'']\<rparr>,
      \<lparr>ro_id = ''tenant-admin'', ro_permissions = [''membership.invite'', ''group.member.manage'']\<rparr>]"

text \<open>Ann founds a tenant and invites Bob as an administrator.\<close>

definition tn_invited :: "tenancy_event list" where
  "tn_invited =
     [Others [\<lparr>tu_id = ''ann'', tu_email = ''ann@x.io''\<rparr>, \<lparr>tu_id = ''bob'', tu_email = ''bob@x.io''\<rparr>] tn_roles [],
      Ask tn_ann 0 (CreateTenant ''acme''), Commit 0 1 ''m1'' ''t1'' '''',
      Ask tn_ann 2 (CreateInvitation ''t1'' '' bob@X.io'' [''tenant-admin'']), Commit 0 3 ''i1'' ''j1'' ''token'']"

definition tn_s1 :: tenancy_state where
  "tn_s1 = played tn_lib tn_invited tenancy_start"

text \<open>Bob accepts twice: two requests wait.\<close>

definition tn_s2 :: tenancy_state where
  "tn_s2 = played tn_lib [Ask tn_bob 4 (AcceptInvitation ''token''), Ask tn_bob 5 (AcceptInvitation ''token'')] tn_s1"

text \<open>The first one commits; Ann gives the Owner role to a group.\<close>

definition tn_s3 :: tenancy_state where
  "tn_s3 = played tn_lib [Commit 0 6 ''m2'' ''j2'' ''''] tn_s2"

definition tn_s4 :: tenancy_state where
  "tn_s4 = played tn_lib
     [Ask tn_ann 7 (CreateGroup ''t1'' ''staff'' None), Commit 1 8 ''g1'' ''j3'' '''',
      Ask tn_ann 9 (AssignGroupRole ''t1'' ''g1'' ''tenant-owner''), Commit 1 10 ''i4'' ''j4'' ''''] tn_s3"

text \<open>Bob adds himself to that group.\<close>

definition tn_s5 :: tenancy_state where
  "tn_s5 = played tn_lib [Ask tn_bob 11 (AddGroupMember ''t1'' ''g1'' ''m2''), Commit 1 12 ''i5'' ''j5'' ''''] tn_s4"

lemmas tn_defs = tn_s1_def tn_s2_def tn_s3_def tn_s4_def tn_s5_def tn_lib_def tn_ann_def tn_bob_def tn_roles_def tn_invited_def

lemma tn_runs:
  "tenancy_run tn_lib tenancy_start tn_s1" "tenancy_run tn_lib tn_s1 tn_s2" "tenancy_run tn_lib tn_s2 tn_s3" "tenancy_run tn_lib tn_s3 tn_s4"
  "tenancy_run tn_lib tn_s4 tn_s5"
  unfolding tn_s1_def tn_s2_def tn_s3_def tn_s4_def tn_s5_def by (rule played_run)+

lemma run_trans: "tenancy_run lib s1 s2 \<Longrightarrow> tenancy_run lib s2 s3 \<Longrightarrow> tenancy_run lib s1 s3"
  unfolding tenancy_run_def by (rule rtranclp_trans)

lemmas tn_run_s2 = run_trans [OF tn_runs(1,2)]
lemmas tn_run_s3 = run_trans [OF tn_run_s2 tn_runs(3)]
lemmas tn_run_s4 = run_trans [OF tn_run_s3 tn_runs(4)]
lemmas tn_run_s5 = run_trans [OF tn_run_s4 tn_runs(5)]

lemma tn_s5_tenants: "''t1'' \<in> fst ` set (td_tenants (ts_db tn_s5))"
  by code_simp

section \<open>Owners\<close>

text \<open>C5. Whatever requests run and however their checks and commits interleave (invitations accepted, members
  updated, suspended and removed, tenants founded), every tenant has at every moment an active member with the
  Owner role.\<close>

theorem tenant_always_has_owner:
  assumes "tenancy_run lib tenancy_start s" "t \<in> fst ` set (td_tenants (ts_db s))"
  shows "owned (ts_db s) t"
  using run_ok [OF assms(1) start_ok] assms(2) unfolding tenancy_ok_def members_ok_def by blast

theorem tenant_always_has_owner_witness: "owned (ts_db tn_s5) ''t1''"
  by (rule tenant_always_has_owner [OF tn_run_s5 tn_s5_tenants])

text \<open>C6. Nobody but an owner hands out the Owner role: when the commit of a request gives the role to a member, a
  group or an invitation, the actor was an active owner of that tenant when the request was checked, or accepts
  an invitation that carries the role, or founds the tenant.\<close>

theorem owner_role_comes_from_owners:
  assumes "tenancy_run lib tenancy_start s0" "tenancy_check lib (ts_db s0) actor now0 r = Inr rd" "tenancy_run lib s0 s1"
    "tenancy_commit lib (ts_db s1) actor now i j token r rd = Inr db" "x \<in> owner_grants db - owner_grants (ts_db s1)"
  shows "active_owner (ts_db s0) (grant_tenant x) actor \<or>
     (\<exists>tk v. r = AcceptInvitation tk \<and> v \<in> set (td_invitations (ts_db s0)) \<and> TENANT_OWNER_ROLE_ID \<in> set (iv_roleIds v) \<and>
        x = ToMember (iv_tenantId v) (ta_id actor)) \<or>
     (\<exists>name. r = CreateTenant name \<and> x = ToMember j (ta_id actor))"
proof (rule request_grants_owner [OF _ assms(2,3)])
  show ok: "tenancy_ok s0" by (rule run_ok [OF assms(1) start_ok])
  show "x \<in> request_grants (ts_db s1) actor i j r rd" using commit_grants [OF assms(4)] assms(5) by blast
  show "distinct (map mb_id (td_memberships (ts_db s1)))" using run_ok [OF assms(3) ok] by (simp add: tenancy_ok_def members_ok_def)
qed

text \<open>An owner invites another one while Bob joins the group.\<close>

definition tn_owner_invitation :: "tenancy_error + tenancy_db" where
  "tn_owner_invitation =
     tenancy_commit tn_lib (ts_db tn_s5) tn_ann 20 ''i9'' ''j9'' ''tk9'' (CreateInvitation ''t1'' ''eve@x.io'' [''tenant-owner'']) (CheckedEmail ''eve@x.io'')"

lemma tn_owner_invited:
  "tenancy_check tn_lib (ts_db tn_s3) tn_ann 6 (CreateInvitation ''t1'' ''eve@x.io'' [''tenant-owner'']) = Inr (CheckedEmail ''eve@x.io'')"
  "\<not> isl tn_owner_invitation"
  "ToInvitation ''t1'' ''i9'' \<in> owner_grants (projr tn_owner_invitation) - owner_grants (ts_db tn_s5)"
  by code_simp+

theorem owner_role_comes_from_owners_witness: "active_owner (ts_db tn_s3) ''t1'' tn_ann"
  using owner_role_comes_from_owners [OF tn_run_s3 tn_owner_invited(1) run_trans [OF tn_runs(4,5)] _ tn_owner_invited(3)]
    tn_owner_invited(2) by (simp add: tn_owner_invitation_def sum.collapse(2))

text \<open>C7. Access stays within the tenant: in every run, a request that is admitted to a route requiring a permission
  names a tenant, and comes either from a user who is an active member of that tenant with a role that has the
  permission (or all of them), given to him or to a group of that same tenant, or from a service identity that
  belongs to that tenant, is active and has such a role of its own.\<close>

theorem access_stays_within_tenant:
  assumes "tenancy_run lib tenancy_start s" "admitted (ts_db s) acc request = Inr b" "p \<in> set (aq_required request)"
  shows "\<exists>tenantId. aq_tenantId request = Some tenantId \<and>
    (case aq_service request of
       None \<Rightarrow> (\<exists>userId idp. aq_user request = Some (userId, idp) \<and> may (ts_db s) tenantId userId p)
     | Some si \<Rightarrow> si_tenantId si = tenantId \<and> si_status si = ''Active'' \<and>
         (\<exists>r. (si_id si, r) \<in> set (at_serviceRoles acc) \<and> role_grants (ts_db s) r p))"
proof (cases "aq_service request")
  case None
  obtain tenantId userId idp where u: "aq_tenantId request = Some tenantId" "aq_user request = Some (userId, idp)"
    using admitted_user [OF assms(2) None assms(3)] by blast
  have "links_confined (ts_db s)" using run_ok [OF assms(1) start_ok] by (simp add: tenancy_ok_def)
  from admitted_may [OF assms(2) None u(2,1) assms(3) this] show ?thesis using u None by simp
qed (use admitted_service [OF assms(2) _ assms(3)] in auto)

definition tn_acc :: access_tables where
  "tn_acc = \<lparr>at_policies = [], at_providers = [], at_serviceRoles = [], at_nativeOnly = False\<rparr>"

definition tn_request :: access_request where
  "tn_request = \<lparr>aq_url = ''/api/tenants/t1'', aq_tenantId = Some ''t1'', aq_required = [''billing.admin''],
     aq_user = Some (''bob'', None), aq_service = None\<rparr>"

lemma tn_admitted: "admitted (ts_db tn_s5) tn_acc tn_request = Inr True"
  by code_simp

theorem access_stays_within_tenant_witness: "may (ts_db tn_s5) ''t1'' ''bob'' ''billing.admin''"
  using access_stays_within_tenant [OF tn_run_s5 tn_admitted, of "''billing.admin''"] by (simp add: tn_request_def)

text \<open>The Owner role through a group: Bob, an administrator who is no owner, may not touch Owner roles, yet he may add
  himself to a group that has the role, and then every permission is his.\<close>

lemma administrator_joins_owner_group:
  "\<not> active_owner (ts_db tn_s4) ''t1'' tn_bob \<and>
   assignGroupRole_check (ts_db tn_s4) tn_bob ''t1'' ''g1'' ''tenant-owner'' = Inl (TenantForbidden ''Only an active tenant owner can manage Owner roles'') \<and>
   admitted (ts_db tn_s4) tn_acc tn_request = Inl ''Missing required permissions'' \<and>
   admitted (ts_db tn_s4) tn_acc (tn_request\<lparr>aq_required := [''group.member.manage'']\<rparr>) = Inr True \<and>
   admitted (ts_db tn_s5) tn_acc tn_request = Inr True"
  by code_simp

text \<open>C21. An invitation admits its addressee alone: the commit adds one active member, the actor, with the roles of
  the invitation, and deletes it; the actor's e-mail address is the invited one, the token is its token and it had
  not expired when it was checked.\<close>

theorem invitation_admits_its_addressee:
  assumes "acceptInvitation_check lib db0 actor now token = Inr v" "acceptInvitation_commit db1 actor i v = Inr db2"
  shows "v \<in> set (td_invitations db0) \<and> iv_tokenHash v = tl_hash lib token \<and> now < iv_expiresAt v \<and>
     normalizeEmail (ta_email actor) = iv_email v \<and> ta_status actor = ''Active'' \<and>
     td_memberships db2 = td_memberships db1 @ [new_membership i (iv_tenantId v) (ta_id actor) (iv_roleIds v) (iv_createdBy v)] \<and>
     td_invitations db2 = filter (\<lambda>w. iv_id w \<noteq> iv_id v) (td_invitations db1)"
  using assms by (auto simp: acceptInvitation_check_def acceptInvitation_commit_def and_then_Inr_iff drop_invitation_Inr split: if_splits
      dest: find_row_SomeD)

definition tn_v :: invitation where
  "tn_v = \<lparr>iv_id = ''i1'', iv_tenantId = ''t1'', iv_email = ''bob@x.io'', iv_tokenHash = ''h:token'', iv_roleIds = [''tenant-admin''],
     iv_expiresAt = 604800003, iv_lastSentAt = 3, iv_createdBy = ''ann''\<rparr>"

lemma tn_accepts:
  "acceptInvitation_check tn_lib (ts_db tn_s1) tn_bob 4 ''token'' = Inr tn_v" "\<not> isl (acceptInvitation_commit (ts_db tn_s2) tn_bob ''m2'' tn_v)"
  by code_simp+

theorem invitation_admits_its_addressee_witness: "tn_v \<in> set (td_invitations (ts_db tn_s1))"
  using invitation_admits_its_addressee [OF tn_accepts(1) sum.collapse(2) [OF tn_accepts(2), symmetric]] by blast

text \<open>C20. An invitation is accepted at most once: after one acceptance commits, no other that was checked before or
  after ever does, whatever happens in between.\<close>

theorem invitation_accepted_once:
  assumes "tenancy_run lib tenancy_start s" "(actor, AcceptInvitation tk, CheckedInvitation v) \<in> set (ts_pending s)"
    "i \<notin> ts_used s" "j \<notin> ts_used s" "i \<noteq> j" "acceptInvitation_commit (ts_db s) actor i v = Inr db"
    "tenancy_run lib (s\<lparr>ts_db := db, ts_used := {i, j} \<union> ts_used s,
       ts_pending := remove1 (actor, AcceptInvitation tk, CheckedInvitation v) (ts_pending s)\<rparr>) s'"
    "iv_id v' = iv_id v"
  shows "\<exists>e. acceptInvitation_commit (ts_db s') actor' i' v' = Inl e"
proof -
  have "tenancy_request_ok s (actor, AcceptInvitation tk, CheckedInvitation v)"
    using run_ok [OF assms(1) start_ok] assms(2) unfolding tenancy_ok_def list_all_iff by blast
  then have used: "iv_id v \<in> ts_used s" by simp
  have gone: "iv_id v \<notin> iv_id ` set (td_invitations db)"
    using assms(6) by (auto simp: acceptInvitation_commit_def drop_invitation_Inr split: if_splits)
  have "iv_id v' \<notin> iv_id ` set (td_invitations (ts_db s'))"
  proof
    assume "iv_id v' \<in> iv_id ` set (td_invitations (ts_db s'))"
    then obtain w where w: "w \<in> set (td_invitations (ts_db s'))" "iv_id w = iv_id v" using assms(8) by auto
    show False using run_invitations [OF assms(7) w(1)] w(2) used gone by simp
  qed
  then show ?thesis by (auto simp: acceptInvitation_commit_def drop_invitation_def)
qed

text \<open>The state after the first acceptance, and a later one.\<close>

definition tn_t3 :: tenancy_state where
  "tn_t3 = tn_s2\<lparr>ts_db := projr (acceptInvitation_commit (ts_db tn_s2) tn_bob ''m2'' tn_v), ts_used := {''m2'', ''j2''} \<union> ts_used tn_s2,
     ts_pending := remove1 (tn_bob, AcceptInvitation ''token'', CheckedInvitation tn_v) (ts_pending tn_s2)\<rparr>"

definition tn_t4 :: tenancy_state where
  "tn_t4 = played tn_lib [Ask tn_ann 7 (CreateInvitation ''t1'' ''eve@x.io'' []), Commit 1 8 ''i7'' ''j7'' ''other''] tn_t3"

lemma tn_waiting:
  "(tn_bob, AcceptInvitation ''token'', CheckedInvitation tn_v) \<in> set (ts_pending tn_s2)" "''m2'' \<notin> ts_used tn_s2" "''j2'' \<notin> ts_used tn_s2"
  by code_simp+

lemma tn_t4_run:
  "tenancy_run tn_lib (tn_s2\<lparr>ts_db := projr (acceptInvitation_commit (ts_db tn_s2) tn_bob ''m2'' tn_v), ts_used := {''m2'', ''j2''} \<union> ts_used tn_s2,
     ts_pending := remove1 (tn_bob, AcceptInvitation ''token'', CheckedInvitation tn_v) (ts_pending tn_s2)\<rparr>) tn_t4"
  unfolding tn_t4_def tn_t3_def by (rule played_run)

theorem invitation_accepted_once_witness: "\<exists>e. acceptInvitation_commit (ts_db tn_t4) tn_bob ''m9'' tn_v = Inl e"
proof -
  have new: "''m2'' \<noteq> ''j2''" by simp
  show ?thesis
    by (rule invitation_accepted_once [OF tn_run_s2 tn_waiting new sum.collapse(2) [OF tn_accepts(2), symmetric] tn_t4_run refl])
qed

section \<open>The identity provider of a tenant\<close>

text \<open>C22. When the policy of a tenant requires its own identity provider, or forbids the login of the platform, a user
  gets a context of the tenant, on a route that names it and is not its MCP endpoint, exactly when he is an active member with permissions and either native-only login
  mode is on, which retires such policies, or tenant providers are allowed and his login was verified by an
  enabled provider of that very tenant.\<close>

theorem required_provider_is_used:
  assumes "aq_service request = None" "aq_user request = Some (userId, idp)" "aq_tenantId request = Some tenantId"
    "find_row py_tenantId tenantId (at_policies acc) = Some policy"
    "py_requireTenantIdentityProvider policy \<or> \<not> py_allowPlatformLogin policy"
  shows "(\<exists>c. tenantContext_canActivate db acc request = Inr (Some c)) \<longleftrightarrow>
    tenantId \<noteq> '''' \<and> \<not> isTenantMcpRequest (aq_url request) \<and>
    (\<exists>m. membership_of db tenantId userId = Some m \<and> mb_status m = ''Active'' \<and> membership_permissions db m \<noteq> []) \<and>
    (at_nativeOnly acc \<or> py_allowTenantIdentityProviders policy \<and>
       (\<exists>i. idp = Some i \<and> i \<noteq> '''' \<and> has_provider (at_providers acc) False (Some tenantId) i))"
  unfolding tenant_only_policy [OF assms(4,5), symmetric] using assms(1-3)
  by (auto simp: tenantContext_canActivate_def and_then_Inr_iff Let_def split: option.splits)

definition tn_strict :: access_tables where
  "tn_strict =
     \<lparr>at_policies = [\<lparr>py_tenantId = ''t1'', py_requireTenantIdentityProvider = True, py_allowPlatformLogin = True,
         py_allowTenantIdentityProviders = True\<rparr>],
      at_providers = [\<lparr>ip_platform = False, ip_tenantId = Some ''t1'', ip_enabled = True, ip_zitadelId = ''idp-1''\<rparr>],
      at_serviceRoles = [], at_nativeOnly = False\<rparr>"

lemma tn_strict_context:
  "tenantContext_canActivate (ts_db tn_s5) tn_strict (tn_request\<lparr>aq_user := Some (''bob'', Some ''idp-1'')\<rparr>) =
     Inr (Some \<lparr>tc_tenantId = ''t1'', tc_membershipId = Some ''m2'', tc_serviceIdentityId = None,
       tc_permissions = [''membership.invite'', ''group.member.manage'', ''*'']\<rparr>)"
  "tenantContext_canActivate (ts_db tn_s5) tn_strict tn_request = Inl ''This tenant requires a verified tenant identity provider''"
  "find_row py_tenantId ''t1'' (at_policies tn_strict) =
     Some \<lparr>py_tenantId = ''t1'', py_requireTenantIdentityProvider = True, py_allowPlatformLogin = True, py_allowTenantIdentityProviders = True\<rparr>"
  by code_simp+

theorem required_provider_is_used_witness: "has_provider (at_providers tn_strict) False (Some ''t1'') ''idp-1''"
  using required_provider_is_used [of "tn_request\<lparr>aq_user := Some (''bob'', Some ''idp-1'')\<rparr>", OF _ _ _ tn_strict_context(3), of "''bob''" "Some ''idp-1''" "ts_db tn_s5"]
    tn_strict_context(1) by (simp add: tn_request_def) (simp add: tn_strict_def)

end
