(* ===== verification/Spec2Isabelle.thy ===== *)
theory Spec2Isabelle
  imports OperationsQueue OperationsService OperationsPass OperationRetry CapacityReservation AddressAllocation EgressOutage
    DeploymentProperties LanProperties GateProperties BillingProperties TenancyProperties
begin

text \<open>
  A verification development for the control plane of resourcePortal
  (\<open>packages/resourceportal-api/src\<close>; the paths below are relative to it). The control plane lets
  tenants run container stacks on a Docker Swarm: requests become durable operations in a PostgreSQL
  queue, workers execute them, a deployment is admitted against the capacity of the platform, applied
  to Docker and observed until it has converged, and network addresses and firewall rules keep tenants
  apart. Every theory models one of these parts, in the order of its source file.

  \<^bold>\<open>Operations.\<close> \<open>OperationTypes\<close> has the rows and DTOs of \<open>operations/operation.types.ts\<close>;
  \<open>OperationsRepository\<close> the statements of \<open>operations/operations.repository.ts\<close>, each a guarded update
  of a table (\<open>Table\<close>); \<open>OperationRetry\<close> the back-off and the reading of a thrown value
  (\<open>operation-retry.ts\<close>); \<open>OperationsService\<close> what tenants and the platform may ask for
  (\<open>operations.service.ts\<close>, \<open>operation-event-bus.ts\<close>); \<open>OperationsWorker\<close> a worker pass
  (\<open>operations-worker.service.ts\<close>, \<open>operation-executor-registry.ts\<close>). \<open>OperationsQueue\<close> composes the
  statements into the step relation \<open>queue_step\<close>, whose reachable states satisfy the queue invariant;
  the properties of leases, attempts and finality are invariants of it, and every change a worker pass makes
  is a step of it. \<open>OperationsPass\<close> has an abstract pass on the rows alone (\<open>worker_pass\<close>), with its own
  reading of thrown values and back-off, and shows that \<open>processNext\<close> refines it.

  \<^bold>\<open>Deployments.\<close> \<open>Deployments\<close> has the rows, leases, phases and artifacts of
  \<open>internal/deployment-execution.service.ts\<close> and \<open>internal/deployment-artifact.ts\<close>,
  \<open>DeploymentExecution\<close> its handlers that call Docker (\<open>advanceDeployment\<close>, \<open>applyRenderedStack\<close>,
  \<open>waitForRollout\<close> as \<open>waitForDeployment\<close>, the automatic rollback), \<open>DeploymentRecovery\<close> the claim and
  recovery of \<open>internal/deployment-recovery.service.ts\<close> and the executor
  \<open>operations/executors/deployment-operation.executor.ts\<close>. \<open>DeploymentSafety\<close> has the contract
  \<open>deployment_rows\<close>: a property of rows that every assignment keeps is kept by a whole execution; it is
  interpreted for finished rows and for the frame of an execution. \<open>DeploymentOutcome\<close> shows that a
  terminal row that is returned is the stored one, \<open>DeploymentProperties\<close> has the properties. \<open>Rollout\<close>
  models \<open>internal/stack-rollout.service.ts\<close> and \<open>app-groups/runtime-drift.ts\<close>; the handlers call its
  polling loop and its check of removed GPU services on what Docker answers (\<open>dk_rollout\<close>,
  \<open>dk_gpu_tasks\<close>). The runtime observation after a completed rollout is left out.

  \<^bold>\<open>Capacity.\<close> \<open>CapacityLogic\<close>, \<open>CapacityPolicy\<close>, \<open>CapacityHybrid\<close>, \<open>CapacityTelemetry\<close> and
  \<open>CapacityPreflight\<close> model the files of the same names under \<open>capacity/\<close> (and
  \<open>capacity-deployment-admission.service.ts\<close>); \<open>CapacityHybridSafety\<close> and \<open>CapacityReservation\<close> hold
  what they guarantee: bounds of predictions and node admissions, and reservations that successive
  admissions share.

  \<^bold>\<open>Networks.\<close> \<open>NetworkAddressing\<close> models \<open>networking/network-addressing.ts\<close> on 32-bit words,
  \<open>AddressAllocation\<close> its allocators. \<open>EgressGuard\<close> models \<open>network-egress/egress-guard.logic.ts\<close>,
  \<open>EgressOutage\<close> what \<open>egress-guard.runner.ts\<close> does while the policy is missing.

  \<^bold>\<open>Gates and remote LANs.\<close> A gate is a site's end of a WireGuard tunnel; a LAN attachment bridges one
  application to the LAN behind a gate. \<open>Gates\<close> has the rows and the tenant's operations on gates
  (\<open>createGate\<close>, \<open>createGateEnrollment\<close>, \<open>revokeGate\<close>, \<open>enrollGate\<close> of
  \<open>networking/networking.service.ts\<close>), \<open>GateAgents\<close> what an agent asks for (\<open>authenticateGateAgent\<close>,
  \<open>gateAgentConfig\<close>, \<open>gateHeartbeat\<close>) and the pass over the gates of
  \<open>networking/gate-runtime-reconciler.service.ts\<close>. \<open>RemoteLan\<close> has the decisions of
  \<open>networking/remote-lan-addressing.ts\<close> and \<open>remote-lan-activation-proof.ts\<close>, \<open>LanAttachments\<close> the
  requests of \<open>remote-lan-attachment.service.ts\<close>, \<open>LanLifecycle\<close> the passes of
  \<open>remote-lan-lifecycle.service.ts\<close> and the node reports of \<open>remote-lan-proof-logs.ts\<close>. A request is split
  into what it reads and what it commits; \<open>GateSafety\<close> and \<open>LanSafety\<close> let any number of requests be
  between the two, as step relations (\<open>gate_step\<close>, \<open>lan_step\<close>) with an invariant each, whose updates share
  the locales \<open>gate_update\<close>, \<open>lan_update\<close> and \<open>lan_status_update\<close>. \<open>LanEvidence\<close> says what a validated pair
  of proofs guarantees, \<open>LanSamples\<close> has a run from the request to the revocation; \<open>GateProperties\<close> and
  \<open>LanProperties\<close> have the properties: what revocation guarantees in every run, that an enrollment token
  is used once, that only proven attachments are active.

  \<^bold>\<open>Billing.\<close> \<open>BillingMath\<close> has the pure decisions of \<open>billing/\<close> (\<open>billing-math.ts\<close>,
  \<open>billing-policy.ts\<close>, \<open>billing-worker.logic.ts\<close>, \<open>billing-preflight.ts\<close>,
  \<open>deployed-compute-allocation.ts\<close>), \<open>Billing\<close> the tables and transactions of \<open>billing.service.ts\<close> and
  \<open>billing-usage.service.ts\<close>, \<open>BotBilling\<close> those of \<open>resource-bot/resource-bot-billing.service.ts\<close>,
  \<open>BillingWorker\<close> the minute worker and the preflight guard. Credits are rational numbers; the decimal
  library and the \<open>numeric(24, 8)\<close> columns are the parameter \<open>decimal_lib\<close>, of which \<open>decimal_lib_ok\<close> says
  what is relied on (two instances satisfy it, \<open>BillingRounding\<close>). \<open>BillingSafety\<close> has the ledger
  invariant and the locale \<open>ledger_writer\<close>, the contract of everything that posts to it;
  \<open>BillingLedger\<close> makes the requests of all services one machine (\<open>billing_request\<close>, \<open>perform\<close>) and
  interprets the contract for it; \<open>BillingInvariants\<close> has what is charged and redeemed once, and the runs
  (\<open>billing_run\<close>); \<open>BillingCatchUp\<close> specifies the usage records a pass of the worker leaves;
  \<open>BillingProperties\<close> has the properties. The clock is read once per transaction; reasons,
  actors and the payload of audit entries are left out.

  \<^bold>\<open>Tenants and access.\<close> \<open>Tenancy\<close> has the members, groups and invitations of \<open>tenants/tenants.service.ts\<close>,
  each request split into its checks and its transaction; \<open>TenantAccess\<close> the guards of a tenant route
  (\<open>auth/tenant-context.guard.ts\<close>, \<open>permissions.guard.ts\<close>, \<open>tenant-provider-policy.ts\<close>,
  \<open>platform-admin.guard.ts\<close>) over the same tables. \<open>TenancySafety\<close> says what a transaction does to the
  memberships (\<open>member_effect\<close>, the contract of the locale \<open>tenancy_writer\<close>), groups and invitations;
  \<open>TenancySystem\<close> lets any number of requests wait between check and commit (\<open>tenancy_step\<close>) and has the
  invariant of all runs (\<open>tenancy_ok\<close>): identifiers are never reused, members of a group belong to its
  tenant, every tenant has an owner. \<open>TenancyGrants\<close> traces the Owner role to its source and permissions
  to roles; \<open>TenancyProperties\<close> has the properties. SHA-256, the date a week later and the revocation of
  a grant at the identity provider are parameters (\<open>tenancy_lib\<close>).

  \<^bold>\<open>Shared.\<close> \<open>Prelude\<close> (lists, options, results, decimal texts, JavaScript maps and sorting), \<open>Table\<close>
  (guarded updates and the locale \<open>row_update\<close>, interpreted by every repository statement), \<open>Json\<close>
  (canonical JSON), \<open>JsNumerals\<close> and \<open>JsStrings\<close> (the library functions of JavaScript the code calls),
  \<open>Dates\<close> (ISO time stamps).

  \<^bold>\<open>Conventions.\<close> A handler is a function of the database, the time and its arguments and returns
  the database and a result; a thrown exception is the left summand. One statement or transaction is one
  function, so its atomicity is that of PostgreSQL; handlers that wait for something take what happens
  meanwhile as an argument (\<open>dk_during\<close> and the steps \<open>queue_step\<close> during an execution). Times are
  integer milliseconds, \<open>bigint\<close> is \<open>int\<close>, IPv4 addresses are \<open>32 word\<close>, JavaScript numbers are exact
  where the code keeps them in the safe range (the bound is an assumption where it matters) and rationals
  in the memory predictions. Loops that need not end are \<open>partial_function\<close>s with an own termination
  theorem (\<open>rollout_terminates\<close>); all other functions are total. Docker, the stack renderer, SHA-256,
  \<open>JSON.parse\<close> of observed texts, \<open>Date.parse\<close> outside ISO texts, \<open>localeCompare\<close>, random tokens and the
  clock are parameters. A list the code keeps as a \<open>Map\<close> or \<open>Set\<close> is an association list or a list.

  \<^bold>\<open>Not modelled.\<close> HTTP controllers, DTO validation, the verification of credentials, mail, storage back-ends and
  the web interface; the profile, branding, quotas and sign-in settings of a tenant; application groups and
  their snapshots, domains, the MCP servers and the identity-provider integration, which are mostly database
  queries and calls to external services; the SQL text and the wake-up of workers; the checks of \<open>validateDeploymentSnapshot\<close>
  (a parameter of \<open>advanceDeployment\<close>) and the rendering of a stack; the splitting of the node agents'
  logs into markers; interleavings between two
  statements of one handler without a call to Docker between them, except in \<open>claimDeploymentById\<close>.
\<close>

end
